(* ===== verification/Py_Prelude.thy ===== *)
theory Py_Prelude
  imports Complex_Main "HOL-Library.AList"
begin

text \<open>
  Shared vocabulary of the development: the Python exceptions the middleware raises and
  catches, programs as state-passing functions that either return or raise, a small
  Hoare calculus for them, insertion-ordered dictionaries as association lists, and the
  string operations the sources use.

  A Python function that mutates an object and may raise is a function
  \<open>state \<Rightarrow> (exc + result) \<times> state\<close>: the state comes back in both cases, because a Python
  exception does not undo the mutations made before it. A Python \<open>dict\<close> is an
  association list updated with \<open>AList.update\<close>, which overwrites an existing key in place
  and appends a new one, exactly the insertion order Python guarantees.
\<close>

named_theorems wp
  \<open>Hoare rules for programs, applied backwards\<close>

subsection \<open>Exceptions\<close>

datatype exc_class =
    CommandCapabilityDisabled | CommandConflict | CommandNotFound
  | PolicyDenied | SafetyDenied | KernelSaturated | ReplayNotAllowed
  | KnownSafeRetryError | UnknownOutcomeError | CircuitOpen | BulkheadFull
  | AdapterRegistryError | AdapterConfigurationError | AuthorizationError
  | StorageError | ReplayConflict | ReconciliationError | EventLedgerIntegrityError
  | ValueError | TypeError | KeyError | RuntimeError | TimeoutError
  | HttpxConnectError | HttpxConnectTimeout | HttpxReadTimeout | HttpxWriteTimeout
  | HttpxPoolTimeout | HttpxRemoteProtocolError | HttpxReadError | HttpxWriteError
  | HttpxTransportError | OtherException string

text \<open>An exception instance: its class and \<open>str(exc)\<close>.\<close>

datatype exc = Exc (exc_class: exc_class) (exc_text: string)

text \<open>\<open>type(exc).__name__\<close> of an exception.\<close>

fun exc_class_name :: "exc_class \<Rightarrow> string" where
  "exc_class_name CommandCapabilityDisabled = ''CommandCapabilityDisabled''"
| "exc_class_name CommandConflict = ''CommandConflict''"
| "exc_class_name CommandNotFound = ''CommandNotFound''"
| "exc_class_name PolicyDenied = ''PolicyDenied''"
| "exc_class_name SafetyDenied = ''SafetyDenied''"
| "exc_class_name KernelSaturated = ''KernelSaturated''"
| "exc_class_name ReplayNotAllowed = ''ReplayNotAllowed''"
| "exc_class_name KnownSafeRetryError = ''KnownSafeRetryError''"
| "exc_class_name UnknownOutcomeError = ''UnknownOutcomeError''"
| "exc_class_name CircuitOpen = ''CircuitOpen''"
| "exc_class_name BulkheadFull = ''BulkheadFull''"
| "exc_class_name AdapterRegistryError = ''AdapterRegistryError''"
| "exc_class_name AdapterConfigurationError = ''AdapterConfigurationError''"
| "exc_class_name AuthorizationError = ''AuthorizationError''"
| "exc_class_name StorageError = ''StorageError''"
| "exc_class_name ReplayConflict = ''ReplayConflict''"
| "exc_class_name ReconciliationError = ''ReconciliationError''"
| "exc_class_name EventLedgerIntegrityError = ''EventLedgerIntegrityError''"
| "exc_class_name ValueError = ''ValueError''"
| "exc_class_name TypeError = ''TypeError''"
| "exc_class_name KeyError = ''KeyError''"
| "exc_class_name RuntimeError = ''RuntimeError''"
| "exc_class_name TimeoutError = ''TimeoutError''"
| "exc_class_name HttpxConnectError = ''ConnectError''"
| "exc_class_name HttpxConnectTimeout = ''ConnectTimeout''"
| "exc_class_name HttpxReadTimeout = ''ReadTimeout''"
| "exc_class_name HttpxWriteTimeout = ''WriteTimeout''"
| "exc_class_name HttpxPoolTimeout = ''PoolTimeout''"
| "exc_class_name HttpxRemoteProtocolError = ''RemoteProtocolError''"
| "exc_class_name HttpxReadError = ''ReadError''"
| "exc_class_name HttpxWriteError = ''WriteError''"
| "exc_class_name HttpxTransportError = ''TransportError''"
| "exc_class_name (OtherException n) = n"

definition exc_name :: "exc \<Rightarrow> string" where
  "exc_name e = exc_class_name (exc_class e)"

subsection \<open>Programs over a state\<close>

type_synonym ('s, 'a) prog = "'s \<Rightarrow> (exc + 'a) \<times> 's"

definition retE :: "'a \<Rightarrow> ('s, 'a) prog" where
  "retE a = (\<lambda>s. (Inr a, s))"

definition raiseE :: "exc_class \<Rightarrow> string \<Rightarrow> ('s, 'a) prog" where
  "raiseE c msg = (\<lambda>s. (Inl (Exc c msg), s))"

definition bindE :: "('s, 'a) prog \<Rightarrow> ('a \<Rightarrow> ('s, 'b) prog) \<Rightarrow> ('s, 'b) prog" where
  "bindE m f = (\<lambda>s. case m s of (Inl e, s') \<Rightarrow> (Inl e, s') | (Inr a, s') \<Rightarrow> f a s')"

definition thenE :: "('s, 'a) prog \<Rightarrow> ('s, 'b) prog \<Rightarrow> ('s, 'b) prog" where
  "thenE m k = bindE m (\<lambda>_. k)"

definition getsE :: "('s \<Rightarrow> 'a) \<Rightarrow> ('s, 'a) prog" where
  "getsE f = (\<lambda>s. (Inr (f s), s))"

definition modifyE :: "('s \<Rightarrow> 's) \<Rightarrow> ('s, unit) prog" where
  "modifyE f = (\<lambda>s. (Inr (), f s))"

text \<open>\<open>try: m except ...: h\<close>; the handler sees the exception and the state it left.\<close>

definition catchE :: "('s, 'a) prog \<Rightarrow> (exc \<Rightarrow> ('s, 'a) prog) \<Rightarrow> ('s, 'a) prog" where
  "catchE m h = (\<lambda>s. case m s of (Inl e, s') \<Rightarrow> h e s' | (Inr a, s') \<Rightarrow> (Inr a, s'))"

definition reraiseE :: "exc \<Rightarrow> ('s, 'a) prog" where
  "reraiseE e = (\<lambda>s. (Inl e, s))"

text \<open>A program on one field of a larger state.\<close>

definition zoomE :: "('s \<Rightarrow> 't) \<Rightarrow> ('t \<Rightarrow> 's \<Rightarrow> 's) \<Rightarrow> ('t, 'a) prog \<Rightarrow> ('s, 'a) prog" where
  "zoomE gt pt m = (\<lambda>s. case m (gt s) of (r, t) \<Rightarrow> (r, pt t s))"

text \<open>A value computed without touching the state, as a program.\<close>

definition liftE :: "exc + 'a \<Rightarrow> ('s, 'a) prog" where
  "liftE r = (case r of Inl e \<Rightarrow> reraiseE e | Inr a \<Rightarrow> retE a)"

lemmas prog_defs = retE_def raiseE_def bindE_def thenE_def getsE_def modifyE_def
  catchE_def reraiseE_def zoomE_def

lemma liftE_Inr: "liftE r x = (Inr a, x') \<longleftrightarrow> r = Inr a \<and> x' = x"
  by (auto simp: liftE_def prog_defs split: sum.splits)

lemma liftE_run: "liftE r x = (r, x)"
  by (cases r) (simp_all add: liftE_def prog_defs)

subsection \<open>Partial correctness triples with an exceptional postcondition\<close>

definition hoare :: "('s \<Rightarrow> bool) \<Rightarrow> ('s, 'a) prog \<Rightarrow> ('a \<Rightarrow> 's \<Rightarrow> bool) \<Rightarrow> (exc \<Rightarrow> 's \<Rightarrow> bool) \<Rightarrow> bool" where
  "hoare P m Q E \<longleftrightarrow>
     (\<forall>s. P s \<longrightarrow> (case m s of (Inl e, s') \<Rightarrow> E e s' | (Inr a, s') \<Rightarrow> Q a s'))"

text \<open>Every program here terminates, so a triple speaks about the one outcome there is.\<close>

lemma hoareD_ret: "hoare P m Q E \<Longrightarrow> P s \<Longrightarrow> m s = (Inr a, s') \<Longrightarrow> Q a s'"
  by (fastforce simp: hoare_def)

lemma hoareD_exc: "hoare P m Q E \<Longrightarrow> P s \<Longrightarrow> m s = (Inl e, s') \<Longrightarrow> E e s'"
  by (fastforce simp: hoare_def)

lemma hoareI:
  assumes "\<And>s a s'. P s \<Longrightarrow> m s = (Inr a, s') \<Longrightarrow> Q a s'"
    and "\<And>s e s'. P s \<Longrightarrow> m s = (Inl e, s') \<Longrightarrow> E e s'"
  shows "hoare P m Q E"
  using assms by (fastforce simp: hoare_def split: prod.splits sum.splits)

lemma hoare_weaken:
  assumes "hoare P' m Q' E'" and "\<And>s. P s \<Longrightarrow> P' s"
    and "\<And>a s. Q' a s \<Longrightarrow> Q a s" and "\<And>e s. E' e s \<Longrightarrow> E e s"
  shows "hoare P m Q E"
  using assms by (fastforce simp: hoare_def split: prod.splits sum.splits)

lemma hoare_pre: "hoare P' m Q E \<Longrightarrow> (\<And>s. P s \<Longrightarrow> P' s) \<Longrightarrow> hoare P m Q E"
  by (simp add: hoare_def)

lemma hoare_ret [wp]: "hoare (Q a) (retE a) Q E"
  by (simp add: hoare_def retE_def)

lemma hoare_raise [wp]: "hoare (E (Exc c msg)) (raiseE c msg) Q E"
  by (simp add: hoare_def raiseE_def)

lemma hoare_reraise [wp]: "hoare (E e) (reraiseE e) Q E"
  by (simp add: hoare_def reraiseE_def)

lemma hoare_gets [wp]: "hoare (\<lambda>s. Q (f s) s) (getsE f) Q E"
  by (simp add: hoare_def getsE_def)

lemma hoare_modify [wp]: "hoare (\<lambda>s. Q () (f s)) (modifyE f) Q E"
  by (simp add: hoare_def modifyE_def)

lemma hoare_bind [wp]:
  assumes "\<And>a. hoare (R a) (f a) Q E" and "hoare P m R E"
  shows "hoare P (bindE m f) Q E"
  using assms by (fastforce simp: hoare_def bindE_def split: prod.splits sum.splits)

lemma hoare_then [wp]:
  assumes "hoare R k Q E" and "hoare P m (\<lambda>_. R) E"
  shows "hoare P (thenE m k) Q E"
  unfolding thenE_def by (rule hoare_bind [OF assms])

lemma hoare_catch [wp]:
  assumes "\<And>e. hoare (R e) (h e) Q E" and "hoare P m Q R"
  shows "hoare P (catchE m h) Q E"
  using assms by (fastforce simp: hoare_def catchE_def split: prod.splits sum.splits)

lemma hoare_if [wp]:
  assumes "hoare P1 m1 Q E" and "hoare P2 m2 Q E"
  shows "hoare (\<lambda>s. if b then P1 s else P2 s) (if b then m1 else m2) Q E"
  using assms by (cases b) (simp_all add: hoare_def)

lemma hoare_case_option [wp]:
  assumes "hoare P1 m Q E" and "\<And>x. hoare (P2 x) (f x) Q E"
  shows "hoare (\<lambda>s. case z of None \<Rightarrow> P1 s | Some x \<Rightarrow> P2 x s)
    (case z of None \<Rightarrow> m | Some x \<Rightarrow> f x) Q E"
  using assms by (cases z) (simp_all add: hoare_def)

lemma hoare_conj:
  assumes "hoare P m Q E" and "hoare P' m Q' E'"
  shows "hoare (\<lambda>s. P s \<and> P' s) m (\<lambda>a s. Q a s \<and> Q' a s) (\<lambda>e s. E e s \<and> E' e s)"
  using assms by (fastforce simp: hoare_def split: prod.splits sum.splits)

text \<open>A property of the state that a program keeps however it ends.\<close>

definition keeps :: "('s \<Rightarrow> bool) \<Rightarrow> ('s, 'a) prog \<Rightarrow> bool" where
  "keeps I m \<longleftrightarrow> hoare I m (\<lambda>_. I) (\<lambda>_. I)"

named_theorems keeps_rules \<open>how programs keep a property of the state\<close>

lemma keepsD: "keeps I m \<Longrightarrow> I s \<Longrightarrow> I (snd (m s))"
  by (cases "m s"; cases "fst (m s)") (auto simp: keeps_def hoare_def split: prod.splits sum.splits)

lemma keepsI: "(\<And>s. I s \<Longrightarrow> I (snd (m s))) \<Longrightarrow> keeps I m"
  by (fastforce simp: keeps_def hoare_def split: prod.splits sum.splits)

lemma keeps_ret [keeps_rules]: "keeps I (retE a)"
  and keeps_raise [keeps_rules]: "keeps I (raiseE c msg)"
  and keeps_reraise [keeps_rules]: "keeps I (reraiseE e)"
  and keeps_gets [keeps_rules]: "keeps I (getsE f)"
  by (simp_all add: keeps_def hoare_def prog_defs)

lemma keeps_modify [keeps_rules]: "(\<And>s. I s \<Longrightarrow> I (f s)) \<Longrightarrow> keeps I (modifyE f)"
  by (simp add: keeps_def hoare_def prog_defs)

lemma keeps_bind [keeps_rules]:
  "keeps I m \<Longrightarrow> (\<And>a. keeps I (f a)) \<Longrightarrow> keeps I (bindE m f)"
  unfolding keeps_def by (rule hoare_bind)

lemma keeps_then [keeps_rules]: "keeps I m \<Longrightarrow> keeps I k \<Longrightarrow> keeps I (thenE m k)"
  unfolding keeps_def by (rule hoare_then)

lemma keeps_catch [keeps_rules]:
  "keeps I m \<Longrightarrow> (\<And>e. keeps I (h e)) \<Longrightarrow> keeps I (catchE m h)"
  unfolding keeps_def by (rule hoare_catch)

lemma keeps_if [keeps_rules]:
  "(b \<Longrightarrow> keeps I m1) \<Longrightarrow> (\<not> b \<Longrightarrow> keeps I m2) \<Longrightarrow> keeps I (if b then m1 else m2)"
  by simp

lemma keeps_case_option [keeps_rules]:
  "(z = None \<Longrightarrow> keeps I m) \<Longrightarrow> (\<And>x. z = Some x \<Longrightarrow> keeps I (f x)) \<Longrightarrow>
   keeps I (case z of None \<Rightarrow> m | Some x \<Rightarrow> f x)"
  by (simp split: option.split)

text \<open>Total correctness on one state: the program returns, and what it returns satisfies the postcondition.\<close>

definition succeeds :: "('a \<Rightarrow> 's \<Rightarrow> bool) \<Rightarrow> ('s, 'a) prog \<Rightarrow> 's \<Rightarrow> bool" where
  "succeeds Q m s \<longleftrightarrow> (\<exists>a s'. m s = (Inr a, s') \<and> Q a s')"

lemma succeeds_bind: "succeeds (\<lambda>a. succeeds Q (f a)) m s \<Longrightarrow> succeeds Q (bindE m f) s"
  by (auto simp: succeeds_def bindE_def)

lemma succeeds_then: "succeeds (\<lambda>_. succeeds Q k) m s \<Longrightarrow> succeeds Q (thenE m k) s"
  by (auto simp: succeeds_def thenE_def bindE_def)

lemma succeeds_catch: "succeeds Q m s \<Longrightarrow> succeeds Q (catchE m h) s"
  by (auto simp: succeeds_def catchE_def)

lemma succeeds_ret: "Q a s \<Longrightarrow> succeeds Q (retE a) s"
  by (auto simp: succeeds_def retE_def)

lemma succeeds_gets: "Q (f s) s \<Longrightarrow> succeeds Q (getsE f) s"
  by (auto simp: succeeds_def getsE_def)

lemma succeeds_modify: "Q () (f s) \<Longrightarrow> succeeds Q (modifyE f) s"
  by (auto simp: succeeds_def modifyE_def)

lemma succeeds_weaken: "succeeds Q' m s \<Longrightarrow> (\<And>a s'. Q' a s' \<Longrightarrow> Q a s') \<Longrightarrow> succeeds Q m s"
  by (auto simp: succeeds_def)

lemmas succeeds_rules = succeeds_bind succeeds_then succeeds_catch succeeds_ret succeeds_gets succeeds_modify

subsection \<open>Dictionaries\<close>

type_synonym ('k, 'v) dict = "('k \<times> 'v) list"

lemma dict_update_lookup [simp]:
  "map_of (AList.update k v al) k' = (if k' = k then Some v else map_of al k')"
  by (simp add: update_conv')

lemma dict_update_new:
  "map_of al k = None \<Longrightarrow> AList.update k v al = al @ [(k, v)]"
proof (induction al)
  case (Cons p al)
  then show ?case by (cases p) (auto split: if_splits)
qed simp

lemma dict_length_update:
  "length (AList.update k v al) = length al + (if map_of al k = None then 1 else 0)"
proof (induction al)
  case (Cons p al)
  then show ?case by (cases p) auto
qed simp

lemma dict_update_split:
  assumes "map_of al k = Some w"
  shows "\<exists>xs ys. al = xs @ (k, w) # ys \<and> map_of xs k = None
    \<and> AList.update k v al = xs @ (k, v) # ys"
  using assms
proof (induction al)
  case (Cons p al)
  obtain k0 v0 where p: "p = (k0, v0)" by (cases p)
  show ?case
  proof (cases "k0 = k")
    case True
    with Cons.prems p show ?thesis by (intro exI [of _ "[]"] exI [of _ al]) auto
  next
    case False
    with Cons.prems p have "map_of al k = Some w" by simp
    from Cons.IH [OF this] obtain xs ys where
      "al = xs @ (k, w) # ys" "map_of xs k = None" "AList.update k v al = xs @ (k, v) # ys"
      by blast
    with False p show ?thesis by (intro exI [of _ "p # xs"] exI [of _ ys]) auto
  qed
qed simp

lemma map_of_in_set: "map_of al k = Some v \<Longrightarrow> (k, v) \<in> set al"
  by (rule map_of_SomeD)

subsection \<open>Python strings and values\<close>

definition startswith :: "string \<Rightarrow> string \<Rightarrow> bool" where
  "startswith s p \<longleftrightarrow> take (length p) s = p"

fun contains :: "string \<Rightarrow> string \<Rightarrow> bool" where
  "contains part [] = (part = [])"
| "contains part (c # cs) = (startswith (c # cs) part \<or> contains part cs)"

definition lower_char :: "char \<Rightarrow> char" where
  "lower_char c = (if 65 \<le> (of_char c :: nat) \<and> (of_char c :: nat) \<le> 90
     then char_of ((of_char c :: nat) + 32) else c)"

definition py_lower :: "string \<Rightarrow> string" where
  "py_lower s = map lower_char s"

definition is_space :: "char \<Rightarrow> bool" where
  "is_space c \<longleftrightarrow> c \<in> set [CHR '' '', CHR 0x09, CHR 0x0A, CHR 0x0B, CHR 0x0C, CHR 0x0D]"

definition py_strip :: "string \<Rightarrow> string" where
  "py_strip s = rev (dropWhile is_space (rev (dropWhile is_space s)))"

text \<open>\<open>s.split()\<close>: maximal runs of non-space characters.\<close>

fun py_split_aux :: "string \<Rightarrow> string \<Rightarrow> string list" where
  "py_split_aux acc [] = (if acc = [] then [] else [rev acc])"
| "py_split_aux acc (c # cs) =
     (if is_space c then (if acc = [] then [] else [rev acc]) @ py_split_aux [] cs
      else py_split_aux (c # acc) cs)"

definition py_split :: "string \<Rightarrow> string list" where
  "py_split s = py_split_aux [] s"

text \<open>\<open>s.split(".", 1)[0]\<close>.\<close>

definition before_dot :: "string \<Rightarrow> string" where
  "before_dot s = takeWhile (\<lambda>c. c \<noteq> CHR ''.'') s"

text \<open>\<open>value or default\<close> on an optional string: \<open>None\<close> and \<open>""\<close> are falsy.\<close>

definition truthy :: "string option \<Rightarrow> bool" where
  "truthy v \<longleftrightarrow> (case v of None \<Rightarrow> False | Some s \<Rightarrow> s \<noteq> [])"

definition or_str :: "string option \<Rightarrow> string option \<Rightarrow> string option" where
  "or_str a b = (if truthy a then a else b)"

text \<open>\<open>tuple(dict.fromkeys(xs))\<close>: first occurrences, in order.\<close>

fun fromkeys_aux :: "'a list \<Rightarrow> 'a list \<Rightarrow> 'a list" where
  "fromkeys_aux seen [] = []"
| "fromkeys_aux seen (x # xs) =
     (if x \<in> set seen then fromkeys_aux seen xs else x # fromkeys_aux (x # seen) xs)"

definition fromkeys :: "'a list \<Rightarrow> 'a list" where
  "fromkeys xs = fromkeys_aux [] xs"

lemma set_fromkeys_aux: "set (fromkeys_aux seen xs) = set xs - set seen"
  by (induction seen xs rule: fromkeys_aux.induct) auto

lemma distinct_fromkeys_aux: "distinct (fromkeys_aux seen xs)"
  by (induction seen xs rule: fromkeys_aux.induct) (auto simp: set_fromkeys_aux)

lemma set_fromkeys [simp]: "set (fromkeys xs) = set xs"
  by (simp add: fromkeys_def set_fromkeys_aux)

lemma distinct_fromkeys [simp]: "distinct (fromkeys xs)"
  by (simp add: fromkeys_def distinct_fromkeys_aux)

lemma startswith_Nil [simp]: "startswith s []"
  by (simp add: startswith_def)

lemma startswith_iff: "startswith s p \<longleftrightarrow> (\<exists>r. s = p @ r)"
proof
  assume "startswith s p"
  then have "s = p @ drop (length p) s"
    unfolding startswith_def by (metis append_take_drop_id)
  then show "\<exists>r. s = p @ r" ..
qed (auto simp: startswith_def)

text \<open>Python's decimal rendering of a natural number, \<open>str(n)\<close>.\<close>

fun nat_str :: "nat \<Rightarrow> string" where
  "nat_str n = (if n < 10 then [char_of (48 + n)]
     else nat_str (n div 10) @ [char_of (48 + n mod 10)])"

declare nat_str.simps [simp del]

definition int_str :: "int \<Rightarrow> string" where
  "int_str i = (if i < 0 then CHR ''-'' # nat_str (nat (- i)) else nat_str (nat i))"

end
