(* ===== verification/Json_Value.thy ===== *)
theory Json_Value
  imports Py_Prelude "HOL-Library.Word" "HOL-Library.Char_ord" "HOL-Library.List_Lexorder"
begin

text \<open>
  The values that cross the middleware's boundaries: JSON documents (\<open>dict[str, Any]\<close>
  payloads, metadata and evidence), their canonical text (\<open>json.dumps\<close> with
  \<open>ensure_ascii=False\<close>, \<open>separators=(",", ":")\<close>, \<open>sort_keys=True\<close>), the redaction of
  sensitive metadata (\<open>redact_metadata\<close> of \<open>app/commands.py\<close>) and UUIDs with their text
  form. A float is kept by its \<open>repr\<close>; an object is its items in insertion order.
\<close>

subsection \<open>Documents\<close>

datatype json =
    JNull
  | JBool bool
  | JInt int
  | JFloat string
  | JStr string
  | JList "json list"
  | JObj "(string \<times> json) list"

type_synonym json_object = "(string, json) dict"

text \<open>\<open>value if isinstance(value, str) and value else None\<close> for \<open>obj.get(key)\<close>.\<close>

definition str_field :: "json_object \<Rightarrow> string \<Rightarrow> string option" where
  "str_field kvs k = (case map_of kvs k of Some (JStr s) \<Rightarrow> Some s | _ \<Rightarrow> None)"

definition opt_str :: "string option \<Rightarrow> json" where
  "opt_str v = (case v of None \<Rightarrow> JNull | Some s \<Rightarrow> JStr s)"

text \<open>\<open>{**a, **b}\<close>: later items win, an overwritten key keeps its place.\<close>

definition dict_merge :: "('k, 'v) dict \<Rightarrow> ('k, 'v) dict \<Rightarrow> ('k, 'v) dict" where
  "dict_merge a b = fold (\<lambda>(k, v). AList.update k v) b a"

subsection \<open>Canonical text\<close>

definition hex_digit :: "nat \<Rightarrow> char" where
  "hex_digit n = (if n < 10 then char_of (48 + n) else char_of (87 + n))"

definition escape_char :: "char \<Rightarrow> string" where
  "escape_char c =
     (if c = CHR 0x22 then [CHR 0x5C, CHR 0x22]
      else if c = CHR 0x5C then [CHR 0x5C, CHR 0x5C]
      else if c = CHR 0x0A then [CHR 0x5C, CHR ''n'']
      else if c = CHR 0x0D then [CHR 0x5C, CHR ''r'']
      else if c = CHR 0x09 then [CHR 0x5C, CHR ''t'']
      else if c = CHR 0x08 then [CHR 0x5C, CHR ''b'']
      else if c = CHR 0x0C then [CHR 0x5C, CHR ''f'']
      else if (of_char c :: nat) < 32
      then [CHR 0x5C, CHR ''u'', CHR ''0'', CHR ''0'',
            hex_digit ((of_char c :: nat) div 16), hex_digit ((of_char c :: nat) mod 16)]
      else [c])"

definition dumps_str :: "string \<Rightarrow> string" where
  "dumps_str s = CHR 0x22 # concat (map escape_char s) @ [CHR 0x22]"

fun commas :: "string list \<Rightarrow> string" where
  "commas [] = []"
| "commas [x] = x"
| "commas (x # xs) = x @ CHR '','' # commas xs"

fun json_dumps :: "json \<Rightarrow> string" where
  "json_dumps JNull = ''null''"
| "json_dumps (JBool b) = (if b then ''true'' else ''false'')"
| "json_dumps (JInt i) = int_str i"
| "json_dumps (JFloat r) = r"
| "json_dumps (JStr s) = dumps_str s"
| "json_dumps (JList xs) = CHR ''['' # commas (map json_dumps xs) @ [CHR '']'']"
| "json_dumps (JObj kvs) = CHR ''{'' #
     commas (map (\<lambda>(k, t). dumps_str k @ CHR '':'' # t)
       (sort_key fst (map (\<lambda>(k, v). (k, json_dumps v)) kvs))) @ [CHR ''}'']"

subsection \<open>Redaction of metadata\<close>

definition SENSITIVE_METADATA_PARTS :: "string list" where
  "SENSITIVE_METADATA_PARTS =
     [''authorization'', ''token'', ''password'', ''secret'', ''credential'',
      ''private_key'', ''api_key'', ''access_token'', ''refresh_token'']"

definition sensitive_key :: "string \<Rightarrow> bool" where
  "sensitive_key k \<longleftrightarrow> list_ex (\<lambda>part. contains part (py_lower k)) SENSITIVE_METADATA_PARTS"

fun redact_clean :: "json \<Rightarrow> json" where
  "redact_clean (JObj kvs) =
     JObj (map (\<lambda>(k, child). (k, if sensitive_key k then JStr ''[REDACTED]'' else redact_clean child)) kvs)"
| "redact_clean (JList xs) = JList (map redact_clean xs)"
| "redact_clean item = item"

definition redact_mapping :: "json_object \<Rightarrow> json_object" where
  "redact_mapping kvs =
     map (\<lambda>(k, child). (k, if sensitive_key k then JStr ''[REDACTED]'' else redact_clean child)) kvs"

text \<open>
  \<open>json.loads\<close> on a string argument is a parameter: \<open>None\<close> when the text is not JSON.
  Every mapping inside the middleware reaches the second branch.
\<close>

definition redact_metadata :: "(string \<Rightarrow> json option) \<Rightarrow> json \<Rightarrow> json_object" where
  "redact_metadata loads v =
     (let v' = (case v of JStr s \<Rightarrow> loads s | _ \<Rightarrow> Some v)
      in case v' of Some (JObj kvs) \<Rightarrow> redact_mapping kvs | _ \<Rightarrow> [])"

text \<open>What redaction promises: under a sensitive key only the marker remains, at any depth.\<close>

fun leak_free :: "json \<Rightarrow> bool" where
  "leak_free (JObj kvs) =
     list_all (\<lambda>(k, child). if sensitive_key k then child = JStr ''[REDACTED]'' else leak_free child) kvs"
| "leak_free (JList xs) = list_all leak_free xs"
| "leak_free item = True"

lemma redact_clean_leak_free: "leak_free (redact_clean j)"
  by (induction j rule: redact_clean.induct) (auto simp: list_all_iff)

lemma redact_clean_fixpoint: "leak_free j \<Longrightarrow> redact_clean j = j"
proof (induction j rule: redact_clean.induct)
  case (1 kvs)
  have "(k, if sensitive_key k then JStr ''[REDACTED]'' else redact_clean c) = (k, c)"
    if "(k, c) \<in> set kvs" for k c
    using that 1 by (auto simp: list_all_iff split: if_splits)
  then have "map (\<lambda>(k, c). (k, if sensitive_key k then JStr ''[REDACTED]'' else redact_clean c)) kvs = kvs"
    by (intro map_idI) auto
  then show ?case by simp
next
  case (2 xs)
  then show ?case by (auto simp: list_all_iff intro: map_idI)
qed simp_all

lemma redact_mapping_leak_free: "leak_free (JObj (redact_mapping kvs))"
  using redact_clean_leak_free [of "JObj kvs"] by (simp add: redact_mapping_def)

lemma redact_mapping_Nil [simp]: "redact_mapping [] = []"
  by (simp add: redact_mapping_def)

lemma redact_mapping_keys [simp]: "map fst (redact_mapping kvs) = map fst kvs"
  by (auto simp: redact_mapping_def)

lemma redact_mapping_idem [simp]: "redact_mapping (redact_mapping kvs) = redact_mapping kvs"
  using redact_clean_fixpoint [OF redact_mapping_leak_free [of kvs]]
  by (simp add: redact_mapping_def)

text \<open>
  Redaction is safe and stable: whatever metadata arrives, as a document or as JSON
  text, the stored mapping holds nothing but the marker \<open>[REDACTED]\<close> under any key that
  contains a sensitive word (at any depth), a mapping keeps exactly its keys, and
  redacting again changes nothing.
\<close>

theorem redact_metadata_safe:
  "leak_free (JObj (redact_metadata loads v))
   \<and> redact_metadata loads (JObj (redact_metadata loads v)) = redact_metadata loads v
   \<and> map fst (redact_metadata loads (JObj kvs)) = map fst kvs"
  by (auto simp: redact_metadata_def Let_def redact_mapping_leak_free simp del: leak_free.simps(1)
      split: option.split json.split) simp_all

subsection \<open>UUIDs\<close>

type_synonym uuid = "128 word"

text \<open>\<open>str(uuid)\<close> and \<open>UUID(text)\<close> of the standard library.\<close>

fun nibbles :: "nat \<Rightarrow> nat \<Rightarrow> nat list" where
  "nibbles 0 x = []"
| "nibbles (Suc n) x = nibbles n (x div 16) @ [x mod 16]"

definition uuid_str :: "uuid \<Rightarrow> string" where
  "uuid_str u = (let h = map hex_digit (nibbles 32 (unat u)) in
     take 8 h @ CHR ''-'' # take 4 (drop 8 h) @ CHR ''-'' # take 4 (drop 12 h)
     @ CHR ''-'' # take 4 (drop 16 h) @ CHR ''-'' # drop 20 h)"

function remove_sub :: "string \<Rightarrow> string \<Rightarrow> string" where
  "remove_sub part s =
     (case s of [] \<Rightarrow> []
      | c # cs \<Rightarrow> if part \<noteq> [] \<and> startswith s part then remove_sub part (drop (length part) s)
                 else c # remove_sub part cs)"
  by pat_completeness auto
termination
  by (relation "measure (\<lambda>(part, s). length s)") (auto simp: neq_Nil_conv)

declare remove_sub.simps [simp del]

definition hex_value :: "char \<Rightarrow> nat option" where
  "hex_value c = (let n = (of_char c :: nat) in
     if 48 \<le> n \<and> n \<le> 57 then Some (n - 48)
     else if 97 \<le> n \<and> n \<le> 102 then Some (n - 87)
     else if 65 \<le> n \<and> n \<le> 70 then Some (n - 55) else None)"

fun hex_int :: "nat \<Rightarrow> string \<Rightarrow> nat option" where
  "hex_int acc [] = Some acc"
| "hex_int acc (c # cs) = (case hex_value c of None \<Rightarrow> None | Some d \<Rightarrow> hex_int (16 * acc + d) cs)"

definition braces :: "char \<Rightarrow> bool" where
  "braces c \<longleftrightarrow> c = CHR ''{'' \<or> c = CHR ''}''"

definition uuid_parse :: "string \<Rightarrow> uuid option" where
  "uuid_parse raw =
     (let h1 = remove_sub ''uuid:'' (remove_sub ''urn:'' raw);
          h2 = rev (dropWhile braces (rev (dropWhile braces h1)));
          h = filter (\<lambda>c. c \<noteq> CHR ''-'') h2
      in if length h \<noteq> 32 then None else map_option of_nat (hex_int 0 h))"

lemma length_nibbles [simp]: "length (nibbles n x) = n"
  by (induction n x rule: nibbles.induct) auto

lemma nibbles_lt: "d \<in> set (nibbles n x) \<Longrightarrow> d < 16"
  by (induction n x rule: nibbles.induct) auto

lemma hex_value_digit [simp]: "d < 16 \<Longrightarrow> hex_value (hex_digit d) = Some d"
  by (auto simp: hex_value_def hex_digit_def Let_def)

lemma hex_int_append:
  "hex_int a (xs @ ys) = (case hex_int a xs of None \<Rightarrow> None | Some b \<Rightarrow> hex_int b ys)"
  by (induction a xs rule: hex_int.induct) (auto split: option.split)

lemma hex_int_nibbles:
  "hex_int a (map hex_digit (nibbles n x)) = Some (a * 16 ^ n + x mod 16 ^ n)"
proof (induction n x rule: nibbles.induct)
  case (2 n x)
  have "16 * (a * 16 ^ n + x div 16 mod 16 ^ n) + x mod 16 = a * 16 ^ Suc n + x mod 16 ^ Suc n"
    by (simp add: mod_mult2_eq algebra_simps)
  with 2 show ?case by (simp add: hex_int_append)
qed simp

lemma hex_digit_clean:
  assumes "d < 16"
  shows "hex_digit d \<noteq> CHR ''-'' \<and> hex_digit d \<noteq> CHR '':'' \<and> \<not> braces (hex_digit d)"
proof -
  have "d = 0 \<or> d = 1 \<or> d = 2 \<or> d = 3 \<or> d = 4 \<or> d = 5 \<or> d = 6 \<or> d = 7 \<or> d = 8 \<or> d = 9
    \<or> d = 10 \<or> d = 11 \<or> d = 12 \<or> d = 13 \<or> d = 14 \<or> d = 15"
    using assms by presburger
  then show ?thesis by (auto simp: hex_digit_def braces_def char_of_def)
qed

lemma remove_sub_absent: "CHR '':'' \<in> set part \<Longrightarrow> CHR '':'' \<notin> set s \<Longrightarrow> remove_sub part s = s"
proof (induction part s rule: remove_sub.induct)
  case (1 part s)
  show ?case
  proof (cases s)
    case (Cons c cs)
    have "\<not> startswith s part"
      using 1(3,4) by (metis startswith_def in_set_takeD)
    with 1 Cons show ?thesis by (auto simp: remove_sub.simps [of part "c # cs"])
  qed (simp add: remove_sub.simps)
qed

text \<open>Parsing \<open>str(uuid)\<close> gives the UUID back.\<close>

lemma uuid_parse_str: "uuid_parse (uuid_str u) = Some u"
proof -
  define h where "h = map hex_digit (nibbles 32 (unat u))"
  have len: "length h = 32" by (simp add: h_def)
  have clean: "c \<noteq> CHR ''-'' \<and> c \<noteq> CHR '':'' \<and> \<not> braces c" if "c \<in> set h" for c
    using that hex_digit_clean nibbles_lt by (auto simp: h_def)
  define t where "t = uuid_str u"
  have t: "t = take 8 h @ CHR ''-'' # take 4 (drop 8 h) @ CHR ''-'' # take 4 (drop 12 h)
     @ CHR ''-'' # take 4 (drop 16 h) @ CHR ''-'' # drop 20 h"
    by (simp add: t_def uuid_str_def h_def Let_def)
  have sub: "set t \<subseteq> insert (CHR ''-'') (set h)"
    unfolding t by (auto dest: in_set_takeD in_set_dropD)
  have colon: "CHR '':'' \<notin> set t" and nobr: "\<forall>c \<in> set t. \<not> braces c"
    using sub clean by (auto simp: braces_def)
  have strip: "rev (dropWhile braces (rev (dropWhile braces t))) = t"
    using nobr by (metis dropWhile_eq_self_iff hd_in_set rev_rev_ident set_rev rev_is_Nil_conv)
  have keep: "filter (\<lambda>c. c \<noteq> CHR ''-'') xs = xs" if "set xs \<subseteq> set h" for xs
    using that clean by (intro filter_True) auto
  have "take 8 h @ take 4 (drop 8 h) @ take 4 (drop 12 h) @ take 4 (drop 16 h) @ drop 20 h = h"
    by (simp add: append_assoc [symmetric] take_add [symmetric] del: append_assoc)
  then have "filter (\<lambda>c. c \<noteq> CHR ''-'') t = h"
    unfolding t by (simp add: keep set_take_subset set_drop_subset subset_trans [OF set_take_subset set_drop_subset])
  moreover have "unat u < 2 ^ 128" using unsigned_less [of u] by simp
  then have "hex_int 0 h = Some (unat u)"
    using hex_int_nibbles [of 0 32 "unat u"] by (simp add: h_def)
  ultimately show ?thesis
    using len by (simp add: uuid_parse_def Let_def t_def [symmetric] remove_sub_absent colon strip)
qed

lemma uuid_str_inject [simp]: "uuid_str u = uuid_str v \<longleftrightarrow> u = v"
  by (metis option.inject uuid_parse_str)

end
