(* ===== verification/Command_Model.thy ===== *)
theory Command_Model
  imports Json_Value
begin

text \<open>
  The data of the command ledger (\<open>app/commands.py\<close>): command states and the transition
  table, the public envelope with its field validation, operations, events, attempts,
  dead letters, replays and outbox intents as records with the source's fields; the
  command policy registry with \<open>resolve\<close>, \<open>extended\<close> and \<open>authorize\<close>; digests and the
  durable payload of a command.

  Two things the code calls and does not define are parameters, collected in the record
  \<open>host\<close>: \<open>hashlib.sha256(..).hexdigest()\<close> and the JSON-Schema validation behind
  \<open>validate_contract("command", ..)\<close>. Wall-clock instants are integers, readings of
  \<open>time.monotonic()\<close> are rationals.
\<close>

record host =
  sha256 :: "string \<Rightarrow> string"
  contract_ok :: "json \<Rightarrow> bool"

subsection \<open>States\<close>

datatype command_state =
    Persisted | Queued | Dispatching | Accepted | ReadbackPending
  | Completed | Failed | ReconciliationRequired | DeadLettered | Cancelled

fun state_str :: "command_state \<Rightarrow> string" where
  "state_str Persisted = ''persisted''"
| "state_str Queued = ''queued''"
| "state_str Dispatching = ''dispatching''"
| "state_str Accepted = ''accepted''"
| "state_str ReadbackPending = ''readback_pending''"
| "state_str Completed = ''completed''"
| "state_str Failed = ''failed''"
| "state_str ReconciliationRequired = ''reconciliation_required''"
| "state_str DeadLettered = ''dead_lettered''"
| "state_str Cancelled = ''cancelled''"

fun API_OPERATION_STATES :: "command_state \<Rightarrow> string" where
  "API_OPERATION_STATES Persisted = ''RECEIVED''"
| "API_OPERATION_STATES Queued = ''QUEUED''"
| "API_OPERATION_STATES Dispatching = ''SUBMITTED''"
| "API_OPERATION_STATES Accepted = ''ACCEPTED''"
| "API_OPERATION_STATES ReadbackPending = ''UNKNOWN''"
| "API_OPERATION_STATES Completed = ''COMPLETED''"
| "API_OPERATION_STATES Failed = ''FAILED''"
| "API_OPERATION_STATES ReconciliationRequired = ''RECONCILIATION_REQUIRED''"
| "API_OPERATION_STATES DeadLettered = ''DEAD_LETTERED''"
| "API_OPERATION_STATES Cancelled = ''CANCELLED''"

fun ALLOWED_COMMAND_TRANSITIONS :: "command_state \<Rightarrow> command_state list" where
  "ALLOWED_COMMAND_TRANSITIONS Persisted = [Queued, Cancelled]"
| "ALLOWED_COMMAND_TRANSITIONS Queued = [Dispatching, DeadLettered, Cancelled]"
| "ALLOWED_COMMAND_TRANSITIONS Dispatching = [Accepted, Failed, ReconciliationRequired]"
| "ALLOWED_COMMAND_TRANSITIONS Accepted = [ReadbackPending, ReconciliationRequired]"
| "ALLOWED_COMMAND_TRANSITIONS ReadbackPending = [Completed, Failed, ReconciliationRequired]"
| "ALLOWED_COMMAND_TRANSITIONS ReconciliationRequired = [Queued, DeadLettered]"
| "ALLOWED_COMMAND_TRANSITIONS Failed = [Queued, DeadLettered]"
| "ALLOWED_COMMAND_TRANSITIONS Completed = []"
| "ALLOWED_COMMAND_TRANSITIONS DeadLettered = []"
| "ALLOWED_COMMAND_TRANSITIONS Cancelled = []"

definition ACTIVE_COMMAND_STATES :: "command_state list" where
  "ACTIVE_COMMAND_STATES = [Persisted, Queued, Dispatching, Accepted, ReadbackPending]"

subsection \<open>Destinations\<close>

definition TEMPORAL_COMMAND_DESTINATION :: string where
  "TEMPORAL_COMMAND_DESTINATION = ''temporal-command''"

definition ODOO_COMMAND_DESTINATION :: string where
  "ODOO_COMMAND_DESTINATION = ''odoo-command''"

definition ADAPTER_COMMAND_DESTINATION :: string where
  "ADAPTER_COMMAND_DESTINATION = ''adapter-command''"

definition COMMAND_DESTINATIONS :: "string list" where
  "COMMAND_DESTINATIONS =
     [TEMPORAL_COMMAND_DESTINATION, ODOO_COMMAND_DESTINATION, ADAPTER_COMMAND_DESTINATION]"

definition AUTHENTICATED_CLIENT_ID_KEY :: string where
  "AUTHENTICATED_CLIENT_ID_KEY = ''_authenticated_client_id''"

subsection \<open>Envelope\<close>

record command_envelope =
  ce_command_id :: uuid
  ce_command_type :: string
  ce_command_version :: string
  ce_target :: string
  ce_tenant_id :: string
  ce_requested_by :: string
  ce_correlation_id :: string
  ce_idempotency_key :: string
  ce_capability :: string
  ce_payload :: json_object

definition lower_alnum :: "char \<Rightarrow> bool" where
  "lower_alnum c \<longleftrightarrow> (let n = (of_char c :: nat) in (97 \<le> n \<and> n \<le> 122) \<or> (48 \<le> n \<and> n \<le> 57))"

definition upper_alnum :: "char \<Rightarrow> bool" where
  "upper_alnum c \<longleftrightarrow> (let n = (of_char c :: nat) in
     (65 \<le> n \<and> n \<le> 90) \<or> (48 \<le> n \<and> n \<le> 57) \<or> n = 95)"

fun split_on :: "(char \<Rightarrow> bool) \<Rightarrow> string \<Rightarrow> string list" where
  "split_on sep [] = [[]]"
| "split_on sep (c # cs) =
     (if sep c then [] # split_on sep cs
      else (case split_on sep cs of [] \<Rightarrow> [[c]] | seg # segs \<Rightarrow> (c # seg) # segs))"

text \<open>
  The regular expressions of the field declarations: \<open>[a-z0-9]+(?:S[a-z0-9]+)*\<close> says that
  splitting at the separators S leaves non-empty lower-case alphanumeric segments.
\<close>

definition segmented :: "(char \<Rightarrow> bool) \<Rightarrow> string \<Rightarrow> bool" where
  "segmented sep s \<longleftrightarrow> list_all (\<lambda>seg. seg \<noteq> [] \<and> list_all lower_alnum seg) (split_on sep s)"

definition kebab :: "string \<Rightarrow> bool" where
  "kebab s \<longleftrightarrow> segmented (\<lambda>c. c = CHR ''-'') s"

definition command_type_pattern :: "string \<Rightarrow> bool" where
  "command_type_pattern s \<longleftrightarrow>
     (let sep = (\<lambda>c. c = CHR ''.'' \<or> c = CHR ''-'')
      in segmented sep s \<and> 2 \<le> length (split_on sep s))"

definition capability_pattern :: "string \<Rightarrow> bool" where
  "capability_pattern s \<longleftrightarrow> (case s of [] \<Rightarrow> False
     | c # cs \<Rightarrow> (let n = (of_char c :: nat) in 65 \<le> n \<and> n \<le> 90)
        \<and> 2 \<le> length cs \<and> length cs \<le> 100 \<and> list_all upper_alnum cs)"

text \<open>\<open>command.model_dump(mode="json")\<close>: the fields in declaration order.\<close>

definition envelope_json :: "command_envelope \<Rightarrow> json_object" where
  "envelope_json c =
     [(''command_id'', JStr (uuid_str (ce_command_id c))),
      (''command_type'', JStr (ce_command_type c)),
      (''command_version'', JStr (ce_command_version c)),
      (''target'', JStr (ce_target c)),
      (''tenant_id'', JStr (ce_tenant_id c)),
      (''requested_by'', JStr (ce_requested_by c)),
      (''correlation_id'', JStr (ce_correlation_id c)),
      (''idempotency_key'', JStr (ce_idempotency_key c)),
      (''capability'', JStr (ce_capability c)),
      (''payload'', JObj (ce_payload c))]"

text \<open>What pydantic accepts as a \<open>CommandEnvelope\<close>; the payload bound counts encoded bytes.\<close>

definition valid_envelope :: "host \<Rightarrow> command_envelope \<Rightarrow> bool" where
  "valid_envelope h c \<longleftrightarrow>
     command_type_pattern (ce_command_type c) \<and> length (ce_command_type c) \<le> 180
     \<and> ce_command_version c = ''1.0''
     \<and> kebab (ce_target c) \<and> length (ce_target c) \<le> 100
     \<and> 1 \<le> length (ce_tenant_id c) \<and> length (ce_tenant_id c) \<le> 128
     \<and> 1 \<le> length (ce_requested_by c) \<and> length (ce_requested_by c) \<le> 300
     \<and> 1 \<le> length (ce_correlation_id c) \<and> length (ce_correlation_id c) \<le> 180
     \<and> 8 \<le> length (ce_idempotency_key c) \<and> length (ce_idempotency_key c) \<le> 180
     \<and> capability_pattern (ce_capability c)
     \<and> length (json_dumps (JObj (ce_payload c))) \<le> 262144
     \<and> contract_ok h (JObj (envelope_json c))"

definition envelope_fields :: "string list" where
  "envelope_fields = [''command_id'', ''command_type'', ''command_version'', ''target'', ''tenant_id'',
     ''requested_by'', ''correlation_id'', ''idempotency_key'', ''capability'', ''payload'']"

text \<open>
  \<open>command_envelope_from_payload\<close>: drop the provenance key, then
  \<open>CommandEnvelope.model_validate\<close> with \<open>extra="forbid"\<close>; \<open>None\<close> is pydantic's
  \<open>ValidationError\<close>.
\<close>

definition command_envelope_from_payload :: "host \<Rightarrow> json_object \<Rightarrow> command_envelope option" where
  "command_envelope_from_payload h payload =
     (let public = filter (\<lambda>(k, v). k \<noteq> AUTHENTICATED_CLIENT_ID_KEY) payload;
          fld = str_field public
      in if list_all (\<lambda>(k, v). k \<in> set envelope_fields) public then
        (case (fld ''command_id'', fld ''command_type'', fld ''command_version'', fld ''target'',
               fld ''tenant_id'', fld ''requested_by'', fld ''correlation_id'', fld ''idempotency_key'',
               fld ''capability'', map_of public ''payload'') of
           (Some cid, Some ct, Some cv, Some tg, Some tn, Some rb, Some co, Some ik, Some cap, Some (JObj pl)) \<Rightarrow>
             (case uuid_parse cid of
                None \<Rightarrow> None
              | Some u \<Rightarrow>
                (let c = \<lparr>ce_command_id = u, ce_command_type = ct, ce_command_version = cv, ce_target = tg,
                     ce_tenant_id = tn, ce_requested_by = rb, ce_correlation_id = co,
                     ce_idempotency_key = ik, ce_capability = cap, ce_payload = pl\<rparr>
                 in if valid_envelope h c then Some c else None))
         | _ \<Rightarrow> None)
        else None)"

subsection \<open>Operations, events, attempts, dead letters, replays, intents\<close>

record command_operation =
  co_command_id :: uuid
  co_tenant_id :: string
  co_command_type :: string
  co_command_version :: string
  co_target :: string
  co_requested_by :: string
  co_correlation_id :: string
  co_idempotency_key :: string
  co_capability :: string
  co_state :: command_state
  co_provider_operation_id :: "string option"
  co_readback_evidence :: "json_object option"
  co_readback_evidence_sha256 :: "string option"
  co_last_error :: "string option"
  co_created_at :: int
  co_updated_at :: int
  co_resource_version :: nat
  co_cancelled_at :: "int option"
  co_cancellation_reason :: "string option"
  co_reconciliation_requested_at :: "int option"
  co_reconciliation_reason :: "string option"
  co_duplicate :: bool

record operation_event =
  ev_event_id :: nat
  ev_operation_id :: uuid
  ev_previous_state :: "command_state option"
  ev_new_state :: command_state
  ev_actor_id :: string
  ev_reason :: string
  ev_safe_metadata :: json_object
  ev_created_at :: int

record operation_attempt =
  at_attempt_id :: nat
  at_operation_id :: uuid
  at_attempt_number :: nat
  at_state :: command_state
  at_provider_operation_id :: "string option"
  at_safe_error_code :: "string option"
  at_started_at :: int
  at_finished_at :: "int option"

record dead_letter_record =
  dl_dead_letter_id :: nat
  dl_tenant_id :: string
  dl_command_id :: uuid
  dl_attempt_number :: nat
  dl_reason_code :: string
  dl_error_class :: string
  dl_terminal_reason :: string
  dl_correlation_id :: string
  dl_principal_id :: string
  dl_capability :: string
  dl_poisoned :: bool
  dl_retry_exhausted :: bool
  dl_created_at :: int

datatype replay_state = ReplayRequested | ReplayScheduled | ReplaySubmitted | ReplayCancelled

record replay_record =
  rp_replay_id :: uuid
  rp_tenant_id :: string
  rp_original_command_id :: uuid
  rp_replay_command_id :: "uuid option"
  rp_requested_by :: string
  rp_idempotency_key :: string
  rp_reason :: string
  rp_state :: replay_state
  rp_created_at :: int
  rp_scheduled_at :: "int option"
  rp_cancelled_at :: "int option"

record outbox_intent =
  oi_id :: nat
  oi_tenant_id :: string
  oi_command_id :: string
  oi_destination :: string
  oi_event_type :: string
  oi_idempotency_key :: string
  oi_payload :: json_object
  oi_attempt_count :: nat
  oi_next_attempt_at :: rat
  oi_lease_owner :: "string option"
  oi_lease_until :: "rat option"
  oi_completed_at :: "rat option"
  oi_dead_lettered_at :: "rat option"
  oi_cancelled_at :: "rat option"
  oi_reconciliation_required_at :: "rat option"
  oi_reconciliation_attempts :: nat
  oi_last_error :: "string option"

definition new_intent :: "nat \<Rightarrow> string \<Rightarrow> string \<Rightarrow> string \<Rightarrow> string \<Rightarrow> string \<Rightarrow> json_object \<Rightarrow> outbox_intent" where
  "new_intent i tenant cid dest etype ikey payload =
     \<lparr>oi_id = i, oi_tenant_id = tenant, oi_command_id = cid, oi_destination = dest, oi_event_type = etype,
      oi_idempotency_key = ikey, oi_payload = payload, oi_attempt_count = 0, oi_next_attempt_at = 0,
      oi_lease_owner = None, oi_lease_until = None, oi_completed_at = None, oi_dead_lettered_at = None,
      oi_cancelled_at = None, oi_reconciliation_required_at = None, oi_reconciliation_attempts = 0,
      oi_last_error = None\<rparr>"

text \<open>\<open>CommandOperation(**command.model_dump(exclude={"payload"}), state="persisted", ...)\<close>.\<close>

definition new_operation :: "command_envelope \<Rightarrow> int \<Rightarrow> command_operation" where
  "new_operation c now =
     \<lparr>co_command_id = ce_command_id c, co_tenant_id = ce_tenant_id c, co_command_type = ce_command_type c,
      co_command_version = ce_command_version c, co_target = ce_target c, co_requested_by = ce_requested_by c,
      co_correlation_id = ce_correlation_id c, co_idempotency_key = ce_idempotency_key c,
      co_capability = ce_capability c, co_state = Persisted, co_provider_operation_id = None,
      co_readback_evidence = None, co_readback_evidence_sha256 = None, co_last_error = None,
      co_created_at = now, co_updated_at = now, co_resource_version = 1, co_cancelled_at = None,
      co_cancellation_reason = None, co_reconciliation_requested_at = None,
      co_reconciliation_reason = None, co_duplicate = False\<rparr>"

subsection \<open>Digests and the durable payload\<close>

definition command_digest :: "host \<Rightarrow> command_envelope \<Rightarrow> string" where
  "command_digest h c = sha256 h (json_dumps (JObj (envelope_json c)))"

definition authenticated_command_payload :: "command_envelope \<Rightarrow> string \<Rightarrow> json_object" where
  "authenticated_command_payload c client =
     AList.update AUTHENTICATED_CLIENT_ID_KEY (JStr client) (envelope_json c)"

definition authenticated_command_digest :: "host \<Rightarrow> command_envelope \<Rightarrow> string \<Rightarrow> string" where
  "authenticated_command_digest h c client =
     sha256 h (json_dumps (JObj (authenticated_command_payload c client)))"

definition command_digest_matches :: "host \<Rightarrow> string \<Rightarrow> command_envelope \<Rightarrow> string \<Rightarrow> bool" where
  "command_digest_matches h persisted c client \<longleftrightarrow>
     persisted \<in> set [authenticated_command_digest h c client, command_digest h c]"

definition provider_evidence_digest :: "host \<Rightarrow> json_object \<Rightarrow> string" where
  "provider_evidence_digest h ev = ''sha256:'' @ sha256 h (json_dumps (JObj ev))"

text \<open>\<open>_mutation_evidence\<close>.\<close>

definition mutation_evidence :: "string option \<Rightarrow> json_object" where
  "mutation_evidence cid =
     (if truthy cid then [(''mutation_correlation_id'', JStr (take 180 (the cid)))] else [])"

subsection \<open>Command policies\<close>

record command_policy =
  cp_prefix :: string
  cp_target :: string
  cp_capability :: string
  cp_readback_required :: bool

record policy_registry =
  pr_policies :: "command_policy list"
  pr_capabilities :: "(string, bool) dict"

text \<open>The constructor sorts by prefix length, longest first; Python's sort is stable.\<close>

definition make_registry :: "command_policy list \<Rightarrow> (string, bool) dict \<Rightarrow> policy_registry" where
  "make_registry policies caps =
     \<lparr>pr_policies = sort_key (\<lambda>p. - int (length (cp_prefix p))) policies, pr_capabilities = caps\<rparr>"

definition matching_policies :: "policy_registry \<Rightarrow> string \<Rightarrow> command_policy list" where
  "matching_policies reg command_type =
     filter (\<lambda>p. startswith command_type (cp_prefix p)) (pr_policies reg)"

definition resolve :: "policy_registry \<Rightarrow> string \<Rightarrow> command_policy option" where
  "resolve reg command_type =
     (case matching_policies reg command_type of [p] \<Rightarrow> Some p | _ \<Rightarrow> None)"

definition extended :: "policy_registry \<Rightarrow> command_policy list \<Rightarrow> (string, bool) dict \<Rightarrow> exc + policy_registry" where
  "extended reg policies caps =
     (case find (\<lambda>(name, _). map_of (pr_capabilities reg) name \<noteq> None) caps of
        Some (name, _) \<Rightarrow> Inl (Exc ValueError (''capability '' @ name @ '' is owned by config/capabilities.v2.json''))
      | None \<Rightarrow>
        (case find (\<lambda>p. cp_prefix p \<in> set (map cp_prefix (pr_policies reg))) policies of
           Some p \<Rightarrow> Inl (Exc ValueError (''command prefix '' @ cp_prefix p @ '' already has an owner''))
         | None \<Rightarrow> Inr (make_registry (pr_policies reg @ policies) (dict_merge (pr_capabilities reg) caps))))"

definition authorize :: "policy_registry \<Rightarrow> command_envelope \<Rightarrow> exc + command_policy" where
  "authorize reg c =
     (case matching_policies reg (ce_command_type c) of
        [policy] \<Rightarrow>
          (if ce_target c \<noteq> cp_target policy
           then Inl (Exc CommandCapabilityDisabled ''command target does not own the command type'')
           else if ce_capability c \<noteq> cp_capability policy
           then Inl (Exc CommandCapabilityDisabled ''command capability does not match the owning policy'')
           else if map_of (pr_capabilities reg) (cp_capability policy) \<noteq> Some True
           then Inl (Exc CommandCapabilityDisabled (''capability '' @ cp_capability policy @ '' is disabled''))
           else if \<not> cp_readback_required policy
           then Inl (Exc CommandCapabilityDisabled ''effectful command policy must require provider read-back'')
           else Inr policy)
      | _ \<Rightarrow> Inl (Exc CommandCapabilityDisabled ''command type does not have exactly one owning policy''))"

text \<open>\<open>CommandService.validate_submission\<close>.\<close>

definition validate_submission :: "policy_registry \<Rightarrow> command_envelope \<Rightarrow> string \<Rightarrow> string \<Rightarrow> exc + command_policy" where
  "validate_submission reg c subject client =
     (if ce_requested_by c \<noteq> subject
      then Inl (Exc CommandCapabilityDisabled ''requested_by must equal the authenticated token subject'')
      else if \<not> kebab client \<or> 100 < length client
      then Inl (Exc CommandCapabilityDisabled ''authenticated client ID is invalid'')
      else authorize reg c)"

subsection \<open>A concrete command for the witnesses\<close>

definition sample_host :: host where
  "sample_host = \<lparr>sha256 = (\<lambda>s. s), contract_ok = (\<lambda>_. True)\<rparr>"

definition sample_envelope :: command_envelope where
  "sample_envelope = \<lparr>ce_command_id = 7, ce_command_type = ''test.syn.ping'', ce_command_version = ''1.0'',
     ce_target = ''test-syn'', ce_tenant_id = ''TEST_SYN'', ce_requested_by = ''svc'', ce_correlation_id = ''corr-1'',
     ce_idempotency_key = ''idem-0001'', ce_capability = ''TEST_SYN_EXECUTE'', ce_payload = []\<rparr>"

subsection \<open>Properties\<close>

lemma resolve_Some_iff: "resolve reg ct = Some p \<longleftrightarrow> matching_policies reg ct = [p]"
  by (auto simp: resolve_def split: list.splits)

lemma resolve_SomeD:
  assumes "resolve reg ct = Some p"
  shows "p \<in> set (pr_policies reg)" and "startswith ct (cp_prefix p)"
proof -
  have "p \<in> set (matching_policies reg ct)" using assms by (simp add: resolve_Some_iff)
  then show "p \<in> set (pr_policies reg)" "startswith ct (cp_prefix p)" by (auto simp: matching_policies_def)
qed

lemma authorize_Inr_iff:
  "authorize reg c = Inr p \<longleftrightarrow>
     resolve reg (ce_command_type c) = Some p \<and> ce_target c = cp_target p
     \<and> ce_capability c = cp_capability p
     \<and> map_of (pr_capabilities reg) (cp_capability p) = Some True \<and> cp_readback_required p"
  by (auto simp: authorize_def resolve_Some_iff split: list.splits)

lemma validate_submission_Inr_iff:
  "validate_submission reg c subject client = Inr p \<longleftrightarrow>
     ce_requested_by c = subject \<and> kebab client \<and> length client \<le> 100 \<and> authorize reg c = Inr p"
  by (auto simp: validate_submission_def)

lemma validate_submission_Inl:
  "validate_submission reg c subject client = Inl e \<Longrightarrow> exc_class e = CommandCapabilityDisabled"
  by (auto simp: validate_submission_def authorize_def split: if_splits list.splits)

lemma map_of_dict_merge:
  "map_of (dict_merge a b) k = (case map_of (rev b) k of None \<Rightarrow> map_of a k | Some v \<Rightarrow> Some v)"
proof (induction b arbitrary: a)
  case (Cons p b)
  obtain k0 v0 where p: "p = (k0, v0)" by (cases p)
  have "dict_merge a (p # b) = dict_merge (AList.update k0 v0 a) b"
    by (simp add: dict_merge_def p)
  then show ?case
    using Cons.IH [of "AList.update k0 v0 a"] by (simp add: p map_add_def split: option.split)
qed (simp add: dict_merge_def)

text \<open>
  Extending the policy registry never takes anything over: when \<open>extended\<close> succeeds,
  every capability of the original registry keeps its value, and a command type owned in
  the original registry is afterwards owned by the same policy or by nobody (an ambiguous
  prefix disables it), never by an added policy.
\<close>

theorem extended_never_reowns:
  assumes "extended reg policies caps = Inr reg'"
  shows "(\<forall>name v. map_of (pr_capabilities reg) name = Some v \<longrightarrow> map_of (pr_capabilities reg') name = Some v)
    \<and> (\<forall>ct p. resolve reg ct = Some p \<longrightarrow> resolve reg' ct = Some p \<or> resolve reg' ct = None)"
proof -
  from assms have nocap: "find (\<lambda>(name, _). map_of (pr_capabilities reg) name \<noteq> None) caps = None"
    and reg': "reg' = make_registry (pr_policies reg @ policies) (dict_merge (pr_capabilities reg) caps)"
    by (auto simp: extended_def split: option.splits)
  have new: "map_of (pr_capabilities reg) k = None" if "(k, v) \<in> set caps" for k v
    using nocap that by (auto simp: find_None_iff)
  have "map_of (pr_capabilities reg') name = Some v" if "map_of (pr_capabilities reg) name = Some v" for name v
  proof -
    have "name \<notin> fst ` set caps"
      using new that by fastforce
    then have "map_of (rev caps) name = None"
      by (simp add: map_of_eq_None_iff)
    then show ?thesis using that by (simp add: reg' make_registry_def map_of_dict_merge)
  qed
  moreover have "resolve reg' ct = Some p \<or> resolve reg' ct = None" if "resolve reg ct = Some p" for ct p
  proof (rule ccontr)
    assume "\<not> ?thesis"
    then obtain q where q: "resolve reg' ct = Some q" "q \<noteq> p" by auto
    have "p \<in> set (matching_policies reg' ct)"
      using resolve_SomeD [OF that] by (simp add: matching_policies_def reg' make_registry_def)
    with q show False by (simp add: resolve_Some_iff)
  qed
  ultimately show ?thesis by blast
qed

theorem extended_never_reowns_witness:
  "let reg = make_registry [\<lparr>cp_prefix = ''crm.'', cp_target = ''odoo-19'', cp_capability = ''ODOO_WRITE'', cp_readback_required = True\<rparr>] [(''ODOO_WRITE'', False)];
       reg' = make_registry (pr_policies reg @ [\<lparr>cp_prefix = ''test.syn.'', cp_target = ''test-syn'', cp_capability = ''TEST_SYN_EXECUTE'', cp_readback_required = True\<rparr>])
         (dict_merge (pr_capabilities reg) [(''TEST_SYN_EXECUTE'', True)])
   in extended reg [\<lparr>cp_prefix = ''test.syn.'', cp_target = ''test-syn'', cp_capability = ''TEST_SYN_EXECUTE'', cp_readback_required = True\<rparr>] [(''TEST_SYN_EXECUTE'', True)] = Inr reg'
     \<and> map_of (pr_capabilities reg') ''ODOO_WRITE'' = Some False"
proof -
  let ?reg = "make_registry [\<lparr>cp_prefix = ''crm.'', cp_target = ''odoo-19'', cp_capability = ''ODOO_WRITE'', cp_readback_required = True\<rparr>] [(''ODOO_WRITE'', False)]"
  let ?ps = "[\<lparr>cp_prefix = ''test.syn.'', cp_target = ''test-syn'', cp_capability = ''TEST_SYN_EXECUTE'', cp_readback_required = True\<rparr>]"
  let ?reg' = "make_registry (pr_policies ?reg @ ?ps) (dict_merge (pr_capabilities ?reg) [(''TEST_SYN_EXECUTE'', True)])"
  have e: "extended ?reg ?ps [(''TEST_SYN_EXECUTE'', True)] = Inr ?reg'"
    by (simp add: extended_def make_registry_def)
  have "map_of (pr_capabilities ?reg) ''ODOO_WRITE'' = Some False"
    by (simp add: make_registry_def)
  then have "map_of (pr_capabilities ?reg') ''ODOO_WRITE'' = Some False"
    using extended_never_reowns [OF e] by blast
  with e show ?thesis unfolding Let_def by blast
qed

lemma authenticated_payload_eq:
  "authenticated_command_payload c client = envelope_json c @ [(AUTHENTICATED_CLIENT_ID_KEY, JStr client)]"
  by (simp add: authenticated_command_payload_def envelope_json_def AUTHENTICATED_CLIENT_ID_KEY_def)

text \<open>The durable payload is faithful: dropping the provenance key gives the envelope back.\<close>

lemma command_envelope_roundtrip:
  assumes "valid_envelope h c"
  shows "command_envelope_from_payload h (authenticated_command_payload c client) = Some c"
proof -
  have "filter (\<lambda>(k, v). k \<noteq> AUTHENTICATED_CLIENT_ID_KEY) (authenticated_command_payload c client) = envelope_json c"
    by (simp add: authenticated_payload_eq envelope_json_def AUTHENTICATED_CLIENT_ID_KEY_def)
  then show ?thesis
    using assms by (cases c) (simp add: command_envelope_from_payload_def Let_def envelope_json_def
        str_field_def envelope_fields_def uuid_parse_str)
qed

lemma sample_envelope_valid: "valid_envelope sample_host sample_envelope"
  by (simp add: valid_envelope_def sample_host_def sample_envelope_def command_type_pattern_def kebab_def
      segmented_def capability_pattern_def lower_alnum_def upper_alnum_def Let_def)

end
