(* ===== verification/Machines.thy ===== *)
theory Machines
  imports Py_Prelude
begin

text \<open>
  The interface every stateful component of the development offers to its properties: an
  initial condition, a step relation and an invariant. Reachability is one inductive
  predicate over any such machine; the locale \<open>machine_invariant\<close> states what a component
  has to show once (the invariant holds initially and every step keeps it) and gives the
  invariant of all reachable states back.
\<close>

inductive reach :: "('s \<Rightarrow> bool) \<Rightarrow> ('s \<Rightarrow> 's \<Rightarrow> bool) \<Rightarrow> 's \<Rightarrow> bool"
  for init :: "'s \<Rightarrow> bool" and step :: "'s \<Rightarrow> 's \<Rightarrow> bool" where
  reach_init: "init s \<Longrightarrow> reach init step s"
| reach_step: "reach init step s \<Longrightarrow> step s t \<Longrightarrow> reach init step t"

text \<open>Finite runs from a given state.\<close>

inductive run :: "('s \<Rightarrow> 's \<Rightarrow> bool) \<Rightarrow> 's \<Rightarrow> 's \<Rightarrow> bool"
  for step :: "'s \<Rightarrow> 's \<Rightarrow> bool" where
  run_refl: "run step s s"
| run_step: "run step s t \<Longrightarrow> step t u \<Longrightarrow> run step s u"

lemma run_keeps:
  assumes "run step s t" and "I s" and "\<And>s t. step s t \<Longrightarrow> I s \<Longrightarrow> I t"
  shows "I t"
  using assms by (induction rule: run.induct) auto

lemma reach_run: "reach init step s \<Longrightarrow> run step s t \<Longrightarrow> reach init step t"
  by (rule run_keeps [of step s t "reach init step"]) (auto intro: reach_step)

locale machine_invariant =
  fixes init :: "'s \<Rightarrow> bool" and step :: "'s \<Rightarrow> 's \<Rightarrow> bool" and inv :: "'s \<Rightarrow> bool"
  assumes inv_init: "init s \<Longrightarrow> inv s"
    and inv_step: "step s t \<Longrightarrow> inv s \<Longrightarrow> inv t"
begin

lemma reach_inv: "reach init step s \<Longrightarrow> inv s"
  by (induction rule: reach.induct) (auto intro: inv_init inv_step)

lemma run_inv: "run step s t \<Longrightarrow> inv s \<Longrightarrow> inv t"
  by (erule run_keeps) (auto intro: inv_step)

end

text \<open>
  A machine with a quantity that no step lowers (a version, a count of admissions, a kill
  switch): what holds of one step holds of every run.
\<close>

locale machine_monotone =
  fixes step :: "'s \<Rightarrow> 's \<Rightarrow> bool" and rel :: "'s \<Rightarrow> 's \<Rightarrow> bool"
  assumes rel_refl: "rel s s"
    and rel_trans: "rel s t \<Longrightarrow> rel t u \<Longrightarrow> rel s u"
    and rel_step: "step s t \<Longrightarrow> rel s t"
begin

lemma run_rel: "run step s t \<Longrightarrow> rel s t"
  by (induction rule: run.induct) (auto intro: rel_refl rel_trans rel_step)

end

end
