(* ===== verification/Command_Store.thy ===== *)
theory Command_Store
  imports Command_Model Machines "HOL-Library.Product_Lexorder"
begin

text \<open>
  \<open>MemoryCommandStore\<close> of \<open>app/commands.py\<close>, operation by operation, and the
  \<open>CommandService\<close> that fronts it. The store is a record of the source's dictionaries and
  its outbox list; every operation is a program on it. \<open>now\<close> is the reading of
  \<open>datetime.now()\<close> the operation takes.

  \<open>transition\<close>, \<open>mutate_operation\<close> and \<open>reconcile\<close> index \<open>_events\<close> and \<open>_attempts\<close> with the key
  of a command they have just found; \<open>submit\<close> creates those entries together with the
  command and nothing removes them (\<open>Ledger_Invariants\<close> proves it), so the lookups are
  written with an empty default.
\<close>

type_synonym op_key = "string \<times> uuid"

datatype mutation_action = ActCancel | ActReconcile | ActRetry

fun action_str :: "mutation_action \<Rightarrow> string" where
  "action_str ActCancel = ''cancel''"
| "action_str ActReconcile = ''reconcile''"
| "action_str ActRetry = ''retry''"

record command_store =
  cs_commands :: "(op_key, string \<times> command_operation) dict"
  cs_idempotency :: "(string \<times> string, string \<times> command_operation) dict"
  cs_events :: "(op_key, operation_event list) dict"
  cs_attempts :: "(op_key, operation_attempt list) dict"
  cs_mutations :: "(string \<times> uuid \<times> mutation_action \<times> string \<times> string, string \<times> command_operation) dict"
  cs_payloads :: "(op_key, json_object) dict"
  cs_outbox :: "outbox_intent list"
  cs_dead_letters :: "(op_key, dead_letter_record) dict"
  cs_replays :: "(op_key, replay_record) dict"
  cs_replay_keys :: "(string \<times> uuid \<times> string, uuid) dict"

definition empty_store :: command_store where
  "empty_store = \<lparr>cs_commands = [], cs_idempotency = [], cs_events = [], cs_attempts = [],
     cs_mutations = [], cs_payloads = [], cs_outbox = [], cs_dead_letters = [], cs_replays = [],
     cs_replay_keys = []\<rparr>"

definition events_at :: "command_store \<Rightarrow> op_key \<Rightarrow> operation_event list" where
  "events_at st key = (case map_of (cs_events st) key of None \<Rightarrow> [] | Some evs \<Rightarrow> evs)"

definition attempts_at :: "command_store \<Rightarrow> op_key \<Rightarrow> operation_attempt list" where
  "attempts_at st key = (case map_of (cs_attempts st) key of None \<Rightarrow> [] | Some ats \<Rightarrow> ats)"

definition entry_at :: "command_store \<Rightarrow> op_key \<Rightarrow> (string \<times> command_operation) option" where
  "entry_at st key = map_of (cs_commands st) key"

definition not_found :: exc where
  "not_found = Exc CommandNotFound ''command operation was not found''"

subsection \<open>Submission\<close>

definition store_submit :: "host \<Rightarrow> int \<Rightarrow> command_envelope \<Rightarrow> string \<Rightarrow> string \<Rightarrow> json_object option
    \<Rightarrow> (string, string) dict option \<Rightarrow> (command_store, command_operation) prog" where
  "store_submit h now c client destination evidence trace st =
     (if destination \<notin> set COMMAND_DESTINATIONS
      then (Inl (Exc CommandConflict (''unsupported command destination '' @ destination)), st)
      else
       let digest = authenticated_command_digest h c client;
           command_key = (ce_tenant_id c, ce_command_id c);
           idempotency_key = (ce_tenant_id c, ce_idempotency_key c);
           existing_by_id = entry_at st command_key;
           existing_by_idempotency = map_of (cs_idempotency st) idempotency_key
       in if (case (existing_by_id, existing_by_idempotency) of
                (Some e1, Some e2) \<Rightarrow> co_command_id (snd e1) \<noteq> co_command_id (snd e2) | _ \<Rightarrow> False)
          then (Inl (Exc CommandConflict ''command and idempotency identities refer to different operations''), st)
          else
            (case (if existing_by_id \<noteq> None then existing_by_id else existing_by_idempotency) of
               Some existing \<Rightarrow>
                 (if \<not> command_digest_matches h (fst existing) c client
                  then (Inl (Exc CommandConflict ''command identity was reused with different content''), st)
                  else (Inr ((snd existing)\<lparr>co_duplicate := True\<rparr>), st))
             | None \<Rightarrow>
                 (let operation = new_operation c now;
                      entry = (digest, operation);
                      event = \<lparr>ev_event_id = 1, ev_operation_id = ce_command_id c, ev_previous_state = None,
                        ev_new_state = Persisted, ev_actor_id = ce_requested_by c,
                        ev_reason = ''validated command and persisted delivery intent'',
                        ev_safe_metadata = dict_merge [(''authenticated_client_id'', JStr client)]
                          (redact_mapping (case evidence of None \<Rightarrow> [] | Some d \<Rightarrow> d)),
                        ev_created_at = now\<rparr>;
                      payload = authenticated_command_payload c client;
                      intent_payload = (case trace of
                          Some (t # ts) \<Rightarrow> AList.update ''_trace''
                            (JObj (map (\<lambda>(k, v). (k, JStr v)) (t # ts))) payload
                        | _ \<Rightarrow> payload);
                      intent = new_intent (length (cs_outbox st) + 1) (ce_tenant_id c)
                        (uuid_str (ce_command_id c)) destination (ce_command_type c)
                        (ce_idempotency_key c) intent_payload
                  in (Inr operation,
                      st\<lparr>cs_commands := AList.update command_key entry (cs_commands st),
                         cs_idempotency := AList.update idempotency_key entry (cs_idempotency st),
                         cs_events := AList.update command_key [event] (cs_events st),
                         cs_attempts := AList.update command_key [] (cs_attempts st),
                         cs_payloads := AList.update command_key payload (cs_payloads st),
                         cs_outbox := cs_outbox st @ [intent]\<rparr>))))"

subsection \<open>Reads\<close>

definition store_get :: "string \<Rightarrow> uuid \<Rightarrow> (command_store, command_operation) prog" where
  "store_get tenant cid st =
     (case entry_at st (tenant, cid) of
        None \<Rightarrow> (Inl not_found, st)
      | Some entry \<Rightarrow> (Inr (snd entry), st))"

definition adapter_intents :: "command_store \<Rightarrow> string \<Rightarrow> uuid \<Rightarrow> outbox_intent list" where
  "adapter_intents st tenant cid =
     filter (\<lambda>i. oi_tenant_id i = tenant \<and> oi_command_id i = uuid_str cid) (cs_outbox st)"

definition latest_attempt :: "string \<Rightarrow> uuid \<Rightarrow> (command_store, nat) prog" where
  "latest_attempt tenant cid =
     thenE (store_get tenant cid) (getsE (\<lambda>st. length (attempts_at st (tenant, cid))))"

definition load_envelope :: "host \<Rightarrow> string \<Rightarrow> uuid \<Rightarrow> (command_store, command_envelope) prog" where
  "load_envelope h tenant cid =
     thenE (store_get tenant cid)
       (\<lambda>st. case map_of (cs_payloads st) (tenant, cid) of
          None \<Rightarrow> (Inl (Exc KeyError (uuid_str cid)), st)
        | Some payload \<Rightarrow>
            (case command_envelope_from_payload h payload of
               None \<Rightarrow> (Inl (Exc ValueError ''persisted command payload is invalid''), st)
             | Some c \<Rightarrow> (Inr c, st)))"

definition store_backlog :: "string \<Rightarrow> (command_store, nat \<times> nat option) prog" where
  "store_backlog tenant st =
     (let active = filter (\<lambda>op. co_state op \<in> set ACTIVE_COMMAND_STATES)
            (map (\<lambda>(_, entry). snd entry) (cs_commands st))
      in (Inr (length (filter (\<lambda>op. co_tenant_id op = tenant) active), Some (length active)), st))"

definition list_operations :: "string \<Rightarrow> nat \<Rightarrow> (int \<times> uuid) option \<Rightarrow> command_state option \<Rightarrow> string option
    \<Rightarrow> (command_store, command_operation list) prog" where
  "list_operations tenant limit position state command_type st =
     (let rows0 = map (\<lambda>(_, entry). snd entry) (filter (\<lambda>((t, _), _). t = tenant) (cs_commands st));
          rows1 = (case state of None \<Rightarrow> rows0 | Some s \<Rightarrow> filter (\<lambda>r. co_state r = s) rows0);
          rows2 = (case command_type of None \<Rightarrow> rows1 | Some ct \<Rightarrow> filter (\<lambda>r. co_command_type r = ct) rows1);
          rows3 = sort_key (\<lambda>r. (- co_created_at r, - uint (co_command_id r))) rows2;
          rows4 = (case position of None \<Rightarrow> rows3
                   | Some (t, u) \<Rightarrow> filter (\<lambda>r. (co_created_at r, uint (co_command_id r)) < (t, uint u)) rows3)
      in (Inr (take limit rows4), st))"

definition list_events :: "string \<Rightarrow> uuid \<Rightarrow> nat \<Rightarrow> (int \<times> nat) option \<Rightarrow> (command_store, operation_event list) prog" where
  "list_events tenant cid limit position =
     thenE (store_get tenant cid)
       (getsE (\<lambda>st.
          let rows0 = events_at st (tenant, cid);
              rows1 = (case position of None \<Rightarrow> rows0
                       | Some pos \<Rightarrow> filter (\<lambda>r. (ev_created_at r, ev_event_id r) > pos) rows0)
          in map (\<lambda>r. r\<lparr>ev_safe_metadata := redact_mapping (ev_safe_metadata r)\<rparr>) (take limit rows1)))"

definition list_attempts :: "string \<Rightarrow> uuid \<Rightarrow> nat \<Rightarrow> (nat \<times> nat) option \<Rightarrow> (command_store, operation_attempt list) prog" where
  "list_attempts tenant cid limit position =
     thenE (store_get tenant cid)
       (getsE (\<lambda>st.
          let rows0 = attempts_at st (tenant, cid);
              rows1 = (case position of None \<Rightarrow> rows0
                       | Some pos \<Rightarrow> filter (\<lambda>r. (at_attempt_number r, at_attempt_id r) > pos) rows0)
          in take limit rows1))"

subsection \<open>Writes shared by the state changes\<close>

definition append_event :: "op_key \<Rightarrow> command_state option \<Rightarrow> command_state \<Rightarrow> string \<Rightarrow> string \<Rightarrow> json_object
    \<Rightarrow> int \<Rightarrow> command_store \<Rightarrow> command_store" where
  "append_event key prev new actor reason meta now st =
     (let evs = events_at st key;
          ev = \<lparr>ev_event_id = length evs + 1, ev_operation_id = snd key, ev_previous_state = prev,
                ev_new_state = new, ev_actor_id = actor, ev_reason = reason, ev_safe_metadata = meta,
                ev_created_at = now\<rparr>
      in st\<lparr>cs_events := AList.update key (evs @ [ev]) (cs_events st)\<rparr>)"

definition map_last :: "('a \<Rightarrow> 'a) \<Rightarrow> 'a list \<Rightarrow> 'a list" where
  "map_last f xs = (if xs = [] then [] else butlast xs @ [f (last xs)])"

definition update_intents :: "string \<Rightarrow> uuid \<Rightarrow> (outbox_intent \<Rightarrow> outbox_intent) \<Rightarrow> command_store \<Rightarrow> command_store" where
  "update_intents tenant cid f st =
     st\<lparr>cs_outbox := map (\<lambda>i. if oi_tenant_id i = tenant \<and> oi_command_id i = uuid_str cid then f i else i)
          (cs_outbox st)\<rparr>"

subsection \<open>Reconciliation verdicts\<close>

definition store_reconcile :: "host \<Rightarrow> int \<Rightarrow> string \<Rightarrow> uuid \<Rightarrow> bool \<Rightarrow> string \<Rightarrow> string \<Rightarrow> string option
    \<Rightarrow> json_object \<Rightarrow> nat option \<Rightarrow> (command_store, command_operation) prog" where
  "store_reconcile h now tenant cid matched actor reason provider_id evidence expected_version st =
     (let key = (tenant, cid) in
      case entry_at st key of
        None \<Rightarrow> (Inl not_found, st)
      | Some (digest, operation) \<Rightarrow>
        if co_state operation \<noteq> ReconciliationRequired
        then (Inl (Exc CommandConflict ''operation is no longer awaiting reconciliation''), st)
        else if expected_version \<noteq> None \<and> co_resource_version operation \<noteq> the expected_version
        then (Inl (Exc CommandConflict ''expected_version is stale''), st)
        else
         (let evidence_digest = provider_evidence_digest h evidence;
              updated = operation\<lparr>
                co_state := (if matched then Completed else ReconciliationRequired),
                co_provider_operation_id := or_str provider_id (co_provider_operation_id operation),
                co_readback_evidence := Some evidence,
                co_readback_evidence_sha256 := Some evidence_digest,
                co_last_error := (if matched then None else Some (take 2048 reason)),
                co_reconciliation_reason :=
                  (if matched then co_reconciliation_reason operation else Some (take 2048 reason)),
                co_resource_version := co_resource_version operation + 1,
                co_updated_at := now\<rparr>;
              st1 = st\<lparr>cs_commands := AList.update key (digest, updated) (cs_commands st),
                cs_idempotency := AList.update (tenant, co_idempotency_key updated) (digest, updated)
                  (cs_idempotency st)\<rparr>;
              st2 = append_event key (Some ReconciliationRequired) (co_state updated) actor (take 2048 reason)
                [(''provider_operation_id'', opt_str provider_id),
                 (''readback_evidence_sha256'', JStr evidence_digest),
                 (''reconciliation_status'', JStr (if matched then ''matched'' else ''mismatch''))] now st1;
              st3 = st2\<lparr>cs_attempts := AList.update key
                (map_last (\<lambda>a. a\<lparr>at_state := co_state updated,
                   at_provider_operation_id := or_str provider_id (at_provider_operation_id a),
                   at_safe_error_code := (if matched then None else Some ''provider_readback_mismatch''),
                   at_finished_at := Some now\<rparr>) (attempts_at st2 key)) (cs_attempts st2)\<rparr>
          in (Inr updated, st3)))"

subsection \<open>Operator mutations\<close>

definition mutation_digest :: "host \<Rightarrow> nat \<Rightarrow> string \<Rightarrow> string" where
  "mutation_digest h expected_version reason =
     sha256 h (json_dumps (JObj [(''expected_version'', JInt (int expected_version)), (''reason'', JStr reason)]))"

definition active_lease :: "outbox_intent list \<Rightarrow> bool" where
  "active_lease intents \<longleftrightarrow> list_ex (\<lambda>i. oi_lease_owner i \<noteq> None \<and> oi_completed_at i = None) intents"

definition cancel_intent :: "outbox_intent \<Rightarrow> outbox_intent" where
  "cancel_intent i =
     (if oi_completed_at i = None \<and> oi_lease_owner i = None \<and> oi_cancelled_at i = None
      then i\<lparr>oi_cancelled_at := Some 0\<rparr> else i)"

definition quarantine_intent :: "outbox_intent \<Rightarrow> outbox_intent" where
  "quarantine_intent i =
     (if oi_completed_at i = None \<and> oi_dead_lettered_at i = None \<and> oi_cancelled_at i = None
      then i\<lparr>oi_reconciliation_required_at :=
               (if oi_reconciliation_required_at i = None then Some 0 else oi_reconciliation_required_at i),
             oi_lease_owner := None, oi_lease_until := None\<rparr>
      else i)"

definition retry_intent :: "host \<Rightarrow> command_store \<Rightarrow> string \<Rightarrow> uuid \<Rightarrow> string \<Rightarrow> string \<Rightarrow> string \<Rightarrow> outbox_intent" where
  "retry_intent h st tenant cid command_type actor ikey =
     (let intents = adapter_intents st tenant cid;
          work_key = ''operation-retry:'' @ sha256 h (tenant @ '':'' @ uuid_str cid @ '':'' @ actor @ '':'' @ ikey)
      in new_intent (length (cs_outbox st) + 1) tenant (uuid_str cid)
           (if intents = [] then TEMPORAL_COMMAND_DESTINATION else oi_destination (last intents))
           command_type work_key
           (if intents = [] then [(''command_id'', JStr (uuid_str cid))] else oi_payload (last intents)))"

text \<open>The branch on \<open>action\<close>: the updates of the operation, and the store with the outbox changed.\<close>

definition apply_action :: "host \<Rightarrow> int \<Rightarrow> mutation_action \<Rightarrow> string \<Rightarrow> uuid \<Rightarrow> string \<Rightarrow> string \<Rightarrow> string
    \<Rightarrow> command_operation \<Rightarrow> command_store \<Rightarrow> exc + (command_operation \<times> command_store)" where
  "apply_action h now action tenant cid actor ikey reason operation st =
     (case action of
        ActCancel \<Rightarrow>
          (if co_state operation \<in> set [Completed, Failed, ReconciliationRequired, DeadLettered, Cancelled]
           then Inl (Exc CommandConflict ''operation is not cancellable'')
           else
            (let state = (if co_state operation \<in> set [Persisted, Queued]
                             \<and> \<not> active_lease (adapter_intents st tenant cid)
                          then Cancelled else ReconciliationRequired);
                 operation' = operation\<lparr>co_state := state,
                   co_cancelled_at := (if state = Cancelled then Some now else None),
                   co_cancellation_reason := Some reason\<rparr>
             in Inr (operation',
                  if state = Cancelled then update_intents tenant cid cancel_intent st else st)))
      | ActReconcile \<Rightarrow>
          (if co_state operation \<notin> set [Dispatching, Accepted, ReadbackPending, ReconciliationRequired]
           then Inl (Exc CommandConflict ''operation is not reconcilable'')
           else Inr (operation\<lparr>co_state := ReconciliationRequired,
                  co_reconciliation_requested_at := Some now, co_reconciliation_reason := Some reason\<rparr>,
                update_intents tenant cid quarantine_intent st))
      | ActRetry \<Rightarrow>
          (if co_state operation \<noteq> Failed
           then Inl (Exc CommandConflict ''operation is not safely retryable'')
           else Inr (operation\<lparr>co_state := Queued, co_last_error := None\<rparr>,
                st\<lparr>cs_outbox := cs_outbox st @
                  [retry_intent h st tenant cid (co_command_type operation) actor ikey]\<rparr>)))"

definition mutate_operation :: "host \<Rightarrow> int \<Rightarrow> string \<Rightarrow> uuid \<Rightarrow> mutation_action \<Rightarrow> string \<Rightarrow> string \<Rightarrow> nat
    \<Rightarrow> string \<Rightarrow> string option \<Rightarrow> (command_store, command_operation) prog" where
  "mutate_operation h now tenant cid action actor ikey expected_version reason mutation_correlation_id st =
     (let key = (tenant, cid) in
      case entry_at st key of
        None \<Rightarrow> (Inl not_found, st)
      | Some (digest, operation) \<Rightarrow>
        (let request_digest = mutation_digest h expected_version reason;
             mutation_key = (tenant, cid, action, actor, ikey)
         in case map_of (cs_mutations st) mutation_key of
              Some (seen_digest, seen) \<Rightarrow>
                if seen_digest \<noteq> request_digest
                then (Inl (Exc CommandConflict ''idempotency key was reused with different mutation content''), st)
                else (Inr (seen\<lparr>co_duplicate := True\<rparr>), st)
            | None \<Rightarrow>
                if co_resource_version operation \<noteq> expected_version
                then (Inl (Exc CommandConflict ''expected_version is stale''), st)
                else
                 (case apply_action h now action tenant cid actor ikey reason operation st of
                    Inl e \<Rightarrow> (Inl e, st)
                  | Inr (operation', st') \<Rightarrow>
                     (let updated = operation'\<lparr>co_resource_version := co_resource_version operation + 1,
                            co_updated_at := now\<rparr>;
                          st1 = st'\<lparr>cs_commands := AList.update key (digest, updated) (cs_commands st')\<rparr>;
                          st2 = append_event key (Some (co_state operation)) (co_state updated) actor reason
                            (dict_merge [(''action'', JStr (action_str action)),
                                (''resource_version'', JInt (int (co_resource_version updated)))]
                              (mutation_evidence mutation_correlation_id)) now st1
                      in (Inr updated,
                          st2\<lparr>cs_mutations := AList.update mutation_key (request_digest, updated)
                            (cs_mutations st2)\<rparr>)))))"

subsection \<open>Worker transitions\<close>

definition store_transition :: "host \<Rightarrow> int \<Rightarrow> string \<Rightarrow> uuid \<Rightarrow> command_state \<Rightarrow> string \<Rightarrow> string
    \<Rightarrow> string option \<Rightarrow> json_object option \<Rightarrow> nat option \<Rightarrow> (command_store, command_operation) prog" where
  "store_transition h now tenant cid new_state actor reason provider_id evidence expected_attempt st =
     (if evidence \<noteq> None \<and> new_state \<notin> set [Completed, ReconciliationRequired]
      then (Inl (Exc CommandConflict ''read-back evidence may be persisted only on completion or reconciliation''), st)
      else
       let key = (tenant, cid) in
       case entry_at st key of
         None \<Rightarrow> (Inl not_found, st)
       | Some (digest, operation) \<Rightarrow>
         if expected_attempt \<noteq> None \<and> new_state \<noteq> Dispatching
            \<and> length (attempts_at st key) \<noteq> the expected_attempt
         then (Inl (Exc CommandConflict ''stale attempt fencing token''), st)
         else if new_state \<notin> set (ALLOWED_COMMAND_TRANSITIONS (co_state operation))
         then (Inl (Exc CommandConflict (''invalid command transition '' @ state_str (co_state operation)
                @ '' -> '' @ state_str new_state)), st)
         else
          (let failure = (new_state \<in> set [Failed, ReconciliationRequired]);
               updated = operation\<lparr>
                 co_state := new_state,
                 co_provider_operation_id := or_str provider_id (co_provider_operation_id operation),
                 co_readback_evidence :=
                   (if evidence \<noteq> None then evidence else co_readback_evidence operation),
                 co_readback_evidence_sha256 :=
                   (case evidence of Some ev \<Rightarrow> Some (provider_evidence_digest h ev)
                    | None \<Rightarrow> co_readback_evidence_sha256 operation),
                 co_last_error := (if failure then Some reason else None),
                 co_updated_at := now\<rparr>;
               st1 = st\<lparr>cs_commands := AList.update key (digest, updated) (cs_commands st),
                 cs_idempotency := AList.update (tenant, co_idempotency_key updated) (digest, updated)
                   (cs_idempotency st)\<rparr>;
               st2 = append_event key (Some (co_state operation)) new_state actor (take 2048 reason)
                 [(''provider_operation_id'', opt_str provider_id)] now st1;
               attempts = attempts_at st2 key;
               attempts' =
                 (if new_state = Dispatching
                  then attempts @ [\<lparr>at_attempt_id = length attempts + 1, at_operation_id = cid,
                         at_attempt_number = length attempts + 1, at_state = new_state,
                         at_provider_operation_id = provider_id, at_safe_error_code = None,
                         at_started_at = now, at_finished_at = None\<rparr>]
                  else map_last (\<lambda>a. a\<lparr>at_state := new_state,
                         at_provider_operation_id := or_str provider_id (at_provider_operation_id a),
                         at_safe_error_code := (if failure then Some ''operation_failed'' else None),
                         at_finished_at :=
                           (if new_state \<in> set [Completed, Failed, ReconciliationRequired] then Some now else None)\<rparr>)
                       attempts)
           in (Inr updated, st2\<lparr>cs_attempts := AList.update key attempts' (cs_attempts st2)\<rparr>)))"

subsection \<open>Dead letters and replays\<close>

definition record_dead_letter :: "int \<Rightarrow> string \<Rightarrow> uuid \<Rightarrow> string \<Rightarrow> string \<Rightarrow> string \<Rightarrow> bool \<Rightarrow> bool
    \<Rightarrow> (command_store, dead_letter_record) prog" where
  "record_dead_letter now tenant cid reason_code error_class terminal_reason poisoned retry_exhausted =
     bindE (store_get tenant cid) (\<lambda>operation st.
       let key = (tenant, cid) in
       case map_of (cs_dead_letters st) key of
         Some existing \<Rightarrow> (Inr existing, st)
       | None \<Rightarrow>
         (let row = \<lparr>dl_dead_letter_id = length (cs_dead_letters st) + 1, dl_tenant_id = tenant,
                dl_command_id = cid, dl_attempt_number = length (attempts_at st key),
                dl_reason_code = reason_code, dl_error_class = error_class,
                dl_terminal_reason = take 2048 terminal_reason,
                dl_correlation_id = co_correlation_id operation, dl_principal_id = co_requested_by operation,
                dl_capability = co_capability operation, dl_poisoned = poisoned,
                dl_retry_exhausted = retry_exhausted, dl_created_at = now\<rparr>
          in (Inr row, st\<lparr>cs_dead_letters := AList.update key row (cs_dead_letters st)\<rparr>)))"

definition list_dead_letters :: "string \<Rightarrow> nat \<Rightarrow> (command_store, dead_letter_record list) prog" where
  "list_dead_letters tenant limit = getsE (\<lambda>st.
     take limit (sort_key (\<lambda>r. (- dl_created_at r, - int (dl_dead_letter_id r)))
       (map snd (filter (\<lambda>((t, _), _). t = tenant) (cs_dead_letters st)))))"

definition get_dead_letter :: "string \<Rightarrow> uuid \<Rightarrow> (command_store, dead_letter_record) prog" where
  "get_dead_letter tenant cid st =
     (case map_of (cs_dead_letters st) (tenant, cid) of
        None \<Rightarrow> (Inl (Exc CommandNotFound ''dead-letter record was not found''), st)
      | Some row \<Rightarrow> (Inr row, st))"

definition create_replay :: "int \<Rightarrow> string \<Rightarrow> uuid \<Rightarrow> uuid \<Rightarrow> string \<Rightarrow> string \<Rightarrow> string \<Rightarrow> int option
    \<Rightarrow> (command_store, replay_record) prog" where
  "create_replay now tenant cid replay_id actor ikey reason scheduled_at =
     thenE (get_dead_letter tenant cid) (\<lambda>st.
       let key = (tenant, cid, ikey) in
       case map_of (cs_replay_keys st) key of
         Some existing_id \<Rightarrow>
           (case map_of (cs_replays st) (tenant, existing_id) of
              None \<Rightarrow> (Inl (Exc KeyError (uuid_str existing_id)), st)
            | Some existing \<Rightarrow>
                if rp_reason existing \<noteq> reason
                then (Inl (Exc CommandConflict ''replay idempotency key was reused with different content''), st)
                else (Inr existing, st))
       | None \<Rightarrow>
         (let row = \<lparr>rp_replay_id = replay_id, rp_tenant_id = tenant, rp_original_command_id = cid,
                rp_replay_command_id = None, rp_requested_by = actor, rp_idempotency_key = ikey,
                rp_reason = reason,
                rp_state = (if scheduled_at \<noteq> None then ReplayScheduled else ReplayRequested),
                rp_created_at = now, rp_scheduled_at = scheduled_at, rp_cancelled_at = None\<rparr>
          in (Inr row, st\<lparr>cs_replays := AList.update (tenant, replay_id) row (cs_replays st),
                cs_replay_keys := AList.update key replay_id (cs_replay_keys st)\<rparr>)))"

definition complete_replay :: "string \<Rightarrow> uuid \<Rightarrow> uuid \<Rightarrow> (command_store, replay_record) prog" where
  "complete_replay tenant replay_id replay_command_id st =
     (case map_of (cs_replays st) (tenant, replay_id) of
        None \<Rightarrow> (Inl (Exc CommandNotFound ''replay request was not found''), st)
      | Some row \<Rightarrow>
          if rp_state row = ReplayCancelled
          then (Inl (Exc CommandConflict ''cancelled replay cannot execute''), st)
          else (let updated = row\<lparr>rp_state := ReplaySubmitted, rp_replay_command_id := Some replay_command_id\<rparr>
                in (Inr updated, st\<lparr>cs_replays := AList.update (tenant, replay_id) updated (cs_replays st)\<rparr>)))"

definition cancel_replay :: "int \<Rightarrow> string \<Rightarrow> uuid \<Rightarrow> (command_store, replay_record) prog" where
  "cancel_replay now tenant replay_id st =
     (case map_of (cs_replays st) (tenant, replay_id) of
        None \<Rightarrow> (Inl (Exc CommandNotFound ''replay request was not found''), st)
      | Some row \<Rightarrow>
          if rp_state row \<notin> set [ReplayRequested, ReplayScheduled]
          then (Inl (Exc CommandConflict ''replay can only be cancelled before execution''), st)
          else (let updated = row\<lparr>rp_state := ReplayCancelled, rp_cancelled_at := Some now\<rparr>
                in (Inr updated, st\<lparr>cs_replays := AList.update (tenant, replay_id) updated (cs_replays st)\<rparr>)))"

definition list_replays :: "string \<Rightarrow> uuid \<Rightarrow> (command_store, replay_record list) prog" where
  "list_replays tenant cid =
     thenE (store_get tenant cid) (getsE (\<lambda>st.
       sort_key rp_created_at (map snd (filter (\<lambda>((t, _), row). t = tenant \<and> rp_original_command_id row = cid)
         (cs_replays st)))))"

subsection \<open>\<open>CommandService.submit\<close>\<close>

definition service_submit :: "host \<Rightarrow> int \<Rightarrow> policy_registry \<Rightarrow> command_envelope \<Rightarrow> string \<Rightarrow> string \<Rightarrow> string
    \<Rightarrow> json_object option \<Rightarrow> (string, string) dict option \<Rightarrow> (command_store, command_operation) prog" where
  "service_submit h now policies c subject client destination evidence trace st =
     (case validate_submission policies c subject client of
        Inl e \<Rightarrow> (Inl e, st)
      | Inr _ \<Rightarrow> store_submit h now c client destination evidence trace st)"

end
