(* ===== verification/Ledger_Invariants.thy ===== *)
theory Ledger_Invariants
  imports Command_Store
begin

text \<open>
  What the command ledger guarantees under every interleaving of its clients. Each store
  operation is atomic (it contains no suspension point), so the steps of the ledger are its
  operations, in any order, by anybody, with any arguments, together with the outbox
  bookkeeping of the workers. Every operation has one of three effects on the ledger
  proper: none, a new command, or one write to an existing command; the invariant is proved
  once per effect.
\<close>

subsection \<open>Steps\<close>

definition intent_identity :: "outbox_intent \<Rightarrow> nat \<times> string \<times> string \<times> string \<times> string \<times> string \<times> json_object" where
  "intent_identity i = (oi_id i, oi_tenant_id i, oi_command_id i, oi_destination i, oi_event_type i,
     oi_idempotency_key i, oi_payload i)"

text \<open>The operations of the store, each on behalf of one tenant.\<close>

inductive tenant_op :: "host \<Rightarrow> string \<Rightarrow> command_store \<Rightarrow> command_store \<Rightarrow> bool" for h :: host where
  to_submit: "valid_envelope h c \<Longrightarrow>
     tenant_op h (ce_tenant_id c) st (snd (store_submit h now c client destination evidence trace st))"
| to_transition: "tenant_op h tenant st
     (snd (store_transition h now tenant cid new_state actor reason pid ev expected st))"
| to_reconcile: "tenant_op h tenant st
     (snd (store_reconcile h now tenant cid matched actor reason pid evd ver st))"
| to_mutate: "tenant_op h tenant st
     (snd (mutate_operation h now tenant cid action actor ikey ver' reason mcid st))"
| to_dead_letter: "tenant_op h tenant st
     (snd (record_dead_letter now tenant cid reason_code error_class terminal_reason poisoned exhausted st))"
| to_create_replay: "tenant_op h tenant st (snd (create_replay now tenant cid rid actor ikey reason sched st))"
| to_complete_replay: "tenant_op h tenant st (snd (complete_replay tenant rid cid st))"
| to_cancel_replay: "tenant_op h tenant st (snd (cancel_replay now tenant rid st))"

text \<open>A step of the ledger: an operation, or a worker changing the bookkeeping of outbox rows.\<close>

inductive ledger_step :: "host \<Rightarrow> command_store \<Rightarrow> command_store \<Rightarrow> bool" for h :: host where
  ls_op: "tenant_op h tenant st st' \<Longrightarrow> ledger_step h st st'"
| ls_outbox: "map intent_identity ob = map intent_identity (cs_outbox st) \<Longrightarrow>
     ledger_step h st (st\<lparr>cs_outbox := ob\<rparr>)"

definition ledger_init :: "command_store \<Rightarrow> bool" where
  "ledger_init st \<longleftrightarrow> st = empty_store"

abbreviation ledger_reach :: "host \<Rightarrow> command_store \<Rightarrow> bool" where
  "ledger_reach h \<equiv> reach ledger_init (ledger_step h)"

subsection \<open>Legal edges and timelines\<close>

text \<open>The edges of the state machine: worker transitions, operator mutations, reconciliation verdicts.\<close>

definition legal_edge :: "command_state \<Rightarrow> command_state \<Rightarrow> bool" where
  "legal_edge a b \<longleftrightarrow> b \<in> set (ALLOWED_COMMAND_TRANSITIONS a)
     \<or> b = ReconciliationRequired \<and> a \<in> set (ReconciliationRequired # ACTIVE_COMMAND_STATES)
     \<or> a = ReconciliationRequired \<and> b = Completed"

fun chained :: "command_state \<Rightarrow> operation_event list \<Rightarrow> bool" where
  "chained s [] = True"
| "chained s (e # es) \<longleftrightarrow> ev_previous_state e = Some s \<and> legal_edge s (ev_new_state e) \<and> chained (ev_new_state e) es"

definition timeline_ok :: "operation_event list \<Rightarrow> command_state \<Rightarrow> bool" where
  "timeline_ok evs s \<longleftrightarrow>
     map ev_event_id evs = [1..<Suc (length evs)]
     \<and> (case evs of [] \<Rightarrow> False
        | e # es \<Rightarrow> ev_previous_state e = None \<and> ev_new_state e = Persisted \<and> chained Persisted es)
     \<and> ev_new_state (last evs) = s"

definition dispatches :: "operation_event list \<Rightarrow> nat" where
  "dispatches evs = length (filter (\<lambda>e. ev_new_state e = Dispatching) evs)"

definition same_identity :: "command_operation \<Rightarrow> command_operation \<Rightarrow> bool" where
  "same_identity a b \<longleftrightarrow> co_tenant_id a = co_tenant_id b \<and> co_command_id a = co_command_id b
     \<and> co_idempotency_key a = co_idempotency_key b \<and> co_command_type a = co_command_type b
     \<and> co_target a = co_target b \<and> co_capability a = co_capability b
     \<and> co_requested_by a = co_requested_by b \<and> co_correlation_id a = co_correlation_id b
     \<and> co_command_version a = co_command_version b \<and> co_created_at a = co_created_at b"

subsection \<open>The three effects\<close>

definition ledger_same :: "command_store \<Rightarrow> command_store \<Rightarrow> bool" where
  "ledger_same st st' \<longleftrightarrow> cs_commands st' = cs_commands st \<and> cs_idempotency st' = cs_idempotency st
     \<and> cs_events st' = cs_events st \<and> cs_attempts st' = cs_attempts st \<and> cs_payloads st' = cs_payloads st"

definition event_added :: "op_key \<Rightarrow> command_state \<Rightarrow> command_state \<Rightarrow> command_store \<Rightarrow> command_store \<Rightarrow> bool" where
  "event_added key a b st st' \<longleftrightarrow>
     (\<exists>ev. events_at st' = (events_at st)(key := events_at st key @ [ev])
        \<and> ev_event_id ev = Suc (length (events_at st key))
        \<and> ev_previous_state ev = Some a \<and> ev_new_state ev = b)"

definition op_write :: "op_key \<Rightarrow> command_store \<Rightarrow> command_store \<Rightarrow> bool" where
  "op_write key st st' \<longleftrightarrow>
     (\<exists>d op op'.
        entry_at st key = Some (d, op) \<and> same_identity op op'
        \<and> legal_edge (co_state op) (co_state op')
        \<and> co_resource_version op \<le> co_resource_version op'
        \<and> cs_commands st' = AList.update key (d, op') (cs_commands st)
        \<and> (cs_idempotency st' = cs_idempotency st
           \<or> cs_idempotency st' = AList.update (fst key, co_idempotency_key op') (d, op') (cs_idempotency st))
        \<and> event_added key (co_state op) (co_state op') st st'
        \<and> (\<forall>k. k \<noteq> key \<longrightarrow> attempts_at st' k = attempts_at st k)
        \<and> map at_attempt_number (attempts_at st' key) = map at_attempt_number (attempts_at st key)
            @ (if co_state op' = Dispatching then [Suc (length (attempts_at st key))] else [])
        \<and> cs_payloads st' = cs_payloads st)"

definition op_create :: "host \<Rightarrow> command_envelope \<Rightarrow> string \<Rightarrow> command_store \<Rightarrow> command_store \<Rightarrow> bool" where
  "op_create h c client st st' \<longleftrightarrow>
     (let key = (ce_tenant_id c, ce_command_id c) in
      \<exists>now ev.
        valid_envelope h c
        \<and> entry_at st key = None \<and> map_of (cs_idempotency st) (ce_tenant_id c, ce_idempotency_key c) = None
        \<and> cs_commands st' = cs_commands st @ [(key, (authenticated_command_digest h c client, new_operation c now))]
        \<and> cs_idempotency st' = cs_idempotency st @
            [((ce_tenant_id c, ce_idempotency_key c), (authenticated_command_digest h c client, new_operation c now))]
        \<and> events_at st' = (events_at st)(key := [ev])
        \<and> ev_event_id ev = 1 \<and> ev_previous_state ev = None \<and> ev_new_state ev = Persisted
        \<and> attempts_at st' = (attempts_at st)(key := [])
        \<and> cs_payloads st' = AList.update key (authenticated_command_payload c client) (cs_payloads st))"

lemma at_update [simp]:
  "events_at (st\<lparr>cs_events := AList.update key evs (cs_events st0)\<rparr>) = (events_at st0)(key := evs)"
  "attempts_at (st\<lparr>cs_attempts := AList.update key ats (cs_attempts st0)\<rparr>) = (attempts_at st0)(key := ats)"
  by (auto simp: events_at_def attempts_at_def fun_eq_iff)

lemma at_untouched [simp]:
  "events_at (st\<lparr>cs_commands := cm\<rparr>) = events_at st"
  "events_at (st\<lparr>cs_idempotency := ik\<rparr>) = events_at st"
  "events_at (st\<lparr>cs_attempts := ats\<rparr>) = events_at st"
  "events_at (st\<lparr>cs_mutations := mu\<rparr>) = events_at st"
  "events_at (st\<lparr>cs_payloads := pl\<rparr>) = events_at st"
  "events_at (st\<lparr>cs_outbox := ob\<rparr>) = events_at st"
  "attempts_at (st\<lparr>cs_commands := cm\<rparr>) = attempts_at st"
  "attempts_at (st\<lparr>cs_idempotency := ik\<rparr>) = attempts_at st"
  "attempts_at (st\<lparr>cs_events := evs\<rparr>) = attempts_at st"
  "attempts_at (st\<lparr>cs_mutations := mu\<rparr>) = attempts_at st"
  "attempts_at (st\<lparr>cs_payloads := pl\<rparr>) = attempts_at st"
  "attempts_at (st\<lparr>cs_outbox := ob\<rparr>) = attempts_at st"
  by (auto simp: events_at_def attempts_at_def fun_eq_iff)

lemma append_event_fields [simp]:
  "cs_commands (append_event key p n a r m now st) = cs_commands st"
  "cs_idempotency (append_event key p n a r m now st) = cs_idempotency st"
  "cs_attempts (append_event key p n a r m now st) = cs_attempts st"
  "attempts_at (append_event key p n a r m now st) = attempts_at st"
  "cs_payloads (append_event key p n a r m now st) = cs_payloads st"
  "cs_outbox (append_event key p n a r m now st) = cs_outbox st"
  "cs_dead_letters (append_event key p n a r m now st) = cs_dead_letters st"
  "cs_mutations (append_event key p n a r m now st) = cs_mutations st"
  by (auto simp: append_event_def Let_def attempts_at_def)

lemma append_event_events:
  "events_at (append_event key p n a r m now st) =
     (events_at st)(key := events_at st key @
       [\<lparr>ev_event_id = length (events_at st key) + 1, ev_operation_id = snd key, ev_previous_state = p,
         ev_new_state = n, ev_actor_id = a, ev_reason = r, ev_safe_metadata = m, ev_created_at = now\<rparr>])"
  by (auto simp: append_event_def Let_def events_at_def fun_eq_iff)

lemma event_addedI:
  assumes "events_at st' = (events_at st)(key := events_at st key @
    [\<lparr>ev_event_id = Suc (length (events_at st key)), ev_operation_id = i, ev_previous_state = Some a,
      ev_new_state = b, ev_actor_id = actor, ev_reason = r, ev_safe_metadata = m, ev_created_at = now\<rparr>])"
  shows "event_added key a b st st'"
  unfolding event_added_def assms by (rule exI, rule conjI, rule refl) simp

lemma map_last_numbers [simp]:
  "(\<And>a. at_attempt_number (f a) = at_attempt_number a) \<Longrightarrow>
   map at_attempt_number (map_last f ats) = map at_attempt_number ats"
  by (cases ats rule: rev_cases) (auto simp: map_last_def)

lemma update_intents_fields [simp]:
  "cs_commands (update_intents t c f st) = cs_commands st"
  "cs_idempotency (update_intents t c f st) = cs_idempotency st"
  "cs_events (update_intents t c f st) = cs_events st"
  "cs_attempts (update_intents t c f st) = cs_attempts st"
  "cs_payloads (update_intents t c f st) = cs_payloads st"
  "cs_mutations (update_intents t c f st) = cs_mutations st"
  by (auto simp: update_intents_def)

lemma apply_action_Inr:
  assumes "apply_action h now action tenant cid actor ikey reason op st = Inr (op', st')"
  shows "same_identity op op' \<and> legal_edge (co_state op) (co_state op') \<and> co_state op' \<noteq> Dispatching
    \<and> ledger_same st st' \<and> cs_mutations st' = cs_mutations st"
  using assms
  by (cases action; cases "co_state op")
    (auto simp: apply_action_def same_identity_def legal_edge_def ledger_same_def ACTIVE_COMMAND_STATES_def
      Let_def split: if_splits)

lemma store_transition_rejects:
  assumes "(ev \<noteq> None \<and> ns \<notin> set [Completed, ReconciliationRequired]) \<or> entry_at st (t, c) = None
    \<or> (x \<noteq> None \<and> ns \<noteq> Dispatching \<and> length (attempts_at st (t, c)) \<noteq> the x)
    \<or> ns \<notin> set (ALLOWED_COMMAND_TRANSITIONS (co_state (snd (the (entry_at st (t, c))))))"
  shows "(\<exists>e. fst (store_transition h now t c ns a r p ev x st) = Inl e)
    \<and> snd (store_transition h now t c ns a r p ev x st) = st"
  using assms by (cases "entry_at st (t, c)") (auto simp: store_transition_def Let_def)

lemma store_transition_accepts:
  fixes st h now t c ns a r p ev x
  defines "res \<equiv> store_transition h now t c ns a r p ev x st"
  assumes "ev \<noteq> None \<Longrightarrow> ns \<in> set [Completed, ReconciliationRequired]"
    and "x \<noteq> None \<Longrightarrow> ns \<noteq> Dispatching \<Longrightarrow> length (attempts_at st (t, c)) = the x"
    and "entry_at st (t, c) = Some (d, op)" and "ns \<in> set (ALLOWED_COMMAND_TRANSITIONS (co_state op))"
  shows "fst res = Inr (projr (fst res)) \<and> same_identity op (projr (fst res)) \<and> co_state (projr (fst res)) = ns
      \<and> co_resource_version (projr (fst res)) = co_resource_version op"
    and "cs_commands (snd res) = AList.update (t, c) (d, projr (fst res)) (cs_commands st)"
    and "cs_idempotency (snd res) =
           AList.update (t, co_idempotency_key (projr (fst res))) (d, projr (fst res)) (cs_idempotency st)"
    and "event_added (t, c) (co_state op) ns st (snd res)"
    and "map at_attempt_number (attempts_at (snd res) (t, c)) = map at_attempt_number (attempts_at st (t, c))
           @ (if ns = Dispatching then [Suc (length (attempts_at st (t, c)))] else [])"
    and "k \<noteq> (t, c) \<Longrightarrow> attempts_at (snd res) k = attempts_at st k"
    and "cs_payloads (snd res) = cs_payloads st" and "cs_outbox (snd res) = cs_outbox st"
proof -
  have ok: "\<not> (ev \<noteq> None \<and> ns \<notin> set [Completed, ReconciliationRequired])"
    "\<not> (x \<noteq> None \<and> ns \<noteq> Dispatching \<and> length (attempts_at st (t, c)) \<noteq> the x)"
    "\<not> ns \<notin> set (ALLOWED_COMMAND_TRANSITIONS (co_state op))"
    using assms(2,3,5) by blast+
  note eq = res_def store_transition_def if_not_P [OF ok(1)] assms(4) option.case prod.case
    if_not_P [OF ok(2)] if_not_P [OF ok(3)] Let_def
  show "fst res = Inr (projr (fst res)) \<and> same_identity op (projr (fst res)) \<and> co_state (projr (fst res)) = ns
      \<and> co_resource_version (projr (fst res)) = co_resource_version op"
    unfolding eq by (simp add: same_identity_def)
  show "cs_commands (snd res) = AList.update (t, c) (d, projr (fst res)) (cs_commands st)"
    unfolding eq by simp
  show "cs_idempotency (snd res) =
           AList.update (t, co_idempotency_key (projr (fst res))) (d, projr (fst res)) (cs_idempotency st)"
    unfolding eq by simp
  show "event_added (t, c) (co_state op) ns st (snd res)"
    unfolding eq by (rule event_addedI) (simp add: append_event_events)
  show "map at_attempt_number (attempts_at (snd res) (t, c)) = map at_attempt_number (attempts_at st (t, c))
           @ (if ns = Dispatching then [Suc (length (attempts_at st (t, c)))] else [])"
    unfolding eq by (simp add:)
  show "k \<noteq> (t, c) \<Longrightarrow> attempts_at (snd res) k = attempts_at st k"
    unfolding eq by (simp add:)
  show "cs_payloads (snd res) = cs_payloads st" "cs_outbox (snd res) = cs_outbox st"
    unfolding eq by simp_all
qed

lemma store_transition_effect:
  "ledger_same st (snd (store_transition h now t c ns a r p ev x st))
   \<or> op_write (t, c) st (snd (store_transition h now t c ns a r p ev x st))"
proof (cases "(ev \<noteq> None \<and> ns \<notin> set [Completed, ReconciliationRequired]) \<or> entry_at st (t, c) = None
    \<or> (x \<noteq> None \<and> ns \<noteq> Dispatching \<and> length (attempts_at st (t, c)) \<noteq> the x)
    \<or> ns \<notin> set (ALLOWED_COMMAND_TRANSITIONS (co_state (snd (the (entry_at st (t, c))))))")
  case True
  then have "snd (store_transition h now t c ns a r p ev x st) = st"
    using store_transition_rejects by blast
  then show ?thesis by (simp add: ledger_same_def)
next
  case False
  let ?res = "store_transition h now t c ns a r p ev x st"
  obtain d op where e: "entry_at st (t, c) = Some (d, op)" using False by auto
  note acc = store_transition_accepts [where h = h and now = now and a = a and r = r and p = p]
  have pre: "ev \<noteq> None \<Longrightarrow> ns \<in> set [Completed, ReconciliationRequired]"
    "x \<noteq> None \<Longrightarrow> ns \<noteq> Dispatching \<Longrightarrow> length (attempts_at st (t, c)) = the x"
    "ns \<in> set (ALLOWED_COMMAND_TRANSITIONS (co_state op))"
    using False e by auto
  note acc = acc [OF pre(1) pre(2) e pre(3)]
  have "op_write (t, c) st (snd ?res)"
    unfolding op_write_def
    by (rule exI [of _ d], rule exI [of _ op], rule exI [of _ "projr (fst ?res)"])
      (use acc e pre in \<open>auto simp: legal_edge_def\<close>)
  then show ?thesis ..
qed

lemma store_reconcile_effect:
  "ledger_same st (snd (store_reconcile h now t c m a r p evd v st))
   \<or> op_write (t, c) st (snd (store_reconcile h now t c m a r p evd v st))"
proof (cases "entry_at st (t, c)")
  case None
  then show ?thesis by (simp add: store_reconcile_def ledger_same_def)
next
  case (Some entry)
  obtain d op where e: "entry_at st (t, c) = Some (d, op)" using Some by (cases entry) auto
  let ?res = "store_reconcile h now t c m a r p evd v st"
  show ?thesis
  proof (cases "co_state op \<noteq> ReconciliationRequired \<or> (v \<noteq> None \<and> co_resource_version op \<noteq> the v)")
    case True
    then have "snd ?res = st" using e by (auto simp: store_reconcile_def Let_def)
    then show ?thesis by (simp add: ledger_same_def)
  next
    case False
    then have ok: "\<not> co_state op \<noteq> ReconciliationRequired" "\<not> (v \<noteq> None \<and> co_resource_version op \<noteq> the v)"
      by auto
    note eq = store_reconcile_def e option.case prod.case if_not_P [OF ok(1)] if_not_P [OF ok(2)] Let_def
    have st: "co_state op = ReconciliationRequired" using ok by simp
    have new: "same_identity op (projr (fst ?res))
        \<and> co_state (projr (fst ?res)) = (if m then Completed else ReconciliationRequired)
        \<and> co_resource_version op \<le> co_resource_version (projr (fst ?res))"
      unfolding eq by (simp add: same_identity_def)
    have dicts: "cs_commands (snd ?res) = AList.update (t, c) (d, projr (fst ?res)) (cs_commands st)"
      "cs_idempotency (snd ?res) =
         AList.update (t, co_idempotency_key (projr (fst ?res))) (d, projr (fst ?res)) (cs_idempotency st)"
      "cs_payloads (snd ?res) = cs_payloads st"
      unfolding eq by simp_all
    have ev: "event_added (t, c) (co_state op) (co_state (projr (fst ?res))) st (snd ?res)"
      unfolding eq st by (rule event_addedI) (simp add: append_event_events)
    have at: "map at_attempt_number (attempts_at (snd ?res) (t, c)) = map at_attempt_number (attempts_at st (t, c))"
      "k \<noteq> (t, c) \<Longrightarrow> attempts_at (snd ?res) k = attempts_at st k" for k
      unfolding eq by simp_all
    have "op_write (t, c) st (snd ?res)"
      unfolding op_write_def
      by (rule exI [of _ d], rule exI [of _ op], rule exI [of _ "projr (fst ?res)"])
        (use new dicts ev at e st in \<open>auto simp: legal_edge_def\<close>)
    then show ?thesis ..
  qed
qed

lemma mutate_operation_effect:
  "ledger_same st (snd (mutate_operation h now t c act a ik v r mc st))
   \<or> op_write (t, c) st (snd (mutate_operation h now t c act a ik v r mc st))"
proof (cases "\<exists>d op op' st'. entry_at st (t, c) = Some (d, op) \<and> map_of (cs_mutations st) (t, c, act, a, ik) = None
    \<and> co_resource_version op = v \<and> apply_action h now act t c a ik r op st = Inr (op', st')")
  case False
  then have "snd (mutate_operation h now t c act a ik v r mc st) = st"
    by (auto simp: mutate_operation_def Let_def split: option.splits sum.splits prod.splits)
  then show ?thesis by (simp add: ledger_same_def)
next
  case True
  then obtain d op op' st' where e: "entry_at st (t, c) = Some (d, op)"
    "map_of (cs_mutations st) (t, c, act, a, ik) = None" "co_resource_version op = v"
    and app: "apply_action h now act t c a ik r op st = Inr (op', st')" by blast
  note act = apply_action_Inr [OF app]
  let ?st' = "snd (mutate_operation h now t c act a ik v r mc st)"
  define up where "up = op'\<lparr>co_resource_version := co_resource_version op + 1, co_updated_at := now\<rparr>"
  have same: "events_at st' = events_at st" "attempts_at st' = attempts_at st"
    using act by (auto simp: ledger_same_def events_at_def attempts_at_def fun_eq_iff)
  note eq = mutate_operation_def e app Let_def
  have dicts: "cs_commands ?st' = AList.update (t, c) (d, up) (cs_commands st)"
    "cs_idempotency ?st' = cs_idempotency st" "cs_payloads ?st' = cs_payloads st"
    "attempts_at ?st' = attempts_at st"
    using act same by (simp_all add: eq up_def ledger_same_def)
  have ev: "event_added (t, c) (co_state op) (co_state up) st ?st'"
    using same e app by (intro event_addedI) (simp add: mutate_operation_def Let_def up_def append_event_events)
  have "op_write (t, c) st ?st'"
    unfolding op_write_def
    by (rule exI [of _ d], rule exI [of _ op], rule exI [of _ up])
      (use act dicts ev e in \<open>auto simp: up_def same_identity_def\<close>)
  then show ?thesis ..
qed

lemma store_submit_effect:
  "ledger_same st (snd (store_submit h now c client dest evd tr st))
   \<or> op_create h c client st (snd (store_submit h now c client dest evd tr st))"
  if "valid_envelope h c"
proof (cases "dest \<in> set COMMAND_DESTINATIONS \<and> entry_at st (ce_tenant_id c, ce_command_id c) = None
    \<and> map_of (cs_idempotency st) (ce_tenant_id c, ce_idempotency_key c) = None")
  case False
  then have "snd (store_submit h now c client dest evd tr st) = st"
    by (auto simp: store_submit_def Let_def split: option.splits)
  then show ?thesis by (simp add: ledger_same_def)
next
  case True
  let ?st' = "snd (store_submit h now c client dest evd tr st)"
  let ?e = "(authenticated_command_digest h c client, new_operation c now)"
  have new: "map_of (cs_commands st) (ce_tenant_id c, ce_command_id c) = None"
    using True by (simp add: entry_at_def)
  have dicts:
    "cs_commands ?st' = cs_commands st @ [((ce_tenant_id c, ce_command_id c), ?e)]"
    "cs_idempotency ?st' = cs_idempotency st @ [((ce_tenant_id c, ce_idempotency_key c), ?e)]"
    "attempts_at ?st' = (attempts_at st)((ce_tenant_id c, ce_command_id c) := [])"
    "cs_payloads ?st' =
       AList.update (ce_tenant_id c, ce_command_id c) (authenticated_command_payload c client) (cs_payloads st)"
    using True new by (simp_all add: store_submit_def Let_def dict_update_new)
  have "op_create h c client st ?st'"
    unfolding op_create_def Let_def dicts
    by (rule exI [of _ now], rule exI [of _ "hd (events_at ?st' (ce_tenant_id c, ce_command_id c))"])
      (use that True in \<open>simp add: store_submit_def Let_def\<close>)
  then show ?thesis ..
qed

subsection \<open>The invariant\<close>

definition describes :: "host \<Rightarrow> json_object \<Rightarrow> string \<Rightarrow> command_operation \<Rightarrow> bool" where
  "describes h payload d op \<longleftrightarrow>
     (\<exists>c client. payload = authenticated_command_payload c client \<and> valid_envelope h c
        \<and> d = authenticated_command_digest h c client
        \<and> same_identity (new_operation c (co_created_at op)) op)"

definition entry_inv :: "host \<Rightarrow> command_store \<Rightarrow> op_key \<Rightarrow> string \<Rightarrow> command_operation \<Rightarrow> bool" where
  "entry_inv h st key d op \<longleftrightarrow>
     key = (co_tenant_id op, co_command_id op)
     \<and> timeline_ok (events_at st key) (co_state op)
     \<and> map at_attempt_number (attempts_at st key) = [1..<Suc (dispatches (events_at st key))]
     \<and> (\<exists>op0. map_of (cs_idempotency st) (fst key, co_idempotency_key op) = Some (d, op0) \<and> same_identity op op0)
     \<and> (\<exists>payload. map_of (cs_payloads st) key = Some payload \<and> describes h payload d op)"

definition ledger_inv :: "host \<Rightarrow> command_store \<Rightarrow> bool" where
  "ledger_inv h st \<longleftrightarrow>
     distinct (map fst (cs_commands st))
     \<and> (\<forall>key d op. entry_at st key = Some (d, op) \<longrightarrow> entry_inv h st key d op)
     \<and> (\<forall>t ik d op0. map_of (cs_idempotency st) (t, ik) = Some (d, op0) \<longrightarrow>
          co_idempotency_key op0 = ik
          \<and> (\<exists>op. entry_at st (t, co_command_id op0) = Some (d, op) \<and> same_identity op op0))"

lemma same_identity_refl [simp]: "same_identity a a"
  by (simp add: same_identity_def)

lemma same_identity_sym: "same_identity a b \<Longrightarrow> same_identity b a"
  by (simp add: same_identity_def)

lemma same_identity_trans: "same_identity a b \<Longrightarrow> same_identity b c \<Longrightarrow> same_identity a c"
  by (simp add: same_identity_def)

lemma describes_same: "describes h pl d op \<Longrightarrow> same_identity op op' \<Longrightarrow> describes h pl d op'"
  unfolding describes_def by (auto simp: same_identity_def new_operation_def)

declare upt_Suc [simp del]

lemma chained_snoc:
  "chained s (es @ [e]) \<longleftrightarrow> chained s es
     \<and> (let s' = (if es = [] then s else ev_new_state (last es))
        in ev_previous_state e = Some s' \<and> legal_edge s' (ev_new_state e))"
  by (induction s es rule: chained.induct) (auto simp: Let_def)

lemma timeline_ok_snoc:
  assumes "timeline_ok evs s" "ev_event_id e = Suc (length evs)" "ev_previous_state e = Some s"
    "legal_edge s (ev_new_state e)"
  shows "timeline_ok (evs @ [e]) (ev_new_state e)"
  using assms by (cases evs) (auto simp: timeline_ok_def chained_snoc Let_def upt_Suc split: if_splits)

lemma dispatches_snoc:
  "dispatches (evs @ [e]) = dispatches evs + (if ev_new_state e = Dispatching then 1 else 0)"
  by (simp add: dispatches_def)

lemma ledger_inv_entry: "ledger_inv h st \<Longrightarrow> entry_at st key = Some (d, op) \<Longrightarrow> entry_inv h st key d op"
  unfolding ledger_inv_def by blast

lemma ledger_inv_idem:
  "ledger_inv h st \<Longrightarrow> map_of (cs_idempotency st) (t, ik) = Some (d, op0) \<Longrightarrow>
     co_idempotency_key op0 = ik \<and> (\<exists>op. entry_at st (t, co_command_id op0) = Some (d, op) \<and> same_identity op op0)"
  unfolding ledger_inv_def by blast

lemma idem_key_unique:
  assumes "ledger_inv h st" "entry_at st k1 = Some (d1, op1)" "entry_at st k2 = Some (d2, op2)"
    and "fst k1 = fst k2" "co_idempotency_key op1 = co_idempotency_key op2"
  shows "k1 = k2"
proof -
  note inv1 = ledger_inv_entry [OF assms(1,2)] and inv2 = ledger_inv_entry [OF assms(1,3)]
  obtain a b where idem: "map_of (cs_idempotency st) (fst k1, co_idempotency_key op1) = Some (d1, a)"
    "same_identity op1 a" "map_of (cs_idempotency st) (fst k2, co_idempotency_key op2) = Some (d2, b)"
    "same_identity op2 b"
    using inv1 inv2 unfolding entry_inv_def by blast
  moreover have "k1 = (co_tenant_id op1, co_command_id op1)" "k2 = (co_tenant_id op2, co_command_id op2)"
    using inv1 inv2 unfolding entry_inv_def by blast+
  ultimately show ?thesis using assms(4,5) by (auto simp: same_identity_def)
qed

lemma entry_inv_cong:
  assumes "events_at st' k = events_at st k" "attempts_at st' k = attempts_at st k"
    "map_of (cs_idempotency st') (fst k, co_idempotency_key op) = map_of (cs_idempotency st) (fst k, co_idempotency_key op)"
    "map_of (cs_payloads st') k = map_of (cs_payloads st) k"
  shows "entry_inv h st' k d op = entry_inv h st k d op"
  unfolding entry_inv_def assms ..

lemma ledger_same_inv: "ledger_same st st' \<Longrightarrow> ledger_inv h st \<Longrightarrow> ledger_inv h st'"
proof -
  assume s: "ledger_same st st'" and inv: "ledger_inv h st"
  have "entry_at st' = entry_at st" "events_at st' = events_at st" "attempts_at st' = attempts_at st"
    using s by (auto simp: ledger_same_def entry_at_def events_at_def attempts_at_def fun_eq_iff)
  then show ?thesis
    using inv s unfolding ledger_inv_def entry_inv_def ledger_same_def by simp
qed

lemma op_write_entry_inv:
  assumes "op_write key st st'" "ledger_inv h st" "entry_at st' k = Some (d, op)"
  shows "entry_inv h st' k d op"
proof -
  obtain d0 op0 op' where w: "entry_at st key = Some (d0, op0)" "same_identity op0 op'"
    "legal_edge (co_state op0) (co_state op')"
    "cs_commands st' = AList.update key (d0, op') (cs_commands st)"
    and idem: "cs_idempotency st' = cs_idempotency st
      \<or> cs_idempotency st' = AList.update (fst key, co_idempotency_key op') (d0, op') (cs_idempotency st)"
    and ev: "event_added key (co_state op0) (co_state op') st st'"
    and at: "\<forall>k. k \<noteq> key \<longrightarrow> attempts_at st' k = attempts_at st k"
      "map at_attempt_number (attempts_at st' key) = map at_attempt_number (attempts_at st key)
            @ (if co_state op' = Dispatching then [Suc (length (attempts_at st key))] else [])"
    and pl: "cs_payloads st' = cs_payloads st"
    using assms(1) unfolding op_write_def by blast
  obtain e where e: "events_at st' = (events_at st)(key := events_at st key @ [e])"
    "ev_event_id e = Suc (length (events_at st key))" "ev_previous_state e = Some (co_state op0)"
    "ev_new_state e = co_state op'"
    using ev unfolding event_added_def by blast
  note inv0 = ledger_inv_entry [OF assms(2) w(1)]
  show ?thesis
  proof (cases "k = key")
    case True
    then have [simp]: "d = d0" "op = op'" using assms(3) w(4) by (simp_all add: entry_at_def)
    have piece: "timeline_ok (events_at st key) (co_state op0)"
      "map at_attempt_number (attempts_at st key) = [1..<Suc (dispatches (events_at st key))]"
      using inv0 unfolding entry_inv_def by blast+
    have tl: "timeline_ok (events_at st' key) (co_state op')"
      using timeline_ok_snoc [of "events_at st key" "co_state op0" e] piece(1) e w(3) by simp
    have len: "length (attempts_at st key) = dispatches (events_at st key)"
      using piece(2) by (metis length_map length_upt diff_Suc_1)
    have nums: "map at_attempt_number (attempts_at st' key) = [1..<Suc (dispatches (events_at st' key))]"
      using piece(2) at(2) e len by (simp add: dispatches_snoc upt_Suc)
    obtain o1 where o1: "map_of (cs_idempotency st) (fst key, co_idempotency_key op0) = Some (d0, o1)"
      "same_identity op0 o1" using inv0 unfolding entry_inv_def by blast
    have "co_idempotency_key op' = co_idempotency_key op0" using w(2) by (simp add: same_identity_def)
    then have id: "\<exists>o2. map_of (cs_idempotency st') (fst key, co_idempotency_key op') = Some (d0, o2) \<and> same_identity op' o2"
      using idem o1 same_identity_trans [OF same_identity_sym [OF w(2)] o1(2)] by auto
    show ?thesis
      using inv0 tl nums id w(2) True pl describes_same [OF _ w(2)]
      unfolding entry_inv_def by (auto simp: same_identity_def)
  next
    case False
    then have old: "entry_at st k = Some (d, op)" using assms(3) w(4) by (simp add: entry_at_def)
    note inv1 = ledger_inv_entry [OF assms(2) old]
    have "(fst k, co_idempotency_key op) \<noteq> (fst key, co_idempotency_key op')"
      using idem_key_unique [OF assms(2) old w(1)] False w(2) by (auto simp: same_identity_def)
    then have "map_of (cs_idempotency st') (fst k, co_idempotency_key op)
        = map_of (cs_idempotency st) (fst k, co_idempotency_key op)"
      using idem by auto
    moreover have "attempts_at st' k = attempts_at st k" using at(1) False by blast
    ultimately show ?thesis
      using inv1 False e(1) pl by (subst entry_inv_cong [of st' k st]) auto
  qed
qed

lemma op_write_inv:
  assumes "op_write key st st'" "ledger_inv h st"
  shows "ledger_inv h st'"
proof -
  obtain d0 op0 op' where w: "entry_at st key = Some (d0, op0)" "same_identity op0 op'"
    "cs_commands st' = AList.update key (d0, op') (cs_commands st)"
    and idem: "cs_idempotency st' = cs_idempotency st
      \<or> cs_idempotency st' = AList.update (fst key, co_idempotency_key op') (d0, op') (cs_idempotency st)"
    using assms(1) unfolding op_write_def by blast
  note inv0 = ledger_inv_entry [OF assms(2) w(1)]
  have id: "co_idempotency_key o1 = ik
      \<and> (\<exists>op. entry_at st' (t, co_command_id o1) = Some (d, op) \<and> same_identity op o1)"
    if l: "map_of (cs_idempotency st') (t, ik) = Some (d, o1)" for t ik d o1
  proof (cases "d = d0 \<and> o1 = op' \<and> (t, ik) = (fst key, co_idempotency_key op')")
    case True
    then show ?thesis using w inv0 by (auto simp: entry_at_def entry_inv_def same_identity_def)
  next
    case False
    then have "map_of (cs_idempotency st) (t, ik) = Some (d, o1)" using l idem by (auto split: if_splits)
    from ledger_inv_idem [OF assms(2) this] obtain op where
      o: "co_idempotency_key o1 = ik" "entry_at st (t, co_command_id o1) = Some (d, op)" "same_identity op o1"
      by blast
    show ?thesis
      using o w same_identity_trans [OF same_identity_sym [OF w(2)]]
      by (cases "(t, co_command_id o1) = key") (auto simp: entry_at_def)
  qed
  have "distinct (map fst (cs_commands st'))"
    using assms(2) w(3) by (simp add: ledger_inv_def distinct_update)
  then show ?thesis
    unfolding ledger_inv_def using op_write_entry_inv [OF assms] id by blast
qed

lemma op_create_inv:
  assumes "op_create h c client st st'" "ledger_inv h st"
  shows "ledger_inv h st'"
proof -
  let ?key = "(ce_tenant_id c, ce_command_id c)" and ?ik = "(ce_tenant_id c, ce_idempotency_key c)"
  let ?d = "authenticated_command_digest h c client"
  obtain now e where w: "valid_envelope h c" "entry_at st ?key = None" "map_of (cs_idempotency st) ?ik = None"
    "cs_commands st' = cs_commands st @ [(?key, (?d, new_operation c now))]"
    "cs_idempotency st' = cs_idempotency st @ [(?ik, (?d, new_operation c now))]"
    "events_at st' = (events_at st)(?key := [e])"
    and ev: "ev_event_id e = 1" "ev_previous_state e = None" "ev_new_state e = Persisted"
    and rest: "attempts_at st' = (attempts_at st)(?key := [])"
    "cs_payloads st' = AList.update ?key (authenticated_command_payload c client) (cs_payloads st)"
    using assms(1) unfolding op_create_def Let_def by blast
  have entry: "entry_at st' k = (if k = ?key then Some (?d, new_operation c now) else entry_at st k)" for k
    using w(2,4) by (auto simp: entry_at_def map_add_def split: option.splits)
  have idem: "map_of (cs_idempotency st') k =
      (if k = ?ik then Some (?d, new_operation c now) else map_of (cs_idempotency st) k)" for k
    using w(3,5) by (auto simp: map_add_def split: option.splits)
  have new: "entry_inv h st' ?key ?d (new_operation c now)"
    using w(1,6) ev rest idem [of ?ik]
    by (auto simp: entry_inv_def timeline_ok_def dispatches_def describes_def new_operation_def
        same_identity_def upt_Suc)
  have old: "entry_inv h st' k d op" if "entry_at st k = Some (d, op)" for k d op
  proof -
    have ne: "k \<noteq> ?key" using that w(2) by auto
    note inv = ledger_inv_entry [OF assms(2) that]
    have "(fst k, co_idempotency_key op) \<noteq> ?ik"
      using inv w(3) unfolding entry_inv_def by force
    then show ?thesis
      using ne inv w(6) rest idem by (subst entry_inv_cong [of st' k st]) auto
  qed
  have "distinct (map fst (cs_commands st'))"
    using assms(2) w(2,4) by (auto simp: ledger_inv_def entry_at_def map_of_eq_None_iff image_iff)
  moreover have "\<forall>k d op. entry_at st' k = Some (d, op) \<longrightarrow> entry_inv h st' k d op"
    using new old by (auto simp: entry)
  moreover have "co_idempotency_key o1 = ik \<and> (\<exists>op. entry_at st' (t, co_command_id o1) = Some (d, op) \<and> same_identity op o1)"
    if "map_of (cs_idempotency st') (t, ik) = Some (d, o1)" for t ik d o1
    using that ledger_inv_idem [OF assms(2), of t ik d o1] w(2)
    by (fastforce simp: idem entry new_operation_def split: if_splits)
  ultimately show ?thesis unfolding ledger_inv_def by blast
qed

lemma tenant_op_effect:
  assumes "tenant_op h t st st'"
  shows "ledger_same st st' \<or> (\<exists>cid. op_write (t, cid) st st')
    \<or> (\<exists>c client now dest evd tr. ce_tenant_id c = t \<and> op_create h c client st st'
          \<and> st' = snd (store_submit h now c client dest evd tr st))"
  using assms
proof cases
  case (to_submit c now client destination evidence trace)
  then show ?thesis using store_submit_effect by blast
next
  case (to_transition now cid new_state actor reason pid ev expected)
  then show ?thesis using store_transition_effect by blast
next
  case (to_reconcile now cid matched actor reason pid evd ver)
  then show ?thesis using store_reconcile_effect by blast
next
  case (to_mutate now cid action actor ikey ver' reason mcid)
  then show ?thesis using mutate_operation_effect by blast
qed (auto simp: ledger_same_def record_dead_letter_def create_replay_def complete_replay_def cancel_replay_def
    get_dead_letter_def store_get_def prog_defs Let_def split: option.splits sum.splits)

lemma ledger_step_effect:
  assumes "ledger_step h st st'"
  shows "ledger_same st st' \<or> (\<exists>key. op_write key st st')
    \<or> (\<exists>c client now dest evd tr. op_create h c client st st'
          \<and> st' = snd (store_submit h now c client dest evd tr st))"
  using assms
proof cases
  case (ls_op t)
  then show ?thesis using tenant_op_effect by blast
qed (simp add: ledger_same_def)

lemma ledger_inv_step: "ledger_step h st st' \<Longrightarrow> ledger_inv h st \<Longrightarrow> ledger_inv h st'"
  using ledger_step_effect ledger_same_inv op_write_inv op_create_inv by blast

interpretation ldg: machine_invariant ledger_init "ledger_step h" "ledger_inv h" for h
proof
  show "ledger_init st \<Longrightarrow> ledger_inv h st" for st
    by (simp add: ledger_init_def empty_store_def ledger_inv_def entry_at_def)
qed (rule ledger_inv_step)

subsection \<open>History only grows\<close>

definition terminal_state :: "command_state \<Rightarrow> bool" where
  "terminal_state s \<longleftrightarrow> s \<in> set [Completed, DeadLettered, Cancelled]"

definition entry_grows :: "command_store \<Rightarrow> command_store \<Rightarrow> op_key \<Rightarrow> string \<Rightarrow> command_operation \<Rightarrow> bool" where
  "entry_grows st st' key d op \<longleftrightarrow>
     (\<exists>op'. entry_at st' key = Some (d, op') \<and> same_identity op op'
        \<and> co_resource_version op \<le> co_resource_version op'
        \<and> (\<exists>es. events_at st' key = events_at st key @ es)
        \<and> (terminal_state (co_state op) \<longrightarrow> op' = op \<and> events_at st' key = events_at st key))"

definition ledger_grows :: "command_store \<Rightarrow> command_store \<Rightarrow> bool" where
  "ledger_grows st st' \<longleftrightarrow> (\<forall>key d op. entry_at st key = Some (d, op) \<longrightarrow> entry_grows st st' key d op)"

lemma legal_edge_not_terminal: "legal_edge a b \<Longrightarrow> \<not> terminal_state a"
  by (cases a) (auto simp: legal_edge_def terminal_state_def ACTIVE_COMMAND_STATES_def)

lemma ledger_same_grows: "ledger_same st st' \<Longrightarrow> ledger_grows st st'"
  by (auto simp: ledger_grows_def entry_grows_def ledger_same_def entry_at_def events_at_def)

lemma op_write_grows:
  assumes "op_write key st st'"
  shows "ledger_grows st st'"
proof -
  obtain d0 op0 op' where w: "entry_at st key = Some (d0, op0)" "same_identity op0 op'"
    "legal_edge (co_state op0) (co_state op')" "co_resource_version op0 \<le> co_resource_version op'"
    "cs_commands st' = AList.update key (d0, op') (cs_commands st)"
    and ev: "event_added key (co_state op0) (co_state op') st st'"
    using assms unfolding op_write_def by blast
  obtain e where e: "events_at st' = (events_at st)(key := events_at st key @ [e])"
    using ev unfolding event_added_def by blast
  have "entry_grows st st' k d op" if "entry_at st k = Some (d, op)" for k d op
    using that w e legal_edge_not_terminal [OF w(3)]
    by (cases "k = key") (auto simp: entry_grows_def entry_at_def)
  then show ?thesis unfolding ledger_grows_def by blast
qed

lemma op_create_grows:
  assumes "op_create h c client st st'"
  shows "ledger_grows st st'"
proof -
  have "entry_grows st st' k d op" if "entry_at st k = Some (d, op)" for k d op
    using that assms
    by (auto simp: op_create_def Let_def entry_grows_def entry_at_def map_add_def split: option.splits)
  then show ?thesis unfolding ledger_grows_def by blast
qed

lemma ledger_grows_trans:
  assumes "ledger_grows s t" "ledger_grows t u"
  shows "ledger_grows s u"
  unfolding ledger_grows_def
proof (intro allI impI)
  fix k d op
  assume "entry_at s k = Some (d, op)"
  with assms(1) obtain o1 es1 where 1: "entry_at t k = Some (d, o1)" "same_identity op o1"
    "co_resource_version op \<le> co_resource_version o1" "events_at t k = events_at s k @ es1"
    "terminal_state (co_state op) \<longrightarrow> o1 = op \<and> events_at t k = events_at s k"
    unfolding ledger_grows_def entry_grows_def by blast
  with assms(2) obtain o2 es2 where "entry_at u k = Some (d, o2)" "same_identity o1 o2"
    "co_resource_version o1 \<le> co_resource_version o2" "events_at u k = events_at t k @ es2"
    "terminal_state (co_state o1) \<longrightarrow> o2 = o1 \<and> events_at u k = events_at t k"
    unfolding ledger_grows_def entry_grows_def by blast
  with 1 show "entry_grows s u k d op"
    unfolding entry_grows_def using same_identity_trans by auto
qed

interpretation hist: machine_monotone "ledger_step h" ledger_grows for h
proof
  show "ledger_grows s s" for s by (rule ledger_same_grows) (simp add: ledger_same_def)
  show "ledger_step h s t \<Longrightarrow> ledger_grows s t" for s t
    using ledger_step_effect ledger_same_grows op_write_grows op_create_grows by blast
qed (rule ledger_grows_trans)

subsection \<open>No command without a delivery intent\<close>

definition has_intent :: "command_store \<Rightarrow> op_key \<Rightarrow> string \<Rightarrow> bool" where
  "has_intent st key ct \<longleftrightarrow>
     (\<exists>i \<in> set (cs_outbox st). oi_tenant_id i = fst key \<and> oi_command_id i = uuid_str (snd key)
        \<and> oi_event_type i = ct)"

definition outbox_inv :: "command_store \<Rightarrow> bool" where
  "outbox_inv st \<longleftrightarrow>
     map oi_id (cs_outbox st) = [1..<Suc (length (cs_outbox st))]
     \<and> (\<forall>key d op. entry_at st key = Some (d, op) \<longrightarrow> has_intent st key (co_command_type op))"

definition outbox_grows :: "command_store \<Rightarrow> command_store \<Rightarrow> bool" where
  "outbox_grows st st' \<longleftrightarrow>
     (\<exists>new. map intent_identity (cs_outbox st') = map intent_identity (cs_outbox st) @ new
        \<and> map fst new = [Suc (length (cs_outbox st))..<Suc (length (cs_outbox st) + length new)])"

lemma intent_identity_simps [simp]:
  "intent_identity (cancel_intent i) = intent_identity i"
  "intent_identity (quarantine_intent i) = intent_identity i"
  by (simp_all add: intent_identity_def cancel_intent_def quarantine_intent_def)

lemma intent_identity_update_intents:
  "(\<And>i. intent_identity (f i) = intent_identity i) \<Longrightarrow>
   map intent_identity (cs_outbox (update_intents t c f st)) = map intent_identity (cs_outbox st)"
  by (auto simp: update_intents_def)

lemma outbox_grows_same:
  "map intent_identity (cs_outbox st') = map intent_identity (cs_outbox st) \<Longrightarrow> outbox_grows st st'"
  unfolding outbox_grows_def by (rule exI [of _ "[]"]) simp

lemma outbox_grows_snoc:
  "cs_outbox st' = cs_outbox st @ [i] \<Longrightarrow> oi_id i = Suc (length (cs_outbox st)) \<Longrightarrow> outbox_grows st st'"
  unfolding outbox_grows_def by (rule exI [of _ "[intent_identity i]"]) (simp add: intent_identity_def upt_Suc)

lemma outbox_grows_ids:
  assumes "outbox_grows st st'" "map oi_id (cs_outbox st) = [1..<Suc (length (cs_outbox st))]"
  shows "map oi_id (cs_outbox st') = [1..<Suc (length (cs_outbox st'))]"
proof -
  obtain new where new: "map intent_identity (cs_outbox st') = map intent_identity (cs_outbox st) @ new"
    "map fst new = [Suc (length (cs_outbox st))..<Suc (length (cs_outbox st) + length new)]"
    using assms(1) unfolding outbox_grows_def by blast
  have ids: "map fst (map intent_identity ob) = map oi_id ob" for ob
    by (simp add: intent_identity_def)
  have len: "length (cs_outbox st') = length (cs_outbox st) + length new"
    using arg_cong [OF new(1), of length] by simp
  have "map oi_id (cs_outbox st') = [1..<Suc (length (cs_outbox st))] @ map fst new"
    using arg_cong [OF new(1), of "map fst"] by (simp only: ids map_append assms(2))
  also have "\<dots> = [1..<Suc (length (cs_outbox st'))]"
    unfolding new(2) len using upt_add_eq_append [of 1 "Suc (length (cs_outbox st))" "length new"] by simp
  finally show ?thesis .
qed

lemma has_intent_grows:
  assumes "outbox_grows st st'" "has_intent st key ct"
  shows "has_intent st' key ct"
proof -
  have iff: "has_intent s key ct \<longleftrightarrow> (\<exists>x \<in> set (map intent_identity (cs_outbox s)).
      fst (snd x) = fst key \<and> fst (snd (snd x)) = uuid_str (snd key) \<and> fst (snd (snd (snd (snd x)))) = ct)" for s
    by (auto simp: has_intent_def intent_identity_def)
  obtain new where "map intent_identity (cs_outbox st') = map intent_identity (cs_outbox st) @ new"
    using assms(1) unfolding outbox_grows_def by blast
  then show ?thesis using assms(2) unfolding iff by auto
qed

lemma apply_action_outbox:
  "apply_action h now act t c a ik r op st = Inr (op', st') \<Longrightarrow> outbox_grows st st'"
  by (cases act)
    (auto simp: apply_action_def Let_def retry_intent_def new_intent_def intro: outbox_grows_same outbox_grows_snoc
      simp: intent_identity_update_intents split: if_splits)

lemma outbox_grows_cong: "cs_outbox st' = cs_outbox st1 \<Longrightarrow> outbox_grows st st1 \<Longrightarrow> outbox_grows st st'"
  by (simp add: outbox_grows_def)

lemma mutate_operation_outbox: "outbox_grows st (snd (mutate_operation h now t c act a ik v r mc st))"
  by (auto simp: mutate_operation_def Let_def outbox_grows_same split: option.splits sum.splits prod.splits
      intro: outbox_grows_cong [OF _ apply_action_outbox])

lemma store_submit_outbox:
  "outbox_grows st (snd (store_submit h now c client dest evd tr st))"
  "entry_at (snd (store_submit h now c client dest evd tr st)) key = Some (d, op) \<Longrightarrow>
   entry_at st key = Some (d, op) \<or> has_intent (snd (store_submit h now c client dest evd tr st)) key (co_command_type op)"
   apply (auto simp: store_submit_def Let_def new_intent_def outbox_grows_same intro!: outbox_grows_snoc
      split: option.splits if_splits list.splits)[1]
  apply (auto simp: store_submit_def Let_def new_intent_def entry_at_def has_intent_def new_operation_def
      split: option.splits if_splits list.splits)
  done

lemma tenant_op_outbox:
  assumes "tenant_op h t st st'"
  shows "outbox_grows st st'"
  using assms
proof cases
  case (to_submit c now client destination evidence trace)
  then show ?thesis using store_submit_outbox(1) by blast
next
  case (to_mutate now cid action actor ikey ver' reason mcid)
  then show ?thesis using mutate_operation_outbox by blast
next
  case (to_transition now cid new_state actor reason pid ev expected)
  have "cs_outbox st' = cs_outbox st"
    unfolding to_transition by (simp add: store_transition_def Let_def split: option.split prod.split)
  then show ?thesis by (simp add: outbox_grows_same)
next
  case (to_reconcile now cid matched actor reason pid evd ver)
  have "cs_outbox st' = cs_outbox st"
    unfolding to_reconcile by (simp add: store_reconcile_def Let_def split: option.split prod.split)
  then show ?thesis by (simp add: outbox_grows_same)
qed (auto simp: record_dead_letter_def create_replay_def complete_replay_def cancel_replay_def
    get_dead_letter_def store_get_def prog_defs Let_def intro!: outbox_grows_same split: option.splits sum.splits)

lemma write_same_type:
  assumes "op_write k st st'" "entry_at st' key = Some (d, op)"
  shows "\<exists>op0. entry_at st key = Some (d, op0) \<and> co_command_type op0 = co_command_type op"
  using assms unfolding op_write_def entry_at_def same_identity_def by (cases "key = k") auto

lemma outbox_inv_step:
  assumes "ledger_step h st st'" "outbox_inv st"
  shows "outbox_inv st'"
proof -
  have grows: "outbox_grows st st'"
    using assms(1) by (cases rule: ledger_step.cases) (auto intro: tenant_op_outbox outbox_grows_same)
  have old: "has_intent st' key (co_command_type op)"
    if "entry_at st key = Some (d, op0)" "co_command_type op0 = co_command_type op" for key d op0 op
    using that assms(2) has_intent_grows [OF grows] unfolding outbox_inv_def by metis
  have "has_intent st' key (co_command_type op)" if e: "entry_at st' key = Some (d, op)" for key d op
    using ledger_step_effect [OF assms(1)]
  proof (elim disjE exE conjE)
    assume "ledger_same st st'"
    then have "entry_at st key = Some (d, op)" using e by (simp add: ledger_same_def entry_at_def)
    then show ?thesis by (rule old) (rule refl)
  next
    fix k
    assume "op_write k st st'"
    then show ?thesis using write_same_type e old by blast
  next
    fix c client now dest evd tr
    assume "st' = snd (store_submit h now c client dest evd tr st)"
    then show ?thesis using store_submit_outbox(2) e old by blast
  qed
  then show ?thesis using outbox_grows_ids [OF grows] assms(2) unfolding outbox_inv_def by blast
qed

interpretation obx: machine_invariant ledger_init "ledger_step h" outbox_inv for h
proof
  show "ledger_init st \<Longrightarrow> outbox_inv st" for st
    by (simp add: ledger_init_def empty_store_def outbox_inv_def entry_at_def upt_Suc)
qed (rule outbox_inv_step)

lemma run_entry_grows:
  "run (ledger_step h) st st' \<Longrightarrow> entry_at st key = Some (d, op) \<Longrightarrow> entry_grows st st' key d op"
  using hist.run_rel unfolding ledger_grows_def by blast

lemmas reach_ledger_inv = ldg.reach_inv

end
