(* ===== verification/Ledger_Guarantees.thy ===== *)
theory Ledger_Guarantees
  imports Ledger_Invariants
begin

text \<open>
  The guarantees of the command ledger to its clients, derived from the invariants of
  \<open>Ledger_Invariants\<close>: timeline integrity, append-only history, no command without a
  delivery intent, rebuildable payloads, exactly-once submission, optimistic concurrency
  of operator mutations, attempt fencing and tenant isolation.
\<close>

text \<open>
  What one tenant can observe: its commands with their timelines, attempts and payloads, its
  idempotency index, recorded mutations, dead letters, replays and outbox rows.
\<close>

definition tenant_rows :: "string \<Rightarrow> ((string \<times> 'b) \<times> 'c) list \<Rightarrow> ((string \<times> 'b) \<times> 'c) list" where
  "tenant_rows t d = filter (\<lambda>((t', _), _). t' = t) d"

definition tenant_same :: "string \<Rightarrow> command_store \<Rightarrow> command_store \<Rightarrow> bool" where
  "tenant_same u st st' \<longleftrightarrow>
     tenant_rows u (cs_commands st') = tenant_rows u (cs_commands st)
     \<and> (\<forall>cid. events_at st' (u, cid) = events_at st (u, cid)
          \<and> attempts_at st' (u, cid) = attempts_at st (u, cid)
          \<and> map_of (cs_payloads st') (u, cid) = map_of (cs_payloads st) (u, cid))
     \<and> tenant_rows u (cs_dead_letters st') = tenant_rows u (cs_dead_letters st)
     \<and> tenant_rows u (cs_replays st') = tenant_rows u (cs_replays st)
     \<and> filter (\<lambda>i. oi_tenant_id i = u) (cs_outbox st') = filter (\<lambda>i. oi_tenant_id i = u) (cs_outbox st)"

subsection \<open>A reachable store for the witnesses\<close>

definition sample_store :: command_store where
  "sample_store = snd (store_submit sample_host 100 sample_envelope ''middleware-api'' ADAPTER_COMMAND_DESTINATION None None empty_store)"

lemma sample_store_reach: "ledger_reach sample_host sample_store"
  unfolding sample_store_def
  by (rule reach_step [OF reach_init]) (auto simp: ledger_init_def intro: ls_op to_submit sample_envelope_valid)

lemma sample_store_entry:
  "entry_at sample_store (''TEST_SYN'', 7) =
     Some (authenticated_command_digest sample_host sample_envelope ''middleware-api'', new_operation sample_envelope 100)"
  by (simp add: sample_store_def store_submit_def COMMAND_DESTINATIONS_def empty_store_def entry_at_def Let_def
      sample_envelope_def)

subsection \<open>Properties\<close>

text \<open>
  C3. Timeline integrity under every interleaving: in every reachable store each command is
  filed under its own tenant and id, its event timeline starts with the submission, is
  numbered 1..n without gaps, follows only legal edges of the command state machine, each
  event starting in the state the previous one reached, and ends in the command's current
  state; the attempts are numbered 1..k where k is the number of times the command entered
  \<open>dispatching\<close>.
\<close>

theorem ledger_timeline_integrity:
  assumes "ledger_reach h st" and "entry_at st key = Some (d, op)"
  shows "key = (co_tenant_id op, co_command_id op) \<and> timeline_ok (events_at st key) (co_state op)
    \<and> map at_attempt_number (attempts_at st key) = [1..<Suc (dispatches (events_at st key))]"
  using ledger_inv_entry [OF reach_ledger_inv [OF assms(1)] assms(2)] unfolding entry_inv_def by blast

theorem ledger_timeline_integrity_witness:
  "timeline_ok (events_at sample_store (''TEST_SYN'', 7)) Persisted
   \<and> attempts_at sample_store (''TEST_SYN'', 7) = []"
  using ledger_timeline_integrity [OF sample_store_reach sample_store_entry]
  by (auto simp: new_operation_def sample_store_def store_submit_def COMMAND_DESTINATIONS_def empty_store_def
      entry_at_def Let_def sample_envelope_def attempts_at_def)

text \<open>
  C26. Completed, dead-lettered and cancelled are final and history is append-only: along every
  run of ledger steps a known command stays known with the same digest and identity fields,
  its resource version never decreases, its timeline is only extended, and once it is in a
  final state neither the operation nor its timeline changes again.
\<close>

theorem ledger_history_append_only:
  assumes "run (ledger_step h) st st'" and "entry_at st key = Some (d, op)"
  shows "\<exists>op'. entry_at st' key = Some (d, op') \<and> same_identity op op'
    \<and> co_resource_version op \<le> co_resource_version op'
    \<and> (\<exists>es. events_at st' key = events_at st key @ es)
    \<and> (co_state op \<in> {Completed, DeadLettered, Cancelled} \<longrightarrow> op' = op \<and> events_at st' key = events_at st key)"
  using run_entry_grows [OF assms] unfolding entry_grows_def terminal_state_def by simp

lemma sample_cancel_run:
  "run (ledger_step sample_host) sample_store
     (snd (mutate_operation sample_host 101 ''TEST_SYN'' 7 ActCancel ''op'' ''k'' 1 ''stop'' None sample_store))"
  by (rule run_step [OF run_refl]) (rule ls_op [OF to_mutate])

theorem ledger_history_append_only_witness:
  "\<exists>op'. entry_at (snd (mutate_operation sample_host 101 ''TEST_SYN'' 7 ActCancel ''op'' ''k'' 1 ''stop'' None sample_store))
       (''TEST_SYN'', 7) = Some (authenticated_command_digest sample_host sample_envelope ''middleware-api'', op')
     \<and> same_identity (new_operation sample_envelope 100) op'"
  using ledger_history_append_only [OF sample_cancel_run sample_store_entry] by blast

text \<open>
  Nothing accepted is lost: in every reachable store every command has an outbox intent
  that names its tenant, its id and its command type, and outbox rows are numbered 1..n.
\<close>

theorem every_command_has_intent:
  assumes "ledger_reach h st" and "entry_at st (t, cid) = Some (d, op)"
  shows "(\<exists>i \<in> set (cs_outbox st). oi_tenant_id i = t \<and> oi_command_id i = uuid_str cid
      \<and> oi_event_type i = co_command_type op)
    \<and> map oi_id (cs_outbox st) = [1..<Suc (length (cs_outbox st))]"
proof -
  have "outbox_inv st" using obx.reach_inv assms(1) by blast
  then have "has_intent st (t, cid) (co_command_type op)" "map oi_id (cs_outbox st) = [1..<Suc (length (cs_outbox st))]"
    using assms(2) unfolding outbox_inv_def by blast+
  then show ?thesis unfolding has_intent_def by simp
qed

theorem every_command_has_intent_witness:
  "\<exists>i \<in> set (cs_outbox sample_store). oi_tenant_id i = ''TEST_SYN'' \<and> oi_command_id i = uuid_str 7"
  using every_command_has_intent [OF sample_store_reach sample_store_entry] by blast

text \<open>
  The durable payload rebuilds the submitted command: in every reachable store
  \<open>load_envelope\<close> of a known command succeeds, changes nothing, and returns a valid
  envelope with exactly the identity recorded in the operation and with the digest that
  was recorded at submission.
\<close>

theorem load_envelope_total:
  assumes "ledger_reach h st" and "entry_at st (t, cid) = Some (d, op)"
  shows "\<exists>c client. load_envelope h t cid st = (Inr c, st) \<and> valid_envelope h c
    \<and> d = authenticated_command_digest h c client
    \<and> ce_tenant_id c = t \<and> ce_command_id c = cid \<and> ce_command_type c = co_command_type op
    \<and> ce_target c = co_target op \<and> ce_capability c = co_capability op
    \<and> ce_requested_by c = co_requested_by op \<and> ce_idempotency_key c = co_idempotency_key op"
proof -
  have inv: "entry_inv h st (t, cid) d op"
    using ledger_inv_entry [OF reach_ledger_inv [OF assms(1)] assms(2)] .
  then obtain c client where "map_of (cs_payloads st) (t, cid) = Some (authenticated_command_payload c client)"
    and c: "valid_envelope h c" "d = authenticated_command_digest h c client"
      "same_identity (new_operation c (co_created_at op)) op"
    unfolding entry_inv_def describes_def by blast
  then have "load_envelope h t cid st = (Inr c, st)"
    using assms(2) command_envelope_roundtrip [of h c client] by (simp add: load_envelope_def store_get_def prog_defs)
  then show ?thesis
    using c inv by (intro exI [of _ c] exI [of _ client]) (auto simp: same_identity_def new_operation_def entry_inv_def)
qed

theorem load_envelope_total_witness:
  "\<exists>c. load_envelope sample_host ''TEST_SYN'' 7 sample_store = (Inr c, sample_store) \<and> ce_target c = ''test-syn''"
  using load_envelope_total [OF sample_store_reach sample_store_entry]
  by (auto simp: new_operation_def sample_envelope_def)

subsection \<open>Submission\<close>

lemma store_submit_fresh:
  assumes "store_submit h now c client dest ev tr st = (Inr op, st1)" "\<not> co_duplicate op"
  shows "entry_at st1 (ce_tenant_id c, ce_command_id c) = Some (authenticated_command_digest h c client, op)"
  using assms by (auto simp: store_submit_def Let_def entry_at_def split: option.splits if_splits list.splits)

lemma reach_submit: "ledger_reach h st \<Longrightarrow> valid_envelope h c \<Longrightarrow>
   store_submit h now c client dest ev tr st = (r, st1) \<Longrightarrow> ledger_reach h st1"
  using reach_step ls_op to_submit by (metis snd_conv)

text \<open>
  C4. Submission is exactly-once: after a submission that created a command, in every later
  state of the ledger, however other operations interleave, submitting the same envelope as
  the same client again returns that command marked as a duplicate and changes nothing; and
  reusing its command id or its idempotency key for other content raises
  \<open>CommandConflict\<close> and changes nothing.
\<close>

theorem submission_exactly_once:
  assumes "ledger_reach h st" and "valid_envelope h c"
    and "store_submit h now c client dest ev tr st = (Inr op, st1)" and "\<not> co_duplicate op"
    and "run (ledger_step h) st1 st2" and "dest' \<in> set COMMAND_DESTINATIONS"
  shows "(\<exists>op2. store_submit h now' c client dest' ev' tr' st2 = (Inr (op2\<lparr>co_duplicate := True\<rparr>), st2)
        \<and> same_identity op op2)
    \<and> (ce_tenant_id c' = ce_tenant_id c
        \<and> (ce_command_id c' = ce_command_id c \<or> ce_idempotency_key c' = ce_idempotency_key c)
        \<and> \<not> command_digest_matches h (authenticated_command_digest h c client) c' client' \<longrightarrow>
        (\<exists>msg. store_submit h now' c' client' dest' ev' tr' st2 = (Inl (Exc CommandConflict msg), st2)))"
proof -
  let ?key = "(ce_tenant_id c, ce_command_id c)" and ?d = "authenticated_command_digest h c client"
  note fresh = store_submit_fresh [OF assms(3,4)]
  have reach1: "ledger_reach h st1" by (rule reach_submit [OF assms(1-3)])
  have inv2: "ledger_inv h st2" using reach_run [OF reach1 assms(5)] by (rule reach_ledger_inv)
  have ident: "co_tenant_id op = ce_tenant_id c \<and> co_command_id op = ce_command_id c
      \<and> co_idempotency_key op = ce_idempotency_key c"
    using assms(3,4) by (auto simp: store_submit_def Let_def new_operation_def split: option.splits if_splits)
  obtain op2 where op2: "entry_at st2 ?key = Some (?d, op2)" "same_identity op op2"
    using run_entry_grows [OF assms(5) fresh] unfolding entry_grows_def by blast
  have "co_idempotency_key op2 = ce_idempotency_key c" using op2(2) ident by (simp add: same_identity_def)
  then obtain op0 where op0: "map_of (cs_idempotency st2) (ce_tenant_id c, ce_idempotency_key c) = Some (?d, op0)"
    "same_identity op2 op0"
    using ledger_inv_entry [OF inv2 op2(1)] unfolding entry_inv_def by auto
  have ids: "co_command_id op2 = ce_command_id c" "co_command_id op0 = ce_command_id c"
    using op2(2) op0(2) ident by (simp_all add: same_identity_def)
  have "store_submit h now' c client dest' ev' tr' st2 = (Inr (op2\<lparr>co_duplicate := True\<rparr>), st2)"
    using op2 op0 ids assms(6) by (simp add: store_submit_def Let_def command_digest_matches_def)
  moreover have "\<exists>msg. store_submit h now' c' client' dest' ev' tr' st2 = (Inl (Exc CommandConflict msg), st2)"
    if t: "ce_tenant_id c' = ce_tenant_id c"
      and reuse: "ce_command_id c' = ce_command_id c \<or> ce_idempotency_key c' = ce_idempotency_key c"
      and other: "\<not> command_digest_matches h ?d c' client'"
  proof (cases "ce_command_id c' = ce_command_id c")
    case True
    then show ?thesis
      using t op2(1) ids(1) other assms(6)
      by (cases "map_of (cs_idempotency st2) (ce_tenant_id c, ce_idempotency_key c')")
        (auto simp: store_submit_def Let_def)
  next
    case False
    then have ik: "ce_idempotency_key c' = ce_idempotency_key c" using reuse by blast
    show ?thesis
    proof (cases "entry_at st2 (ce_tenant_id c, ce_command_id c')")
      case None
      then show ?thesis using t ik op0 other assms(6) by (auto simp: store_submit_def Let_def)
    next
      case (Some e)
      have "co_command_id (snd e) = ce_command_id c'"
        using ledger_inv_entry [OF inv2, of "(ce_tenant_id c, ce_command_id c')" "fst e" "snd e"] Some
        unfolding entry_inv_def by auto
      then show ?thesis
        using t ik Some op0 ids False assms(6) by (auto simp: store_submit_def Let_def)
    qed
  qed
  ultimately show ?thesis using op2(2) by blast
qed

lemma sample_submit:
  "store_submit sample_host 100 sample_envelope ''middleware-api'' ADAPTER_COMMAND_DESTINATION None None empty_store
     = (Inr (new_operation sample_envelope 100), sample_store)"
  unfolding sample_store_def
  by (simp add: store_submit_def COMMAND_DESTINATIONS_def empty_store_def entry_at_def Let_def sample_envelope_def)

theorem submission_exactly_once_witness:
  "\<exists>op2. store_submit sample_host 200 sample_envelope ''middleware-api'' ADAPTER_COMMAND_DESTINATION None None
       (snd (mutate_operation sample_host 101 ''TEST_SYN'' 7 ActCancel ''op'' ''k'' 1 ''stop'' None sample_store))
     = (Inr (op2\<lparr>co_duplicate := True\<rparr>),
        snd (mutate_operation sample_host 101 ''TEST_SYN'' 7 ActCancel ''op'' ''k'' 1 ''stop'' None sample_store))"
proof -
  have "ledger_reach sample_host empty_store" by (rule reach_init) (simp add: ledger_init_def)
  moreover have "\<not> co_duplicate (new_operation sample_envelope 100)" by (simp add: new_operation_def)
  moreover have "ADAPTER_COMMAND_DESTINATION \<in> set COMMAND_DESTINATIONS" by (simp add: COMMAND_DESTINATIONS_def)
  ultimately show ?thesis
    using submission_exactly_once [OF _ sample_envelope_valid sample_submit _ sample_cancel_run] by blast
qed

subsection \<open>Operator mutations\<close>

definition mutations_grow :: "command_store \<Rightarrow> command_store \<Rightarrow> bool" where
  "mutations_grow st st' \<longleftrightarrow>
     (\<forall>k v. map_of (cs_mutations st) k = Some v \<longrightarrow> map_of (cs_mutations st') k = Some v)"

lemma mutate_operation_mutations: "mutations_grow st (snd (mutate_operation h now t c act a ik v r mc st))"
  by (auto simp: mutate_operation_def Let_def mutations_grow_def dest: apply_action_Inr
      split: option.splits sum.splits prod.splits)

lemma store_transition_untouched [simp]:
  "cs_mutations (snd (store_transition h now t c ns a r p ev x st)) = cs_mutations st"
  "cs_dead_letters (snd (store_transition h now t c ns a r p ev x st)) = cs_dead_letters st"
  "cs_replays (snd (store_transition h now t c ns a r p ev x st)) = cs_replays st"
  "cs_replay_keys (snd (store_transition h now t c ns a r p ev x st)) = cs_replay_keys st"
  "cs_payloads (snd (store_transition h now t c ns a r p ev x st)) = cs_payloads st"
  "cs_outbox (snd (store_transition h now t c ns a r p ev x st)) = cs_outbox st"
  by (simp_all add: store_transition_def Let_def append_event_def split: option.split prod.split)

lemma store_reconcile_untouched [simp]:
  "cs_mutations (snd (store_reconcile h now t c m a r p evd v st)) = cs_mutations st"
  "cs_dead_letters (snd (store_reconcile h now t c m a r p evd v st)) = cs_dead_letters st"
  "cs_replays (snd (store_reconcile h now t c m a r p evd v st)) = cs_replays st"
  "cs_replay_keys (snd (store_reconcile h now t c m a r p evd v st)) = cs_replay_keys st"
  "cs_payloads (snd (store_reconcile h now t c m a r p evd v st)) = cs_payloads st"
  "cs_outbox (snd (store_reconcile h now t c m a r p evd v st)) = cs_outbox st"
  by (simp_all add: store_reconcile_def Let_def append_event_def split: option.split prod.split)

lemma mutations_grow_same: "cs_mutations st' = cs_mutations st \<Longrightarrow> mutations_grow st st'"
  by (simp add: mutations_grow_def)

lemma ledger_step_mutations:
  assumes "ledger_step h st st'"
  shows "mutations_grow st st'"
  using assms
proof cases
  case (ls_op t)
  then show ?thesis
  proof cases
    case (to_mutate now cid action actor ikey ver' reason mcid)
    then show ?thesis using mutate_operation_mutations by blast
  next
    case (to_submit c now client destination evidence trace)
    show ?thesis unfolding to_submit
      by (rule mutations_grow_same) (simp add: store_submit_def Let_def split: option.split)
  next
    case (to_transition now cid new_state actor reason pid ev expected)
    then show ?thesis by (simp add: mutations_grow_same)
  next
    case (to_reconcile now cid matched actor reason pid evd ver)
    then show ?thesis by (simp add: mutations_grow_same)
  qed (auto simp: record_dead_letter_def create_replay_def complete_replay_def cancel_replay_def
    get_dead_letter_def store_get_def prog_defs Let_def intro!: mutations_grow_same split: option.splits sum.splits)
qed (simp add: mutations_grow_same)

interpretation mut: machine_monotone "ledger_step h" mutations_grow for h
  by unfold_locales (auto simp: mutations_grow_def dest: ledger_step_mutations)

lemma mutate_operation_fresh:
  assumes "mutate_operation h now t c act a ik v r mc st = (Inr op, st1)"
    and "map_of (cs_mutations st) (t, c, act, a, ik) = None"
  shows "(\<exists>d. entry_at st1 (t, c) = Some (d, op)) \<and> co_resource_version op = v + 1
    \<and> map_of (cs_mutations st1) (t, c, act, a, ik) = Some (mutation_digest h v r, op)"
proof (cases "entry_at st (t, c)")
  case None
  then show ?thesis using assms by (simp add: mutate_operation_def)
next
  case (Some e)
  obtain d op0 where e: "e = (d, op0)" by (cases e)
  have v: "co_resource_version op0 = v"
    using assms Some e by (simp add: mutate_operation_def Let_def split: if_splits)
  show ?thesis
  proof (cases "apply_action h now act t c a ik r op0 st")
    case (Inl x)
    then show ?thesis using assms Some e v by (simp add: mutate_operation_def Let_def)
  next
    case (Inr res)
    then show ?thesis
      using assms Some e v by (cases res) (auto simp: mutate_operation_def Let_def entry_at_def)
  qed
qed

text \<open>
  C27. Operator mutations are idempotent and optimistically concurrent: once a cancel,
  reconcile or retry succeeded against version v of a command, then in every later state
  repeating the same request returns the recorded result marked as a duplicate and changes
  nothing, reusing its idempotency key with another reason or version is a conflict, and any
  other request that still expects version v raises \<open>CommandConflict\<close> and changes
  nothing: at most one operator wins each version.
\<close>

theorem mutation_single_winner:
  assumes "map_of (cs_mutations st) (t, c, act, a, ik) = None"
    and "mutate_operation h now t c act a ik v r mc st = (Inr op, st1)"
    and "run (ledger_step h) st1 st2"
  shows "mutate_operation h now' t c act a ik v r mc' st2 = (Inr (op\<lparr>co_duplicate := True\<rparr>), st2)
    \<and> (mutation_digest h v' r' \<noteq> mutation_digest h v r \<longrightarrow>
        (\<exists>msg. mutate_operation h now' t c act a ik v' r' mc' st2 = (Inl (Exc CommandConflict msg), st2)))
    \<and> (map_of (cs_mutations st2) (t, c, act', a', ik') = None \<longrightarrow>
        (\<exists>msg. mutate_operation h now' t c act' a' ik' v r' mc' st2 = (Inl (Exc CommandConflict msg), st2)))"
proof -
  obtain d where e1: "entry_at st1 (t, c) = Some (d, op)"
    using mutate_operation_fresh [OF assms(2,1)] by blast
  obtain op2 where e2: "entry_at st2 (t, c) = Some (d, op2)" "v + 1 \<le> co_resource_version op2"
    using run_entry_grows [OF assms(3) e1] mutate_operation_fresh [OF assms(2,1)]
    unfolding entry_grows_def by metis
  have m: "map_of (cs_mutations st2) (t, c, act, a, ik) = Some (mutation_digest h v r, op)"
    using mut.run_rel [OF assms(3)] mutate_operation_fresh [OF assms(2,1)] unfolding mutations_grow_def by blast
  show ?thesis using e2 m by (auto simp: mutate_operation_def Let_def)
qed

lemma sample_cancel:
  "mutate_operation sample_host 101 ''TEST_SYN'' 7 ActCancel ''op'' ''k'' 1 ''stop'' None sample_store
     = (Inr ((new_operation sample_envelope 100)\<lparr>co_state := Cancelled, co_cancelled_at := Some 101,
              co_cancellation_reason := Some ''stop'', co_resource_version := 2, co_updated_at := 101\<rparr>),
        snd (mutate_operation sample_host 101 ''TEST_SYN'' 7 ActCancel ''op'' ''k'' 1 ''stop'' None sample_store))"
  using sample_store_entry
  by (simp add: mutate_operation_def Let_def apply_action_def new_operation_def sample_store_def store_submit_def
      COMMAND_DESTINATIONS_def empty_store_def entry_at_def sample_envelope_def active_lease_def
      adapter_intents_def new_intent_def)

theorem mutation_single_winner_witness:
  "\<exists>msg. mutate_operation sample_host 102 ''TEST_SYN'' 7 ActRetry ''other'' ''k2'' 1 ''again'' None
       (snd (mutate_operation sample_host 101 ''TEST_SYN'' 7 ActCancel ''op'' ''k'' 1 ''stop'' None sample_store))
     = (Inl (Exc CommandConflict msg),
        snd (mutate_operation sample_host 101 ''TEST_SYN'' 7 ActCancel ''op'' ''k'' 1 ''stop'' None sample_store))"
proof -
  have none: "cs_mutations sample_store = []"
    by (simp add: sample_store_def store_submit_def COMMAND_DESTINATIONS_def empty_store_def entry_at_def Let_def)
  have "map_of (cs_mutations (snd (mutate_operation sample_host 101 ''TEST_SYN'' 7 ActCancel ''op'' ''k'' 1 ''stop''
      None sample_store))) (''TEST_SYN'', 7, ActRetry, ''other'', ''k2'') = None"
    using sample_store_entry none
    by (simp add: mutate_operation_def Let_def apply_action_def new_operation_def active_lease_def)
  then show ?thesis
    using mutation_single_winner [OF _ sample_cancel run_refl] none by auto
qed

subsection \<open>Tenants\<close>

lemma tenant_rows_update [simp]:
  "u \<noteq> t \<Longrightarrow> tenant_rows u (AList.update (t, x) v al) = tenant_rows u al"
  by (induction al) (auto simp: tenant_rows_def)

lemma tenant_rows_append [simp]: "tenant_rows u (xs @ ys) = tenant_rows u xs @ tenant_rows u ys"
  by (simp add: tenant_rows_def)

lemma tenant_rows_lookup: "map_of (tenant_rows u al) (u, c) = map_of al (u, c)"
  by (induction al) (auto simp: tenant_rows_def)

lemma outbox_filter_update_intents:
  assumes "u \<noteq> t" "\<And>i. oi_tenant_id (f i) = oi_tenant_id i"
  shows "filter (\<lambda>i. oi_tenant_id i = u) (cs_outbox (update_intents t c f st))
    = filter (\<lambda>i. oi_tenant_id i = u) (cs_outbox st)"
proof -
  have "filter (\<lambda>i. oi_tenant_id i = u)
      (map (\<lambda>i. if oi_tenant_id i = t \<and> oi_command_id i = x then f i else i) ob)
    = filter (\<lambda>i. oi_tenant_id i = u) ob" for ob x
    using assms by (induction ob) auto
  then show ?thesis by (simp add: update_intents_def)
qed

lemma update_intents_more [simp]:
  "cs_dead_letters (update_intents t c f st) = cs_dead_letters st"
  "cs_replays (update_intents t c f st) = cs_replays st"
  by (simp_all add: update_intents_def)

lemma apply_action_other_tenant:
  assumes "apply_action h now act t c a ik r op st = Inr (op', st')" "u \<noteq> t"
  shows "cs_dead_letters st' = cs_dead_letters st \<and> cs_replays st' = cs_replays st
    \<and> filter (\<lambda>i. oi_tenant_id i = u) (cs_outbox st') = filter (\<lambda>i. oi_tenant_id i = u) (cs_outbox st)"
  using assms
  by (cases act) (auto simp: apply_action_def Let_def retry_intent_def new_intent_def cancel_intent_def
      quarantine_intent_def outbox_filter_update_intents split: if_splits)

lemma mutate_operation_other_tenant:
  fixes h now t c act a ik v r mc
  assumes "u \<noteq> t"
  defines "st' \<equiv> \<lambda>st. snd (mutate_operation h now t c act a ik v r mc st)"
  shows "cs_dead_letters (st' st) = cs_dead_letters st \<and> cs_replays (st' st) = cs_replays st
    \<and> filter (\<lambda>i. oi_tenant_id i = u) (cs_outbox (st' st)) = filter (\<lambda>i. oi_tenant_id i = u) (cs_outbox st)"
  using assms(1)
  by (auto simp: st'_def mutate_operation_def Let_def append_event_def dest: apply_action_other_tenant
      split: option.split sum.split prod.split)

lemma store_submit_other_tenant:
  fixes h now c client dest evd tr
  assumes "u \<noteq> ce_tenant_id c"
  defines "st' \<equiv> \<lambda>st. snd (store_submit h now c client dest evd tr st)"
  shows "cs_dead_letters (st' st) = cs_dead_letters st \<and> cs_replays (st' st) = cs_replays st
    \<and> filter (\<lambda>i. oi_tenant_id i = u) (cs_outbox (st' st)) = filter (\<lambda>i. oi_tenant_id i = u) (cs_outbox st)"
  using assms(1) by (simp add: st'_def store_submit_def Let_def new_intent_def split: option.split)

lemma tenant_op_ledger_part:
  assumes "tenant_op h t st st'" "u \<noteq> t"
  shows "tenant_rows u (cs_commands st') = tenant_rows u (cs_commands st)
    \<and> (\<forall>cid. events_at st' (u, cid) = events_at st (u, cid) \<and> attempts_at st' (u, cid) = attempts_at st (u, cid)
         \<and> map_of (cs_payloads st') (u, cid) = map_of (cs_payloads st) (u, cid))"
  using tenant_op_effect [OF assms(1)]
proof (elim disjE exE conjE)
  assume "ledger_same st st'"
  then show ?thesis by (simp add: ledger_same_def events_at_def attempts_at_def)
next
  fix cid
  assume "op_write (t, cid) st st'"
  then obtain d op' ev where "cs_commands st' = AList.update (t, cid) (d, op') (cs_commands st)"
    "events_at st' = (events_at st)((t, cid) := events_at st (t, cid) @ [ev])"
    "\<forall>k. k \<noteq> (t, cid) \<longrightarrow> attempts_at st' k = attempts_at st k" "cs_payloads st' = cs_payloads st"
    unfolding op_write_def event_added_def by blast
  then show ?thesis using assms(2) by simp
next
  fix c client
  assume "ce_tenant_id c = t" "op_create h c client st st'"
  then show ?thesis using assms(2) by (auto simp: op_create_def Let_def tenant_rows_def)
qed

lemma tenant_op_same:
  assumes "tenant_op h t st st'" "u \<noteq> t"
  shows "tenant_same u st st'"
proof -
  have "tenant_rows u (cs_dead_letters st') = tenant_rows u (cs_dead_letters st)
     \<and> tenant_rows u (cs_replays st') = tenant_rows u (cs_replays st)
     \<and> filter (\<lambda>i. oi_tenant_id i = u) (cs_outbox st') = filter (\<lambda>i. oi_tenant_id i = u) (cs_outbox st)"
    using assms(1)
  proof cases
    case (to_submit c now client destination evidence trace)
    then show ?thesis using store_submit_other_tenant assms(2) by simp
  next
    case (to_mutate now cid action actor ikey ver' reason mcid)
    then show ?thesis using mutate_operation_other_tenant [OF assms(2)] by simp
  qed (use assms(2) in \<open>auto simp: record_dead_letter_def create_replay_def complete_replay_def cancel_replay_def
      get_dead_letter_def store_get_def prog_defs Let_def split: option.split sum.split\<close>)
  then show ?thesis using tenant_op_ledger_part [OF assms] unfolding tenant_same_def by blast
qed

text \<open>
  C28. Tenants are isolated: no operation made for one tenant changes what another tenant
  reads. The operation, its listing, its timeline, attempts, envelope, dead letters, replays
  and outbox rows read the same before and after, errors included.
\<close>

theorem tenant_isolation:
  assumes "tenant_op h t st st'" and "u \<noteq> t"
  shows "fst (store_get u cid st') = fst (store_get u cid st)
    \<and> fst (list_operations u limit pos sta ct st') = fst (list_operations u limit pos sta ct st)
    \<and> fst (list_events u cid limit epos st') = fst (list_events u cid limit epos st)
    \<and> fst (list_attempts u cid limit apos st') = fst (list_attempts u cid limit apos st)
    \<and> fst (load_envelope h u cid st') = fst (load_envelope h u cid st)
    \<and> fst (get_dead_letter u cid st') = fst (get_dead_letter u cid st)
    \<and> fst (list_dead_letters u limit st') = fst (list_dead_letters u limit st)
    \<and> fst (list_replays u cid st') = fst (list_replays u cid st)
    \<and> adapter_intents st' u cid = adapter_intents st u cid"
proof -
  note same = tenant_op_same [OF assms, unfolded tenant_same_def]
  have cmd: "entry_at st' (u, cid) = entry_at st (u, cid)"
    using same tenant_rows_lookup by (metis entry_at_def)
  have dl: "map_of (cs_dead_letters st') (u, cid) = map_of (cs_dead_letters st) (u, cid)"
    using same tenant_rows_lookup by metis
  have intents: "adapter_intents s u cid = filter (\<lambda>i. oi_command_id i = uuid_str cid)
      (filter (\<lambda>i. oi_tenant_id i = u) (cs_outbox s))" for s
    by (simp add: adapter_intents_def conj_commute)
  have replays: "map snd (filter (\<lambda>((t, _), row). t = u \<and> rp_original_command_id row = cid) (cs_replays s))
      = map snd (filter (\<lambda>(_, row). rp_original_command_id row = cid) (tenant_rows u (cs_replays s)))" for s
    unfolding tenant_rows_def filter_filter by (rule arg_cong [where f = "map snd"], rule filter_cong) auto
  have get: "store_get u cid s = (case entry_at s (u, cid) of None \<Rightarrow> (Inl not_found, s) | Some e \<Rightarrow> (Inr (snd e), s))"
    for s by (simp add: store_get_def)
  have "fst (list_operations u limit pos sta ct st') = fst (list_operations u limit pos sta ct st)"
    using same by (simp add: list_operations_def Let_def tenant_rows_def [symmetric])
  moreover have "fst (list_dead_letters u limit st') = fst (list_dead_letters u limit st)"
    using same by (simp add: list_dead_letters_def getsE_def tenant_rows_def [symmetric])
  moreover have "fst (list_replays u cid st') = fst (list_replays u cid st)"
    using same cmd by (simp add: list_replays_def prog_defs get replays split: option.split)
  moreover have "fst (list_events u cid limit epos st') = fst (list_events u cid limit epos st)"
    using same cmd by (simp add: list_events_def prog_defs get split: option.split)
  moreover have "fst (list_attempts u cid limit apos st') = fst (list_attempts u cid limit apos st)"
    using same cmd by (simp add: list_attempts_def prog_defs get split: option.split)
  moreover have "fst (load_envelope h u cid st') = fst (load_envelope h u cid st)"
    using same cmd by (simp add: load_envelope_def prog_defs get split: option.split)
  moreover have "adapter_intents st' u cid = adapter_intents st u cid"
    using same by (simp add: intents)
  ultimately show ?thesis
    using cmd dl by (simp add: get get_dead_letter_def split: option.split)
qed

theorem tenant_isolation_witness:
  "fst (list_operations ''OTHER'' 10 None None None sample_store)
     = fst (list_operations ''OTHER'' 10 None None None empty_store)"
proof -
  have "tenant_op sample_host (ce_tenant_id sample_envelope) empty_store sample_store"
    unfolding sample_store_def by (rule to_submit [OF sample_envelope_valid])
  from tenant_isolation [OF this, of "''OTHER''"] show ?thesis by (auto simp: sample_envelope_def)
qed

end
