(* ===== verification/Policy_Engine.thy ===== *)
theory Policy_Engine
  imports Json_Value
begin

text \<open>
  The policy engine (\<open>app/core/policy_engine.py\<close>): \<open>evaluate\<close> decides channel compliance
  (consent, do-not-contact, calling windows, attempt limits), \<open>evaluate_command\<close> decides
  whether a verified principal may submit a command. Both collect reason codes and allow
  when there is none.

  A \<open>datetime\<close> is \<open>Aware t\<close> or \<open>Naive t\<close>, with \<open>t\<close> in microseconds; a naive value read
  as UTC denotes the instant \<open>t\<close>. The time-zone database behind \<open>ZoneInfo\<close> is a parameter
  \<open>zone\<close>: it maps a zone name to its UTC offset at every instant, or raises. Times of day
  are microseconds since midnight, without a zone. The random \<open>decision_id\<close> and the reading
  of the clock are arguments.
\<close>

subsection \<open>Instants and their ISO rendering\<close>

datatype datetime = Aware int | Naive int

fun instant :: "datetime \<Rightarrow> int" where
  "instant (Aware t) = t"
| "instant (Naive t) = t"

fun is_aware :: "datetime option \<Rightarrow> bool" where
  "is_aware (Some (Aware _)) = True"
| "is_aware _ = False"

definition seconds :: "int \<Rightarrow> int" where
  "seconds n = n * 1000000"

definition pad :: "nat \<Rightarrow> int \<Rightarrow> string" where
  "pad n i = (let s = nat_str (nat i) in replicate (n - length s) CHR ''0'' @ s)"

text \<open>The proleptic Gregorian date of a day number counted from 1970-01-01.\<close>

definition civil :: "int \<Rightarrow> int \<times> int \<times> int" where
  "civil days =
     (let z = days + 719468; era = z div 146097; doe = z - era * 146097;
          yoe = (doe - doe div 1460 + doe div 36524 - doe div 146096) div 365;
          doy = doe - (365 * yoe + yoe div 4 - yoe div 100);
          mp = (5 * doy + 2) div 153;
          d = doy - (153 * mp + 2) div 5 + 1;
          m = (if mp < 10 then mp + 3 else mp - 9)
      in (yoe + era * 400 + (if m \<le> 2 then 1 else 0), m, d))"

definition time_of_day :: "int \<Rightarrow> int" where
  "time_of_day local = local mod seconds 86400"

definition isoformat :: "int \<Rightarrow> int \<Rightarrow> string" where
  "isoformat local offset =
     (let (y, m, d) = civil (local div seconds 86400);
          t = time_of_day local; us = t mod 1000000; s = t div 1000000;
          o' = abs offset div 1000000; ous = abs offset mod 1000000
      in pad 4 y @ ''-'' @ pad 2 m @ ''-'' @ pad 2 d @ ''T''
         @ pad 2 (s div 3600) @ '':'' @ pad 2 (s div 60 mod 60) @ '':'' @ pad 2 (s mod 60)
         @ (if us = 0 then [] else ''.'' @ pad 6 us)
         @ (if offset < 0 then ''-'' else ''+'') @ pad 2 (o' div 3600) @ '':'' @ pad 2 (o' div 60 mod 60)
         @ (if o' mod 60 = 0 \<and> ous = 0 then [] else '':'' @ pad 2 (o' mod 60))
         @ (if ous = 0 then [] else ''.'' @ pad 6 ous))"

subsection \<open>Channel policy\<close>

datatype decision_action = Voice | Sms | Email | Callback | Transfer | Recording | Sync

fun decision_action_str :: "decision_action \<Rightarrow> string" where
  "decision_action_str Voice = ''voice''"
| "decision_action_str Sms = ''sms''"
| "decision_action_str Email = ''email''"
| "decision_action_str Callback = ''callback''"
| "decision_action_str Transfer = ''transfer''"
| "decision_action_str Recording = ''recording''"
| "decision_action_str Sync = ''sync''"

record policy_request =
  pq_correlation_id :: string
  pq_action :: decision_action
  pq_subject :: string
  pq_resource :: string
  pq_evaluated_at :: "datetime option"
  pq_consent_allowed :: "bool option"
  pq_consent_observed_at :: "datetime option"
  pq_dnc_suppressed :: "bool option"
  pq_dnc_observed_at :: "datetime option"
  pq_customer_timezone :: "string option"
  pq_jurisdiction :: "string option"
  pq_calling_window_start :: "int option"
  pq_calling_window_end :: "int option"
  pq_attempts :: "nat option"
  pq_max_attempts :: "nat option"
  pq_last_attempt_at :: "datetime option"
  pq_minimum_spacing_seconds :: "nat option"
  pq_channel_eligible :: "bool option"
  pq_business_unit :: "string option"
  pq_allowed_business_units :: "string list option"
  pq_campaign :: "string option"
  pq_allowed_campaigns :: "string list option"
  pq_agent :: "string option"
  pq_allowed_agents :: "string list option"
  pq_callback_allowed :: "bool option"
  pq_transfer_allowed :: "bool option"
  pq_recording_required :: "bool option"
  pq_disclosure_present :: "bool option"
  pq_emergency_kill_switch :: "bool option"
  pq_shadow_mode :: bool

record policy_result =
  ps_decision_id :: string
  ps_policy_version :: string
  ps_correlation_id :: string
  ps_action :: decision_action
  ps_subject :: string
  ps_resource :: string
  ps_allow :: bool
  ps_enforced :: bool
  ps_reason_codes :: "string list"
  ps_data_freshness :: "(string, string) dict"
  ps_evaluated_at :: int
  ps_expiration :: int

definition POLICY_VERSION :: string where
  "POLICY_VERSION = ''2026-07-26.1''"

definition MAX_FRESHNESS :: int where
  "MAX_FRESHNESS = seconds (24 * 3600)"

definition in_window :: "int \<Rightarrow> int \<Rightarrow> int \<Rightarrow> bool" where
  "in_window current start stop =
     (if start = stop then False
      else if start < stop then start \<le> current \<and> current < stop
      else current \<ge> start \<or> current < stop)"

definition reason_if :: "bool \<Rightarrow> string \<Rightarrow> string list" where
  "reason_if b r = (if b then [r] else [])"

text \<open>\<open>now = request.evaluated_at or datetime.now(timezone.utc)\<close>, a naive value read as UTC.\<close>

definition evaluation_instant :: "int \<Rightarrow> datetime option \<Rightarrow> int" where
  "evaluation_instant clock evaluated_at = (case evaluated_at of None \<Rightarrow> clock | Some d \<Rightarrow> instant d)"

definition missing_reasons :: "policy_request \<Rightarrow> string list" where
  "missing_reasons q =
     reason_if (pq_consent_allowed q = None \<or> pq_consent_observed_at q = None) ''missing_consent_data''
     @ reason_if (pq_dnc_suppressed q = None \<or> pq_dnc_observed_at q = None) ''missing_dnc_data''
     @ reason_if (pq_customer_timezone q = None) ''missing_timezone_data''
     @ reason_if (pq_jurisdiction q = None) ''missing_jurisdiction_data''
     @ reason_if (pq_channel_eligible q = None) ''missing_channel_data''
     @ reason_if (pq_business_unit q = None \<or> pq_allowed_business_units q = None) ''missing_business_unit_data''
     @ reason_if (pq_campaign q = None \<or> pq_allowed_campaigns q = None) ''missing_campaign_data''
     @ reason_if (pq_agent q = None \<or> pq_allowed_agents q = None) ''missing_agent_data''
     @ reason_if (pq_emergency_kill_switch q = None) ''missing_kill_switch_data''"

definition freshness_of :: "int \<Rightarrow> datetime option \<Rightarrow> string" where
  "freshness_of now observed =
     (if is_aware observed then nat_str (nat ((now - instant (the observed)) div 1000000)) @ ''s''
      else ''missing'')"

definition stale :: "int \<Rightarrow> datetime option \<Rightarrow> bool" where
  "stale now observed \<longleftrightarrow> is_aware observed \<and>
     (now - instant (the observed) < 0 \<or> now - instant (the observed) > MAX_FRESHNESS)"

definition not_listed :: "string option \<Rightarrow> string list option \<Rightarrow> bool" where
  "not_listed v allowed \<longleftrightarrow> v \<noteq> None \<and> allowed \<noteq> None \<and> the v \<notin> set (the allowed)"

definition rule_reasons :: "policy_request \<Rightarrow> string list" where
  "rule_reasons q =
     reason_if (pq_emergency_kill_switch q = Some True) ''emergency_kill_switch''
     @ reason_if (pq_consent_allowed q = Some False) ''consent_denied''
     @ reason_if (pq_dnc_suppressed q = Some True) ''dnc_suppressed''
     @ reason_if (pq_channel_eligible q = Some False) (decision_action_str (pq_action q) @ ''_ineligible'')
     @ reason_if (not_listed (pq_business_unit q) (pq_allowed_business_units q)) ''business_unit_denied''
     @ reason_if (not_listed (pq_campaign q) (pq_allowed_campaigns q)) ''campaign_denied''
     @ reason_if (not_listed (pq_agent q) (pq_allowed_agents q)) ''agent_denied''
     @ reason_if (pq_action q = Callback \<and> pq_callback_allowed q \<noteq> Some True) ''callback_denied''
     @ reason_if (pq_action q = Transfer \<and> pq_transfer_allowed q \<noteq> Some True) ''transfer_denied''
     @ reason_if (pq_action q = Recording \<and> pq_recording_required q = Some True
          \<and> pq_disclosure_present q \<noteq> Some True) ''recording_disclosure_missing''"

definition attempt_reasons :: "int \<Rightarrow> policy_request \<Rightarrow> string list" where
  "attempt_reasons now q =
     (case (pq_attempts q, pq_max_attempts q) of
        (Some n, Some mx) \<Rightarrow> reason_if (mx \<le> n) ''attempt_limit_reached''
      | _ \<Rightarrow> [''missing_attempt_limit_data''])
     @ (case pq_minimum_spacing_seconds q of
          None \<Rightarrow> [''missing_attempt_spacing_data'']
        | Some sp \<Rightarrow>
            (case pq_last_attempt_at q of
               None \<Rightarrow> []
             | Some (Naive _) \<Rightarrow> [''invalid_last_attempt_time'']
             | Some (Aware t) \<Rightarrow> reason_if (now - t < seconds (int sp)) ''minimum_attempt_spacing''))"

text \<open>The block under \<open>if request.customer_timezone\<close>: its reasons and its freshness entry.\<close>

definition calling_reasons :: "(string \<Rightarrow> exc + (int \<Rightarrow> int)) \<Rightarrow> int \<Rightarrow> policy_request
    \<Rightarrow> exc + (string list \<times> (string, string) dict)" where
  "calling_reasons zone now q =
     (if truthy (pq_customer_timezone q) then
        (case zone (the (pq_customer_timezone q)) of
           Inl e \<Rightarrow>
             if exc_class e = OtherException ''ZoneInfoNotFoundError''
             then Inr ([''invalid_customer_timezone''], []) else Inl e
         | Inr off \<Rightarrow>
             (let local = now + off now;
                  outside = (case (pq_calling_window_start q, pq_calling_window_end q) of
                     (Some a, Some b) \<Rightarrow> \<not> in_window (time_of_day local) a b | _ \<Rightarrow> False)
              in Inr (reason_if outside ''outside_calling_hours'',
                      [(''local_time'', isoformat local (off now))])))
      else Inr ([], []))"

definition evaluate_policy :: "(string \<Rightarrow> exc + (int \<Rightarrow> int)) \<Rightarrow> string \<Rightarrow> int \<Rightarrow> policy_request \<Rightarrow> exc + policy_result" where
  "evaluate_policy zone did clock q =
     (let now = evaluation_instant clock (pq_evaluated_at q)
      in case calling_reasons zone now q of
           Inl e \<Rightarrow> Inl e
         | Inr (calling, local_freshness) \<Rightarrow>
             (let reasons = missing_reasons q
                    @ reason_if (stale now (pq_consent_observed_at q)) ''stale_consent_data''
                    @ reason_if (stale now (pq_dnc_observed_at q)) ''stale_dnc_data''
                    @ rule_reasons q @ attempt_reasons now q
                    @ reason_if (pq_calling_window_start q = None \<or> pq_calling_window_end q = None)
                        ''missing_calling_hours_data''
                    @ calling
              in Inr \<lparr>ps_decision_id = did, ps_policy_version = POLICY_VERSION,
                   ps_correlation_id = pq_correlation_id q, ps_action = pq_action q, ps_subject = pq_subject q,
                   ps_resource = pq_resource q, ps_allow = (reasons = []), ps_enforced = (\<not> pq_shadow_mode q),
                   ps_reason_codes = (if reasons = [] then [''allowed''] else reasons),
                   ps_data_freshness = [(''consent'', freshness_of now (pq_consent_observed_at q)),
                     (''dnc'', freshness_of now (pq_dnc_observed_at q))] @ local_freshness,
                   ps_evaluated_at = now, ps_expiration = now + seconds 300\<rparr>))"

subsection \<open>Command policy\<close>

datatype environment = Development | Test | Staging | Preproduction | Production

fun environment_str :: "environment \<Rightarrow> string" where
  "environment_str Development = ''development''"
| "environment_str Test = ''test''"
| "environment_str Staging = ''staging''"
| "environment_str Preproduction = ''preproduction''"
| "environment_str Production = ''production''"

datatype effect_classification = ExternalEffect | Internal | ReadEffect | Synthetic

fun effect_str :: "effect_classification \<Rightarrow> string" where
  "effect_str ExternalEffect = ''external_effect''"
| "effect_str Internal = ''internal''"
| "effect_str ReadEffect = ''read''"
| "effect_str Synthetic = ''synthetic''"

record command_policy_request =
  cq_correlation_id :: string
  cq_principal :: string
  cq_client_id :: string
  cq_tenant_id :: string
  cq_authorized_tenants :: "string list"
  cq_roles :: "string list"
  cq_scopes :: "string list"
  cq_required_scope :: string
  cq_command_type :: string
  cq_target :: string
  cq_capability :: string
  cq_resource_scope :: "string option"
  cq_campaign_id :: "string option"
  cq_environment :: environment
  cq_effect_classification :: effect_classification
  cq_caller_command_prefixes :: "string list"
  cq_caller_targets :: "string list"
  cq_caller_connector_commands_allowed :: bool
  cq_campaign_scoped :: bool
  cq_operator_required :: bool
  cq_evaluated_at :: "datetime option"

record command_policy_decision =
  cd_decision_id :: string
  cd_policy_version :: string
  cd_correlation_id :: string
  cd_allow :: bool
  cd_reason_code :: string
  cd_reason_codes :: "string list"
  cd_evaluated_at :: int
  cd_safe_metadata :: json_object

definition COMMAND_POLICY_VERSION :: string where
  "COMMAND_POLICY_VERSION = ''2026-09-19.1''"

definition PLATFORM_OPERATOR_ROLE :: string where
  "PLATFORM_OPERATOR_ROLE = ''platform-operator''"

definition command_reasons :: "command_policy_request \<Rightarrow> string list" where
  "command_reasons q =
     reason_if (cq_required_scope q \<notin> set (cq_scopes q)) ''scope_missing''
     @ (if ''*'' \<in> set (cq_authorized_tenants q) then [''wildcard_tenant_prohibited'']
        else reason_if (cq_tenant_id q \<notin> set (cq_authorized_tenants q)) ''tenant_not_authorized'')
     @ (if cq_effect_classification q \<noteq> ReadEffect then
          (if \<not> cq_caller_connector_commands_allowed q then [''client_without_command_authority'']
           else reason_if (cq_target q \<notin> set (cq_caller_targets q)) ''target_not_authorized_for_client''
             @ reason_if (\<not> list_ex (startswith (cq_command_type q)) (cq_caller_command_prefixes q))
                 ''command_namespace_not_authorized'')
        else [])
     @ reason_if (cq_campaign_scoped q \<and> \<not> truthy (cq_campaign_id q)) ''campaign_scope_required''
     @ reason_if (cq_operator_required q \<and> PLATFORM_OPERATOR_ROLE \<notin> set (cq_roles q)) ''operator_role_required''
     @ reason_if (cq_environment q = Production \<and> cq_effect_classification q = Synthetic)
         ''synthetic_command_in_production''"

definition evaluate_command :: "string \<Rightarrow> int \<Rightarrow> command_policy_request \<Rightarrow> command_policy_decision" where
  "evaluate_command did clock q =
     (let reasons = command_reasons q
      in \<lparr>cd_decision_id = did, cd_policy_version = COMMAND_POLICY_VERSION,
          cd_correlation_id = cq_correlation_id q, cd_allow = (reasons = []),
          cd_reason_code = (if reasons = [] then ''allowed'' else hd reasons),
          cd_reason_codes = (if reasons = [] then [''allowed''] else reasons),
          cd_evaluated_at = evaluation_instant clock (cq_evaluated_at q),
          cd_safe_metadata = [(''client_id'', JStr (cq_client_id q)),
            (''environment'', JStr (environment_str (cq_environment q))),
            (''effect_classification'', JStr (effect_str (cq_effect_classification q))),
            (''capability'', JStr (cq_capability q)),
            (''operator'', JBool (PLATFORM_OPERATOR_ROLE \<in> set (cq_roles q)))]\<rparr>)"

definition policy_evidence :: "command_policy_decision \<Rightarrow> json_object" where
  "policy_evidence d =
     [(''policy_decision_id'', JStr (cd_decision_id d)), (''policy_version'', JStr (cd_policy_version d)),
      (''policy_allow'', JBool (cd_allow d)), (''policy_reason_code'', JStr (cd_reason_code d))]"

text \<open>What the freshness rule accepts: an aware timestamp at most 24 hours old, or any naive one.\<close>

definition timestamp_fresh :: "int \<Rightarrow> datetime option \<Rightarrow> bool" where
  "timestamp_fresh now d \<longleftrightarrow>
     (\<exists>t. d = Some (Naive t)) \<or> (\<exists>t. d = Some (Aware t) \<and> t \<le> now \<and> now - t \<le> MAX_FRESHNESS)"

definition calling_hours_ok :: "(string \<Rightarrow> exc + (int \<Rightarrow> int)) \<Rightarrow> int \<Rightarrow> policy_request \<Rightarrow> bool" where
  "calling_hours_ok zone now q \<longleftrightarrow>
     (case (pq_calling_window_start q, pq_calling_window_end q) of
        (Some a, Some b) \<Rightarrow>
          pq_customer_timezone q = Some []
          \<or> (case zone (the (pq_customer_timezone q)) of
               Inl _ \<Rightarrow> False | Inr off \<Rightarrow> in_window (time_of_day (now + off now)) a b)
      | _ \<Rightarrow> False)"

definition sample_policy_request :: policy_request where
  "sample_policy_request = \<lparr>pq_correlation_id = ''c'', pq_action = Voice, pq_subject = ''s'', pq_resource = ''r'',
     pq_evaluated_at = Some (Aware (seconds 1800000000)), pq_consent_allowed = Some True,
     pq_consent_observed_at = Some (Aware (seconds 1799990000)), pq_dnc_suppressed = Some False,
     pq_dnc_observed_at = Some (Aware (seconds 1799990000)), pq_customer_timezone = Some ''UTC'',
     pq_jurisdiction = Some ''US'', pq_calling_window_start = Some (seconds 28800),
     pq_calling_window_end = Some (seconds 72000), pq_attempts = Some 0, pq_max_attempts = Some 3,
     pq_last_attempt_at = None, pq_minimum_spacing_seconds = Some 60, pq_channel_eligible = Some True,
     pq_business_unit = Some ''b'', pq_allowed_business_units = Some [''b''], pq_campaign = Some ''c'',
     pq_allowed_campaigns = Some [''c''], pq_agent = Some ''a'', pq_allowed_agents = Some [''a''],
     pq_callback_allowed = None, pq_transfer_allowed = None, pq_recording_required = None,
     pq_disclosure_present = None, pq_emergency_kill_switch = Some False, pq_shadow_mode = False\<rparr>"

subsection \<open>Properties\<close>

lemma reason_if_Nil [simp]: "reason_if b r = [] \<longleftrightarrow> \<not> b"
  by (simp add: reason_if_def)

lemma in_window_swap: "a \<noteq> b \<Longrightarrow> in_window c a b \<longleftrightarrow> \<not> in_window c b a"
  by (auto simp: in_window_def)

lemma missing_reasons_Nil:
  "missing_reasons q = [] \<longleftrightarrow> pq_consent_allowed q \<noteq> None \<and> pq_consent_observed_at q \<noteq> None
     \<and> pq_dnc_suppressed q \<noteq> None \<and> pq_dnc_observed_at q \<noteq> None \<and> pq_customer_timezone q \<noteq> None
     \<and> pq_jurisdiction q \<noteq> None \<and> pq_channel_eligible q \<noteq> None \<and> pq_business_unit q \<noteq> None
     \<and> pq_allowed_business_units q \<noteq> None \<and> pq_campaign q \<noteq> None \<and> pq_allowed_campaigns q \<noteq> None
     \<and> pq_agent q \<noteq> None \<and> pq_allowed_agents q \<noteq> None \<and> pq_emergency_kill_switch q \<noteq> None"
  by (auto simp: missing_reasons_def)

lemma attempt_reasons_Nil:
  "attempt_reasons now q = [] \<longleftrightarrow>
     (\<exists>n mx. pq_attempts q = Some n \<and> pq_max_attempts q = Some mx \<and> n < mx)
     \<and> (\<exists>sp. pq_minimum_spacing_seconds q = Some sp
          \<and> (pq_last_attempt_at q = None
             \<or> (\<exists>t. pq_last_attempt_at q = Some (Aware t) \<and> seconds (int sp) \<le> now - t)))"
  by (auto simp: attempt_reasons_def split: option.split datetime.split)

lemma fresh_iff: "d \<noteq> None \<and> \<not> stale now d \<longleftrightarrow> timestamp_fresh now d"
  by (cases d; cases "the d") (auto simp: stale_def timestamp_fresh_def)

lemma rule_reasons_Nil:
  "rule_reasons q = [] \<longleftrightarrow> pq_emergency_kill_switch q \<noteq> Some True \<and> pq_consent_allowed q \<noteq> Some False
     \<and> pq_dnc_suppressed q \<noteq> Some True \<and> pq_channel_eligible q \<noteq> Some False
     \<and> \<not> not_listed (pq_business_unit q) (pq_allowed_business_units q)
     \<and> \<not> not_listed (pq_campaign q) (pq_allowed_campaigns q)
     \<and> \<not> not_listed (pq_agent q) (pq_allowed_agents q)
     \<and> (pq_action q = Callback \<longrightarrow> pq_callback_allowed q = Some True)
     \<and> (pq_action q = Transfer \<longrightarrow> pq_transfer_allowed q = Some True)
     \<and> (pq_action q = Recording \<and> pq_recording_required q = Some True \<longrightarrow> pq_disclosure_present q = Some True)"
  by (auto simp: rule_reasons_def)

lemma listed_iff:
  "v \<noteq> None \<and> allowed \<noteq> None \<and> \<not> not_listed v allowed \<longleftrightarrow> (\<exists>x xs. v = Some x \<and> allowed = Some xs \<and> x \<in> set xs)"
  by (auto simp: not_listed_def)

lemma bool_known: "(b::bool option) \<noteq> None \<and> b \<noteq> Some True \<longleftrightarrow> b = Some False"
  "(b::bool option) \<noteq> None \<and> b \<noteq> Some False \<longleftrightarrow> b = Some True"
  by (cases b; auto)+

lemma calling_reasons_Nil:
  assumes "calling_reasons zone now q = Inr (rs, fr)" "pq_customer_timezone q \<noteq> None"
    "pq_calling_window_start q \<noteq> None" "pq_calling_window_end q \<noteq> None"
  shows "rs = [] \<longleftrightarrow> calling_hours_ok zone now q"
  using assms
  by (auto simp: calling_reasons_def calling_hours_ok_def truthy_def Let_def
      split: if_splits sum.splits option.splits)

lemma evaluate_policy_allow:
  assumes "evaluate_policy zone did clock q = Inr r" "now = evaluation_instant clock (pq_evaluated_at q)"
  shows "ps_allow r \<longleftrightarrow> missing_reasons q = [] \<and> rule_reasons q = [] \<and> attempt_reasons now q = []
    \<and> \<not> stale now (pq_consent_observed_at q) \<and> \<not> stale now (pq_dnc_observed_at q)
    \<and> calling_hours_ok zone now q"
proof -
  obtain rs fr where c: "calling_reasons zone now q = Inr (rs, fr)"
    using assms by (auto simp: evaluate_policy_def Let_def split: sum.splits)
  have ok: "ps_allow r \<longleftrightarrow> missing_reasons q = [] \<and> rule_reasons q = [] \<and> attempt_reasons now q = []
    \<and> \<not> stale now (pq_consent_observed_at q) \<and> \<not> stale now (pq_dnc_observed_at q)
    \<and> pq_calling_window_start q \<noteq> None \<and> pq_calling_window_end q \<noteq> None \<and> rs = []"
    using assms c by (auto simp: evaluate_policy_def Let_def)
  have win: "calling_hours_ok zone now q \<Longrightarrow> pq_calling_window_start q \<noteq> None \<and> pq_calling_window_end q \<noteq> None"
    by (auto simp: calling_hours_ok_def split: option.splits)
  have tz: "missing_reasons q = [] \<Longrightarrow> pq_customer_timezone q \<noteq> None"
    by (simp add: missing_reasons_Nil)
  show ?thesis using ok win tz calling_reasons_Nil [OF c] by blast
qed

lemma evaluate_policy_returns:
  assumes "\<And>n. \<exists>off. zone n = Inr off"
  shows "\<exists>r. evaluate_policy zone did clock q = Inr r"
proof -
  have "\<exists>x. calling_reasons zone now q = Inr x" for now
    using assms [of "the (pq_customer_timezone q)"] by (auto simp: calling_reasons_def Let_def)
  then show ?thesis
    by (simp add: evaluate_policy_def Let_def split: sum.split prod.split) (metis sum.distinct(1))
qed

text \<open>
  What the channel policy allows, exactly: the decision allows a contact if and only if the
  consent is known and given, the do-not-contact flag is known and clear, both with an
  acceptable timestamp, the kill switch is known to be off, the channel is eligible, the
  business unit, campaign and agent are listed, the action's own permission is given, the
  attempt limit and spacing are known and respected, and the local time lies in the calling
  window of the customer's time zone.
\<close>

theorem channel_policy_allows_iff:
  assumes "evaluate_policy zone did clock q = Inr r"
    and "now = evaluation_instant clock (pq_evaluated_at q)"
  shows "ps_allow r \<longleftrightarrow>
      pq_consent_allowed q = Some True \<and> timestamp_fresh now (pq_consent_observed_at q)
      \<and> pq_dnc_suppressed q = Some False \<and> timestamp_fresh now (pq_dnc_observed_at q)
      \<and> pq_emergency_kill_switch q = Some False \<and> pq_channel_eligible q = Some True
      \<and> pq_customer_timezone q \<noteq> None \<and> pq_jurisdiction q \<noteq> None
      \<and> (\<exists>x xs. pq_business_unit q = Some x \<and> pq_allowed_business_units q = Some xs \<and> x \<in> set xs)
      \<and> (\<exists>x xs. pq_campaign q = Some x \<and> pq_allowed_campaigns q = Some xs \<and> x \<in> set xs)
      \<and> (\<exists>x xs. pq_agent q = Some x \<and> pq_allowed_agents q = Some xs \<and> x \<in> set xs)
      \<and> (pq_action q = Callback \<longrightarrow> pq_callback_allowed q = Some True)
      \<and> (pq_action q = Transfer \<longrightarrow> pq_transfer_allowed q = Some True)
      \<and> (pq_action q = Recording \<and> pq_recording_required q = Some True \<longrightarrow> pq_disclosure_present q = Some True)
      \<and> (\<exists>n mx. pq_attempts q = Some n \<and> pq_max_attempts q = Some mx \<and> n < mx)
      \<and> (\<exists>sp. pq_minimum_spacing_seconds q = Some sp \<and> (pq_last_attempt_at q = None
           \<or> (\<exists>t. pq_last_attempt_at q = Some (Aware t) \<and> seconds (int sp) \<le> now - t)))
      \<and> calling_hours_ok zone now q"
  unfolding evaluate_policy_allow [OF assms] missing_reasons_Nil rule_reasons_Nil attempt_reasons_Nil
  using bool_known(2) [of "pq_consent_allowed q"] bool_known(1) [of "pq_dnc_suppressed q"]
    bool_known(1) [of "pq_emergency_kill_switch q"] bool_known(2) [of "pq_channel_eligible q"]
    listed_iff [of "pq_business_unit q" "pq_allowed_business_units q"]
    listed_iff [of "pq_campaign q" "pq_allowed_campaigns q"] listed_iff [of "pq_agent q" "pq_allowed_agents q"]
    fresh_iff [of "pq_consent_observed_at q" now] fresh_iff [of "pq_dnc_observed_at q" now]
  by argo

theorem channel_policy_allows_iff_witness:
  "\<exists>r. evaluate_policy (\<lambda>_. Inr (\<lambda>_. 0)) ''d'' 0 sample_policy_request = Inr r \<and> ps_allow r
     \<and> calling_hours_ok (\<lambda>_. Inr (\<lambda>_. 0)) (seconds 1800000000) sample_policy_request"
proof -
  let ?z = "\<lambda>_. Inr (\<lambda>_. 0) :: exc + (int \<Rightarrow> int)"
  obtain r where r: "evaluate_policy ?z ''d'' 0 sample_policy_request = Inr r"
    using evaluate_policy_returns [of ?z] by blast
  have now: "seconds 1800000000 = evaluation_instant 0 (pq_evaluated_at sample_policy_request)"
    by (simp add: evaluation_instant_def sample_policy_request_def)
  have hours: "calling_hours_ok ?z (seconds 1800000000) sample_policy_request"
    by (simp add: calling_hours_ok_def sample_policy_request_def in_window_def time_of_day_def seconds_def)
  have "ps_allow r"
    unfolding channel_policy_allows_iff [OF r now] using hours
    by (simp add: sample_policy_request_def timestamp_fresh_def seconds_def MAX_FRESHNESS_def)
  with r hours show ?thesis by blast
qed

text \<open>
  Two inputs for which the evaluator does not fail closed: consent and do-not-contact
  data with a timestamp that carries no zone are never too old, whatever their age, and an
  empty time-zone name skips the calling window altogether. Both requests below are allowed:
  one with data from 1970, one with a window that excludes every instant.
\<close>

theorem channel_policy_fails_open:
  "(\<exists>r. evaluate_policy zone ''d'' 0 (sample_policy_request\<lparr>pq_customer_timezone := Some [],
       pq_consent_observed_at := Some (Naive 0), pq_dnc_observed_at := Some (Naive 0)\<rparr>) = Inr r \<and> ps_allow r)
   \<and> (\<exists>r. evaluate_policy zone ''d'' 0 (sample_policy_request\<lparr>pq_customer_timezone := Some [],
       pq_calling_window_end := Some (seconds 28800)\<rparr>) = Inr r \<and> ps_allow r
       \<and> (\<forall>t. \<not> in_window t (seconds 28800) (seconds 28800)))"
  by (simp add: evaluate_policy_def calling_reasons_def sample_policy_request_def truthy_def missing_reasons_def
      rule_reasons_def attempt_reasons_def stale_def not_listed_def reason_if_def in_window_def seconds_def
      evaluation_instant_def MAX_FRESHNESS_def Let_def)

text \<open>
  What the command policy allows, exactly: the required scope is held, the tenant is one
  of the principal's and no wildcard is, a command that is not a read comes from a caller
  with connector authority over the target and the command namespace, a campaign-scoped
  command names a campaign, an operator command comes from a platform operator, and no
  synthetic command runs in production. The decision carries a reason exactly when it denies.
\<close>

theorem command_policy_allows_iff:
  "(cd_allow (evaluate_command did clock q) \<longleftrightarrow>
      cq_required_scope q \<in> set (cq_scopes q)
      \<and> cq_tenant_id q \<in> set (cq_authorized_tenants q) \<and> ''*'' \<notin> set (cq_authorized_tenants q)
      \<and> (cq_effect_classification q \<noteq> ReadEffect \<longrightarrow>
           cq_caller_connector_commands_allowed q \<and> cq_target q \<in> set (cq_caller_targets q)
           \<and> (\<exists>prefix \<in> set (cq_caller_command_prefixes q). startswith (cq_command_type q) prefix))
      \<and> (cq_campaign_scoped q \<longrightarrow> truthy (cq_campaign_id q))
      \<and> (cq_operator_required q \<longrightarrow> PLATFORM_OPERATOR_ROLE \<in> set (cq_roles q))
      \<and> \<not> (cq_environment q = Production \<and> cq_effect_classification q = Synthetic))
   \<and> (cd_reason_code (evaluate_command did clock q) = ''allowed'' \<longleftrightarrow> cd_allow (evaluate_command did clock q))"
proof -
  have "cd_allow (evaluate_command did clock q) \<longleftrightarrow> command_reasons q = []"
    by (simp add: evaluate_command_def Let_def)
  moreover have "''allowed'' \<notin> set (command_reasons q)"
    by (simp add: command_reasons_def reason_if_def)
  then have "cd_reason_code (evaluate_command did clock q) = ''allowed'' \<longleftrightarrow> command_reasons q = []"
    by (auto simp: evaluate_command_def Let_def dest: hd_in_set)
  moreover have "command_reasons q = [] \<longleftrightarrow>
      cq_required_scope q \<in> set (cq_scopes q)
      \<and> cq_tenant_id q \<in> set (cq_authorized_tenants q) \<and> ''*'' \<notin> set (cq_authorized_tenants q)
      \<and> (cq_effect_classification q \<noteq> ReadEffect \<longrightarrow>
           cq_caller_connector_commands_allowed q \<and> cq_target q \<in> set (cq_caller_targets q)
           \<and> (\<exists>prefix \<in> set (cq_caller_command_prefixes q). startswith (cq_command_type q) prefix))
      \<and> (cq_campaign_scoped q \<longrightarrow> truthy (cq_campaign_id q))
      \<and> (cq_operator_required q \<longrightarrow> PLATFORM_OPERATOR_ROLE \<in> set (cq_roles q))
      \<and> \<not> (cq_environment q = Production \<and> cq_effect_classification q = Synthetic)"
    by (auto simp: command_reasons_def list_ex_iff)
  ultimately show ?thesis by blast
qed

theorem command_policy_allows_iff_witness:
  "cd_allow (evaluate_command ''d-1'' 0 \<lparr>cq_correlation_id = ''c'', cq_principal = ''svc'', cq_client_id = ''middleware-api'',
     cq_tenant_id = ''T1'', cq_authorized_tenants = [''T1''], cq_roles = [], cq_scopes = [''middleware.command''],
     cq_required_scope = ''middleware.command'', cq_command_type = ''crm.lead.create'', cq_target = ''odoo'', cq_capability = ''CRM'',
     cq_resource_scope = None, cq_campaign_id = None, cq_environment = Production, cq_effect_classification = Internal,
     cq_caller_command_prefixes = [''crm.''], cq_caller_targets = [''odoo''], cq_caller_connector_commands_allowed = True,
     cq_campaign_scoped = False, cq_operator_required = False, cq_evaluated_at = None\<rparr>)"
  by (simp add: command_policy_allows_iff startswith_def)

end
