(* ===== verification/Safety_Gate.thy ===== *)
theory Safety_Gate
  imports Policy_Engine Command_Model Machines
begin

text \<open>
  The safety gate (\<open>app/platform/safety.py\<close>): the switch table with its capability gates and
  limits, the runtime kill switches, the per-tenant token bucket and the decision. Tokens and
  readings of the monotonic clock are rationals. The decision id is an argument.
\<close>

subsection \<open>Switch table and settings\<close>

record capability_gate =
  cg_capability :: string
  cg_classification :: effect_classification
  cg_effect_flags :: "string list"
  cg_umbrella_controls :: "string list"
  cg_environments :: "string list"
  cg_campaign_scoped :: bool
  cg_synthetic_tenant_required :: bool

record safety_limits =
  lim_tenant_commands_per_minute :: nat
  lim_tenant_backlog_bound :: nat
  lim_global_backlog_bound :: nat

record safety_switches =
  sw_safety_version :: string
  sw_global_kill_switch :: bool
  sw_provider_kill_switches :: "(string, bool) dict"
  sw_synthetic_tenants :: "string list"
  sw_gates :: "(string, capability_gate) dict"
  sw_limits :: safety_limits

record safety_subject =
  ss_tenant_id :: string
  ss_command_type :: string
  ss_target :: string
  ss_capability :: string
  ss_campaign_id :: "string option"
  ss_correlation_id :: string

record safety_context =
  sx_adapter_registered :: bool
  sx_adapter_ready :: "bool option"
  sx_tenant_backlog :: "nat option"
  sx_global_backlog :: "nat option"

record safety_decision =
  sd_decision_id :: string
  sd_safety_version :: string
  sd_correlation_id :: string
  sd_allow :: bool
  sd_reason_code :: string
  sd_reason_codes :: "string list"
  sd_classification :: effect_classification
  sd_saturated :: bool
  sd_safe_metadata :: json_object

text \<open>The settings the gate reads.\<close>

record settings =
  st_app_env :: environment
  st_external_effects :: "(string, bool) dict"
  st_umbrella_controls :: "(string, bool) dict"

subsection \<open>Token bucket\<close>

record token_bucket =
  tb_per_minute :: nat
  tb_max_tenants :: nat
  tb_state :: "(string, rat \<times> rat) dict"

definition new_bucket :: "nat \<Rightarrow> token_bucket" where
  "new_bucket per_minute = \<lparr>tb_per_minute = per_minute, tb_max_tenants = 10000, tb_state = []\<rparr>"

text \<open>\<open>min(d, key=...)\<close> over a dictionary: the first key with the least value.\<close>

fun oldest_key :: "(string \<times> rat \<times> rat) list \<Rightarrow> string" where
  "oldest_key [] = []"
| "oldest_key [(k, _)] = k"
| "oldest_key ((k, tok, upd) # (k', tok', upd') # rest) =
     (if upd' < upd then oldest_key ((k', tok', upd') # rest) else oldest_key ((k, tok, upd) # rest))"

definition tb_refill :: "token_bucket \<Rightarrow> rat \<Rightarrow> string \<Rightarrow> rat" where
  "tb_refill b now tenant =
     (let pm = of_nat (tb_per_minute b);
          (tokens, updated) = (case map_of (tb_state b) tenant of None \<Rightarrow> (pm, now) | Some tu \<Rightarrow> tu)
      in min pm (tokens + (now - updated) * (pm / 60)))"

definition tb_admit :: "rat \<Rightarrow> string \<Rightarrow> token_bucket \<Rightarrow> bool \<times> token_bucket" where
  "tb_admit now tenant b =
     (let tokens = tb_refill b now tenant
      in if tokens < 1 then (False, b\<lparr>tb_state := AList.update tenant (tokens, now) (tb_state b)\<rparr>)
         else
          (let state = AList.update tenant (tokens - 1, now) (tb_state b)
           in (True, b\<lparr>tb_state := (if tb_max_tenants b < length state
                 then AList.delete (oldest_key state) state else state)\<rparr>)))"

subsection \<open>The gate\<close>

record safety_gate =
  sg_settings :: settings
  sg_capabilities :: "(string, bool) dict"
  sg_switches :: safety_switches
  sg_tripped_global :: bool
  sg_tripped_providers :: "string list"
  sg_budget :: token_bucket

definition new_gate :: "settings \<Rightarrow> policy_registry \<Rightarrow> safety_switches \<Rightarrow> safety_gate" where
  "new_gate cfg policies switches = \<lparr>sg_settings = cfg, sg_capabilities = pr_capabilities policies,
     sg_switches = switches, sg_tripped_global = False, sg_tripped_providers = [],
     sg_budget = new_bucket (lim_tenant_commands_per_minute (sw_limits switches))\<rparr>"

definition trip :: "string option \<Rightarrow> safety_gate \<Rightarrow> safety_gate" where
  "trip provider g =
     (case provider of
        None \<Rightarrow> g\<lparr>sg_tripped_global := True\<rparr>
      | Some p \<Rightarrow> g\<lparr>sg_tripped_providers := List.insert p (sg_tripped_providers g)\<rparr>)"

definition global_kill :: "safety_gate \<Rightarrow> bool" where
  "global_kill g \<longleftrightarrow> sw_global_kill_switch (sg_switches g) \<or> sg_tripped_global g"

definition provider_kill :: "safety_gate \<Rightarrow> string \<Rightarrow> bool" where
  "provider_kill g provider \<longleftrightarrow>
     map_of (sw_provider_kill_switches (sg_switches g)) provider = Some True
     \<or> provider \<in> set (sg_tripped_providers g)"

definition gate_of :: "safety_gate \<Rightarrow> string \<Rightarrow> capability_gate option" where
  "gate_of g capability = map_of (sw_gates (sg_switches g)) capability"

definition classification :: "safety_gate \<Rightarrow> string \<Rightarrow> effect_classification" where
  "classification g capability =
     (case gate_of g capability of None \<Rightarrow> ExternalEffect | Some gate \<Rightarrow> cg_classification gate)"

definition campaign_scoped :: "safety_gate \<Rightarrow> string \<Rightarrow> bool" where
  "campaign_scoped g capability =
     (case gate_of g capability of None \<Rightarrow> False | Some gate \<Rightarrow> cg_campaign_scoped gate)"

definition off_reasons :: "string \<Rightarrow> (string, bool) dict \<Rightarrow> string list \<Rightarrow> string list" where
  "off_reasons label flags names =
     concat (map (\<lambda>n. reason_if (map_of flags n \<noteq> Some True) (label @ n)) names)"

definition capability_reasons :: "safety_gate \<Rightarrow> safety_subject \<Rightarrow> string list" where
  "capability_reasons g s =
     (case gate_of g (ss_capability s) of
        None \<Rightarrow> [''capability_without_safety_gate'']
      | Some gate \<Rightarrow>
          reason_if (environment_str (st_app_env (sg_settings g)) \<notin> set (cg_environments gate))
            ''environment_not_authorized''
          @ reason_if (cg_campaign_scoped gate \<and> \<not> truthy (ss_campaign_id s)) ''campaign_scope_required''
          @ reason_if (cg_synthetic_tenant_required gate
               \<and> ss_tenant_id s \<notin> set (sw_synthetic_tenants (sg_switches g))) ''synthetic_tenant_required''
          @ (case cg_classification gate of
               ExternalEffect \<Rightarrow>
                 reason_if (map_of (sg_capabilities g) (ss_capability s) \<noteq> Some True) ''capability_disabled''
                 @ off_reasons ''effect_gate_off:'' (st_external_effects (sg_settings g)) (cg_effect_flags gate)
                 @ off_reasons ''umbrella_control_off:'' (st_umbrella_controls (sg_settings g))
                     (cg_umbrella_controls gate)
             | Synthetic \<Rightarrow>
                 reason_if (map_of (sg_capabilities g) (ss_capability s) \<noteq> Some True) ''capability_disabled''
             | _ \<Rightarrow> []))"

definition saturation_reasons :: "safety_gate \<Rightarrow> safety_context \<Rightarrow> string list" where
  "saturation_reasons g x =
     (let limits = sw_limits (sg_switches g) in
      reason_if (case sx_global_backlog x of None \<Rightarrow> False | Some n \<Rightarrow> lim_global_backlog_bound limits \<le> n)
        ''global_backlog_saturated''
      @ reason_if (case sx_tenant_backlog x of None \<Rightarrow> False | Some n \<Rightarrow> lim_tenant_backlog_bound limits \<le> n)
        ''tenant_backlog_saturated'')"

text \<open>Every reason of \<open>evaluate\<close> except the rate budget, in the order of the code.\<close>

definition safety_reasons :: "safety_gate \<Rightarrow> safety_subject \<Rightarrow> safety_context \<Rightarrow> string list" where
  "safety_reasons g s x =
     reason_if (global_kill g) ''global_kill_switch''
     @ reason_if (provider_kill g (ss_target s)) ''provider_kill_switch''
     @ capability_reasons g s
     @ (if \<not> sx_adapter_registered x then [''adapter_not_registered'']
        else reason_if (sx_adapter_ready x = Some False) ''adapter_not_ready'')
     @ (if classification g (ss_capability s) = ExternalEffect then
          reason_if (sx_global_backlog x = None) ''global_backlog_unavailable''
          @ reason_if (sx_tenant_backlog x = None) ''tenant_backlog_unavailable''
        else [])
     @ saturation_reasons g x"

definition safety_evaluate :: "string \<Rightarrow> rat \<Rightarrow> safety_subject \<Rightarrow> safety_context \<Rightarrow> bool
    \<Rightarrow> safety_gate \<Rightarrow> safety_decision \<times> safety_gate" where
  "safety_evaluate did clock s x consume_budget g =
     (let reasons0 = safety_reasons g s x;
          (admitted, budget) = (if consume_budget \<and> reasons0 = []
            then tb_admit clock (ss_tenant_id s) (sg_budget g) else (True, sg_budget g));
          reasons = reasons0 @ reason_if (\<not> admitted) ''tenant_rate_limited'';
          cls = classification g (ss_capability s)
      in (\<lparr>sd_decision_id = did, sd_safety_version = sw_safety_version (sg_switches g),
           sd_correlation_id = ss_correlation_id s, sd_allow = (reasons = []),
           sd_reason_code = (if reasons = [] then ''allowed'' else hd reasons),
           sd_reason_codes = (if reasons = [] then [''allowed''] else reasons),
           sd_classification = cls, sd_saturated = (saturation_reasons g x \<noteq> [] \<or> \<not> admitted),
           sd_safe_metadata = [(''environment'', JStr (environment_str (st_app_env (sg_settings g)))),
             (''capability'', JStr (ss_capability s)), (''target'', JStr (ss_target s)),
             (''classification'', JStr (effect_str cls)), (''global_kill_switch'', JBool (global_kill g))]\<rparr>,
          g\<lparr>sg_budget := budget\<rparr>))"

definition safety_evidence :: "safety_decision \<Rightarrow> json_object" where
  "safety_evidence d =
     [(''safety_decision_id'', JStr (sd_decision_id d)), (''safety_version'', JStr (sd_safety_version d)),
      (''safety_allow'', JBool (sd_allow d)), (''safety_reason_code'', JStr (sd_reason_code d))]"

subsection \<open>Runs\<close>

inductive gate_step :: "safety_gate \<Rightarrow> safety_gate \<Rightarrow> bool" where
  gs_trip: "gate_step g (trip provider g)"
| gs_evaluate: "gate_step g (snd (safety_evaluate did clock s x consume g))"

definition kills_grow :: "safety_gate \<Rightarrow> safety_gate \<Rightarrow> bool" where
  "kills_grow g g' \<longleftrightarrow> sg_switches g' = sg_switches g \<and> sg_settings g' = sg_settings g
     \<and> sg_capabilities g' = sg_capabilities g
     \<and> (global_kill g \<longrightarrow> global_kill g') \<and> (\<forall>p. provider_kill g p \<longrightarrow> provider_kill g' p)"

fun tb_admits :: "(string \<times> rat) list \<Rightarrow> token_bucket \<Rightarrow> bool list \<times> token_bucket" where
  "tb_admits [] b = ([], b)"
| "tb_admits ((tenant, now) # reqs) b =
     (case tb_admit now tenant b of (ok, b') \<Rightarrow>
        (case tb_admits reqs b' of (oks, b'') \<Rightarrow> (ok # oks, b'')))"

text \<open>How many requests of one tenant were admitted.\<close>

definition admitted_count :: "string \<Rightarrow> (string \<times> rat) list \<Rightarrow> bool list \<Rightarrow> nat" where
  "admitted_count u reqs oks = length (filter (\<lambda>((t, _), ok). t = u \<and> ok) (zip reqs oks))"

fun ascending_from :: "rat \<Rightarrow> (string \<times> rat) list \<Rightarrow> bool" where
  "ascending_from t [] = True"
| "ascending_from t ((_, now) # reqs) \<longleftrightarrow> t \<le> now \<and> ascending_from now reqs"

definition last_time :: "rat \<Rightarrow> (string \<times> rat) list \<Rightarrow> rat" where
  "last_time t reqs = (if reqs = [] then t else snd (last reqs))"

definition bucket_inv :: "token_bucket \<Rightarrow> bool" where
  "bucket_inv b \<longleftrightarrow> distinct (map fst (tb_state b)) \<and> length (tb_state b) \<le> tb_max_tenants b"

text \<open>The recorded level of a tenant is not negative and not from the future.\<close>

definition level_ok :: "token_bucket \<Rightarrow> rat \<Rightarrow> string \<Rightarrow> bool" where
  "level_ok b t u \<longleftrightarrow> (case map_of (tb_state b) u of None \<Rightarrow> True | Some (tok, upd) \<Rightarrow> 0 \<le> tok \<and> upd \<le> t)"

definition fits :: "token_bucket \<Rightarrow> (string \<times> rat) list \<Rightarrow> bool" where
  "fits b reqs \<longleftrightarrow> distinct (map fst (tb_state b))
     \<and> card (fst ` set (tb_state b) \<union> fst ` set reqs) \<le> tb_max_tenants b"

definition refill_rate :: "token_bucket \<Rightarrow> rat" where
  "refill_rate b = of_nat (tb_per_minute b) / 60"

subsection \<open>Samples for the witnesses\<close>

definition sample_switches :: safety_switches where
  "sample_switches = \<lparr>sw_safety_version = ''2026-09-19.1'', sw_global_kill_switch = False,
     sw_provider_kill_switches = [(''test-syn'', False)], sw_synthetic_tenants = [''TEST_SYN''],
     sw_gates = [(''TEST_SYN_EXECUTE'', \<lparr>cg_capability = ''TEST_SYN_EXECUTE'', cg_classification = Synthetic,
        cg_effect_flags = [], cg_umbrella_controls = [],
        cg_environments = [''development'', ''test'', ''staging'', ''preproduction''],
        cg_campaign_scoped = False, cg_synthetic_tenant_required = True\<rparr>)],
     sw_limits = \<lparr>lim_tenant_commands_per_minute = 600, lim_tenant_backlog_bound = 1000,
        lim_global_backlog_bound = 10000\<rparr>\<rparr>"

definition sample_policies :: policy_registry where
  "sample_policies = make_registry [\<lparr>cp_prefix = ''test.syn.'', cp_target = ''test-syn'',
     cp_capability = ''TEST_SYN_EXECUTE'', cp_readback_required = True\<rparr>] [(''TEST_SYN_EXECUTE'', True)]"

definition sample_gate :: safety_gate where
  "sample_gate = new_gate \<lparr>st_app_env = Test, st_external_effects = [], st_umbrella_controls = []\<rparr>
     sample_policies sample_switches"

definition sample_subject :: safety_subject where
  "sample_subject = \<lparr>ss_tenant_id = ''TEST_SYN'', ss_command_type = ''test.syn.ping'', ss_target = ''test-syn'',
     ss_capability = ''TEST_SYN_EXECUTE'', ss_campaign_id = None, ss_correlation_id = ''corr-1''\<rparr>"

definition external_gate :: safety_gate where
  "external_gate = new_gate \<lparr>st_app_env = Staging, st_external_effects = [(''EMAIL_DELIVERY_ENABLED'', True)],
       st_umbrella_controls = [(''EXTERNAL_DELIVERY_ENABLED'', True)]\<rparr>
     \<lparr>pr_policies = [], pr_capabilities = [(''EMAIL_DELIVERY'', True)]\<rparr>
     (sample_switches\<lparr>sw_gates := [(''EMAIL_DELIVERY'', \<lparr>cg_capability = ''EMAIL_DELIVERY'',
        cg_classification = ExternalEffect, cg_effect_flags = [''EMAIL_DELIVERY_ENABLED''],
        cg_umbrella_controls = [''EXTERNAL_DELIVERY_ENABLED''], cg_environments = [''staging''],
        cg_campaign_scoped = False, cg_synthetic_tenant_required = False\<rparr>)]\<rparr>)"

subsection \<open>The token bucket\<close>

lemma tb_refill_le: "tb_refill b now u \<le> of_nat (tb_per_minute b)"
  by (simp add: tb_refill_def Let_def split: prod.split option.split)

lemma tb_refill_absent: "map_of (tb_state b) u = None \<Longrightarrow> tb_refill b now u = of_nat (tb_per_minute b)"
  by (simp add: tb_refill_def)

lemma tb_admit_params [simp]:
  "tb_per_minute (snd (tb_admit now u b)) = tb_per_minute b"
  "tb_max_tenants (snd (tb_admit now u b)) = tb_max_tenants b"
  by (simp_all add: tb_admit_def Let_def)

lemma map_of_delete_other: "k \<noteq> k' \<Longrightarrow> map_of (AList.delete k al) k' = map_of al k'"
  by (simp add: delete_conv')

lemma oldest_key_in: "al \<noteq> [] \<Longrightarrow> oldest_key al \<in> fst ` set al"
  by (induction al rule: oldest_key.induct) auto

lemma length_delete_in: "distinct (map fst al) \<Longrightarrow> k \<in> fst ` set al \<Longrightarrow> length (AList.delete k al) + 1 = length al"
proof (induction al)
  case (Cons p al)
  obtain k0 v0 where p: "p = (k0, v0)" by (cases p)
  show ?case
  proof (cases "k0 = k")
    case True
    then have "k \<notin> fst ` set al" using Cons.prems p by auto
    then have "AList.delete k al = al" by (simp add: delete_id)
    then show ?thesis using True p by simp
  next
    case False
    then show ?thesis using Cons p by auto
  qed
qed simp

lemma tb_admit_inv:
  assumes "1 \<le> tb_per_minute b" "bucket_inv b"
  shows "bucket_inv (snd (tb_admit now u b))"
proof (cases "tb_refill b now u < 1")
  case True
  then have "map_of (tb_state b) u \<noteq> None"
    using assms(1) tb_refill_absent [of b u now] by (metis not_less of_nat_1 of_nat_le_iff)
  then show ?thesis
    using assms(2) True by (auto simp: tb_admit_def Let_def bucket_inv_def distinct_update dict_length_update)
next
  case False
  let ?st = "AList.update u (tb_refill b now u - 1, now) (tb_state b)"
  have d: "distinct (map fst ?st)" using assms(2) by (simp add: bucket_inv_def distinct_update)
  have ne: "?st \<noteq> []" using dict_update_lookup [of u _ "tb_state b" u] by (metis map_of.simps(1) option.distinct(1))
  have "length ?st \<le> tb_max_tenants b + 1"
    using assms(2) by (simp add: bucket_inv_def dict_length_update)
  then show ?thesis
    using False d length_delete_in [OF d oldest_key_in [OF ne]]
    by (auto simp: tb_admit_def Let_def bucket_inv_def distinct_delete)
qed

lemma refill_rate_nonneg [simp]: "0 \<le> refill_rate b"
  by (simp add: refill_rate_def)

lemma refill_rate_admit [simp]: "refill_rate (snd (tb_admit now u b)) = refill_rate b"
  by (simp add: refill_rate_def)

lemma tb_refill_Some:
  "map_of (tb_state b) u = Some (tok, upd) \<Longrightarrow>
   tb_refill b now u = min (of_nat (tb_per_minute b)) (tok + (now - upd) * refill_rate b)"
  by (simp add: tb_refill_def refill_rate_def Let_def)

lemma tb_refill_later:
  assumes "t \<le> now"
  shows "tb_refill b now u \<le> tb_refill b t u + (now - t) * refill_rate b"
proof (cases "map_of (tb_state b) u")
  case None
  then show ?thesis using assms by (simp add: tb_refill_absent)
next
  case (Some tu)
  obtain tok upd where tu: "tu = (tok, upd)" by (cases tu)
  have "0 \<le> (now - t) * refill_rate b" using assms by simp
  moreover have "(now - upd) * refill_rate b = (t - upd) * refill_rate b + (now - t) * refill_rate b"
    by (simp add: algebra_simps)
  ultimately show ?thesis using Some tu by (simp add: tb_refill_Some min_def)
qed

lemma tb_refill_nonneg: "level_ok b t u \<Longrightarrow> 0 \<le> tb_refill b t u"
  by (cases "map_of (tb_state b) u") (auto simp: tb_refill_absent level_ok_def tb_refill_Some)

lemma tb_admit_state:
  assumes "fits b ((v, now) # reqs)"
  shows "tb_state (snd (tb_admit now v b)) =
     AList.update v (tb_refill b now v - (if tb_refill b now v < 1 then 0 else 1), now) (tb_state b)"
    and "fits (snd (tb_admit now v b)) reqs"
proof -
  let ?x = "(tb_refill b now v - (if tb_refill b now v < 1 then 0 else 1), now)"
  let ?st = "AList.update v ?x (tb_state b)"
  have d: "distinct (map fst ?st)" using assms by (simp add: fits_def distinct_update)
  have keys: "fst ` set ?st = insert v (fst ` set (tb_state b))" by (simp add: dom_update)
  have "length ?st = card (fst ` set ?st)"
    using distinct_card [OF d] by simp
  also have "\<dots> \<le> card (fst ` set (tb_state b) \<union> fst ` set ((v, now) # reqs))"
    unfolding keys by (rule card_mono) auto
  finally have len: "length ?st \<le> tb_max_tenants b" using assms by (simp add: fits_def)
  then show st: "tb_state (snd (tb_admit now v b)) = ?st"
    by (auto simp: tb_admit_def Let_def dict_length_update)
  have "insert v (fst ` set (tb_state b)) \<union> fst ` set reqs = fst ` set (tb_state b) \<union> fst ` set ((v, now) # reqs)"
    by auto
  then show "fits (snd (tb_admit now v b)) reqs"
    using assms d unfolding fits_def st keys by simp
qed

lemma tb_admit_level:
  assumes "fits b ((v, now) # reqs)" "level_ok b t u" "t \<le> now"
  shows "tb_refill (snd (tb_admit now v b)) now u + (if v = u \<and> fst (tb_admit now v b) then 1 else 0)
      \<le> tb_refill b now u"
    and "level_ok (snd (tb_admit now v b)) now u"
proof -
  have lvl: "level_ok b now u" using assms(2,3) by (auto simp: level_ok_def split: option.splits)
  note st = tb_admit_state(1) [OF assms(1)]
  have ok: "fst (tb_admit now v b) \<longleftrightarrow> \<not> tb_refill b now v < 1" by (simp add: tb_admit_def Let_def)
  show "tb_refill (snd (tb_admit now v b)) now u + (if v = u \<and> fst (tb_admit now v b) then 1 else 0)
      \<le> tb_refill b now u"
  proof (cases "v = u")
    case True
    have "map_of (tb_state (snd (tb_admit now v b))) u =
        Some (tb_refill b now v - (if tb_refill b now v < 1 then 0 else 1), now)"
      unfolding st using True by simp
    then show ?thesis using True ok by (auto simp: tb_refill_Some min_def)
  next
    case False
    then show ?thesis by (simp add: tb_refill_def st)
  qed
  show "level_ok (snd (tb_admit now v b)) now u"
    using lvl tb_refill_nonneg [OF lvl] by (auto simp: level_ok_def st split: option.splits)
qed

lemma tb_admits_bound:
  assumes "fits b reqs" "level_ok b t u" "ascending_from t reqs"
  shows "of_nat (admitted_count u reqs (fst (tb_admits reqs b)))
    \<le> tb_refill b t u + (last_time t reqs - t) * refill_rate b"
  using assms
proof (induction reqs b arbitrary: t rule: tb_admits.induct)
  case (1 b)
  then show ?case using tb_refill_nonneg by (simp add: admitted_count_def last_time_def)
next
  case (2 v now reqs b)
  let ?b = "snd (tb_admit now v b)"
  have le: "t \<le> now" "ascending_from now reqs" using 2(4) by auto
  have IH: "of_nat (admitted_count u reqs (fst (tb_admits reqs ?b)))
      \<le> tb_refill ?b now u + (last_time now reqs - now) * refill_rate b"
    using "2.IH" [of "fst (tb_admit now v b)" ?b now] tb_admit_state(2) [OF 2(2)] tb_admit_level(2) [OF 2(2,3) le(1)] le
    by simp
  have cnt: "of_nat (admitted_count u ((v, now) # reqs) (fst (tb_admits ((v, now) # reqs) b)))
      = (if v = u \<and> fst (tb_admit now v b) then 1 else 0) + (of_nat (admitted_count u reqs (fst (tb_admits reqs ?b))) :: rat)"
    by (simp add: admitted_count_def split: prod.split)
  have last: "last_time t ((v, now) # reqs) = last_time now reqs" by (simp add: last_time_def)
  have dist: "(last_time now reqs - now) * refill_rate b + (now - t) * refill_rate b
      = (last_time now reqs - t) * refill_rate b" by (simp add: algebra_simps)
  show ?case
    unfolding cnt last using IH tb_admit_level(1) [OF 2(2,3) le(1)] tb_refill_later [OF le(1), of b u] dist
    by linarith
qed

lemma tb_admits_inv:
  "1 \<le> tb_per_minute b \<Longrightarrow> bucket_inv b \<Longrightarrow>
   bucket_inv (snd (tb_admits reqs b)) \<and> tb_max_tenants (snd (tb_admits reqs b)) = tb_max_tenants b"
proof (induction reqs b rule: tb_admits.induct)
  case (2 v now reqs b)
  obtain ok b' where a: "tb_admit now v b = (ok, b')" by (cases "tb_admit now v b")
  have "1 \<le> tb_per_minute b'" "bucket_inv b'" "tb_max_tenants b' = tb_max_tenants b"
    using 2(2,3) tb_admit_inv [of b now v] tb_admit_params [of now v b] by (simp_all add: a)
  then show ?case using "2.IH" [of ok b'] by (auto simp: a split: prod.split)
qed simp



subsection \<open>The decision\<close>

lemma kills_grow_step: "gate_step g g' \<Longrightarrow> kills_grow g g'"
  by (induction rule: gate_step.induct)
    (auto simp: kills_grow_def trip_def safety_evaluate_def Let_def global_kill_def provider_kill_def
      split: option.split prod.split)

interpretation kill: machine_monotone gate_step kills_grow
  by unfold_locales (auto simp: kills_grow_def dest: kills_grow_step)

lemma safety_allow_iff:
  "sd_allow (fst (safety_evaluate did clock s x consume g)) \<longleftrightarrow>
     safety_reasons g s x = [] \<and> (consume \<longrightarrow> fst (tb_admit clock (ss_tenant_id s) (sg_budget g)))"
  by (auto simp: safety_evaluate_def Let_def split: prod.split)

text \<open>
  Kill switches only tighten: once the global kill or the kill of a provider is on, through
  the table or tripped at runtime, then after any sequence of trips and evaluations every
  decision for that provider denies.
\<close>

theorem kill_switch_is_permanent:
  assumes "run gate_step g g'" and "global_kill g \<or> provider_kill g (ss_target s)"
  shows "\<not> sd_allow (fst (safety_evaluate did clock s x consume g'))"
  using kill.run_rel [OF assms(1)] assms(2)
  by (auto simp: safety_allow_iff safety_reasons_def kills_grow_def)

theorem kill_switch_is_permanent_witness:
  "\<not> sd_allow (fst (safety_evaluate ''d'' 0 sample_subject
      \<lparr>sx_adapter_registered = True, sx_adapter_ready = Some True, sx_tenant_backlog = Some 0, sx_global_backlog = Some 0\<rparr>
      True (trip None sample_gate)))"
proof (rule kill_switch_is_permanent [of "trip None sample_gate"])
  show "run gate_step (trip None sample_gate) (trip None sample_gate)" by (rule run_refl)
  show "global_kill (trip None sample_gate) \<or> provider_kill (trip None sample_gate) (ss_target sample_subject)"
    by (simp add: global_kill_def trip_def)
qed

lemma off_reasons_Nil: "off_reasons l flags names = [] \<longleftrightarrow> (\<forall>n \<in> set names. map_of flags n = Some True)"
  by (simp add: off_reasons_def)

text \<open>
  A configuration switch alone never activates an external effect: an external-effect
  command is allowed only when its capability has a gate, the registry enables the
  capability, every effect flag and umbrella control the gate names is on, the environment is
  one of the gate's, no kill switch is on, a campaign is named where required, an adapter is
  registered and not reported unready, both backlogs are known and below their bounds, and
  the tenant's rate budget admits it. The decision is saturated only by a bound or the budget.
\<close>

theorem external_effect_needs_everything:
  assumes "sd_allow (fst (safety_evaluate did clock s x consume g))"
    and "classification g (ss_capability s) = ExternalEffect"
  shows "\<exists>gate tb gb. gate_of g (ss_capability s) = Some gate \<and> cg_classification gate = ExternalEffect
    \<and> map_of (sg_capabilities g) (ss_capability s) = Some True
    \<and> (\<forall>f \<in> set (cg_effect_flags gate). map_of (st_external_effects (sg_settings g)) f = Some True)
    \<and> (\<forall>f \<in> set (cg_umbrella_controls gate). map_of (st_umbrella_controls (sg_settings g)) f = Some True)
    \<and> environment_str (st_app_env (sg_settings g)) \<in> set (cg_environments gate)
    \<and> (cg_campaign_scoped gate \<longrightarrow> truthy (ss_campaign_id s))
    \<and> (cg_synthetic_tenant_required gate \<longrightarrow> ss_tenant_id s \<in> set (sw_synthetic_tenants (sg_switches g)))
    \<and> \<not> global_kill g \<and> \<not> provider_kill g (ss_target s)
    \<and> sx_adapter_registered x \<and> sx_adapter_ready x \<noteq> Some False
    \<and> sx_tenant_backlog x = Some tb \<and> tb < lim_tenant_backlog_bound (sw_limits (sg_switches g))
    \<and> sx_global_backlog x = Some gb \<and> gb < lim_global_backlog_bound (sw_limits (sg_switches g))
    \<and> (consume \<longrightarrow> fst (tb_admit clock (ss_tenant_id s) (sg_budget g)))"
  using assms unfolding safety_allow_iff
  by (auto simp: safety_reasons_def capability_reasons_def saturation_reasons_def classification_def off_reasons_Nil
      Let_def split: option.splits if_splits)

theorem external_effect_needs_everything_witness:
  "\<exists>gate. gate_of external_gate ''EMAIL_DELIVERY'' = Some gate
     \<and> (\<forall>f \<in> set (cg_effect_flags gate). map_of (st_external_effects (sg_settings external_gate)) f = Some True)"
proof -
  let ?s = "sample_subject\<lparr>ss_capability := ''EMAIL_DELIVERY''\<rparr>"
  let ?x = "\<lparr>sx_adapter_registered = True, sx_adapter_ready = Some True, sx_tenant_backlog = Some 0, sx_global_backlog = Some 0\<rparr>"
  have "sd_allow (fst (safety_evaluate ''d'' 0 ?s ?x True external_gate))"
    by (simp add: safety_allow_iff external_gate_def new_gate_def safety_reasons_def capability_reasons_def
        saturation_reasons_def off_reasons_def reason_if_def global_kill_def provider_kill_def gate_of_def
        classification_def sample_subject_def sample_switches_def new_bucket_def tb_admit_def tb_refill_def Let_def)
  moreover have "classification external_gate (ss_capability ?s) = ExternalEffect"
    by (simp add: classification_def gate_of_def external_gate_def new_gate_def)
  ultimately show ?thesis using external_effect_needs_everything by fastforce
qed

end
