(* ===== verification/Adapter_Contract.thy ===== *)
theory Adapter_Contract
  imports Command_Model Policy_Engine
begin

text \<open>
  The provider adapter contract (\<open>app/platform/adapter.py\<close>) and the fixture adapter the
  development and certification runs use (\<open>app/platform/adapters/fixtures.py\<close>).

  An adapter is a record of its static advertisement and its methods. A method that talks to
  a provider is a program on the provider side's state \<open>'p\<close>, as it is observed through
  \<open>asyncio.wait_for\<close>: not answering in time is the exception \<open>TimeoutError\<close>, and whatever
  the provider did before that stays in the state. The HTTP client and the secret references
  of an \<open>AdapterContext\<close> are opaque to the platform and left out.
\<close>

subsection \<open>Outcomes\<close>

datatype outcome = ACCEPTED | COMPLETED | REJECTED | TRANSIENT | UNKNOWN | CANCELLED | UNSUPPORTED

fun outcome_str :: "outcome \<Rightarrow> string" where
  "outcome_str ACCEPTED = ''ACCEPTED''"
| "outcome_str COMPLETED = ''COMPLETED''"
| "outcome_str REJECTED = ''REJECTED''"
| "outcome_str TRANSIENT = ''TRANSIENT''"
| "outcome_str UNKNOWN = ''UNKNOWN''"
| "outcome_str CANCELLED = ''CANCELLED''"
| "outcome_str UNSUPPORTED = ''UNSUPPORTED''"

datatype readback_status = RB_MATCHED | RB_MISMATCH | RB_NOT_FOUND | RB_UNAVAILABLE | RB_UNSUPPORTED

fun readback_str :: "readback_status \<Rightarrow> string" where
  "readback_str RB_MATCHED = ''MATCHED''"
| "readback_str RB_MISMATCH = ''MISMATCH''"
| "readback_str RB_NOT_FOUND = ''NOT_FOUND''"
| "readback_str RB_UNAVAILABLE = ''UNAVAILABLE''"
| "readback_str RB_UNSUPPORTED = ''UNSUPPORTED''"

datatype error_class = RETRYABLE_BEFORE_EFFECT | NON_RETRYABLE | AMBIGUOUS | PROVIDER_AUTH
  | PROVIDER_RATE_LIMITED | UNSUPPORTED_ERROR

fun error_class_str :: "error_class \<Rightarrow> string" where
  "error_class_str RETRYABLE_BEFORE_EFFECT = ''RETRYABLE_BEFORE_EFFECT''"
| "error_class_str NON_RETRYABLE = ''NON_RETRYABLE''"
| "error_class_str AMBIGUOUS = ''AMBIGUOUS''"
| "error_class_str PROVIDER_AUTH = ''PROVIDER_AUTH''"
| "error_class_str PROVIDER_RATE_LIMITED = ''PROVIDER_RATE_LIMITED''"
| "error_class_str UNSUPPORTED_ERROR = ''UNSUPPORTED''"

record adapter_context =
  ax_tenant_id :: string
  ax_command_id :: string
  ax_correlation_id :: string
  ax_attempt :: nat
  ax_timeout_seconds :: rat
  ax_environment :: environment
  ax_deployment_sha :: string
  ax_trace_context :: "(string, string) dict"
  ax_test_syn :: bool
  ax_payload :: json_object

definition outbound_headers :: "adapter_context \<Rightarrow> (string, string) dict" where
  "outbound_headers x =
     foldl (\<lambda>hs name. case map_of (ax_trace_context x) name of
              Some v \<Rightarrow> (if v \<noteq> [] then AList.update name v hs else hs) | None \<Rightarrow> hs)
       [(''X-Correlation-ID'', ax_correlation_id x)] [''traceparent'', ''tracestate'']"

record adapter_result =
  ar_outcome :: outcome
  ar_provider_operation_id :: "string option"
  ar_error_class :: "error_class option"
  ar_safe_error_code :: "string option"
  ar_safe_details :: json_object

definition adapter_result_of :: "outcome \<Rightarrow> string option \<Rightarrow> error_class option \<Rightarrow> string option \<Rightarrow> adapter_result" where
  "adapter_result_of oc pid ec code = \<lparr>ar_outcome = oc, ar_provider_operation_id = pid, ar_error_class = ec,
     ar_safe_error_code = code, ar_safe_details = []\<rparr>"

definition acknowledged :: "adapter_result \<Rightarrow> bool" where
  "acknowledged r \<longleftrightarrow> ar_outcome r \<in> set [ACCEPTED, COMPLETED]"

record readback_result =
  rb_status :: readback_status
  rb_provider_operation_id :: "string option"
  rb_evidence :: json_object
  rb_safe_error_code :: "string option"

record adapter_readiness =
  rd_ready :: bool
  rd_detail :: string

record adapter_capabilities =
  ac_adapter_id :: string
  ac_version :: string
  ac_provider_family :: string
  ac_connector_ids :: "string list"
  ac_capabilities :: "string list"
  ac_supports_readback :: bool
  ac_supports_cancel :: bool
  ac_supports_status :: bool
  ac_safe_reexecution :: bool
  ac_external_effect :: bool

text \<open>What a provider method may hand to \<open>normalize_result\<close>.\<close>

datatype raw_result = RawResult adapter_result | RawMapping json_object | RawOther

record 'p adapter =
  ad_type_name :: string
  ad_adapter_id :: string
  ad_validate_config :: "exc option"
  ad_capabilities :: adapter_capabilities
  ad_readiness :: "adapter_context \<Rightarrow> ('p, adapter_readiness) prog"
  ad_execute :: "command_envelope \<Rightarrow> adapter_context \<Rightarrow> ('p, raw_result) prog"
  ad_status :: "command_operation \<Rightarrow> adapter_context \<Rightarrow> ('p, raw_result) prog"
  ad_readback :: "command_operation \<Rightarrow> adapter_context \<Rightarrow> ('p, readback_result) prog"
  ad_reconcile :: "command_operation \<Rightarrow> adapter_context \<Rightarrow> ('p, readback_result) prog"
  ad_cancel :: "command_operation \<Rightarrow> adapter_context \<Rightarrow> ('p, raw_result) prog"
  ad_normalize_result :: "raw_result \<Rightarrow> adapter_result"
  ad_classify_error :: "exc \<Rightarrow> error_class"

text \<open>\<open>assert_adapter\<close>: the methods are fields of the record, so only the id can be missing.\<close>

definition assert_adapter :: "'p adapter \<Rightarrow> exc option" where
  "assert_adapter a =
     (if ad_adapter_id a = [] then
        Some (Exc AdapterConfigurationError (ad_type_name a
          @ '' does not implement the adapter contract: missing ['' @ [CHR 0x27] @ ''adapter_id'' @ [CHR 0x27] @ '']''))
      else None)"

subsection \<open>Defaults of \<open>BaseAdapter\<close>\<close>

definition is_value_error :: "exc_class \<Rightarrow> bool" where
  "is_value_error c \<longleftrightarrow> c \<in> set [ValueError, AdapterConfigurationError]"

definition classify_transport_error :: "exc \<Rightarrow> error_class" where
  "classify_transport_error e =
     (let c = exc_class e in
      if c \<in> set [HttpxConnectError, HttpxConnectTimeout] then RETRYABLE_BEFORE_EFFECT
      else if c \<in> set [HttpxReadTimeout, HttpxWriteTimeout, HttpxPoolTimeout, HttpxRemoteProtocolError,
                       HttpxReadError, HttpxWriteError] then AMBIGUOUS
      else if c = HttpxTransportError then AMBIGUOUS
      else if c = TimeoutError then AMBIGUOUS
      else if is_value_error c \<or> c = TypeError \<or> c = KeyError then NON_RETRYABLE
      else AMBIGUOUS)"

definition classify_status :: "int \<Rightarrow> outcome" where
  "classify_status code =
     (if code \<in> set [200, 201, 204] then COMPLETED
      else if code = 202 then ACCEPTED
      else if code \<in> set [408, 425, 429, 502, 503, 504] then TRANSIENT
      else if 400 \<le> code \<and> code < 500 then REJECTED
      else if 500 \<le> code then UNKNOWN
      else UNKNOWN)"

definition base_validate_config :: "adapter_capabilities \<Rightarrow> exc option" where
  "base_validate_config c =
     (if ac_adapter_id c = [] \<or> ac_provider_family c = []
      then Some (Exc AdapterConfigurationError ''adapter needs an id and a provider family'')
      else if ac_connector_ids c = [] \<or> ac_capabilities c = []
      then Some (Exc AdapterConfigurationError
        (ac_adapter_id c @ '': an adapter must own connector ids and capabilities''))
      else None)"

text \<open>The truth value Python gives a JSON value, and \<open>str(value)\<close> on ASCII text.\<close>

fun json_truthy :: "json \<Rightarrow> bool" where
  "json_truthy JNull = False"
| "json_truthy (JBool b) = b"
| "json_truthy (JInt i) = (i \<noteq> 0)"
| "json_truthy (JFloat r) = (r \<notin> set [''0.0'', ''-0.0''])"
| "json_truthy (JStr s) = (s \<noteq> [])"
| "json_truthy (JList xs) = (xs \<noteq> [])"
| "json_truthy (JObj kvs) = (kvs \<noteq> [])"

definition repr_char :: "char \<Rightarrow> char \<Rightarrow> string" where
  "repr_char q c =
     (if c = q \<or> c = CHR 0x5C then [CHR 0x5C, c]
      else if c = CHR 0x0A then [CHR 0x5C, CHR ''n'']
      else if c = CHR 0x0D then [CHR 0x5C, CHR ''r'']
      else if c = CHR 0x09 then [CHR 0x5C, CHR ''t'']
      else if (of_char c :: nat) < 32 \<or> (of_char c :: nat) = 127
      then [CHR 0x5C, CHR ''x'', hex_digit ((of_char c :: nat) div 16), hex_digit ((of_char c :: nat) mod 16)]
      else [c])"

definition repr_str :: "string \<Rightarrow> string" where
  "repr_str s =
     (let q = (if CHR 0x27 \<in> set s \<and> CHR 0x22 \<notin> set s then CHR 0x22 else CHR 0x27)
      in q # concat (map (repr_char q) s) @ [q])"

fun comma_space :: "string list \<Rightarrow> string" where
  "comma_space [] = []"
| "comma_space [x] = x"
| "comma_space (x # xs) = x @ '', '' @ comma_space xs"

fun json_repr :: "json \<Rightarrow> string" where
  "json_repr JNull = ''None''"
| "json_repr (JBool b) = (if b then ''True'' else ''False'')"
| "json_repr (JInt i) = int_str i"
| "json_repr (JFloat r) = r"
| "json_repr (JStr s) = repr_str s"
| "json_repr (JList xs) = ''['' @ comma_space (map json_repr xs) @ '']''"
| "json_repr (JObj kvs) = ''{'' @ comma_space (map (\<lambda>(k, v). repr_str k @ '': '' @ json_repr v) kvs) @ ''}''"

definition json_str :: "json \<Rightarrow> string" where
  "json_str j = (case j of JStr s \<Rightarrow> s | _ \<Rightarrow> json_repr j)"

definition reference_of :: "json_object \<Rightarrow> string option" where
  "reference_of raw =
     (let first = map_of raw ''provider_operation_id''; second = map_of raw ''id'';
          chosen = (case first of Some v \<Rightarrow> (if json_truthy v then first else second) | None \<Rightarrow> second)
      in case chosen of None \<Rightarrow> None | Some JNull \<Rightarrow> None | Some v \<Rightarrow> Some (json_str v))"

definition base_normalize_result :: "raw_result \<Rightarrow> adapter_result" where
  "base_normalize_result raw =
     (case raw of
        RawResult r \<Rightarrow> r
      | RawMapping m \<Rightarrow>
          (case map_of m ''status_code'' of
             Some (JInt code) \<Rightarrow>
               (let oc = classify_status code
                in adapter_result_of oc (reference_of m)
                     (if oc \<in> set [ACCEPTED, COMPLETED] then None
                      else Some (if oc = UNKNOWN then AMBIGUOUS
                        else if oc = TRANSIENT then RETRYABLE_BEFORE_EFFECT else NON_RETRYABLE))
                     (if oc \<in> set [ACCEPTED, COMPLETED] then None
                      else Some (''provider_http_'' @ int_str code)))
           | _ \<Rightarrow> adapter_result_of UNKNOWN None (Some AMBIGUOUS) (Some ''unnormalizable_result''))
      | RawOther \<Rightarrow> adapter_result_of UNKNOWN None (Some AMBIGUOUS) (Some ''unnormalizable_result''))"

definition base_readiness :: "adapter_context \<Rightarrow> ('p, adapter_readiness) prog" where
  "base_readiness x = retE \<lparr>rd_ready = True, rd_detail = ''configured''\<rparr>"

definition base_status :: "command_operation \<Rightarrow> adapter_context \<Rightarrow> ('p, raw_result) prog" where
  "base_status op x =
     retE (RawResult (adapter_result_of UNSUPPORTED None (Some UNSUPPORTED_ERROR) (Some ''status_unsupported'')))"

definition base_readback :: "command_operation \<Rightarrow> adapter_context \<Rightarrow> ('p, readback_result) prog" where
  "base_readback op x = retE \<lparr>rb_status = RB_UNSUPPORTED, rb_provider_operation_id = None, rb_evidence = [],
     rb_safe_error_code = Some ''readback_unsupported''\<rparr>"

definition base_cancel :: "command_operation \<Rightarrow> adapter_context \<Rightarrow> ('p, raw_result) prog" where
  "base_cancel op x =
     retE (RawResult (adapter_result_of UNSUPPORTED None (Some UNSUPPORTED_ERROR) (Some ''cancel_unsupported'')))"

text \<open>\<open>redact\<close>: mappings are redacted, everything else passes.\<close>

definition base_redact :: "(string \<Rightarrow> json option) \<Rightarrow> json \<Rightarrow> json" where
  "base_redact loads v = (case v of JObj kvs \<Rightarrow> JObj (redact_metadata loads v) | _ \<Rightarrow> v)"

subsection \<open>The fixture adapter\<close>

record fixture =
  fx_ready :: bool
  fx_scripts :: "(string, string list) dict"
  fx_reconcile_as :: "(string, readback_status) dict"
  fx_executed :: "(string \<times> nat) list"
  fx_readbacks :: "string list"
  fx_reconciled :: "string list"
  fx_cancelled :: "string list"
  fx_effects :: "(string, nat) dict"
  fx_behaviours :: "(string, string) dict"

definition new_fixture :: fixture where
  "new_fixture = \<lparr>fx_ready = True, fx_scripts = [], fx_reconcile_as = [], fx_executed = [], fx_readbacks = [],
     fx_reconciled = [], fx_cancelled = [], fx_effects = [], fx_behaviours = []\<rparr>"

definition effects_of :: "fixture \<Rightarrow> string \<Rightarrow> nat" where
  "effects_of f cid = (case map_of (fx_effects f) cid of None \<Rightarrow> 0 | Some n \<Rightarrow> n)"

definition provider_effects :: "fixture \<Rightarrow> nat" where
  "provider_effects f = sum_list (map snd (fx_effects f))"

definition fixture_effect :: "string \<Rightarrow> fixture \<Rightarrow> fixture" where
  "fixture_effect cid f = f\<lparr>fx_effects := AList.update cid (effects_of f cid + 1) (fx_effects f)\<rparr>"

definition fixture_behaviour :: "string \<Rightarrow> json_object \<Rightarrow> fixture \<Rightarrow> string \<times> fixture" where
  "fixture_behaviour cid payload f =
     (let (value, f1) = (case map_of (fx_scripts f) cid of
            Some (b # bs) \<Rightarrow> (b, f\<lparr>fx_scripts := AList.update cid bs (fx_scripts f)\<rparr>)
          | _ \<Rightarrow> ((case map_of payload ''fixture'' of Some (JStr b) \<Rightarrow> b | _ \<Rightarrow> ''success''), f))
      in (value, f1\<lparr>fx_behaviours := AList.update cid value (fx_behaviours f1)\<rparr>))"

definition fixture_execute :: "string \<Rightarrow> command_envelope \<Rightarrow> adapter_context \<Rightarrow> (fixture, raw_result) prog" where
  "fixture_execute adapter_id c x f =
     (let cid = uuid_str (ce_command_id c);
          f0 = f\<lparr>fx_executed := fx_executed f @ [(cid, ax_attempt x)]\<rparr>;
          (behaviour, f1) = fixture_behaviour cid (ce_payload c) f0;
          reference = adapter_id @ '':'' @ cid @ '':'' @ nat_str (ax_attempt x)
      in if behaviour = ''transient'' then
           (Inr (RawResult (adapter_result_of TRANSIENT None (Some RETRYABLE_BEFORE_EFFECT) (Some ''fixture_transient''))), f1)
         else if behaviour = ''reject'' then
           (Inr (RawResult (adapter_result_of REJECTED None (Some NON_RETRYABLE) (Some ''fixture_rejected''))), f1)
         else if behaviour = ''timeout'' then (Inl (Exc TimeoutError []), fixture_effect cid f1)
         else if behaviour = ''crash'' then
           (Inl (Exc RuntimeError ''fixture crashed after send''), fixture_effect cid f1)
         else if behaviour = ''unknown'' then
           (Inr (RawResult (adapter_result_of UNKNOWN None (Some AMBIGUOUS) (Some ''fixture_unknown''))), fixture_effect cid f1)
         else
           (Inr (RawResult \<lparr>ar_outcome = (if behaviour = ''completed'' then COMPLETED else ACCEPTED),
              ar_provider_operation_id = Some reference, ar_error_class = None, ar_safe_error_code = None,
              ar_safe_details = [(''fixture'', JStr adapter_id), (''attempt'', JInt (int (ax_attempt x)))]\<rparr>),
            fixture_effect cid f1))"

definition fixture_status :: "command_operation \<Rightarrow> adapter_context \<Rightarrow> (fixture, raw_result) prog" where
  "fixture_status op x f =
     (if effects_of f (uuid_str (co_command_id op)) \<noteq> 0
      then (Inr (RawResult (adapter_result_of COMPLETED (co_provider_operation_id op) None None)), f)
      else (Inr (RawResult (adapter_result_of REJECTED None (Some NON_RETRYABLE) (Some ''fixture_no_effect''))), f))"

definition fixture_readback :: "string \<Rightarrow> command_operation \<Rightarrow> adapter_context \<Rightarrow> (fixture, readback_result) prog" where
  "fixture_readback adapter_id op x f =
     (let cid = uuid_str (co_command_id op);
          f1 = f\<lparr>fx_readbacks := fx_readbacks f @ [cid]\<rparr>;
          behaviour = (case map_of (fx_behaviours f) cid of None \<Rightarrow> ''success'' | Some b \<Rightarrow> b);
          plain = (\<lambda>s code. \<lparr>rb_status = s, rb_provider_operation_id = None, rb_evidence = [],
             rb_safe_error_code = Some code\<rparr>)
      in (Inr (if behaviour = ''readback_mismatch'' then
             \<lparr>rb_status = RB_MISMATCH, rb_provider_operation_id = co_provider_operation_id op,
              rb_evidence = [(''fixture'', JStr ''mismatch'')], rb_safe_error_code = None\<rparr>
           else if behaviour = ''readback_unavailable'' then plain RB_UNAVAILABLE ''fixture_readback_unavailable''
           else if behaviour = ''readback_not_found'' then plain RB_NOT_FOUND ''fixture_readback_not_found''
           else if behaviour = ''readback_unsupported'' then plain RB_UNSUPPORTED ''readback_unsupported''
           else if effects_of f cid = 0 then plain RB_NOT_FOUND ''fixture_no_effect''
           else \<lparr>rb_status = RB_MATCHED,
              rb_provider_operation_id = or_str (co_provider_operation_id op) (Some (adapter_id @ '':'' @ cid)),
              rb_evidence = [(''fixture'', JStr adapter_id), (''effects'', JInt (int (effects_of f cid)))],
              rb_safe_error_code = None\<rparr>), f1))"

definition fixture_reconcile :: "string \<Rightarrow> command_operation \<Rightarrow> adapter_context \<Rightarrow> (fixture, readback_result) prog" where
  "fixture_reconcile adapter_id op x f =
     (let cid = uuid_str (co_command_id op);
          f1 = f\<lparr>fx_reconciled := fx_reconciled f @ [cid]\<rparr>;
          observed = (case map_of (fx_reconcile_as f) cid of Some s \<Rightarrow> s
            | None \<Rightarrow> (if effects_of f cid \<noteq> 0 then RB_MATCHED else RB_NOT_FOUND))
      in (Inr \<lparr>rb_status = observed,
             rb_provider_operation_id =
               (if observed = RB_MATCHED then Some (adapter_id @ '':'' @ cid @ '':reconciled'') else None),
             rb_evidence = [(''fixture'', JStr adapter_id), (''reconciled'', JBool True)],
             rb_safe_error_code = None\<rparr>, f1))"

definition fixture_cancel :: "command_operation \<Rightarrow> adapter_context \<Rightarrow> (fixture, raw_result) prog" where
  "fixture_cancel op x f =
     (Inr (RawResult (adapter_result_of CANCELLED None None None)),
      f\<lparr>fx_cancelled := fx_cancelled f @ [uuid_str (co_command_id op)]\<rparr>)"

definition fixture_caps :: "string \<Rightarrow> string \<Rightarrow> string list \<Rightarrow> string list \<Rightarrow> adapter_capabilities" where
  "fixture_caps adapter_id family connectors caps = \<lparr>ac_adapter_id = adapter_id, ac_version = ''1.0.0'',
     ac_provider_family = family, ac_connector_ids = connectors, ac_capabilities = caps,
     ac_supports_readback = True, ac_supports_cancel = True, ac_supports_status = True,
     ac_safe_reexecution = True, ac_external_effect = False\<rparr>"

text \<open>A \<open>FixtureAdapter\<close> whose state is found and put back by \<open>gt\<close> and \<open>pt\<close>.\<close>

definition fixture_adapter :: "('p \<Rightarrow> fixture) \<Rightarrow> (fixture \<Rightarrow> 'p \<Rightarrow> 'p) \<Rightarrow> adapter_capabilities \<Rightarrow> 'p adapter" where
  "fixture_adapter gt pt caps =
     (let i = ac_adapter_id caps in
      \<lparr>ad_type_name = ''FixtureAdapter'', ad_adapter_id = i, ad_validate_config = base_validate_config caps,
       ad_capabilities = caps,
       ad_readiness = (\<lambda>x. zoomE gt pt (getsE (\<lambda>f. \<lparr>rd_ready = fx_ready f, rd_detail = ''fixture''\<rparr>))),
       ad_execute = (\<lambda>c x. zoomE gt pt (fixture_execute i c x)),
       ad_status = (\<lambda>op x. zoomE gt pt (fixture_status op x)),
       ad_readback = (\<lambda>op x. zoomE gt pt (fixture_readback i op x)),
       ad_reconcile = (\<lambda>op x. zoomE gt pt (fixture_reconcile i op x)),
       ad_cancel = (\<lambda>op x. zoomE gt pt (fixture_cancel op x)),
       ad_normalize_result = base_normalize_result, ad_classify_error = classify_transport_error\<rparr>)"

definition test_syn_adapter :: "fixture adapter" where
  "test_syn_adapter = fixture_adapter (\<lambda>f. f) (\<lambda>f _. f)
     (fixture_caps ''test-syn'' ''synthetic'' [''test-syn''] [''TEST_SYN_EXECUTE''])"

definition development_fixture_caps :: "adapter_capabilities list" where
  "development_fixture_caps =
     [fixture_caps ''test-syn'' ''synthetic'' [''test-syn''] [''TEST_SYN_EXECUTE''],
      fixture_caps ''odoo-fixture'' ''odoo'' [''odoo-19''] [''ODOO_WRITE''],
      fixture_caps ''email-fixture'' ''email'' [''klyrow-email''] [''EMAIL_DELIVERY''],
      fixture_caps ''sms-fixture'' ''sms'' [''telnexa-sms''] [''SMS_DELIVERY''],
      fixture_caps ''telephony-fixture'' ''telephony'' [''vicidial-restricted'']
        [''INTERNAL_TELEPHONY_CALLS'', ''PRODUCTION_DIALING''],
      fixture_caps ''crawler-fixture'' ''crawler'' [''kyqra-crawler''] [''CRAWLER_EXECUTION''],
      fixture_caps ''social-fixture'' ''social'' [''postly-social''] [''SOCIAL_PUBLISH''],
      fixture_caps ''provisioning-fixture'' ''provisioning'' [''provisioning-service''] [''PROVISIONING_WRITE''],
      fixture_caps ''n8n-fixture'' ''n8n'' [''n8n-automation''] [''N8N_WORKFLOW_DISPATCH'']]"

definition development_fixtures :: "(string \<Rightarrow> fixture) adapter list" where
  "development_fixtures =
     map (\<lambda>c. fixture_adapter (\<lambda>w. w (ac_adapter_id c)) (\<lambda>f w. w(ac_adapter_id c := f)) c) development_fixture_caps"

subsection \<open>Properties\<close>

text \<open>
  The normalised result of an HTTP answer is never more optimistic than the status: only
  2xx answers named by the contract acknowledge, an acknowledged result carries no error, a
  result without acknowledgement carries an error class and a code, an answer without an
  integer status is UNKNOWN and ambiguous, and only the six named statuses are TRANSIENT,
  that is retryable as if no effect existed; 502, 504 and 408 are among them although the
  request has reached a gateway by then.
\<close>

theorem normalize_result_sound:
  "(case base_normalize_result (RawMapping m) of r \<Rightarrow>
     (acknowledged r \<longleftrightarrow> (\<exists>code. map_of m ''status_code'' = Some (JInt code) \<and> code \<in> {200, 201, 202, 204}))
     \<and> (acknowledged r \<longleftrightarrow> ar_error_class r = None) \<and> (acknowledged r \<longleftrightarrow> ar_safe_error_code r = None)
     \<and> (ar_outcome r = TRANSIENT \<longleftrightarrow>
          (\<exists>code. map_of m ''status_code'' = Some (JInt code) \<and> code \<in> {408, 425, 429, 502, 503, 504}))
     \<and> ((\<forall>code. map_of m ''status_code'' \<noteq> Some (JInt code)) \<longrightarrow>
          ar_outcome r = UNKNOWN \<and> ar_error_class r = Some AMBIGUOUS))"
  by (auto simp: base_normalize_result_def adapter_result_of_def acknowledged_def classify_status_def Let_def
      split: option.splits json.splits)

theorem normalize_result_sound_witness:
  "ar_outcome (base_normalize_result (RawMapping [(''status_code'', JStr ''200'')])) = UNKNOWN"
  using normalize_result_sound [of "[(''status_code'', JStr ''200'')]"] by (simp add: Let_def)

lemma fixture_effect_count: "effects_of (fixture_effect cid f) cid' = effects_of f cid' + (if cid' = cid then 1 else 0)"
  by (auto simp: fixture_effect_def effects_of_def)

end
