(* ===== verification/Adapter_Registry.thy ===== *)
theory Adapter_Registry
  imports Adapter_Contract Machines
begin

text \<open>
  The adapter registry (\<open>app/platform/registry.py\<close>): registration with its ownership rules,
  validation against the enabled capabilities, and the lookups the kernel and the bus use.
\<close>

record ownership =
  ow_prefix :: string
  ow_target :: string
  ow_capability :: string
  ow_readback_required :: bool
  ow_adapter_id :: string

record 'p registry =
  rg_policies :: policy_registry
  rg_adapters :: "(string, 'p adapter) dict"
  rg_advertised :: "(string, adapter_capabilities) dict"
  rg_owners :: "(string, string) dict"
  rg_validated :: bool

definition new_adapter_registry :: "policy_registry \<Rightarrow> 'p registry" where
  "new_adapter_registry policies = \<lparr>rg_policies = policies, rg_adapters = [], rg_advertised = [], rg_owners = [],
     rg_validated = False\<rparr>"

subsection \<open>Registration\<close>

definition registry_error :: "string \<Rightarrow> exc + 'a" where
  "registry_error msg = Inl (Exc AdapterRegistryError msg)"

text \<open>The loop over the policies: the owned ones in order, or the first violated rule.\<close>

fun collect_owned :: "string \<Rightarrow> adapter_capabilities \<Rightarrow> (string, string) dict \<Rightarrow> command_policy list
    \<Rightarrow> exc + command_policy list" where
  "collect_owned aid adv owners [] = Inr []"
| "collect_owned aid adv owners (p # ps) =
     (if cp_target p \<notin> set (ac_connector_ids adv) then collect_owned aid adv owners ps
      else if cp_capability p \<notin> set (ac_capabilities adv) then
        registry_error (''adapter '' @ repr_str aid @ '' owns target '' @ repr_str (cp_target p)
          @ '' but does not implement capability '' @ repr_str (cp_capability p)
          @ '' required by prefix '' @ repr_str (cp_prefix p))
      else if cp_readback_required p \<and> \<not> ac_supports_readback adv then
        registry_error (''adapter '' @ repr_str aid @ '' must support readback for prefix '' @ repr_str (cp_prefix p))
      else (case map_of owners (cp_prefix p) of
              Some existing \<Rightarrow>
                if existing \<noteq> aid then
                  registry_error (''command prefix '' @ repr_str (cp_prefix p) @ '' would have two owners: ''
                    @ repr_str existing @ '' and '' @ repr_str aid)
                else map_sum id (\<lambda>rest. p # rest) (collect_owned aid adv owners ps)
            | None \<Rightarrow> map_sum id (\<lambda>rest. p # rest) (collect_owned aid adv owners ps)))"

definition register_adapter :: "'p adapter \<Rightarrow> ('p registry, 'p adapter) prog" where
  "register_adapter a r =
     (let aid = ad_adapter_id a; adv = ad_capabilities a;
          err = (\<lambda>msg. (Inl (Exc AdapterRegistryError msg), r))
      in case assert_adapter a of
           Some e \<Rightarrow> (Inl e, r)
         | None \<Rightarrow>
           (case ad_validate_config a of
              Some e \<Rightarrow> (Inl e, r)
            | None \<Rightarrow>
              if ac_adapter_id adv \<noteq> aid then
                err (''adapter '' @ repr_str aid @ '' advertises a different id '' @ repr_str (ac_adapter_id adv))
              else if map_of (rg_adapters r) aid \<noteq> None then err (''duplicate adapter id '' @ repr_str aid)
              else if ac_connector_ids adv = [] then err (''adapter '' @ repr_str aid @ '' owns no connector id'')
              else (case collect_owned aid adv (rg_owners r) (pr_policies (rg_policies r)) of
                      Inl e \<Rightarrow> (Inl e, r)
                    | Inr [] \<Rightarrow> err (''adapter '' @ repr_str aid @ '' owns no command prefix of the command registry'')
                    | Inr owned \<Rightarrow>
                        (Inr a, r\<lparr>rg_owners := fold (\<lambda>p. AList.update (cp_prefix p) aid) owned (rg_owners r),
                           rg_adapters := AList.update aid a (rg_adapters r),
                           rg_advertised := AList.update aid adv (rg_advertised r),
                           rg_validated := False\<rparr>))))"

fun register_all :: "'p adapter list \<Rightarrow> ('p registry, unit) prog" where
  "register_all [] = retE ()"
| "register_all (a # as) = thenE (register_adapter a) (register_all as)"

definition validate_problems :: "'p registry \<Rightarrow> string list" where
  "validate_problems r =
     map (\<lambda>p. ''enabled capability '' @ repr_str (cp_capability p) @ '' has no adapter for prefix ''
           @ repr_str (cp_prefix p))
       (filter (\<lambda>p. map_of (pr_capabilities (rg_policies r)) (cp_capability p) = Some True
                  \<and> map_of (rg_owners r) (cp_prefix p) = None) (pr_policies (rg_policies r)))"

fun join_semi :: "string list \<Rightarrow> string" where
  "join_semi [] = []"
| "join_semi [x] = x"
| "join_semi (x # xs) = x @ ''; '' @ join_semi xs"

definition registry_validate :: "('p registry, unit) prog" where
  "registry_validate r =
     (case validate_problems r of
        [] \<Rightarrow> (Inr (), r\<lparr>rg_validated := True\<rparr>)
      | problems \<Rightarrow> (Inl (Exc AdapterRegistryError (join_semi problems)), r))"

subsection \<open>Lookups\<close>

definition registry_ids :: "'p registry \<Rightarrow> string list" where
  "registry_ids r = sort (map fst (rg_adapters r))"

definition registry_adapter :: "'p registry \<Rightarrow> string \<Rightarrow> exc + 'p adapter" where
  "registry_adapter r aid =
     (case map_of (rg_adapters r) aid of
        Some a \<Rightarrow> Inr a
      | None \<Rightarrow> registry_error (''adapter '' @ repr_str aid @ '' is not registered''))"

definition registry_advertised :: "'p registry \<Rightarrow> string \<Rightarrow> exc + adapter_capabilities" where
  "registry_advertised r aid =
     (case map_of (rg_advertised r) aid of Some c \<Rightarrow> Inr c | None \<Rightarrow> Inl (Exc KeyError (repr_str aid)))"

definition ownership_of :: "'p registry \<Rightarrow> string \<Rightarrow> ownership option" where
  "ownership_of r command_type =
     (case resolve (rg_policies r) command_type of
        None \<Rightarrow> None
      | Some policy \<Rightarrow>
          (case map_of (rg_owners r) (cp_prefix policy) of
             None \<Rightarrow> None
           | Some aid \<Rightarrow> Some \<lparr>ow_prefix = cp_prefix policy, ow_target = cp_target policy,
               ow_capability = cp_capability policy, ow_readback_required = cp_readback_required policy,
               ow_adapter_id = aid\<rparr>))"

definition owner_for :: "'p registry \<Rightarrow> string \<Rightarrow> exc + 'p adapter option" where
  "owner_for r command_type =
     (case ownership_of r command_type of
        None \<Rightarrow> Inr None
      | Some o' \<Rightarrow>
          (case map_of (rg_adapters r) (ow_adapter_id o') of
             None \<Rightarrow> Inl (Exc KeyError (repr_str (ow_adapter_id o'))) | Some a \<Rightarrow> Inr (Some a)))"

definition owners_sorted :: "'p registry \<Rightarrow> (string, string) dict" where
  "owners_sorted r = sort_key fst (rg_owners r)"

definition unowned_prefixes :: "'p registry \<Rightarrow> string list" where
  "unowned_prefixes r =
     sort (map cp_prefix (filter (\<lambda>p. map_of (rg_owners r) (cp_prefix p) = None) (pr_policies (rg_policies r))))"

definition enabled_adapter_ids :: "'p registry \<Rightarrow> string list" where
  "enabled_adapter_ids r =
     sort (remdups (concat (map (\<lambda>p. if map_of (pr_capabilities (rg_policies r)) (cp_capability p) = Some True
         then (case map_of (rg_owners r) (cp_prefix p) of None \<Rightarrow> [] | Some o' \<Rightarrow> [o']) else [])
       (pr_policies (rg_policies r)))))"

text \<open>\<open>readiness\<close>: a probe that raises counts as not ready.\<close>

fun readiness_report :: "adapter_context \<Rightarrow> (string \<times> 'p adapter) list \<Rightarrow> 'p \<Rightarrow> (string, adapter_readiness) dict \<times> 'p" where
  "readiness_report x [] w = ([], w)"
| "readiness_report x ((aid, a) # rest) w =
     (let (res, w1) = ad_readiness a x w;
          line = (case res of Inr rd \<Rightarrow> rd | Inl e \<Rightarrow> \<lparr>rd_ready = False, rd_detail = exc_name e\<rparr>);
          (lines, w2) = readiness_report x rest w1
      in ((aid, line) # lines, w2))"

definition registry_readiness :: "'p registry \<Rightarrow> adapter_context \<Rightarrow> 'p \<Rightarrow> (string, adapter_readiness) dict \<times> 'p" where
  "registry_readiness r x w = readiness_report x (sort_key fst (rg_adapters r)) w"

subsection \<open>Runs\<close>

inductive registry_step :: "'p registry \<Rightarrow> 'p registry \<Rightarrow> bool" where
  rs_register: "registry_step r (snd (register_adapter a r))"
| rs_validate: "registry_step r (snd (registry_validate r))"

definition registry_init :: "'p registry \<Rightarrow> bool" where
  "registry_init r \<longleftrightarrow> (\<exists>policies. r = new_adapter_registry policies)"

definition serves :: "adapter_capabilities \<Rightarrow> command_policy \<Rightarrow> bool" where
  "serves adv p \<longleftrightarrow> cp_target p \<in> set (ac_connector_ids adv) \<and> cp_capability p \<in> set (ac_capabilities adv)
     \<and> (cp_readback_required p \<longrightarrow> ac_supports_readback adv)"

definition registry_inv :: "'p registry \<Rightarrow> bool" where
  "registry_inv r \<longleftrightarrow>
     (\<forall>prefix aid. map_of (rg_owners r) prefix = Some aid \<longrightarrow>
        (\<exists>a p. map_of (rg_adapters r) aid = Some a \<and> map_of (rg_advertised r) aid = Some (ad_capabilities a)
           \<and> ad_adapter_id a = aid \<and> p \<in> set (pr_policies (rg_policies r)) \<and> cp_prefix p = prefix
           \<and> serves (ad_capabilities a) p))
     \<and> (rg_validated r \<longrightarrow> validate_problems r = [])"

definition owners_kept :: "'p registry \<Rightarrow> 'p registry \<Rightarrow> bool" where
  "owners_kept r r' \<longleftrightarrow> rg_policies r' = rg_policies r
     \<and> (\<forall>prefix aid. map_of (rg_owners r) prefix = Some aid \<longrightarrow> map_of (rg_owners r') prefix = Some aid)"

definition sample_registry :: "fixture registry" where
  "sample_registry = snd (register_adapter test_syn_adapter (new_adapter_registry
     (make_registry [\<lparr>cp_prefix = ''test.syn.'', cp_target = ''test-syn'', cp_capability = ''TEST_SYN_EXECUTE'',
        cp_readback_required = True\<rparr>] [(''TEST_SYN_EXECUTE'', True)])))"

subsection \<open>Invariants\<close>

lemma collect_owned_Inr:
  assumes "collect_owned aid adv owners ps = Inr owned"
  shows "set owned \<subseteq> set ps \<and> (\<forall>p \<in> set owned. serves adv p \<and> map_of owners (cp_prefix p) \<in> {None, Some aid})
    \<and> (\<forall>p \<in> set ps. cp_target p \<in> set (ac_connector_ids adv) \<longrightarrow> p \<in> set owned)"
  using assms
proof (induction ps arbitrary: owned)
  case (Cons p ps)
  show ?case
  proof (cases "cp_target p \<in> set (ac_connector_ids adv)")
    case False
    then have "collect_owned aid adv owners ps = Inr owned" using Cons.prems by simp
    from Cons.IH [OF this] False show ?thesis by auto
  next
    case True
    then obtain rest where rest: "collect_owned aid adv owners ps = Inr rest" "owned = p # rest"
      "serves adv p" "map_of owners (cp_prefix p) \<in> {None, Some aid}"
      using Cons.prems
      by (cases "collect_owned aid adv owners ps")
        (auto simp: serves_def registry_error_def split: if_splits option.splits)
    from Cons.IH [OF rest(1)] rest show ?thesis by auto
  qed
qed simp

lemma fold_owners:
  "map_of (fold (\<lambda>p. AList.update (cp_prefix p) aid) owned owners) prefix =
     (if \<exists>p \<in> set owned. cp_prefix p = prefix then Some aid else map_of owners prefix)"
  by (induction owned arbitrary: owners) auto

lemma register_adapter_cases:
  "snd (register_adapter a r) = r
   \<or> (\<exists>owned. collect_owned (ad_adapter_id a) (ad_capabilities a) (rg_owners r) (pr_policies (rg_policies r)) = Inr owned
        \<and> map_of (rg_adapters r) (ad_adapter_id a) = None
        \<and> snd (register_adapter a r) = r\<lparr>
            rg_owners := fold (\<lambda>p. AList.update (cp_prefix p) (ad_adapter_id a)) owned (rg_owners r),
            rg_adapters := AList.update (ad_adapter_id a) a (rg_adapters r),
            rg_advertised := AList.update (ad_adapter_id a) (ad_capabilities a) (rg_advertised r),
            rg_validated := False\<rparr>)"
  by (auto simp: register_adapter_def Let_def split: option.split sum.split list.split)

lemma registry_validate_cases:
  "snd (registry_validate r) = r \<or> validate_problems r = [] \<and> snd (registry_validate r) = r\<lparr>rg_validated := True\<rparr>"
  by (auto simp: registry_validate_def split: list.split)

lemma register_adapter_inv:
  assumes "registry_inv r"
  shows "registry_inv (snd (register_adapter a r))"
  using register_adapter_cases [of a r]
proof (elim disjE exE conjE)
  assume "snd (register_adapter a r) = r"
  then show ?thesis using assms by simp
next
  fix owned
  assume c: "collect_owned (ad_adapter_id a) (ad_capabilities a) (rg_owners r) (pr_policies (rg_policies r)) = Inr owned"
    and new: "map_of (rg_adapters r) (ad_adapter_id a) = None"
    and eq: "snd (register_adapter a r) = r\<lparr>
            rg_owners := fold (\<lambda>p. AList.update (cp_prefix p) (ad_adapter_id a)) owned (rg_owners r),
            rg_adapters := AList.update (ad_adapter_id a) a (rg_adapters r),
            rg_advertised := AList.update (ad_adapter_id a) (ad_capabilities a) (rg_advertised r),
            rg_validated := False\<rparr>"
  note own = collect_owned_Inr [OF c]
  have old: "aid \<noteq> ad_adapter_id a" if "map_of (rg_owners r) prefix = Some aid" for prefix aid
    using assms that new unfolding registry_inv_def by force
  show ?thesis
    unfolding eq registry_inv_def
    using assms own old unfolding registry_inv_def by (simp add: fold_owners) (metis subsetD)
qed

lemma registry_inv_step: "registry_step r r' \<Longrightarrow> registry_inv r \<Longrightarrow> registry_inv r'"
proof (induction rule: registry_step.induct)
  case (rs_register r a)
  then show ?case by (rule register_adapter_inv)
next
  case (rs_validate r)
  have "validate_problems (r\<lparr>rg_validated := True\<rparr>) = validate_problems r"
    by (simp add: validate_problems_def)
  then show ?case
    using registry_validate_cases [of r] rs_validate unfolding registry_inv_def by auto
qed

interpretation reg: machine_invariant registry_init registry_step registry_inv
proof
  show "registry_init r \<Longrightarrow> registry_inv r" for r :: "'p registry"
    by (auto simp: registry_init_def new_adapter_registry_def registry_inv_def)
qed (rule registry_inv_step)

lemma owners_kept_step: "registry_step r r' \<Longrightarrow> owners_kept r r'"
proof (induction rule: registry_step.induct)
  case (rs_register r a)
  show ?case
    using register_adapter_cases [of a r] collect_owned_Inr
    by (fastforce simp: owners_kept_def fold_owners)
next
  case (rs_validate r)
  then show ?case using registry_validate_cases [of r] by (auto simp: owners_kept_def)
qed

interpretation own: machine_monotone registry_step owners_kept
  by unfold_locales (auto simp: owners_kept_def dest: owners_kept_step)

lemma resolve_unique_prefix:
  assumes "resolve reg ct = Some p" "q \<in> set (pr_policies reg)" "cp_prefix q = cp_prefix p"
  shows "q = p"
proof -
  have "q \<in> set (matching_policies reg ct)"
    using assms resolve_SomeD(2) [OF assms(1)] by (simp add: matching_policies_def)
  then show ?thesis using assms(1) by (simp add: resolve_Some_iff)
qed

lemma ownership_SomeD:
  assumes "registry_inv r" "ownership_of r ct = Some o'"
  shows "\<exists>a p. resolve (rg_policies r) ct = Some p \<and> map_of (rg_adapters r) (ow_adapter_id o') = Some a
    \<and> map_of (rg_advertised r) (ow_adapter_id o') = Some (ad_capabilities a)
    \<and> ad_adapter_id a = ow_adapter_id o' \<and> serves (ad_capabilities a) p
    \<and> ow_prefix o' = cp_prefix p \<and> ow_target o' = cp_target p \<and> ow_capability o' = cp_capability p"
proof -
  obtain p aid where p: "resolve (rg_policies r) ct = Some p" "map_of (rg_owners r) (cp_prefix p) = Some aid"
    "ow_adapter_id o' = aid" "ow_prefix o' = cp_prefix p" "ow_target o' = cp_target p"
    "ow_capability o' = cp_capability p"
    using assms(2) by (auto simp: ownership_of_def split: option.splits)
  then obtain a q where "map_of (rg_adapters r) aid = Some a" "map_of (rg_advertised r) aid = Some (ad_capabilities a)"
    "ad_adapter_id a = aid" "q \<in> set (pr_policies (rg_policies r))" "cp_prefix q = cp_prefix p"
    "serves (ad_capabilities a) q"
    using assms(1) unfolding registry_inv_def by blast
  with p resolve_unique_prefix [OF p(1)] show ?thesis by blast
qed

text \<open>
  Ownership is sound in every registry built by registrations and validations, failed ones
  included: when a command type has an owner, the owning adapter is registered under that id
  and advertised, it serves the policy's target, implements its capability and supports the
  read-back the policy requires; the lookups never raise; and a validated registry owns every
  prefix of an enabled capability.
\<close>

theorem registry_ownership_sound:
  assumes "reach registry_init registry_step r" and "ownership_of r ct = Some o'"
  shows "\<exists>a. registry_adapter r (ow_adapter_id o') = Inr a \<and> owner_for r ct = Inr (Some a)
      \<and> registry_advertised r (ow_adapter_id o') = Inr (ad_capabilities a)
      \<and> ow_target o' \<in> set (ac_connector_ids (ad_capabilities a))
      \<and> ow_capability o' \<in> set (ac_capabilities (ad_capabilities a))
      \<and> (ow_readback_required o' \<longrightarrow> ac_supports_readback (ad_capabilities a))
    \<and> (rg_validated r \<longrightarrow> (\<forall>p \<in> set (pr_policies (rg_policies r)).
         map_of (pr_capabilities (rg_policies r)) (cp_capability p) = Some True \<longrightarrow> map_of (rg_owners r) (cp_prefix p) \<noteq> None))"
proof -
  have inv: "registry_inv r" using reg.reach_inv assms(1) by blast
  obtain a p where a: "resolve (rg_policies r) ct = Some p" "map_of (rg_adapters r) (ow_adapter_id o') = Some a"
    "map_of (rg_advertised r) (ow_adapter_id o') = Some (ad_capabilities a)" "serves (ad_capabilities a) p"
    "ow_target o' = cp_target p" "ow_capability o' = cp_capability p"
    using ownership_SomeD [OF inv assms(2)] by blast
  have "ow_readback_required o' = cp_readback_required p"
    using assms(2) a(1) by (auto simp: ownership_of_def split: option.splits)
  moreover have "rg_validated r \<longrightarrow> validate_problems r = []" using inv unfolding registry_inv_def by blast
  then have "rg_validated r \<longrightarrow> (\<forall>p \<in> set (pr_policies (rg_policies r)).
      map_of (pr_capabilities (rg_policies r)) (cp_capability p) = Some True \<longrightarrow> map_of (rg_owners r) (cp_prefix p) \<noteq> None)"
    by (auto simp: validate_problems_def filter_empty_conv)
  ultimately show ?thesis
    using a assms(2) by (auto simp: registry_adapter_def owner_for_def registry_advertised_def serves_def)
qed

lemma sample_registry_reach: "reach registry_init registry_step sample_registry"
  unfolding sample_registry_def
  by (rule reach_step [OF reach_init]) (auto simp: registry_init_def intro: rs_register)

lemma sample_ownership:
  "ownership_of sample_registry ''test.syn.ping'' = Some \<lparr>ow_prefix = ''test.syn.'', ow_target = ''test-syn'',
     ow_capability = ''TEST_SYN_EXECUTE'', ow_readback_required = True, ow_adapter_id = ''test-syn''\<rparr>"
  by (simp add: sample_registry_def register_adapter_def new_adapter_registry_def make_registry_def
      test_syn_adapter_def fixture_adapter_def fixture_caps_def base_validate_config_def assert_adapter_def
      ownership_of_def resolve_def matching_policies_def startswith_def Let_def)

theorem registry_ownership_sound_witness:
  "\<exists>a. registry_adapter sample_registry ''test-syn'' = Inr a
     \<and> ''TEST_SYN_EXECUTE'' \<in> set (ac_capabilities (ad_capabilities a))"
  using registry_ownership_sound [OF sample_registry_reach sample_ownership] by auto

text \<open>
  Registration is atomic and never takes a prefix over: a registration that raises leaves
  the registry unchanged, and along every run the owner of an owned prefix stays the same.
\<close>

theorem registry_owner_stable:
  assumes "run registry_step r r'"
  shows "(map_of (rg_owners r) prefix = Some aid \<longrightarrow> map_of (rg_owners r') prefix = Some aid)
    \<and> (fst (register_adapter a r) = Inl e \<longrightarrow> snd (register_adapter a r) = r)"
proof
  show "map_of (rg_owners r) prefix = Some aid \<longrightarrow> map_of (rg_owners r') prefix = Some aid"
    using own.run_rel [OF assms] unfolding owners_kept_def by blast
  show "fst (register_adapter a r) = Inl e \<longrightarrow> snd (register_adapter a r) = r"
    by (auto simp: register_adapter_def Let_def split: option.split sum.split list.split)
qed

theorem registry_owner_stable_witness:
  "map_of (rg_owners (snd (register_adapter test_syn_adapter sample_registry))) ''test.syn.'' = Some ''test-syn''"
proof -
  have "run registry_step sample_registry (snd (register_adapter test_syn_adapter sample_registry))"
    by (rule run_step [OF run_refl]) (rule rs_register)
  moreover have "map_of (rg_owners sample_registry) ''test.syn.'' = Some ''test-syn''"
    by (simp add: sample_registry_def register_adapter_def new_adapter_registry_def make_registry_def
        test_syn_adapter_def fixture_adapter_def fixture_caps_def base_validate_config_def assert_adapter_def Let_def)
  ultimately show ?thesis using registry_owner_stable by blast
qed

end
