(* ===== verification/Kernel_Principal.thy ===== *)
theory Kernel_Principal
  imports Adapter_Contract
begin

text \<open>
  Who is calling: the registry of control-plane callers (\<open>app/control_plane_auth.py\<close>), the
  verified principal of a kernel request (\<open>app/platform/principal.py\<close>) and the policy registry
  a process serves (\<open>command_policies\<close> of \<open>app/platform/runtime.py\<close>). The configuration
  document and the token's claims are JSON values; decoding a JWT is the parameter
  \<open>jwt_decode\<close> (\<open>None\<close> when the library raises).
\<close>

subsection \<open>Control-plane callers\<close>

record control_plane_caller =
  cl_client_id :: string
  cl_command_scope :: string
  cl_status_scope :: string
  cl_allowed_command_prefixes :: "string list"
  cl_allowed_targets :: "string list"
  cl_connector_commands_allowed :: bool
  cl_compatibility_only :: bool

definition runtime_error :: "string \<Rightarrow> exc + 'a" where
  "runtime_error msg = Inl (Exc RuntimeError msg)"

definition load_policy :: "json_object \<Rightarrow> exc + json_object" where
  "load_policy v =
     (if map_of v ''schema_version'' \<noteq> Some (JStr ''1.0'')
      then runtime_error ''unsupported control-plane caller policy schema''
      else if map_of v ''issuer'' \<noteq> Some (JStr ''https://auth.codestra.co/realms/codestra'')
      then runtime_error ''control-plane issuer drift''
      else if map_of v ''audience'' \<noteq> Some (JStr ''middleware-api'')
      then runtime_error ''control-plane audience drift''
      else if map_of v ''token_exchange'' \<noteq> Some (JBool False)
      then runtime_error ''token exchange must remain disabled''
      else if map_of v ''original_bearer_required'' \<noteq> Some (JBool True)
      then runtime_error ''original bearer forwarding must remain required''
      else if map_of v ''maximum_token_lifetime_seconds'' \<notin> {Some (JInt 300), Some (JFloat ''300.0'')}
      then runtime_error ''machine token lifetime policy drift''
      else if map_of v ''tenant_claim'' \<noteq> Some (JStr ''tenant_id'')
      then runtime_error ''tenant_id must remain authoritative''
      else (case map_of v ''callers'' of
              Some (JObj (c # cs)) \<Rightarrow> Inr (c # cs)
            | _ \<Rightarrow> runtime_error ''control-plane caller registry is empty''))"

text \<open>\<open>isinstance(v, list) and all(isinstance(x, str) and x for x in v)\<close>.\<close>

definition name_list :: "json option \<Rightarrow> string list option" where
  "name_list v = (case v of
     Some (JList xs) \<Rightarrow>
       (if list_all (\<lambda>x. case x of JStr s \<Rightarrow> s \<noteq> [] | _ \<Rightarrow> False) xs
        then Some (map (\<lambda>x. case x of JStr s \<Rightarrow> s | _ \<Rightarrow> []) xs) else None)
   | _ \<Rightarrow> None)"

definition build_caller :: "string \<Rightarrow> json \<Rightarrow> exc + control_plane_caller" where
  "build_caller client_id entry =
     (case entry of
        JObj item \<Rightarrow>
          (case (case map_of item ''connector_commands_allowed'' of None \<Rightarrow> JBool True | Some j \<Rightarrow> j) of
             JBool allowed \<Rightarrow>
               (case name_list (map_of item ''allowed_command_prefixes'') of
                  None \<Rightarrow> runtime_error (client_id @ '': command prefix policy is invalid'')
                | Some prefixes \<Rightarrow>
                  (case name_list (map_of item ''allowed_targets'') of
                     None \<Rightarrow> runtime_error (client_id @ '': target policy is invalid'')
                   | Some targets \<Rightarrow>
                     if allowed \<and> (prefixes = [] \<or> targets = [])
                     then runtime_error (client_id @ '': connector command authority is empty'')
                     else if \<not> allowed \<and> (prefixes \<noteq> [] \<or> targets \<noteq> [])
                     then runtime_error (client_id @ '': read/operator-only caller has connector authority'')
                     else (case (map_of item ''command_scope'', map_of item ''status_scope'') of
                             (None, _) \<Rightarrow> Inl (Exc KeyError ''command_scope'')
                           | (_, None) \<Rightarrow> Inl (Exc KeyError ''status_scope'')
                           | (Some cs, Some ss) \<Rightarrow> Inr \<lparr>cl_client_id = client_id, cl_command_scope = json_str cs,
                               cl_status_scope = json_str ss, cl_allowed_command_prefixes = prefixes,
                               cl_allowed_targets = remdups targets, cl_connector_commands_allowed = allowed,
                               cl_compatibility_only = (map_of item ''compatibility_only'' = Some (JBool True))\<rparr>)))
           | _ \<Rightarrow> runtime_error (client_id @ '': connector command policy is invalid''))
      | _ \<Rightarrow> runtime_error ''invalid control-plane caller entry'')"

fun build_callers_from :: "json_object \<Rightarrow> exc + (string, control_plane_caller) dict" where
  "build_callers_from [] = Inr []"
| "build_callers_from ((client_id, entry) # rest) =
     (case build_caller client_id entry of
        Inl e \<Rightarrow> Inl e
      | Inr c \<Rightarrow> map_sum id (\<lambda>cs. (client_id, c) # cs) (build_callers_from rest))"

definition build_callers :: "json_object \<Rightarrow> exc + (string, control_plane_caller) dict" where
  "build_callers doc = (case load_policy doc of Inl e \<Rightarrow> Inl e | Inr raw \<Rightarrow> build_callers_from raw)"

definition authentication_error :: "string \<Rightarrow> exc + 'a" where
  "authentication_error msg = Inl (Exc (OtherException ''AuthenticationError'') msg)"

definition unverified_client_id :: "(string \<Rightarrow> json_object option) \<Rightarrow> (string, control_plane_caller) dict
    \<Rightarrow> string \<Rightarrow> exc + string" where
  "unverified_client_id jwt_decode callers authorization =
     (let scheme = takeWhile (\<lambda>c. c \<noteq> CHR '' '') authorization;
          token = drop (Suc (length scheme)) authorization
      in if py_lower scheme \<noteq> ''bearer'' \<or> token = []
         then authentication_error ''Authorization must be a Bearer token''
         else if length (filter (\<lambda>c. c = CHR ''.'') token) \<noteq> 2 then Inr ''kong-gateway''
         else (case jwt_decode token of
                 None \<Rightarrow> authentication_error ''invalid bearer token''
               | Some claims \<Rightarrow>
                   (case map_of claims ''azp'' of
                      Some (JStr (ch # chs)) \<Rightarrow>
                        if map_of callers (ch # chs) = None
                        then authentication_error ''unrecognized control-plane caller'' else Inr (ch # chs)
                    | _ \<Rightarrow> authentication_error ''machine token azp is required'')))"

definition caller_for_authorization :: "(string \<Rightarrow> json_object option) \<Rightarrow> (string, control_plane_caller) dict
    \<Rightarrow> string \<Rightarrow> exc + control_plane_caller" where
  "caller_for_authorization jwt_decode callers authorization =
     (case unverified_client_id jwt_decode callers authorization of
        Inl e \<Rightarrow> Inl e
      | Inr cid \<Rightarrow> (case map_of callers cid of None \<Rightarrow> Inl (Exc KeyError (repr_str cid)) | Some c \<Rightarrow> Inr c))"

definition authorize_command :: "control_plane_caller \<Rightarrow> string \<Rightarrow> string \<Rightarrow> exc + unit" where
  "authorize_command caller command_type target =
     (if \<not> cl_connector_commands_allowed caller
      then Inl (Exc AuthorizationError ''caller has no connector command authority'')
      else if target \<notin> set (cl_allowed_targets caller)
      then Inl (Exc AuthorizationError ''command target is not authorized for caller'')
      else if \<not> list_ex (startswith command_type) (cl_allowed_command_prefixes caller)
      then Inl (Exc AuthorizationError ''command namespace is not authorized for caller'')
      else Inr ())"

subsection \<open>The principal\<close>

definition MAX_TENANTS :: nat where "MAX_TENANTS = 64"
definition MAX_ROLES :: nat where "MAX_ROLES = 64"
definition MAX_SCOPES :: nat where "MAX_SCOPES = 128"

definition SYNTHETIC_CALLERS :: "string list" where
  "SYNTHETIC_CALLERS = [''middleware-api'']"

definition SYNTHETIC_ENVIRONMENTS :: "environment list" where
  "SYNTHETIC_ENVIRONMENTS = [Development, Test, Staging, Preproduction]"

definition SYNTHETIC_PREFIX :: string where "SYNTHETIC_PREFIX = ''test.syn.''"
definition SYNTHETIC_TARGET :: string where "SYNTHETIC_TARGET = ''test-syn''"

definition with_synthetic_authority :: "control_plane_caller \<Rightarrow> environment \<Rightarrow> control_plane_caller" where
  "with_synthetic_authority caller env =
     (if env \<notin> set SYNTHETIC_ENVIRONMENTS \<or> cl_client_id caller \<notin> set SYNTHETIC_CALLERS then caller
      else caller\<lparr>cl_allowed_command_prefixes := fromkeys (cl_allowed_command_prefixes caller @ [SYNTHETIC_PREFIX]),
                  cl_allowed_targets := List.insert SYNTHETIC_TARGET (cl_allowed_targets caller),
                  cl_connector_commands_allowed := True\<rparr>)"

record kernel_principal =
  kp_subject :: string
  kp_client_id :: string
  kp_tenants :: "string list"
  kp_roles :: "string list"
  kp_scopes :: "string list"
  kp_caller :: control_plane_caller

definition authorized_for :: "kernel_principal \<Rightarrow> string \<Rightarrow> bool" where
  "authorized_for p tenant \<longleftrightarrow> ''*'' \<notin> set (kp_tenants p) \<and> tenant \<in> set (kp_tenants p)"

definition string_items :: "json option \<Rightarrow> nat \<Rightarrow> exc + string list" where
  "string_items value limit =
     (let clean = (\<lambda>items. let cleaned = fromkeys (filter (\<lambda>s. s \<noteq> []) (map py_strip items))
                    in if limit < length cleaned
                       then Inl (Exc AuthorizationError ''token claim exceeds the allowed cardinality'')
                       else Inr cleaned)
      in case value of
           Some (JStr s) \<Rightarrow> clean (py_split s)
         | Some (JList xs) \<Rightarrow> clean (concat (map (\<lambda>x. case x of JStr s \<Rightarrow> [s] | _ \<Rightarrow> []) xs))
         | _ \<Rightarrow> Inr [])"

fun collect_items :: "(json option) list \<Rightarrow> nat \<Rightarrow> exc + string list" where
  "collect_items [] limit = Inr []"
| "collect_items (v # vs) limit =
     (case string_items v limit of
        Inl e \<Rightarrow> Inl e
      | Inr items \<Rightarrow> map_sum id (\<lambda>rest. items @ rest) (collect_items vs limit))"

definition roles_field :: "json option \<Rightarrow> (json option) list" where
  "roles_field v = (case v of Some (JObj kvs) \<Rightarrow> [map_of kvs ''roles''] | _ \<Rightarrow> [])"

definition roles_from_claims :: "json_object \<Rightarrow> string \<Rightarrow> exc + string list" where
  "roles_from_claims claims client_id =
     (let sources = roles_field (map_of claims ''realm_access'')
            @ (case map_of claims ''resource_access'' of
                 Some (JObj res) \<Rightarrow> roles_field (map_of res client_id) @ roles_field (map_of res ''middleware-api'')
               | _ \<Rightarrow> [])
            @ [map_of claims ''roles'']
      in case collect_items sources MAX_ROLES of
           Inl e \<Rightarrow> Inl e
         | Inr roles \<Rightarrow>
             (let unique = fromkeys roles
              in if MAX_ROLES < length unique then Inl (Exc AuthorizationError ''token carries too many roles'')
                 else Inr unique))"

definition tenants_from_claims :: "json_object \<Rightarrow> exc + string list" where
  "tenants_from_claims claims =
     (let single = (case map_of claims ''tenant_id'' of
            Some (JStr s) \<Rightarrow> (if py_strip s \<noteq> [] then [py_strip s] else []) | _ \<Rightarrow> [])
      in case string_items (map_of claims ''tenant_ids'') MAX_TENANTS of
           Inl e \<Rightarrow> Inl e
         | Inr listed \<Rightarrow>
             (let unique = fromkeys (single @ listed)
              in if ''*'' \<in> set unique
                 then Inl (Exc AuthorizationError ''wildcard tenant authorization is prohibited'')
                 else Inr unique))"

definition principal_from_claims :: "json_object \<Rightarrow> control_plane_caller \<Rightarrow> environment option \<Rightarrow> exc + kernel_principal" where
  "principal_from_claims claims caller0 env =
     (let caller = (case env of None \<Rightarrow> caller0 | Some e \<Rightarrow> with_synthetic_authority caller0 e)
      in case map_of claims ''sub'' of
           Some (JStr subject) \<Rightarrow>
             if py_strip subject = [] then Inl (Exc AuthorizationError ''token subject is required'')
             else if 300 < length subject then Inl (Exc AuthorizationError ''token subject is malformed'')
             else if map_of claims ''azp'' \<noteq> Some (JStr (cl_client_id caller))
             then Inl (Exc AuthorizationError ''token azp does not match the authenticated caller'')
             else (case tenants_from_claims claims of
                     Inl e \<Rightarrow> Inl e
                   | Inr tenants \<Rightarrow>
                     (case roles_from_claims claims (cl_client_id caller) of
                        Inl e \<Rightarrow> Inl e
                      | Inr roles \<Rightarrow>
                        (case string_items (map_of claims ''scope'') MAX_SCOPES of
                           Inl e \<Rightarrow> Inl e
                         | Inr scopes \<Rightarrow> Inr \<lparr>kp_subject = py_strip subject, kp_client_id = cl_client_id caller,
                             kp_tenants = tenants, kp_roles = roles, kp_scopes = scopes, kp_caller = caller\<rparr>)))
         | _ \<Rightarrow> Inl (Exc AuthorizationError ''token subject is required''))"

text \<open>\<open>authenticate\<close>: the verifier of the runtime is the parameter \<open>verify\<close> (claims, or raise).\<close>

definition authenticate :: "(string \<Rightarrow> json_object option) \<Rightarrow> (string, control_plane_caller) dict
    \<Rightarrow> (string \<Rightarrow> string \<Rightarrow> string \<Rightarrow> exc + json_object) \<Rightarrow> environment \<Rightarrow> string \<Rightarrow> string \<Rightarrow> exc + kernel_principal" where
  "authenticate jwt_decode callers verify env authorization required_scope =
     (case caller_for_authorization jwt_decode callers authorization of
        Inl e \<Rightarrow> Inl e
      | Inr caller \<Rightarrow>
          (case verify authorization (cl_client_id caller) required_scope of
             Inl e \<Rightarrow> Inl e
           | Inr claims \<Rightarrow> principal_from_claims claims caller (Some env)))"

subsection \<open>The policy registry of a process\<close>

definition synthetic_policy :: command_policy where
  "synthetic_policy = \<lparr>cp_prefix = ''test.syn.'', cp_target = ''test-syn'', cp_capability = ''TEST_SYN_EXECUTE'',
     cp_readback_required = True\<rparr>"

definition n8n_policy :: command_policy where
  "n8n_policy = \<lparr>cp_prefix = ''automation.workflow.'', cp_target = ''n8n-automation'',
     cp_capability = ''N8N_WORKFLOW_DISPATCH'', cp_readback_required = True\<rparr>"

definition command_policies :: "environment \<Rightarrow> policy_registry \<Rightarrow> exc + policy_registry" where
  "command_policies env base =
     (case extended base [n8n_policy] [(cp_capability n8n_policy, False)] of
        Inl e \<Rightarrow> Inl e
      | Inr reg \<Rightarrow>
          if env \<in> set SYNTHETIC_ENVIRONMENTS
          then extended reg [synthetic_policy] [(cp_capability synthetic_policy, True)]
          else Inr reg)"

subsection \<open>Properties\<close>

definition sample_caller :: control_plane_caller where
  "sample_caller = \<lparr>cl_client_id = ''middleware-api'', cl_command_scope = ''platform.command'',
     cl_status_scope = ''platform.command.read'', cl_allowed_command_prefixes = [''crm.''],
     cl_allowed_targets = [''odoo-19''], cl_connector_commands_allowed = True, cl_compatibility_only = False\<rparr>"

definition sample_claims :: json_object where
  "sample_claims = [(''sub'', JStr ''svc''), (''azp'', JStr ''middleware-api''), (''tenant_id'', JStr ''TEST_SYN''),
     (''roles'', JList [JStr ''platform-operator'']), (''scope'', JStr ''platform.command platform.command.replay'')]"

definition sample_principal :: kernel_principal where
  "sample_principal = \<lparr>kp_subject = ''svc'', kp_client_id = ''middleware-api'', kp_tenants = [''TEST_SYN''],
     kp_roles = [''platform-operator''], kp_scopes = [''platform.command'', ''platform.command.replay''],
     kp_caller = with_synthetic_authority sample_caller Test\<rparr>"

lemma string_items_Inr:
  assumes "string_items v limit = Inr items"
  shows "length items \<le> limit \<and> distinct items \<and> [] \<notin> set items"
  using assms by (auto simp: string_items_def Let_def split: option.splits json.splits if_splits)

lemma roles_from_claims_Inr:
  "roles_from_claims claims cid = Inr roles \<Longrightarrow> length roles \<le> MAX_ROLES \<and> distinct roles"
  by (auto simp: roles_from_claims_def Let_def split: sum.splits if_splits)

lemma tenants_from_claims_Inr:
  assumes "tenants_from_claims claims = Inr ts"
  shows "''*'' \<notin> set ts \<and> distinct ts \<and> [] \<notin> set ts"
proof -
  obtain listed where l: "string_items (map_of claims ''tenant_ids'') MAX_TENANTS = Inr listed"
    using assms by (auto simp: tenants_from_claims_def Let_def split: sum.splits)
  then show ?thesis
    using assms string_items_Inr [OF l]
    by (auto simp: tenants_from_claims_def Let_def split: sum.splits if_splits option.splits json.splits)
qed

lemma with_synthetic_client [simp]: "cl_client_id (with_synthetic_authority c e) = cl_client_id c"
  by (simp add: with_synthetic_authority_def)

lemma principal_from_claims_Inr:
  assumes "principal_from_claims claims caller env = Inr p"
  shows "map_of claims ''azp'' = Some (JStr (kp_client_id p)) \<and> kp_client_id p = cl_client_id caller
    \<and> (\<exists>s. map_of claims ''sub'' = Some (JStr s) \<and> kp_subject p = py_strip s \<and> kp_subject p \<noteq> [])
    \<and> tenants_from_claims claims = Inr (kp_tenants p)
    \<and> roles_from_claims claims (cl_client_id caller) = Inr (kp_roles p)
    \<and> string_items (map_of claims ''scope'') MAX_SCOPES = Inr (kp_scopes p)
    \<and> kp_caller p = (case env of None \<Rightarrow> caller | Some e \<Rightarrow> with_synthetic_authority caller e)"
proof -
  obtain s where s: "map_of claims ''sub'' = Some (JStr s)"
    using assms by (auto simp: principal_from_claims_def Let_def split: option.splits json.splits)
  show ?thesis
    using assms s
    by (cases env)
      (auto simp: principal_from_claims_def Let_def split: if_splits sum.splits)
qed


lemma sample_principal_ok: "principal_from_claims sample_claims sample_caller (Some Test) = Inr sample_principal"
  by (simp add: principal_from_claims_def sample_claims_def sample_caller_def sample_principal_def
      tenants_from_claims_def roles_from_claims_def string_items_def roles_field_def py_strip_def is_space_def
      py_split_def fromkeys_def MAX_TENANTS_def MAX_ROLES_def MAX_SCOPES_def Let_def)


end
