(* ===== verification/Command_Kernel.thy ===== *)
theory Command_Kernel
  imports Ledger_Guarantees Safety_Gate Adapter_Registry Kernel_Principal
begin

text \<open>
  The command kernel (\<open>app/platform/kernel.py\<close>): the submission pipeline (registry, adapter
  ownership, policy, backlog, safety, ledger), the denial audit, the backlog cache, the
  timeline check, cancellation, retry and replay. The state is the ledger, the safety gate,
  the backlog cache and the memory audit sink; the readings of the clocks and the random
  identifiers an operation draws come in as a record. Metrics and logging are left out.
\<close>

definition SCOPE_COMMAND :: string where "SCOPE_COMMAND = ''platform.command''"
definition SCOPE_COMMAND_REPLAY :: string where "SCOPE_COMMAND_REPLAY = ''platform.command.replay''"

datatype replay_mode = REPROCESS | REEXECUTE

fun replay_mode_str :: "replay_mode \<Rightarrow> string" where
  "replay_mode_str REPROCESS = ''REPROCESS''"
| "replay_mode_str REEXECUTE = ''REEXECUTE''"

record submit_result =
  sr_operation :: command_operation
  sr_policy :: command_policy_decision
  sr_safety :: safety_decision
  sr_destination :: string

record denial_audit =
  da_kind :: string
  da_tenant_id :: string
  da_command_id :: uuid
  da_command_type :: string
  da_target :: string
  da_capability :: string
  da_actor_id :: string
  da_client_id :: string
  da_correlation_id :: string
  da_reason_code :: string
  da_decision_id :: string
  da_version :: string
  da_created_at :: int

record kernel_state =
  ks_store :: command_store
  ks_gate :: safety_gate
  ks_backlog :: "(string, rat \<times> (nat \<times> nat option)) dict"
  ks_denials :: "denial_audit list"

record 'p kernel_env =
  ke_host :: host
  ke_policies :: policy_registry
  ke_registry :: "'p registry"

record kernel_reading =
  kr_policy_id :: string
  kr_safety_id :: string
  kr_now :: int
  kr_cache_clock :: rat
  kr_put_clock :: rat
  kr_budget_clock :: rat

definition on_store :: "(command_store, 'a) prog \<Rightarrow> (kernel_state, 'a) prog" where
  "on_store m = zoomE ks_store (\<lambda>st k. k\<lparr>ks_store := st\<rparr>) m"

definition campaign_id_of :: "json_object \<Rightarrow> string option" where
  "campaign_id_of payload = (case str_field payload ''campaign_id'' of Some [] \<Rightarrow> None | v \<Rightarrow> v)"

subsection \<open>Backlog cache\<close>

definition backlog_ttl :: rat where "backlog_ttl = 2"

definition backlog_get :: "rat \<Rightarrow> string \<Rightarrow> (string, rat \<times> (nat \<times> nat option)) dict \<Rightarrow> (nat \<times> nat option) option" where
  "backlog_get clock tenant cache =
     (case map_of cache tenant of
        None \<Rightarrow> None
      | Some (stamp, v) \<Rightarrow> if backlog_ttl < clock - stamp then None else Some v)"

definition backlog_put :: "rat \<Rightarrow> string \<Rightarrow> nat \<times> nat option \<Rightarrow> (string, rat \<times> (nat \<times> nat option)) dict
    \<Rightarrow> (string, rat \<times> (nat \<times> nat option)) dict" where
  "backlog_put clock tenant v cache =
     AList.update tenant (clock, v) (if 10000 < length cache then [] else cache)"

definition backlog_for :: "kernel_reading \<Rightarrow> string \<Rightarrow> kernel_state \<Rightarrow> (nat option \<times> nat option) \<times> kernel_state" where
  "backlog_for rd tenant k =
     (case backlog_get (kr_cache_clock rd) tenant (ks_backlog k) of
        Some (t, g) \<Rightarrow> ((Some t, g), k)
      | None \<Rightarrow>
          (case fst (store_backlog tenant (ks_store k)) of
             Inl _ \<Rightarrow> ((None, None), k)
           | Inr (t, g) \<Rightarrow> ((Some t, g),
               k\<lparr>ks_backlog := backlog_put (kr_put_clock rd) tenant (t, g) (ks_backlog k)\<rparr>)))"

subsection \<open>Submission\<close>

definition kernel_policy_request :: "kernel_state \<Rightarrow> command_envelope \<Rightarrow> kernel_principal \<Rightarrow> string \<Rightarrow> bool \<Rightarrow> command_policy_request" where
  "kernel_policy_request k c p required_scope operator_required =
     \<lparr>cq_correlation_id = ce_correlation_id c, cq_principal = kp_subject p, cq_client_id = kp_client_id p,
      cq_tenant_id = ce_tenant_id c, cq_authorized_tenants = kp_tenants p, cq_roles = kp_roles p,
      cq_scopes = kp_scopes p, cq_required_scope = required_scope, cq_command_type = ce_command_type c,
      cq_target = ce_target c, cq_capability = ce_capability c, cq_resource_scope = None,
      cq_campaign_id = campaign_id_of (ce_payload c), cq_environment = st_app_env (sg_settings (ks_gate k)),
      cq_effect_classification = classification (ks_gate k) (ce_capability c),
      cq_caller_command_prefixes = cl_allowed_command_prefixes (kp_caller p),
      cq_caller_targets = sort (cl_allowed_targets (kp_caller p)),
      cq_caller_connector_commands_allowed = cl_connector_commands_allowed (kp_caller p),
      cq_campaign_scoped = campaign_scoped (ks_gate k) (ce_capability c),
      cq_operator_required = operator_required, cq_evaluated_at = None\<rparr>"

definition safety_subject_of :: "command_envelope \<Rightarrow> safety_subject" where
  "safety_subject_of c = \<lparr>ss_tenant_id = ce_tenant_id c, ss_command_type = ce_command_type c,
     ss_target = ce_target c, ss_capability = ce_capability c, ss_campaign_id = campaign_id_of (ce_payload c),
     ss_correlation_id = ce_correlation_id c\<rparr>"

definition deny :: "string \<Rightarrow> int \<Rightarrow> command_envelope \<Rightarrow> kernel_principal \<Rightarrow> string \<Rightarrow> string \<Rightarrow> string
    \<Rightarrow> kernel_state \<Rightarrow> kernel_state" where
  "deny kind now c p reason did version k =
     k\<lparr>ks_denials := ks_denials k @ [\<lparr>da_kind = kind, da_tenant_id = ce_tenant_id c, da_command_id = ce_command_id c,
        da_command_type = ce_command_type c, da_target = ce_target c, da_capability = ce_capability c,
        da_actor_id = kp_subject p, da_client_id = kp_client_id p, da_correlation_id = ce_correlation_id c,
        da_reason_code = reason, da_decision_id = did, da_version = version, da_created_at = now\<rparr>]\<rparr>"

definition decision_evidence :: "command_policy_decision \<Rightarrow> safety_decision \<Rightarrow> string \<Rightarrow> ownership option
    \<Rightarrow> replay_mode option \<Rightarrow> uuid option \<Rightarrow> json_object" where
  "decision_evidence d s destination own mode replay_of =
     dict_merge (dict_merge (policy_evidence d) (safety_evidence s)) [(''destination'', JStr destination)]
     @ (case own of None \<Rightarrow> [] | Some o' \<Rightarrow> [(''adapter_id'', JStr (ow_adapter_id o'))])
     @ (case mode of None \<Rightarrow> []
        | Some m \<Rightarrow> [(''replay_mode'', JStr (replay_mode_str m)),
            (''replay_of'', opt_str (map_option uuid_str replay_of))])"

definition kernel_submit :: "'p kernel_env \<Rightarrow> kernel_reading \<Rightarrow> command_envelope \<Rightarrow> kernel_principal
    \<Rightarrow> replay_mode option \<Rightarrow> uuid option \<Rightarrow> (string, string) dict option \<Rightarrow> string option
    \<Rightarrow> (kernel_state, submit_result) prog" where
  "kernel_submit env rd c p mode replay_of trace required_scope k =
     (case resolve (ke_policies env) (ce_command_type c) of
        None \<Rightarrow> (Inl (Exc CommandCapabilityDisabled
          ''command type, target and capability do not name one registered policy''), k)
      | Some policy \<Rightarrow>
        if cp_target policy \<noteq> ce_target c \<or> cp_capability policy \<noteq> ce_capability c
        then (Inl (Exc CommandCapabilityDisabled
          ''command type, target and capability do not name one registered policy''), k)
        else
         (let own = ownership_of (ke_registry env) (ce_command_type c);
              destination = (if own \<noteq> None then ADAPTER_COMMAND_DESTINATION else TEMPORAL_COMMAND_DESTINATION);
              registered = (own \<noteq> None \<or> destination = TEMPORAL_COMMAND_DESTINATION);
              scope = (if mode = Some REEXECUTE then SCOPE_COMMAND_REPLAY
                       else if truthy required_scope then the required_scope else SCOPE_COMMAND);
              decision = evaluate_command (kr_policy_id rd) (kr_now rd)
                (kernel_policy_request k c p scope (mode = Some REEXECUTE))
          in if \<not> cd_allow decision
             then (Inl (Exc PolicyDenied (''policy denied: '' @ cd_reason_code decision)),
                   deny ''policy_deny'' (kr_now rd) c p (cd_reason_code decision) (cd_decision_id decision)
                     (cd_policy_version decision) k)
             else
              (let ((tenant_backlog, global_backlog), k1) = backlog_for rd (ce_tenant_id c) k;
                   (safety, gate) = safety_evaluate (kr_safety_id rd) (kr_budget_clock rd) (safety_subject_of c)
                     \<lparr>sx_adapter_registered = registered, sx_adapter_ready = None,
                      sx_tenant_backlog = tenant_backlog, sx_global_backlog = global_backlog\<rparr> True (ks_gate k1);
                   k2 = k1\<lparr>ks_gate := gate\<rparr>
               in if \<not> sd_allow safety
                  then (Inl (if sd_saturated safety
                          then Exc KernelSaturated (''kernel saturated: '' @ sd_reason_code safety)
                          else Exc SafetyDenied (''safety denied: '' @ sd_reason_code safety)),
                        deny ''safety_deny'' (kr_now rd) c p (sd_reason_code safety) (sd_decision_id safety)
                          (sd_safety_version safety) k2)
                  else
                   (case on_store (service_submit (ke_host env) (kr_now rd) (ke_policies env) c (kp_subject p)
                            (kp_client_id p) destination
                            (Some (decision_evidence decision safety destination own mode replay_of)) trace) k2 of
                      (Inl e, k3) \<Rightarrow> (Inl e, k3)
                    | (Inr operation, k3) \<Rightarrow>
                        (Inr \<lparr>sr_operation = operation, sr_policy = decision, sr_safety = safety,
                           sr_destination = destination\<rparr>, k3)))))"

subsection \<open>Reads, cancellation, retry\<close>

definition strictly_sorted :: "nat list \<Rightarrow> bool" where
  "strictly_sorted ids \<longleftrightarrow> ids = sort ids \<and> length (remdups ids) = length ids"

definition kernel_timeline :: "string \<Rightarrow> uuid \<Rightarrow> nat \<Rightarrow> (kernel_state, operation_event list) prog" where
  "kernel_timeline tenant oid limit =
     bindE (on_store (list_events tenant oid limit None)) (\<lambda>events.
       if \<not> strictly_sorted (map ev_event_id events)
       then raiseE CommandConflict ''operation timeline is not monotonic'' else retE events)"

definition kernel_cancel :: "'p kernel_env \<Rightarrow> int \<Rightarrow> string \<Rightarrow> uuid \<Rightarrow> kernel_principal \<Rightarrow> string \<Rightarrow> nat \<Rightarrow> string
    \<Rightarrow> string option \<Rightarrow> (kernel_state, command_operation) prog" where
  "kernel_cancel env now tenant oid p ikey version reason mcid =
     on_store (mutate_operation (ke_host env) now tenant oid ActCancel (kp_subject p) ikey version reason mcid)"

definition kernel_retry :: "'p kernel_env \<Rightarrow> int \<Rightarrow> string \<Rightarrow> uuid \<Rightarrow> kernel_principal \<Rightarrow> string \<Rightarrow> nat \<Rightarrow> string
    \<Rightarrow> string option \<Rightarrow> (kernel_state, command_operation) prog" where
  "kernel_retry env now tenant oid p ikey version reason mcid =
     on_store (mutate_operation (ke_host env) now tenant oid ActRetry (kp_subject p) ikey version reason mcid)"

subsection \<open>Replay\<close>

definition kernel_reexecute :: "'p kernel_env \<Rightarrow> kernel_reading \<Rightarrow> uuid \<Rightarrow> uuid \<Rightarrow> string \<Rightarrow> uuid \<Rightarrow> kernel_principal
    \<Rightarrow> string \<Rightarrow> string \<Rightarrow> string option \<Rightarrow> command_operation \<Rightarrow> (kernel_state, command_operation) prog" where
  "kernel_reexecute env rd replay_id new_cid tenant oid p ikey reason new_ikey original =
     (if co_state original \<notin> set [Failed, DeadLettered, Cancelled]
      then raiseE ReplayNotAllowed ''REEXECUTE requires a terminal failed, dead-lettered or cancelled operation''
      else if \<not> truthy new_ikey \<or> the new_ikey = co_idempotency_key original
      then raiseE ReplayNotAllowed ''REEXECUTE requires a new idempotency key''
      else
       (let go = thenE (on_store (get_dead_letter tenant oid))
              (bindE (on_store (create_replay (kr_now rd) tenant oid replay_id (kp_subject p) ikey reason None))
                (\<lambda>request. case rp_replay_command_id request of
                   Some done_id \<Rightarrow> on_store (store_get tenant done_id)
                 | None \<Rightarrow>
                     bindE (on_store (load_envelope (ke_host env) tenant oid)) (\<lambda>envelope.
                       let replayed = envelope\<lparr>ce_command_id := new_cid, ce_idempotency_key := the new_ikey,
                             ce_requested_by := kp_subject p\<rparr>
                       in bindE (kernel_submit env rd replayed p (Some REEXECUTE) (Some oid) None None) (\<lambda>result.
                            thenE (on_store (complete_replay tenant (rp_replay_id request)
                                (co_command_id (sr_operation result))))
                              (retE (sr_operation result))))))
        in case ownership_of (ke_registry env) (co_command_type original) of
             None \<Rightarrow> go
           | Some o' \<Rightarrow>
               (case registry_advertised (ke_registry env) (ow_adapter_id o') of
                  Inl e \<Rightarrow> reraiseE e
                | Inr adv \<Rightarrow>
                    if \<not> ac_safe_reexecution adv
                    then raiseE ReplayNotAllowed (''adapter '' @ ow_adapter_id o' @ '' does not support safe re-execution'')
                    else go)))"

definition kernel_replay :: "'p kernel_env \<Rightarrow> kernel_reading \<Rightarrow> uuid \<Rightarrow> uuid \<Rightarrow> string \<Rightarrow> uuid \<Rightarrow> kernel_principal
    \<Rightarrow> replay_mode \<Rightarrow> string \<Rightarrow> nat \<Rightarrow> string \<Rightarrow> string option \<Rightarrow> string option \<Rightarrow> (kernel_state, command_operation) prog" where
  "kernel_replay env rd replay_id new_cid tenant oid p mode ikey version reason new_ikey mcid =
     (if PLATFORM_OPERATOR_ROLE \<notin> set (kp_roles p)
      then raiseE ReplayNotAllowed ''replay requires the platform-operator role''
      else bindE (on_store (store_get tenant oid)) (\<lambda>original.
        if mode = REPROCESS then
          (if co_state original \<notin> set [Dispatching, Accepted, ReadbackPending, ReconciliationRequired]
           then raiseE ReplayNotAllowed ''REPROCESS is only meaningful for an operation with an unknown provider outcome''
           else on_store (mutate_operation (ke_host env) (kr_now rd) tenant oid ActReconcile (kp_subject p) ikey
                  version (''REPROCESS: '' @ reason) mcid))
        else kernel_reexecute env rd replay_id new_cid tenant oid p ikey reason new_ikey original))"

subsection \<open>Samples for the witnesses\<close>

definition sample_env :: "fixture kernel_env" where
  "sample_env = \<lparr>ke_host = sample_host, ke_policies = sample_policies, ke_registry = sample_registry\<rparr>"

definition sample_reading :: kernel_reading where
  "sample_reading = \<lparr>kr_policy_id = ''p1'', kr_safety_id = ''s1'', kr_now = 100, kr_cache_clock = 0, kr_put_clock = 0,
     kr_budget_clock = 0\<rparr>"

definition empty_kernel :: kernel_state where
  "empty_kernel = \<lparr>ks_store = empty_store, ks_gate = sample_gate, ks_backlog = [], ks_denials = []\<rparr>"

definition sample_dispatching :: command_store where
  "sample_dispatching = snd (store_transition sample_host 102 ''TEST_SYN'' 7 Dispatching ''w'' ''go'' None None None
     (snd (store_transition sample_host 101 ''TEST_SYN'' 7 Queued ''w'' ''claimed'' None None None sample_store)))"

definition sample_cancelled :: command_store where
  "sample_cancelled =
     snd (mutate_operation sample_host 101 ''TEST_SYN'' 7 ActCancel ''op'' ''k'' 1 ''stop'' None sample_store)"

subsection \<open>The stages of a submission, by name\<close>

definition submit_policy :: "kernel_reading \<Rightarrow> kernel_state \<Rightarrow> command_envelope \<Rightarrow> kernel_principal \<Rightarrow> replay_mode option
    \<Rightarrow> string option \<Rightarrow> command_policy_decision" where
  "submit_policy rd k c p mode scope = evaluate_command (kr_policy_id rd) (kr_now rd)
     (kernel_policy_request k c p (if mode = Some REEXECUTE then SCOPE_COMMAND_REPLAY
        else if truthy scope then the scope else SCOPE_COMMAND) (mode = Some REEXECUTE))"

definition submit_safety :: "kernel_reading \<Rightarrow> kernel_state \<Rightarrow> command_envelope \<Rightarrow> safety_decision \<times> safety_gate" where
  "submit_safety rd k c =
     (let (tb, gb) = fst (backlog_for rd (ce_tenant_id c) k)
      in safety_evaluate (kr_safety_id rd) (kr_budget_clock rd) (safety_subject_of c)
        \<lparr>sx_adapter_registered = True, sx_adapter_ready = None, sx_tenant_backlog = tb, sx_global_backlog = gb\<rparr>
        True (ks_gate k))"

definition submit_destination :: "'p kernel_env \<Rightarrow> command_envelope \<Rightarrow> string" where
  "submit_destination env c =
     (if ownership_of (ke_registry env) (ce_command_type c) \<noteq> None then ADAPTER_COMMAND_DESTINATION
      else TEMPORAL_COMMAND_DESTINATION)"

subsection \<open>The pipeline\<close>

lemma on_store_simps:
  "fst (on_store m k) = fst (m (ks_store k))"
  "ks_store (snd (on_store m k)) = snd (m (ks_store k))"
  "ks_denials (snd (on_store m k)) = ks_denials k"
  "ks_gate (snd (on_store m k)) = ks_gate k"
  by (auto simp: on_store_def zoomE_def split: prod.split)

lemma backlog_for_kept [simp]:
  "ks_store (snd (backlog_for rd t k)) = ks_store k" "ks_gate (snd (backlog_for rd t k)) = ks_gate k"
  "ks_denials (snd (backlog_for rd t k)) = ks_denials k"
  by (auto simp: backlog_for_def split: option.split sum.split)

lemma deny_simps [simp]:
  "ks_store (deny kind now c p r d v k) = ks_store k" "ks_gate (deny kind now c p r d v k) = ks_gate k"
  by (simp_all add: deny_def)

lemma service_submit_Inl:
  assumes "service_submit h now pol c s cl dest evd tr st = (Inl e, st')"
  shows "st' = st"
  using assms by (auto simp: service_submit_def store_submit_def Let_def split: sum.splits if_splits option.splits)

lemma kernel_submit_stages:
  "kernel_submit env rd c p mode replay_of trace scope k =
     (if \<not> (\<exists>policy. resolve (ke_policies env) (ce_command_type c) = Some policy
           \<and> cp_target policy = ce_target c \<and> cp_capability policy = ce_capability c)
      then (Inl (Exc CommandCapabilityDisabled
          ''command type, target and capability do not name one registered policy''), k)
      else if \<not> cd_allow (submit_policy rd k c p mode scope)
      then (Inl (Exc PolicyDenied (''policy denied: '' @ cd_reason_code (submit_policy rd k c p mode scope))),
            deny ''policy_deny'' (kr_now rd) c p (cd_reason_code (submit_policy rd k c p mode scope))
              (kr_policy_id rd) COMMAND_POLICY_VERSION k)
      else let k2 = (snd (backlog_for rd (ce_tenant_id c) k))\<lparr>ks_gate := snd (submit_safety rd k c)\<rparr>;
               safety = fst (submit_safety rd k c)
           in if \<not> sd_allow safety
              then (Inl (if sd_saturated safety then Exc KernelSaturated (''kernel saturated: '' @ sd_reason_code safety)
                      else Exc SafetyDenied (''safety denied: '' @ sd_reason_code safety)),
                    deny ''safety_deny'' (kr_now rd) c p (sd_reason_code safety) (kr_safety_id rd)
                      (sd_safety_version safety) k2)
              else (case on_store (service_submit (ke_host env) (kr_now rd) (ke_policies env) c (kp_subject p)
                       (kp_client_id p) (submit_destination env c)
                       (Some (decision_evidence (submit_policy rd k c p mode scope) safety (submit_destination env c)
                          (ownership_of (ke_registry env) (ce_command_type c)) mode replay_of)) trace) k2 of
                      (Inl e, k3) \<Rightarrow> (Inl e, k3)
                    | (Inr operation, k3) \<Rightarrow> (Inr \<lparr>sr_operation = operation,
                        sr_policy = submit_policy rd k c p mode scope, sr_safety = safety,
                        sr_destination = submit_destination env c\<rparr>, k3)))"
proof -
  obtain tb gb k1 where b: "backlog_for rd (ce_tenant_id c) k = ((tb, gb), k1)"
    by (cases "backlog_for rd (ce_tenant_id c) k"; cases "fst (backlog_for rd (ce_tenant_id c) k)") auto
  have g: "ks_gate k1 = ks_gate k" using backlog_for_kept(2) [of rd "ce_tenant_id c" k] by (simp add: b)
  obtain sd gate where s: "submit_safety rd k c = (sd, gate)" by (cases "submit_safety rd k c")
  have s': "safety_evaluate (kr_safety_id rd) (kr_budget_clock rd) (safety_subject_of c)
        \<lparr>sx_adapter_registered = True, sx_adapter_ready = None, sx_tenant_backlog = tb, sx_global_backlog = gb\<rparr>
        True (ks_gate k) = (sd, gate)"
    using s by (simp add: submit_safety_def b)
  have id: "sd_decision_id sd = kr_safety_id rd"
    using s' by (auto simp: safety_evaluate_def Let_def split: prod.splits)
  define d where "d = submit_policy rd k c p mode scope"
  have dd: "evaluate_command (kr_policy_id rd) (kr_now rd)
     (kernel_policy_request k c p (if mode = Some REEXECUTE then SCOPE_COMMAND_REPLAY
        else if truthy scope then the scope else SCOPE_COMMAND) (mode = Some REEXECUTE)) = d"
    by (simp only: d_def submit_policy_def)
  have did: "cd_decision_id d = kr_policy_id rd" "cd_policy_version d = COMMAND_POLICY_VERSION"
    by (simp_all add: dd [symmetric] evaluate_command_def Let_def)
  have reg: "(own \<noteq> None \<or> (if own \<noteq> None then ADAPTER_COMMAND_DESTINATION else TEMPORAL_COMMAND_DESTINATION)
      = TEMPORAL_COMMAND_DESTINATION) = True" for own :: "ownership option"
    by simp
  show ?thesis
  proof (cases "resolve (ke_policies env) (ce_command_type c)")
    case None
    then show ?thesis by (simp add: kernel_submit_def)
  next
    case (Some policy)
    show ?thesis
      unfolding kernel_submit_def Let_def dd d_def [symmetric] Some option.case b prod.case reg g s' s did id
        submit_destination_def [symmetric] fst_conv snd_conv
      by (simp only: option.inject ex_simps simp_thms if_not_P split: if_split) auto
  qed
qed

lemma kernel_submit_Inr:
  assumes "kernel_submit env rd c p mode replay_of trace scope k = (Inr r, k')"
  shows "(\<exists>policy. resolve (ke_policies env) (ce_command_type c) = Some policy
           \<and> cp_target policy = ce_target c \<and> cp_capability policy = ce_capability c)
    \<and> cd_allow (submit_policy rd k c p mode scope) \<and> sd_allow (fst (submit_safety rd k c))
    \<and> (\<exists>evd. service_submit (ke_host env) (kr_now rd) (ke_policies env) c (kp_subject p) (kp_client_id p)
          (submit_destination env c) (Some evd) trace (ks_store k) = (Inr (sr_operation r), ks_store k'))
    \<and> sr_destination r = submit_destination env c \<and> ks_denials k' = ks_denials k"
proof -
  let ?s = "submit_safety rd k c" and ?d = "submit_policy rd k c p mode scope"
  let ?k2 = "(snd (backlog_for rd (ce_tenant_id c) k))\<lparr>ks_gate := snd ?s\<rparr>"
  let ?sub = "service_submit (ke_host env) (kr_now rd) (ke_policies env) c (kp_subject p) (kp_client_id p)
     (submit_destination env c) (Some (decision_evidence ?d (fst ?s) (submit_destination env c)
        (ownership_of (ke_registry env) (ce_command_type c)) mode replay_of)) trace"
  have ok: "\<exists>policy. resolve (ke_policies env) (ce_command_type c) = Some policy
           \<and> cp_target policy = ce_target c \<and> cp_capability policy = ce_capability c"
    "cd_allow ?d" "sd_allow (fst ?s)"
    using assms unfolding kernel_submit_stages Let_def by (auto split: if_splits)
  have "(case on_store ?sub ?k2 of (Inl e, k3) \<Rightarrow> (Inl e, k3)
      | (Inr operation, k3) \<Rightarrow> (Inr \<lparr>sr_operation = operation, sr_policy = ?d, sr_safety = fst ?s,
            sr_destination = submit_destination env c\<rparr>, k3)) = (Inr r, k')"
    using assms unfolding kernel_submit_stages Let_def by (simp add: ok)
  then obtain operation where on: "on_store ?sub ?k2 = (Inr operation, k')"
    and r: "sr_operation r = operation" "sr_destination r = submit_destination env c"
    by (auto split: prod.splits sum.splits)
  have "?sub (ks_store k) = (Inr operation, ks_store k')" "ks_denials k' = ks_denials k"
    using on_store_simps [of ?sub ?k2] by (simp_all add: on prod_eq_iff)
  then show ?thesis using ok r by blast
qed

lemma store_submit_entry:
  assumes "ledger_inv h st" "store_submit h now c client dest evd tr st = (Inr op, st')"
  shows "\<exists>d op0. entry_at st' (ce_tenant_id c, co_command_id op) = Some (d, op0)"
proof (cases "entry_at st (ce_tenant_id c, ce_command_id c)")
  case (Some e)
  have "co_command_id (snd e) = ce_command_id c"
    using ledger_inv_entry [OF assms(1), of _ "fst e" "snd e"] Some unfolding entry_inv_def by fastforce
  then show ?thesis
    using assms(2) Some by (cases e) (auto simp: store_submit_def Let_def split: if_splits)
next
  case None
  show ?thesis
  proof (cases "map_of (cs_idempotency st) (ce_tenant_id c, ce_idempotency_key c)")
    case (Some e)
    have "\<exists>d op0. entry_at st (ce_tenant_id c, co_command_id (snd e)) = Some (d, op0)"
      using ledger_inv_idem [OF assms(1), of "ce_tenant_id c" "ce_idempotency_key c" "fst e" "snd e"] Some by auto
    then show ?thesis
      using assms(2) None Some by (auto simp: store_submit_def Let_def split: if_splits)
  next
    case no: None
    then show ?thesis
      using assms(2) None
      by (auto simp: store_submit_def Let_def entry_at_def new_operation_def split: if_splits)
  qed
qed

text \<open>
  C5. Nothing reaches the ledger without every authority agreeing: when the kernel accepts a
  submission, exactly one policy owns the command type, its target and capability are the
  command's, the capability is enabled and requires read-back, the requester is the
  authenticated subject, the tenant is one of the principal's, a command that is not a read
  lies in the caller's registered namespace and targets, no kill switch is on, the safety
  gate allows it, and the returned operation is in the ledger under the command's key.
\<close>

theorem kernel_accepts_only_authorized:
  assumes "ledger_reach (ke_host env) (ks_store k)"
    and "kernel_submit env rd c p mode replay_of trace scope k = (Inr r, k')"
  shows "\<exists>policy d op. resolve (ke_policies env) (ce_command_type c) = Some policy
    \<and> cp_target policy = ce_target c \<and> cp_capability policy = ce_capability c \<and> cp_readback_required policy
    \<and> map_of (pr_capabilities (ke_policies env)) (ce_capability c) = Some True
    \<and> ce_requested_by c = kp_subject p
    \<and> ce_tenant_id c \<in> set (kp_tenants p) \<and> ''*'' \<notin> set (kp_tenants p)
    \<and> (classification (ks_gate k) (ce_capability c) \<noteq> ReadEffect \<longrightarrow>
         cl_connector_commands_allowed (kp_caller p) \<and> ce_target c \<in> set (cl_allowed_targets (kp_caller p))
         \<and> (\<exists>prefix \<in> set (cl_allowed_command_prefixes (kp_caller p)). startswith (ce_command_type c) prefix))
    \<and> (mode = Some REEXECUTE \<longrightarrow> PLATFORM_OPERATOR_ROLE \<in> set (kp_roles p))
    \<and> \<not> global_kill (ks_gate k) \<and> \<not> provider_kill (ks_gate k) (ce_target c)
    \<and> gate_of (ks_gate k) (ce_capability c) \<noteq> None
    \<and> sr_destination r \<in> {ADAPTER_COMMAND_DESTINATION, TEMPORAL_COMMAND_DESTINATION}
    \<and> entry_at (ks_store k') (ce_tenant_id c, co_command_id (sr_operation r)) = Some (d, op)"
proof -
  note stages = kernel_submit_Inr [OF assms(2)]
  obtain evd where sub: "service_submit (ke_host env) (kr_now rd) (ke_policies env) c (kp_subject p)
      (kp_client_id p) (submit_destination env c) (Some evd) trace (ks_store k) = (Inr (sr_operation r), ks_store k')"
    using stages by blast
  obtain policy where val: "validate_submission (ke_policies env) c (kp_subject p) (kp_client_id p) = Inr policy"
    and st: "store_submit (ke_host env) (kr_now rd) c (kp_client_id p) (submit_destination env c) (Some evd) trace
        (ks_store k) = (Inr (sr_operation r), ks_store k')"
    using sub by (auto simp: service_submit_def split: sum.splits)
  note auth = val [unfolded validate_submission_Inr_iff authorize_Inr_iff]
  obtain d op where entry: "entry_at (ks_store k') (ce_tenant_id c, co_command_id (sr_operation r)) = Some (d, op)"
    using store_submit_entry [OF reach_ledger_inv [OF assms(1)] st] by blast
  have pol: "command_reasons (kernel_policy_request k c p (if mode = Some REEXECUTE then SCOPE_COMMAND_REPLAY
        else if truthy scope then the scope else SCOPE_COMMAND) (mode = Some REEXECUTE)) = []"
    using stages by (simp add: submit_policy_def evaluate_command_def Let_def)
  have policy_part: "ce_tenant_id c \<in> set (kp_tenants p)" "''*'' \<notin> set (kp_tenants p)"
    "classification (ks_gate k) (ce_capability c) \<noteq> ReadEffect \<Longrightarrow>
         cl_connector_commands_allowed (kp_caller p) \<and> ce_target c \<in> set (cl_allowed_targets (kp_caller p))
         \<and> (\<exists>prefix \<in> set (cl_allowed_command_prefixes (kp_caller p)). startswith (ce_command_type c) prefix)"
    "mode = Some REEXECUTE \<Longrightarrow> PLATFORM_OPERATOR_ROLE \<in> set (kp_roles p)"
    using pol by (auto simp: command_reasons_def kernel_policy_request_def list_ex_iff split: if_splits)
  obtain x where x: "safety_reasons (ks_gate k) (safety_subject_of c) x = []"
    using stages by (auto simp: submit_safety_def safety_allow_iff split: prod.splits)
  have gate_part: "\<not> global_kill (ks_gate k)" "\<not> provider_kill (ks_gate k) (ce_target c)"
    "gate_of (ks_gate k) (ce_capability c) \<noteq> None"
    using x by (auto simp: safety_reasons_def safety_subject_of_def capability_reasons_def split: option.splits)
  have "sr_destination r \<in> {ADAPTER_COMMAND_DESTINATION, TEMPORAL_COMMAND_DESTINATION}"
    using stages by (simp add: submit_destination_def)
  then show ?thesis using auth policy_part gate_part entry stages by auto
qed

lemma kernel_submit_fresh:
  assumes "resolve (ke_policies env) (ce_command_type c) = Some policy"
    and "cp_target policy = ce_target c" "cp_capability policy = ce_capability c"
    and "cd_allow (submit_policy rd k c p mode scope)" "sd_allow (fst (submit_safety rd k c))"
    and "validate_submission (ke_policies env) c (kp_subject p) (kp_client_id p) = Inr pol"
    and "entry_at (ks_store k) (ce_tenant_id c, ce_command_id c) = None"
    and "map_of (cs_idempotency (ks_store k)) (ce_tenant_id c, ce_idempotency_key c) = None"
  shows "\<exists>r k'. kernel_submit env rd c p mode replay_of trace scope k = (Inr r, k')"
proof -
  have dest: "submit_destination env c \<in> set COMMAND_DESTINATIONS"
    by (simp add: submit_destination_def COMMAND_DESTINATIONS_def)
  have raw: "\<exists>op st'. service_submit (ke_host env) (kr_now rd) (ke_policies env) c (kp_subject p) (kp_client_id p)
      (submit_destination env c) evd trace (ks_store k) = (Inr op, st')" for evd
    using assms(6-8) dest by (simp add: service_submit_def store_submit_def Let_def)
  have ok: "\<exists>op k3. on_store (service_submit (ke_host env) (kr_now rd) (ke_policies env) c (kp_subject p) (kp_client_id p)
      (submit_destination env c) evd trace) k2 = (Inr op, k3)" if "ks_store k2 = ks_store k" for evd k2
  proof -
    obtain op st' where "service_submit (ke_host env) (kr_now rd) (ke_policies env) c (kp_subject p) (kp_client_id p)
      (submit_destination env c) evd trace (ks_store k) = (Inr op, st')"
      using raw by blast
    then show ?thesis using that by (simp add: on_store_def zoomE_def)
  qed
  let ?k2 = "(snd (backlog_for rd (ce_tenant_id c) k))\<lparr>ks_gate := snd (submit_safety rd k c)\<rparr>"
  have "ks_store ?k2 = ks_store k" by simp
  from ok [OF this] show ?thesis
    unfolding kernel_submit_stages Let_def using assms(1-5) by (auto split: prod.split sum.split) (metis Inr_not_Inl prod.inject)
qed

lemma sample_submit_ok:
  "\<exists>r k'. kernel_submit sample_env sample_reading sample_envelope sample_principal None None None None empty_kernel = (Inr r, k')"
proof -
  have res: "resolve sample_policies ''test.syn.ping'' = Some \<lparr>cp_prefix = ''test.syn.'', cp_target = ''test-syn'',
      cp_capability = ''TEST_SYN_EXECUTE'', cp_readback_required = True\<rparr>"
    by (simp add: sample_policies_def make_registry_def resolve_def matching_policies_def startswith_def)
  have pol: "cd_allow (submit_policy sample_reading empty_kernel sample_envelope sample_principal None None)"
    by (simp add: submit_policy_def evaluate_command_def Let_def command_reasons_def kernel_policy_request_def
        sample_principal_def sample_caller_def with_synthetic_authority_def SYNTHETIC_ENVIRONMENTS_def
        SYNTHETIC_CALLERS_def SYNTHETIC_PREFIX_def SYNTHETIC_TARGET_def SCOPE_COMMAND_def sample_envelope_def
        empty_kernel_def sample_gate_def new_gate_def classification_def gate_of_def sample_switches_def
        campaign_scoped_def truthy_def startswith_def fromkeys_def reason_if_def)
  have saf: "sd_allow (fst (submit_safety sample_reading empty_kernel sample_envelope))"
    by (simp add: submit_safety_def backlog_for_def backlog_get_def store_backlog_def empty_kernel_def empty_store_def
        safety_allow_iff safety_reasons_def capability_reasons_def saturation_reasons_def off_reasons_def
        reason_if_def safety_subject_of_def sample_envelope_def sample_gate_def new_gate_def gate_of_def
        sample_switches_def classification_def sample_policies_def make_registry_def global_kill_def provider_kill_def
        tb_admit_def tb_refill_def new_bucket_def Let_def sample_reading_def)
  have val: "validate_submission sample_policies sample_envelope ''svc'' ''middleware-api'' = Inr
      \<lparr>cp_prefix = ''test.syn.'', cp_target = ''test-syn'', cp_capability = ''TEST_SYN_EXECUTE'', cp_readback_required = True\<rparr>"
    unfolding validate_submission_Inr_iff authorize_Inr_iff
    by (simp add: res sample_envelope_def kebab_def segmented_def lower_alnum_def Let_def)
      (simp add: sample_policies_def make_registry_def)
  show ?thesis
    by (rule kernel_submit_fresh [where policy = "\<lparr>cp_prefix = ''test.syn.'', cp_target = ''test-syn'',
        cp_capability = ''TEST_SYN_EXECUTE'', cp_readback_required = True\<rparr>", OF _ _ _ pol saf])
      (use res val in \<open>simp_all add: sample_env_def sample_envelope_def sample_principal_def empty_kernel_def
        empty_store_def entry_at_def\<close>)
qed

lemma empty_kernel_reach: "ledger_reach (ke_host sample_env) (ks_store empty_kernel)"
  by (rule reach_init) (simp add: ledger_init_def empty_kernel_def)

theorem kernel_accepts_only_authorized_witness:
  "\<exists>r k' d op. kernel_submit sample_env sample_reading sample_envelope sample_principal None None None None empty_kernel
       = (Inr r, k')
     \<and> entry_at (ks_store k') (''TEST_SYN'', co_command_id (sr_operation r)) = Some (d, op)"
proof -
  obtain r k' where s: "kernel_submit sample_env sample_reading sample_envelope sample_principal None None None None
      empty_kernel = (Inr r, k')"
    using sample_submit_ok by blast
  from kernel_accepts_only_authorized [OF empty_kernel_reach s] s show ?thesis
    by (auto simp: sample_envelope_def)
qed

lemma service_submit_error:
  "service_submit h now pol c s cl dest evd tr st = (Inl e, st') \<Longrightarrow>
   exc_class e \<in> {CommandCapabilityDisabled, CommandConflict}"
  using validate_submission_Inl
  by (auto simp: service_submit_def store_submit_def Let_def split: sum.splits if_splits option.splits)

text \<open>
  A rejected submission leaves no command behind: whatever the kernel raises, the ledger is
  unchanged; a policy or safety denial, and a saturation, appends exactly one audit record,
  which names the command, the actor and the client; any other rejection appends none.
\<close>

theorem kernel_rejects_cleanly:
  assumes "kernel_submit env rd c p mode replay_of trace scope k = (Inl e, k')"
  shows "ks_store k' = ks_store k
    \<and> (exc_class e \<in> {PolicyDenied, SafetyDenied, KernelSaturated} \<longrightarrow>
         (\<exists>a. ks_denials k' = ks_denials k @ [a] \<and> da_tenant_id a = ce_tenant_id c \<and> da_command_id a = ce_command_id c
            \<and> da_actor_id a = kp_subject p \<and> da_client_id a = kp_client_id p
            \<and> da_kind a = (if exc_class e = PolicyDenied then ''policy_deny'' else ''safety_deny'')))
    \<and> (exc_class e \<notin> {PolicyDenied, SafetyDenied, KernelSaturated} \<longrightarrow> ks_denials k' = ks_denials k)"
proof -
  let ?s = "submit_safety rd k c" and ?d = "submit_policy rd k c p mode scope"
  let ?k2 = "(snd (backlog_for rd (ce_tenant_id c) k))\<lparr>ks_gate := snd ?s\<rparr>"
  let ?sub = "service_submit (ke_host env) (kr_now rd) (ke_policies env) c (kp_subject p) (kp_client_id p)
     (submit_destination env c) (Some (decision_evidence ?d (fst ?s) (submit_destination env c)
        (ownership_of (ke_registry env) (ce_command_type c)) mode replay_of)) trace"
  consider (reg) "k' = k" "exc_class e = CommandCapabilityDisabled"
    | (pol) r d v where "exc_class e = PolicyDenied" "k' = deny ''policy_deny'' (kr_now rd) c p r d v k"
    | (saf) r d v where "exc_class e \<in> {SafetyDenied, KernelSaturated}"
        "k' = deny ''safety_deny'' (kr_now rd) c p r d v ?k2"
    | (sub) "on_store ?sub ?k2 = (Inl e, k')"
    using assms unfolding kernel_submit_stages Let_def
    by (fastforce split: if_splits prod.splits sum.splits)
  then show ?thesis
  proof cases
    case sub
    then have "?sub (ks_store k) = (Inl e, ks_store k')" "ks_denials k' = ks_denials k"
      using on_store_simps [of ?sub ?k2] by (simp_all add: prod_eq_iff)
    then show ?thesis using service_submit_Inl service_submit_error by fastforce
  qed (auto simp: deny_def)
qed

theorem kernel_rejects_cleanly_witness:
  "\<exists>e k'. kernel_submit sample_env sample_reading sample_envelope (sample_principal\<lparr>kp_scopes := []\<rparr>) None None None None
       empty_kernel = (Inl e, k') \<and> ks_store k' = empty_store"
proof -
  let ?p = "sample_principal\<lparr>kp_scopes := []\<rparr>"
  have no: "\<not> cd_allow (submit_policy sample_reading empty_kernel sample_envelope ?p None None)"
    by (simp add: submit_policy_def evaluate_command_def command_reasons_def kernel_policy_request_def Let_def)
  have "\<exists>e k'. kernel_submit sample_env sample_reading sample_envelope ?p None None None None
      empty_kernel = (Inl e, k')"
    unfolding kernel_submit_stages by (simp add: no)
  then obtain e k' where s: "kernel_submit sample_env sample_reading sample_envelope ?p None None None None
      empty_kernel = (Inl e, k')" by blast
  from kernel_rejects_cleanly [OF s] s show ?thesis by (auto simp: empty_kernel_def)
qed

text \<open>
  The timeline read never reports a broken timeline: for a command of a reachable ledger
  \<open>timeline\<close> returns, its events are the first ones of the ledger's timeline with redacted
  metadata, and the defensive monotonicity check never fires.
\<close>

theorem kernel_timeline_total:
  assumes "ledger_reach h (ks_store k)" and "entry_at (ks_store k) (t, oid) = Some (d, op)"
  shows "kernel_timeline t oid limit k =
    (Inr (map (\<lambda>e. e\<lparr>ev_safe_metadata := redact_mapping (ev_safe_metadata e)\<rparr>)
       (take limit (events_at (ks_store k) (t, oid)))), k)"
proof -
  let ?evs = "events_at (ks_store k) (t, oid)"
  have "timeline_ok ?evs (co_state op)"
    using ledger_inv_entry [OF reach_ledger_inv [OF assms(1)] assms(2)] unfolding entry_inv_def by blast
  then have "map ev_event_id ?evs = [1..<Suc (length ?evs)]" unfolding timeline_ok_def by blast
  then have ids: "map ev_event_id (take limit ?evs) = take limit [1..<Suc (length ?evs)]"
    by (metis take_map)
  have "sorted (take limit [1..<Suc (length ?evs)])" "distinct (take limit [1..<Suc (length ?evs)])"
    by (simp_all add: sorted_wrt_take del: upt_Suc)
  then have ok: "strictly_sorted (take limit [1..<Suc (length ?evs)])"
    by (simp add: strictly_sorted_def sorted_sort_id distinct_remdups_id del: upt_Suc)
  have comp: "map (ev_event_id \<circ> (\<lambda>e. e\<lparr>ev_safe_metadata := redact_mapping (ev_safe_metadata e)\<rparr>)) xs = map ev_event_id xs" for xs
    by simp
  show ?thesis
    using assms(2) ok
    by (simp add: kernel_timeline_def on_store_def list_events_def store_get_def prog_defs Let_def comp ids del: upt_Suc)
qed

theorem kernel_timeline_total_witness:
  "\<exists>evs. kernel_timeline ''TEST_SYN'' 7 200 (empty_kernel\<lparr>ks_store := sample_store\<rparr>) = (Inr evs, empty_kernel\<lparr>ks_store := sample_store\<rparr>)"
proof -
  have "ledger_reach sample_host (ks_store (empty_kernel\<lparr>ks_store := sample_store\<rparr>))"
    by (simp add: sample_store_reach)
  from kernel_timeline_total [OF this, of "''TEST_SYN''" 7] show ?thesis by (simp add: sample_store_entry)
qed

subsection \<open>Replay\<close>

lemma reconcile_mutation_quiet:
  assumes "mutate_operation h now t c ActReconcile a ik v r mc st = (res, st')"
  shows "map intent_identity (cs_outbox st') = map intent_identity (cs_outbox st)
    \<and> map fst (cs_commands st') = map fst (cs_commands st)"
proof (cases "\<exists>d op op' st1. entry_at st (t, c) = Some (d, op) \<and> map_of (cs_mutations st) (t, c, ActReconcile, a, ik) = None
    \<and> co_resource_version op = v \<and> apply_action h now ActReconcile t c a ik r op st = Inr (op', st1)")
  case False
  then have "st' = st"
    using assms by (auto simp: mutate_operation_def Let_def split: option.splits sum.splits prod.splits if_splits)
  then show ?thesis by simp
next
  case True
  then obtain d op op' st1 where e: "entry_at st (t, c) = Some (d, op)"
    "map_of (cs_mutations st) (t, c, ActReconcile, a, ik) = None" "co_resource_version op = v"
    and app: "apply_action h now ActReconcile t c a ik r op st = Inr (op', st1)" by blast
  have st1: "st1 = update_intents t c quarantine_intent st"
    using app by (auto simp: apply_action_def split: if_splits)
  have "(t, c) \<in> set (map fst (cs_commands st))"
    using e(1) map_of_SomeD by (force simp: entry_at_def)
  then have keys: "map fst (AList.update (t, c) x (cs_commands st)) = map fst (cs_commands st)" for x
    by (simp add: update_keys)
  show ?thesis
    using assms e app
    by (auto simp: mutate_operation_def Let_def st1 keys intent_identity_update_intents)
qed

lemma bindE_Inr: "bindE m f s = (Inr b, s') \<Longrightarrow> \<exists>a s1. m s = (Inr a, s1) \<and> f a s1 = (Inr b, s')"
  by (auto simp: bindE_def split: prod.splits sum.splits)

lemma on_store_get: "on_store (store_get t oid) k = (Inr op, k1) \<Longrightarrow>
   k1 = k \<and> (\<exists>d. entry_at (ks_store k) (t, oid) = Some (d, op))"
  by (auto simp: on_store_def zoomE_def store_get_def split: option.splits)

text \<open>
  Replay is guarded: only a platform operator replays; REPROCESS succeeds only on an
  operation whose provider outcome is open, adds no command and no outbox intent, so that it
  can cause no new provider effect; REEXECUTE succeeds only on a failed, dead-lettered or
  cancelled operation that has a dead-letter record, with a new idempotency key, and only when
  the owning adapter, if any, declares re-execution safe.
\<close>

theorem replay_is_guarded:
  assumes "kernel_replay env rd replay_id new_cid t oid p mode ikey version reason new_ikey mcid k = (Inr op, k')"
  shows "PLATFORM_OPERATOR_ROLE \<in> set (kp_roles p)
    \<and> (\<exists>d original. entry_at (ks_store k) (t, oid) = Some (d, original)
       \<and> (mode = REPROCESS \<longrightarrow>
            co_state original \<in> {Dispatching, Accepted, ReadbackPending, ReconciliationRequired}
            \<and> map intent_identity (cs_outbox (ks_store k')) = map intent_identity (cs_outbox (ks_store k))
            \<and> map fst (cs_commands (ks_store k')) = map fst (cs_commands (ks_store k)))
       \<and> (mode = REEXECUTE \<longrightarrow>
            co_state original \<in> {Failed, DeadLettered, Cancelled}
            \<and> map_of (cs_dead_letters (ks_store k)) (t, oid) \<noteq> None
            \<and> (\<exists>key. new_ikey = Some key \<and> key \<noteq> [] \<and> key \<noteq> co_idempotency_key original)
            \<and> (\<forall>o' adv. ownership_of (ke_registry env) (co_command_type original) = Some o'
                 \<and> registry_advertised (ke_registry env) (ow_adapter_id o') = Inr adv \<longrightarrow> ac_safe_reexecution adv)))"
proof -
  have role: "PLATFORM_OPERATOR_ROLE \<in> set (kp_roles p)"
    using assms by (auto simp: kernel_replay_def raiseE_def split: if_splits)
  obtain original k1 where get: "on_store (store_get t oid) k = (Inr original, k1)"
    and rest: "(if mode = REPROCESS then
          (if co_state original \<notin> set [Dispatching, Accepted, ReadbackPending, ReconciliationRequired]
           then raiseE ReplayNotAllowed ''REPROCESS is only meaningful for an operation with an unknown provider outcome''
           else on_store (mutate_operation (ke_host env) (kr_now rd) t oid ActReconcile (kp_subject p) ikey
                  version (''REPROCESS: '' @ reason) mcid))
        else kernel_reexecute env rd replay_id new_cid t oid p ikey reason new_ikey original) k1 = (Inr op, k')"
    using assms role unfolding kernel_replay_def by (auto dest: bindE_Inr)
  obtain d where k1: "k1 = k" and entry: "entry_at (ks_store k) (t, oid) = Some (d, original)"
    using on_store_get [OF get] by blast
  show ?thesis
  proof (cases mode)
    case REPROCESS
    then have st: "co_state original \<in> {Dispatching, Accepted, ReadbackPending, ReconciliationRequired}"
      and mut: "on_store (mutate_operation (ke_host env) (kr_now rd) t oid ActReconcile (kp_subject p) ikey
                  version (''REPROCESS: '' @ reason) mcid) k = (Inr op, k')"
      using rest k1 by (auto simp: raiseE_def split: if_splits)
    from mut have "mutate_operation (ke_host env) (kr_now rd) t oid ActReconcile (kp_subject p) ikey
                  version (''REPROCESS: '' @ reason) mcid (ks_store k) = (Inr op, ks_store k')"
      by (auto simp: on_store_def zoomE_def split: prod.splits)
    from reconcile_mutation_quiet [OF this] show ?thesis using role entry st REPROCESS by blast
  next
    case REEXECUTE
    then have r: "kernel_reexecute env rd replay_id new_cid t oid p ikey reason new_ikey original k = (Inr op, k')"
      using rest k1 by simp
    have guards: "co_state original \<in> {Failed, DeadLettered, Cancelled}"
      "\<exists>key. new_ikey = Some key \<and> key \<noteq> [] \<and> key \<noteq> co_idempotency_key original"
      "\<forall>o' adv. ownership_of (ke_registry env) (co_command_type original) = Some o'
         \<and> registry_advertised (ke_registry env) (ow_adapter_id o') = Inr adv \<longrightarrow> ac_safe_reexecution adv"
      using r by (auto simp: kernel_reexecute_def raiseE_def truthy_def Let_def split: if_splits option.splits sum.splits)
    have "map_of (cs_dead_letters (ks_store k)) (t, oid) \<noteq> None"
    proof
      assume "map_of (cs_dead_letters (ks_store k)) (t, oid) = None"
      then have dl: "on_store (get_dead_letter t oid) k = (Inl (Exc CommandNotFound ''dead-letter record was not found''), k)"
        by (simp add: on_store_def zoomE_def get_dead_letter_def)
      show False
        using r by (auto simp: kernel_reexecute_def raiseE_def reraiseE_def thenE_def bindE_def dl Let_def
            split: if_splits option.splits sum.splits)
    qed
    then show ?thesis using role entry guards REEXECUTE by blast
  qed
qed

lemma sample_dispatching_entry:
  "\<exists>d op. entry_at sample_dispatching (''TEST_SYN'', 7) = Some (d, op) \<and> co_state op = Dispatching
     \<and> co_resource_version op = 1 \<and> cs_mutations sample_dispatching = []"
  using sample_store_entry
  by (simp add: sample_dispatching_def store_transition_def entry_at_def Let_def append_event_def new_operation_def)
    (simp add: sample_store_def store_submit_def COMMAND_DESTINATIONS_def empty_store_def entry_at_def Let_def)

theorem replay_is_guarded_witness:
  "\<exists>op k'. kernel_replay sample_env sample_reading 1 2 ''TEST_SYN'' 7 sample_principal REPROCESS ''ikey-0001'' 1 ''check'' None None
       (empty_kernel\<lparr>ks_store := sample_dispatching\<rparr>) = (Inr op, k')
     \<and> map intent_identity (cs_outbox (ks_store k')) = map intent_identity (cs_outbox sample_dispatching)"
proof -
  let ?k = "empty_kernel\<lparr>ks_store := sample_dispatching\<rparr>"
  obtain d op where e: "entry_at sample_dispatching (''TEST_SYN'', 7) = Some (d, op)" "co_state op = Dispatching"
    "co_resource_version op = 1" "cs_mutations sample_dispatching = []"
    using sample_dispatching_entry by blast
  have "\<exists>op' k'. kernel_replay sample_env sample_reading 1 2 ''TEST_SYN'' 7 sample_principal REPROCESS ''ikey-0001'' 1 ''check''
      None None ?k = (Inr op', k')"
    using e by (simp add: kernel_replay_def PLATFORM_OPERATOR_ROLE_def sample_principal_def on_store_def prog_defs
        store_get_def mutate_operation_def apply_action_def Let_def)
  then obtain op' k' where r: "kernel_replay sample_env sample_reading 1 2 ''TEST_SYN'' 7 sample_principal REPROCESS
      ''ikey-0001'' 1 ''check'' None None ?k = (Inr op', k')" by blast
  from replay_is_guarded [OF r] r show ?thesis by auto
qed

text \<open>
  A cancelled command without a dead-letter record cannot be re-executed, although the
  guard on its state admits it: the replay passes every check and then raises
  \<open>CommandNotFound\<close> for the missing record. Cancellation records none, so this is what every
  command cancelled before its first dispatch gets.
\<close>

theorem reexecute_needs_dead_letter:
  assumes "PLATFORM_OPERATOR_ROLE \<in> set (kp_roles p)" and "entry_at (ks_store k) (t, oid) = Some (d, original)"
    and "co_state original = Cancelled" and "map_of (cs_dead_letters (ks_store k)) (t, oid) = None"
    and "key \<noteq> []" and "key \<noteq> co_idempotency_key original"
    and "\<forall>o'. ownership_of (ke_registry env) (co_command_type original) = Some o' \<longrightarrow>
           (\<exists>adv. registry_advertised (ke_registry env) (ow_adapter_id o') = Inr adv \<and> ac_safe_reexecution adv)"
  shows "kernel_replay env rd replay_id new_cid t oid p REEXECUTE ikey version reason (Some key) mcid k
    = (Inl (Exc CommandNotFound ''dead-letter record was not found''), k)"
proof -
  have dl: "on_store (get_dead_letter t oid) k = (Inl (Exc CommandNotFound ''dead-letter record was not found''), k)"
    using assms(4) by (simp add: on_store_def zoomE_def get_dead_letter_def)
  have get: "on_store (store_get t oid) k = (Inr original, k)"
    using assms(2) by (simp add: on_store_def zoomE_def store_get_def)
  show ?thesis
    using assms(1,3,5-7) get dl
    by (auto simp: kernel_replay_def kernel_reexecute_def thenE_def bindE_def truthy_def Let_def split: option.split)
qed

theorem reexecute_needs_dead_letter_witness:
  "kernel_replay sample_env sample_reading 1 2 ''TEST_SYN'' 7 sample_principal REEXECUTE ''ikey-0001'' 2 ''again''
     (Some ''other-key'') None (empty_kernel\<lparr>ks_store := sample_cancelled\<rparr>)
   = (Inl (Exc CommandNotFound ''dead-letter record was not found''), empty_kernel\<lparr>ks_store := sample_cancelled\<rparr>)"
proof (rule reexecute_needs_dead_letter)
  show "entry_at (ks_store (empty_kernel\<lparr>ks_store := sample_cancelled\<rparr>)) (''TEST_SYN'', 7)
      = Some (authenticated_command_digest sample_host sample_envelope ''middleware-api'',
          (new_operation sample_envelope 100)\<lparr>co_state := Cancelled, co_cancelled_at := Some 101,
              co_cancellation_reason := Some ''stop'', co_resource_version := 2, co_updated_at := 101\<rparr>)"
    using sample_store_entry
    by (simp add: sample_cancelled_def mutate_operation_def Let_def apply_action_def new_operation_def entry_at_def
        sample_store_def store_submit_def COMMAND_DESTINATIONS_def empty_store_def sample_envelope_def
        active_lease_def adapter_intents_def new_intent_def append_event_def update_intents_def)
  show "map_of (cs_dead_letters (ks_store (empty_kernel\<lparr>ks_store := sample_cancelled\<rparr>))) (''TEST_SYN'', 7) = None"
    using sample_store_entry
    by (simp add: sample_cancelled_def mutate_operation_def Let_def apply_action_def new_operation_def entry_at_def
        sample_store_def store_submit_def COMMAND_DESTINATIONS_def empty_store_def sample_envelope_def
        active_lease_def adapter_intents_def new_intent_def append_event_def update_intents_def)
  show "\<forall>o'. ownership_of (ke_registry sample_env) (co_command_type ((new_operation sample_envelope 100)\<lparr>co_state := Cancelled,
        co_cancelled_at := Some 101, co_cancellation_reason := Some ''stop'', co_resource_version := 2, co_updated_at := 101\<rparr>)) = Some o' \<longrightarrow>
      (\<exists>adv. registry_advertised (ke_registry sample_env) (ow_adapter_id o') = Inr adv \<and> ac_safe_reexecution adv)"
    using sample_ownership
    by (auto simp: sample_env_def new_operation_def sample_envelope_def registry_advertised_def sample_registry_def
        register_adapter_def new_adapter_registry_def make_registry_def test_syn_adapter_def fixture_adapter_def
        fixture_caps_def base_validate_config_def assert_adapter_def Let_def)
qed (simp_all add: sample_principal_def PLATFORM_OPERATOR_ROLE_def new_operation_def sample_envelope_def)

end
