(* ===== verification/Resilience.thy ===== *)
theory Resilience
  imports Machines
begin

text \<open>
  \<open>app/platform/resilience.py\<close>: the central retry policy, the per-adapter circuit breaker
  and the bulkhead. Clock readings are arguments; seconds are rational numbers.
\<close>

subsection \<open>Retry policy\<close>

datatype retry_class = SAFE_READ | IDEMPOTENT_WRITE | NON_IDEMPOTENT_EFFECT | CALLBACK | RECONCILIATION

record retry_policy =
  max_attempts :: int
  base_delay_seconds :: rat
  max_delay_seconds :: rat
  retry_unknown_outcome :: bool

text \<open>\<open>RetryPolicy.delay\<close>; \<open>u\<close> is the value of \<open>random.random()\<close> behind \<open>random.uniform(0, exp)\<close>.\<close>

definition retry_delay :: "retry_policy \<Rightarrow> int \<Rightarrow> rat \<Rightarrow> rat" where
  "retry_delay p attempt u =
     (let e = min (max_delay_seconds p) (base_delay_seconds p * 2 ^ nat (max 0 (attempt - 1)))
      in 0 + (e - 0) * u)"

fun RETRY_POLICIES :: "retry_class \<Rightarrow> retry_policy" where
  "RETRY_POLICIES SAFE_READ = \<lparr>max_attempts = 5, base_delay_seconds = 1/5, max_delay_seconds = 5, retry_unknown_outcome = True\<rparr>"
| "RETRY_POLICIES IDEMPOTENT_WRITE = \<lparr>max_attempts = 4, base_delay_seconds = 1/2, max_delay_seconds = 15, retry_unknown_outcome = True\<rparr>"
| "RETRY_POLICIES NON_IDEMPOTENT_EFFECT = \<lparr>max_attempts = 1, base_delay_seconds = 0, max_delay_seconds = 0, retry_unknown_outcome = False\<rparr>"
| "RETRY_POLICIES CALLBACK = \<lparr>max_attempts = 6, base_delay_seconds = 1, max_delay_seconds = 60, retry_unknown_outcome = True\<rparr>"
| "RETRY_POLICIES RECONCILIATION = \<lparr>max_attempts = 3, base_delay_seconds = 2, max_delay_seconds = 30, retry_unknown_outcome = True\<rparr>"

datatype outcome_class = OC_SUCCESS | OC_REJECTED | OC_TRANSIENT | OC_UNKNOWN | OC_CANCELLED

definition may_retry :: "retry_class \<Rightarrow> outcome_class \<Rightarrow> int \<Rightarrow> bool" where
  "may_retry rc outcome attempt =
     (let policy = RETRY_POLICIES rc in
      if attempt \<ge> max_attempts policy then False
      else if outcome = OC_TRANSIENT then True
      else if outcome = OC_UNKNOWN then retry_unknown_outcome policy
      else False)"

subsection \<open>Circuit breaker\<close>

datatype breaker_state = CLOSED | OPEN | HALF_OPEN

fun breaker_state_str :: "breaker_state \<Rightarrow> string" where
  "breaker_state_str CLOSED = ''CLOSED''"
| "breaker_state_str OPEN = ''OPEN''"
| "breaker_state_str HALF_OPEN = ''HALF_OPEN''"

text \<open>\<open>br_transitions\<close> records the calls of the \<open>on_transition\<close> callback.\<close>

record circuit_breaker =
  br_name :: string
  failure_threshold :: int
  open_seconds :: rat
  half_open_max_probes :: int
  br_state :: breaker_state
  br_failures :: int
  br_opened_at :: rat
  br_probes :: int
  br_transitions :: "(string \<times> breaker_state \<times> breaker_state) list"

definition new_breaker :: "string \<Rightarrow> int \<Rightarrow> rat \<Rightarrow> int \<Rightarrow> circuit_breaker" where
  "new_breaker n threshold secs probes =
     \<lparr>br_name = n, failure_threshold = threshold, open_seconds = secs, half_open_max_probes = probes,
      br_state = CLOSED, br_failures = 0, br_opened_at = 0, br_probes = 0, br_transitions = []\<rparr>"

definition br_transition :: "breaker_state \<Rightarrow> circuit_breaker \<Rightarrow> circuit_breaker" where
  "br_transition target b =
     (if br_state b = target then b
      else b\<lparr>br_state := target,
             br_transitions := br_transitions b @ [(br_name b, br_state b, target)]\<rparr>)"

text \<open>The \<open>state\<close> property: reading it may move OPEN to HALF_OPEN.\<close>

definition br_refresh :: "rat \<Rightarrow> circuit_breaker \<Rightarrow> circuit_breaker" where
  "br_refresh now b =
     (if br_state b = OPEN \<and> now - br_opened_at b \<ge> open_seconds b
      then (br_transition HALF_OPEN b)\<lparr>br_probes := 0\<rparr> else b)"

definition br_admit :: "rat \<Rightarrow> (circuit_breaker, unit) prog" where
  "br_admit now b =
     (let b1 = br_refresh now b; st = br_state b1 in
      if st = CLOSED then (Inr (), b1)
      else if st = HALF_OPEN \<and> br_probes b1 < half_open_max_probes b1
      then (Inr (), b1\<lparr>br_probes := br_probes b1 + 1\<rparr>)
      else (Inl (Exc CircuitOpen (''circuit '' @ br_name b @ '' is '' @ breaker_state_str st)), b1))"

definition br_record_success :: "circuit_breaker \<Rightarrow> circuit_breaker" where
  "br_record_success b =
     (let b1 = b\<lparr>br_failures := 0\<rparr> in
      if br_state b1 \<noteq> CLOSED then br_transition CLOSED b1 else b1)"

definition br_record_failure :: "rat \<Rightarrow> circuit_breaker \<Rightarrow> circuit_breaker" where
  "br_record_failure now b =
     (let b1 = b\<lparr>br_failures := br_failures b + 1\<rparr> in
      if br_state b1 = HALF_OPEN \<or> br_failures b1 \<ge> failure_threshold b1
      then br_transition OPEN (b1\<lparr>br_opened_at := now\<rparr>) else b1)"

lemmas breaker_defs = br_transition_def br_refresh_def br_admit_def
  br_record_success_def br_record_failure_def Let_def

text \<open>What callers can do to a breaker, in any order and at any time.\<close>

inductive breaker_step :: "circuit_breaker \<Rightarrow> circuit_breaker \<Rightarrow> bool" where
  bs_admit: "breaker_step b (snd (br_admit now b))"
| bs_success: "breaker_step b (br_record_success b)"
| bs_failure: "breaker_step b (br_record_failure now b)"

definition breaker_inv :: "circuit_breaker \<Rightarrow> bool" where
  "breaker_inv b \<longleftrightarrow> 0 < failure_threshold b \<and> 0 \<le> br_failures b \<and> 0 \<le> br_probes b
     \<and> (br_state b = CLOSED \<longrightarrow> br_failures b < failure_threshold b)
     \<and> (br_state b = HALF_OPEN \<longrightarrow> br_probes b \<le> max 0 (half_open_max_probes b))"

definition fresh_breaker :: "circuit_breaker \<Rightarrow> bool" where
  "fresh_breaker b \<longleftrightarrow> (\<exists>n th secs p. 1 \<le> th \<and> b = new_breaker n th secs p)"

text \<open>A run of failures reported at the given times.\<close>

fun record_failures :: "rat list \<Rightarrow> circuit_breaker \<Rightarrow> circuit_breaker" where
  "record_failures [] b = b"
| "record_failures (t # ts) b = record_failures ts (br_record_failure t b)"

subsection \<open>Bulkhead\<close>

text \<open>
  \<open>Bulkhead.run\<close> suspends at two points: while it waits for the semaphore and while the
  operation runs. Its atomic segments between those points are the operations below; the
  permits are \<open>asyncio.Semaphore(capacity)\<close>. \<open>max_wait_seconds or None\<close> turns a zero wait into
  "wait without limit".
\<close>

record bulkhead =
  bh_name :: string
  bh_capacity :: int
  bh_max_wait_seconds :: rat
  bh_permits :: int
  bh_active :: int
  bh_waiting :: int
  bh_rejected :: int
  bh_max_wait :: rat

record bulkhead_stats =
  st_capacity :: int
  st_active :: int
  st_waiting :: int
  st_rejected_total :: int
  st_max_wait_seconds :: rat

definition new_bulkhead :: "string \<Rightarrow> int \<Rightarrow> rat \<Rightarrow> exc + bulkhead" where
  "new_bulkhead n capacity max_wait =
     (if capacity < 1 then Inl (Exc ValueError ''bulkhead capacity must be >= 1'')
      else Inr \<lparr>bh_name = n, bh_capacity = capacity, bh_max_wait_seconds = max_wait, bh_permits = capacity,
             bh_active = 0, bh_waiting = 0, bh_rejected = 0, bh_max_wait = 0\<rparr>)"

definition bh_stats :: "bulkhead \<Rightarrow> bulkhead_stats" where
  "bh_stats b = \<lparr>st_capacity = bh_capacity b, st_active = bh_active b, st_waiting = bh_waiting b,
     st_rejected_total = bh_rejected b, st_max_wait_seconds = bh_max_wait b\<rparr>"

definition bh_timeout :: "bulkhead \<Rightarrow> rat option" where
  "bh_timeout b = (if bh_max_wait_seconds b = 0 then None else Some (bh_max_wait_seconds b))"

definition bh_enter :: "bulkhead \<Rightarrow> bulkhead" where
  "bh_enter b = b\<lparr>bh_waiting := bh_waiting b + 1\<rparr>"

definition bh_acquired :: "rat \<Rightarrow> bulkhead \<Rightarrow> bulkhead" where
  "bh_acquired waited b =
     b\<lparr>bh_permits := bh_permits b - 1, bh_waiting := bh_waiting b - 1,
       bh_max_wait := max (bh_max_wait b) waited, bh_active := bh_active b + 1\<rparr>"

definition bh_timed_out :: "(bulkhead, unit) prog" where
  "bh_timed_out b =
     (Inl (Exc BulkheadFull (''bulkhead '' @ bh_name b @ '' saturated ('' @ int_str (bh_capacity b) @ '')'')),
      b\<lparr>bh_rejected := bh_rejected b + 1, bh_waiting := bh_waiting b - 1\<rparr>)"

definition bh_finished :: "bulkhead \<Rightarrow> bulkhead" where
  "bh_finished b = b\<lparr>bh_active := bh_active b - 1, bh_permits := bh_permits b + 1\<rparr>"

inductive bulkhead_step :: "bulkhead \<Rightarrow> bulkhead \<Rightarrow> bool" where
  bhs_enter: "bulkhead_step b (bh_enter b)"
| bhs_acquire: "0 < bh_waiting b \<Longrightarrow> 0 < bh_permits b \<Longrightarrow> bulkhead_step b (bh_acquired waited b)"
| bhs_timeout: "0 < bh_waiting b \<Longrightarrow> bh_timeout b = Some t \<Longrightarrow> bulkhead_step b (snd (bh_timed_out b))"
| bhs_finish: "0 < bh_active b \<Longrightarrow> bulkhead_step b (bh_finished b)"

definition fresh_bulkhead :: "bulkhead \<Rightarrow> bool" where
  "fresh_bulkhead b \<longleftrightarrow> (\<exists>n c w. new_bulkhead n c w = Inr b)"

definition bulkhead_inv :: "bulkhead \<Rightarrow> bool" where
  "bulkhead_inv b \<longleftrightarrow> 0 \<le> bh_permits b \<and> 0 \<le> bh_active b \<and> 0 \<le> bh_waiting b
     \<and> bh_permits b + bh_active b = bh_capacity b \<and> 1 \<le> bh_capacity b
     \<and> (bh_max_wait_seconds b = 0 \<longrightarrow> bh_rejected b = 0)"

lemmas bulkhead_defs = bh_enter_def bh_acquired_def bh_timed_out_def bh_finished_def bh_timeout_def

lemma breaker_inv_step: "breaker_step b b' \<Longrightarrow> breaker_inv b \<Longrightarrow> breaker_inv b'"
  by (induction rule: breaker_step.induct) (auto simp: breaker_inv_def breaker_defs)

interpretation brk: machine_invariant fresh_breaker breaker_step breaker_inv
proof unfold_locales
  show "breaker_inv b" if "fresh_breaker b" for b
    using that by (auto simp: fresh_breaker_def new_breaker_def breaker_inv_def)
qed (rule breaker_inv_step)

lemma br_admit_cases:
  "br_admit now b =
     (if br_state b = CLOSED then (Inr (), b)
      else if br_state b = OPEN \<and> now - br_opened_at b < open_seconds b
      then (Inl (Exc CircuitOpen (''circuit '' @ br_name b @ '' is OPEN'')), b)
      else let b1 = br_refresh now b in
        if br_probes b1 < half_open_max_probes b1 then (Inr (), b1\<lparr>br_probes := br_probes b1 + 1\<rparr>)
        else (Inl (Exc CircuitOpen (''circuit '' @ br_name b @ '' is HALF_OPEN'')), b1))"
  by (cases "br_state b") (auto simp: breaker_defs)

text \<open>
  The circuit breaker admits only what it may: in every state reachable from a new
  breaker with a positive threshold, an admitted call leaves the breaker either closed
  with fewer consecutive failures than the threshold, or half-open with at most
  \<open>half_open_max_probes\<close> probes in flight; a breaker that was open admits only once
  \<open>open_seconds\<close> have passed since it opened.
\<close>

theorem breaker_admission_sound:
  assumes "reach fresh_breaker breaker_step b" and "br_admit now b = (Inr (), b')"
  shows "(br_state b' = CLOSED \<and> br_failures b' < failure_threshold b')
    \<or> (br_state b' = HALF_OPEN \<and> br_probes b' \<le> half_open_max_probes b'
       \<and> (br_state b = OPEN \<longrightarrow> br_opened_at b + open_seconds b \<le> now))"
proof -
  have "breaker_inv b" using assms(1) by (rule brk.reach_inv)
  with assms(2) show ?thesis
    by (cases "br_state b") (auto simp: br_admit_cases breaker_inv_def breaker_defs split: if_splits)
qed

theorem breaker_admission_sound_witness:
  "(br_admit 40 (br_record_failure 5 (new_breaker ''a'' 1 30 1)))
     = (Inr (), \<lparr>br_name = ''a'', failure_threshold = 1, open_seconds = 30, half_open_max_probes = 1,
         br_state = HALF_OPEN, br_failures = 1, br_opened_at = 5, br_probes = 1,
         br_transitions = [(''a'', CLOSED, OPEN), (''a'', OPEN, HALF_OPEN)]\<rparr>)
   \<and> (5::rat) + 30 \<le> 40"
proof -
  let ?b0 = "new_breaker ''a'' 1 30 1"
  have "reach fresh_breaker breaker_step ?b0"
    by (rule reach_init) (force simp: fresh_breaker_def)
  then have r: "reach fresh_breaker breaker_step (br_record_failure 5 ?b0)"
    by (rule reach_step) (rule bs_failure)
  have a: "br_admit 40 (br_record_failure 5 ?b0)
     = (Inr (), \<lparr>br_name = ''a'', failure_threshold = 1, open_seconds = 30, half_open_max_probes = 1,
         br_state = HALF_OPEN, br_failures = 1, br_opened_at = 5, br_probes = 1,
         br_transitions = [(''a'', CLOSED, OPEN), (''a'', OPEN, HALF_OPEN)]\<rparr>)"
    by (simp add: breaker_defs new_breaker_def)
  show ?thesis
    using breaker_admission_sound [OF r a] a by (simp add: breaker_defs new_breaker_def)
qed

text \<open>
  A half-open breaker whose probe is never reported back is wedged: once the probe
  budget is used up and neither \<open>record_success\<close> nor \<open>record_failure\<close> follows, every later
  \<open>admit\<close>, at any time and however often it is tried, raises \<open>CircuitOpen\<close> and leaves the
  breaker as it is.
\<close>

theorem breaker_lost_probe_wedges:
  assumes "br_state b = HALF_OPEN" and "half_open_max_probes b \<le> br_probes b"
  shows "br_admit now b = (Inl (Exc CircuitOpen (''circuit '' @ br_name b @ '' is HALF_OPEN'')), b)"
  using assms by (simp add: breaker_defs)

theorem breaker_lost_probe_wedges_witness:
  "let b = snd (br_admit 40 (br_record_failure 5 (new_breaker ''a'' 1 30 1)))
   in br_admit 1000000 b = (Inl (Exc CircuitOpen ''circuit a is HALF_OPEN''), b)"
  using breaker_lost_probe_wedges [of "snd (br_admit 40 (br_record_failure 5 (new_breaker ''a'' 1 30 1)))" 1000000]
  by (simp add: breaker_defs new_breaker_def)

lemma record_failures_open:
  assumes "br_state b = OPEN" and "failure_threshold b \<le> br_failures b"
  shows "let b' = record_failures ts b in br_state b' = OPEN \<and> br_opened_at b' = (if ts = [] then br_opened_at b else last ts)
    \<and> open_seconds b' = open_seconds b \<and> br_name b' = br_name b"
  using assms
proof (induction ts arbitrary: b)
  case (Cons t ts)
  have "br_state (br_record_failure t b) = OPEN"
    "failure_threshold (br_record_failure t b) \<le> br_failures (br_record_failure t b)"
    "br_opened_at (br_record_failure t b) = t"
    "open_seconds (br_record_failure t b) = open_seconds b" "br_name (br_record_failure t b) = br_name b"
    using Cons.prems by (auto simp: breaker_defs)
  with Cons.IH [of "br_record_failure t b"] show ?case by (auto simp: Let_def)
qed simp

lemma record_failures_opens:
  assumes "br_state b = CLOSED" and "br_failures b + int (length ts) \<ge> failure_threshold b" and "ts \<noteq> []"
  shows "let b' = record_failures ts b in br_state b' = OPEN \<and> br_opened_at b' = last ts
    \<and> open_seconds b' = open_seconds b \<and> br_name b' = br_name b"
  using assms
proof (induction ts arbitrary: b)
  case (Cons t ts)
  let ?b = "br_record_failure t b"
  show ?case
  proof (cases "failure_threshold b \<le> br_failures b + 1")
    case True
    have "br_state ?b = OPEN" "failure_threshold ?b \<le> br_failures ?b" "br_opened_at ?b = t"
      "open_seconds ?b = open_seconds b" "br_name ?b = br_name b"
      using True Cons.prems by (auto simp: breaker_defs)
    with record_failures_open [of ?b ts] show ?thesis by (auto simp: Let_def)
  next
    case False
    then have "ts \<noteq> []" using Cons.prems by auto
    moreover have "br_state ?b = CLOSED" "br_failures ?b = br_failures b + 1"
      "failure_threshold ?b = failure_threshold b" "open_seconds ?b = open_seconds b" "br_name ?b = br_name b"
      using False Cons.prems by (auto simp: breaker_defs)
    ultimately show ?thesis using Cons.IH [of ?b] Cons.prems by (auto simp: Let_def)
  qed
qed simp

text \<open>
  Consecutive failures open the breaker: after \<open>failure_threshold\<close> calls of
  \<open>record_failure\<close> with no success in between, a closed breaker is open, and it rejects
  every call until \<open>open_seconds\<close> after the last of them.
\<close>

theorem breaker_opens_after_threshold:
  assumes "br_state b = CLOSED" and "0 \<le> br_failures b" and "0 < failure_threshold b"
    and "int (length ts) = failure_threshold b" and "now < last ts + open_seconds b"
  shows "br_state (record_failures ts b) = OPEN
    \<and> fst (br_admit now (record_failures ts b)) = Inl (Exc CircuitOpen (''circuit '' @ br_name b @ '' is OPEN''))"
proof -
  have "ts \<noteq> []" using assms by auto
  with record_failures_opens [of b ts] assms show ?thesis
    by (auto simp: Let_def br_admit_cases)
qed

theorem breaker_opens_after_threshold_witness:
  "br_state (record_failures [1, 2, 3] (new_breaker ''a'' 3 30 1)) = OPEN
    \<and> fst (br_admit 32 (record_failures [1, 2, 3] (new_breaker ''a'' 3 30 1)))
        = Inl (Exc CircuitOpen ''circuit a is OPEN'')"
  using breaker_opens_after_threshold [of "new_breaker ''a'' 3 30 1" "[1, 2, 3]" 32]
  by (simp add: new_breaker_def)

lemma bulkhead_inv_step: "bulkhead_step b b' \<Longrightarrow> bulkhead_inv b \<Longrightarrow> bulkhead_inv b'"
  by (induction rule: bulkhead_step.induct) (auto simp: bulkhead_inv_def bulkhead_defs split: if_splits)

interpretation bhm: machine_invariant fresh_bulkhead bulkhead_step bulkhead_inv
proof unfold_locales
  show "bulkhead_inv b" if "fresh_bulkhead b" for b
    using that by (auto simp: fresh_bulkhead_def new_bulkhead_def bulkhead_inv_def split: if_splits)
qed (rule bulkhead_inv_step)

text \<open>
  The bulkhead bounds concurrency: under every interleaving of callers, the number of
  operations running at once never exceeds the capacity and equals the permits handed out,
  and a bulkhead whose \<open>max_wait_seconds\<close> is zero (the way the execution bus builds it)
  never rejects a caller, it only makes it wait.
\<close>

theorem bulkhead_bounds_concurrency:
  assumes "reach fresh_bulkhead bulkhead_step b"
  shows "st_active (bh_stats b) \<le> st_capacity (bh_stats b) \<and> 0 \<le> st_active (bh_stats b)
    \<and> bh_permits b = bh_capacity b - bh_active b
    \<and> (bh_max_wait_seconds b = 0 \<longrightarrow> st_rejected_total (bh_stats b) = 0)"
  using bhm.reach_inv [OF assms] by (auto simp: bulkhead_inv_def bh_stats_def)

theorem bulkhead_bounds_concurrency_witness:
  "st_active (bh_stats (bh_acquired 1 (bh_enter \<lparr>bh_name = ''a'', bh_capacity = 8, bh_max_wait_seconds = 0,
     bh_permits = 8, bh_active = 0, bh_waiting = 0, bh_rejected = 0, bh_max_wait = 0\<rparr>))) \<le> 8"
proof -
  let ?b = "\<lparr>bh_name = ''a'', bh_capacity = 8, bh_max_wait_seconds = 0, bh_permits = 8,
    bh_active = 0, bh_waiting = 0, bh_rejected = 0, bh_max_wait = 0\<rparr>"
  have "new_bulkhead ''a'' 8 0 = Inr ?b" by (simp add: new_bulkhead_def)
  then have "fresh_bulkhead ?b" unfolding fresh_bulkhead_def by blast
  then have "reach fresh_bulkhead bulkhead_step ?b" by (rule reach_init)
  then have "reach fresh_bulkhead bulkhead_step (bh_enter ?b)" by (rule reach_step) (rule bhs_enter)
  then have "reach fresh_bulkhead bulkhead_step (bh_acquired 1 (bh_enter ?b))"
    by (rule reach_step) (rule bhs_acquire; simp add: bulkhead_defs)
  from bulkhead_bounds_concurrency [OF this] show ?thesis
    by (simp add: bulkhead_defs bh_stats_def)
qed

text \<open>
  The retry policy bounds and restricts retries: no class retries at or beyond its
  attempt budget, a deterministic refusal, a success or a cancellation is never retried, an
  unknown outcome of a non-idempotent effect is never retried, and every backoff delay lies
  between zero and the class's maximum.
\<close>

theorem retry_policy_bounded:
  assumes "0 \<le> u" and "u \<le> 1"
  shows "(may_retry rc oc attempt \<longrightarrow> attempt < max_attempts (RETRY_POLICIES rc))
    \<and> (may_retry rc oc attempt \<longrightarrow> oc = OC_TRANSIENT \<or> oc = OC_UNKNOWN)
    \<and> \<not> may_retry NON_IDEMPOTENT_EFFECT OC_UNKNOWN attempt
    \<and> 0 \<le> retry_delay (RETRY_POLICIES rc) attempt u
    \<and> retry_delay (RETRY_POLICIES rc) attempt u \<le> max_delay_seconds (RETRY_POLICIES rc)"
proof -
  let ?p = "RETRY_POLICIES rc"
  let ?e = "min (max_delay_seconds ?p) (base_delay_seconds ?p * 2 ^ nat (max 0 (attempt - 1)))"
  have nonneg: "0 \<le> max_delay_seconds ?p" "0 \<le> base_delay_seconds ?p" by (cases rc; simp)+
  then have e: "0 \<le> ?e" by simp
  have "?e * u \<le> ?e * 1" using assms e by (intro mult_left_mono) auto
  then have "?e * u \<le> max_delay_seconds ?p" by simp
  moreover have "0 \<le> ?e * u" using assms e by simp
  ultimately show ?thesis
    by (auto simp: may_retry_def retry_delay_def Let_def split: if_splits)
qed

theorem retry_policy_bounded_witness:
  "retry_delay (RETRY_POLICIES CALLBACK) 10 (1/2) = 30 \<and> retry_delay (RETRY_POLICIES CALLBACK) 10 (1/2) \<le> 60
   \<and> \<not> may_retry NON_IDEMPOTENT_EFFECT OC_UNKNOWN 0"
  using retry_policy_bounded [of "1/2" CALLBACK OC_UNKNOWN 10] retry_policy_bounded [of "1/2" CALLBACK OC_UNKNOWN 0]
  by (simp add: retry_delay_def)

end
