(* ===== verification/Outbox_Tables.thy ===== *)
theory Outbox_Tables
  imports Command_Store
begin

text \<open>
  The durable tables around the outbox, and the SQL statements the stores are built from.

  A row of \<open>middleware_outbox\<close> is the in-memory intent of \<open>app/commands.py\<close> (its twin, field for
  field) with the fencing token of migration 0012; the column \<open>reconciliation_attempts\<close> of the
  twin has no SQL counterpart and no statement reads it, and a NULL \<open>command_id\<close> is the empty
  text, which is never a command id. Append-only tables are lists.
\<close>

record outbox_row = outbox_intent +
  ob_fencing_token :: nat

record attempt_event =
  ae_outbox_id :: nat
  ae_tenant_id :: string
  ae_attempt_number :: nat
  ae_event_type :: string
  ae_worker_id :: string
  ae_safe_error_code :: "string option"
  ae_fencing_token :: "nat option"

record reconciliation_audit =
  ra_outbox_id :: nat
  ra_tenant_id :: string
  ra_action :: string
  ra_operator_id :: string
  ra_reason :: string
  ra_attempt_count :: nat

record control_audit =
  cn_tenant_id :: string
  cn_resource_kind :: string
  cn_resource_id :: string
  cn_action :: string
  cn_actor_id :: string
  cn_reason :: string
  cn_previous_state :: "string option"
  cn_new_state :: string
  cn_metadata :: json_object

record audit_tables =
  au_attempt_events :: "attempt_event list"
  au_reconciliation :: "reconciliation_audit list"
  au_control :: "control_audit list"

definition no_audit :: audit_tables where
  "no_audit = \<lparr>au_attempt_events = [], au_reconciliation = [], au_control = []\<rparr>"

text \<open>Storing a document in a \<open>jsonb\<close> column and reading it back.\<close>

type_synonym jsonb = "json_object \<Rightarrow> json_object"

text \<open>
  One transaction sees and changes the rows and the audit tables as a whole. The statements are
  polymorphic in what a row carries beyond the columns of the twin.
\<close>

record 'r outbox_db =
  db_rows :: "'r list"
  db_audit :: audit_tables

type_synonym 'm intent_db = "'m outbox_intent_scheme outbox_db"

subsection \<open>Statements\<close>

text \<open>\<open>UPDATE ... SET f WHERE P RETURNING *\<close>.\<close>

definition sql_update :: "('r \<Rightarrow> bool) \<Rightarrow> ('r \<Rightarrow> 'r) \<Rightarrow> ('r outbox_db, 'r list) prog" where
  "sql_update P f db = (Inr (map f (filter P (db_rows db))), db\<lparr>db_rows := map (\<lambda>r. if P r then f r else r) (db_rows db)\<rparr>)"

text \<open>\<open>SELECT * WHERE P ORDER BY key LIMIT 1\<close>, ties by position.\<close>

definition sql_first :: "('r \<Rightarrow> 'k :: linorder) \<Rightarrow> ('r \<Rightarrow> bool) \<Rightarrow> 'r list \<Rightarrow> 'r option" where
  "sql_first key P rows = (case sort_key key (filter P rows) of [] \<Rightarrow> None | r # _ \<Rightarrow> Some r)"

definition log_attempt :: "attempt_event \<Rightarrow> ('r outbox_db, unit) prog" where
  "log_attempt e = modifyE (\<lambda>db. db\<lparr>db_audit := (db_audit db)\<lparr>au_attempt_events := au_attempt_events (db_audit db) @ [e]\<rparr>\<rparr>)"

definition log_reconciliation :: "reconciliation_audit \<Rightarrow> ('r outbox_db, unit) prog" where
  "log_reconciliation a = modifyE (\<lambda>db. db\<lparr>db_audit := (db_audit db)\<lparr>au_reconciliation := au_reconciliation (db_audit db) @ [a]\<rparr>\<rparr>)"

definition log_control :: "control_audit \<Rightarrow> ('r outbox_db, unit) prog" where
  "log_control c = modifyE (\<lambda>db. db\<lparr>db_audit := (db_audit db)\<lparr>au_control := au_control (db_audit db) @ [c]\<rparr>\<rparr>)"

text \<open>A transaction: what raises is rolled back.\<close>

definition transaction :: "('s, 'a) prog \<Rightarrow> ('s, 'a) prog" where
  "transaction m s = (case m s of (Inl e, _) \<Rightarrow> (Inl e, s) | (Inr a, s') \<Rightarrow> (Inr a, s'))"

subsection \<open>Facts\<close>

lemma sql_first_Some:
  assumes "sql_first key P rows = Some r"
  shows "r \<in> set rows" and "P r" and "\<And>r'. r' \<in> set rows \<Longrightarrow> P r' \<Longrightarrow> key r \<le> key r'"
proof -
  obtain rs where s: "sort_key key (filter P rows) = r # rs"
    using assms by (auto simp: sql_first_def split: list.splits)
  then have "set (r # rs) = {x \<in> set rows. P x}" by (metis set_filter set_sort)
  moreover have "sorted (map key (r # rs))" using sorted_sort_key [of key] s by metis
  ultimately show "r \<in> set rows" "P r" "\<And>r'. r' \<in> set rows \<Longrightarrow> P r' \<Longrightarrow> key r \<le> key r'"
    by auto
qed

lemma sql_first_None: "sql_first key P rows = None \<longleftrightarrow> (\<forall>r \<in> set rows. \<not> P r)"
proof -
  have "sql_first key P rows = None \<longleftrightarrow> sort_key key (filter P rows) = []"
    by (simp add: sql_first_def split: list.split)
  also have "\<dots> \<longleftrightarrow> filter P rows = []" by (metis set_empty set_sort)
  finally show ?thesis by (simp add: filter_empty_conv)
qed

lemma transaction_Inl: "transaction m s = (Inl e, s') \<Longrightarrow> s' = s"
  by (auto simp: transaction_def split: prod.splits sum.splits)

lemma transaction_Inr: "transaction m s = (Inr a, s') \<longleftrightarrow> m s = (Inr a, s')"
  by (auto simp: transaction_def split: prod.splits sum.splits)

lemma keeps_transaction [keeps_rules]: "keeps I m \<Longrightarrow> keeps I (transaction m)"
  by (rule keepsI) (auto simp: transaction_def split: prod.split sum.split dest: keepsD)

lemma keeps_case_list [keeps_rules]:
  "keeps I m \<Longrightarrow> (\<And>x xs. keeps I (f x xs)) \<Longrightarrow> keeps I (case z of [] \<Rightarrow> m | x # xs \<Rightarrow> f x xs)"
  by (simp split: list.split)

lemma keeps_case_prod [keeps_rules]: "(\<And>x y. keeps I (f x y)) \<Longrightarrow> keeps I (case z of (x, y) \<Rightarrow> f x y)"
  by (simp split: prod.split)

lemma keeps_lift [keeps_rules]: "keeps I (liftE r)"
  by (rule keepsI) (simp add: liftE_run)

lemmas sql_defs = sql_update_def log_attempt_def log_reconciliation_def log_control_def prog_defs

end
