(* ===== verification/Execution_Bus.thy ===== *)
theory Execution_Bus
  imports Command_Kernel Resilience Outbox_Tables
begin

text \<open>
  The execution bus handler (\<open>AdapterDispatch\<close> of \<open>app/platform/bus.py\<close>): one claimed outbox
  record is one dispatch, from the safety re-evaluation over the adapter call to the
  read-back and the ledger transitions, with crash recovery and every error path.

  The state of the platform processes is one record: the ledger, the provider side, the
  safety gate, the breakers and bulkheads of the dispatcher, its last outcome, and the logs
  of the memory bus and source, and the audit tables. \<open>w_executions\<close> is a ghost log of the \<open>execute\<close> calls made.

  A dispatch suspends only while it waits for a provider. What other tasks (operators,
  other workers, the reconciler) do to the ledger meanwhile is the function \<open>be_others\<close> of the
  suspension point, an arbitrary sequence of ledger steps; the identity is the case without
  interference. Readings of the clocks come in as a record, one before and one after the
  adapter call. Metrics and logging are left out.
\<close>

subsection \<open>State and environment\<close>

record dispatch_outcome =
  do_command_id :: uuid
  do_attempt :: "nat option"
  do_final_state :: string
  do_effect_attempted :: bool
  do_result :: "adapter_result option"
  do_readback :: "readback_result option"

record 'p world =
  w_store :: command_store
  w_provider :: 'p
  w_gate :: safety_gate
  w_breakers :: "(string, circuit_breaker) dict"
  w_bulkheads :: "(string, bulkhead) dict"
  w_last_outcome :: "dispatch_outcome option"
  w_executions :: "(string \<times> uuid \<times> nat) list"
  w_processed :: "(nat \<times> string) list"
  w_resolutions :: "(nat \<times> string \<times> string) list"
  w_audit :: audit_tables

record bus_settings =
  bz_max_attempts :: nat
  bz_default_timeout_seconds :: rat
  bz_bulkhead_capacity :: int
  bz_breaker_threshold :: int
  bz_breaker_open_seconds :: rat
  bz_timeouts_by_prefix :: "(string, rat) dict"

definition default_bus_settings :: bus_settings where
  "default_bus_settings = \<lparr>bz_max_attempts = 8, bz_default_timeout_seconds = 30, bz_bulkhead_capacity = 8,
     bz_breaker_threshold = 5, bz_breaker_open_seconds = 30, bz_timeouts_by_prefix = []\<rparr>"

datatype await_site = AwReadiness | AwExecute | AwStatus | AwReadback | AwReconcile

record 'p bus_env =
  be_host :: host
  be_registry :: "'p registry"
  be_settings :: bus_settings
  be_worker_id :: string
  be_source_sha :: string
  be_others :: "await_site \<Rightarrow> command_store \<Rightarrow> command_store"

record bus_reading =
  bd_now :: int
  bd_later :: int
  bd_admit_clock :: rat
  bd_record_clock :: rat
  bd_waited :: rat
  bd_safety_id :: string

definition on_ledger :: "(command_store, 'a) prog \<Rightarrow> ('p world, 'a) prog" where
  "on_ledger m = zoomE w_store (\<lambda>st w. w\<lparr>w_store := st\<rparr>) m"

text \<open>A provider call: the adapter's program on the provider side, then what others did meanwhile.\<close>

definition provider_call :: "'p bus_env \<Rightarrow> await_site \<Rightarrow> ('p, 'a) prog \<Rightarrow> ('p world, 'a) prog" where
  "provider_call env site m w =
     (case m (w_provider w) of (r, p) \<Rightarrow>
        (r, w\<lparr>w_provider := p, w_store := be_others env site (w_store w)\<rparr>))"

definition record_outcome :: "dispatch_outcome \<Rightarrow> ('p world, dispatch_outcome) prog" where
  "record_outcome oc = thenE (modifyE (\<lambda>w. w\<lparr>w_last_outcome := Some oc\<rparr>)) (retE oc)"

definition plain_outcome :: "uuid \<Rightarrow> nat option \<Rightarrow> string \<Rightarrow> bool \<Rightarrow> adapter_result option \<Rightarrow> readback_result option \<Rightarrow> dispatch_outcome" where
  "plain_outcome cid attempt final effect result rb = \<lparr>do_command_id = cid, do_attempt = attempt,
     do_final_state = final, do_effect_attempted = effect, do_result = result, do_readback = rb\<rparr>"

subsection \<open>Resilience primitives, one per adapter\<close>

definition breaker_of :: "'p bus_env \<Rightarrow> string \<Rightarrow> 'p world \<Rightarrow> circuit_breaker" where
  "breaker_of env aid w =
     (case map_of (w_breakers w) aid of
        Some b \<Rightarrow> b
      | None \<Rightarrow> new_breaker aid (bz_breaker_threshold (be_settings env)) (bz_breaker_open_seconds (be_settings env)) 1)"

definition on_breaker :: "'p bus_env \<Rightarrow> string \<Rightarrow> (circuit_breaker, 'a) prog \<Rightarrow> ('p world, 'a) prog" where
  "on_breaker env aid m =
     zoomE (breaker_of env aid) (\<lambda>b w. w\<lparr>w_breakers := AList.update aid b (w_breakers w)\<rparr>) m"

definition bulkhead_of :: "'p bus_env \<Rightarrow> string \<Rightarrow> 'p world \<Rightarrow> exc + bulkhead" where
  "bulkhead_of env aid w =
     (case map_of (w_bulkheads w) aid of
        Some b \<Rightarrow> Inr b
      | None \<Rightarrow> new_bulkhead aid (bz_bulkhead_capacity (be_settings env)) 0)"

definition set_bulkhead :: "string \<Rightarrow> (bulkhead \<Rightarrow> bulkhead) \<Rightarrow> 'p world \<Rightarrow> 'p world" where
  "set_bulkhead aid f w =
     (case map_of (w_bulkheads w) aid of
        None \<Rightarrow> w | Some b \<Rightarrow> w\<lparr>w_bulkheads := AList.update aid (f b) (w_bulkheads w)\<rparr>)"

text \<open>
  \<open>self.bulkhead(aid).run(operation)\<close>. The bus builds its bulkheads without a wait limit, so the
  acquisition succeeds once a permit is free; \<open>bd_waited\<close> is how long that took.
\<close>

definition bulkhead_run :: "'p bus_env \<Rightarrow> bus_reading \<Rightarrow> string \<Rightarrow> ('p world, 'a) prog \<Rightarrow> ('p world, 'a) prog" where
  "bulkhead_run env rd aid m w =
     (case bulkhead_of env aid w of
        Inl e \<Rightarrow> (Inl e, w)
      | Inr b \<Rightarrow>
          (case m (w\<lparr>w_bulkheads := AList.update aid (bh_acquired (bd_waited rd) (bh_enter b)) (w_bulkheads w)\<rparr>) of
             (r, w') \<Rightarrow> (r, set_bulkhead aid bh_finished w')))"

definition timeout_for :: "'p bus_env \<Rightarrow> ownership \<Rightarrow> rat" where
  "timeout_for env o' =
     (case map_of (bz_timeouts_by_prefix (be_settings env)) (ow_prefix o') of
        Some s \<Rightarrow> s | None \<Rightarrow> bz_default_timeout_seconds (be_settings env))"

definition dispatch_context :: "'p bus_env \<Rightarrow> 'p world \<Rightarrow> command_operation \<Rightarrow> nat \<Rightarrow> rat
    \<Rightarrow> (string, string) dict option \<Rightarrow> json_object \<Rightarrow> adapter_context" where
  "dispatch_context env w op attempt timeout trace payload =
     \<lparr>ax_tenant_id = co_tenant_id op, ax_command_id = uuid_str (co_command_id op),
      ax_correlation_id = co_correlation_id op, ax_attempt = attempt, ax_timeout_seconds = timeout,
      ax_environment = st_app_env (sg_settings (w_gate w)), ax_deployment_sha = be_source_sha env,
      ax_trace_context = (case trace of None \<Rightarrow> [] | Some t \<Rightarrow> t),
      ax_test_syn = (co_tenant_id op \<in> set (sw_synthetic_tenants (sg_switches (w_gate w)))),
      ax_payload = payload\<rparr>"

subsection \<open>Failing an operation\<close>

definition safe_reason :: "adapter_result \<Rightarrow> string" where
  "safe_reason r =
     (case (if truthy (ar_safe_error_code r) then [the (ar_safe_error_code r)] else [])
           @ (case ar_error_class r of None \<Rightarrow> [] | Some c \<Rightarrow> [error_class_str c]) of
        [] \<Rightarrow> py_lower (outcome_str (ar_outcome r))
      | [a] \<Rightarrow> a
      | a # b # _ \<Rightarrow> a @ '':'' @ b)"

definition bus_transition :: "'p bus_env \<Rightarrow> int \<Rightarrow> command_operation \<Rightarrow> command_state \<Rightarrow> string \<Rightarrow> string option
    \<Rightarrow> json_object option \<Rightarrow> nat option \<Rightarrow> ('p world, command_operation) prog" where
  "bus_transition env now op new_state reason pid evidence expected =
     on_ledger (store_transition (be_host env) now (co_tenant_id op) (co_command_id op) new_state (be_worker_id env)
       reason pid evidence expected)"

definition terminal_dead_letter :: "int \<Rightarrow> command_operation \<Rightarrow> string \<Rightarrow> ('p world, dead_letter_record) prog" where
  "terminal_dead_letter now op reason =
     on_ledger (record_dead_letter now (co_tenant_id op) (co_command_id op) ''terminal_failure'' ''non_retryable''
       reason (contains ''poison'' (py_lower reason)) False)"

definition bus_fail :: "'p bus_env \<Rightarrow> int \<Rightarrow> command_operation \<Rightarrow> string \<Rightarrow> nat option \<Rightarrow> bool \<Rightarrow> ('p world, unit) prog" where
  "bus_fail env now op reason attempt retryable =
     bindE (on_ledger (store_get (co_tenant_id op) (co_command_id op))) (\<lambda>current.
       if co_state current \<in> set [Persisted, Queued] then
         (if retryable then retE ()
          else thenE (if co_state current = Persisted
                 then thenE (bus_transition env now op Queued ''claimed by execution bus'' None None None) (retE ())
                 else retE ())
            (thenE (bus_transition env now op DeadLettered reason None None None)
              (thenE (terminal_dead_letter now op reason) (retE ()))))
       else
         thenE (bus_transition env now op Failed reason None None attempt)
           (if retryable
            then thenE (bus_transition env now op Queued ''scheduled for a known-safe retry'' None None None) (retE ())
            else thenE (terminal_dead_letter now op reason) (retE ())))"

subsection \<open>Read-back\<close>

definition readback_of :: "readback_status \<Rightarrow> string option \<Rightarrow> json_object \<Rightarrow> string option \<Rightarrow> readback_result" where
  "readback_of s pid ev code = \<lparr>rb_status = s, rb_provider_operation_id = pid, rb_evidence = ev, rb_safe_error_code = code\<rparr>"

definition status_verdict :: "command_operation \<Rightarrow> bool \<Rightarrow> adapter_result \<Rightarrow> readback_result option" where
  "status_verdict op pending_is_unavailable status =
     (let reference = or_str (ar_provider_operation_id status) (co_provider_operation_id op) in
      if truthy (ar_provider_operation_id status) \<and> ar_provider_operation_id status \<noteq> co_provider_operation_id op
      then Some (readback_of RB_MISMATCH (ar_provider_operation_id status) [] (Some ''provider_reference_mismatch''))
      else if pending_is_unavailable \<and> ar_outcome status = ACCEPTED
      then Some (readback_of RB_UNAVAILABLE reference
             [(''provider_state'', JStr ''pending''), (''retry_hint'', JStr ''reconcile'')] (Some ''provider_operation_pending''))
      else if ar_outcome status \<in> set [REJECTED, CANCELLED]
      then Some (readback_of RB_MISMATCH reference
             [(''provider_state'', JStr (py_lower (outcome_str (ar_outcome status))))]
             (or_str (ar_safe_error_code status) (Some ''provider_operation_failed'')))
      else None)"

definition status_readback :: "'p bus_env \<Rightarrow> 'p adapter \<Rightarrow> command_operation \<Rightarrow> adapter_context \<Rightarrow> bool
    \<Rightarrow> ('p world, readback_result option) prog" where
  "status_readback env a op x pending_is_unavailable =
     (if \<not> (ac_supports_status (ad_capabilities a) \<and> truthy (co_provider_operation_id op)) then retE None
      else bindE (provider_call env AwStatus (ad_status a op x)) (\<lambda>raw.
        retE (status_verdict op pending_is_unavailable (ad_normalize_result a raw))))"

definition observe :: "'p bus_env \<Rightarrow> await_site \<Rightarrow> 'p adapter \<Rightarrow> command_operation \<Rightarrow> adapter_context \<Rightarrow> bool
    \<Rightarrow> ('p, readback_result) prog \<Rightarrow> ('p world, readback_result) prog" where
  "observe env site a op x pending deep =
     bindE (status_readback env a op x pending) (\<lambda>rb.
       case rb of Some r \<Rightarrow> retE r | None \<Rightarrow> provider_call env site deep)"

definition readback_evidence :: "command_operation \<Rightarrow> readback_result \<Rightarrow> json_object" where
  "readback_evidence op rb =
     dict_merge [(''schema_version'', JStr ''1.0''), (''status'', JStr (py_lower (readback_str (rb_status rb)))),
       (''provider_operation_id'', opt_str (or_str (rb_provider_operation_id rb) (co_provider_operation_id op)))]
       (redact_mapping (rb_evidence rb))"

definition bus_readback :: "'p bus_env \<Rightarrow> int \<Rightarrow> command_operation \<Rightarrow> 'p adapter \<Rightarrow> adapter_context \<Rightarrow> nat
    \<Rightarrow> ('p world, string \<times> readback_result) prog" where
  "bus_readback env now op0 a x attempt =
     bindE (bus_transition env now op0 ReadbackPending ''reading provider state back'' None None (Some attempt)) (\<lambda>op.
     bindE (catchE (observe env AwReadback a op x True (ad_readback a op x))
             (\<lambda>e. retE (readback_of RB_UNAVAILABLE None [] (Some (exc_name e))))) (\<lambda>rb.
       let evidence = readback_evidence op rb in
       if rb_status rb = RB_MATCHED then
         thenE (bus_transition env now op Completed ''provider read-back matched'' (rb_provider_operation_id rb)
             (Some evidence) (Some attempt))
           (retE (''completed'', rb))
       else if rb_status rb = RB_MISMATCH then
         thenE (bus_transition env now op Failed ''provider read-back mismatch'' None None (Some attempt))
           (retE (''failed'', rb))
       else
         thenE (bus_transition env now op ReconciliationRequired
             (''provider read-back '' @ py_lower (readback_str (rb_status rb))) None (Some evidence) (Some attempt))
           (thenE (record_outcome (plain_outcome (co_command_id op) (Some attempt) ''reconciliation_required'' True None (Some rb)))
             (raiseE UnknownOutcomeError (''readback '' @ readback_str (rb_status rb))))))"

subsection \<open>Finalizing an attempt\<close>

definition bus_finalize :: "'p bus_env \<Rightarrow> bus_reading \<Rightarrow> command_operation \<Rightarrow> 'p adapter \<Rightarrow> nat \<Rightarrow> adapter_context
    \<Rightarrow> adapter_result \<Rightarrow> ('p world, dispatch_outcome) prog" where
  "bus_finalize env rd op a attempt x result =
     (let aid = ad_adapter_id a; cid = co_command_id op; safe = safe_reason result; now = bd_later rd;
          success = on_breaker env aid (modifyE br_record_success);
          failure = on_breaker env aid (modifyE (br_record_failure (bd_record_clock rd)))
      in case ar_outcome result of
           REJECTED \<Rightarrow>
             thenE failure (thenE (bus_fail env now op safe (Some attempt) False)
               (record_outcome (plain_outcome cid (Some attempt) ''failed'' False (Some result) None)))
         | TRANSIENT \<Rightarrow>
             thenE failure
               (if ax_attempt x \<ge> bz_max_attempts (be_settings env) then
                  thenE (bus_transition env now op Failed safe None None (Some attempt))
                    (thenE (bus_transition env now op DeadLettered ''retry budget exhausted'' None None None)
                      (thenE (on_ledger (record_dead_letter now (co_tenant_id op) cid ''retry_exhausted''
                          (case ar_error_class result of None \<Rightarrow> ''retryable'' | Some c \<Rightarrow> error_class_str c) safe False True))
                        (thenE (record_outcome (plain_outcome cid (Some attempt) ''dead_lettered'' False (Some result) None))
                          (raiseE KnownSafeRetryError (''retry budget exhausted: '' @ safe)))))
                else
                  thenE (bus_fail env now op safe (Some attempt) True)
                    (thenE (record_outcome (plain_outcome cid (Some attempt) ''queued'' False (Some result) None))
                      (raiseE KnownSafeRetryError safe)))
         | UNSUPPORTED \<Rightarrow>
             thenE failure (thenE (bus_fail env now op ''adapter does not support execute for this command'' (Some attempt) False)
               (record_outcome (plain_outcome cid (Some attempt) ''failed'' False (Some result) None)))
         | oc \<Rightarrow>
             if oc \<in> set [ACCEPTED, COMPLETED] then
               thenE success
                 (bindE (bus_transition env now op Accepted (''provider acknowledged ('' @ outcome_str oc @ '')'')
                     (ar_provider_operation_id result) None (Some attempt)) (\<lambda>accepted.
                  bindE (bus_readback env now accepted a x attempt) (\<lambda>rb.
                    record_outcome (plain_outcome cid (Some attempt) (fst rb) True (Some result) (Some (snd rb))))))
             else
               thenE failure
                 (thenE (bus_transition env now op ReconciliationRequired
                     (if safe \<noteq> [] then safe else ''provider outcome unknown'')
                     (ar_provider_operation_id result) None (Some attempt))
                   (thenE (record_outcome (plain_outcome cid (Some attempt) ''reconciliation_required'' True (Some result) None))
                     (raiseE UnknownOutcomeError (if safe \<noteq> [] then safe else ''provider outcome unknown'')))))"

subsection \<open>Executing an attempt\<close>

text \<open>How an exception of the adapter call is turned into a result.\<close>

definition classified_result :: "'p adapter \<Rightarrow> exc \<Rightarrow> adapter_result" where
  "classified_result a e =
     (if exc_class e = TimeoutError
      then adapter_result_of UNKNOWN None (Some AMBIGUOUS) (Some ''adapter_timeout'')
      else (case ad_classify_error a e of
              RETRYABLE_BEFORE_EFFECT \<Rightarrow> adapter_result_of TRANSIENT None (Some RETRYABLE_BEFORE_EFFECT) (Some (exc_name e))
            | NON_RETRYABLE \<Rightarrow> adapter_result_of REJECTED None (Some NON_RETRYABLE) (Some (exc_name e))
            | UNSUPPORTED_ERROR \<Rightarrow> adapter_result_of REJECTED None (Some UNSUPPORTED_ERROR) (Some (exc_name e))
            | PROVIDER_AUTH \<Rightarrow> adapter_result_of REJECTED None (Some PROVIDER_AUTH) (Some ''provider_auth_failed'')
            | PROVIDER_RATE_LIMITED \<Rightarrow> adapter_result_of TRANSIENT None (Some PROVIDER_RATE_LIMITED) (Some ''provider_rate_limited'')
            | AMBIGUOUS \<Rightarrow> adapter_result_of UNKNOWN None (Some AMBIGUOUS) (Some (exc_name e))))"

definition execute_logged :: "'p bus_env \<Rightarrow> 'p adapter \<Rightarrow> command_envelope \<Rightarrow> command_operation \<Rightarrow> nat \<Rightarrow> adapter_context
    \<Rightarrow> ('p world, raw_result) prog" where
  "execute_logged env a c op attempt x =
     thenE (modifyE (\<lambda>w. w\<lparr>w_executions := w_executions w @ [(co_tenant_id op, co_command_id op, attempt)]\<rparr>))
       (provider_call env AwExecute (ad_execute a c x))"

definition bus_execute :: "'p bus_env \<Rightarrow> bus_reading \<Rightarrow> 'p adapter \<Rightarrow> command_envelope \<Rightarrow> command_operation \<Rightarrow> nat
    \<Rightarrow> adapter_context \<Rightarrow> ('p world, adapter_result) prog" where
  "bus_execute env rd a c op attempt x =
     catchE (bindE (bulkhead_run env rd (ad_adapter_id a) (execute_logged env a c op attempt x))
              (\<lambda>raw. retE (ad_normalize_result a raw)))
       (\<lambda>e. if exc_class e = BulkheadFull then
              thenE (bus_fail env (bd_later rd) op (''bulkhead saturated: '' @ exc_text e) (Some attempt) True)
                (raiseE KnownSafeRetryError (exc_text e))
            else retE (classified_result a e))"

subsection \<open>Crash recovery\<close>

definition bus_recover :: "'p bus_env \<Rightarrow> bus_reading \<Rightarrow> command_operation \<Rightarrow> command_envelope \<Rightarrow> 'p adapter \<Rightarrow> rat
    \<Rightarrow> (string, string) dict option \<Rightarrow> ('p world, dispatch_outcome) prog" where
  "bus_recover env rd op c a timeout trace =
     bindE (on_ledger (latest_attempt (co_tenant_id op) (co_command_id op))) (\<lambda>attempt.
     bindE (getsE (\<lambda>w. dispatch_context env w op attempt timeout trace (ce_payload c))) (\<lambda>x.
     bindE (if co_state op = Dispatching
            then bus_transition env (bd_now rd) op Accepted
              ''recovering an expired dispatch lease: reading provider state back'' None None (Some attempt)
            else retE op) (\<lambda>op'.
     bindE (bus_readback env (bd_later rd) op' a x attempt) (\<lambda>rb.
       record_outcome (plain_outcome (co_command_id op') (Some attempt) (fst rb) False None (Some (snd rb)))))))"

subsection \<open>One dispatch\<close>

text \<open>From the readiness probe to the admitted breaker: everything before the attempt is opened.\<close>

definition bus_gatekeep :: "'p bus_env \<Rightarrow> bus_reading \<Rightarrow> command_operation \<Rightarrow> command_envelope \<Rightarrow> 'p adapter \<Rightarrow> nat \<Rightarrow> rat
    \<Rightarrow> (string, string) dict option \<Rightarrow> ('p world, string option) prog" where
  "bus_gatekeep env rd op c a outbox_attempt timeout trace =
     bindE (catchE (bindE (getsE (\<lambda>w. dispatch_context env w op outbox_attempt timeout trace (ce_payload c))) (\<lambda>x.
                 provider_call env AwReadiness (ad_readiness a x)))
             (\<lambda>e. raiseE KnownSafeRetryError (''adapter readiness unavailable: '' @ exc_name e))) (\<lambda>readiness.
     bindE (getsE (\<lambda>w. fst (safety_evaluate (bd_safety_id rd) 0
         \<lparr>ss_tenant_id = co_tenant_id op, ss_command_type = co_command_type op, ss_target = co_target op,
          ss_capability = co_capability op, ss_campaign_id = campaign_id_of (ce_payload c),
          ss_correlation_id = co_correlation_id op\<rparr>
         \<lparr>sx_adapter_registered = True, sx_adapter_ready = Some (rd_ready readiness),
          sx_tenant_backlog = None, sx_global_backlog = None\<rparr> False (w_gate w)))) (\<lambda>decision.
       if \<not> sd_allow decision then
         (if sd_reason_code decision = ''adapter_not_ready'' then raiseE KnownSafeRetryError ''adapter not ready''
          else thenE (bus_fail env (bd_now rd) op (''safety denied at execution: '' @ sd_reason_code decision) None False)
                 (retE (Some ''failed'')))
       else
         catchE (thenE (on_breaker env (ad_adapter_id a) (br_admit (bd_admit_clock rd))) (retE None))
           (\<lambda>e. if exc_class e = CircuitOpen then raiseE KnownSafeRetryError (exc_text e) else reraiseE e)))"

definition bus_attempt :: "'p bus_env \<Rightarrow> bus_reading \<Rightarrow> command_operation \<Rightarrow> command_envelope \<Rightarrow> 'p adapter \<Rightarrow> rat
    \<Rightarrow> (string, string) dict option \<Rightarrow> ('p world, dispatch_outcome) prog" where
  "bus_attempt env rd op c a timeout trace =
     thenE (if co_state op = Persisted
            then thenE (bus_transition env (bd_now rd) op Queued ''claimed by execution bus'' None None None) (retE ())
            else retE ())
     (bindE (bus_transition env (bd_now rd) op Dispatching (''attempt via adapter '' @ ad_adapter_id a) None None None) (\<lambda>op'.
      bindE (on_ledger (latest_attempt (co_tenant_id op) (co_command_id op))) (\<lambda>attempt.
      bindE (getsE (\<lambda>w. dispatch_context env w op' attempt timeout trace (ce_payload c))) (\<lambda>x.
      bindE (bus_execute env rd a c op' attempt x) (\<lambda>result.
        bus_finalize env rd op' a attempt x result)))))"

text \<open>The dispatch of a command that is in the ledger and not finished, once its envelope is loaded.\<close>

definition dispatch_loaded :: "'p bus_env \<Rightarrow> bus_reading \<Rightarrow> command_operation \<Rightarrow> uuid \<Rightarrow> nat \<Rightarrow> (string, string) dict option
    \<Rightarrow> command_envelope \<Rightarrow> ('p world, dispatch_outcome) prog" where
  "dispatch_loaded env rd op cid n trace c =
     (case ownership_of (be_registry env) (ce_command_type c) of
        None \<Rightarrow> thenE (bus_fail env (bd_now rd) op ''no adapter owns this command'' None False)
          (record_outcome (plain_outcome cid None ''failed'' False None None))
      | Some o' \<Rightarrow>
        (case registry_adapter (be_registry env) (ow_adapter_id o') of
           Inl e \<Rightarrow> reraiseE e
         | Inr a \<Rightarrow>
           if ce_target c \<notin> set (ac_connector_ids (ad_capabilities a))
           then thenE (bus_fail env (bd_now rd) op ''connector unavailable for adapter'' None False)
             (record_outcome (plain_outcome cid None ''failed'' False None None))
           else if co_state op \<in> set [Dispatching, Accepted, ReadbackPending]
           then bus_recover env rd op c a (timeout_for env o') trace
           else bindE (bus_gatekeep env rd op c a n (timeout_for env o') trace) (\<lambda>stop.
                  case stop of
                    Some final \<Rightarrow> record_outcome (plain_outcome cid None final False None None)
                  | None \<Rightarrow> bus_attempt env rd op c a (timeout_for env o') trace)))"

definition bus_dispatch :: "'p bus_env \<Rightarrow> bus_reading \<Rightarrow> string \<Rightarrow> uuid \<Rightarrow> nat \<Rightarrow> (string, string) dict option
    \<Rightarrow> ('p world, dispatch_outcome) prog" where
  "bus_dispatch env rd tenant cid outbox_attempt trace =
     bindE (catchE (bindE (on_ledger (store_get tenant cid)) (\<lambda>op. retE (Some op)))
             (\<lambda>e. if exc_class e = CommandNotFound then retE None else reraiseE e)) (\<lambda>found.
     case found of
       None \<Rightarrow> record_outcome (plain_outcome cid None ''missing'' False None None)
     | Some op \<Rightarrow>
       if co_state op \<in> set [Completed, Failed, DeadLettered, Cancelled]
       then record_outcome (plain_outcome cid None (state_str (co_state op)) False None None)
       else bindE (on_ledger (load_envelope (be_host env) tenant cid))
              (dispatch_loaded env rd op cid outbox_attempt trace))"

subsection \<open>The outbox handler\<close>

record outbox_record =
  or_id :: nat
  or_tenant_id :: string
  or_destination :: string
  or_event_type :: string
  or_idempotency_key :: string
  or_payload :: json_object
  or_attempt_count :: nat
  or_fencing_token :: nat

definition command_id_of :: "json_object \<Rightarrow> uuid option" where
  "command_id_of payload = (case map_of payload ''command_id'' of Some (JStr s) \<Rightarrow> uuid_parse s | _ \<Rightarrow> None)"

definition trace_of :: "json_object \<Rightarrow> (string, string) dict option" where
  "trace_of payload = (case map_of payload ''_trace'' of
     Some (JObj kvs) \<Rightarrow> Some (map (\<lambda>(k, v). (k, json_str v)) kvs) | _ \<Rightarrow> None)"

definition bus_handle :: "'p bus_env \<Rightarrow> bus_reading \<Rightarrow> outbox_record \<Rightarrow> ('p world, unit) prog" where
  "bus_handle env rd rec =
     (if or_destination rec \<noteq> ADAPTER_COMMAND_DESTINATION
      then raiseE KnownSafeRetryError (''unexpected destination '' @ or_destination rec)
      else (case command_id_of (or_payload rec) of
              None \<Rightarrow> retE ()
            | Some cid \<Rightarrow> thenE (bus_dispatch env rd (or_tenant_id rec) cid (or_attempt_count rec)
                (trace_of (or_payload rec))) (retE ())))"

end
