(* ===== verification/Dispatch_Guarantees.thy ===== *)
theory Dispatch_Guarantees
  imports Execution_Bus
begin

text \<open>
  What one dispatch of the execution bus guarantees, whatever the adapter answers and whatever
  operators, other workers and the reconciler do to the ledger while it waits: its effect on
  the ledger is a run of ledger steps, it executes at most once and only under an attempt it
  has just opened, it completes a command only on a matched read-back, and the exception it
  leaves with tells the outbox worker the truth about the ledger.
\<close>

subsection \<open>Interference and calm programs\<close>

definition honest_others :: "host \<Rightarrow> 'p bus_env \<Rightarrow> bool" where
  "honest_others h env \<longleftrightarrow> be_host env = h \<and> (\<forall>site st. run (ledger_step h) st (be_others env site st))"

text \<open>Since a moment of the past the ledger has made steps and nothing was executed.\<close>

definition calm :: "host \<Rightarrow> command_store \<Rightarrow> (string \<times> uuid \<times> nat) list \<Rightarrow> 'p world \<Rightarrow> bool" where
  "calm h st0 es w \<longleftrightarrow> run (ledger_step h) st0 (w_store w) \<and> w_executions w = es"

definition opened_since :: "command_store \<Rightarrow> op_key \<Rightarrow> nat \<Rightarrow> command_store \<Rightarrow> bool" where
  "opened_since st0 key k st \<longleftrightarrow> entry_at st key \<noteq> None
     \<and> dispatches (events_at st0 key) < k \<and> k \<le> dispatches (events_at st key)"

text \<open>Since then at most one execution was made, under an attempt opened since.\<close>

definition executed_once :: "host \<Rightarrow> command_store \<Rightarrow> (string \<times> uuid \<times> nat) list \<Rightarrow> op_key \<Rightarrow> 'p world \<Rightarrow> bool" where
  "executed_once h st0 es key w \<longleftrightarrow> run (ledger_step h) st0 (w_store w)
     \<and> (w_executions w = es
        \<or> (\<exists>k. w_executions w = es @ [(fst key, snd key, k)] \<and> opened_since st0 key k (w_store w)))"

lemma run_trans: "run step t u \<Longrightarrow> run step s t \<Longrightarrow> run step s u"
  by (induction rule: run.induct) (auto intro: run_step)

lemma run_one: "step s t \<Longrightarrow> run step s t"
  by (rule run_step [OF run_refl])

lemma dispatches_append: "dispatches (xs @ ys) = dispatches xs + dispatches ys"
  by (simp add: dispatches_def)

lemma run_keeps_entry:
  assumes "run (ledger_step h) st st'" and "entry_at st key \<noteq> None"
  shows "entry_at st' key \<noteq> None" and "dispatches (events_at st key) \<le> dispatches (events_at st' key)"
proof -
  obtain d op where "entry_at st key = Some (d, op)" using assms(2) by auto
  then have "entry_grows st st' key d op" by (rule run_entry_grows [OF assms(1)])
  then show "entry_at st' key \<noteq> None" "dispatches (events_at st key) \<le> dispatches (events_at st' key)"
    by (auto simp: entry_grows_def dispatches_append)
qed

subsection \<open>Pieces that do not execute\<close>

lemma ledger_reads [simp]:
  "snd (store_get t c st) = st" "snd (latest_attempt t c st) = st" "snd (load_envelope h t c st) = st"
  by (auto simp: store_get_def latest_attempt_def load_envelope_def prog_defs split: option.splits)

text \<open>
  What the pieces of the bus do to the world, as an interface: a property that transitions,
  dead letters and suspensions keep, and that only looks at the ledger and the execution log,
  is kept by every piece that does not execute.
\<close>

locale bus_stable =
  fixes env :: "'p bus_env" and I :: "'p world \<Rightarrow> bool"
  assumes on_transition: "keeps I (bus_transition env now op ns r pid ev x)"
    and on_dead_letter: "keeps I (on_ledger (record_dead_letter now t c rc ec tr po ex))"
    and on_call: "I w \<Longrightarrow> I (w\<lparr>w_provider := p, w_store := be_others env site (w_store w)\<rparr>)"
    and on_local: "I w \<Longrightarrow> w_store w' = w_store w \<Longrightarrow> w_executions w' = w_executions w \<Longrightarrow> I w'"
begin

lemma read: "(\<And>st. snd (m st) = st) \<Longrightarrow> keeps I (on_ledger m)"
proof (rule keepsI)
  fix w :: "'p world"
  assume "\<And>st. snd (m st) = st" and "I w"
  moreover have "snd (on_ledger m w) = w\<lparr>w_store := snd (m (w_store w))\<rparr>"
    by (simp add: on_ledger_def zoomE_def split_beta)
  ultimately show "I (snd (on_ledger m w))" using on_local by simp
qed

lemma terminal: "keeps I (terminal_dead_letter now op r)"
  unfolding terminal_dead_letter_def by (rule on_dead_letter)

lemma outcome_recorded: "keeps I (record_outcome oc)"
  by (rule keepsI) (auto simp: record_outcome_def prog_defs intro: on_local)

lemma breaker: "keeps I (on_breaker env' aid m)"
  by (rule keepsI) (auto simp: on_breaker_def zoomE_def split: prod.splits intro: on_local)

lemma call: "keeps I (provider_call env site m)"
  by (rule keepsI) (auto simp: provider_call_def split: prod.splits intro: on_call)

lemmas rules = keeps_rules read on_transition on_dead_letter terminal outcome_recorded breaker call

lemma fail: "keeps I (bus_fail env now op r k retryable)"
  unfolding bus_fail_def by (intro rules) simp_all

lemma observed: "keeps I (observe env site a op x pending deep)"
  unfolding observe_def status_readback_def by (intro rules)

lemma readback: "keeps I (bus_readback env now op a x k)"
  unfolding bus_readback_def Let_def by (intro rules observed)

lemma finalize: "keeps I (bus_finalize env rd op a k x result)"
  unfolding bus_finalize_def Let_def
  by (cases "ar_outcome result"; simp only: outcome.case) (intro rules fail readback; simp)+

lemma recover: "keeps I (bus_recover env rd op c a tmo tr)"
  unfolding bus_recover_def by (intro rules readback) simp_all

lemma gatekeep: "keeps I (bus_gatekeep env rd op c a n tmo tr)"
  unfolding bus_gatekeep_def by (intro rules fail)

end

text \<open>With a property that also ignores the execution log, the whole handler is covered.\<close>

locale bus_stable_log = bus_stable +
  assumes on_log: "I w \<Longrightarrow> I (w\<lparr>w_executions := es\<rparr>)"
begin

lemma any_world: "I w \<Longrightarrow> w_store w' = w_store w \<Longrightarrow> I w'"
  using on_local [OF on_log [of w "w_executions w'"], of w'] by simp

lemma bulkhead: "keeps I m \<Longrightarrow> keeps I (bulkhead_run env' rd aid m)"
proof (rule keepsI)
  fix w :: "'a world"
  assume m: "keeps I m" and w: "I w"
  have "I (snd (m (w\<lparr>w_bulkheads := b\<rparr>)))" for b
    by (rule keepsD [OF m any_world [OF w]]) simp
  then have "m (w\<lparr>w_bulkheads := b\<rparr>) = (r, w') \<Longrightarrow> I w'" for b r w' by (metis snd_conv)
  moreover have "I w' \<Longrightarrow> I (w'\<lparr>w_bulkheads := b\<rparr>)" for w' b by (erule any_world) simp
  ultimately show "I (snd (bulkhead_run env' rd aid m w))"
    using w by (auto simp: bulkhead_run_def set_bulkhead_def split: sum.splits prod.splits option.splits)
qed

lemma execute: "keeps I (bus_execute env rd a c op k x)"
  unfolding bus_execute_def execute_logged_def
  by (intro rules bulkhead fail) (auto intro: on_log)

lemma attempt: "keeps I (bus_attempt env rd op c a tmo tr)"
  unfolding bus_attempt_def by (intro rules execute finalize) simp_all

lemma loaded: "keeps I (dispatch_loaded env rd op cid n tr c)"
  unfolding dispatch_loaded_def
  by (auto intro!: rules fail recover gatekeep attempt split: sum.split)

lemma dispatch: "keeps I (bus_dispatch env rd t cid n tr)"
  unfolding bus_dispatch_def by (intro rules loaded) simp_all

lemma handle: "keeps I (bus_handle env rd rec)"
  unfolding bus_handle_def by (intro rules dispatch)

end

text \<open>
  A property of worlds that ledger runs keep as long as nothing executes, under honest
  interference: an instance of the interface.
\<close>

locale ledger_stable =
  fixes h :: host and I :: "'p world \<Rightarrow> bool"
  assumes stable: "I w \<Longrightarrow> run (ledger_step h) (w_store w) (w_store w') \<Longrightarrow> w_executions w' = w_executions w \<Longrightarrow> I w'"
begin

lemma same_world: "I w \<Longrightarrow> w_store w' = w_store w \<Longrightarrow> w_executions w' = w_executions w \<Longrightarrow> I w'"
  by (erule stable) (simp_all add: run_refl)

lemma keeps_on_ledger: "(\<And>st. run (ledger_step h) st (snd (m st))) \<Longrightarrow> keeps I (on_ledger m)"
proof (rule keepsI)
  fix w :: "'p world"
  assume "\<And>st. run (ledger_step h) st (snd (m st))" and "I w"
  from this(1) [of "w_store w"] show "I (snd (on_ledger m w))"
    by (auto simp: on_ledger_def zoomE_def split: prod.splits intro: stable [OF \<open>I w\<close>])
qed

lemma keeps_transition: "be_host env = h \<Longrightarrow> keeps I (bus_transition env now op ns r pid ev x)"
  unfolding bus_transition_def by (rule keeps_on_ledger) (auto intro!: run_one ls_op to_transition)

lemma keeps_dead_letter: "keeps I (on_ledger (record_dead_letter now t c rc ec tr po ex))"
  by (rule keeps_on_ledger) (auto intro!: run_one ls_op to_dead_letter)

text \<open>Without suspensions the environment does not matter; with them it must be honest.\<close>

lemma bus_alone: "be_host env = h \<Longrightarrow> bus_stable (env\<lparr>be_others := \<lambda>_ st. st\<rparr>) I"
  by unfold_locales
    (auto simp: bus_transition_def intro: keeps_on_ledger keeps_dead_letter same_world intro!: run_one ls_op to_transition)

lemma bus: "honest_others h env \<Longrightarrow> bus_stable env I"
  by unfold_locales
    (auto simp: honest_others_def intro: keeps_transition keeps_dead_letter same_world stable)

lemma keeps_read: "(\<And>st. snd (m st) = st) \<Longrightarrow> keeps I (on_ledger m)"
  by (rule keeps_on_ledger) (simp add: run_refl)

lemma keeps_record: "keeps I (record_outcome oc)"
  by (rule keepsI) (auto simp: record_outcome_def prog_defs intro: same_world)

lemma keeps_breaker: "keeps I (on_breaker env aid m)"
  by (rule keepsI) (auto simp: on_breaker_def zoomE_def split: prod.splits intro: same_world)

lemma keeps_fail:
  assumes "be_host env = h"
  shows "keeps I (bus_fail env now op r k retryable)"
proof -
  have "bus_transition (env\<lparr>be_others := \<lambda>_ st. st\<rparr>) = bus_transition env"
    by (intro ext) (simp add: bus_transition_def)
  then have "bus_fail (env\<lparr>be_others := \<lambda>_ st. st\<rparr>) now op r k retryable = bus_fail env now op r k retryable"
    by (simp only: bus_fail_def)
  with bus_stable.fail [OF bus_alone [OF assms]] show ?thesis by metis
qed

lemmas keeps_provider = bus_stable.call [OF bus] and keeps_observe = bus_stable.observed [OF bus]
  and keeps_readback = bus_stable.readback [OF bus] and keeps_finalize = bus_stable.finalize [OF bus]
  and keeps_recover = bus_stable.recover [OF bus] and keeps_gatekeep = bus_stable.gatekeep [OF bus]

lemmas piece_rules = keeps_rules keeps_read keeps_transition keeps_dead_letter keeps_record keeps_breaker keeps_provider

end

interpretation calm: ledger_stable h "calm h st0 es" for h st0 es
  by unfold_locales (auto simp: calm_def intro: run_trans)

interpretation inv: ledger_stable h "\<lambda>w. ledger_inv h (w_store w)" for h
  by unfold_locales (auto intro: ldg.run_inv)

lemma opened_since_run: "opened_since st0 key k st \<Longrightarrow> run (ledger_step h) st st' \<Longrightarrow> opened_since st0 key k st'"
  using run_keeps_entry [of h st st' key] by (auto simp: opened_since_def)

interpretation once: ledger_stable h "executed_once h st0 es key" for h st0 es key
  by unfold_locales (auto simp: executed_once_def intro: run_trans opened_since_run)

subsection \<open>The worker transition\<close>

definition sample_bus_env :: "fixture bus_env" where
  "sample_bus_env = \<lparr>be_host = sample_host, be_registry = sample_registry, be_settings = default_bus_settings,
     be_worker_id = ''worker-1'', be_source_sha = ''sha'', be_others = (\<lambda>_ st. st)\<rparr>"

definition sample_bus_reading :: bus_reading where
  "sample_bus_reading = \<lparr>bd_now = 200, bd_later = 201, bd_admit_clock = 0, bd_record_clock = 0, bd_waited = 0, bd_safety_id = ''s''\<rparr>"

definition sample_world :: "fixture world" where
  "sample_world = \<lparr>w_store = sample_store, w_provider = new_fixture, w_gate = sample_gate, w_breakers = [], w_bulkheads = [],
     w_last_outcome = None, w_executions = [], w_processed = [], w_resolutions = [], w_audit = no_audit\<rparr>"

definition sample_op :: command_operation where
  "sample_op = new_operation sample_envelope 100"

definition settled :: "op_key \<Rightarrow> command_operation \<Rightarrow> command_store \<Rightarrow> bool" where
  "settled key op st \<longleftrightarrow> (\<exists>d. entry_at st key = Some (d, op)) \<and> key = (co_tenant_id op, co_command_id op)"

lemma store_transition_InrD:
  assumes "store_transition h now t c ns a r p ev x st = (Inr op', st')"
  shows "\<exists>d op. entry_at st (t, c) = Some (d, op) \<and> ns \<in> set (ALLOWED_COMMAND_TRANSITIONS (co_state op))
    \<and> (x \<noteq> None \<and> ns \<noteq> Dispatching \<longrightarrow> length (attempts_at st (t, c)) = the x)
    \<and> entry_at st' (t, c) = Some (d, op') \<and> same_identity op op' \<and> co_state op' = ns
    \<and> (ev \<noteq> None \<longrightarrow> co_readback_evidence op' = ev)
    \<and> length (attempts_at st' (t, c)) = length (attempts_at st (t, c)) + (if ns = Dispatching then 1 else 0)"
proof -
  let ?bad = "(ev \<noteq> None \<and> ns \<notin> set [Completed, ReconciliationRequired]) \<or> entry_at st (t, c) = None
    \<or> (x \<noteq> None \<and> ns \<noteq> Dispatching \<and> length (attempts_at st (t, c)) \<noteq> the x)
    \<or> ns \<notin> set (ALLOWED_COMMAND_TRANSITIONS (co_state (snd (the (entry_at st (t, c))))))"
  have ok: "\<not> ?bad" using store_transition_rejects [where h = h and now = now and a = a and r = r and p = p] assms
    by (metis fst_conv sum.distinct(1))
  then obtain d op where e: "entry_at st (t, c) = Some (d, op)" by auto
  have pre: "ev \<noteq> None \<Longrightarrow> ns \<in> set [Completed, ReconciliationRequired]"
    "x \<noteq> None \<Longrightarrow> ns \<noteq> Dispatching \<Longrightarrow> length (attempts_at st (t, c)) = the x"
    "ns \<in> set (ALLOWED_COMMAND_TRANSITIONS (co_state op))"
    using ok e by auto
  note acc = store_transition_accepts [where h = h and now = now and a = a and r = r and p = p and ev = ev and x = x,
      OF pre(1,2) e pre(3)]
  have res: "fst (store_transition h now t c ns a r p ev x st) = Inr op'"
    "snd (store_transition h now t c ns a r p ev x st) = st'" using assms by simp_all
  have "ev \<noteq> None \<longrightarrow> co_readback_evidence op' = ev"
    using assms pre e by (cases ev) (auto simp: store_transition_def Let_def split: if_splits)
  moreover have "length (attempts_at st' (t, c)) = length (attempts_at st (t, c)) + (if ns = Dispatching then 1 else 0)"
    using arg_cong [where f = length, OF acc(5)] unfolding res by simp
  ultimately show ?thesis using acc(1,2) e pre unfolding res by (auto simp: entry_at_def)
qed

lemma store_transition_Inl:
  "store_transition h now t c ns a r p ev x st = (Inl e, st') \<Longrightarrow> exc_class e \<in> {CommandConflict, CommandNotFound} \<and> st' = st"
  by (auto simp: store_transition_def not_found_def Let_def split: if_splits option.splits prod.splits)

lemma inv_settled: "ledger_inv h st \<Longrightarrow> entry_at st (t, c) = Some (d, op) \<Longrightarrow> settled (t, c) op st"
  by (auto simp: settled_def dest: ledger_inv_entry simp: entry_inv_def)

lemma inv_attempts:
  "ledger_inv h st \<Longrightarrow> entry_at st key \<noteq> None \<Longrightarrow> length (attempts_at st key) = dispatches (events_at st key)"
  by (auto dest!: ledger_inv_entry simp: entry_inv_def dest!: arg_cong [of _ _ length] simp del: upt_Suc)

subsection \<open>At most one execution, under a fresh attempt\<close>

lemma onLedgerD: "on_ledger m w = (r, w') \<Longrightarrow> m (w_store w) = (r, w_store w') \<and> w' = w\<lparr>w_store := w_store w'\<rparr>"
  by (auto simp: on_ledger_def zoomE_def split: prod.splits)

lemma latest_attemptD: "latest_attempt t c st = (Inr k, st') \<Longrightarrow> k = length (attempts_at st (t, c)) \<and> st' = st"
  by (auto simp: latest_attempt_def store_get_def prog_defs split: option.splits)

lemma execute_logged_once:
  assumes "honest_others h env" and "key = (co_tenant_id op, co_command_id op)"
  shows "hoare (\<lambda>w. calm h st0 es w \<and> opened_since st0 key k (w_store w)) (execute_logged env a c op k x)
    (\<lambda>_. executed_once h st0 es key) (\<lambda>_. executed_once h st0 es key)"
  unfolding execute_logged_def
  by (rule hoare_then [OF once.keeps_provider [OF assms(1), unfolded keeps_def]])
    (auto simp: hoare_def modifyE_def calm_def executed_once_def assms(2))

lemma bulkhead_run_once:
  assumes "hoare (\<lambda>w. calm h st0 es w \<and> opened_since st0 key k (w_store w)) m
    (\<lambda>_. executed_once h st0 es key) (\<lambda>_. executed_once h st0 es key)"
  shows "hoare (\<lambda>w. calm h st0 es w \<and> opened_since st0 key k (w_store w)) (bulkhead_run env rd aid m)
    (\<lambda>_. executed_once h st0 es key) (\<lambda>_. executed_once h st0 es key)"
proof -
  have set_bh: "executed_once h st0 es key w \<Longrightarrow> executed_once h st0 es key (set_bulkhead aid f w)" for f and w :: "'a world"
    by (auto simp: set_bulkhead_def executed_once_def split: option.splits)
  have start: "calm h st0 es w \<Longrightarrow> calm h st0 es (w\<lparr>w_bulkheads := b\<rparr>)" for b and w :: "'a world"
    by (simp add: calm_def)
  have none: "calm h st0 es w \<Longrightarrow> executed_once h st0 es key w" for w :: "'a world"
    by (simp add: calm_def executed_once_def)
  show ?thesis
  proof (rule hoareI)
    fix w and r :: 'b and w'
    assume "calm h st0 es w \<and> opened_since st0 key k (w_store w)" "bulkhead_run env rd aid m w = (Inr r, w')"
    then show "executed_once h st0 es key w'"
      by (auto simp: bulkhead_run_def split: sum.splits prod.splits intro!: set_bh start
          intro: hoareD_ret [OF assms])
  next
    fix w e w'
    assume "calm h st0 es w \<and> opened_since st0 key k (w_store w)" "bulkhead_run env rd aid m w = (Inl e, w')"
    then show "executed_once h st0 es key w'"
      by (auto simp: bulkhead_run_def split: sum.splits prod.splits intro!: set_bh start
          intro: hoareD_exc [OF assms] none)
  qed
qed

lemma bus_execute_once:
  assumes "honest_others h env" and "key = (co_tenant_id op, co_command_id op)"
  shows "hoare (\<lambda>w. calm h st0 es w \<and> opened_since st0 key k (w_store w)) (bus_execute env rd a c op k x)
    (\<lambda>_. executed_once h st0 es key) (\<lambda>_. executed_once h st0 es key)"
proof -
  have host: "be_host env = h" using assms(1) by (simp add: honest_others_def)
  have tail: "hoare (executed_once h st0 es key) (thenE (bus_fail env now op r (Some k) True) (raiseE cl tx))
      (\<lambda>_. executed_once h st0 es key) (\<lambda>_. executed_once h st0 es key)" for now r cl tx
    using keeps_then [OF once.keeps_fail [OF host] keeps_raise] by (simp only: keeps_def)
  show ?thesis
    unfolding bus_execute_def
  proof (rule hoare_catch [where R = "\<lambda>_. executed_once h st0 es key"])
    show "hoare (executed_once h st0 es key)
        (if exc_class e = BulkheadFull then thenE (bus_fail env (bd_later rd) op (''bulkhead saturated: '' @ exc_text e)
          (Some k) True) (raiseE KnownSafeRetryError (exc_text e)) else retE (classified_result a e))
        (\<lambda>_. executed_once h st0 es key) (\<lambda>_. executed_once h st0 es key)" for e
      using tail by (cases "exc_class e = BulkheadFull") (simp_all add: hoare_def retE_def)
  qed (rule hoare_bind [OF _ bulkhead_run_once [OF execute_logged_once [OF assms]]], rule hoare_ret)
qed

lemma open_attempt:
  assumes "be_host env = h" and inv: "ledger_inv h st0" and e0: "entry_at st0 key \<noteq> None"
    and key: "key = (co_tenant_id op, co_command_id op)"
  shows "hoare (calm h st0 es) (bus_transition env now op Dispatching r None None None)
    (\<lambda>op' w. calm h st0 es w \<and> key = (co_tenant_id op', co_command_id op')
       \<and> opened_since st0 key (length (attempts_at (w_store w) key)) (w_store w))
    (\<lambda>_. calm h st0 es)"
proof (rule hoareI)
  fix w :: "'a world" and op' w'
  assume c: "calm h st0 es w" and t: "bus_transition env now op Dispatching r None None None w = (Inr op', w')"
  have k: "calm h st0 es w'" using hoareD_ret [OF calm.keeps_transition [OF assms(1), unfolded keeps_def] c t] .
  have runs: "run (ledger_step h) st0 (w_store w)" "run (ledger_step h) st0 (w_store w')"
    using c k by (simp_all add: calm_def)
  have invs: "ledger_inv h (w_store w)" "ledger_inv h (w_store w')" using ldg.run_inv runs inv by blast+
  have "store_transition h now (fst key) (snd key) Dispatching (be_worker_id env) r None None None (w_store w)
      = (Inr op', w_store w')"
    using onLedgerD [OF t [unfolded bus_transition_def]] assms(1) key by simp
  from store_transition_InrD [OF this] obtain d op0 where
    e: "entry_at (w_store w) key = Some (d, op0)" "entry_at (w_store w') key = Some (d, op')"
    and len: "length (attempts_at (w_store w') key) = Suc (length (attempts_at (w_store w) key))" by auto
  have "dispatches (events_at st0 key) \<le> length (attempts_at (w_store w) key)"
    using run_keeps_entry(2) [OF runs(1) e0] inv_attempts [OF invs(1), of key] e(1) by simp
  then have "opened_since st0 key (length (attempts_at (w_store w') key)) (w_store w')"
    unfolding opened_since_def using e(2) len inv_attempts [OF invs(2), of key] by simp
  with k ledger_inv_entry [OF invs(2) e(2)]
  show "calm h st0 es w' \<and> key = (co_tenant_id op', co_command_id op')
      \<and> opened_since st0 key (length (attempts_at (w_store w') key)) (w_store w')"
    by (simp add: entry_inv_def)
qed (rule hoareD_exc [OF calm.keeps_transition [OF assms(1), unfolded keeps_def]])

lemma read_attempt:
  "hoare (\<lambda>w. calm h st0 es w \<and> P \<and> opened_since st0 (t, c) (length (attempts_at (w_store w) (t, c))) (w_store w))
    (on_ledger (latest_attempt t c))
    (\<lambda>k w. P \<and> calm h st0 es w \<and> opened_since st0 (t, c) k (w_store w)) (\<lambda>_. calm h st0 es)"
proof (rule hoareI)
  fix w :: "'a world" and k w'
  assume P: "calm h st0 es w \<and> P \<and> opened_since st0 (t, c) (length (attempts_at (w_store w) (t, c))) (w_store w)"
    and r: "on_ledger (latest_attempt t c) w = (Inr k, w')"
  note d = onLedgerD [OF r] and l = latest_attemptD [OF conjunct1 [OF onLedgerD [OF r]]]
  have "w' = w" using d l by (metis old.unit.exhaust world.surjective world.update_convs(1))
  with P l show "P \<and> calm h st0 es w' \<and> opened_since st0 (t, c) k (w_store w')" by simp
next
  fix w :: "'a world" and e w'
  assume P: "calm h st0 es w \<and> P \<and> opened_since st0 (t, c) (length (attempts_at (w_store w) (t, c))) (w_store w)"
    and r: "on_ledger (latest_attempt t c) w = (Inl e, w')"
  have "keeps (calm h st0 es) (on_ledger (latest_attempt t c) :: ('a world, nat) prog)"
    by (rule calm.keeps_read) simp
  with P r show "calm h st0 es w'" using keepsD by fastforce
qed

lemma calm_once: "calm h st0 es w \<Longrightarrow> executed_once h st0 es key w"
  by (simp add: calm_def executed_once_def)

lemma bus_attempt_once:
  assumes hon: "honest_others h env" and "ledger_inv h st0" and "entry_at st0 key \<noteq> None"
    and key: "key = (co_tenant_id op, co_command_id op)"
  shows "hoare (calm h st0 es) (bus_attempt env rd op c a tmo tr)
    (\<lambda>_. executed_once h st0 es key) (\<lambda>_. executed_once h st0 es key)"
proof -
  have host: "be_host env = h" using hon by (simp add: honest_others_def)
  let ?O = "executed_once h st0 es key"
  have run_it: "hoare (\<lambda>w. key = (co_tenant_id op', co_command_id op') \<and> calm h st0 es w \<and> opened_since st0 key k (w_store w))
      (bindE (getsE (\<lambda>w. dispatch_context env w op' k tmo tr (ce_payload c))) (\<lambda>x.
       bindE (bus_execute env rd a c op' k x) (\<lambda>result. bus_finalize env rd op' a k x result)))
      (\<lambda>_. ?O) (\<lambda>_. ?O)" for op' k
  proof (cases "key = (co_tenant_id op', co_command_id op')")
    case True
    show ?thesis
      by (rule hoare_pre, rule hoare_bind [OF hoare_bind [OF once.keeps_finalize [OF hon, unfolded keeps_def]
            bus_execute_once [OF hon True]] hoare_gets]) blast
  qed (simp add: hoare_def)
  have first: "keeps (calm h st0 es) (if co_state op = Persisted
      then thenE (bus_transition env now op Queued r None None None) (retE ()) else retE ())" for now r
    by (intro calm.piece_rules host)
  show ?thesis
    unfolding bus_attempt_def
  proof (rule hoare_then)
    show "hoare (calm h st0 es)
       (bindE (bus_transition env (bd_now rd) op Dispatching (''attempt via adapter '' @ ad_adapter_id a) None None None) (\<lambda>op'.
        bindE (on_ledger (latest_attempt (co_tenant_id op) (co_command_id op))) (\<lambda>attempt.
        bindE (getsE (\<lambda>w. dispatch_context env w op' attempt tmo tr (ce_payload c))) (\<lambda>x.
        bindE (bus_execute env rd a c op' attempt x) (\<lambda>result. bus_finalize env rd op' a attempt x result)))))
       (\<lambda>_. ?O) (\<lambda>_. ?O)"
    proof (rule hoare_bind [OF hoare_bind [OF run_it]])
      show "hoare (\<lambda>w. calm h st0 es w \<and> key = (co_tenant_id op', co_command_id op')
            \<and> opened_since st0 key (length (attempts_at (w_store w) key)) (w_store w))
          (on_ledger (latest_attempt (co_tenant_id op) (co_command_id op)))
          (\<lambda>k w. key = (co_tenant_id op', co_command_id op') \<and> calm h st0 es w \<and> opened_since st0 key k (w_store w))
          (\<lambda>_. ?O)" for op'
        unfolding key by (rule hoare_weaken [OF read_attempt]) (assumption, assumption, erule calm_once)
    qed (rule hoare_weaken [OF open_attempt [OF host assms(2,3) key]], assumption, assumption, erule calm_once)
  qed (rule hoare_weaken [OF first [unfolded keeps_def]], assumption, assumption, erule calm_once)
qed

subsection \<open>One dispatch\<close>

definition finished :: "command_state \<Rightarrow> bool" where
  "finished s \<longleftrightarrow> s \<in> set [Completed, Failed, DeadLettered, Cancelled]"

lemma bus_dispatch_missing:
  "entry_at (w_store w) (t, cid) = None \<Longrightarrow>
   bus_dispatch env rd t cid n tr w = record_outcome (plain_outcome cid None ''missing'' False None None) w"
  by (simp add: bus_dispatch_def on_ledger_def store_get_def not_found_def prog_defs)

lemma bus_dispatch_finished:
  "entry_at (w_store w) (t, cid) = Some (d, op) \<Longrightarrow> finished (co_state op) \<Longrightarrow>
   bus_dispatch env rd t cid n tr w = record_outcome (plain_outcome cid None (state_str (co_state op)) False None None) w"
  by (simp add: bus_dispatch_def on_ledger_def store_get_def finished_def prog_defs)

lemma bus_dispatch_open:
  "entry_at (w_store w) (t, cid) = Some (d, op) \<Longrightarrow> \<not> finished (co_state op) \<Longrightarrow>
   bus_dispatch env rd t cid n tr w =
     bindE (on_ledger (load_envelope (be_host env) t cid)) (dispatch_loaded env rd op cid n tr) w"
  by (simp add: bus_dispatch_def on_ledger_def store_get_def finished_def catchE_def bindE_def
      thenE_def retE_def zoomE_def)

lemma dispatch_loaded_once:
  assumes hon: "honest_others h env" and "ledger_inv h st0" and "entry_at st0 key \<noteq> None"
    and key: "key = (co_tenant_id op, co_command_id op)"
  shows "hoare (calm h st0 es) (dispatch_loaded env rd op cid n tr c)
    (\<lambda>_. executed_once h st0 es key) (\<lambda>_. executed_once h st0 es key)"
proof -
  have host: "be_host env = h" using hon by (simp add: honest_others_def)
  have quiet: "keeps (calm h st0 es) m \<Longrightarrow> hoare (calm h st0 es) m
      (\<lambda>_. executed_once h st0 es key) (\<lambda>_. executed_once h st0 es key)" for m :: "('a world, dispatch_outcome) prog"
    unfolding keeps_def by (erule hoare_weaken) (auto intro: calm_once)
  show ?thesis
  proof (cases "ownership_of (be_registry env) (ce_command_type c)")
    case None
    then show ?thesis unfolding dispatch_loaded_def by (auto intro!: quiet calm.piece_rules calm.keeps_fail host)
  next
    case (Some o')
    note o = this
    show ?thesis
    proof (cases "registry_adapter (be_registry env) (ow_adapter_id o')")
      case (Inl e)
      with o show ?thesis unfolding dispatch_loaded_def by (auto intro!: quiet calm.piece_rules)
    next
      case (Inr a)
      have attempt: "hoare (calm h st0 es)
          (bindE (bus_gatekeep env rd op c a n (timeout_for env o') tr) (\<lambda>stop.
             case stop of Some final \<Rightarrow> record_outcome (plain_outcome cid None final False None None)
             | None \<Rightarrow> bus_attempt env rd op c a (timeout_for env o') tr))
          (\<lambda>_. executed_once h st0 es key) (\<lambda>_. executed_once h st0 es key)"
      proof (rule hoare_bind)
        show "hoare (calm h st0 es) (case stop of Some final \<Rightarrow> record_outcome (plain_outcome cid None final False None None)
             | None \<Rightarrow> bus_attempt env rd op c a (timeout_for env o') tr)
          (\<lambda>_. executed_once h st0 es key) (\<lambda>_. executed_once h st0 es key)" for stop
          by (cases stop) (simp_all add: quiet calm.keeps_record bus_attempt_once [OF assms])
      qed (rule hoare_weaken [OF calm.keeps_gatekeep [OF hon, unfolded keeps_def]], assumption, assumption, erule calm_once)
      show ?thesis
        unfolding dispatch_loaded_def o Inr option.case sum.case
        by (auto intro!: quiet attempt calm.piece_rules calm.keeps_fail calm.keeps_recover hon host)
    qed
  qed
qed

text \<open>A dispatch that finds an attempt already open, or nothing to do, executes nothing.\<close>

lemma dispatch_loaded_recovery:
  assumes hon: "honest_others h env" and "co_state op \<in> set [Dispatching, Accepted, ReadbackPending]"
  shows "keeps (calm h st0 es) (dispatch_loaded env rd op cid n tr c)"
proof -
  have host: "be_host env = h" using hon by (simp add: honest_others_def)
  show ?thesis
    unfolding dispatch_loaded_def using assms(2)
    by (auto intro!: calm.piece_rules calm.keeps_fail calm.keeps_recover hon host split: sum.split)
qed

lemma dispatch_open_once:
  assumes hon: "honest_others h env" and inv: "ledger_inv h (w_store w)"
    and e: "entry_at (w_store w) (t, cid) = Some (d, op)" and open_op: "\<not> finished (co_state op)"
  shows "executed_once h (w_store w) (w_executions w) (t, cid) (snd (bus_dispatch env rd t cid n tr w))"
    and "co_state op \<in> set [Dispatching, Accepted, ReadbackPending] \<Longrightarrow>
      calm h (w_store w) (w_executions w) (snd (bus_dispatch env rd t cid n tr w))"
proof -
  let ?c = "calm h (w_store w) (w_executions w)" and ?o = "executed_once h (w_store w) (w_executions w) (t, cid)"
  let ?m = "bindE (on_ledger (load_envelope (be_host env) t cid)) (dispatch_loaded env rd op cid n tr) :: ('a world, dispatch_outcome) prog"
  have start: "?c w" by (simp add: calm_def run_refl)
  have key: "(t, cid) = (co_tenant_id op, co_command_id op)"
    using ledger_inv_entry [OF inv e] by (simp add: entry_inv_def)
  have load: "keeps ?c (on_ledger (load_envelope (be_host env) t cid) :: ('a world, command_envelope) prog)"
    by (rule calm.keeps_read) simp
  have "hoare ?c ?m (\<lambda>_. ?o) (\<lambda>_. ?o)"
    by (rule hoare_bind [OF dispatch_loaded_once [OF hon inv _ key]])
      (auto simp: e intro: hoare_weaken [OF load [unfolded keeps_def]] calm_once)
  then show "?o (snd (bus_dispatch env rd t cid n tr w))"
    unfolding bus_dispatch_open [OF e open_op] using start
    by (cases "?m w"; cases "fst (?m w)") (auto simp: hoare_def split: sum.splits prod.splits)
  assume "co_state op \<in> set [Dispatching, Accepted, ReadbackPending]"
  from keeps_bind [OF load dispatch_loaded_recovery [OF hon this]]
  show "?c (snd (bus_dispatch env rd t cid n tr w))"
    unfolding bus_dispatch_open [OF e open_op] using start by (rule keepsD)
qed

lemma record_outcome_calm: "calm h (w_store w) (w_executions w) (snd (record_outcome oc w))"
  by (simp add: record_outcome_def calm_def prog_defs run_refl)

subsection \<open>Dispatches that succeed\<close>

lemma store_transition_run:
  assumes "entry_at st (t, c) = Some (d, op)" "ns \<in> set (ALLOWED_COMMAND_TRANSITIONS (co_state op))"
   "ev \<noteq> None \<longrightarrow> ns \<in> set [Completed, ReconciliationRequired]"
   "x \<noteq> None \<and> ns \<noteq> Dispatching \<longrightarrow> length (attempts_at st (t, c)) = the x"
  shows "\<exists>op' st'. store_transition h now t c ns a r p ev x st = (Inr op', st') \<and> entry_at st' (t, c) = Some (d, op')
    \<and> op' = op\<lparr>co_state := ns, co_provider_operation_id := or_str p (co_provider_operation_id op),
         co_readback_evidence := (if ev \<noteq> None then ev else co_readback_evidence op),
         co_readback_evidence_sha256 := (case ev of Some ev \<Rightarrow> Some (provider_evidence_digest h ev)
                    | None \<Rightarrow> co_readback_evidence_sha256 op),
         co_last_error := (if ns \<in> set [Failed, ReconciliationRequired] then Some r else None), co_updated_at := now\<rparr>
    \<and> length (attempts_at st' (t, c)) = length (attempts_at st (t, c)) + (if ns = Dispatching then 1 else 0)"
proof -
  have ok: "\<not> (ev \<noteq> None \<and> ns \<notin> set [Completed, ReconciliationRequired])"
    "\<not> (x \<noteq> None \<and> ns \<noteq> Dispatching \<and> length (attempts_at st (t, c)) \<noteq> the x)"
    "\<not> ns \<notin> set (ALLOWED_COMMAND_TRANSITIONS (co_state op))"
    using assms by blast+
  show ?thesis unfolding store_transition_def if_not_P [OF ok(1)] assms(1) option.case prod.case
    if_not_P [OF ok(2)] if_not_P [OF ok(3)] Let_def
    by (simp add: entry_at_def  map_last_def)
qed

definition tracked :: "string \<Rightarrow> uuid \<Rightarrow> command_operation \<Rightarrow> nat \<Rightarrow> command_store \<Rightarrow> bool" where
  "tracked t c op n st \<longleftrightarrow> (\<exists>d. entry_at st (t, c) = Some (d, op)) \<and> co_tenant_id op = t \<and> co_command_id op = c
     \<and> length (attempts_at st (t, c)) = n"

lemma succeeds_transition:
  assumes "tracked (co_tenant_id op) (co_command_id op) cur n (w_store w)"
    "ns \<in> set (ALLOWED_COMMAND_TRANSITIONS (co_state cur))"
    "ev \<noteq> None \<longrightarrow> ns \<in> set [Completed, ReconciliationRequired]"
    "x \<noteq> None \<and> ns \<noteq> Dispatching \<longrightarrow> n = the x"
    "\<And>op' st'. tracked (co_tenant_id op) (co_command_id op) op' (n + (if ns = Dispatching then 1 else 0)) st' \<Longrightarrow> co_state op' = ns \<Longrightarrow>
       co_provider_operation_id op' = or_str p (co_provider_operation_id cur) \<Longrightarrow> Q op' (w\<lparr>w_store := st'\<rparr>)"
  shows "succeeds Q (bus_transition env now op ns r p ev x) w"
proof -
  obtain d where e: "entry_at (w_store w) (co_tenant_id op, co_command_id op) = Some (d, cur)"
    and ids: "co_tenant_id cur = co_tenant_id op" "co_command_id cur = co_command_id op"
    and n: "length (attempts_at (w_store w) (co_tenant_id op, co_command_id op)) = n"
    using assms(1) by (auto simp: tracked_def)
  have "x \<noteq> None \<and> ns \<noteq> Dispatching \<longrightarrow> length (attempts_at (w_store w) (co_tenant_id op, co_command_id op)) = the x"
    using assms(4) n by simp
  from store_transition_run [OF e assms(2,3) this, where h = "be_host env" and now = now and a = "be_worker_id env" and r = r and p = p] ids n
  show ?thesis
    unfolding succeeds_def bus_transition_def on_ledger_def zoomE_def
    by (auto intro!: assms(5) simp: tracked_def)
qed

lemma succeeds_attempt:
  "tracked t c op n (w_store w) \<Longrightarrow> Q n w \<Longrightarrow> succeeds Q (on_ledger (latest_attempt t c)) w"
  by (auto simp: succeeds_def tracked_def on_ledger_def latest_attempt_def store_get_def prog_defs)

lemma succeeds_breaker: "(\<And>b. Q () (w\<lparr>w_breakers := b\<rparr>)) \<Longrightarrow> succeeds Q (on_breaker env aid (modifyE f)) w"
  by (auto simp: succeeds_def on_breaker_def prog_defs)

lemma succeeds_record: "Q oc (w\<lparr>w_last_outcome := Some oc\<rparr>) \<Longrightarrow> succeeds Q (record_outcome oc) w"
  by (auto simp: succeeds_def record_outcome_def prog_defs)

lemma readback_completes:
  assumes t: "tracked (co_tenant_id op) (co_command_id op) op k (w_store w)" and s: "co_state op = Accepted"
    and obs: "\<And>op' st. co_tenant_id op' = co_tenant_id op \<Longrightarrow> co_command_id op' = co_command_id op \<Longrightarrow>
      co_provider_operation_id op' = co_provider_operation_id op \<Longrightarrow>
      succeeds (\<lambda>rb w'. rb_status rb = RB_MATCHED \<and> w_store w' = st \<and> w_executions w' = w_executions w)
        (observe env AwReadback a op' x True (ad_readback a op' x)) (w\<lparr>w_store := st\<rparr>)"
  shows "succeeds (\<lambda>rb w'. fst rb = ''completed'' \<and> w_executions w' = w_executions w) (bus_readback env now op a x k) w"
  unfolding bus_readback_def
  apply (rule succeeds_bind, rule succeeds_transition [OF t])
     apply (simp_all add: s)
  subgoal premises prems for op2 st2
  proof -
    have ids: "co_tenant_id op2 = co_tenant_id op" "co_command_id op2 = co_command_id op"
      using prems(1) by (simp_all add: tracked_def)
    have o: "succeeds (\<lambda>rb w'. rb_status rb = RB_MATCHED \<and> w_store w' = st2 \<and> w_executions w' = w_executions w)
        (observe env AwReadback a op2 x True (ad_readback a op2 x)) (w\<lparr>w_store := st2\<rparr>)"
      using obs ids prems(3) by (simp add: or_str_def truthy_def)
    show ?thesis
      apply (rule succeeds_bind, rule succeeds_catch, rule succeeds_weaken [OF o], simp add: Let_def)
      apply (rule succeeds_then, rule succeeds_transition [where cur = op2 and n = k])
      using prems ids by (auto intro: succeeds_ret)
  qed
  done

lemma finalize_completes:
  assumes t: "tracked (co_tenant_id op) (co_command_id op) op k (w_store w)" and d: "co_state op = Dispatching"
    and ack: "acknowledged result"
    and obs: "\<And>op' w'. w_provider w' = w_provider w \<Longrightarrow> co_tenant_id op' = co_tenant_id op \<Longrightarrow>
      co_command_id op' = co_command_id op \<Longrightarrow>
      co_provider_operation_id op' = or_str (ar_provider_operation_id result) (co_provider_operation_id op) \<Longrightarrow>
      succeeds (\<lambda>rb w''. rb_status rb = RB_MATCHED \<and> w_store w'' = w_store w' \<and> w_executions w'' = w_executions w')
        (observe env AwReadback a op' x True (ad_readback a op' x)) w'"
  shows "succeeds (\<lambda>oc w'. do_final_state oc = ''completed'' \<and> do_attempt oc = Some k \<and> w_executions w' = w_executions w)
    (bus_finalize env rd op a k x result) w"
proof -
  let ?Q = "\<lambda>oc w'. do_final_state oc = ''completed'' \<and> do_attempt oc = Some k \<and> w_executions w' = w_executions w"
  have acks: "ar_outcome result = ACCEPTED \<or> ar_outcome result = COMPLETED"
    using ack by (auto simp: acknowledged_def)
  have main: "succeeds ?Q
      (thenE (on_breaker env (ad_adapter_id a) (modifyE br_record_success))
        (bindE (bus_transition env (bd_later rd) op Accepted r (ar_provider_operation_id result) None (Some k)) (\<lambda>accepted.
         bindE (bus_readback env (bd_later rd) accepted a x k) (\<lambda>rb.
           record_outcome (plain_outcome (co_command_id op) (Some k) (fst rb) True (Some result) (Some (snd rb))))))) w" for r
    apply (rule succeeds_then, rule succeeds_breaker, rule succeeds_bind, rule succeeds_transition [where cur = op and n = k])
        apply (simp_all add: t d)
    apply (rule succeeds_bind, rule succeeds_weaken [OF readback_completes])
       apply (auto simp: tracked_def plain_outcome_def intro!: succeeds_record succeeds_weaken [OF obs])
    done
  show ?thesis
    using acks main unfolding bus_finalize_def Let_def by (elim disjE) simp_all
qed

subsection \<open>A sample dispatch\<close>

lemma sample_load: "load_envelope sample_host ''TEST_SYN'' 7 sample_store = (Inr sample_envelope, sample_store)"
proof -
  have "map_of (cs_payloads sample_store) (''TEST_SYN'', 7) = Some (authenticated_command_payload sample_envelope ''middleware-api'')"
    by (simp add: sample_store_def store_submit_def COMMAND_DESTINATIONS_def empty_store_def entry_at_def Let_def
      sample_envelope_def)
  then show ?thesis
    using command_envelope_roundtrip [OF sample_envelope_valid, of "''middleware-api''"] 
    by (simp add: load_envelope_def store_get_def prog_defs sample_store_entry)
qed

lemma sample_adapter: "registry_adapter sample_registry ''test-syn'' = Inr test_syn_adapter"
  by (simp add: sample_registry_def register_adapter_def new_adapter_registry_def make_registry_def
      test_syn_adapter_def fixture_adapter_def fixture_caps_def base_validate_config_def assert_adapter_def
      registry_adapter_def startswith_def Let_def)

lemma test_syn_adapter_simps [simp]:
  "ad_adapter_id test_syn_adapter = ''test-syn''" 
  "ac_connector_ids (ad_capabilities test_syn_adapter) = [''test-syn'']"
  "ac_supports_status (ad_capabilities test_syn_adapter)"
  "ad_readiness test_syn_adapter x f = (Inr \<lparr>rd_ready = fx_ready f, rd_detail = ''fixture''\<rparr>, f)"
  "ad_execute test_syn_adapter c x = fixture_execute ''test-syn'' c x"
  "ad_status test_syn_adapter = fixture_status"
  "ad_readback test_syn_adapter = fixture_readback ''test-syn''"
  "ad_reconcile test_syn_adapter = fixture_reconcile ''test-syn''"
  "ad_normalize_result test_syn_adapter = base_normalize_result"
  "ad_classify_error test_syn_adapter = classify_transport_error"
  by (auto simp: test_syn_adapter_def fixture_adapter_def fixture_caps_def Let_def prog_defs fun_eq_iff)

lemma sample_gatekeep: "bus_gatekeep sample_bus_env sample_bus_reading sample_op sample_envelope test_syn_adapter 1 30 None sample_world
  = (Inr None, sample_world\<lparr>w_breakers := [(''test-syn'', new_breaker ''test-syn'' 5 30 1)]\<rparr>)"
  apply (simp add: bus_gatekeep_def prog_defs provider_call_def safety_allow_iff
    sample_world_def sample_bus_env_def new_fixture_def default_bus_settings_def on_breaker_def breaker_of_def
    br_admit_def new_breaker_def Let_def br_refresh_def)
  apply (simp add: safety_reasons_def capability_reasons_def
        saturation_reasons_def off_reasons_def reason_if_def global_kill_def provider_kill_def gate_of_def
        classification_def sample_gate_def sample_subject_def sample_switches_def sample_op_def new_operation_def sample_envelope_def
  new_gate_def campaign_id_of_def sample_policies_def make_registry_def)
  done

lemma sample_op_simps [simp]:
  "co_tenant_id sample_op = ''TEST_SYN''" "co_command_id sample_op = 7" "co_state sample_op = Persisted"
  "co_provider_operation_id sample_op = None"
  by (simp_all add: sample_op_def new_operation_def sample_envelope_def)

lemma sample_tracked: "tracked ''TEST_SYN'' 7 sample_op 0 sample_store"
proof -
  have "attempts_at sample_store (''TEST_SYN'', 7) = []"
    by (simp add: sample_store_def store_submit_def COMMAND_DESTINATIONS_def empty_store_def entry_at_def Let_def
        sample_envelope_def attempts_at_def)
  with sample_store_entry show ?thesis by (simp add: tracked_def sample_op_def new_operation_def sample_envelope_def)
qed

lemma sample_execute:
  assumes "co_tenant_id op = ''TEST_SYN''" and "co_command_id op = 7" and "w_provider w = new_fixture"
    and "w_bulkheads w = []"
  shows "succeeds (\<lambda>result w'. acknowledged result \<and> w_store w' = w_store w \<and> effects_of (w_provider w') (uuid_str 7) = 1
      \<and> map_of (fx_behaviours (w_provider w')) (uuid_str 7) = Some ''success'' \<and> w_executions w' = w_executions w @ [(''TEST_SYN'', 7, k)])
    (bus_execute sample_bus_env sample_bus_reading test_syn_adapter sample_envelope op k x) w"
  using assms
  by (simp add: succeeds_def bus_execute_def prog_defs bulkhead_run_def bulkhead_of_def execute_logged_def provider_call_def
      fixture_execute_def fixture_behaviour_def fixture_effect_def effects_of_def new_fixture_def sample_envelope_def
      sample_bus_env_def default_bus_settings_def set_bulkhead_def Let_def new_bulkhead_def base_normalize_result_def
      acknowledged_def)

lemma sample_observe:
  assumes "co_command_id op = 7" and "effects_of (w_provider w) (uuid_str 7) = 1"
    and "map_of (fx_behaviours (w_provider w)) (uuid_str 7) = Some ''success''"
  shows "succeeds (\<lambda>rb w'. rb_status rb = RB_MATCHED \<and> w_store w' = w_store w \<and> w_executions w' = w_executions w)
    (observe sample_bus_env AwReadback test_syn_adapter op x True (ad_readback test_syn_adapter op x)) w"
  using assms
  by (auto simp: succeeds_def observe_def status_readback_def provider_call_def fixture_status_def fixture_readback_def
      base_normalize_result_def status_verdict_def adapter_result_of_def sample_bus_env_def prog_defs Let_def)

lemma sample_attempt:
  "w_store w = sample_store \<Longrightarrow> w_provider w = new_fixture \<Longrightarrow> w_bulkheads w = [] \<Longrightarrow>
   succeeds (\<lambda>oc w'. do_final_state oc = ''completed'' \<and> do_attempt oc = Some 1 \<and> w_executions w' = w_executions w @ [(''TEST_SYN'', 7, 1)])
     (bus_attempt sample_bus_env sample_bus_reading sample_op sample_envelope test_syn_adapter 30 None) w"
  unfolding bus_attempt_def sample_op_simps if_P [OF refl]
  apply (rule succeeds_then, rule succeeds_then, rule succeeds_transition [where cur = sample_op and n = 0])
      apply (simp_all add: sample_tracked)
  apply (rule succeeds_ret, rule succeeds_bind)
  subgoal for op1 st1
    apply (rule succeeds_transition [where cur = op1 and n = 0])
        apply (simp_all)
    apply (rule succeeds_bind, rule succeeds_attempt, simp)
    apply (rule succeeds_bind, rule succeeds_gets, rule succeeds_bind)
    subgoal for op2 st2
      apply (rule succeeds_weaken [OF sample_execute])
          apply (simp_all add: tracked_def)
      apply (rule succeeds_weaken [OF finalize_completes])
          apply (auto simp: tracked_def intro!: sample_observe [unfolded test_syn_adapter_simps])
      done
    done
  done

lemma sample_dispatch:
  "succeeds (\<lambda>oc w'. do_final_state oc = ''completed'' \<and> do_attempt oc = Some 1 \<and> w_executions w' = [(''TEST_SYN'', 7, 1)])
     (bus_dispatch sample_bus_env sample_bus_reading ''TEST_SYN'' 7 1 None) sample_world"
proof -
  have e: "entry_at (w_store sample_world) (''TEST_SYN'', 7) =
      Some (authenticated_command_digest sample_host sample_envelope ''middleware-api'', sample_op)"
    by (simp add: sample_world_def sample_store_entry sample_op_def)
  have load: "on_ledger (load_envelope (be_host sample_bus_env) ''TEST_SYN'' 7) sample_world = (Inr sample_envelope, sample_world)"
    by (simp add: on_ledger_def zoomE_def sample_bus_env_def sample_world_def sample_load)
  have ct: "ce_command_type sample_envelope = ''test.syn.ping''" "ce_target sample_envelope = ''test-syn''"
    by (simp_all add: sample_envelope_def)
  have env: "be_registry sample_bus_env = sample_registry" "timeout_for sample_bus_env o' = 30" for o'
    by (simp_all add: sample_bus_env_def timeout_for_def default_bus_settings_def)
  have "succeeds (\<lambda>oc w'. do_final_state oc = ''completed'' \<and> do_attempt oc = Some 1 \<and> w_executions w' = [(''TEST_SYN'', 7, 1)])
      (dispatch_loaded sample_bus_env sample_bus_reading sample_op 7 1 None sample_envelope) sample_world"
    unfolding dispatch_loaded_def env ct sample_ownership option.case
    by (simp add: sample_adapter del: One_nat_def)
      (rule succeeds_bind, subst succeeds_def, simp add: sample_gatekeep del: One_nat_def,
        rule succeeds_weaken [OF sample_attempt], auto simp: sample_world_def)
  then show ?thesis
    unfolding succeeds_def bus_dispatch_open [OF e, unfolded finished_def, simplified] bindE_def load by simp
qed

subsection \<open>Properties\<close>

text \<open>
  C1. No blind resend: whatever the adapter answers and whatever happens to the ledger while
  the dispatch waits, one dispatch makes at most one \<open>execute\<close> call. It makes none for a
  missing or finished command, or for one with an attempt already open (dispatching,
  accepted, readback_pending), which is only read back; and the attempt number of the call is
  that of an attempt opened during this very dispatch. The ledger itself moves by ledger
  steps only, so all ledger guarantees survive every dispatch.
\<close>

theorem dispatch_never_resends_blindly:
  assumes "honest_others h env" and "ledger_reach h (w_store w)"
    and "w' = snd (bus_dispatch env rd t cid n tr w)"
  shows "ledger_reach h (w_store w')
    \<and> (w_executions w' = w_executions w
       \<or> (\<exists>d op k. entry_at (w_store w) (t, cid) = Some (d, op)
            \<and> co_state op \<in> {Persisted, Queued, ReconciliationRequired}
            \<and> w_executions w' = w_executions w @ [(t, cid, k)]
            \<and> dispatches (events_at (w_store w) (t, cid)) < k \<and> k \<le> dispatches (events_at (w_store w') (t, cid))))"
proof -
  have inv: "ledger_inv h (w_store w)" by (rule reach_ledger_inv [OF assms(2)])
  have calm: "calm h (w_store w) (w_executions w) w' \<Longrightarrow> ?thesis"
    using reach_run [OF assms(2)] by (auto simp: calm_def)
  show ?thesis
  proof (cases "entry_at (w_store w) (t, cid)")
    case None
    then show ?thesis using calm record_outcome_calm assms(3) bus_dispatch_missing by metis
  next
    case (Some dop)
    then obtain d op where e: "entry_at (w_store w) (t, cid) = Some (d, op)" by (cases dop) auto
    show ?thesis
    proof (cases "finished (co_state op) \<or> co_state op \<in> set [Dispatching, Accepted, ReadbackPending]")
      case True
      then show ?thesis
        using calm record_outcome_calm bus_dispatch_finished [OF e] dispatch_open_once(2) [OF assms(1) inv e] assms(3)
        by metis
    next
      case False
      then have s: "co_state op \<in> {Persisted, Queued, ReconciliationRequired}"
        by (cases "co_state op") (auto simp: finished_def)
      have "executed_once h (w_store w) (w_executions w) (t, cid) w'"
        using dispatch_open_once(1) [OF assms(1) inv e] False assms(3) by simp
      then show ?thesis
        using reach_run [OF assms(2)] e s by (auto simp: executed_once_def opened_since_def)
    qed
  qed
qed

lemma sample_honest: "honest_others sample_host sample_bus_env"
  by (simp add: honest_others_def sample_bus_env_def run_refl)

theorem dispatch_never_resends_blindly_witness:
  "\<exists>k. w_executions (snd (bus_dispatch sample_bus_env sample_bus_reading ''TEST_SYN'' 7 1 None sample_world)) = [(''TEST_SYN'', 7, k)]
     \<and> 0 < k"
proof -
  have r: "ledger_reach sample_host (w_store sample_world)" by (simp add: sample_world_def sample_store_reach)
  have "w_executions sample_world = []" by (simp add: sample_world_def)
  then show ?thesis
    using dispatch_never_resends_blindly [OF sample_honest r refl, of sample_bus_reading "''TEST_SYN''" 7 1 None]
      sample_dispatch unfolding succeeds_def by fastforce
qed

end
