(* ===== verification/Dispatch_Signals.thy ===== *)
theory Dispatch_Signals
  imports Dispatch_Guarantees
begin

text \<open>
  What a dispatch tells its caller is true of the ledger. The outbox worker acts on two
  signals: a known-safe retry error sends the row again, an unknown outcome keeps it
  quarantined; and the recorded outcome is what tests and metrics see. Each is related here
  to the state the ledger is left in, on every path of the handler.
\<close>

subsection \<open>States the ledger is left in\<close>

definition in_state :: "op_key \<Rightarrow> command_state set \<Rightarrow> command_store \<Rightarrow> bool" where
  "in_state key S st \<longleftrightarrow> (\<exists>d op. entry_at st key = Some (d, op) \<and> co_state op \<in> S)"

definition truthful :: "op_key \<Rightarrow> dispatch_outcome \<Rightarrow> command_store \<Rightarrow> bool" where
  "truthful key oc st \<longleftrightarrow>
     (\<exists>d op. entry_at st key = Some (d, op)
        \<and> (do_final_state oc = ''completed'' \<and> co_state op = Completed
             \<and> (\<exists>rb op0. do_readback oc = Some rb \<and> rb_status rb = RB_MATCHED
                  \<and> co_readback_evidence op = Some (readback_evidence op0 rb))
           \<or> do_final_state oc = ''failed'' \<and> co_state op \<in> {Failed, DeadLettered}))"

text \<open>The errors that only say the ledger refused, and the signals for the outbox worker.\<close>

definition refused :: "exc \<Rightarrow> bool" where
  "refused e \<longleftrightarrow> exc_class e \<in> {CommandConflict, CommandNotFound, KeyError, ValueError, AdapterRegistryError}"

definition signal_ok :: "op_key \<Rightarrow> exc \<Rightarrow> command_store \<Rightarrow> bool" where
  "signal_ok key e st \<longleftrightarrow> refused e
     \<or> exc_class e = UnknownOutcomeError \<and> in_state key {ReconciliationRequired} st
     \<or> exc_class e = KnownSafeRetryError \<and> in_state key {Persisted, Queued, DeadLettered} st"

abbreviation sound :: "host \<Rightarrow> 'p world \<Rightarrow> bool" where
  "sound h w \<equiv> ledger_inv h (w_store w)"

lemma in_state_mono: "in_state key S st \<Longrightarrow> S \<subseteq> T \<Longrightarrow> in_state key T st"
  by (auto simp: in_state_def)

lemma record_dead_letter_entry [simp]:
  "entry_at (snd (record_dead_letter now t c rc ec tr po ex st)) key = entry_at st key"
  by (auto simp: record_dead_letter_def store_get_def prog_defs entry_at_def Let_def split: option.splits)

lemma transition_settles:
  assumes "be_host env = h"
  shows "hoare (sound h) (bus_transition env now op ns r p ev x)
    (\<lambda>op' w. sound h w \<and> settled (co_tenant_id op, co_command_id op) op' (w_store w) \<and> co_state op' = ns
       \<and> (ev \<noteq> None \<longrightarrow> co_readback_evidence op' = ev))
    (\<lambda>e w. sound h w \<and> refused e)"
proof (rule hoareI)
  fix w :: "'a world" and op' w'
  assume c: "sound h w" and t: "bus_transition env now op ns r p ev x w = (Inr op', w')"
  have k: "sound h w'" using hoareD_ret [OF inv.keeps_transition [OF assms, unfolded keeps_def] c t] .
  from onLedgerD [OF t [unfolded bus_transition_def]] have
    "store_transition (be_host env) now (co_tenant_id op) (co_command_id op) ns (be_worker_id env) r p ev x (w_store w)
      = (Inr op', w_store w')" by simp
  from store_transition_InrD [OF this] k
  show "sound h w' \<and> settled (co_tenant_id op, co_command_id op) op' (w_store w') \<and> co_state op' = ns
      \<and> (ev \<noteq> None \<longrightarrow> co_readback_evidence op' = ev)"
    using inv_settled by blast
next
  fix w :: "'a world" and e w'
  assume c: "sound h w" and t: "bus_transition env now op ns r p ev x w = (Inl e, w')"
  from onLedgerD [OF t [unfolded bus_transition_def]] store_transition_Inl c show "sound h w' \<and> refused e"
    by (fastforce simp: refused_def)
qed

lemma transition_state:
  assumes "be_host env = h" and "key = (co_tenant_id op, co_command_id op)"
  shows "hoare (sound h) (bus_transition env now op ns r p ev x)
    (\<lambda>_ w. sound h w \<and> in_state key {ns} (w_store w)) (\<lambda>e w. sound h w \<and> refused e)"
  by (rule hoare_weaken [OF transition_settles [OF assms(1)]]) (auto simp: assms(2) settled_def in_state_def)

lemma dead_letter_state:
  "hoare (\<lambda>w. sound h w \<and> in_state key S (w_store w)) (on_ledger (record_dead_letter now t c rc ec tr po ex))
    (\<lambda>_ w. sound h w \<and> in_state key S (w_store w)) (\<lambda>e w. sound h w \<and> refused e)"
proof (rule hoareI)
  let ?m = "record_dead_letter now t c rc ec tr po ex"
  fix w :: "'a world" and a w'
  assume p: "sound h w \<and> in_state key S (w_store w)" and r: "on_ledger ?m w = (Inr a, w')"
  have "keeps (sound h) (on_ledger ?m :: ('a world, dead_letter_record) prog)" by (rule inv.keeps_dead_letter)
  then have "sound h w'" using keepsD [of "sound h" "on_ledger ?m" w] p r by simp
  moreover have "entry_at (w_store w') key = entry_at (w_store w) key"
    using conjunct1 [OF onLedgerD [OF r]] record_dead_letter_entry by (metis snd_conv)
  ultimately show "sound h w' \<and> in_state key S (w_store w')" using p by (simp add: in_state_def)
next
  let ?m = "record_dead_letter now t c rc ec tr po ex"
  fix w :: "'a world" and e w'
  assume p: "sound h w \<and> in_state key S (w_store w)" and r: "on_ledger ?m w = (Inl e, w')"
  have "keeps (sound h) (on_ledger ?m :: ('a world, dead_letter_record) prog)" by (rule inv.keeps_dead_letter)
  then have "sound h w'" using keepsD [of "sound h" "on_ledger ?m" w] p r by simp
  moreover have "refused e" using onLedgerD [OF r]
    by (auto simp: record_dead_letter_def store_get_def not_found_def refused_def prog_defs Let_def split: option.splits)
  ultimately show "sound h w' \<and> refused e" ..
qed

lemma record_hoare: "hoare (\<lambda>w. Q oc (w\<lparr>w_last_outcome := Some oc\<rparr>)) (record_outcome oc) Q E"
  by (simp add: hoare_def record_outcome_def prog_defs)

lemma breaker_hoare: "hoare (sound h) (on_breaker env aid (modifyE f)) (\<lambda>_. sound h) E"
  by (simp add: hoare_def on_breaker_def prog_defs)

lemma fail_state:
  assumes host: "be_host env = h" and key: "key = (co_tenant_id op, co_command_id op)"
  shows "hoare (sound h) (bus_fail env now op r k retryable)
    (\<lambda>_ w. sound h w \<and> in_state key (if retryable then {Persisted, Queued} else {Failed, DeadLettered}) (w_store w))
    (\<lambda>e w. sound h w \<and> refused e)"
proof -
  let ?E = "\<lambda>e w. sound h w \<and> refused e" and ?bad = "{Failed, DeadLettered}"
  have get: "hoare (sound h) (on_ledger (store_get (co_tenant_id op) (co_command_id op)))
      (\<lambda>cur w. sound h w \<and> in_state key {co_state cur} (w_store w)) ?E"
    by (auto simp: hoare_def on_ledger_def zoomE_def store_get_def not_found_def refused_def in_state_def key split: option.splits)
  note tr = transition_state [OF host key]
  have dl: "hoare (\<lambda>w. sound h w \<and> in_state key {ns} (w_store w)) (thenE (terminal_dead_letter now op r) (retE ()))
      (\<lambda>_ w. sound h w \<and> in_state key ?bad (w_store w)) ?E" if "ns \<in> ?bad" for ns
    unfolding terminal_dead_letter_def
    by (rule hoare_then [OF hoare_ret], rule hoare_weaken [OF dead_letter_state [where S = "{ns}"]])
      (use that in \<open>auto intro: in_state_mono\<close>)
  have refusal: "hoare (sound h) (thenE (if co_state cur = Persisted
        then thenE (bus_transition env now op Queued q None None None) (retE ()) else retE ())
      (thenE (bus_transition env now op DeadLettered r None None None) (thenE (terminal_dead_letter now op r) (retE ()))))
      (\<lambda>_ w. sound h w \<and> in_state key ?bad (w_store w)) ?E" for cur q
    by (rule hoare_then [OF hoare_then [OF dl tr]], simp,
        cases "co_state cur = Persisted", simp_all add: hoare_ret [of "\<lambda>_. sound h"])
      (rule hoare_then [OF hoare_ret], rule hoare_weaken [OF tr], auto)
  have tail: "hoare (sound h) (thenE (bus_transition env now op Failed r None None k)
      (if retryable then thenE (bus_transition env now op Queued q None None None) (retE ())
       else thenE (terminal_dead_letter now op r) (retE ())))
      (\<lambda>_ w. sound h w \<and> in_state key (if retryable then {Persisted, Queued} else ?bad) (w_store w)) ?E" for q
  proof (cases retryable)
    case True
    then show ?thesis
      by simp (rule hoare_then [where R = "sound h"], rule hoare_then [OF hoare_ret], rule hoare_weaken [OF tr],
        auto intro: in_state_mono hoare_weaken [OF tr])
  next
    case False
    then show ?thesis by simp (rule hoare_then [OF dl tr], simp)
  qed
  show ?thesis
    unfolding bus_fail_def
  proof (rule hoare_bind [OF _ get], goal_cases)
    case (1 cur)
    consider (early) "co_state cur \<in> set [Persisted, Queued]" "retryable"
      | (refuse) "co_state cur \<in> set [Persisted, Queued]" "\<not> retryable" | (late) "co_state cur \<notin> set [Persisted, Queued]"
      by blast
    then show ?case
    proof cases
      case early
      show ?thesis unfolding if_P [OF early(1)] if_P [OF early(2)]
        by (rule hoare_pre [OF hoare_ret]) (use early in \<open>auto intro: in_state_mono\<close>)
    next
      case refuse
      show ?thesis unfolding if_P [OF refuse(1)] if_not_P [OF refuse(2)] by (rule hoare_pre [OF refusal]) simp
    next
      case late
      show ?thesis unfolding if_not_P [OF late] by (rule hoare_pre [OF tail]) simp
    qed
  qed
qed

subsection \<open>Read-back\<close>

definition readback_truth :: "op_key \<Rightarrow> string \<times> readback_result \<Rightarrow> command_store \<Rightarrow> bool" where
  "readback_truth key res st \<longleftrightarrow>
     (\<exists>d op. entry_at st key = Some (d, op)
        \<and> (fst res = ''completed'' \<and> co_state op = Completed \<and> rb_status (snd res) = RB_MATCHED
             \<and> (\<exists>op0. co_readback_evidence op = Some (readback_evidence op0 (snd res)))
           \<or> fst res = ''failed'' \<and> co_state op = Failed))"

lemma readback_settles:
  assumes hon: "honest_others h env" and key: "key = (co_tenant_id op, co_command_id op)"
  shows "hoare (sound h) (bus_readback env now op a x k)
    (\<lambda>res w. sound h w \<and> readback_truth key res (w_store w)) (\<lambda>e w. sound h w \<and> signal_ok key e (w_store w))"
proof -
  have host: "be_host env = h" using hon by (simp add: honest_others_def)
  let ?Q = "\<lambda>res w. sound h w \<and> readback_truth key res (w_store w)"
    and ?E = "\<lambda>e w. sound h w \<and> signal_ok key e (w_store w)"
  have verdict: "hoare (sound h) (let evidence = readback_evidence op' rb in
         if rb_status rb = RB_MATCHED then
           thenE (bus_transition env now op' Completed ''provider read-back matched'' (rb_provider_operation_id rb)
               (Some evidence) (Some k)) (retE (''completed'', rb))
         else if rb_status rb = RB_MISMATCH then
           thenE (bus_transition env now op' Failed ''provider read-back mismatch'' None None (Some k)) (retE (''failed'', rb))
         else thenE (bus_transition env now op' ReconciliationRequired
               (''provider read-back '' @ py_lower (readback_str (rb_status rb))) None (Some evidence) (Some k))
             (thenE (record_outcome (plain_outcome (co_command_id op') (Some k) ''reconciliation_required'' True None (Some rb)))
               (raiseE UnknownOutcomeError (''readback '' @ readback_str (rb_status rb))))) ?Q ?E"
    if ids: "key = (co_tenant_id op', co_command_id op')" for op' rb
  proof -
    note ts = transition_settles [OF host, where op = op', folded ids]
    consider "rb_status rb = RB_MATCHED" | "rb_status rb = RB_MISMATCH"
      | "rb_status rb \<noteq> RB_MATCHED" "rb_status rb \<noteq> RB_MISMATCH" by blast
    then show ?thesis
    proof cases
      case 1
      then show ?thesis
        by (simp add: Let_def) (rule hoare_then [OF hoare_ret], rule hoare_weaken [OF ts],
          auto simp: readback_truth_def settled_def signal_ok_def)
    next
      case 2
      then show ?thesis
        by (simp add: Let_def) (rule hoare_then [OF hoare_ret], rule hoare_weaken [OF ts],
          auto simp: readback_truth_def settled_def signal_ok_def)
    next
      case 3
      then show ?thesis
        by (simp add: Let_def) (rule hoare_then [OF hoare_then [OF hoare_raise record_hoare]], rule hoare_weaken [OF ts],
          auto simp: in_state_def settled_def signal_ok_def)
    qed
  qed
  have obs: "hoare (sound h) (catchE (observe env AwReadback a op' x True (ad_readback a op' x))
      (\<lambda>e. retE (readback_of RB_UNAVAILABLE None [] (Some (exc_name e))))) (\<lambda>_. sound h) ?E" for op'
    using inv.keeps_observe [OF hon, where op = op' and site = AwReadback and a = a and x = x and pending = True
        and deep = "ad_readback a op' x"] unfolding keeps_def
    by (rule hoare_catch [rotated]) (rule hoare_ret)
  show ?thesis
    unfolding bus_readback_def
  proof (rule hoare_bind [where R = "\<lambda>op' w. sound h w \<and> key = (co_tenant_id op', co_command_id op')"], goal_cases)
    case (1 op')
    show ?case
    proof (cases "key = (co_tenant_id op', co_command_id op')")
      case True
      show ?thesis by (rule hoare_pre [OF hoare_bind [OF verdict [OF True] obs]]) simp
    qed (simp add: hoare_def)
  next
    case 2
    show ?case
      by (rule hoare_weaken [OF transition_settles [OF host]]) (auto simp: settled_def key signal_ok_def)
  qed
qed

subsection \<open>Finalizing, executing, recovering\<close>

definition outcome_truth :: "op_key \<Rightarrow> dispatch_outcome \<Rightarrow> command_store \<Rightarrow> bool" where
  "outcome_truth key oc st \<longleftrightarrow> (do_attempt oc \<noteq> None \<longrightarrow> truthful key oc st)
     \<and> in_state key {Completed, Failed, DeadLettered, Cancelled} st"

lemma truthful_over: "truthful key oc st \<Longrightarrow> outcome_truth key oc st"
  by (auto simp: outcome_truth_def truthful_def in_state_def)

lemma refused_signal: "refused e \<Longrightarrow> signal_ok key e st"
  by (simp add: signal_ok_def)

lemma finalize_truth:
  assumes hon: "honest_others h env" and key: "key = (co_tenant_id op, co_command_id op)"
  shows "hoare (sound h) (bus_finalize env rd op a k x result)
    (\<lambda>oc w. sound h w \<and> truthful key oc (w_store w)) (\<lambda>e w. sound h w \<and> signal_ok key e (w_store w))"
proof -
  have host: "be_host env = h" using hon by (simp add: honest_others_def)
  let ?Q = "\<lambda>oc w. sound h w \<and> truthful key oc (w_store w)"
    and ?E = "\<lambda>e w. sound h w \<and> signal_ok key e (w_store w)"
  let ?out = "\<lambda>s e rb. plain_outcome (co_command_id op) (Some k) s e (Some result) rb"
  note tr = transition_state [OF host key]
  have failed: "hoare (sound h) (thenE (on_breaker env aid (modifyE f)) (thenE (bus_fail env now op r (Some k) False)
      (record_outcome (?out ''failed'' False None)))) ?Q ?E" for aid f now r
    by (rule hoare_then [OF hoare_then [OF record_hoare] breaker_hoare], rule hoare_weaken [OF fail_state [OF host key]])
      (auto simp: truthful_def in_state_def plain_outcome_def refused_signal)
  have retry: "hoare (sound h) (thenE (bus_fail env now op r (Some k) True)
      (thenE (record_outcome (?out ''queued'' False None)) (raiseE KnownSafeRetryError q))) ?Q ?E" for now r q
    by (rule hoare_then [OF hoare_then [OF hoare_raise record_hoare]], rule hoare_weaken [OF fail_state [OF host key]])
      (auto simp: signal_ok_def in_state_def)
  have exhausted: "hoare (sound h) (thenE (bus_transition env now op Failed r None None (Some k))
      (thenE (bus_transition env now op DeadLettered r' None None None)
        (thenE (on_ledger (record_dead_letter now (co_tenant_id op) (co_command_id op) rc ec r False True))
          (thenE (record_outcome (?out ''dead_lettered'' False None)) (raiseE KnownSafeRetryError q))))) ?Q ?E" for now r r' rc ec q
    apply (rule hoare_then [where R = "sound h"])
     apply (rule hoare_then [where R = "\<lambda>w. sound h w \<and> in_state key {DeadLettered} (w_store w)"])
      apply (rule hoare_then [OF hoare_then [OF hoare_raise record_hoare]])
      apply (rule hoare_weaken [OF dead_letter_state])
        apply assumption
       apply (auto simp: signal_ok_def in_state_def) [2]
     apply (rule hoare_weaken [OF tr]; auto simp: signal_ok_def)+
    done
  have acked: "hoare (sound h) (thenE (on_breaker env aid (modifyE f))
      (bindE (bus_transition env now op Accepted r pid None (Some k)) (\<lambda>accepted.
         bindE (bus_readback env now accepted a x k) (\<lambda>rb. record_outcome (?out (fst rb) True (Some (snd rb))))))) ?Q ?E"
    for aid f now r pid
  proof (rule hoare_then [OF hoare_bind [where R = "\<lambda>op' w. sound h w \<and> key = (co_tenant_id op', co_command_id op')"] breaker_hoare],
      goal_cases)
    case (1 op')
    show ?case
    proof (cases "key = (co_tenant_id op', co_command_id op')")
      case True
      show ?thesis
        by (rule hoare_bind [OF record_hoare], rule hoare_weaken [OF readback_settles [OF hon True]])
          (auto simp: readback_truth_def truthful_def plain_outcome_def)
    qed (simp add: hoare_def)
  next
    case 2
    show ?case by (rule hoare_weaken [OF transition_settles [OF host]]) (auto simp: settled_def key signal_ok_def)
  qed
  have unknown: "hoare (sound h) (thenE (on_breaker env aid (modifyE f))
      (thenE (bus_transition env now op ReconciliationRequired r pid None (Some k))
        (thenE (record_outcome (?out ''reconciliation_required'' True None)) (raiseE UnknownOutcomeError q)))) ?Q ?E"
    for aid f now r pid q
    by (rule hoare_then [OF hoare_then [OF hoare_then [OF hoare_raise record_hoare]] breaker_hoare], rule hoare_weaken [OF tr])
      (auto simp: signal_ok_def)
  have transient: "hoare (sound h) (thenE (on_breaker env aid (modifyE f)) (if b then m1 else m2)) ?Q ?E"
    if "hoare (sound h) m1 ?Q ?E" "hoare (sound h) m2 ?Q ?E" for aid f b m1 m2
    by (rule hoare_then [OF _ breaker_hoare]) (cases b, use that in simp_all)
  show ?thesis
    unfolding bus_finalize_def Let_def
    by (cases "ar_outcome result"; simp only: outcome.case)
      (simp_all add: failed acked unknown transient retry exhausted)
qed

lemma bulkhead_sound:
  assumes "hoare (sound h) m (\<lambda>_. sound h) (\<lambda>_. sound h)"
  shows "hoare (sound h) (bulkhead_run env rd aid m) (\<lambda>_. sound h) (\<lambda>_. sound h)"
proof -
  have "keeps (sound h) m" using assms by (simp add: keeps_def)
  then have "\<And>w. sound h w \<Longrightarrow> sound h (snd (m w))" by (rule keepsD)
  then have step: "sound h w \<Longrightarrow> m (w\<lparr>w_bulkheads := b\<rparr>) = (r, w') \<Longrightarrow> sound h w'" for w b r w'
    by (metis (no_types, lifting) snd_conv world.select_convs(1) world.surjective world.update_convs(5))
  have "keeps (sound h) (bulkhead_run env rd aid m)"
    by (intro keepsI) (auto simp: bulkhead_run_def set_bulkhead_def split: sum.splits prod.splits option.splits intro: step)
  then show ?thesis by (simp add: keeps_def)
qed

lemma execute_truth:
  assumes hon: "honest_others h env" and key: "key = (co_tenant_id op, co_command_id op)"
  shows "hoare (sound h) (bus_execute env rd a c op k x) (\<lambda>_. sound h) (\<lambda>e w. sound h w \<and> signal_ok key e (w_store w))"
proof -
  have host: "be_host env = h" using hon by (simp add: honest_others_def)
  have logged: "hoare (sound h) (execute_logged env a c op k x) (\<lambda>_. sound h) (\<lambda>_. sound h)"
    unfolding execute_logged_def
    by (rule hoare_then [OF inv.keeps_provider [OF hon, unfolded keeps_def]]) (simp add: hoare_def modifyE_def)
  show ?thesis
    unfolding bus_execute_def
  proof (rule hoare_catch [where R = "\<lambda>_. sound h"], goal_cases)
    case (1 e)
    show ?case
    proof (cases "exc_class e = BulkheadFull")
      case True
      show ?thesis unfolding if_P [OF True]
        by (rule hoare_then [OF hoare_raise], rule hoare_weaken [OF fail_state [OF host key]])
          (auto simp: signal_ok_def in_state_def)
    qed (simp add: hoare_def retE_def)
  qed (rule hoare_bind [OF _ bulkhead_sound [OF logged]], rule hoare_ret)
qed

lemma same_key_bind:
  assumes "\<And>op'. key = (co_tenant_id op', co_command_id op') \<Longrightarrow> hoare (sound h) (f op') Q (\<lambda>e w. sound h w \<and> signal_ok key e (w_store w))"
    and "be_host env = h" and "key = (co_tenant_id op, co_command_id op)"
  shows "hoare (sound h) (bindE (bus_transition env now op ns r p ev x) f) Q (\<lambda>e w. sound h w \<and> signal_ok key e (w_store w))"
proof (rule hoare_bind [where R = "\<lambda>op' w. sound h w \<and> key = (co_tenant_id op', co_command_id op')"], goal_cases)
  case (1 op')
  show ?case
    using assms(1) by (cases "key = (co_tenant_id op', co_command_id op')") (auto simp: hoare_def)
qed (rule hoare_weaken [OF transition_settles [OF assms(2)]], auto simp: settled_def assms(3) signal_ok_def)

lemma read_attempt_sound:
  "hoare (sound h) (on_ledger (latest_attempt t c)) (\<lambda>_. sound h) (\<lambda>e w. sound h w \<and> signal_ok key e (w_store w))"
  by (auto simp: hoare_def on_ledger_def latest_attempt_def store_get_def not_found_def prog_defs signal_ok_def refused_def
      split: option.splits)

lemma gets_sound: "hoare (sound h) (getsE f) (\<lambda>_. sound h) E"
  by (simp add: hoare_def getsE_def)

lemma attempt_truth:
  assumes hon: "honest_others h env" and key: "key = (co_tenant_id op, co_command_id op)"
  shows "hoare (sound h) (bus_attempt env rd op c a tmo tr)
    (\<lambda>oc w. sound h w \<and> truthful key oc (w_store w)) (\<lambda>e w. sound h w \<and> signal_ok key e (w_store w))"
proof -
  have host: "be_host env = h" using hon by (simp add: honest_others_def)
  have claim: "hoare (sound h) (if co_state op = Persisted
      then thenE (bus_transition env now op Queued q None None None) (retE ()) else retE ())
      (\<lambda>_. sound h) (\<lambda>e w. sound h w \<and> signal_ok key e (w_store w))" for now q
    by (cases "co_state op = Persisted", simp_all add: hoare_ret [of "\<lambda>_. sound h"])
      (rule hoare_then [OF hoare_ret], rule hoare_weaken [OF transition_settles [OF host]], auto simp: signal_ok_def)
  show ?thesis
    unfolding bus_attempt_def
    by (rule hoare_then [OF same_key_bind claim])
      (rule hoare_bind [OF hoare_bind [OF hoare_bind [OF finalize_truth [OF hon] execute_truth [OF hon]] gets_sound]
          read_attempt_sound], assumption, assumption, rule host, rule key)
qed

lemma recover_truth:
  assumes hon: "honest_others h env" and key: "key = (co_tenant_id op, co_command_id op)"
  shows "hoare (sound h) (bus_recover env rd op c a tmo tr)
    (\<lambda>oc w. sound h w \<and> truthful key oc (w_store w)) (\<lambda>e w. sound h w \<and> signal_ok key e (w_store w))"
proof -
  have host: "be_host env = h" using hon by (simp add: honest_others_def)
  have read: "hoare (sound h) (bindE (bus_readback env now op' a x k) (\<lambda>rb.
        record_outcome (plain_outcome (co_command_id op') (Some k) (fst rb) False None (Some (snd rb)))))
      (\<lambda>oc w. sound h w \<and> truthful key oc (w_store w)) (\<lambda>e w. sound h w \<and> signal_ok key e (w_store w))"
    if "key = (co_tenant_id op', co_command_id op')" for now op' x k
    by (rule hoare_bind [OF record_hoare], rule hoare_weaken [OF readback_settles [OF hon that]])
      (auto simp: readback_truth_def truthful_def plain_outcome_def)
  show ?thesis
    unfolding bus_recover_def
  proof (rule hoare_bind [OF hoare_bind [OF _ gets_sound] read_attempt_sound], goal_cases)
    case (1 k x)
    show ?case
    proof (cases "co_state op = Dispatching")
      case True
      show ?thesis unfolding if_P [OF True] by (rule same_key_bind [OF read host key])
    next
      case False
      then show ?thesis using read [OF key] by (simp add: hoare_def bindE_def retE_def)
    qed
  qed
qed

subsection \<open>One dispatch\<close>

text \<open>A known-safe retry is also signalled when nothing has been executed.\<close>

definition dispatch_signal :: "op_key \<Rightarrow> (string \<times> uuid \<times> nat) list \<Rightarrow> exc \<Rightarrow> 'p world \<Rightarrow> bool" where
  "dispatch_signal key es e w \<longleftrightarrow> signal_ok key e (w_store w) \<or> exc_class e = KnownSafeRetryError \<and> w_executions w = es"

lemma gatekeep_signal:
  assumes hon: "honest_others h env" and key: "key = (co_tenant_id op, co_command_id op)"
  shows "hoare (\<lambda>w. sound h w \<and> calm h st0 es w) (bus_gatekeep env rd op c a n tmo tr)
    (\<lambda>stop w. sound h w \<and> (stop \<noteq> None \<longrightarrow> in_state key {Failed, DeadLettered} (w_store w)))
    (\<lambda>e w. dispatch_signal key es e w)"
proof -
  have host: "be_host env = h" using hon by (simp add: honest_others_def)
  let ?E = "\<lambda>e w. sound h w \<and> (refused e \<or> exc_class e = KnownSafeRetryError)"
  let ?Q = "\<lambda>stop w. sound h w \<and> (stop \<noteq> None \<longrightarrow> in_state key {Failed, DeadLettered} (w_store w))"
  have ready: "hoare (sound h) (catchE (bindE (getsE g) (\<lambda>x. provider_call env AwReadiness (ad_readiness a x)))
      (\<lambda>e. raiseE KnownSafeRetryError (t e))) (\<lambda>_. sound h) ?E" for g t
    by (rule hoare_catch [OF hoare_pre [OF hoare_raise] hoare_bind [OF inv.keeps_provider [OF hon, unfolded keeps_def] gets_sound]])
      simp
  have admit: "hoare (sound h) (catchE (thenE (on_breaker env (ad_adapter_id a) (br_admit (bd_admit_clock rd))) (retE None))
      (\<lambda>e. if exc_class e = CircuitOpen then raiseE KnownSafeRetryError (exc_text e) else reraiseE e)) ?Q ?E"
    by (auto simp: hoare_def on_breaker_def br_admit_def prog_defs Let_def)
  have deny: "hoare (sound h) (if code = ''adapter_not_ready'' then raiseE KnownSafeRetryError ''adapter not ready''
      else thenE (bus_fail env (bd_now rd) op (r code) None False) (retE (Some ''failed''))) ?Q ?E" for code r
  proof (cases "code = ''adapter_not_ready''")
    case True
    then show ?thesis by (simp add: hoare_def raiseE_def)
  next
    case False
    show ?thesis unfolding if_not_P [OF False]
      by (rule hoare_then [OF hoare_ret], rule hoare_weaken [OF fail_state [OF host key]]) auto
  qed
  have "hoare (sound h) (bus_gatekeep env rd op c a n tmo tr) ?Q ?E"
    unfolding bus_gatekeep_def
  proof (rule hoare_bind [OF hoare_bind [OF _ gets_sound] ready], goal_cases)
    case (1 readiness decision)
    show ?case using admit deny [of "sd_reason_code decision"] by (cases "sd_allow decision") simp_all
  qed
  from hoare_conj [OF this calm.keeps_gatekeep [OF hon, unfolded keeps_def]] show ?thesis
    by (rule hoare_weaken) (auto simp: dispatch_signal_def signal_ok_def calm_def)
qed

lemma loaded_signal:
  assumes hon: "honest_others h env" and key: "key = (co_tenant_id op, co_command_id op)"
  shows "hoare (\<lambda>w. sound h w \<and> calm h st0 es w) (dispatch_loaded env rd op cid n tr c)
    (\<lambda>oc w. outcome_truth key oc (w_store w)) (\<lambda>e w. dispatch_signal key es e w)"
proof -
  have host: "be_host env = h" using hon by (simp add: honest_others_def)
  have full: "hoare (sound h) m (\<lambda>oc w. sound h w \<and> truthful key oc (w_store w)) (\<lambda>e w. sound h w \<and> signal_ok key e (w_store w)) \<Longrightarrow>
      hoare (\<lambda>w. sound h w \<and> Z w) m (\<lambda>oc w. outcome_truth key oc (w_store w)) (\<lambda>e w. dispatch_signal key es e w)"
    for m :: "('a world, dispatch_outcome) prog" and Z
    by (erule hoare_weaken) (auto simp: truthful_over dispatch_signal_def)
  have stop: "hoare (\<lambda>w. sound h w \<and> Z w) (thenE (bus_fail env now op r None False)
      (record_outcome (plain_outcome cid None s False None None)))
      (\<lambda>oc w. outcome_truth key oc (w_store w)) (\<lambda>e w. dispatch_signal key es e w)" for now r s and Z :: "'a world \<Rightarrow> bool"
    by (rule hoare_then [OF record_hoare], rule hoare_weaken [OF fail_state [OF host key]])
      (auto simp: outcome_truth_def plain_outcome_def dispatch_signal_def signal_ok_def in_state_def)
  show ?thesis
  proof (cases "ownership_of (be_registry env) (ce_command_type c)")
    case None
    then show ?thesis unfolding dispatch_loaded_def by (simp add: stop)
  next
    case o: (Some o')
    show ?thesis
    proof (cases "registry_adapter (be_registry env) (ow_adapter_id o')")
      case (Inl e)
      then have "refused e" by (auto simp: registry_adapter_def registry_error_def refused_def split: option.splits)
      then show ?thesis unfolding dispatch_loaded_def o option.case Inl sum.case
        by (simp add: hoare_def reraiseE_def dispatch_signal_def signal_ok_def)
    next
      case (Inr a)
      have go: "hoare (\<lambda>w. sound h w \<and> calm h st0 es w) (bindE (bus_gatekeep env rd op c a n (timeout_for env o') tr) (\<lambda>stop.
          case stop of Some final \<Rightarrow> record_outcome (plain_outcome cid None final False None None)
          | None \<Rightarrow> bus_attempt env rd op c a (timeout_for env o') tr))
          (\<lambda>oc w. outcome_truth key oc (w_store w)) (\<lambda>e w. dispatch_signal key es e w)"
      proof (rule hoare_bind [OF _ gatekeep_signal [OF hon key]], goal_cases)
        case (1 stop)
        show ?case
          using full [OF attempt_truth [OF hon key], where Z = "\<lambda>_. True"]
          by (cases stop) (auto simp: hoare_def record_outcome_def prog_defs outcome_truth_def plain_outcome_def in_state_def)
      qed
      show ?thesis
        unfolding dispatch_loaded_def o Inr option.case sum.case
        by (cases "ce_target c \<notin> set (ac_connector_ids (ad_capabilities a))";
            cases "co_state op \<in> set [Dispatching, Accepted, ReadbackPending]")
          (simp_all only: stop full [OF recover_truth [OF hon key]] go if_True if_False not_True_eq_False not_False_eq_True)
    qed
  qed
qed

lemma dispatch_signals:
  assumes "honest_others h env" and "ledger_reach h (w_store w)"
  shows "case bus_dispatch env rd t cid n tr w of
      (Inr oc, w') \<Rightarrow> (do_attempt oc \<noteq> None \<longrightarrow> truthful (t, cid) oc (w_store w'))
        \<and> (entry_at (w_store w') (t, cid) = None \<or> in_state (t, cid) {Completed, Failed, DeadLettered, Cancelled} (w_store w'))
    | (Inl e, w') \<Rightarrow>
        (exc_class e = UnknownOutcomeError \<longrightarrow> in_state (t, cid) {ReconciliationRequired} (w_store w'))
        \<and> (exc_class e = KnownSafeRetryError \<longrightarrow>
             w_executions w' = w_executions w \<or> in_state (t, cid) {Persisted, Queued, DeadLettered} (w_store w'))
        \<and> exc_class e \<in> {UnknownOutcomeError, KnownSafeRetryError, CommandConflict, CommandNotFound,
             KeyError, ValueError, AdapterRegistryError}"
proof -
  have inv: "sound h w" by (rule reach_ledger_inv [OF assms(2)])
  have quick: "bus_dispatch env rd t cid n tr w = record_outcome (plain_outcome cid None s False None None) w \<Longrightarrow>
      entry_at (w_store w) (t, cid) = None \<or> in_state (t, cid) {Completed, Failed, DeadLettered, Cancelled} (w_store w) \<Longrightarrow>
      ?thesis" for s
    by (simp add: record_outcome_def plain_outcome_def prog_defs)
  show ?thesis
  proof (cases "entry_at (w_store w) (t, cid)")
    case None
    then show ?thesis by (intro quick [OF bus_dispatch_missing] disjI1)
  next
    case (Some dop)
    then obtain d op where e: "entry_at (w_store w) (t, cid) = Some (d, op)" by (cases dop) auto
    have key: "(t, cid) = (co_tenant_id op, co_command_id op)"
      using ledger_inv_entry [OF inv e] by (simp add: entry_inv_def)
    show ?thesis
    proof (cases "finished (co_state op)")
      case True
      then show ?thesis using e by (intro quick [OF bus_dispatch_finished [OF e]] disjI2) (auto simp: in_state_def finished_def)
    next
      case False
      let ?load = "on_ledger (load_envelope (be_host env) t cid) :: ('a world, command_envelope) prog"
      have "hoare (\<lambda>w'. w' = w) ?load (\<lambda>_ w'. sound h w' \<and> calm h (w_store w) (w_executions w) w')
          (\<lambda>e w'. dispatch_signal (t, cid) (w_executions w) e w')"
        using inv by (auto simp: hoare_def on_ledger_def load_envelope_def store_get_def not_found_def prog_defs calm_def
            dispatch_signal_def signal_ok_def refused_def run_refl split: option.splits)
      then have "hoare (\<lambda>w'. w' = w) (bindE ?load (dispatch_loaded env rd op cid n tr))
          (\<lambda>oc w'. outcome_truth (t, cid) oc (w_store w')) (\<lambda>e w'. dispatch_signal (t, cid) (w_executions w) e w')"
        by (rule hoare_bind [OF loaded_signal [OF assms(1) key]])
      then show ?thesis
        unfolding bus_dispatch_open [OF e False]
        by (auto simp: hoare_def outcome_truth_def dispatch_signal_def signal_ok_def refused_def in_state_def
            split: sum.splits prod.splits)
    qed
  qed
qed



end
