(* ===== verification/Dispatch_System.thy ===== *)
theory Dispatch_System
  imports Dispatch_Signals
begin

text \<open>
  The bus as a system: any sequence of handled outbox records, by workers with any settings and
  adapters, interleaved with any ledger steps of other processes. No attempt of a command is
  executed twice. Then three consequences of the code that its comments do not expect: an
  attempt whose worker died while reading back is never recovered by the bus, a stale worker
  can dead-letter a command that was queued again, and a command with an external effect is
  never executed.
\<close>

subsection \<open>The system\<close>

inductive bus_step :: "host \<Rightarrow> 'p world \<Rightarrow> 'p world \<Rightarrow> bool" for h :: host where
  bs_handle: "honest_others h env \<Longrightarrow> bus_step h w (snd (bus_handle env rd rec w))"
| bs_ledger: "ledger_step h (w_store w) st \<Longrightarrow> bus_step h w (w\<lparr>w_store := st\<rparr>)"

definition bus_init :: "'p world \<Rightarrow> bool" where
  "bus_init w \<longleftrightarrow> w_store w = empty_store \<and> w_executions w = []"

definition executions_inv :: "host \<Rightarrow> 'p world \<Rightarrow> bool" where
  "executions_inv h w \<longleftrightarrow> ledger_reach h (w_store w) \<and> distinct (w_executions w)
     \<and> (\<forall>(t, c, k) \<in> set (w_executions w). entry_at (w_store w) (t, c) \<noteq> None \<and> k \<le> dispatches (events_at (w_store w) (t, c)))"

lemma executions_inv_run:
  assumes "executions_inv h w" and "run (ledger_step h) (w_store w) (w_store w')" and "w_executions w' = w_executions w"
  shows "executions_inv h w'"
  using assms run_keeps_entry [OF assms(2)] reach_run
  by (fastforce simp: executions_inv_def)

lemma executions_inv_once:
  assumes i: "executions_inv h w" and o: "executed_once h (w_store w) (w_executions w) (t, c) w'"
  shows "executions_inv h w'"
proof -
  have r: "run (ledger_step h) (w_store w) (w_store w')" using o by (simp add: executed_once_def)
  have base: "executions_inv h (w'\<lparr>w_executions := w_executions w\<rparr>)"
    by (rule executions_inv_run [OF i]) (simp_all add: r)
  from o consider "w_executions w' = w_executions w"
    | k where "w_executions w' = w_executions w @ [(t, c, k)]" "opened_since (w_store w) (t, c) k (w_store w')"
    by (auto simp: executed_once_def)
  then show ?thesis
  proof cases
    case 1
    with base show ?thesis by (simp add: executions_inv_def)
  next
    case 2
    have "(t, c, k) \<notin> set (w_executions w)" using i 2(2) by (auto simp: executions_inv_def opened_since_def)
    with base 2 show ?thesis by (auto simp: executions_inv_def opened_since_def)
  qed
qed

lemma dispatch_executed_once:
  assumes hon: "honest_others h env" and inv: "ledger_inv h (w_store w)"
  shows "executed_once h (w_store w) (w_executions w) (t, cid) (snd (bus_dispatch env rd t cid n tr w))"
proof (cases "entry_at (w_store w) (t, cid)")
  case None
  then show ?thesis by (metis bus_dispatch_missing calm_once record_outcome_calm)
next
  case (Some dop)
  then obtain d op where e: "entry_at (w_store w) (t, cid) = Some (d, op)" by (cases dop) auto
  then show ?thesis
    using dispatch_open_once(1) [OF hon inv e] bus_dispatch_finished [OF e] calm_once record_outcome_calm by metis
qed

lemma executions_inv_step: "bus_step h w w' \<Longrightarrow> executions_inv h w \<Longrightarrow> executions_inv h w'"
proof (induction rule: bus_step.induct)
  case (bs_handle env w rd rec)
  have inv: "ledger_inv h (w_store w)" using bs_handle(2) reach_ledger_inv by (simp add: executions_inv_def)
  have snd_then: "snd (thenE m (retE ()) w) = snd (m w)" for m :: "('a world, dispatch_outcome) prog"
    by (auto simp: prog_defs split: prod.split sum.split)
  show ?case
    using executions_inv_once [OF bs_handle(2) dispatch_executed_once [OF bs_handle(1) inv]] bs_handle(2)
    by (auto simp: bus_handle_def raiseE_def retE_def [of "()"] snd_then [unfolded retE_def] split: option.split)
next
  case (bs_ledger w st)
  then show ?case by (elim executions_inv_run) (auto intro: run_one)
qed

interpretation exe: machine_invariant bus_init "bus_step h" "executions_inv h" for h
proof
  show "bus_init w \<Longrightarrow> executions_inv h w" for w :: "'a world"
    by (auto simp: bus_init_def executions_inv_def ledger_init_def intro: reach_init)
qed (rule executions_inv_step)


definition sample_record :: outbox_record where
  "sample_record = \<lparr>or_id = 1, or_tenant_id = ''TEST_SYN'', or_destination = ADAPTER_COMMAND_DESTINATION,
     or_event_type = ''test.syn.ping'', or_idempotency_key = ''idem-0001'',
     or_payload = [(''command_id'', JStr (uuid_str 7))], or_attempt_count = 1, or_fencing_token = 0\<rparr>"

lemma ledger_reach_bus:
  assumes "ledger_reach h st" and "w_executions w = []"
  shows "reach bus_init (bus_step h) (w\<lparr>w_store := st\<rparr>)"
  using assms(1)
proof induction
  case (reach_init st)
  then show ?case by (intro reach.reach_init) (simp add: bus_init_def ledger_init_def assms(2))
next
  case (reach_step st st')
  have "bus_step h (w\<lparr>w_store := st\<rparr>) ((w\<lparr>w_store := st\<rparr>)\<lparr>w_store := st'\<rparr>)"
    by (rule bs_ledger) (simp add: reach_step(2))
  then show ?case using reach.reach_step [OF reach_step(3)] by simp
qed


subsection \<open>What recovery, fencing and the execution-time gate do not do\<close>

lemma load_open:
  assumes "ledger_reach h (w_store w)" and "be_host env = h" and "entry_at (w_store w) (t, cid) = Some (d, op)"
  obtains c where "on_ledger (load_envelope (be_host env) t cid) w = (Inr c, w)"
    and "ce_command_type c = co_command_type op" and "ce_target c = co_target op" and "ce_capability c = co_capability op"
proof -
  have inv: "entry_inv h (w_store w) (t, cid) d op"
    using ledger_inv_entry [OF reach_ledger_inv [OF assms(1)] assms(3)] .
  then obtain c client where p: "map_of (cs_payloads (w_store w)) (t, cid) = Some (authenticated_command_payload c client)"
    and c: "valid_envelope h c" "same_identity (new_operation c (co_created_at op)) op"
    unfolding entry_inv_def describes_def by blast
  from p c(1) have "load_envelope h t cid (w_store w) = (Inr c, w_store w)"
    using assms(3) command_envelope_roundtrip [of h c client] by (simp add: load_envelope_def store_get_def prog_defs)
  with c(2) assms(2) show ?thesis
    by (intro that) (auto simp: on_ledger_def zoomE_def same_identity_def new_operation_def)
qed

text \<open>
  C36. A dispatch of a command whose previous worker died in \<open>readback_pending\<close> always ends in a
  conflict and changes nothing: recovery asks for the transition to \<open>readback_pending\<close> again,
  which the state machine does not allow from that state, so the read-back the comment
  announces is never made.
\<close>

theorem readback_pending_never_recovers:
  assumes "ledger_reach h (w_store w)" and "be_host env = h"
    and e: "entry_at (w_store w) (t, cid) = Some (d, op)" and s: "co_state op = ReadbackPending"
    and "ownership_of (be_registry env) (co_command_type op) = Some o'"
    and "registry_adapter (be_registry env) (ow_adapter_id o') = Inr a"
    and "co_target op \<in> set (ac_connector_ids (ad_capabilities a))"
  shows "\<exists>msg. bus_dispatch env rd t cid n tr w = (Inl (Exc CommandConflict msg), w)"
proof -
  obtain c where c: "on_ledger (load_envelope (be_host env) t cid) w = (Inr c, w)"
    "ce_command_type c = co_command_type op" "ce_target c = co_target op"
    using load_open [OF assms(1,2) e] by metis
  have key: "co_tenant_id op = t" "co_command_id op = cid"
    using ledger_inv_entry [OF reach_ledger_inv [OF assms(1)] e] by (simp_all add: entry_inv_def)
  have open_op: "\<not> finished (co_state op)" by (simp add: s finished_def)
  have loaded: "dispatch_loaded env rd op cid n tr c w = bus_recover env rd op c a (timeout_for env o') tr w"
    using assms(5-7) c s by (simp add: dispatch_loaded_def)
  have "\<exists>msg. bus_recover env rd op c a (timeout_for env o') tr w = (Inl (Exc CommandConflict msg), w)"
    using e by (auto simp: bus_recover_def bus_readback_def bus_transition_def on_ledger_def latest_attempt_def store_get_def
        store_transition_def prog_defs s key Let_def)
  then show ?thesis
    unfolding bus_dispatch_open [OF e open_op] by (auto simp: bindE_def c loaded)
qed

lemma succeeds_get:
  "entry_at (w_store w) (t, c) = Some (d, cur) \<Longrightarrow> Q cur w \<Longrightarrow> succeeds Q (on_ledger (store_get t c)) w"
  by (simp add: succeeds_def on_ledger_def zoomE_def store_get_def)

text \<open>
  C37. Failing is not fenced once the command is queued: whatever attempt number a worker
  holds, its non-retryable failure of a command that meanwhile is back in the queue dead
  letters the command, although the attempt it speaks of is over.
\<close>

theorem stale_failure_dead_letters_queued:
  assumes "ledger_reach h (w_store w)" and "be_host env = h"
    and "settled (co_tenant_id op, co_command_id op) cur (w_store w)" and "co_state cur = Queued"
  shows "\<exists>w'. bus_fail env now op reason (Some stale_attempt) False w = (Inr (), w')
    \<and> in_state (co_tenant_id op, co_command_id op) {DeadLettered} (w_store w')"
proof -
  obtain d where e: "entry_at (w_store w) (co_tenant_id op, co_command_id op) = Some (d, cur)"
    using assms(3) by (auto simp: settled_def)
  have "succeeds (\<lambda>_ w'. in_state (co_tenant_id op, co_command_id op) {DeadLettered} (w_store w'))
      (bus_fail env now op reason (Some stale_attempt) False) w"
    unfolding bus_fail_def
    apply (rule succeeds_bind, rule succeeds_get [OF e], simp add: assms(4))
    apply (rule succeeds_then, rule succeeds_ret, rule succeeds_then,
        rule succeeds_transition [where cur = cur and n = "length (attempts_at (w_store w) (co_tenant_id op, co_command_id op))"])
        apply (use e assms(3,4) in \<open>auto simp: tracked_def settled_def\<close>) [4]
    apply (rule succeeds_then)
    apply (auto simp: succeeds_def terminal_dead_letter_def on_ledger_def record_dead_letter_def store_get_def prog_defs
        tracked_def in_state_def entry_at_def Let_def split: option.splits)
    done
  then show ?thesis by (simp add: succeeds_def)
qed


definition sample_walk :: "command_state list \<Rightarrow> command_store" where
  "sample_walk path = foldl (\<lambda>st s. snd (store_transition sample_host 150 ''TEST_SYN'' 7 s ''w'' ''r'' None None None st))
     sample_store path"

lemma sample_walk_reach: "ledger_reach sample_host (sample_walk path)"
  unfolding sample_walk_def
  by (induction path rule: rev_induct)
    (simp_all add: sample_store_reach, rule reach_step, assumption, rule ls_op, rule to_transition)

fun walk_ok :: "command_state \<Rightarrow> command_state list \<Rightarrow> bool" where
  "walk_ok s [] = True"
| "walk_ok s (s' # p) \<longleftrightarrow> s' \<in> set (ALLOWED_COMMAND_TRANSITIONS s) \<and> walk_ok s' p"

lemma walk_tracked:
  assumes "tracked ''TEST_SYN'' 7 op n st" and "walk_ok (co_state op) path"
  shows "\<exists>op' n'. tracked ''TEST_SYN'' 7 op' n'
      (foldl (\<lambda>st s. snd (store_transition sample_host 150 ''TEST_SYN'' 7 s ''w'' ''r'' None None None st)) st path)
    \<and> co_state op' = last (co_state op # path) \<and> co_command_type op' = co_command_type op \<and> co_target op' = co_target op"
  using assms
proof (induction path arbitrary: op n st)
  case (Cons s path)
  obtain d where e: "entry_at st (''TEST_SYN'', 7) = Some (d, op)" using Cons.prems(1) by (auto simp: tracked_def)
  have "\<exists>op1 st1. store_transition sample_host 150 ''TEST_SYN'' 7 s ''w'' ''r'' None None None st = (Inr op1, st1)
      \<and> tracked ''TEST_SYN'' 7 op1 (length (attempts_at st1 (''TEST_SYN'', 7))) st1 \<and> co_state op1 = s
      \<and> co_command_type op1 = co_command_type op \<and> co_target op1 = co_target op"
    using store_transition_run [OF e, of s None None sample_host 150 "''w''" "''r''" None] Cons.prems
    by (auto simp: tracked_def)
  then obtain op1 st1 where 1: "store_transition sample_host 150 ''TEST_SYN'' 7 s ''w'' ''r'' None None None st = (Inr op1, st1)"
    "tracked ''TEST_SYN'' 7 op1 (length (attempts_at st1 (''TEST_SYN'', 7))) st1" "co_state op1 = s"
    "co_command_type op1 = co_command_type op" "co_target op1 = co_target op" by blast
  have "walk_ok (co_state op1) path" using Cons.prems(2) 1(3) by simp
  from Cons.IH [OF 1(2) this] 1 show ?case by (auto split: if_splits)
qed (auto)

theorem readback_pending_never_recovers_witness:
  "\<exists>msg w. bus_dispatch sample_bus_env sample_bus_reading ''TEST_SYN'' 7 2 None
     (sample_world\<lparr>w_store := sample_walk [Queued, Dispatching, Accepted, ReadbackPending]\<rparr>) = (Inl (Exc CommandConflict msg), w)"
proof -
  let ?st = "sample_walk [Queued, Dispatching, Accepted, ReadbackPending]"
  obtain op n where t: "tracked ''TEST_SYN'' 7 op n ?st" "co_state op = ReadbackPending"
    "co_command_type op = ''test.syn.ping''" "co_target op = ''test-syn''"
    using walk_tracked [OF sample_tracked, of "[Queued, Dispatching, Accepted, ReadbackPending]"]
    by (auto simp: sample_walk_def sample_op_def new_operation_def sample_envelope_def)
  then obtain d where "entry_at ?st (''TEST_SYN'', 7) = Some (d, op)" by (auto simp: tracked_def)
  with t show ?thesis
    using readback_pending_never_recovers [of sample_host "sample_world\<lparr>w_store := ?st\<rparr>" sample_bus_env "''TEST_SYN''" 7 d op
      _ test_syn_adapter sample_bus_reading 2 None]
    by (auto simp: sample_walk_reach sample_bus_env_def sample_ownership sample_adapter)
qed

theorem stale_failure_dead_letters_queued_witness:
  "\<exists>w'. bus_fail sample_bus_env 160 sample_op ''provider rejected'' (Some 1) False
       (sample_world\<lparr>w_store := sample_walk [Queued, Dispatching, ReconciliationRequired, Queued]\<rparr>) = (Inr (), w')
     \<and> in_state (''TEST_SYN'', 7) {DeadLettered} (w_store w')"
proof -
  let ?st = "sample_walk [Queued, Dispatching, ReconciliationRequired, Queued]"
  obtain op n where t: "tracked ''TEST_SYN'' 7 op n ?st" "co_state op = Queued"
    using walk_tracked [OF sample_tracked, of "[Queued, Dispatching, ReconciliationRequired, Queued]"]
    by (auto simp: sample_walk_def)
  then have "settled (co_tenant_id sample_op, co_command_id sample_op) op (w_store (sample_world\<lparr>w_store := ?st\<rparr>))"
    by (auto simp: tracked_def settled_def)
  from stale_failure_dead_letters_queued [OF _ _ this t(2), of sample_host sample_bus_env] show ?thesis
    by (simp add: sample_walk_reach sample_bus_env_def)
qed

lemma gatekeep_denies_external:
  assumes "classification g (co_capability op) = ExternalEffect"
  shows "hoare (\<lambda>w. w_gate w = g) (bus_gatekeep env rd op c a n tmo tr) (\<lambda>stop _. stop \<noteq> None) (\<lambda>_ _. True)"
proof -
  have ready: "hoare (\<lambda>w. w_gate w = g) (catchE (bindE (getsE f) (\<lambda>x. provider_call env AwReadiness (ad_readiness a x)))
      (\<lambda>e. raiseE KnownSafeRetryError (m e))) (\<lambda>_ w. w_gate w = g) (\<lambda>_ _. True)" for f m
    by (auto simp: hoare_def provider_call_def prog_defs split: prod.splits sum.splits)
  have deny: "\<not> sd_allow (fst (safety_evaluate i k s x co g))"
    if "ss_capability s = co_capability op" "sx_tenant_backlog x = None" for i k s x co
    using assms that by (simp add: safety_allow_iff safety_reasons_def reason_if_def)
  show ?thesis
    unfolding bus_gatekeep_def
  proof (rule hoare_bind [OF hoare_bind [where R = "\<lambda>decision _. \<not> sd_allow decision"] ready], goal_cases)
    case (1 readiness decision)
    show ?case
      by (cases "sd_allow decision")
        (auto simp: hoare_def prog_defs split: prod.splits sum.splits)
  next
    case (2 readiness)
    show ?case by (auto simp: hoare_def getsE_def deny)
  qed
qed

text \<open>
  C35. A command classified as an external effect is never executed by the bus: the
  execution-time safety evaluation is made without backlog figures, and the gate denies an
  external effect whose backlog is unknown, so every such command ends before the adapter is
  called.
\<close>

theorem external_effects_never_execute:
  assumes hon: "honest_others h env" and reach: "ledger_reach h (w_store w)"
    and e: "entry_at (w_store w) (t, cid) = Some (d, op)"
    and ext: "classification (w_gate w) (co_capability op) = ExternalEffect"
  shows "w_executions (snd (bus_dispatch env rd t cid n tr w)) = w_executions w"
proof (cases "finished (co_state op)")
  case True
  then show ?thesis using bus_dispatch_finished [OF e] by (simp add: record_outcome_def prog_defs)
next
  case False
  have host: "be_host env = h" using hon by (simp add: honest_others_def)
  obtain c where c: "on_ledger (load_envelope (be_host env) t cid) w = (Inr c, w)" using load_open [OF reach host e] by metis
  let ?c = "calm h (w_store w) (w_executions w)"
  have gk: "hoare (\<lambda>w'. ?c w' \<and> w_gate w' = w_gate w) (bus_gatekeep env rd op c a n tmo tr) (\<lambda>stop w'. ?c w' \<and> stop \<noteq> None) (\<lambda>_. ?c)" for a tmo
    by (rule hoare_weaken [OF hoare_conj [OF calm.keeps_gatekeep [OF hon, unfolded keeps_def] gatekeep_denies_external [OF ext]]]) auto
  have calm_go: "hoare (\<lambda>w'. ?c w' \<and> w_gate w' = w_gate w) m (\<lambda>_. ?c) (\<lambda>_. ?c)"
    if "keeps ?c m" for m :: "('a world, dispatch_outcome) prog"
    using that unfolding keeps_def by (rule hoare_weaken) auto
  have go: "hoare (\<lambda>w'. ?c w' \<and> w_gate w' = w_gate w) (bindE (bus_gatekeep env rd op c a n tmo tr) (\<lambda>stop.
      case stop of Some final \<Rightarrow> record_outcome (plain_outcome cid None final False None None) | None \<Rightarrow> m)) (\<lambda>_. ?c) (\<lambda>_. ?c)" for a tmo m
    by (rule hoare_bind [OF _ gk]) (auto simp: hoare_def record_outcome_def prog_defs calm_def split: option.splits)
  have "hoare (\<lambda>w'. ?c w' \<and> w_gate w' = w_gate w) (dispatch_loaded env rd op cid n tr c) (\<lambda>_. ?c) (\<lambda>_. ?c)"
    unfolding dispatch_loaded_def
    by (auto simp: go split: option.split sum.split intro!: calm_go calm.piece_rules calm.keeps_fail calm.keeps_recover hon host)
  moreover have "?c w" by (simp add: calm_def run_refl)
  ultimately have "?c (snd (dispatch_loaded env rd op cid n tr c w))"
    by (cases "dispatch_loaded env rd op cid n tr c w"; cases "fst (dispatch_loaded env rd op cid n tr c w)")
      (auto simp: hoare_def split: sum.splits prod.splits)
  then show ?thesis unfolding bus_dispatch_open [OF e False] by (simp add: bindE_def c calm_def)
qed

theorem external_effects_never_execute_witness:
  "w_executions (snd (bus_dispatch sample_bus_env sample_bus_reading ''TEST_SYN'' 7 1 None
     (sample_world\<lparr>w_gate := new_gate \<lparr>st_app_env = Test, st_external_effects = [], st_umbrella_controls = []\<rparr> sample_policies
        (sample_switches\<lparr>sw_gates := []\<rparr>)\<rparr>))) = []"
proof -
  let ?w = "sample_world\<lparr>w_gate := new_gate \<lparr>st_app_env = Test, st_external_effects = [], st_umbrella_controls = []\<rparr>
    sample_policies (sample_switches\<lparr>sw_gates := []\<rparr>)\<rparr>"
  have "entry_at (w_store ?w) (''TEST_SYN'', 7) =
      Some (authenticated_command_digest sample_host sample_envelope ''middleware-api'', sample_op)"
    by (simp add: sample_world_def sample_store_entry sample_op_def)
  moreover have "classification (w_gate ?w) (co_capability sample_op) = ExternalEffect"
    by (simp add: classification_def gate_of_def new_gate_def)
  ultimately show ?thesis
    using external_effects_never_execute [OF sample_honest, of ?w "''TEST_SYN''" 7]
    by (simp add: sample_world_def sample_store_reach)
qed

end
