(* ===== verification/Memory_Bus.thy ===== *)
theory Memory_Bus
  imports Dispatch_System
begin

text \<open>
  The in-memory execution bus and reconciliation source of \<open>app/platform/memory.py\<close>: claiming
  an outbox row with a lease, quarantining it before the handler runs, resolving it from the
  handler's outcome, and the same rows seen from the reconciler's side.

  The rows are the outbox of the command store. Python keeps a reference to the row it
  claimed; rows are only ever appended, so the reference is the row's position here. One
  clock reading serves the scan and the claim of a call, a second one its resolution.
\<close>

subsection \<open>State\<close>

record memory_bus =
  mb_max_attempts :: nat
  mb_lease_seconds :: rat
  mb_worker_id :: string

record memory_reading =
  mr_claim :: rat
  mr_resolve :: rat
  mr_dispatch :: bus_reading

record memory_bus_stats =
  ms_pending :: nat
  ms_leased :: nat
  ms_quarantined :: nat
  ms_completed :: nat
  ms_dead_lettered :: nat

fun first_index :: "('a \<Rightarrow> bool) \<Rightarrow> 'a list \<Rightarrow> nat option" where
  "first_index P [] = None"
| "first_index P (x # xs) = (if P x then Some 0 else map_option Suc (first_index P xs))"

definition on_intent :: "nat \<Rightarrow> (outbox_intent \<Rightarrow> outbox_intent) \<Rightarrow> 'p world \<Rightarrow> 'p world" where
  "on_intent i f w = w\<lparr>w_store := (w_store w)\<lparr>cs_outbox := (cs_outbox (w_store w))[i := f (cs_outbox (w_store w) ! i)]\<rparr>\<rparr>"

subsection \<open>The bus\<close>

definition claimable :: "memory_bus \<Rightarrow> rat \<Rightarrow> outbox_intent \<Rightarrow> bool" where
  "claimable mb now i \<longleftrightarrow>
     oi_destination i = ADAPTER_COMMAND_DESTINATION
     \<and> oi_completed_at i = None
     \<and> oi_dead_lettered_at i = None
     \<and> oi_cancelled_at i = None
     \<and> oi_reconciliation_required_at i = None
     \<and> oi_attempt_count i < mb_max_attempts mb
     \<and> oi_next_attempt_at i \<le> now
     \<and> (case oi_lease_until i of None \<Rightarrow> True | Some u \<Rightarrow> u < now)"

definition claim_row :: "memory_bus \<Rightarrow> rat \<Rightarrow> outbox_intent \<Rightarrow> outbox_intent" where
  "claim_row mb now i = i\<lparr>oi_attempt_count := oi_attempt_count i + 1, oi_lease_owner := Some (mb_worker_id mb),
     oi_lease_until := Some (now + mb_lease_seconds mb), oi_reconciliation_required_at := Some now\<rparr>"

definition record_of :: "outbox_intent \<Rightarrow> outbox_record" where
  "record_of i = \<lparr>or_id = oi_id i, or_tenant_id = oi_tenant_id i, or_destination = oi_destination i,
     or_event_type = oi_event_type i, or_idempotency_key = oi_idempotency_key i, or_payload = oi_payload i,
     or_attempt_count = oi_attempt_count i, or_fencing_token = 0\<rparr>"

definition memory_backoff :: "nat \<Rightarrow> rat" where
  "memory_backoff attempts = min 3600 (2 ^ min attempts 10)"

text \<open>The four ways the handler ends, and what each does to the row it was claimed with.\<close>

definition settle_row :: "memory_bus \<Rightarrow> rat \<Rightarrow> exc + unit \<Rightarrow> outbox_intent \<Rightarrow> outbox_intent \<times> string" where
  "settle_row mb now res i =
     (case res of
        Inl e \<Rightarrow>
          if exc_class e = KnownSafeRetryError then
            (let i1 = i\<lparr>oi_reconciliation_required_at := None, oi_lease_owner := None, oi_lease_until := None,
                        oi_last_error := Some (take 2048 (exc_text e))\<rparr> in
             if oi_attempt_count i1 \<ge> mb_max_attempts mb
             then (i1\<lparr>oi_dead_lettered_at := Some now\<rparr>, ''dead_lettered'')
             else (i1\<lparr>oi_next_attempt_at := now + memory_backoff (oi_attempt_count i1)\<rparr>, ''retry''))
          else if exc_class e = UnknownOutcomeError then
            (i\<lparr>oi_last_error := Some (take 2048 (exc_text e))\<rparr>, ''quarantined'')
          else (i\<lparr>oi_last_error := Some (take 2048 (exc_name e @ '': '' @ exc_text e))\<rparr>, ''quarantined'')
      | Inr _ \<Rightarrow>
          (i\<lparr>oi_reconciliation_required_at := None, oi_lease_owner := None, oi_lease_until := None,
             oi_completed_at := Some now\<rparr>, ''completed''))"

definition memory_settle :: "memory_bus \<Rightarrow> rat \<Rightarrow> nat \<Rightarrow> exc + unit \<Rightarrow> 'p world \<Rightarrow> 'p world" where
  "memory_settle mb now i res w =
     (let row = cs_outbox (w_store w) ! i in
      (on_intent i (\<lambda>r. fst (settle_row mb now res r)) w)
        \<lparr>w_processed := w_processed w @ [(oi_id row, snd (settle_row mb now res row))]\<rparr>)"

definition memory_run_once :: "'p bus_env \<Rightarrow> memory_bus \<Rightarrow> memory_reading \<Rightarrow> 'p world \<Rightarrow> bool \<times> 'p world" where
  "memory_run_once env mb rd w =
     (case first_index (claimable mb (mr_claim rd)) (cs_outbox (w_store w)) of
        None \<Rightarrow> (False, w)
      | Some i \<Rightarrow>
          (let w1 = on_intent i (claim_row mb (mr_claim rd)) w;
               (res, w2) = bus_handle env (mr_dispatch rd) (record_of (cs_outbox (w_store w1) ! i)) w1
           in (True, memory_settle mb (mr_resolve rd) i res w2)))"

fun memory_drain :: "'p bus_env \<Rightarrow> memory_bus \<Rightarrow> nat \<Rightarrow> (nat \<Rightarrow> memory_reading) \<Rightarrow> 'p world \<Rightarrow> nat \<times> 'p world" where
  "memory_drain env mb 0 rds w = (0, w)"
| "memory_drain env mb (Suc limit) rds w =
     (case memory_run_once env mb (rds 0) w of
        (False, w1) \<Rightarrow> (0, w1)
      | (True, w1) \<Rightarrow> (case memory_drain env mb limit (\<lambda>n. rds (Suc n)) w1 of (n, w2) \<Rightarrow> (Suc n, w2)))"

definition memory_stats :: "memory_bus \<Rightarrow> rat \<Rightarrow> 'p world \<Rightarrow> memory_bus_stats" where
  "memory_stats mb now w =
     (let rows = filter (\<lambda>i. oi_destination i = ADAPTER_COMMAND_DESTINATION) (cs_outbox (w_store w));
          count = (\<lambda>P. length (filter P rows))
      in \<lparr>ms_pending = count (claimable mb now),
          ms_leased = count (\<lambda>i. (case oi_lease_until i of None \<Rightarrow> False | Some u \<Rightarrow> u \<ge> now) \<and> oi_completed_at i = None),
          ms_quarantined = count (\<lambda>i. oi_reconciliation_required_at i \<noteq> None \<and> oi_completed_at i = None
             \<and> oi_dead_lettered_at i = None),
          ms_completed = count (\<lambda>i. oi_completed_at i \<noteq> None),
          ms_dead_lettered = count (\<lambda>i. oi_dead_lettered_at i \<noteq> None)\<rparr>)"

definition expire_leases :: "rat \<Rightarrow> 'p world \<Rightarrow> nat \<times> 'p world" where
  "expire_leases now w =
     (length (filter (\<lambda>i. oi_lease_until i \<noteq> None) (cs_outbox (w_store w))),
      w\<lparr>w_store := (w_store w)\<lparr>cs_outbox :=
        map (\<lambda>i. if oi_lease_until i \<noteq> None then i\<lparr>oi_lease_until := Some (now - 1)\<rparr> else i) (cs_outbox (w_store w))\<rparr>\<rparr>)"

subsection \<open>The reconciliation source\<close>

record reconciliation_claim =
  rcl_outbox_id :: nat
  rcl_tenant_id :: string
  rcl_command_id :: uuid
  rcl_reconciliation_attempts :: nat

definition parked :: "outbox_intent \<Rightarrow> bool" where
  "parked i \<longleftrightarrow> oi_destination i = ADAPTER_COMMAND_DESTINATION \<and> oi_reconciliation_required_at i \<noteq> None
     \<and> oi_completed_at i = None \<and> oi_dead_lettered_at i = None"

definition reconcilable :: "rat \<Rightarrow> outbox_intent \<Rightarrow> bool" where
  "reconcilable now i \<longleftrightarrow> parked i \<and> (case oi_lease_until i of None \<Rightarrow> True | Some u \<Rightarrow> u < now)"

text \<open>\<open>UUID(str(item.payload["command_id"]))\<close>.\<close>

definition claimed_command :: "json_object \<Rightarrow> exc + uuid" where
  "claimed_command payload =
     (case map_of payload ''command_id'' of
        None \<Rightarrow> Inl (Exc KeyError ''command_id'')
      | Some v \<Rightarrow> (case uuid_parse (json_str v) of
          None \<Rightarrow> Inl (Exc ValueError ''badly formed hexadecimal UUID string'') | Some u \<Rightarrow> Inr u))"

definition memory_claim :: "rat \<Rightarrow> string \<Rightarrow> rat \<Rightarrow> ('p world, reconciliation_claim option) prog" where
  "memory_claim now reconciler_id lease_seconds w =
     (case first_index (reconcilable now) (cs_outbox (w_store w)) of
        None \<Rightarrow> (Inr None, w)
      | Some i \<Rightarrow>
          (let w1 = on_intent i (\<lambda>r. r\<lparr>oi_lease_owner := Some reconciler_id, oi_lease_until := Some (now + lease_seconds),
                 oi_reconciliation_attempts := oi_reconciliation_attempts r + 1\<rparr>) w;
               r1 = cs_outbox (w_store w1) ! i
           in case claimed_command (oi_payload r1) of
                Inl e \<Rightarrow> (Inl e, w1)
              | Inr cid \<Rightarrow> (Inr (Some \<lparr>rcl_outbox_id = oi_id r1, rcl_tenant_id = oi_tenant_id r1, rcl_command_id = cid,
                  rcl_reconciliation_attempts = oi_reconciliation_attempts r1\<rparr>), w1)))"

definition memory_item :: "reconciliation_claim \<Rightarrow> string \<Rightarrow> ('p world, nat) prog" where
  "memory_item claim reconciler_id w =
     (case first_index (\<lambda>i. oi_id i = rcl_outbox_id claim) (cs_outbox (w_store w)) of
        None \<Rightarrow> (Inl (Exc RuntimeError ''outbox intent does not exist''), w)
      | Some i \<Rightarrow>
          if oi_lease_owner (cs_outbox (w_store w) ! i) \<noteq> Some reconciler_id
          then (Inl (Exc RuntimeError ''reconciliation lease is owned by another reconciler''), w)
          else (Inr i, w))"

definition log_resolution :: "nat \<Rightarrow> string \<Rightarrow> string \<Rightarrow> 'p world \<Rightarrow> 'p world" where
  "log_resolution i action reason w =
     w\<lparr>w_resolutions := w_resolutions w @ [(oi_id (cs_outbox (w_store w) ! i), action, reason)]\<rparr>"

definition memory_resolve :: "rat \<Rightarrow> reconciliation_claim \<Rightarrow> string \<Rightarrow> string \<Rightarrow> string \<Rightarrow> ('p world, unit) prog" where
  "memory_resolve now claim reconciler_id action reason =
     bindE (memory_item claim reconciler_id) (\<lambda>i.
     thenE (modifyE (on_intent i (\<lambda>r. r\<lparr>oi_lease_owner := None, oi_lease_until := None, oi_reconciliation_required_at := None,
        oi_last_error := Some (take 2048 reason)\<rparr>)))
     (thenE
       (if action = ''complete'' then modifyE (on_intent i (\<lambda>r. r\<lparr>oi_completed_at := Some now\<rparr>))
        else if action = ''dead_letter'' then modifyE (on_intent i (\<lambda>r. r\<lparr>oi_dead_lettered_at := Some now\<rparr>))
        else if action = ''retry'' then modifyE (on_intent i (\<lambda>r. r\<lparr>oi_next_attempt_at := now\<rparr>))
        else raiseE ValueError action)
       (modifyE (log_resolution i action reason))))"

definition memory_release :: "reconciliation_claim \<Rightarrow> string \<Rightarrow> string \<Rightarrow> ('p world, unit) prog" where
  "memory_release claim reconciler_id reason =
     bindE (memory_item claim reconciler_id) (\<lambda>i.
     thenE (modifyE (on_intent i (\<lambda>r. r\<lparr>oi_lease_owner := None, oi_lease_until := None,
        oi_last_error := Some (take 2048 reason)\<rparr>)))
       (modifyE (log_resolution i ''release'' reason)))"

definition memory_backlog :: "('p world, nat) prog" where
  "memory_backlog = getsE (\<lambda>w. length (filter parked (cs_outbox (w_store w))))"

end
