(* ===== verification/Reconciler.thy ===== *)
theory Reconciler
  imports Memory_Bus
begin

text \<open>
  The reconciliation authority (\<open>app/platform/reconciler.py\<close>): one claimed quarantined row is
  one pass, from the ledger lookup over the adapter's read-back to the ledger verdict and the
  resolution of the row. The source of rows is the \<open>ReconciliationSource\<close> protocol, a record of
  operations; the locale \<open>reconciliation_source\<close> states what the reconciler relies on, the
  in-memory source provides it.
\<close>

subsection \<open>State and environment\<close>

record 'p reconciliation_source_ops =
  rs_claim :: "string \<Rightarrow> rat \<Rightarrow> ('p world, reconciliation_claim option) prog"
  rs_resolve :: "reconciliation_claim \<Rightarrow> string \<Rightarrow> string \<Rightarrow> string \<Rightarrow> ('p world, unit) prog"
  rs_release :: "reconciliation_claim \<Rightarrow> string \<Rightarrow> string \<Rightarrow> ('p world, unit) prog"
  rs_backlog :: "('p world, nat) prog"

record reconciliation_decision =
  rd_command_id :: uuid
  rd_adapter_id :: "string option"
  rd_readback :: "readback_result option"
  rd_action :: string
  rd_final_state :: string
  rd_drift_class :: "string option"

record reconciler =
  rc_budget :: nat
  rc_lease_seconds :: rat
  rc_timeout_seconds :: rat
  rc_reconciler_id :: string

definition DEFAULT_RECONCILIATION_BUDGET :: nat where
  "DEFAULT_RECONCILIATION_BUDGET = 6"

definition decision_of :: "reconciliation_claim \<Rightarrow> string option \<Rightarrow> readback_result option \<Rightarrow> string \<Rightarrow> string \<Rightarrow> string option
    \<Rightarrow> reconciliation_decision" where
  "decision_of claim aid rb action final drift = \<lparr>rd_command_id = rcl_command_id claim, rd_adapter_id = aid,
     rd_readback = rb, rd_action = action, rd_final_state = final, rd_drift_class = drift\<rparr>"

definition memory_source :: "rat \<Rightarrow> rat \<Rightarrow> 'p reconciliation_source_ops" where
  "memory_source claim_clock resolve_clock = \<lparr>rs_claim = memory_claim claim_clock, rs_resolve = memory_resolve resolve_clock,
     rs_release = memory_release, rs_backlog = memory_backlog\<rparr>"

subsection \<open>A fenced verdict\<close>

definition fenced_reconcile :: "'p bus_env \<Rightarrow> 'p reconciliation_source_ops \<Rightarrow> reconciler \<Rightarrow> int \<Rightarrow> reconciliation_claim
    \<Rightarrow> command_operation \<Rightarrow> bool \<Rightarrow> string \<Rightarrow> string option \<Rightarrow> json_object \<Rightarrow> ('p world, bool) prog" where
  "fenced_reconcile env src rc now claim op matched reason pid evidence =
     catchE (thenE (on_ledger (store_reconcile (be_host env) now (rcl_tenant_id claim) (rcl_command_id claim) matched
                 (rc_reconciler_id rc) reason pid evidence (Some (co_resource_version op))))
               (retE True))
       (\<lambda>e. if exc_class e = CommandConflict
            then thenE (rs_release src claim (rc_reconciler_id rc) ''operation changed during read-back; verdict discarded'')
                   (retE False)
            else reraiseE e)"

subsection \<open>Reading the provider\<close>

definition reconcile_context :: "'p bus_env \<Rightarrow> reconciler \<Rightarrow> 'p world \<Rightarrow> command_operation \<Rightarrow> nat \<Rightarrow> json_object \<Rightarrow> adapter_context" where
  "reconcile_context env rc w op attempt payload =
     \<lparr>ax_tenant_id = co_tenant_id op, ax_command_id = uuid_str (co_command_id op),
      ax_correlation_id = co_correlation_id op, ax_attempt = attempt, ax_timeout_seconds = rc_timeout_seconds rc,
      ax_environment = st_app_env (sg_settings (w_gate w)), ax_deployment_sha = be_source_sha env,
      ax_trace_context = [], ax_test_syn = False, ax_payload = payload\<rparr>"

definition reconcile_observe :: "'p bus_env \<Rightarrow> reconciler \<Rightarrow> 'p adapter \<Rightarrow> command_operation \<Rightarrow> adapter_context
    \<Rightarrow> ('p world, readback_result) prog" where
  "reconcile_observe env rc a op x =
     catchE (observe env AwReconcile a op x False (ad_reconcile a op x))
       (\<lambda>e. retE (readback_of RB_UNAVAILABLE (co_provider_operation_id op) [(''retry_hint'', JStr ''reconcile'')]
          (Some (exc_name e))))"

subsection \<open>The verdict\<close>

definition exhausted :: "reconciler \<Rightarrow> reconciliation_claim \<Rightarrow> readback_result \<Rightarrow> bool" where
  "exhausted rc claim rb \<longleftrightarrow> rcl_reconciliation_attempts claim \<ge> rc_budget rc \<or> rb_status rb = RB_UNSUPPORTED"

definition changed_meanwhile :: "reconciliation_claim \<Rightarrow> 'p adapter \<Rightarrow> readback_result \<Rightarrow> command_operation \<Rightarrow> reconciliation_decision" where
  "changed_meanwhile claim a rb op = decision_of claim (Some (ad_adapter_id a)) (Some rb) ''release'' (state_str (co_state op))
     (Some ''operation_changed_during_readback'')"

definition claim_transition :: "'p bus_env \<Rightarrow> reconciler \<Rightarrow> int \<Rightarrow> reconciliation_claim \<Rightarrow> command_state \<Rightarrow> string \<Rightarrow> nat option
    \<Rightarrow> ('p world, command_operation) prog" where
  "claim_transition env rc now claim ns reason expected =
     on_ledger (store_transition (be_host env) now (rcl_tenant_id claim) (rcl_command_id claim) ns (rc_reconciler_id rc)
       reason None None expected)"

definition exhausted_reason :: "readback_result \<Rightarrow> string" where
  "exhausted_reason rb =
     (if rb_status rb = RB_UNSUPPORTED
      then ''provider read-back unsupported ('' @ the (or_str (rb_safe_error_code rb) (Some ''no read surface''))
             @ ''); operator verification required''
      else ''reconciliation budget exhausted after '' @ py_lower (readback_str (rb_status rb)))"

definition give_up_or_release :: "'p bus_env \<Rightarrow> 'p reconciliation_source_ops \<Rightarrow> reconciler \<Rightarrow> int \<Rightarrow> reconciliation_claim
    \<Rightarrow> 'p adapter \<Rightarrow> readback_result \<Rightarrow> ('p world, reconciliation_decision) prog" where
  "give_up_or_release env src rc now claim a rb =
     (let actor = rc_reconciler_id rc; status = py_lower (readback_str (rb_status rb)); reason = exhausted_reason rb in
      if exhausted rc claim rb then
        thenE (claim_transition env rc now claim DeadLettered reason None)
        (thenE (on_ledger (record_dead_letter now (rcl_tenant_id claim) (rcl_command_id claim)
             (if rb_status rb \<noteq> RB_UNSUPPORTED then ''reconciliation_exhausted'' else ''readback_unsupported'')
             status reason False (rb_status rb \<noteq> RB_UNSUPPORTED)))
        (thenE (rs_resolve src claim actor ''dead_letter'' reason)
          (retE (decision_of claim (Some (ad_adapter_id a)) (Some rb) ''dead_letter'' ''dead_lettered'' None))))
      else
        thenE (rs_release src claim actor (''read-back '' @ status @ ''; will retry''))
          (retE (decision_of claim (Some (ad_adapter_id a)) (Some rb) ''release'' ''reconciliation_required'' None)))"

definition reconcile_verdict :: "'p bus_env \<Rightarrow> 'p reconciliation_source_ops \<Rightarrow> reconciler \<Rightarrow> int \<Rightarrow> reconciliation_claim
    \<Rightarrow> command_operation \<Rightarrow> 'p adapter \<Rightarrow> adapter_capabilities \<Rightarrow> nat \<Rightarrow> readback_result \<Rightarrow> ('p world, reconciliation_decision) prog" where
  "reconcile_verdict env src rc now claim op a advertised attempt rb =
     (let actor = rc_reconciler_id rc; evidence = readback_evidence op rb; aid = Some (ad_adapter_id a);
          fenced = (\<lambda>matched reason. fenced_reconcile env src rc now claim op matched reason (rb_provider_operation_id rb) evidence)
      in
      if rb_status rb = RB_MATCHED then
        bindE (fenced True ''reconciliation read-back matched'') (\<lambda>ok.
          if \<not> ok then retE (changed_meanwhile claim a rb op)
          else thenE (rs_resolve src claim actor ''complete'' ''reconciliation read-back matched'')
                 (retE (decision_of claim aid (Some rb) ''complete'' ''completed'' None)))
      else if rb_status rb = RB_NOT_FOUND \<and> \<not> exhausted rc claim rb \<and> ac_safe_reexecution advertised then
        thenE (claim_transition env rc now claim Queued ''reconciliation proved no provider effect; re-queued'' (Some attempt))
        (thenE (rs_resolve src claim actor ''retry'' ''reconciliation proved no provider effect'')
          (retE (decision_of claim aid (Some rb) ''retry'' ''queued'' (Some ''provider_missing_repairable''))))
      else if rb_status rb = RB_NOT_FOUND \<and> \<not> ac_safe_reexecution advertised then
        bindE (fenced False ''provider state missing; automatic repair is not safe'') (\<lambda>ok.
          if \<not> ok then retE (changed_meanwhile claim a rb op)
          else
           (let reason = ''provider state missing and adapter does not permit safe automatic re-execution'' in
            thenE (claim_transition env rc now claim DeadLettered reason None)
            (thenE (rs_resolve src claim actor ''dead_letter'' reason)
              (retE (decision_of claim aid (Some rb) ''dead_letter'' ''dead_lettered''
                 (Some ''provider_missing_manual_repair''))))))
      else if rb_status rb = RB_MISMATCH then
        bindE (fenced False ''reconciliation read-back mismatch'') (\<lambda>ok.
          if \<not> ok then retE (changed_meanwhile claim a rb op)
          else give_up_or_release env src rc now claim a rb)
      else give_up_or_release env src rc now claim a rb)"

subsection \<open>One pass\<close>

definition reconcile_owned :: "'p bus_env \<Rightarrow> 'p reconciliation_source_ops \<Rightarrow> reconciler \<Rightarrow> int \<Rightarrow> reconciliation_claim
    \<Rightarrow> command_operation \<Rightarrow> 'p adapter \<Rightarrow> adapter_capabilities \<Rightarrow> ('p world, reconciliation_decision) prog" where
  "reconcile_owned env src rc now claim op a advertised =
     bindE (on_ledger (latest_attempt (rcl_tenant_id claim) (rcl_command_id claim))) (\<lambda>attempt.
     bindE (on_ledger (load_envelope (be_host env) (rcl_tenant_id claim) (rcl_command_id claim))) (\<lambda>c.
       if ce_target c \<notin> set (ac_connector_ids (ad_capabilities a)) then
         (let reason = ''connector unavailable during reconciliation'' in
          thenE (claim_transition env rc now claim DeadLettered reason None)
          (thenE (rs_resolve src claim (rc_reconciler_id rc) ''dead_letter'' reason)
            (retE (decision_of claim (Some (ad_adapter_id a)) None ''dead_letter'' ''dead_lettered'' None))))
       else
         bindE (getsE (\<lambda>w. reconcile_context env rc w op attempt (ce_payload c))) (\<lambda>x.
         bindE (reconcile_observe env rc a op x) (\<lambda>rb.
           reconcile_verdict env src rc now claim op a advertised attempt rb))))"

definition reconcile_claim :: "'p bus_env \<Rightarrow> 'p reconciliation_source_ops \<Rightarrow> reconciler \<Rightarrow> int \<Rightarrow> reconciliation_claim
    \<Rightarrow> ('p world, reconciliation_decision) prog" where
  "reconcile_claim env src rc now claim =
     (let actor = rc_reconciler_id rc;
          settle = (\<lambda>action reason final. thenE (rs_resolve src claim actor action reason)
                      (retE (decision_of claim None None action final None)));
          release = (\<lambda>reason final. thenE (rs_release src claim actor reason)
                      (retE (decision_of claim None None ''release'' final None)))
      in
      bindE (catchE (bindE (on_ledger (store_get (rcl_tenant_id claim) (rcl_command_id claim))) (\<lambda>op. retE (Some op)))
              (\<lambda>e. if exc_class e = CommandNotFound then retE None else reraiseE e)) (\<lambda>found.
      case found of
        None \<Rightarrow> settle ''dead_letter'' ''command row missing'' ''missing''
      | Some op \<Rightarrow>
        if co_state op = Completed then settle ''complete'' ''operation already completed'' ''completed''
        else if co_state op \<in> set [Failed, DeadLettered, Cancelled] then
          settle ''dead_letter'' (''operation is terminal ('' @ state_str (co_state op) @ '')'') (state_str (co_state op))
        else if co_state op \<noteq> ReconciliationRequired then
          release (''operation is '' @ state_str (co_state op) @ ''; not awaiting reconciliation'') (state_str (co_state op))
        else
          (case ownership_of (be_registry env) (co_command_type op) of
             None \<Rightarrow> release ''no adapter owns this command in this process'' (state_str (co_state op))
           | Some o' \<Rightarrow>
             (case registry_adapter (be_registry env) (ow_adapter_id o') of
                Inl e \<Rightarrow> reraiseE e
              | Inr a \<Rightarrow>
                (case registry_advertised (be_registry env) (ow_adapter_id o') of
                   Inl e \<Rightarrow> reraiseE e
                 | Inr advertised \<Rightarrow> reconcile_owned env src rc now claim op a advertised)))))"

text \<open>
  \<open>run_once\<close>: the backlog probe of the \<open>finally\<close> block only feeds a gauge, and its errors are
  swallowed; it reads and does not write.
\<close>

definition reconciler_run_once :: "'p bus_env \<Rightarrow> 'p reconciliation_source_ops \<Rightarrow> reconciler \<Rightarrow> int
    \<Rightarrow> ('p world, reconciliation_decision option) prog" where
  "reconciler_run_once env src rc now =
     bindE (rs_claim src (rc_reconciler_id rc) (rc_lease_seconds rc)) (\<lambda>claim.
       case claim of
         None \<Rightarrow> retE None
       | Some c \<Rightarrow> bindE (reconcile_claim env src rc now c) (\<lambda>d. retE (Some d)))"

end
