(* ===== verification/Reconciler_Guarantees.thy ===== *)
theory Reconciler_Guarantees
  imports Reconciler
begin

text \<open>
  The contract between the reconciler and its source of rows, as a locale: the operations of
  the source touch nothing but the bookkeeping of outbox rows, and a resolution marks the row
  it was given. From it follow, for every source that keeps the contract: a pass of the
  reconciler never executes, moves the ledger by ledger steps only, and its decision, the
  ledger and the row agree. The in-memory source keeps the contract.
\<close>

subsection \<open>The contract of a source\<close>

definition row_is :: "(outbox_intent \<Rightarrow> bool) \<Rightarrow> nat \<Rightarrow> 'p world \<Rightarrow> bool" where
  "row_is P i w \<longleftrightarrow> (\<exists>r \<in> set (cs_outbox (w_store w)). oi_id r = i \<and> P r)"

text \<open>A program that changes nothing but the bookkeeping of outbox rows (and its own log).\<close>

definition same_but_rows :: "'p world \<Rightarrow> 'p world \<Rightarrow> bool" where
  "same_but_rows w w' \<longleftrightarrow> w_store w' = (w_store w)\<lparr>cs_outbox := cs_outbox (w_store w')\<rparr>
     \<and> map intent_identity (cs_outbox (w_store w')) = map intent_identity (cs_outbox (w_store w))
     \<and> w_executions w' = w_executions w"

definition rows_only :: "('p world, 'a) prog \<Rightarrow> bool" where
  "rows_only m \<longleftrightarrow> (\<forall>w. same_but_rows w (snd (m w)))"

locale reconciliation_source =
  fixes src :: "'p reconciliation_source_ops"
  assumes claim_rows: "rows_only (rs_claim src who lease)"
    and resolve_rows: "rows_only (rs_resolve src c who action reason)"
    and release_rows: "rows_only (rs_release src c who reason)"
    and complete_marks: "rs_resolve src c who ''complete'' reason w = (Inr (), w') \<Longrightarrow>
      row_is (\<lambda>r. oi_completed_at r \<noteq> None) (rcl_outbox_id c) w'"
    and dead_letter_marks: "rs_resolve src c who ''dead_letter'' reason w = (Inr (), w') \<Longrightarrow>
      row_is (\<lambda>r. oi_dead_lettered_at r \<noteq> None) (rcl_outbox_id c) w'"
    and retry_marks: "rs_resolve src c who ''retry'' reason w = (Inr (), w') \<Longrightarrow>
      row_is (\<lambda>r. oi_reconciliation_required_at r = None) (rcl_outbox_id c) w'"

text \<open>What a decision says, as a property of the ledger and the row.\<close>

definition decision_truth :: "'p bus_env \<Rightarrow> reconciler \<Rightarrow> reconciliation_claim \<Rightarrow> reconciliation_decision \<Rightarrow> 'p world \<Rightarrow> bool" where
  "decision_truth env rc claim d w \<longleftrightarrow>
     (let key = (rcl_tenant_id claim, rcl_command_id claim); row = rcl_outbox_id claim in
      rd_action d = ''complete'' \<and> in_state key {Completed} (w_store w) \<and> row_is (\<lambda>r. oi_completed_at r \<noteq> None) row w
        \<and> (\<forall>rb. rd_readback d = Some rb \<longrightarrow> rb_status rb = RB_MATCHED
             \<and> (\<exists>e op op0. entry_at (w_store w) key = Some (e, op) \<and> co_readback_evidence op = Some (readback_evidence op0 rb)))
      \<or> rd_action d = ''retry'' \<and> in_state key {Queued} (w_store w)
        \<and> row_is (\<lambda>r. oi_reconciliation_required_at r = None) row w
        \<and> rcl_reconciliation_attempts claim < rc_budget rc
        \<and> (\<exists>rb. rd_readback d = Some rb \<and> rb_status rb = RB_NOT_FOUND)
        \<and> (\<exists>aid caps. registry_advertised (be_registry env) aid = Inr caps \<and> ac_safe_reexecution caps)
      \<or> rd_action d = ''dead_letter'' \<and> row_is (\<lambda>r. oi_dead_lettered_at r \<noteq> None) row w
        \<and> (in_state key {Failed, DeadLettered, Cancelled} (w_store w)
           \<or> rd_final_state d = ''missing'' \<and> entry_at (w_store w) key = None)
      \<or> rd_action d = ''release'')"

lemma same_but_rows_refl: "same_but_rows w w"
  by (simp add: same_but_rows_def)

lemma same_but_rows_step:
  "same_but_rows w w' \<Longrightarrow> ledger_step h (w_store w) (w_store w')"
  unfolding same_but_rows_def by (metis ls_outbox)

lemma same_but_rows_trans:
  assumes "same_but_rows u v" and "same_but_rows v w"
  shows "same_but_rows u w"
proof -
  have "w_store w = (w_store v)\<lparr>cs_outbox := cs_outbox (w_store w)\<rparr>" using assms(2) by (simp add: same_but_rows_def)
  also have "\<dots> = ((w_store u)\<lparr>cs_outbox := cs_outbox (w_store v)\<rparr>)\<lparr>cs_outbox := cs_outbox (w_store w)\<rparr>"
    using assms(1) unfolding same_but_rows_def by metis
  finally show ?thesis using assms by (simp add: same_but_rows_def)
qed

lemma same_but_rows_entry: "same_but_rows w w' \<Longrightarrow> entry_at (w_store w') key = entry_at (w_store w) key"
proof -
  assume "same_but_rows w w'"
  then have "cs_commands (w_store w') = cs_commands (w_store w)"
    unfolding same_but_rows_def by (metis command_store.select_convs(1) command_store.surjective command_store.update_convs(7))
  then show ?thesis by (simp add: entry_at_def)
qed

lemma rows_onlyI: "(\<And>w0. keeps (same_but_rows w0) m) \<Longrightarrow> rows_only m"
  unfolding rows_only_def by (metis keepsD same_but_rows_refl)

lemma rows_only_keeps: "rows_only m \<Longrightarrow> keeps (same_but_rows w0) m"
  by (rule keepsI) (auto simp: rows_only_def intro: same_but_rows_trans)

lemma rows_only_run: "rows_only m \<Longrightarrow> run (ledger_step h) (w_store w) (w_store (snd (m w)))"
  by (auto simp: rows_only_def intro: run_one same_but_rows_step)

lemma rows_only_entry: "rows_only m \<Longrightarrow> entry_at (w_store (snd (m w))) key = entry_at (w_store w) key"
  by (auto simp: rows_only_def intro: same_but_rows_entry)

lemma rows_only_executions: "rows_only m \<Longrightarrow> w_executions (snd (m w)) = w_executions w"
  by (simp add: rows_only_def same_but_rows_def)

context ledger_stable
begin

lemma keeps_rows: "rows_only m \<Longrightarrow> keeps I m"
  by (rule keepsI) (auto intro: stable rows_only_run rows_only_executions)

lemma keeps_reconcile: "keeps I (on_ledger (store_reconcile h now t c mt a r p ev v))"
  by (rule keeps_on_ledger) (auto intro!: run_one ls_op to_reconcile)

lemma keeps_claim_transition: "be_host env = h \<Longrightarrow> keeps I (claim_transition env rc now claim ns r x)"
  unfolding claim_transition_def by (rule keeps_on_ledger) (auto intro!: run_one ls_op to_transition)

end

subsection \<open>Ledger verdicts\<close>

abbreviation anyhow :: "exc \<Rightarrow> 'p world \<Rightarrow> bool" where
  "anyhow \<equiv> \<lambda>_ _. True"

lemma claim_transition_state:
  "hoare (\<lambda>_. True) (claim_transition env rc now claim ns r x)
    (\<lambda>_ w. in_state (rcl_tenant_id claim, rcl_command_id claim) {ns} (w_store w)) anyhow"
proof (rule hoareI)
  fix w :: "'a world" and op' w'
  assume "claim_transition env rc now claim ns r x w = (Inr op', w')"
  from onLedgerD [OF this [unfolded claim_transition_def]] store_transition_InrD
  show "in_state (rcl_tenant_id claim, rcl_command_id claim) {ns} (w_store w')"
    by (fastforce simp: in_state_def)
qed simp

lemma store_reconcile_InrD:
  assumes "store_reconcile h now t c matched a r p ev v st = (Inr op', st')"
  shows "\<exists>d. entry_at st' (t, c) = Some (d, op') \<and> co_state op' = (if matched then Completed else ReconciliationRequired)
    \<and> co_readback_evidence op' = Some ev"
  using assms by (auto simp: store_reconcile_def entry_at_def Let_def split: option.splits if_splits prod.splits)

lemma fenced_reconcile_verdict:
  "hoare (\<lambda>_. True) (fenced_reconcile env src rc now claim op matched r p ev)
    (\<lambda>ok w. ok \<longrightarrow> (\<exists>d op'. entry_at (w_store w) (rcl_tenant_id claim, rcl_command_id claim) = Some (d, op')
       \<and> co_state op' = (if matched then Completed else ReconciliationRequired) \<and> co_readback_evidence op' = Some ev)) anyhow"
proof -
  let ?m = "on_ledger (store_reconcile (be_host env) now (rcl_tenant_id claim) (rcl_command_id claim) matched
    (rc_reconciler_id rc) r p ev (Some (co_resource_version op))) :: ('a world, command_operation) prog"
  have "hoare (\<lambda>_. True) ?m (\<lambda>_ w. \<exists>d op'. entry_at (w_store w) (rcl_tenant_id claim, rcl_command_id claim) = Some (d, op')
      \<and> co_state op' = (if matched then Completed else ReconciliationRequired) \<and> co_readback_evidence op' = Some ev) anyhow"
  proof (rule hoareI)
    fix w :: "'a world" and op' w'
    assume "?m w = (Inr op', w')"
    from store_reconcile_InrD [OF conjunct1 [OF onLedgerD [OF this]]]
    show "\<exists>d op'. entry_at (w_store w') (rcl_tenant_id claim, rcl_command_id claim) = Some (d, op')
      \<and> co_state op' = (if matched then Completed else ReconciliationRequired) \<and> co_readback_evidence op' = Some ev" by blast
  qed simp
  then show ?thesis
    unfolding fenced_reconcile_def
    by (intro hoare_catch [where R = anyhow] hoare_then [OF hoare_pre [OF hoare_ret]])
      (auto simp: hoare_def prog_defs split: sum.splits prod.splits)
qed

subsection \<open>What the contract gives the reconciler\<close>

context reconciliation_source
begin

lemma source_keeps:
  assumes "ledger_stable h I"
  shows "keeps I (rs_claim src who lease)" and "keeps I (rs_resolve src c who action reason)"
    and "keeps I (rs_release src c who reason)"
  by (rule ledger_stable.keeps_rows [OF assms claim_rows] ledger_stable.keeps_rows [OF assms resolve_rows]
      ledger_stable.keeps_rows [OF assms release_rows])+

lemma fenced_keeps:
  assumes "ledger_stable h I" and "be_host env = h"
  shows "keeps I (fenced_reconcile env src rc now claim op matched r p ev)"
  unfolding fenced_reconcile_def assms(2)
  by (intro keeps_rules ledger_stable.keeps_reconcile [OF assms(1)] source_keeps [OF assms(1)])

lemma give_up_keeps:
  assumes "ledger_stable h I" and "be_host env = h"
  shows "keeps I (give_up_or_release env src rc now claim a rb)"
  unfolding give_up_or_release_def Let_def
  by (intro keeps_rules ledger_stable.keeps_claim_transition [OF assms(1)] ledger_stable.keeps_dead_letter [OF assms(1)]
      source_keeps [OF assms(1)] assms(2))

lemma verdict_keeps:
  assumes "ledger_stable h I" and "be_host env = h"
  shows "keeps I (reconcile_verdict env src rc now claim op a caps k rb)"
  unfolding reconcile_verdict_def Let_def
  by (intro keeps_rules fenced_keeps [OF assms] give_up_keeps [OF assms] ledger_stable.keeps_claim_transition [OF assms(1)]
      source_keeps [OF assms(1)] assms(2))

text \<open>A pass keeps every property that ledger runs keep, and executes nothing.\<close>

lemma pass_keeps:
  assumes st: "ledger_stable h I" and hon: "honest_others h env"
  shows "keeps I (reconcile_claim env src rc now claim)"
proof -
  have host: "be_host env = h" using hon by (simp add: honest_others_def)
  have owned: "keeps I (reconcile_owned env src rc now claim op a caps)" for op a caps
    unfolding reconcile_owned_def reconcile_observe_def Let_def
    by (intro keeps_rules ledger_stable.keeps_read [OF st] ledger_stable.keeps_observe [OF st hon] verdict_keeps [OF st host]
        ledger_stable.keeps_claim_transition [OF st] source_keeps [OF st] host) simp_all
  show ?thesis
    unfolding reconcile_claim_def Let_def
    by (intro keeps_rules ledger_stable.keeps_read [OF st] source_keeps [OF st])
      (simp_all add: owned keeps_reraise split: sum.split)
qed

lemma run_once_keeps:
  "ledger_stable h I \<Longrightarrow> honest_others h env \<Longrightarrow> keeps I (reconciler_run_once env src rc now)"
  unfolding reconciler_run_once_def
  by (intro keeps_rules pass_keeps source_keeps)

lemma resolve_entry:
  assumes "rs_resolve src c who action reason w = (res, w')"
  shows "entry_at (w_store w') key = entry_at (w_store w) key"
  using rows_only_entry [OF resolve_rows, of c who action reason w key] assms by simp

lemma settle_marks:
  assumes "\<And>w w'. rs_resolve src claim who action r w = (Inr (), w') \<Longrightarrow> M w'"
  shows "hoare (\<lambda>w. Z (entry_at (w_store w) key)) (thenE (rs_resolve src claim who action r) (retE d))
    (\<lambda>d' w. d' = d \<and> Z (entry_at (w_store w) key) \<and> M w) anyhow"
proof (rule hoare_then [OF hoare_ret], rule hoareI)
  fix w :: "'p world" and u w'
  assume "Z (entry_at (w_store w) key)" and r: "rs_resolve src claim who action r w = (Inr u, w')"
  then show "d = d \<and> Z (entry_at (w_store w') key) \<and> M w'" using resolve_entry [OF r] assms by simp
qed simp

lemmas settle_complete = settle_marks [where action = "''complete''", OF complete_marks]
  and settle_dead_letter = settle_marks [where action = "''dead_letter''", OF dead_letter_marks]
  and settle_retry = settle_marks [where action = "''retry''", OF retry_marks]

lemma releases_truth:
  "hoare P (thenE (rs_release src claim who r) (retE (decision_of claim aid rb ''release'' fin dr)))
    (\<lambda>d w. decision_truth env rc claim d w) anyhow"
  by (auto simp: hoare_def prog_defs decision_truth_def decision_of_def Let_def split: prod.splits sum.splits)

lemma dead_letter_truth:
  assumes "hoare P m (\<lambda>_ w. in_state (rcl_tenant_id claim, rcl_command_id claim) {DeadLettered} (w_store w)) anyhow"
  shows "hoare P (thenE m (thenE (rs_resolve src claim who ''dead_letter'' r)
      (retE (decision_of claim aid rb ''dead_letter'' fin dr)))) (\<lambda>d w. decision_truth env rc claim d w) anyhow"
  by (rule hoare_then [OF hoare_weaken [OF settle_dead_letter [where key = "(rcl_tenant_id claim, rcl_command_id claim)"
          and Z = "\<lambda>e. \<exists>d op. e = Some (d, op) \<and> co_state op = DeadLettered"]] assms])
    (auto simp: in_state_def decision_truth_def decision_of_def)

lemma give_up_truth:
  "hoare (\<lambda>_. True) (give_up_or_release env src rc now claim a rb) (\<lambda>d w. decision_truth env rc claim d w) anyhow"
proof -
  let ?key = "(rcl_tenant_id claim, rcl_command_id claim)"
  have letter: "hoare (\<lambda>w. in_state ?key {DeadLettered} (w_store w)) (on_ledger (record_dead_letter now t c rcd ec tr po ex))
      (\<lambda>_ w. in_state ?key {DeadLettered} (w_store w)) anyhow" for t c rcd ec tr po ex
  proof (rule hoareI)
    fix w :: "'a world" and x w'
    assume i: "in_state ?key {DeadLettered} (w_store w)"
      and "on_ledger (record_dead_letter now t c rcd ec tr po ex) w = (Inr x, w')"
    then have "w_store w' = snd (record_dead_letter now t c rcd ec tr po ex (w_store w))" using onLedgerD by (metis snd_conv)
    with i show "in_state ?key {DeadLettered} (w_store w')" by (simp add: in_state_def)
  qed simp
  have "hoare (\<lambda>_. True) (thenE (claim_transition env rc now claim DeadLettered r None)
      (thenE (on_ledger (record_dead_letter now t c rcd ec tr po ex)) (thenE (rs_resolve src claim who ''dead_letter'' r')
        (retE (decision_of claim aid rb' ''dead_letter'' fin dr))))) (\<lambda>d w. decision_truth env rc claim d w) anyhow"
    for r t c rcd ec tr po ex who r' aid rb' fin dr
    by (rule hoare_then [OF dead_letter_truth [OF letter] claim_transition_state])
  then show ?thesis
    unfolding give_up_or_release_def Let_def
    by (cases "exhausted rc claim rb") (simp_all add: releases_truth)
qed

lemma verdict_truth:
  assumes adv: "registry_advertised (be_registry env) aid = Inr caps"
  shows "hoare (\<lambda>_. True) (reconcile_verdict env src rc now claim op a caps k rb) (\<lambda>d w. decision_truth env rc claim d w) anyhow"
proof -
  let ?key = "(rcl_tenant_id claim, rcl_command_id claim)"
  have fence: "hoare (\<lambda>_. True) (bindE (fenced_reconcile env src rc now claim op mt r p ev)
      (\<lambda>ok. if \<not> ok then retE (changed_meanwhile claim a rb op) else m)) (\<lambda>d w. decision_truth env rc claim d w) anyhow"
    if "hoare (\<lambda>w. \<exists>d op'. entry_at (w_store w) ?key = Some (d, op')
       \<and> co_state op' = (if mt then Completed else ReconciliationRequired) \<and> co_readback_evidence op' = Some ev) m
       (\<lambda>d w. decision_truth env rc claim d w) anyhow" for mt r p ev m
  proof (rule hoare_bind [OF _ fenced_reconcile_verdict], goal_cases)
    case (1 ok)
    show ?case
      using that by (cases ok) (auto simp: hoare_def prog_defs decision_truth_def changed_meanwhile_def decision_of_def Let_def)
  qed
  have matched: "hoare (\<lambda>w. \<exists>d op'. entry_at (w_store w) ?key = Some (d, op') \<and> co_state op' = Completed
        \<and> co_readback_evidence op' = Some (readback_evidence op rb))
      (thenE (rs_resolve src claim who ''complete'' r) (retE (decision_of claim aid' (Some rb) ''complete'' fin None)))
      (\<lambda>d w. decision_truth env rc claim d w) anyhow" if "rb_status rb = RB_MATCHED" for who r aid' fin
    by (rule hoare_weaken [OF settle_complete [where key = ?key and
          Z = "\<lambda>e. \<exists>d op'. e = Some (d, op') \<and> co_state op' = Completed \<and> co_readback_evidence op' = Some (readback_evidence op rb)"]])
      (use that in \<open>auto simp: decision_truth_def decision_of_def in_state_def\<close>)
  have requeue: "hoare (\<lambda>_. True) (thenE (claim_transition env rc now claim Queued r (Some k))
      (thenE (rs_resolve src claim who ''retry'' r') (retE (decision_of claim aid' (Some rb) ''retry'' fin dr))))
      (\<lambda>d w. decision_truth env rc claim d w) anyhow"
    if "rb_status rb = RB_NOT_FOUND" "\<not> exhausted rc claim rb" "ac_safe_reexecution caps" for r who r' aid' fin dr
    by (rule hoare_then [OF hoare_weaken [OF settle_retry [where key = ?key and Z = "\<lambda>e. \<exists>d op. e = Some (d, op) \<and> co_state op = Queued"]]
          claim_transition_state])
      (use that adv in \<open>auto simp: decision_truth_def decision_of_def in_state_def exhausted_def Let_def\<close>)
  have unsafe: "hoare (\<lambda>w. Z w) (thenE (claim_transition env rc now claim DeadLettered r None)
      (thenE (rs_resolve src claim who ''dead_letter'' r') (retE (decision_of claim aid' rb' ''dead_letter'' fin dr))))
      (\<lambda>d w. decision_truth env rc claim d w) anyhow" for Z r who r' aid' rb' fin dr
    by (rule hoare_pre [OF dead_letter_truth [OF claim_transition_state]]) simp
  have give_up: "hoare Z (give_up_or_release env src rc now claim a rb) (\<lambda>d w. decision_truth env rc claim d w) anyhow" for Z
    by (rule hoare_pre [OF give_up_truth]) simp
  show ?thesis
    unfolding reconcile_verdict_def Let_def
    by (auto intro!: fence matched requeue unsafe give_up)
qed

lemma owned_truth:
  assumes adv: "registry_advertised (be_registry env) aid = Inr caps"
  shows "hoare P (reconcile_owned env src rc now claim op a caps) (\<lambda>d w. decision_truth env rc claim d w) anyhow"
proof -
  have any: "hoare Z m (\<lambda>_ _. True) anyhow" for Z and m :: "('p world, 'b) prog"
    by (simp add: hoare_def split: prod.split sum.split)
  have gone: "hoare (\<lambda>_. True) (thenE (claim_transition env rc now claim DeadLettered r None)
      (thenE (rs_resolve src claim who ''dead_letter'' r') (retE (decision_of claim aid' rb' ''dead_letter'' fin dr))))
      (\<lambda>d w. decision_truth env rc claim d w) anyhow" for r who r' aid' rb' fin dr
    by (rule dead_letter_truth [OF claim_transition_state])
  have read: "hoare (\<lambda>_. True) (bindE (getsE f) (\<lambda>x. bindE (reconcile_observe env rc a op x) (\<lambda>rb.
      reconcile_verdict env src rc now claim op a caps k rb))) (\<lambda>d w. decision_truth env rc claim d w) anyhow" for f k
    by (rule hoare_bind [OF hoare_bind [OF verdict_truth [OF adv] any] any])
  show ?thesis
    unfolding reconcile_owned_def Let_def
    by (rule hoare_bind [OF hoare_bind [OF _ any] any]) (simp add: gone read)
qed

lemma pass_truth:
  "hoare (\<lambda>_. True) (reconcile_claim env src rc now claim) (\<lambda>d w. decision_truth env rc claim d w) anyhow"
proof -
  let ?key = "(rcl_tenant_id claim, rcl_command_id claim)"
  have get: "hoare (\<lambda>_. True)
      (catchE (bindE (on_ledger (store_get (rcl_tenant_id claim) (rcl_command_id claim))) (\<lambda>op. retE (Some op)))
        (\<lambda>e. if exc_class e = CommandNotFound then retE None else reraiseE e))
      (\<lambda>found w. map_option snd (entry_at (w_store w) ?key) = found) anyhow"
    by (auto simp: hoare_def on_ledger_def store_get_def not_found_def prog_defs split: option.splits)
  have refuse: "hoare Z (reraiseE e) Q anyhow" for Z e and Q :: "reconciliation_decision \<Rightarrow> 'p world \<Rightarrow> bool"
    by (simp add: hoare_def reraiseE_def)
  have completes: "hoare (\<lambda>w. \<exists>x. entry_at (w_store w) ?key = Some (x, op))
      (thenE (rs_resolve src claim who ''complete'' r) (retE (decision_of claim None None ''complete'' fin None)))
      (\<lambda>d w. decision_truth env rc claim d w) anyhow" if "co_state op = Completed" for op who r fin
    by (rule hoare_weaken [OF settle_complete [where key = ?key and Z = "\<lambda>e. \<exists>x. e = Some (x, op)"]])
      (use that in \<open>auto simp: decision_truth_def decision_of_def in_state_def\<close>)
  have over: "hoare (\<lambda>w. \<exists>x. entry_at (w_store w) ?key = Some (x, op))
      (thenE (rs_resolve src claim who ''dead_letter'' r) (retE (decision_of claim None None ''dead_letter'' fin None)))
      (\<lambda>d w. decision_truth env rc claim d w) anyhow" if "co_state op \<in> {Failed, DeadLettered, Cancelled}" for op who r fin
    by (rule hoare_weaken [OF settle_dead_letter [where key = ?key and Z = "\<lambda>e. \<exists>x. e = Some (x, op)"]])
      (use that in \<open>auto simp: decision_truth_def decision_of_def in_state_def\<close>)
  have missing: "hoare (\<lambda>w. map_option snd (entry_at (w_store w) ?key) = None)
      (thenE (rs_resolve src claim who ''dead_letter'' r) (retE (decision_of claim None None ''dead_letter'' ''missing'' None)))
      (\<lambda>d w. decision_truth env rc claim d w) anyhow" for who r
    by (rule hoare_weaken [OF settle_dead_letter [where key = ?key and Z = "\<lambda>e. map_option snd e = None"]])
      (auto simp: decision_truth_def decision_of_def)
  show ?thesis
    unfolding reconcile_claim_def Let_def
  proof (rule hoare_bind [OF _ get], goal_cases)
    case (1 found)
    show ?case
    proof (cases found)
      case None
      then show ?thesis using missing by (simp add: eq_commute)
    next
      case (Some op)
      then show ?thesis
        by (auto intro!: completes over releases_truth owned_truth refuse split: option.split sum.split)
    qed
  qed
qed

lemma run_once_decides:
  assumes "reconciler_run_once env src rc now w = (Inr (Some d), w')"
  shows "\<exists>claim w1. rs_claim src (rc_reconciler_id rc) (rc_lease_seconds rc) w = (Inr (Some claim), w1)
    \<and> decision_truth env rc claim d w'"
  using assms hoareD_ret [OF pass_truth]
  by (auto simp: reconciler_run_once_def prog_defs split: prod.splits sum.splits option.splits)

lemma run_once_true:
  assumes "honest_others h env" and "ledger_reach h (w_store w)" and "reconciler_run_once env src rc now w = (Inr (Some d), w')"
  shows "w_executions w' = w_executions w \<and> ledger_reach h (w_store w')
    \<and> (\<exists>claim w1. rs_claim src (rc_reconciler_id rc) (rc_lease_seconds rc) w = (Inr (Some claim), w1)
        \<and> decision_truth env rc claim d w')"
proof -
  have "calm h (w_store w) (w_executions w) w" by (simp add: calm_def run_refl)
  from keepsD [OF run_once_keeps [OF calm.ledger_stable_axioms assms(1)] this, of rc now] assms(3)
  have "calm h (w_store w) (w_executions w) w'" by simp
  moreover then have "ledger_reach h (w_store w')" using assms(2) by (auto simp: calm_def intro: reach_run)
  ultimately show ?thesis using run_once_decides [OF assms(3)] by (simp add: calm_def)
qed

end

subsection \<open>The fence of a verdict\<close>

definition still_awaiting :: "reconciliation_claim \<Rightarrow> command_operation \<Rightarrow> 'p world \<Rightarrow> bool" where
  "still_awaiting claim op w \<longleftrightarrow> (\<exists>d op1. entry_at (w_store w) (rcl_tenant_id claim, rcl_command_id claim) = Some (d, op1)
     \<and> co_state op1 = ReconciliationRequired \<and> co_resource_version op1 = co_resource_version op)"

lemma store_reconcile_stale:
  assumes "entry_at st (t, c) = Some (d, op1)"
    and "co_state op1 \<noteq> ReconciliationRequired \<or> co_resource_version op1 \<noteq> v"
  shows "\<exists>m. store_reconcile h now t c matched a r p ev (Some v) st = (Inl (Exc CommandConflict m), st)"
  using assms by (cases "co_state op1 = ReconciliationRequired") (simp_all add: store_reconcile_def)

lemma store_reconcile_fresh:
  assumes "entry_at st (t, c) = Some (d, op1)"
    and "co_state op1 = ReconciliationRequired" and "co_resource_version op1 = v"
  shows "\<exists>op' st'. store_reconcile h now t c matched a r p ev (Some v) st = (Inr op', st')"
  using assms by (simp add: store_reconcile_def Let_def)

context reconciliation_source
begin

lemma fenced_fresh:
  assumes "still_awaiting claim op w"
  shows "fst (fenced_reconcile env src rc now claim op matched r p ev w) = Inr True"
proof -
  obtain op' st' where "store_reconcile (be_host env) now (rcl_tenant_id claim) (rcl_command_id claim) matched (rc_reconciler_id rc)
      r p ev (Some (co_resource_version op)) (w_store w) = (Inr op', st')"
    using assms store_reconcile_fresh unfolding still_awaiting_def by metis
  then show ?thesis by (simp add: fenced_reconcile_def on_ledger_def prog_defs)
qed

lemma fenced_stale:
  assumes e: "entry_at (w_store w) (rcl_tenant_id claim, rcl_command_id claim) = Some (d, op1)" and "\<not> still_awaiting claim op w"
    and "fenced_reconcile env src rc now claim op matched r p ev w = (res, w')"
  shows "res \<noteq> Inr True \<and> same_but_rows w w'"
proof -
  have "co_state op1 \<noteq> ReconciliationRequired \<or> co_resource_version op1 \<noteq> co_resource_version op"
    using assms(1,2) by (auto simp: still_awaiting_def)
  with store_reconcile_stale [OF e] obtain m where
    "store_reconcile (be_host env) now (rcl_tenant_id claim) (rcl_command_id claim) matched (rc_reconciler_id rc) r p ev
       (Some (co_resource_version op)) (w_store w) = (Inl (Exc CommandConflict m), w_store w)" by metis
  then have "(res, w') = thenE (rs_release src claim (rc_reconciler_id rc) ''operation changed during read-back; verdict discarded'')
      (retE False) w"
    using assms(3) by (simp add: fenced_reconcile_def on_ledger_def prog_defs)
  moreover have "same_but_rows w (snd (rs_release src claim (rc_reconciler_id rc)
      ''operation changed during read-back; verdict discarded'' w))"
    using release_rows by (simp add: rows_only_def)
  ultimately show ?thesis by (auto simp: prog_defs split: prod.splits sum.splits)
qed

end

subsection \<open>The in-memory source keeps the contract\<close>

lemma first_index_Some: "first_index P xs = Some i \<Longrightarrow> i < length xs \<and> P (xs ! i) \<and> (\<forall>j < i. \<not> P (xs ! j))"
proof (induction xs arbitrary: i)
  case (Cons x xs)
  then show ?case by (auto split: if_splits simp: less_Suc_eq_0_disj)
qed simp

lemma on_intent_rows:
  "(\<And>r. intent_identity (f r) = intent_identity r) \<Longrightarrow> same_but_rows w (on_intent i f w)"
  by (cases "i < length (cs_outbox (w_store w))")
    (simp_all add: same_but_rows_def on_intent_def map_update list_update_beyond list_update_same_conv)

lemma keeps_on_intent:
  "(\<And>r. intent_identity (f r) = intent_identity r) \<Longrightarrow> keeps (same_but_rows w0) (modifyE (on_intent i f))"
  by (intro keeps_modify same_but_rows_trans [OF _ on_intent_rows])

lemma keeps_log: "keeps (same_but_rows w0) (modifyE (log_resolution i action reason))"
  by (rule keeps_modify) (auto simp: log_resolution_def same_but_rows_def)

lemma keeps_item: "keeps (same_but_rows w0) (memory_item c who)"
  by (rule keepsI) (auto simp: memory_item_def split: option.splits)

lemma memory_resolve_rows: "rows_only (memory_resolve now c who action reason)"
  unfolding memory_resolve_def
  by (intro rows_onlyI keeps_rules keeps_item keeps_log keeps_on_intent) (simp_all add: intent_identity_def)

lemma memory_release_rows: "rows_only (memory_release c who reason)"
  unfolding memory_release_def
  by (intro rows_onlyI keeps_rules keeps_item keeps_log keeps_on_intent) (simp_all add: intent_identity_def)

lemma memory_claim_rows: "rows_only (memory_claim now who lease)"
  unfolding rows_only_def memory_claim_def Let_def
  by (auto split: option.split sum.split intro!: on_intent_rows same_but_rows_refl simp: intent_identity_def)

text \<open>A resolution that returns has found its row, and marks it.\<close>

lemma memory_resolve_row:
  assumes "memory_resolve now c who action reason w = (Inr (), w')"
  obtains i where "i < length (cs_outbox (w_store w'))" and "oi_id (cs_outbox (w_store w') ! i) = rcl_outbox_id c"
    and "action = ''complete'' \<Longrightarrow> oi_completed_at (cs_outbox (w_store w') ! i) \<noteq> None"
    and "action = ''dead_letter'' \<Longrightarrow> oi_dead_lettered_at (cs_outbox (w_store w') ! i) \<noteq> None"
    and "action = ''retry'' \<Longrightarrow> oi_reconciliation_required_at (cs_outbox (w_store w') ! i) = None"
proof -
  obtain i where i: "first_index (\<lambda>i. oi_id i = rcl_outbox_id c) (cs_outbox (w_store w)) = Some i"
    using assms by (auto simp: memory_resolve_def memory_item_def prog_defs split: option.splits)
  note f = first_index_Some [OF i]
  have "memory_item c who w = (Inr i, w)"
    using assms i by (auto simp: memory_resolve_def memory_item_def prog_defs split: if_splits)
  with assms f show ?thesis
    by (intro that [of i])
      (auto simp: memory_resolve_def prog_defs on_intent_def log_resolution_def split: if_splits)
qed

interpretation mem: reconciliation_source "memory_source cc rcl" for cc rcl
proof (unfold_locales, goal_cases)
  case (4 c who reason w w')
  then show ?case by (auto simp: memory_source_def row_is_def elim!: memory_resolve_row intro: nth_mem)
next
  case (5 c who reason w w')
  then show ?case by (auto simp: memory_source_def row_is_def elim!: memory_resolve_row intro: nth_mem)
next
  case (6 c who reason w w')
  then show ?case by (auto simp: memory_source_def row_is_def elim!: memory_resolve_row intro: nth_mem)
qed (simp_all add: memory_source_def memory_claim_rows memory_resolve_rows memory_release_rows)


subsection \<open>Reconciliation on the in-memory source\<close>

definition sample_reconciler :: reconciler where
  "sample_reconciler = \<lparr>rc_budget = DEFAULT_RECONCILIATION_BUDGET, rc_lease_seconds = 60, rc_timeout_seconds = 30,
     rc_reconciler_id = ''reconciler-1''\<rparr>"

definition cancelled_store :: command_store where
  "cancelled_store = snd (store_transition sample_host 150 ''TEST_SYN'' 7 Cancelled ''operator'' ''stuck'' None None None sample_store)"

definition parked_world :: "fixture world" where
  "parked_world = on_intent 0 (\<lambda>r. r\<lparr>oi_reconciliation_required_at := Some 1\<rparr>) (sample_world\<lparr>w_store := cancelled_store\<rparr>)"

lemma cancelled_entry:
  "entry_at cancelled_store (''TEST_SYN'', 7) =
     Some (authenticated_command_digest sample_host sample_envelope ''middleware-api'', (new_operation sample_envelope 100)\<lparr>co_state := Cancelled, co_updated_at := 150\<rparr>)"
  using sample_store_entry
  by (simp add: cancelled_store_def store_transition_def Let_def sample_envelope_def new_operation_def entry_at_def or_str_def)

lemma cancelled_outbox: "cs_outbox cancelled_store = cs_outbox sample_store"
  using sample_store_entry by (simp add: cancelled_store_def store_transition_def Let_def new_operation_def append_event_def sample_envelope_def)

lemma sample_row:
  "cs_outbox sample_store = [new_intent 1 ''TEST_SYN'' (uuid_str 7) ADAPTER_COMMAND_DESTINATION ''test.syn.ping'' ''idem-0001''
     (authenticated_command_payload sample_envelope ''middleware-api'')]"
  by (simp add: sample_store_def store_submit_def COMMAND_DESTINATIONS_def empty_store_def entry_at_def Let_def
      sample_envelope_def)

lemma parked_row:
  "w_store parked_world = cancelled_store\<lparr>cs_outbox := [(new_intent 1 ''TEST_SYN'' (uuid_str 7) ADAPTER_COMMAND_DESTINATION
     ''test.syn.ping'' ''idem-0001'' (authenticated_command_payload sample_envelope ''middleware-api''))
       \<lparr>oi_reconciliation_required_at := Some 1\<rparr>]\<rparr>"
  by (simp add: parked_world_def on_intent_def cancelled_outbox sample_row)

lemma parked_reach: "ledger_reach sample_host (w_store parked_world)"
proof -
  have "ledger_reach sample_host cancelled_store"
    unfolding cancelled_store_def by (rule reach_step [OF sample_store_reach]) (auto intro: ls_op to_transition)
  then have "ledger_reach sample_host (w_store (sample_world\<lparr>w_store := cancelled_store\<rparr>))" by simp
  from reach_step [OF this same_but_rows_step [OF on_intent_rows]] show ?thesis
    by (simp add: parked_world_def intent_identity_def)
qed

text \<open>
  A verdict is recorded exactly when it is fresh. For a command in the ledger, the fenced
  write of a read-back verdict returns true if and only if the command still awaits
  reconciliation at the version that was read; then the ledger holds the verdict with its
  evidence. A stale verdict changes neither the ledger nor the execution log.
\<close>

theorem verdict_recorded_iff_fresh:
  assumes e: "entry_at (w_store w) (rcl_tenant_id claim, rcl_command_id claim) = Some (d, op1)"
    and f: "fenced_reconcile env (memory_source cc rcl) rc now claim op matched r p ev w = (res, w')"
  shows "(res = Inr True \<longleftrightarrow> co_state op1 = ReconciliationRequired \<and> co_resource_version op1 = co_resource_version op)
    \<and> (if res = Inr True
       then \<exists>x op'. entry_at (w_store w') (rcl_tenant_id claim, rcl_command_id claim) = Some (x, op')
         \<and> co_state op' = (if matched then Completed else ReconciliationRequired) \<and> co_readback_evidence op' = Some ev
       else (\<forall>key. entry_at (w_store w') key = entry_at (w_store w) key) \<and> w_executions w' = w_executions w)"
proof -
  have "still_awaiting claim op w \<longleftrightarrow> co_state op1 = ReconciliationRequired \<and> co_resource_version op1 = co_resource_version op"
    using e by (auto simp: still_awaiting_def)
  moreover have "res = Inr True \<longleftrightarrow> still_awaiting claim op w"
    using mem.fenced_fresh [of claim op w env cc rcl rc now matched r p ev] mem.fenced_stale [OF e _ f] f by fastforce
  moreover have "(\<forall>key. entry_at (w_store w') key = entry_at (w_store w) key) \<and> w_executions w' = w_executions w"
    if "\<not> still_awaiting claim op w"
    using mem.fenced_stale [OF e that f] same_but_rows_entry by (fastforce simp: same_but_rows_def)
  moreover have "\<exists>x op'. entry_at (w_store w') (rcl_tenant_id claim, rcl_command_id claim) = Some (x, op')
         \<and> co_state op' = (if matched then Completed else ReconciliationRequired) \<and> co_readback_evidence op' = Some ev"
    if "res = Inr True"
    using hoareD_ret [OF fenced_reconcile_verdict _ f [unfolded that]] by blast
  ultimately show ?thesis by metis
qed

theorem verdict_recorded_iff_fresh_witness:
  "\<exists>res w'. fenced_reconcile sample_bus_env (memory_source 300 301) sample_reconciler 300
      \<lparr>rcl_outbox_id = 1, rcl_tenant_id = ''TEST_SYN'', rcl_command_id = 7, rcl_reconciliation_attempts = 1\<rparr>
      sample_op True ''matched'' None [] parked_world = (res, w') \<and> res \<noteq> Inr True
      \<and> entry_at (w_store w') (''TEST_SYN'', 7) = entry_at cancelled_store (''TEST_SYN'', 7)"
proof -
  let ?claim = "\<lparr>rcl_outbox_id = 1, rcl_tenant_id = ''TEST_SYN'', rcl_command_id = 7, rcl_reconciliation_attempts = 1\<rparr>"
  obtain res w' where f: "fenced_reconcile sample_bus_env (memory_source 300 301) sample_reconciler 300 ?claim
      sample_op True ''matched'' None [] parked_world = (res, w')" by fastforce
  have same: "entry_at (w_store parked_world) key = entry_at cancelled_store key" for key
    by (simp add: parked_row entry_at_def)
  have e: "entry_at (w_store parked_world) (rcl_tenant_id ?claim, rcl_command_id ?claim) = Some
      (authenticated_command_digest sample_host sample_envelope ''middleware-api'',
       (new_operation sample_envelope 100)\<lparr>co_state := Cancelled, co_updated_at := 150\<rparr>)"
    by (simp add: same cancelled_entry)
  from verdict_recorded_iff_fresh [OF e f] f show ?thesis by (simp add: same)
qed

end
