(* ===== verification/Memory_Guarantees.thy ===== *)
theory Memory_Guarantees
  imports Reconciler_Guarantees
begin

text \<open>
  What the in-memory bus guarantees: a row's attempt budget bounds the work, so draining
  terminates with nothing left to claim; and the row is settled the way the ledger is.
\<close>

subsection \<open>A bus on its own\<close>

text \<open>The environment without interference: one process drains its own outbox.\<close>

definition quietly :: "'p bus_env \<Rightarrow> 'p bus_env" where
  "quietly env = env\<lparr>be_others := \<lambda>_ st. st\<rparr>"

definition remaining :: "memory_bus \<Rightarrow> outbox_intent list \<Rightarrow> nat" where
  "remaining mb rows = sum_list (map (\<lambda>r. mb_max_attempts mb - oi_attempt_count r) rows)"

lemma quietly_honest: "honest_others (be_host env) (quietly env)"
  by (simp add: honest_others_def quietly_def run_refl)

lemma record_dead_letter_outbox [simp]:
  "cs_outbox (snd (record_dead_letter now t c rc ec tr po ex st)) = cs_outbox st"
  by (auto simp: record_dead_letter_def store_get_def prog_defs Let_def split: option.splits)

lemma keeps_outbox:
  assumes "\<And>st. cs_outbox (snd (m st)) = cs_outbox st"
  shows "keeps (\<lambda>w :: 'p world. cs_outbox (w_store w) = ob) (on_ledger m)"
proof (rule keepsI)
  fix w :: "'p world"
  assume "cs_outbox (w_store w) = ob"
  moreover have "snd (on_ledger m w) = w\<lparr>w_store := snd (m (w_store w))\<rparr>"
    by (simp add: on_ledger_def zoomE_def split_beta)
  ultimately show "cs_outbox (w_store (snd (on_ledger m w))) = ob" using assms by simp
qed

interpretation rowsfix: bus_stable_log "quietly env" "\<lambda>w. cs_outbox (w_store w) = ob" for env ob
  by unfold_locales (auto simp: bus_transition_def quietly_def intro!: keeps_outbox)

lemma handle_outbox: "cs_outbox (w_store (snd (bus_handle (quietly env) rd rec w))) = cs_outbox (w_store w)"
  using keepsD [OF rowsfix.handle] by blast

subsection \<open>Draining terminates\<close>

lemma remaining_update:
  assumes "i < length rows" and "oi_attempt_count (rows ! i) < mb_max_attempts mb"
    and "oi_attempt_count r = Suc (oi_attempt_count (rows ! i))"
  shows "remaining mb rows = Suc (remaining mb (rows[i := r]))"
proof -
  have "remaining mb (rows[i := r]) + (mb_max_attempts mb - oi_attempt_count (rows ! i))
      = remaining mb rows + (mb_max_attempts mb - oi_attempt_count r)"
    using assms(1)
  proof (induction rows arbitrary: i)
    case (Cons x xs)
    then show ?case by (cases i) (auto simp: remaining_def)
  qed simp
  with assms(2,3) show ?thesis by simp
qed

lemma settle_row_attempts [simp]: "oi_attempt_count (fst (settle_row mb now res r)) = oi_attempt_count r"
  by (auto simp: settle_row_def Let_def split: sum.split)

lemma first_index_None: "first_index P xs = None \<longleftrightarrow> (\<forall>x \<in> set xs. \<not> P x)"
  by (induction xs) auto

lemma run_once_idle:
  "memory_run_once env mb rd w = (False, w') \<Longrightarrow> w' = w \<and> (\<forall>r \<in> set (cs_outbox (w_store w)). \<not> claimable mb (mr_claim rd) r)"
  by (auto simp: memory_run_once_def first_index_None Let_def split: option.splits prod.splits)

lemma run_once_spends:
  assumes "memory_run_once (quietly env) mb rd w = (True, w')"
  shows "remaining mb (cs_outbox (w_store w)) = Suc (remaining mb (cs_outbox (w_store w')))"
proof -
  obtain i where i: "first_index (claimable mb (mr_claim rd)) (cs_outbox (w_store w)) = Some i"
    using assms by (auto simp: memory_run_once_def split: option.splits)
  let ?rows = "cs_outbox (w_store w)" and ?r1 = "claim_row mb (mr_claim rd) (cs_outbox (w_store w) ! i)"
  let ?w1 = "on_intent i (claim_row mb (mr_claim rd)) w"
  obtain res w2 where h: "bus_handle (quietly env) (mr_dispatch rd) (record_of (cs_outbox (w_store ?w1) ! i)) ?w1 = (res, w2)"
    by fastforce
  have c: "i < length ?rows" "claimable mb (mr_claim rd) (?rows ! i)" using first_index_Some [OF i] by blast+
  have w2: "cs_outbox (w_store w2) = ?rows[i := ?r1]"
    using handle_outbox [of env "mr_dispatch rd" "record_of (cs_outbox (w_store ?w1) ! i)" ?w1] h by (simp add: on_intent_def)
  have "w' = memory_settle mb (mr_resolve rd) i res w2"
    using assms i h by (simp add: memory_run_once_def Let_def)
  then have "cs_outbox (w_store w') = ?rows[i := fst (settle_row mb (mr_resolve rd) res ?r1)]"
    using w2 c(1) by (simp add: memory_settle_def on_intent_def Let_def)
  then show ?thesis
    using remaining_update [OF c(1), of mb "fst (settle_row mb (mr_resolve rd) res ?r1)"] c(2)
    by (simp add: claimable_def claim_row_def)
qed

lemma drain_spends:
  "memory_drain (quietly env) mb limit rds w = (n, w') \<Longrightarrow>
     n + remaining mb (cs_outbox (w_store w')) = remaining mb (cs_outbox (w_store w)) \<and> n \<le> limit
     \<and> (n < limit \<longrightarrow> (\<forall>r \<in> set (cs_outbox (w_store w')). \<not> claimable mb (mr_claim (rds n)) r))"
proof (induction limit arbitrary: rds w n w')
  case (Suc limit)
  show ?case
  proof (cases "memory_run_once (quietly env) mb (rds 0) w")
    case (Pair b w1)
    show ?thesis
    proof (cases b)
      case True
      with Pair Suc.prems obtain m where m: "memory_drain (quietly env) mb limit (\<lambda>n. rds (Suc n)) w1 = (m, w')" "n = Suc m"
        by (auto split: prod.splits)
      have "memory_run_once (quietly env) mb (rds 0) w = (True, w1)" using Pair True by simp
      from run_once_spends [OF this] show ?thesis using Suc.IH [OF m(1)] m(2) by auto
    next
      case False
      then have "memory_run_once (quietly env) mb (rds 0) w = (False, w1)" using Pair by simp
      from run_once_idle [OF this] show ?thesis using Pair False Suc.prems by auto
    qed
  qed
qed simp


text \<open>A drain of the sample outbox.\<close>

definition sample_memory_bus :: memory_bus where
  "sample_memory_bus = \<lparr>mb_max_attempts = 8, mb_lease_seconds = 60, mb_worker_id = ''memory-bus''\<rparr>"

definition sample_memory_reading :: memory_reading where
  "sample_memory_reading = \<lparr>mr_claim = 10, mr_resolve = 11, mr_dispatch = sample_bus_reading\<rparr>"

lemma sample_outbox: "\<exists>r. cs_outbox sample_store = [r] \<and> oi_attempt_count r = 0 \<and> oi_tenant_id r = ''TEST_SYN''"
  by (simp add: sample_store_def store_submit_def COMMAND_DESTINATIONS_def empty_store_def entry_at_def Let_def
      new_intent_def sample_envelope_def)


subsection \<open>Rows and ledger agree\<close>

lemma memory_settle_entry [simp]: "entry_at (w_store (memory_settle mb now i res w)) key = entry_at (w_store w) key"
  by (simp add: memory_settle_def on_intent_def entry_at_def Let_def)

lemma memory_settle_executions [simp]: "w_executions (memory_settle mb now i res w) = w_executions w"
  by (simp add: memory_settle_def on_intent_def Let_def)

lemma in_state_settle [simp]: "in_state key S (w_store (memory_settle mb now i res w)) = in_state key S (w_store w)"
  by (simp add: in_state_def)

lemma settle_row_completed: "oi_completed_at (fst (settle_row mb now (Inr u) r)) \<noteq> None"
  by (simp add: settle_row_def)

lemma settle_row_retried:
  "exc_class e = KnownSafeRetryError \<Longrightarrow> oi_reconciliation_required_at (fst (settle_row mb now (Inl e) r)) = None
     \<and> oi_completed_at (fst (settle_row mb now (Inl e) r)) = oi_completed_at r"
  by (simp add: settle_row_def Let_def)

lemma settle_row_quarantined:
  "exc_class e \<noteq> KnownSafeRetryError \<Longrightarrow>
     oi_reconciliation_required_at (fst (settle_row mb now (Inl e) r)) = oi_reconciliation_required_at r
     \<and> oi_completed_at (fst (settle_row mb now (Inl e) r)) = oi_completed_at r"
  by (simp add: settle_row_def)

lemma quarantined_not_claimable: "oi_reconciliation_required_at r \<noteq> None \<Longrightarrow> \<not> claimable mb now r"
  by (simp add: claimable_def)

lemma reach_rows: "ledger_reach h (w_store w) \<Longrightarrow> same_but_rows w w' \<Longrightarrow> ledger_reach h (w_store w')"
  by (rule reach_step) (auto intro: same_but_rows_step)

lemma claim_row_rows: "same_but_rows w (on_intent i (claim_row mb now) w)"
  by (rule on_intent_rows) (simp add: claim_row_def intent_identity_def)

text \<open>One claim of the bus, taken apart: the row, the handler's result and the settled row.\<close>

lemma run_once_claims:
  assumes "memory_run_once (quietly env) mb rd w = (True, w')"
  obtains i res w1 w2 where "i < length (cs_outbox (w_store w))" and "claimable mb (mr_claim rd) (cs_outbox (w_store w) ! i)"
    and "w1 = on_intent i (claim_row mb (mr_claim rd)) w"
    and "bus_handle (quietly env) (mr_dispatch rd) (record_of (claim_row mb (mr_claim rd) (cs_outbox (w_store w) ! i))) w1 = (res, w2)"
    and "w' = memory_settle mb (mr_resolve rd) i res w2"
    and "cs_outbox (w_store w') ! i = fst (settle_row mb (mr_resolve rd) res (claim_row mb (mr_claim rd) (cs_outbox (w_store w) ! i)))"
proof -
  obtain i where i: "first_index (claimable mb (mr_claim rd)) (cs_outbox (w_store w)) = Some i"
    using assms by (auto simp: memory_run_once_def split: option.splits)
  note c = first_index_Some [OF i]
  let ?r1 = "claim_row mb (mr_claim rd) (cs_outbox (w_store w) ! i)" and ?w1 = "on_intent i (claim_row mb (mr_claim rd)) w"
  obtain res w2 where h: "bus_handle (quietly env) (mr_dispatch rd) (record_of ?r1) ?w1 = (res, w2)" by fastforce
  have r1: "cs_outbox (w_store ?w1) ! i = ?r1" using c by (simp add: on_intent_def)
  then have w': "w' = memory_settle mb (mr_resolve rd) i res w2"
    using assms i h by (simp add: memory_run_once_def Let_def)
  have "cs_outbox (w_store w2) = cs_outbox (w_store ?w1)" using handle_outbox h by (metis snd_conv)
  then have "cs_outbox (w_store w') ! i = fst (settle_row mb (mr_resolve rd) res ?r1)"
    unfolding w' using c by (simp add: memory_settle_def on_intent_def Let_def)
  with that c h w' show ?thesis by blast
qed

text \<open>
  What a settled row says of its command: finished rows have finished commands, rows back in
  the queue have an untouched provider or a command that is queued or dead lettered, and every
  other row is out of reach of the claimers.
\<close>

definition row_agrees :: "memory_bus \<Rightarrow> 'p world \<Rightarrow> string \<times> uuid \<Rightarrow> outbox_intent \<Rightarrow> 'p world \<Rightarrow> bool" where
  "row_agrees mb before key r' w' \<longleftrightarrow>
     oi_completed_at r' \<noteq> None \<and> (entry_at (w_store w') key = None
        \<or> in_state key {Completed, Failed, DeadLettered, Cancelled} (w_store w'))
   \<or> oi_completed_at r' = None \<and> oi_reconciliation_required_at r' = None
        \<and> (w_executions w' = w_executions before \<or> in_state key {Persisted, Queued, DeadLettered} (w_store w'))
   \<or> oi_completed_at r' = None \<and> (\<forall>now. \<not> claimable mb now r')"

lemma settled_row_agrees:
  assumes reach: "ledger_reach (be_host env) (w_store w1)"
    and row: "oi_completed_at r1 = None" "oi_reconciliation_required_at r1 \<noteq> None"
    and d: "bus_dispatch (quietly env) at' t cid n tr w1 = (x, w3)"
  shows "row_agrees mb w1 (t, cid) (fst (settle_row mb now (map_sum id (\<lambda>_. ()) x) r1)) w3"
proof -
  note sig = dispatch_signals [OF quietly_honest reach, where rd = at' and t = t and cid = cid and n = n and tr = tr, unfolded d]
  show ?thesis
  proof (cases x)
    case (Inr oc)
    then show ?thesis using sig settle_row_completed by (simp add: row_agrees_def)
  next
    case (Inl e)
    show ?thesis
    proof (cases "exc_class e = KnownSafeRetryError")
      case True
      then show ?thesis using sig Inl settle_row_retried [OF True] row by (simp add: row_agrees_def)
    next
      case False
      with Inl row quarantined_not_claimable settle_row_quarantined [OF False] show ?thesis
        by (simp add: row_agrees_def)
    qed
  qed
qed



end
