(* ===== verification/Outbox_Store.thy ===== *)
theory Outbox_Store
  imports Memory_Bus
begin

text \<open>
  The durable outbox (\<open>PostgresOutboxStore\<close> of \<open>app/storage.py\<close>): leases, fencing tokens, bounded
  retries, quarantine and its resolution, one definition per method, each one transaction. The
  database clock \<open>now()\<close> is an argument; \<open>locked\<close> are the rows that other transactions hold at
  the moment and \<open>FOR UPDATE SKIP LOCKED\<close> passes over. Then the two statements by which the
  durable command store touches the rows of a command, and the insertion of a row.
\<close>

subsection \<open>Conditions on rows\<close>

definition idle_lease :: "rat \<Rightarrow> 'm outbox_intent_scheme \<Rightarrow> bool" where
  "idle_lease now r \<longleftrightarrow> (case oi_lease_until r of None \<Rightarrow> True | Some u \<Rightarrow> u < now)"

definition active_until :: "rat \<Rightarrow> 'm outbox_intent_scheme \<Rightarrow> bool" where
  "active_until now r \<longleftrightarrow> (case oi_lease_until r of None \<Rightarrow> False | Some u \<Rightarrow> u > now)"

definition open_row :: "'m outbox_intent_scheme \<Rightarrow> bool" where
  "open_row r \<longleftrightarrow> oi_completed_at r = None \<and> oi_cancelled_at r = None \<and> oi_dead_lettered_at r = None
     \<and> oi_reconciliation_required_at r = None"

definition spent_row :: "nat \<Rightarrow> rat \<Rightarrow> 'm outbox_intent_scheme \<Rightarrow> bool" where
  "spent_row limit now r \<longleftrightarrow> open_row r \<and> oi_attempt_count r \<ge> limit \<and> idle_lease now r"

definition due_row :: "nat \<Rightarrow> rat \<Rightarrow> 'm outbox_intent_scheme \<Rightarrow> bool" where
  "due_row limit now r \<longleftrightarrow> open_row r \<and> oi_attempt_count r < limit
     \<and> oi_next_attempt_at r \<le> now \<and> idle_lease now r"

definition held_by :: "nat \<Rightarrow> string \<Rightarrow> nat option \<Rightarrow> outbox_row \<Rightarrow> bool" where
  "held_by rid who token r \<longleftrightarrow> oi_id r = rid \<and> oi_lease_owner r = Some who
     \<and> (case token of None \<Rightarrow> True | Some k \<Rightarrow> ob_fencing_token r = k)"

subsection \<open>Claiming\<close>

definition record_of_row :: "outbox_row \<Rightarrow> outbox_record" where
  "record_of_row r = \<lparr>or_id = oi_id r, or_tenant_id = oi_tenant_id r, or_destination = oi_destination r,
     or_event_type = oi_event_type r, or_idempotency_key = oi_idempotency_key r, or_payload = oi_payload r,
     or_attempt_count = oi_attempt_count r, or_fencing_token = ob_fencing_token r\<rparr>"

definition attempt_log :: "nat \<Rightarrow> outbox_row \<Rightarrow> string \<Rightarrow> string \<Rightarrow> string option \<Rightarrow> nat option \<Rightarrow> attempt_event" where
  "attempt_log rid row kind who code token = \<lparr>ae_outbox_id = rid, ae_tenant_id = oi_tenant_id row,
     ae_attempt_number = oi_attempt_count row, ae_event_type = kind, ae_worker_id = who, ae_safe_error_code = code,
     ae_fencing_token = token\<rparr>"

definition bury_spent :: "rat \<Rightarrow> outbox_row \<Rightarrow> outbox_row" where
  "bury_spent now r = r\<lparr>oi_dead_lettered_at := Some now, oi_lease_owner := None, oi_lease_until := None,
     oi_last_error := (case oi_last_error r of
        None \<Rightarrow> Some ''maximum attempts exhausted after worker lease expiry'' | Some e \<Rightarrow> Some e)\<rparr>"

definition lease_row :: "rat \<Rightarrow> string \<Rightarrow> rat \<Rightarrow> outbox_row \<Rightarrow> outbox_row" where
  "lease_row now who lease r = r\<lparr>oi_lease_owner := Some who, oi_lease_until := Some (now + lease),
     oi_attempt_count := oi_attempt_count r + 1, ob_fencing_token := ob_fencing_token r + 1\<rparr>"

definition outbox_claim :: "rat \<Rightarrow> nat list \<Rightarrow> string \<Rightarrow> rat \<Rightarrow> nat \<Rightarrow> (outbox_row outbox_db, outbox_record option) prog" where
  "outbox_claim now locked who lease limit =
     (if lease \<le> 0 then raiseE ValueError ''lease_seconds must be positive''
      else if limit < 1 then raiseE ValueError ''max_attempts must be positive''
      else transaction
       (thenE (sql_update (spent_row limit now) (bury_spent now))
       (bindE (getsE (\<lambda>db. sql_first oi_id (\<lambda>r. due_row limit now r \<and> oi_id r \<notin> set locked) (db_rows db))) (\<lambda>candidate.
          case candidate of
            None \<Rightarrow> retE None
          | Some c \<Rightarrow>
              bindE (sql_update (\<lambda>r. oi_id r = oi_id c) (lease_row now who lease)) (\<lambda>rows.
                case rows of
                  [] \<Rightarrow> retE None
                | row # _ \<Rightarrow>
                    thenE (log_attempt (attempt_log (oi_id row) row ''claimed'' who None (Some (ob_fencing_token row))))
                      (retE (Some (record_of_row row))))))))"

subsection \<open>Finishing, quarantine and renewal by the owner\<close>

definition update_owned :: "(outbox_row \<Rightarrow> bool) \<Rightarrow> (outbox_row \<Rightarrow> outbox_row) \<Rightarrow> string \<Rightarrow> (outbox_row outbox_db, outbox_row) prog" where
  "update_owned P f lost =
     bindE (sql_update P f) (\<lambda>rows. case rows of [] \<Rightarrow> raiseE StorageError lost | row # _ \<Rightarrow> retE row)"

definition outbox_complete :: "rat \<Rightarrow> nat \<Rightarrow> string \<Rightarrow> nat option \<Rightarrow> (outbox_row outbox_db, unit) prog" where
  "outbox_complete now rid who token =
     transaction
      (bindE (update_owned (\<lambda>r. held_by rid who token r \<and> oi_reconciliation_required_at r = None)
          (\<lambda>r. r\<lparr>oi_completed_at := Some now, oi_lease_owner := None, oi_lease_until := None, oi_last_error := None\<rparr>)
          ''outbox lease ownership lost before completion'') (\<lambda>row.
        log_attempt (attempt_log rid row ''completed'' who None token)))"

definition quarantine_unknown_outcome :: "rat \<Rightarrow> nat \<Rightarrow> string \<Rightarrow> string \<Rightarrow> rat \<Rightarrow> nat option \<Rightarrow> (outbox_row outbox_db, unit) prog" where
  "quarantine_unknown_outcome now rid who error lease token =
     (if lease \<le> 0 then raiseE ValueError ''lease_seconds must be positive''
      else transaction
       (bindE (update_owned (\<lambda>r. held_by rid who token r \<and> active_until now r \<and> oi_completed_at r = None
             \<and> oi_dead_lettered_at r = None \<and> oi_reconciliation_required_at r = None)
           (\<lambda>r. r\<lparr>oi_last_error := Some (take 2048 error), oi_reconciliation_required_at := Some now,
              oi_lease_until := Some (now + lease)\<rparr>)
           ''outbox lease ownership/fencing lost before reconciliation quarantine'') (\<lambda>row.
         log_attempt (attempt_log rid row ''unknown_outcome'' who (Some ''unknown_provider_outcome'') token))))"

definition renew_active_dispatch :: "rat \<Rightarrow> nat \<Rightarrow> string \<Rightarrow> rat \<Rightarrow> nat option \<Rightarrow> (outbox_row outbox_db, unit) prog" where
  "renew_active_dispatch now rid who lease token =
     (if lease \<le> 0 then raiseE ValueError ''lease_seconds must be positive''
      else bindE (sql_update (\<lambda>r. held_by rid who token r \<and> oi_reconciliation_required_at r \<noteq> None
             \<and> oi_completed_at r = None \<and> oi_dead_lettered_at r = None)
           (\<lambda>r. r\<lparr>oi_lease_until := Some (now + lease)\<rparr>)) (\<lambda>rows.
         if length rows \<noteq> 1 then raiseE StorageError ''active dispatch ownership/fencing lost during lease renewal''
         else retE ()))"

definition outbox_fail :: "rat \<Rightarrow> nat \<Rightarrow> string \<Rightarrow> string \<Rightarrow> nat \<Rightarrow> nat option \<Rightarrow> (outbox_row outbox_db, unit) prog" where
  "outbox_fail now rid who error limit token =
     (if limit < 1 then raiseE ValueError ''max_attempts must be positive''
      else transaction
       (bindE (update_owned (\<lambda>r. held_by rid who token r \<and> oi_reconciliation_required_at r = None)
           (\<lambda>r. r\<lparr>oi_last_error := Some (take 2048 error), oi_lease_owner := None, oi_lease_until := None,
              oi_dead_lettered_at := (if oi_attempt_count r \<ge> limit then Some now else None),
              oi_next_attempt_at := (if oi_attempt_count r \<ge> limit then oi_next_attempt_at r
                 else now + memory_backoff (oi_attempt_count r))\<rparr>)
           ''outbox lease ownership/fencing lost before retry transition'') (\<lambda>row.
         log_attempt (attempt_log rid row ''failed'' who (Some ''delivery_failed'') token))))"

subsection \<open>Resolving a quarantined row\<close>

definition resolution_of :: "rat \<Rightarrow> string \<Rightarrow> string \<Rightarrow> 'm outbox_intent_scheme \<Rightarrow> 'm outbox_intent_scheme" where
  "resolution_of now action reason r =
     (let r1 = r\<lparr>oi_reconciliation_required_at := None, oi_lease_owner := None, oi_lease_until := None\<rparr> in
      if action = ''retry'' then r1\<lparr>oi_next_attempt_at := now, oi_last_error := Some (''reconciliation approved retry: '' @ reason)\<rparr>
      else if action = ''complete'' then r1\<lparr>oi_completed_at := Some now, oi_last_error := Some (''reconciliation confirmed delivery: '' @ reason)\<rparr>
      else r1\<lparr>oi_dead_lettered_at := Some now, oi_last_error := Some (''reconciliation dead-lettered: '' @ reason)\<rparr>)"

definition RECONCILIATION_ACTIONS :: "string list" where
  "RECONCILIATION_ACTIONS = [''retry'', ''complete'', ''dead_letter'']"

text \<open>The checks on the row, in the order of the code.\<close>

definition resolution_refusal :: "rat \<Rightarrow> string \<Rightarrow> nat \<Rightarrow> string option \<Rightarrow> nat option \<Rightarrow> outbox_row \<Rightarrow> string option" where
  "resolution_refusal now action limit worker token row =
     (if oi_completed_at row \<noteq> None \<or> oi_dead_lettered_at row \<noteq> None then Some ''outbox record is already terminal''
      else if oi_reconciliation_required_at row = None then Some ''outbox record is not awaiting reconciliation''
      else if active_until now row \<and> worker = None
      then Some ''active dispatch cannot be manually reconciled before lease expiry''
      else if active_until now row \<and> oi_lease_owner row \<noteq> worker then Some ''active dispatch is owned by another worker''
      else if active_until now row \<and> token \<noteq> None \<and> Some (ob_fencing_token row) \<noteq> token
      then Some ''active dispatch fencing token is stale''
      else if active_until now row \<and> action = ''dead_letter''
      then Some ''active worker may resolve only complete or known-safe retry''
      else if \<not> active_until now row \<and> worker \<noteq> None
      then Some ''worker dispatch lease expired; manual reconciliation is required''
      else if action = ''retry'' \<and> oi_attempt_count row \<ge> limit
      then Some ''attempt limit is exhausted; choose complete or dead_letter''
      else None)"

definition resolve_reconciliation :: "rat \<Rightarrow> nat \<Rightarrow> string \<Rightarrow> string \<Rightarrow> string \<Rightarrow> nat \<Rightarrow> string option \<Rightarrow> nat option
    \<Rightarrow> (outbox_row outbox_db, unit) prog" where
  "resolve_reconciliation now rid operator action reason limit worker token =
     (let safe_operator = py_strip operator; safe_reason = py_strip reason; safe_worker = map_option py_strip worker in
      if action \<notin> set RECONCILIATION_ACTIONS then raiseE ValueError ''unsupported reconciliation action''
      else if limit < 1 then raiseE ValueError ''max_attempts must be positive''
      else if safe_operator = [] \<or> length safe_operator > 160 then raiseE ValueError ''operator_id must contain 1..160 characters''
      else if safe_reason = [] \<or> length safe_reason > 2048 then raiseE ValueError ''reason must contain 1..2048 characters''
      else if (case safe_worker of None \<Rightarrow> False | Some w \<Rightarrow> w = [] \<or> length w > 256)
      then raiseE ValueError ''worker_id must contain 1..256 characters''
      else transaction
       (bindE (getsE (\<lambda>db. find (\<lambda>r. oi_id r = rid) (db_rows db))) (\<lambda>found.
          case found of
            None \<Rightarrow> raiseE ReconciliationError ''outbox record does not exist''
          | Some row \<Rightarrow>
              (case resolution_refusal now action limit safe_worker token row of
                 Some m \<Rightarrow> raiseE ReconciliationError m
               | None \<Rightarrow>
                   thenE (log_reconciliation \<lparr>ra_outbox_id = rid, ra_tenant_id = oi_tenant_id row, ra_action = action,
                      ra_operator_id = safe_operator, ra_reason = safe_reason, ra_attempt_count = oi_attempt_count row\<rparr>)
                   (thenE (sql_update (\<lambda>r. oi_id r = rid) (resolution_of now action safe_reason)) (retE ()))))))"

subsection \<open>Rows of a command\<close>

text \<open>\<open>INSERT INTO middleware_outbox\<close>, with the next value of the sequence and both unique constraints.\<close>

definition new_row :: "nat \<Rightarrow> rat \<Rightarrow> string \<Rightarrow> string \<Rightarrow> string \<Rightarrow> string \<Rightarrow> json_object \<Rightarrow> string \<Rightarrow> outbox_row" where
  "new_row rid now tenant cid dest etype payload ikey = \<lparr>oi_id = rid, oi_tenant_id = tenant, oi_command_id = cid,
     oi_destination = dest, oi_event_type = etype, oi_idempotency_key = ikey, oi_payload = payload, oi_attempt_count = 0,
     oi_next_attempt_at = now, oi_lease_owner = None, oi_lease_until = None, oi_completed_at = None,
     oi_dead_lettered_at = None, oi_cancelled_at = None, oi_reconciliation_required_at = None,
     oi_reconciliation_attempts = 0, oi_last_error = None, ob_fencing_token = 0\<rparr>"

definition outbox_insert :: "outbox_row \<Rightarrow> (outbox_row outbox_db, unit) prog" where
  "outbox_insert r db =
     (if list_ex (\<lambda>x. oi_id x = oi_id r \<or> oi_tenant_id x = oi_tenant_id r \<and> oi_destination x = oi_destination r
            \<and> oi_idempotency_key x = oi_idempotency_key r) (db_rows db)
      then (Inl (Exc (OtherException ''UniqueViolationError'') ''duplicate key value violates unique constraint''), db)
      else (Inr (), db\<lparr>db_rows := db_rows db @ [r]\<rparr>))"

definition cancel_rows :: "rat \<Rightarrow> string \<Rightarrow> string \<Rightarrow> (outbox_row outbox_db, unit) prog" where
  "cancel_rows now tenant cid =
     thenE (sql_update (\<lambda>r. oi_tenant_id r = tenant \<and> oi_command_id r = cid \<and> oi_completed_at r = None \<and> oi_lease_owner r = None)
         (\<lambda>r. r\<lparr>oi_cancelled_at := Some now, oi_lease_owner := None, oi_lease_until := None\<rparr>)) (retE ())"

definition request_reconciliation :: "rat \<Rightarrow> string \<Rightarrow> string \<Rightarrow> (outbox_row outbox_db, nat) prog" where
  "request_reconciliation now tenant cid =
     bindE (sql_update (\<lambda>r. oi_tenant_id r = tenant \<and> oi_command_id r = cid \<and> oi_destination r = ADAPTER_COMMAND_DESTINATION
            \<and> oi_completed_at r = None \<and> oi_dead_lettered_at r = None \<and> oi_cancelled_at r = None)
         (\<lambda>r. r\<lparr>oi_reconciliation_required_at := (case oi_reconciliation_required_at r of None \<Rightarrow> Some now | Some t \<Rightarrow> Some t),
            oi_lease_owner := (if active_until now r then oi_lease_owner r else None),
            oi_lease_until := (if active_until now r then oi_lease_until r else None)\<rparr>)) (\<lambda>rows. retE (length rows))"

end
