(* ===== verification/Durable_Source.thy ===== *)
theory Durable_Source
  imports Outbox_Store Reconciler_Guarantees
begin

text \<open>
  The durable carriers of the kernel (\<open>app/platform/persistence.py\<close>): the denial audit sink, and
  the reconciliation source over the rows of \<open>middleware_outbox\<close>, which keeps the contract of
  \<open>reconciliation_source\<close> like the in-memory one. What the reconciler promises therefore holds in
  production, too.
\<close>

subsection \<open>Denial audit\<close>

definition denial_row :: "denial_audit \<Rightarrow> control_audit" where
  "denial_row a = \<lparr>cn_tenant_id = da_tenant_id a, cn_resource_kind = ''command_submission'',
     cn_resource_id = uuid_str (da_command_id a), cn_action = da_kind a, cn_actor_id = da_actor_id a,
     cn_reason = take 2048 (da_reason_code a), cn_previous_state = None, cn_new_state = ''denied'',
     cn_metadata = [(''command_type'', JStr (da_command_type a)), (''target'', JStr (da_target a)),
       (''capability'', JStr (da_capability a)), (''client_id'', JStr (da_client_id a)),
       (''correlation_id'', JStr (da_correlation_id a)), (''decision_id'', JStr (da_decision_id a)),
       (''version'', JStr (da_version a))]\<rparr>"

definition sink_record :: "denial_audit \<Rightarrow> ('r outbox_db, unit) prog" where
  "sink_record a = log_control (denial_row a)"

subsection \<open>The reconciliation source\<close>

definition RECONCILIATION_RESOURCE_KIND :: string where
  "RECONCILIATION_RESOURCE_KIND = ''outbox_reconciliation''"

definition awaiting_row :: "'m outbox_intent_scheme \<Rightarrow> bool" where
  "awaiting_row r \<longleftrightarrow> oi_destination r = ADAPTER_COMMAND_DESTINATION \<and> oi_reconciliation_required_at r \<noteq> None
     \<and> oi_completed_at r = None \<and> oi_dead_lettered_at r = None \<and> oi_cancelled_at r = None"

definition claim_log :: "string \<Rightarrow> 'm outbox_intent_scheme \<Rightarrow> control_audit" where
  "claim_log who row = \<lparr>cn_tenant_id = oi_tenant_id row, cn_resource_kind = RECONCILIATION_RESOURCE_KIND,
     cn_resource_id = nat_str (oi_id row), cn_action = ''claim'', cn_actor_id = who,
     cn_reason = ''reconciliation lease acquired'', cn_previous_state = Some ''reconciliation_required'',
     cn_new_state = ''reconciliation_required'', cn_metadata = []\<rparr>"

definition claims_logged :: "nat \<Rightarrow> 'r outbox_db \<Rightarrow> nat" where
  "claims_logged rid db = length (filter (\<lambda>c. cn_resource_kind c = RECONCILIATION_RESOURCE_KIND
     \<and> cn_resource_id c = nat_str rid \<and> cn_action c = ''claim'') (au_control (db_audit db)))"

definition source_lease :: "rat \<Rightarrow> nat list \<Rightarrow> string \<Rightarrow> rat \<Rightarrow> ('m intent_db, ('m outbox_intent_scheme \<times> nat) option) prog" where
  "source_lease now locked who lease =
     bindE (getsE (\<lambda>db. sql_first (\<lambda>r. the (oi_reconciliation_required_at r))
         (\<lambda>r. awaiting_row r \<and> oi_command_id r \<noteq> '''' \<and> idle_lease now r \<and> oi_id r \<notin> set locked)
         (sort_key oi_id (db_rows db)))) (\<lambda>candidate.
       case candidate of
         None \<Rightarrow> retE None
       | Some c \<Rightarrow>
           bindE (sql_update (\<lambda>r. oi_id r = oi_id c) (\<lambda>r. r\<lparr>oi_lease_owner := Some who, oi_lease_until := Some (now + lease)\<rparr>)) (\<lambda>rows.
             case rows of
               [] \<Rightarrow> retE None
             | row # _ \<Rightarrow>
                 thenE (log_control (claim_log who row))
                   (bindE (getsE (claims_logged (oi_id row))) (\<lambda>attempts. retE (Some (row, attempts))))))"

definition source_claim :: "rat \<Rightarrow> nat list \<Rightarrow> string \<Rightarrow> rat \<Rightarrow> ('m intent_db, reconciliation_claim option) prog" where
  "source_claim now locked who lease =
     (if lease \<le> 0 then raiseE ValueError ''lease_seconds must be positive''
      else bindE (transaction (source_lease now locked who lease)) (\<lambda>leased.
        case leased of
          None \<Rightarrow> retE None
        | Some (row, attempts) \<Rightarrow>
            (case uuid_parse (oi_command_id row) of
               None \<Rightarrow> raiseE ValueError ''badly formed hexadecimal UUID string''
             | Some cid \<Rightarrow> retE (Some \<lparr>rcl_outbox_id = oi_id row, rcl_tenant_id = oi_tenant_id row, rcl_command_id = cid,
                 rcl_reconciliation_attempts = attempts\<rparr>))))"

definition source_resolve :: "rat \<Rightarrow> reconciliation_claim \<Rightarrow> string \<Rightarrow> string \<Rightarrow> string \<Rightarrow> ('m intent_db, unit) prog" where
  "source_resolve now claim who action reason =
     (let stripped = take 2048 (py_strip reason); safe_reason = (if stripped = [] then action else stripped);
          rid = rcl_outbox_id claim
      in if action \<notin> set RECONCILIATION_ACTIONS then raiseE ValueError ''unsupported reconciliation action''
      else transaction
       (bindE (getsE (\<lambda>db. find (\<lambda>r. oi_id r = rid \<and> oi_lease_owner r = Some who \<and> oi_completed_at r = None
            \<and> oi_dead_lettered_at r = None) (db_rows db))) (\<lambda>found.
          case found of
            None \<Rightarrow> raiseE RuntimeError ''reconciliation lease ownership lost before resolution''
          | Some row \<Rightarrow>
              thenE (log_reconciliation \<lparr>ra_outbox_id = rid, ra_tenant_id = oi_tenant_id row, ra_action = action,
                 ra_operator_id = take 160 who, ra_reason = safe_reason, ra_attempt_count = oi_attempt_count row\<rparr>)
              (thenE (sql_update (\<lambda>r. oi_id r = rid) (resolution_of now action safe_reason)) (retE ())))))"

definition source_release :: "reconciliation_claim \<Rightarrow> string \<Rightarrow> string \<Rightarrow> ('m intent_db, unit) prog" where
  "source_release claim who reason =
     bindE (sql_update (\<lambda>r. oi_id r = rcl_outbox_id claim \<and> oi_lease_owner r = Some who)
         (\<lambda>r. r\<lparr>oi_lease_owner := None, oi_lease_until := None, oi_last_error := Some (take 2048 (py_strip reason))\<rparr>)) (\<lambda>rows.
       if length rows \<noteq> 1 then raiseE RuntimeError ''reconciliation lease ownership lost before release'' else retE ())"

definition source_backlog :: "('m intent_db, nat) prog" where
  "source_backlog = getsE (\<lambda>db. length (filter awaiting_row (db_rows db)))"

subsection \<open>The source of a platform process\<close>

definition on_tables :: "(unit intent_db, 'a) prog \<Rightarrow> ('p world, 'a) prog" where
  "on_tables m = zoomE (\<lambda>w. \<lparr>db_rows = cs_outbox (w_store w), db_audit = w_audit w\<rparr>)
     (\<lambda>db w. w\<lparr>w_store := (w_store w)\<lparr>cs_outbox := db_rows db\<rparr>, w_audit := db_audit db\<rparr>) m"

definition postgres_source :: "rat \<Rightarrow> rat \<Rightarrow> nat list \<Rightarrow> 'p reconciliation_source_ops" where
  "postgres_source claim_clock resolve_clock locked = \<lparr>rs_claim = \<lambda>who lease. on_tables (source_claim claim_clock locked who lease),
     rs_resolve = \<lambda>c who action reason. on_tables (source_resolve resolve_clock c who action reason),
     rs_release = \<lambda>c who reason. on_tables (source_release c who reason), rs_backlog = on_tables source_backlog\<rparr>"

subsection \<open>The source keeps the contract\<close>

abbreviation rows_named :: "outbox_intent list \<Rightarrow> unit intent_db \<Rightarrow> bool" where
  "rows_named ids db \<equiv> map intent_identity (db_rows db) = map intent_identity ids"

lemma keeps_sql_update:
  "(\<And>r. intent_identity (f r) = intent_identity r) \<Longrightarrow> keeps (rows_named ids) (sql_update P f)"
  by (rule keepsI) (auto simp: sql_update_def comp_def if_distrib [of intent_identity] cong: if_cong)

lemma keeps_logs:
  "keeps (rows_named ids) (log_control c)" "keeps (rows_named ids) (log_reconciliation a)"
  by (rule keepsI, simp add: sql_defs)+

lemma identity_resolution: "intent_identity (resolution_of now action reason r) = intent_identity r"
  by (simp add: resolution_of_def intent_identity_def Let_def)

lemmas source_rules = keeps_rules keeps_sql_update keeps_logs

lemma source_keeps_rows:
  "keeps (rows_named ids) (source_claim now locked who lease)"
  "keeps (rows_named ids) (source_resolve now c who action reason)"
  "keeps (rows_named ids) (source_release c who reason)"
  unfolding source_claim_def source_lease_def source_resolve_def source_release_def Let_def
  by (intro source_rules; simp add: intent_identity_def identity_resolution [unfolded intent_identity_def])+

lemma on_tables_rows: "(\<And>ids. keeps (rows_named ids) m) \<Longrightarrow> rows_only (on_tables m :: ('p world, 'a) prog)"
proof -
  assume k: "\<And>ids. keeps (rows_named ids) m"
  have "same_but_rows w (snd (on_tables m w))" for w :: "'p world"
    using keepsD [OF k, of "\<lparr>db_rows = cs_outbox (w_store w), db_audit = w_audit w\<rparr>" "cs_outbox (w_store w)"]
    by (auto simp: on_tables_def zoomE_def same_but_rows_def split: prod.splits)
  then show ?thesis by (simp add: rows_only_def)
qed

text \<open>A resolution that returns has found its row, and marks it.\<close>

lemma source_resolve_row:
  assumes "on_tables (source_resolve now c who action reason) w = (Inr (), w')"
  obtains r where "r \<in> set (cs_outbox (w_store w'))" and "oi_id r = rcl_outbox_id c"
    and "action = ''complete'' \<Longrightarrow> oi_completed_at r \<noteq> None" and "action = ''dead_letter'' \<Longrightarrow> oi_dead_lettered_at r \<noteq> None"
    and "oi_reconciliation_required_at r = None"
proof -
  let ?db = "\<lparr>db_rows = cs_outbox (w_store w), db_audit = w_audit w\<rparr>"
  let ?found = "find (\<lambda>r. oi_id r = rcl_outbox_id c \<and> oi_lease_owner r = Some who \<and> oi_completed_at r = None
            \<and> oi_dead_lettered_at r = None) (cs_outbox (w_store w))"
  define x where "x = (if take 2048 (py_strip reason) = [] then action else take 2048 (py_strip reason))"
  obtain row where row: "?found = Some row"
    using assms by (cases ?found) (auto simp: on_tables_def zoomE_def source_resolve_def transaction_def prog_defs Let_def split: if_splits)
  then have in0: "row \<in> set (cs_outbox (w_store w))" "oi_id row = rcl_outbox_id c"
    by (auto simp: find_Some_iff)
  have "cs_outbox (w_store w') = map (\<lambda>r. if oi_id r = rcl_outbox_id c then resolution_of now action x r else r) (cs_outbox (w_store w))"
    using assms row unfolding x_def
    by (auto simp: on_tables_def zoomE_def source_resolve_def transaction_def sql_defs Let_def split: if_splits)
  with in0 have "resolution_of now action x row \<in> set (cs_outbox (w_store w'))" by force
  moreover have "oi_id (resolution_of now action x row) = rcl_outbox_id c"
    using in0 by (simp add: resolution_of_def Let_def)
  ultimately show ?thesis by (rule that) (auto simp: resolution_of_def Let_def)
qed

interpretation pg: reconciliation_source "postgres_source cc rcl locked" for cc rcl locked
proof (unfold_locales, goal_cases)
  case (4 c who reason w w')
  then show ?case by (auto simp: postgres_source_def row_is_def elim!: source_resolve_row)
next
  case (5 c who reason w w')
  then show ?case by (auto simp: postgres_source_def row_is_def elim!: source_resolve_row)
next
  case (6 c who reason w w')
  then show ?case by (auto simp: postgres_source_def row_is_def elim!: source_resolve_row)
qed (auto simp: postgres_source_def intro!: on_tables_rows source_keeps_rows)

text \<open>
  C6. The decisions of the reconciler are true, executions untouched. One pass over the
  durable or the in-memory source, while other tasks act on the ledger during the provider reads, never calls
  \<open>execute\<close>, moves the ledger by ledger steps only, and what it decides about the row it claimed
  is what ledger and row say afterwards: completed with the evidence of a matched read-back (or
  completed already), queued again only below the budget, after a read-back that found nothing
  and for an adapter that advertises safe re-execution, dead lettered only with a command that
  is over or was never there, or released.
\<close>

theorem reconciler_decisions_are_true:
  assumes "honest_others h env" and "ledger_reach h (w_store w)"
    and "src = memory_source cc rcl \<or> src = postgres_source cc rcl locked"
    and "reconciler_run_once env src rc now w = (Inr (Some d), w')"
  shows "w_executions w' = w_executions w \<and> ledger_reach h (w_store w')
    \<and> (\<exists>claim w1. rs_claim src (rc_reconciler_id rc) (rc_lease_seconds rc) w = (Inr (Some claim), w1)
        \<and> decision_truth env rc claim d w')"
  using assms(3) mem.run_once_true [OF assms(1,2)] pg.run_once_true [OF assms(1,2)] assms(4) by blast

theorem reconciler_decisions_are_true_witness:
  "\<exists>d w'. reconciler_run_once sample_bus_env (memory_source 300 301) sample_reconciler 300 parked_world = (Inr (Some d), w')
    \<and> rd_action d = ''dead_letter'' \<and> w_executions w' = [] \<and> row_is (\<lambda>r. oi_dead_lettered_at r \<noteq> None) 1 w'"
proof -
  have hon: "honest_others sample_host sample_bus_env" by (simp add: honest_others_def sample_bus_env_def run_refl)
  let ?claim = "\<lparr>rcl_outbox_id = 1, rcl_tenant_id = ''TEST_SYN'', rcl_command_id = 7, rcl_reconciliation_attempts = 1\<rparr>"
  obtain w1 where claim: "memory_claim 300 ''reconciler-1'' 60 parked_world = (Inr (Some ?claim), w1)"
    and owner: "map oi_lease_owner (cs_outbox (w_store w1)) = [Some ''reconciler-1'']" "map oi_id (cs_outbox (w_store w1)) = [1]"
    and entry: "entry_at (w_store w1) (''TEST_SYN'', 7) = entry_at cancelled_store (''TEST_SYN'', 7)"
    by (simp add: memory_claim_def parked_row reconcilable_def parked_def new_intent_def Let_def on_intent_def claimed_command_def
        authenticated_command_payload_def AUTHENTICATED_CLIENT_ID_KEY_def envelope_json_def sample_envelope_def uuid_parse_str
        entry_at_def json_str_def)
  obtain r1 where row: "cs_outbox (w_store w1) = [r1]" "oi_lease_owner r1 = Some ''reconciler-1''" "oi_id r1 = 1"
    using owner by (auto simp: map_eq_Cons_conv)
  define reason where "reason = ''operation is terminal ('' @ state_str Cancelled @ '')''"
  obtain w' where "memory_resolve 301 ?claim ''reconciler-1'' ''dead_letter'' reason w1 = (Inr (), w')"
    using row by (simp add: memory_resolve_def memory_item_def prog_defs)
  then have r: "reconciler_run_once sample_bus_env (memory_source 300 301) sample_reconciler 300 parked_world
      = (Inr (Some (decision_of ?claim None None ''dead_letter'' (state_str Cancelled) None)), w')"
    using claim entry cancelled_entry
    by (simp add: reconciler_run_once_def memory_source_def sample_reconciler_def reconcile_claim_def on_ledger_def store_get_def
        prog_defs reason_def Let_def)
  from reconciler_decisions_are_true [OF hon parked_reach disjI1 [OF refl] r] claim
  have "w_executions w' = []" "row_is (\<lambda>r. oi_dead_lettered_at r \<noteq> None) 1 w'"
    by (simp_all add: memory_source_def decision_truth_def decision_of_def sample_reconciler_def parked_world_def on_intent_def sample_world_def Let_def)
  with r show ?thesis by (fastforce simp: decision_of_def)
qed

end
