(* ===== verification/Outbox_Guarantees.thy ===== *)
theory Outbox_Guarantees
  imports Durable_Source
begin

text \<open>
  The outbox table as a machine: any interleaving of the transactions of workers, operators, the
  reconciler and the command store. Its invariant, the fencing of workers that lost their
  lease, and the bound on claims.
\<close>

subsection \<open>The machine\<close>

text \<open>
  \<open>R\<close> are the identities reconcilers lease rows under, \<open>limit\<close> is the attempt limit the workers
  share.
\<close>

inductive outbox_step :: "string set \<Rightarrow> nat \<Rightarrow> outbox_row outbox_db \<Rightarrow> outbox_row outbox_db \<Rightarrow> bool"
  for R :: "string set" and limit :: nat where
  os_insert: "outbox_step R limit db (snd (outbox_insert (new_row rid now t cid dest etype payload ikey) db))"
| os_claim: "outbox_step R limit db (snd (outbox_claim now locked who lease limit db))"
| os_complete: "outbox_step R limit db (snd (outbox_complete now rid who token db))"
| os_quarantine: "outbox_step R limit db (snd (quarantine_unknown_outcome now rid who err lease token db))"
| os_renew: "outbox_step R limit db (snd (renew_active_dispatch now rid who lease token db))"
| os_fail: "outbox_step R limit db (snd (outbox_fail now rid who err limit token db))"
| os_resolve: "outbox_step R limit db (snd (resolve_reconciliation now rid operator action reason limit worker token db))"
| os_source_claim: "who \<in> R \<Longrightarrow> outbox_step R limit db (snd (source_claim now locked who lease db))"
| os_source_resolve: "outbox_step R limit db (snd (source_resolve now c who action reason db))"
| os_source_release: "outbox_step R limit db (snd (source_release c who reason db))"
| os_cancel: "outbox_step R limit db (snd (cancel_rows now t cid db))"
| os_request: "outbox_step R limit db (snd (request_reconciliation now t cid db))"
| os_denial: "outbox_step R limit db (snd (sink_record a db))"

definition empty_outbox :: "outbox_row outbox_db \<Rightarrow> bool" where
  "empty_outbox db \<longleftrightarrow> db = \<lparr>db_rows = [], db_audit = no_audit\<rparr>"

abbreviation outbox_reach :: "string set \<Rightarrow> nat \<Rightarrow> outbox_row outbox_db \<Rightarrow> bool" where
  "outbox_reach R limit \<equiv> reach empty_outbox (outbox_step R limit)"

lemmas statement_defs = outbox_claim_def outbox_complete_def quarantine_unknown_outcome_def renew_active_dispatch_def
  outbox_fail_def resolve_reconciliation_def source_claim_def source_lease_def source_resolve_def source_release_def
  cancel_rows_def request_reconciliation_def sink_record_def update_owned_def

subsection \<open>What a step does to a row\<close>

text \<open>A row that no worker can dispatch under its present token.\<close>

definition parked_row :: "string set \<Rightarrow> outbox_row \<Rightarrow> bool" where
  "parked_row R r \<longleftrightarrow> oi_reconciliation_required_at r \<noteq> None \<or> oi_lease_owner r \<in> {None} \<union> Some ` R"

text \<open>
  Tokens only grow, and under one token the lease only goes away, or to a reconciler, and a
  parked row stays parked.
\<close>

definition row_step :: "string set \<Rightarrow> outbox_row \<Rightarrow> outbox_row \<Rightarrow> bool" where
  "row_step R r r' \<longleftrightarrow> oi_id r' = oi_id r \<and> ob_fencing_token r \<le> ob_fencing_token r'
     \<and> (ob_fencing_token r' = ob_fencing_token r \<longrightarrow> oi_lease_owner r' \<in> {oi_lease_owner r, None} \<union> Some ` R
          \<and> (parked_row R r \<longrightarrow> parked_row R r'))"

definition rows_step :: "string set \<Rightarrow> outbox_row list \<Rightarrow> outbox_row list \<Rightarrow> bool" where
  "rows_step R rows rows' \<longleftrightarrow> (\<exists>g new. rows' = map g rows @ new \<and> (\<forall>r. row_step R r (g r))
     \<and> set (map oi_id new) \<inter> set (map oi_id rows) = {})"

lemma row_step_refl: "row_step R r r"
  by (simp add: row_step_def)

lemma row_step_trans: "row_step R r s \<Longrightarrow> row_step R s t \<Longrightarrow> row_step R r t"
  by (auto simp: row_step_def)

lemma rows_step_refl: "rows_step R rows rows"
  unfolding rows_step_def by (intro exI [of _ id] exI [of _ "[]"]) (simp add: row_step_refl)

lemma rows_step_map: "(\<And>r. row_step R r (g r)) \<Longrightarrow> rows_step R rows0 rows \<Longrightarrow> rows_step R rows0 (map g rows)"
  unfolding rows_step_def
proof (elim exE conjE)
  fix f new assume g: "\<And>r. row_step R r (g r)" and f: "rows = map f rows0 @ new" "\<forall>r. row_step R r (f r)"
    and n: "set (map oi_id new) \<inter> set (map oi_id rows0) = {}"
  have "map (oi_id \<circ> g) new = map oi_id new" using g by (simp add: row_step_def)
  with g f n show "\<exists>h m. map g rows = map h rows0 @ m \<and> (\<forall>r. row_step R r (h r)) \<and> set (map oi_id m) \<inter> set (map oi_id rows0) = {}"
    by (intro exI [of _ "g \<circ> f"] exI [of _ "map g new"]) (auto intro: row_step_trans)
qed

lemma rows_step_trans:
  assumes "rows_step R a b" and "rows_step R b c"
  shows "rows_step R a c"
proof -
  obtain f m where f: "b = map f a @ m" "\<forall>r. row_step R r (f r)" "set (map oi_id m) \<inter> set (map oi_id a) = {}"
    using assms(1) by (auto simp: rows_step_def)
  obtain g n where g: "c = map g b @ n" "\<forall>r. row_step R r (g r)" "set (map oi_id n) \<inter> set (map oi_id b) = {}"
    using assms(2) by (auto simp: rows_step_def)
  have same: "map oi_id (map g b) = map oi_id b" "map oi_id (map f a) = map oi_id a" using f(2) g(2) by (auto simp: row_step_def)
  have "rows_step R a (map g b)" using f g(2) assms(1) by (intro rows_step_map) auto
  then obtain h k where h: "map g b = map h a @ k" "\<forall>r. row_step R r (h r)" "set (map oi_id k) \<inter> set (map oi_id a) = {}"
    by (auto simp: rows_step_def)
  have "set (map oi_id a) \<subseteq> set (map oi_id b)" using f(1) same(2) by (metis map_append set_append Un_upper1)
  with h(3) g(3) have "set (map oi_id (k @ n)) \<inter> set (map oi_id a) = {}" unfolding map_append set_append by blast
  with h(1,2) g(1) show ?thesis
    unfolding rows_step_def by (intro exI [of _ h] exI [of _ "k @ n"]) simp
qed

lemma keeps_rows_update [keeps_rules]:
  "(\<And>r. row_step R r (f r)) \<Longrightarrow> keeps (\<lambda>db. rows_step R rows0 (db_rows db)) (sql_update P f)"
  by (rule keepsI) (auto simp: sql_update_def row_step_refl intro!: rows_step_map)

lemma keeps_rows_logs [keeps_rules]:
  "keeps (\<lambda>db. rows_step R rows0 (db_rows db)) (log_attempt e)"
  "keeps (\<lambda>db. rows_step R rows0 (db_rows db)) (log_reconciliation a)"
  "keeps (\<lambda>db. rows_step R rows0 (db_rows db)) (log_control c)"
  by (rule keepsI, simp add: sql_defs)+

lemmas row_step_defs = row_step_def parked_row_def bury_spent_def lease_row_def resolution_of_def Let_def

lemma outbox_step_rows: "outbox_step R limit db db' \<Longrightarrow> rows_step R (db_rows db) (db_rows db')"
proof -
  have by_keeps: "rows_step R (db_rows db) (db_rows (snd (m db)))"
    if "\<And>rows0. keeps (\<lambda>db. rows_step R rows0 (db_rows db)) m" for m :: "(outbox_row outbox_db, 'x) prog" and db
    using keepsD [OF that rows_step_refl] .
  assume "outbox_step R limit db db'"
  then show ?thesis
  proof cases
    case (os_insert rid now t cid dest etype payload ikey)
    then show ?thesis
      using rows_step_refl [of R "db_rows db"]
      by (auto simp: outbox_insert_def rows_step_def list_ex_iff new_row_def row_step_refl
          intro!: exI [of _ id] exI [of _ "[new_row rid now t cid dest etype payload ikey]"])
  qed (simp_all only:, unfold statement_defs Let_def, (rule by_keeps, intro keeps_rules; auto simp: row_step_defs)+)
qed


subsection \<open>The invariant of the table\<close>

text \<open>
  A lease has an owner; a finished or cancelled row has none; a row is not both delivered and
  dead lettered, nor finished and quarantined; a lease outside quarantine stems from a claim;
  the token counts the claims, and the claims respect the limit.
\<close>

definition row_inv :: "nat \<Rightarrow> outbox_row \<Rightarrow> bool" where
  "row_inv limit r \<longleftrightarrow>
     (oi_lease_owner r = None \<longleftrightarrow> oi_lease_until r = None)
   \<and> (oi_completed_at r \<noteq> None \<or> oi_dead_lettered_at r \<noteq> None \<or> oi_cancelled_at r \<noteq> None \<longrightarrow> oi_lease_owner r = None)
   \<and> (oi_completed_at r = None \<or> oi_dead_lettered_at r = None)
   \<and> (oi_completed_at r \<noteq> None \<or> oi_dead_lettered_at r \<noteq> None \<longrightarrow> oi_reconciliation_required_at r = None)
   \<and> (oi_lease_owner r \<noteq> None \<and> oi_reconciliation_required_at r = None \<longrightarrow> 1 \<le> ob_fencing_token r)
   \<and> ob_fencing_token r = oi_attempt_count r \<and> oi_attempt_count r \<le> limit"

text \<open>Claims of a row in the append-only log of attempts.\<close>

definition claims_of :: "nat \<Rightarrow> outbox_row outbox_db \<Rightarrow> (nat \<times> nat option) list" where
  "claims_of i db = map (\<lambda>e. (ae_attempt_number e, ae_fencing_token e))
     (filter (\<lambda>e. ae_outbox_id e = i \<and> ae_event_type e = ''claimed'') (au_attempt_events (db_audit db)))"

definition claim_numbers :: "nat \<Rightarrow> (nat \<times> nat option) list" where
  "claim_numbers n = map (\<lambda>k. (k, Some k)) [1..<Suc n]"

definition table_inv :: "nat \<Rightarrow> outbox_row outbox_db \<Rightarrow> bool" where
  "table_inv limit db \<longleftrightarrow> distinct (map oi_id (db_rows db)) \<and> (\<forall>r \<in> set (db_rows db). row_inv limit r)
     \<and> (\<forall>i. i \<notin> oi_id ` set (db_rows db) \<longrightarrow> claims_of i db = [])
     \<and> (\<forall>r \<in> set (db_rows db). claims_of (oi_id r) db = claim_numbers (ob_fencing_token r))"

lemma claim_numbers_simps [simp]: "claim_numbers 0 = []" "claim_numbers (Suc n) = claim_numbers n @ [(Suc n, Some (Suc n))]"
  by (simp_all add: claim_numbers_def)

text \<open>Statements that leave identities, tokens and the log of claims alone.\<close>

definition calm_update :: "nat \<Rightarrow> (outbox_row \<Rightarrow> bool) \<Rightarrow> (outbox_row \<Rightarrow> outbox_row) \<Rightarrow> bool" where
  "calm_update limit P f \<longleftrightarrow> (\<forall>r. P r \<and> row_inv limit r \<longrightarrow> row_inv limit (f r) \<and> oi_id (f r) = oi_id r
     \<and> ob_fencing_token (f r) = ob_fencing_token r)"

lemma table_inv_update:
  assumes "table_inv limit db" and "\<forall>r \<in> set (db_rows db). P r \<longrightarrow> row_inv limit (f r) \<and> oi_id (f r) = oi_id r
     \<and> ob_fencing_token (f r) = ob_fencing_token r"
  shows "table_inv limit (db\<lparr>db_rows := map (\<lambda>r. if P r then f r else r) (db_rows db)\<rparr>)"
proof -
  have ids: "map oi_id (map (\<lambda>r. if P r then f r else r) (db_rows db)) = map oi_id (db_rows db)" using assms(2) by simp
  then have "oi_id ` set (map (\<lambda>r. if P r then f r else r) (db_rows db)) = oi_id ` set (db_rows db)"
    by (metis list.set_map)
  with assms ids show ?thesis by (auto simp: table_inv_def claims_of_def simp del: map_map)
qed

lemma table_inv_row: "table_inv limit db \<Longrightarrow> r \<in> set (db_rows db) \<Longrightarrow> row_inv limit r"
  by (simp add: table_inv_def)

lemma table_inv_unique:
  "table_inv limit db \<Longrightarrow> r \<in> set (db_rows db) \<Longrightarrow> r' \<in> set (db_rows db) \<Longrightarrow> oi_id r = oi_id r' \<Longrightarrow> r = r'"
  by (auto simp: table_inv_def distinct_map dest: inj_onD)

lemma keeps_table_update: "calm_update limit P f \<Longrightarrow> keeps (table_inv limit) (sql_update P f)"
proof (rule keepsI)
  fix db assume c: "calm_update limit P f" and inv: "table_inv limit db"
  from inv show "table_inv limit (snd (sql_update P f db))"
    unfolding sql_update_def snd_conv
    by (rule table_inv_update) (use c table_inv_row [OF inv] in \<open>auto simp: calm_update_def\<close>)
qed

text \<open>An update by primary key, of a row that was looked at before.\<close>

lemma table_inv_update_key:
  assumes inv: "table_inv limit db" and c: "c \<in> set (db_rows db)" "oi_id c = i"
    and f: "row_inv limit (f c)" "oi_id (f c) = i" "ob_fencing_token (f c) = ob_fencing_token c"
  shows "table_inv limit (snd (sql_update (\<lambda>r. oi_id r = i) f db))"
proof -
  have "r = c" if "r \<in> set (db_rows db)" "oi_id r = i" for r using table_inv_unique [OF inv that(1) c(1)] that(2) c(2) by simp
  with f c(2) show ?thesis
    unfolding sql_update_def snd_conv by (intro table_inv_update [OF inv]) blast
qed

lemma hoare_update_key:
  assumes "\<And>c. Q c \<Longrightarrow> row_inv limit c \<Longrightarrow> row_inv limit (f c) \<and> oi_id (f c) = oi_id c \<and> ob_fencing_token (f c) = ob_fencing_token c"
  shows "hoare (\<lambda>db. table_inv limit db \<and> c \<in> set (db_rows db) \<and> Q c) (sql_update (\<lambda>r. oi_id r = oi_id c) f)
    (\<lambda>_. table_inv limit) (\<lambda>_. table_inv limit)"
  using table_inv_update_key [of limit _ c "oi_id c" f] assms table_inv_row
  by (fastforce simp: hoare_def sql_update_def)

lemma keeps_table_logs [keeps_rules]:
  "ae_event_type e \<noteq> ''claimed'' \<Longrightarrow> keeps (table_inv limit) (log_attempt e)"
  "keeps (table_inv limit) (log_reconciliation a)" "keeps (table_inv limit) (log_control c)"
  by (rule keepsI, simp add: sql_defs table_inv_def claims_of_def)+

lemma calm_updates:
  "calm_update limit (\<lambda>r. held_by rid who token r \<and> oi_reconciliation_required_at r = None)
     (\<lambda>r. r\<lparr>oi_completed_at := Some now, oi_lease_owner := None, oi_lease_until := None, oi_last_error := None\<rparr>)"
  "calm_update limit (\<lambda>r. held_by rid who token r \<and> active_until now r \<and> oi_completed_at r = None
       \<and> oi_dead_lettered_at r = None \<and> oi_reconciliation_required_at r = None)
     (\<lambda>r. r\<lparr>oi_last_error := x, oi_reconciliation_required_at := Some now, oi_lease_until := Some u\<rparr>)"
  "calm_update limit (\<lambda>r. held_by rid who token r \<and> oi_reconciliation_required_at r \<noteq> None \<and> oi_completed_at r = None
       \<and> oi_dead_lettered_at r = None) (\<lambda>r. r\<lparr>oi_lease_until := Some u\<rparr>)"
  "calm_update limit (\<lambda>r. held_by rid who token r \<and> oi_reconciliation_required_at r = None)
     (\<lambda>r. r\<lparr>oi_last_error := x, oi_lease_owner := None, oi_lease_until := None,
        oi_dead_lettered_at := (if oi_attempt_count r \<ge> limit' then Some now else None), oi_next_attempt_at := g r\<rparr>)"
  "calm_update limit (spent_row limit' now) (bury_spent now)"
  "calm_update limit (\<lambda>r. oi_id r = rid \<and> oi_lease_owner r = Some who)
     (\<lambda>r. r\<lparr>oi_lease_owner := None, oi_lease_until := None, oi_last_error := x\<rparr>)"
  "calm_update limit (\<lambda>r. oi_tenant_id r = t \<and> oi_command_id r = cid \<and> oi_completed_at r = None \<and> oi_lease_owner r = None)
     (\<lambda>r. r\<lparr>oi_cancelled_at := Some now, oi_lease_owner := None, oi_lease_until := None\<rparr>)"
  "calm_update limit (\<lambda>r. oi_tenant_id r = t \<and> oi_command_id r = cid \<and> oi_destination r = d
        \<and> oi_completed_at r = None \<and> oi_dead_lettered_at r = None \<and> oi_cancelled_at r = None)
     (\<lambda>r. r\<lparr>oi_reconciliation_required_at := (case oi_reconciliation_required_at r of None \<Rightarrow> Some now | Some t \<Rightarrow> Some t),
        oi_lease_owner := (if active_until now r then oi_lease_owner r else None),
        oi_lease_until := (if active_until now r then oi_lease_until r else None)\<rparr>)"
  unfolding calm_update_def row_inv_def held_by_def spent_row_def open_row_def bury_spent_def
  subgoal by auto
  subgoal by auto
  subgoal by auto
  subgoal by auto
  subgoal by auto
  subgoal by auto
  subgoal by auto
  subgoal by (auto split: option.splits)
  done

lemma row_inv_resolution:
  "row_inv limit r \<Longrightarrow> oi_completed_at r = None \<Longrightarrow> oi_dead_lettered_at r = None \<Longrightarrow> row_inv limit (resolution_of now action reason r)"
  "oi_id (resolution_of now action reason r) = oi_id r"
  "ob_fencing_token (resolution_of now action reason r) = ob_fencing_token r"
  by (auto simp: row_inv_def resolution_of_def Let_def)

text \<open>A statement that looks a row up, logs, and updates it by key.\<close>

lemma lookup_keeps:
  assumes "keeps I none" and "\<And>db c. look db = Some c \<Longrightarrow> I db \<Longrightarrow> I (snd (k c db))"
  shows "keeps I (bindE (getsE look) (\<lambda>found. case found of None \<Rightarrow> none | Some c \<Rightarrow> k c))"
proof (rule keepsI)
  fix db assume "I db"
  then show "I (snd (bindE (getsE look) (\<lambda>found. case found of None \<Rightarrow> none | Some c \<Rightarrow> k c) db))"
    using keepsD [OF assms(1)] assms(2) by (cases "look db") (simp_all add: prog_defs)
qed

lemma update_then: "I (snd (sql_update P f db)) \<Longrightarrow> (\<And>rows. keeps I (k rows)) \<Longrightarrow> I (snd (bindE (sql_update P f) k db))"
  using keepsD by (fastforce simp: bindE_def sql_update_def)

lemma key_update_inv:
  assumes inv: "table_inv limit db" and c: "c \<in> set (db_rows db)" "oi_id c = rid"
    and f: "row_inv limit (f c)" "oi_id (f c) = oi_id c" "ob_fencing_token (f c) = ob_fencing_token c"
    and "keeps (table_inv limit) note" and "\<And>db. db_rows (snd (note db)) = db_rows db"
  shows "table_inv limit (snd (thenE note (thenE (sql_update (\<lambda>r. oi_id r = rid) f) (retE ())) db))"
proof -
  have inv': "table_inv limit (snd (note db))" by (rule keepsD [OF assms(7) inv])
  have "table_inv limit (snd (sql_update (\<lambda>r. oi_id r = rid) f (snd (note db))))"
    using f c assms(8) by (intro table_inv_update_key [OF inv']) auto
  then show ?thesis using inv' by (auto simp: prog_defs sql_update_def split: prod.split sum.split)
qed

lemma log_rows: "db_rows (snd (log_reconciliation a db)) = db_rows db"
  by (simp add: sql_defs)

lemma resolve_keeps_table: "keeps (table_inv limit) (resolve_reconciliation now rid operator action reason limit' worker token)"
  unfolding resolve_reconciliation_def Let_def
proof (intro keeps_if keeps_raise keeps_transaction lookup_keeps, goal_cases)
  case (1 db c)
  then have "c \<in> set (db_rows db)" "oi_id c = rid" by (auto simp: find_Some_iff)
  moreover have "oi_completed_at c = None" "oi_dead_lettered_at c = None"
    if "resolution_refusal now action limit' w token c = None" for w
    using that by (auto simp: resolution_refusal_def split: if_splits)
  ultimately show ?case using 1 table_inv_row
    by (auto split: option.split simp: raiseE_def row_inv_resolution log_rows intro!: key_update_inv keeps_table_logs)
qed

lemma source_resolve_keeps_table: "keeps (table_inv limit) (source_resolve now c who action reason)"
  unfolding source_resolve_def Let_def
proof (intro keeps_if keeps_raise keeps_transaction lookup_keeps, goal_cases)
  case (1 db r)
  then have "r \<in> set (db_rows db)" "oi_id r = rcl_outbox_id c" "oi_completed_at r = None" "oi_dead_lettered_at r = None"
    by (auto simp: find_Some_iff)
  then show ?case using 1 table_inv_row
    by (auto simp: row_inv_resolution log_rows intro!: key_update_inv keeps_table_logs)
qed

text \<open>The two leases: of a worker, which opens a claim, and of a reconciler, which does not.\<close>

lemma source_claim_keeps_table: "keeps (table_inv limit) (source_claim now locked who lease)"
  unfolding source_claim_def source_lease_def
proof (intro keeps_if keeps_raise keeps_bind [OF keeps_transaction [OF lookup_keeps]] keeps_ret keeps_case_option keeps_case_prod, goal_cases)
  case (1 db c)
  have c: "c \<in> set (db_rows db)" "awaiting_row c" using sql_first_Some [OF 1(2)] by auto
  let ?f = "\<lambda>r. r\<lparr>oi_lease_owner := Some who, oi_lease_until := Some (now + lease)\<rparr>"
  have "table_inv limit (snd (sql_update (\<lambda>r. oi_id r = oi_id c) ?f db))"
    using table_inv_row [OF 1(3) c(1)] c(2)
    by (intro table_inv_update_key [OF 1(3) c(1)]) (auto simp: row_inv_def awaiting_row_def)
  then show ?case by (rule update_then) (intro keeps_rules)
qed

lemma claim_inv:
  assumes inv: "table_inv limit db" and c: "c \<in> set (db_rows db)" "due_row limit now c"
  shows "table_inv limit (snd (thenE (sql_update (\<lambda>r. oi_id r = oi_id c) (lease_row now who lease))
     (log_attempt (attempt_log (oi_id c) (lease_row now who lease c) ''claimed'' who None (Some (Suc (ob_fencing_token c))))) db))"
proof -
  define db' where "db' = snd (thenE (sql_update (\<lambda>r. oi_id r = oi_id c) (lease_row now who lease))
     (log_attempt (attempt_log (oi_id c) (lease_row now who lease c) ''claimed'' who None (Some (Suc (ob_fencing_token c))))) db)"
  have one: "r = c" if "r \<in> set (db_rows db)" "oi_id r = oi_id c" for r using table_inv_unique [OF inv that(1) c(1)] that(2) by simp
  have c_inv: "row_inv limit c" by (rule table_inv_row [OF inv c(1)])
  have rows: "db_rows db' = map (\<lambda>r. if oi_id r = oi_id c then lease_row now who lease r else r) (db_rows db)"
    by (simp add: db'_def sql_defs)
  have claims: "claims_of i db' = claims_of i db @ (if i = oi_id c then [(Suc (ob_fencing_token c), Some (Suc (ob_fencing_token c)))] else [])" for i
    using c_inv by (simp add: db'_def claims_of_def sql_defs attempt_log_def lease_row_def row_inv_def)
  have ids: "map oi_id (db_rows db') = map oi_id (db_rows db)" unfolding rows by (simp add: lease_row_def)
  then have idset: "oi_id ` set (db_rows db') = oi_id ` set (db_rows db)" by (metis list.set_map)
  have "row_inv limit (lease_row now who lease c)"
    using c_inv c(2) by (auto simp: row_inv_def lease_row_def due_row_def open_row_def)
  with inv one have "row_inv limit r" if "r \<in> set (db_rows db')" for r
    using that by (auto simp: rows table_inv_def split: if_splits)
  moreover have "claims_of (oi_id r) db' = claim_numbers (ob_fencing_token r)" if r: "r \<in> set (db_rows db')" for r
  proof -
    obtain r0 where r0: "r0 \<in> set (db_rows db)" "r = (if oi_id r0 = oi_id c then lease_row now who lease r0 else r0)"
      using r by (auto simp: rows)
    then show ?thesis using inv one [of r0] by (auto simp: claims table_inv_def lease_row_def)
  qed
  moreover have "claims_of i db' = []" if "i \<notin> oi_id ` set (db_rows db)" for i
    using that inv c(1) by (auto simp: claims table_inv_def)
  ultimately have "table_inv limit db'" using inv idset by (simp add: table_inv_def ids)
  then show ?thesis by (simp add: db'_def)
qed

lemma filter_key: "distinct (map k xs) \<Longrightarrow> c \<in> set xs \<Longrightarrow> filter (\<lambda>x. k x = k c) xs = [c]"
proof (induction xs)
  case (Cons x xs)
  have "filter (\<lambda>y. k y = k c) xs = []" if "x = c" using that Cons.prems by (auto simp: filter_empty_conv image_iff)
  then show ?case using Cons by auto
qed simp

lemma table_key: "table_inv limit db \<Longrightarrow> c \<in> set (db_rows db) \<Longrightarrow> filter (\<lambda>r. oi_id r = oi_id c) (db_rows db) = [c]"
  by (simp add: table_inv_def filter_key)

lemma claim_keeps_table: "keeps (table_inv limit) (outbox_claim now locked who lease limit)"
  unfolding outbox_claim_def
proof (intro keeps_if keeps_raise keeps_transaction keeps_then keeps_table_update calm_updates lookup_keeps keeps_ret, goal_cases)
  case (1 db c)
  have c: "c \<in> set (db_rows db)" "due_row limit now c" using sql_first_Some [OF 1(3)] by auto
  from claim_inv [OF 1(4) c, of who lease] show ?case
    by (simp add: bindE_def thenE_def sql_update_def table_key [OF 1(4) c(1)] log_attempt_def modifyE_def retE_def)
      (simp add: lease_row_def)
qed

lemma insert_keeps_table:
  assumes inv: "table_inv limit db"
  shows "table_inv limit (snd (outbox_insert (new_row rid now t cid dest etype payload ikey) db))"
proof (cases "rid \<in> oi_id ` set (db_rows db)")
  case True
  then show ?thesis using inv by (auto simp: outbox_insert_def new_row_def list_ex_iff)
next
  case False
  let ?r = "new_row rid now t cid dest etype payload ikey"
  have "row_inv limit ?r" "oi_id ?r = rid" "ob_fencing_token ?r = 0" by (simp_all add: new_row_def row_inv_def)
  moreover have "claims_of i (db\<lparr>db_rows := db_rows db @ [?r]\<rparr>) = claims_of i db" for i by (simp add: claims_of_def)
  ultimately have "table_inv limit (db\<lparr>db_rows := db_rows db @ [?r]\<rparr>)" using inv False by (auto simp: table_inv_def)
  then show ?thesis using inv by (simp add: outbox_insert_def)
qed

lemma outbox_step_table: "outbox_step R limit db db' \<Longrightarrow> table_inv limit db \<Longrightarrow> table_inv limit db'"
proof (induction rule: outbox_step.induct)
  case (os_complete db now rid who token)
  then show ?case unfolding outbox_complete_def update_owned_def
    by (intro keepsD [of "table_inv limit"] keeps_rules keeps_table_update calm_updates) (simp_all add: attempt_log_def)
next
  case (os_quarantine db now rid who err lease token)
  then show ?case unfolding quarantine_unknown_outcome_def update_owned_def
    by (intro keepsD [of "table_inv limit"] keeps_rules keeps_table_update calm_updates) (simp_all add: attempt_log_def)
next
  case (os_renew db now rid who lease token)
  then show ?case unfolding renew_active_dispatch_def
    by (intro keepsD [of "table_inv limit"] keeps_rules keeps_table_update calm_updates) simp_all
next
  case (os_fail db now rid who err token)
  then show ?case unfolding outbox_fail_def update_owned_def
    by (intro keepsD [of "table_inv limit"] keeps_rules keeps_table_update calm_updates) (simp_all add: attempt_log_def)
next
  case (os_source_release db c who reason)
  then show ?case unfolding source_release_def
    by (intro keepsD [of "table_inv limit"] keeps_rules keeps_table_update calm_updates) simp_all
next
  case (os_cancel db now t cid)
  then show ?case unfolding cancel_rows_def
    by (intro keepsD [of "table_inv limit"] keeps_rules keeps_table_update calm_updates) simp_all
next
  case (os_request db now t cid)
  then show ?case unfolding request_reconciliation_def
    by (intro keepsD [of "table_inv limit"] keeps_rules keeps_table_update calm_updates) simp_all
next
  case (os_denial db a)
  then show ?case unfolding sink_record_def by (intro keepsD [of "table_inv limit"] keeps_rules)
qed (auto intro: keepsD claim_keeps_table insert_keeps_table resolve_keeps_table source_claim_keeps_table source_resolve_keeps_table)

interpretation tab: machine_invariant empty_outbox "outbox_step R limit" "table_inv limit" for R limit
proof
  show "empty_outbox db \<Longrightarrow> table_inv limit db" for db
    by (simp add: empty_outbox_def table_inv_def claims_of_def no_audit_def)
qed (rule outbox_step_table)

interpretation trows: machine_monotone "outbox_step R limit" "\<lambda>db db'. rows_step R (db_rows db) (db_rows db')" for R limit
  by unfold_locales (auto intro: rows_step_refl rows_step_trans outbox_step_rows)

subsection \<open>Losing a lease\<close>

text \<open>A worker that does not hold the row under its token.\<close>

definition lost :: "nat \<Rightarrow> string \<Rightarrow> nat \<Rightarrow> outbox_row outbox_db \<Rightarrow> bool" where
  "lost i who k db \<longleftrightarrow> i \<in> oi_id ` set (db_rows db)
     \<and> (\<forall>r \<in> set (db_rows db). oi_id r = i \<longrightarrow> k \<le> ob_fencing_token r \<and> \<not> held_by i who (Some k) r)"

lemma lost_step:
  assumes "lost i who k db" and "rows_step R (db_rows db) (db_rows db')" and "who \<notin> R"
  shows "lost i who k db'"
proof -
  obtain g new where g: "db_rows db' = map g (db_rows db) @ new" "\<forall>r. row_step R r (g r)"
    and new: "set (map oi_id new) \<inter> set (map oi_id (db_rows db)) = {}"
    using assms(2) by (auto simp: rows_step_def)
  have id: "oi_id (g r) = oi_id r" for r using g(2) by (simp add: row_step_def)
  obtain r0 where r0: "r0 \<in> set (db_rows db)" "oi_id r0 = i" using assms(1) by (auto simp: lost_def)
  then have "g r0 \<in> set (db_rows db')" using g(1) by simp
  then have "i \<in> oi_id ` set (db_rows db')" using id r0(2) by (metis imageI)
  moreover have "k \<le> ob_fencing_token r \<and> \<not> held_by i who (Some k) r" if r: "r \<in> set (db_rows db')" "oi_id r = i" for r
  proof -
    have "i \<notin> set (map oi_id new)" using new r0 by auto
    then obtain s where s: "s \<in> set (db_rows db)" "r = g s" using r g(1) by auto
    then have "k \<le> ob_fencing_token s" "\<not> held_by i who (Some k) s" "row_step R s r"
      using assms(1) r(2) id g(2) by (auto simp: lost_def)
    then show ?thesis using assms(3) s r(2) id by (auto simp: row_step_def held_by_def)
  qed
  ultimately show ?thesis by (simp add: lost_def)
qed

lemma update_none:
  assumes "\<forall>r \<in> set (db_rows db). \<not> P r"
  shows "sql_update P f db = (Inr [], db)"
proof -
  have "map (\<lambda>r. if P r then f r else r) (db_rows db) = db_rows db" using assms by (intro map_idI) auto
  moreover have "filter P (db_rows db) = []" using assms by (simp add: filter_empty_conv)
  ultimately show ?thesis by (simp add: sql_update_def)
qed

text \<open>Every operation such a worker tries raises and changes nothing.\<close>

definition refuses :: "('s, 'a) prog \<Rightarrow> 's \<Rightarrow> bool" where
  "refuses m s \<longleftrightarrow> (\<exists>e. m s = (Inl e, s))"

lemma lost_refuses:
  assumes l: "lost i who k db"
  shows "refuses (outbox_complete now i who (Some k)) db" and "refuses (quarantine_unknown_outcome now i who err lease (Some k)) db"
    and "refuses (renew_active_dispatch now i who lease (Some k)) db" and "refuses (outbox_fail now i who err limit (Some k)) db"
proof -
  have none: "\<not> held_by i who (Some k) r" if "r \<in> set (db_rows db)" for r
    using l that by (auto simp: lost_def held_by_def)
  then show "refuses (outbox_complete now i who (Some k)) db" "refuses (quarantine_unknown_outcome now i who err lease (Some k)) db"
    "refuses (renew_active_dispatch now i who lease (Some k)) db" "refuses (outbox_fail now i who err limit (Some k)) db"
    unfolding refuses_def outbox_complete_def quarantine_unknown_outcome_def renew_active_dispatch_def outbox_fail_def
      update_owned_def transaction_def
    by (simp_all add: update_none prog_defs)
qed

lemma lost_refuses_resolve:
  assumes l: "lost i who k db" and w: "py_strip who = who"
  shows "refuses (resolve_reconciliation now i operator action reason limit (Some who) (Some k)) db"
proof (cases "find (\<lambda>r. oi_id r = i) (db_rows db)")
  case None
  then show ?thesis by (simp add: refuses_def resolve_reconciliation_def transaction_def prog_defs Let_def)
next
  case (Some row)
  then have "row \<in> set (db_rows db)" "oi_id row = i" by (auto simp: find_Some_iff)
  then have "\<not> held_by i who (Some k) row" using l by (auto simp: lost_def)
  then have "\<exists>m. resolution_refusal now action limit (Some who) (Some k) row = Some m"
    using \<open>oi_id row = i\<close> by (auto simp: resolution_refusal_def held_by_def)
  then show ?thesis
    using Some w by (auto simp: refuses_def resolve_reconciliation_def transaction_def prog_defs Let_def)
qed

subsection \<open>What a claim returns\<close>

lemma claim_Some:
  assumes inv: "table_inv limit db" and "outbox_claim now locked who lease limit db = (Inr (Some rec), db')"
  obtains r where "r \<in> set (db_rows db)" and "due_row limit now r" and "rec = record_of_row (lease_row now who lease r)"
    and "db_rows db' = map (\<lambda>x. if oi_id x = oi_id r then lease_row now who lease r else if spent_row limit now x then bury_spent now x else x) (db_rows db)"
proof -
  let ?db = "db\<lparr>db_rows := map (\<lambda>r. if spent_row limit now r then bury_spent now r else r) (db_rows db)\<rparr>"
  have inv1: "table_inv limit ?db" using keepsD [OF keeps_table_update [OF calm_updates(5)] inv] by (simp add: sql_update_def)
  obtain c where c: "sql_first oi_id (\<lambda>r. due_row limit now r \<and> oi_id r \<notin> set locked) (db_rows ?db) = Some c"
    using assms(2) by (auto simp: outbox_claim_def transaction_Inr sql_defs split: if_splits option.splits)
  note f = sql_first_Some [OF c]
  then have due: "due_row limit now c" by simp
  then have "\<not> spent_row limit now c" "oi_dead_lettered_at c = None" by (auto simp: due_row_def spent_row_def open_row_def)
  then have r: "c \<in> set (db_rows db)" using f(1) by (auto simp: bury_spent_def split: if_splits)
  have out: "rec = record_of_row (lease_row now who lease c)"
    "db_rows db' = map (\<lambda>x. if oi_id x = oi_id c then lease_row now who lease x else x) (db_rows ?db)"
    using assms(2) c table_key [OF inv1 f(1)]
    by (auto simp: outbox_claim_def transaction_Inr sql_defs split: if_splits)
  have one: "x = c" if "x \<in> set (db_rows db)" "oi_id x = oi_id c" for x
    using table_inv_unique [OF inv that(1) r] that(2) by simp
  have "db_rows db' = map (\<lambda>x. if oi_id x = oi_id c then lease_row now who lease c else if spent_row limit now x then bury_spent now x else x) (db_rows db)"
    unfolding out(2) using one \<open>\<not> spent_row limit now c\<close> by (auto simp: bury_spent_def)
  with r due out(1) show ?thesis by (rule that)
qed

lemma claim_None:
  assumes inv: "table_inv limit db" and claim: "outbox_claim now locked who lease limit db = (Inr None, db')"
  shows "db_rows db' = map (\<lambda>r. if spent_row limit now r then bury_spent now r else r) (db_rows db)"
    and "\<forall>r \<in> set (db_rows db). due_row limit now r \<longrightarrow> oi_id r \<in> set locked"
proof -
  let ?db = "db\<lparr>db_rows := map (\<lambda>r. if spent_row limit now r then bury_spent now r else r) (db_rows db)\<rparr>"
  let ?first = "sql_first oi_id (\<lambda>r. due_row limit now r \<and> oi_id r \<notin> set locked) (db_rows ?db)"
  have inv1: "table_inv limit ?db" using keepsD [OF keeps_table_update [OF calm_updates(5)] inv] by (simp add: sql_update_def)
  have none: "?first = None"
  proof (rule ccontr)
    assume "?first \<noteq> None"
    then obtain c where c: "?first = Some c" by blast
    from claim c table_key [OF inv1 sql_first_Some(1) [OF c]] show False
      by (auto simp: outbox_claim_def transaction_Inr sql_defs split: if_splits)
  qed
  with claim show "db_rows db' = map (\<lambda>r. if spent_row limit now r then bury_spent now r else r) (db_rows db)"
    by (auto simp: outbox_claim_def transaction_Inr sql_defs split: if_splits)
  have "r \<in> set (db_rows ?db)" if "r \<in> set (db_rows db)" "due_row limit now r" for r
    using that by (force simp: due_row_def spent_row_def)
  with none show "\<forall>r \<in> set (db_rows db). due_row limit now r \<longrightarrow> oi_id r \<in> set locked" unfolding sql_first_None by blast
qed

lemma claimed_holds:
  assumes "table_inv limit db" and "outbox_claim now locked who lease limit db = (Inr (Some rec), db')"
  obtains r where "r \<in> set (db_rows db')" and "oi_id r = or_id rec" and "ob_fencing_token r = or_fencing_token rec"
  by (rule claim_Some [OF assms]) (auto simp: record_of_row_def lease_row_def intro!: that)

lemma row_later:
  assumes "rows_step R (db_rows db) (db_rows db')" and "table_inv limit db'" and "r \<in> set (db_rows db)"
    and "r' \<in> set (db_rows db')" "oi_id r' = oi_id r"
  shows "ob_fencing_token r \<le> ob_fencing_token r'"
proof -
  obtain g new where g: "db_rows db' = map g (db_rows db) @ new" "\<forall>r. row_step R r (g r)"
    using assms(1) by (auto simp: rows_step_def)
  then have "g r \<in> set (db_rows db')" "oi_id (g r) = oi_id r" using assms(3) by (auto simp: row_step_def)
  then have "r' = g r" using table_inv_unique [OF assms(2,4)] assms(5) by simp
  then show ?thesis using g(2) by (simp add: row_step_def)
qed

definition sample_row1 :: outbox_row where
  "sample_row1 = new_row 1 0 ''T1'' [] ''nats-jetstream'' ''codestra.event'' [] ''key-0001''"

definition sample_outbox :: "outbox_row outbox_db" where
  "sample_outbox = \<lparr>db_rows = [sample_row1], db_audit = no_audit\<rparr>"

lemma sample_outbox_reach: "outbox_reach R limit sample_outbox"
proof -
  have "outbox_step R limit \<lparr>db_rows = [], db_audit = no_audit\<rparr> sample_outbox"
    using os_insert [of R limit "\<lparr>db_rows = [], db_audit = no_audit\<rparr>" 1 0 "''T1''" "[]" "''nats-jetstream''" "''codestra.event''" "[]" "''key-0001''"]
    by (simp add: outbox_insert_def sample_outbox_def sample_row1_def)
  then show ?thesis by (rule reach_step [OF reach_init, rotated]) (simp add: empty_outbox_def)
qed

lemmas claim_evals = outbox_claim_def transaction_def sql_first_def due_row_def spent_row_def open_row_def idle_lease_def
  new_row_def lease_row_def record_of_row_def sql_defs sample_outbox_def sample_row1_def

lemma sample_claim:
  obtains rec db where "outbox_claim 1 [] ''w1'' 10 3 sample_outbox = (Inr (Some rec), db)" and "or_id rec = 1"
    and "db_rows db = [lease_row 1 ''w1'' 10 sample_row1]"
  by (simp add: claim_evals)

text \<open>What the reconciler's retry and a worker's claim do to a spent row.\<close>

lemma source_retry_row:
  assumes inv: "table_inv limit db" and row: "r \<in> set (db_rows db)" "oi_id r = rcl_outbox_id c"
    and "source_resolve now c who ''retry'' reason db = (Inr (), db1)"
  obtains x where "resolution_of now ''retry'' x r \<in> set (db_rows db1)" and "oi_completed_at r = None" and "oi_dead_lettered_at r = None"
proof -
  define x where "x = (if take 2048 (py_strip reason) = [] then ''retry'' else take 2048 (py_strip reason))"
  let ?found = "find (\<lambda>r. oi_id r = rcl_outbox_id c \<and> oi_lease_owner r = Some who \<and> oi_completed_at r = None
            \<and> oi_dead_lettered_at r = None) (db_rows db)"
  obtain q where q: "?found = Some q"
    using assms(4) by (cases ?found) (auto simp: source_resolve_def RECONCILIATION_ACTIONS_def transaction_def prog_defs Let_def)
  then have "q \<in> set (db_rows db)" "oi_id q = oi_id r" "oi_completed_at q = None" "oi_dead_lettered_at q = None"
    using row(2) by (auto simp: find_Some_iff)
  then have "q = r" using table_inv_unique [OF inv _ row(1)] by blast
  moreover have "db_rows db1 = map (\<lambda>r. if oi_id r = rcl_outbox_id c then resolution_of now ''retry'' x r else r) (db_rows db)"
    using assms(4) q by (auto simp: source_resolve_def RECONCILIATION_ACTIONS_def transaction_Inr sql_defs Let_def x_def)
  ultimately show ?thesis
    using row \<open>oi_completed_at q = None\<close> \<open>oi_dead_lettered_at q = None\<close> by (intro that [of x]) force+
qed

lemma bury_spent_facts [simp]: "oi_id (bury_spent now r) = oi_id r" "oi_dead_lettered_at (bury_spent now r) = Some now"
  "oi_attempt_count (bury_spent now r) = oi_attempt_count r"
  by (simp_all add: bury_spent_def)

lemma claim_buries:
  assumes inv: "table_inv limit db" and r: "r \<in> set (db_rows db)" "spent_row limit now r"
    and claim: "outbox_claim now locked who lease limit db = (Inr res, db')"
  shows "(\<exists>r' \<in> set (db_rows db'). oi_id r' = oi_id r \<and> oi_dead_lettered_at r' = Some now \<and> oi_attempt_count r' = oi_attempt_count r)
    \<and> (\<forall>rec. res = Some rec \<longrightarrow> or_id rec \<noteq> oi_id r)"
proof (cases res)
  case None
  then have "db_rows db' = map (\<lambda>r. if spent_row limit now r then bury_spent now r else r) (db_rows db)"
    using claim_None(1) [OF inv] claim by simp
  then have "bury_spent now r \<in> set (db_rows db')" using r by force
  then show ?thesis using None by (intro conjI bexI [of _ "bury_spent now r"]) simp_all
next
  case (Some rec)
  obtain q where q: "q \<in> set (db_rows db)" "due_row limit now q" "rec = record_of_row (lease_row now who lease q)"
    and rows: "db_rows db' = map (\<lambda>x. if oi_id x = oi_id q then lease_row now who lease q
       else if spent_row limit now x then bury_spent now x else x) (db_rows db)"
    by (rule claim_Some [OF inv claim [unfolded Some]])
  have "oi_id q \<noteq> oi_id r" using table_inv_unique [OF inv q(1) r(1)] q(2) r(2) by (auto simp: due_row_def spent_row_def)
  then have "bury_spent now r \<in> set (db_rows db')" using r rows by force
  with \<open>oi_id q \<noteq> oi_id r\<close> Some q(3) show ?thesis
    by (intro conjI bexI [of _ "bury_spent now r"]) (simp_all add: record_of_row_def lease_row_def)
qed

lemma claim_returns: "0 < lease \<Longrightarrow> 1 \<le> limit \<Longrightarrow> \<exists>res db'. outbox_claim now locked who lease limit db = (Inr res, db')"
  by (auto simp: outbox_claim_def transaction_def sql_defs split: option.split list.split)

text \<open>A row of a command that was claimed once, quarantined, and is leased by a reconciler.\<close>

definition probe_row :: outbox_row where
  "probe_row = new_row 1 0 ''T1'' (uuid_str 7) ADAPTER_COMMAND_DESTINATION ''test.syn.ping'' [] ''key-0001''"

definition leased_db :: "outbox_row outbox_db" where
  "leased_db = snd (source_claim 20 [] ''rec'' 60 (snd (quarantine_unknown_outcome 2 1 ''w1'' [] 10 (Some 1)
     (snd (outbox_claim 1 [] ''w1'' 10 1 \<lparr>db_rows = [probe_row], db_audit = no_audit\<rparr>)))))"

lemma leased_reach: "outbox_reach {''rec''} 1 leased_db"
proof -
  have "outbox_step {''rec''} 1 \<lparr>db_rows = [], db_audit = no_audit\<rparr> (snd (outbox_insert probe_row \<lparr>db_rows = [], db_audit = no_audit\<rparr>))"
    unfolding probe_row_def by (rule os_insert)
  then have "outbox_step {''rec''} 1 \<lparr>db_rows = [], db_audit = no_audit\<rparr> \<lparr>db_rows = [probe_row], db_audit = no_audit\<rparr>"
    by (simp add: outbox_insert_def)
  then have "outbox_reach {''rec''} 1 \<lparr>db_rows = [probe_row], db_audit = no_audit\<rparr>"
    by (rule reach_step [OF reach_init, rotated]) (simp add: empty_outbox_def)
  from reach_step [OF reach_step [OF reach_step [OF this os_claim] os_quarantine] os_source_claim]
  show ?thesis unfolding leased_db_def by simp
qed

lemma uuid_text: "uuid_str u \<noteq> []"
proof
  assume e: "uuid_str u = []"
  have "uuid_parse [] = None" by code_simp
  then show False using uuid_parse_str [of u] e by simp
qed

lemma leased_row:
  obtains r where "db_rows leased_db = [r]" and "oi_id r = 1" and "oi_attempt_count r = 1" and "oi_lease_owner r = Some ''rec''"
    and "oi_completed_at r = None" and "oi_dead_lettered_at r = None" and "oi_cancelled_at r = None"
proof -
  have "\<exists>r. db_rows leased_db = [r] \<and> oi_id r = 1 \<and> oi_attempt_count r = 1 \<and> oi_lease_owner r = Some ''rec''
      \<and> oi_completed_at r = None \<and> oi_dead_lettered_at r = None \<and> oi_cancelled_at r = None"
    by (simp add: leased_db_def claim_evals probe_row_def quarantine_unknown_outcome_def update_owned_def held_by_def active_until_def
        source_claim_def source_lease_def awaiting_row_def uuid_text uuid_parse_str)
  with that show ?thesis by blast
qed

text \<open>
  C12. A claim that is superseded is fenced off for good. Once a row that a worker claimed has
  been claimed again, by whomever, the second claim carries a larger fencing token, and from
  then on, after any interleaving of transactions of other workers, operators, reconcilers and
  the command store, every operation of the first worker under its token (complete,
  quarantine, renew, fail, resolve) raises and changes nothing.
\<close>

theorem superseded_claim_is_fenced:
  assumes reach: "outbox_reach R limit db" and who: "who \<notin> R" "py_strip who = who"
    and first: "outbox_claim n1 l1 who le1 limit db = (Inr (Some rec), db1)" and run1: "run (outbox_step R limit) db1 db2"
    and second: "outbox_claim n2 l2 who' le2 limit db2 = (Inr (Some rec'), db3)" and same: "or_id rec' = or_id rec"
    and run2: "run (outbox_step R limit) db3 db4"
  shows "or_fencing_token rec < or_fencing_token rec'
    \<and> refuses (outbox_complete now (or_id rec) who (Some (or_fencing_token rec))) db4
    \<and> refuses (quarantine_unknown_outcome now (or_id rec) who err lease (Some (or_fencing_token rec))) db4
    \<and> refuses (renew_active_dispatch now (or_id rec) who lease (Some (or_fencing_token rec))) db4
    \<and> refuses (outbox_fail now (or_id rec) who err limit (Some (or_fencing_token rec))) db4
    \<and> refuses (resolve_reconciliation now (or_id rec) operator action reason limit (Some who) (Some (or_fencing_token rec))) db4"
proof -
  have inv: "table_inv limit db" by (rule tab.reach_inv [OF reach])
  have step1: "outbox_step R limit db db1" using os_claim [of R limit db n1 l1 who le1] first by simp
  have inv1: "table_inv limit db1" by (rule outbox_step_table [OF step1 inv])
  have inv2: "table_inv limit db2" by (rule tab.run_inv [OF run1 inv1])
  have step2: "outbox_step R limit db2 db3" using os_claim [of R limit db2 n2 l2 who' le2] second by simp
  have inv3: "table_inv limit db3" by (rule outbox_step_table [OF step2 inv2])
  obtain r1 where r1: "r1 \<in> set (db_rows db1)" "oi_id r1 = or_id rec" "ob_fencing_token r1 = or_fencing_token rec"
    by (rule claimed_holds [OF inv first])
  obtain r2 where r2: "r2 \<in> set (db_rows db2)" "rec' = record_of_row (lease_row n2 who' le2 r2)"
    by (rule claim_Some [OF inv2 second])
  have "oi_id r2 = oi_id r1" using r2 same r1(2) by (simp add: record_of_row_def lease_row_def)
  then have "ob_fencing_token r1 \<le> ob_fencing_token r2" by (rule row_later [OF trows.run_rel [OF run1] inv2 r1(1) r2(1)])
  then have less: "or_fencing_token rec < or_fencing_token rec'" using r2 r1 by (simp add: record_of_row_def lease_row_def)
  obtain r3 where r3: "r3 \<in> set (db_rows db3)" "oi_id r3 = or_id rec'" "ob_fencing_token r3 = or_fencing_token rec'"
    by (rule claimed_holds [OF inv2 second])
  have "r = r3" if "r \<in> set (db_rows db3)" "oi_id r = or_id rec" for r
    using table_inv_unique [OF inv3 that(1) r3(1)] that(2) r3(2) same by simp
  then have "or_fencing_token rec \<le> ob_fencing_token r \<and> \<not> held_by (or_id rec) who (Some (or_fencing_token rec)) r"
    if "r \<in> set (db_rows db3)" "oi_id r = or_id rec" for r using that r3(3) less by (simp add: held_by_def)
  moreover have "or_id rec \<in> oi_id ` set (db_rows db3)" using r3(1,2) same by (metis imageI)
  ultimately have "lost (or_id rec) who (or_fencing_token rec) db3" by (simp add: lost_def)
  then have "lost (or_id rec) who (or_fencing_token rec) db4" by (rule lost_step [OF _ trows.run_rel [OF run2] who(1)])
  from lost_refuses [OF this] lost_refuses_resolve [OF this who(2)] less show ?thesis by (intro conjI)
qed

theorem superseded_claim_is_fenced_witness:
  "\<exists>rec db1 rec' db3. outbox_claim 1 [] ''w1'' 10 3 sample_outbox = (Inr (Some rec), db1)
     \<and> outbox_claim 20 [] ''w2'' 10 3 db1 = (Inr (Some rec'), db3)
     \<and> refuses (outbox_complete 21 1 ''w1'' (Some (or_fencing_token rec))) db3"
proof -
  obtain rec db1 where c1: "outbox_claim 1 [] ''w1'' 10 3 sample_outbox = (Inr (Some rec), db1)" "or_id rec = 1"
    and rows: "db_rows db1 = [lease_row 1 ''w1'' 10 sample_row1]"
    by (rule sample_claim)
  obtain rec' db3 where c2: "outbox_claim 20 [] ''w2'' 10 3 db1 = (Inr (Some rec'), db3)" "or_id rec' = 1"
    using rows by (simp add: claim_evals)
  have strip: "py_strip ''w1'' = ''w1''" by code_simp
  have "refuses (outbox_complete 21 (or_id rec) ''w1'' (Some (or_fencing_token rec))) db3"
    using superseded_claim_is_fenced [OF sample_outbox_reach [of "{}"] _ strip c1(1) run_refl c2(1) _ run_refl] c1(2) c2(2) by simp
  with c1 c2 show ?thesis by auto
qed

text \<open>
  The outbox table is sound after every interleaving: identifiers are unique, only leased
  rows have a deadline, finished and cancelled rows have no lease, no row is both delivered and
  dead lettered or finished and still quarantined, the fencing token is the number of claims,
  the append-only log holds exactly these claims, numbered from one, and no row is ever
  claimed more often than the limit.
\<close>

theorem outbox_table_sound:
  assumes "outbox_reach R limit db"
  shows "distinct (map oi_id (db_rows db))
    \<and> (\<forall>r \<in> set (db_rows db). row_inv limit r \<and> claims_of (oi_id r) db = map (\<lambda>k. (k, Some k)) [1..<Suc (oi_attempt_count r)])"
  using tab.reach_inv [OF assms] by (auto simp: table_inv_def row_inv_def claim_numbers_def)

theorem outbox_table_sound_witness:
  "\<exists>rec db. outbox_claim 1 [] ''w1'' 10 3 sample_outbox = (Inr (Some rec), db) \<and> claims_of 1 db = [(1, Some 1)]"
proof -
  obtain rec db where c: "outbox_claim 1 [] ''w1'' 10 3 sample_outbox = (Inr (Some rec), db)"
    and rows: "db_rows db = [lease_row 1 ''w1'' 10 sample_row1]"
    by (rule sample_claim)
  have "outbox_reach {} 3 db"
    using reach_step [OF sample_outbox_reach os_claim, of "{}" 3 1 "[]" "''w1''" 10] c by simp
  from outbox_table_sound [OF this] rows c show ?thesis
    by (auto simp: lease_row_def new_row_def sample_row1_def)
qed

text \<open>
  C38. A re-queue beyond the attempt limit loses the command. When the reconciler resolves as
  retry a row whose attempts are spent (the source does not look at the limit, which the
  store's own resolution does), the next claim of any worker buries the row instead of
  returning it, while the ledger has the command queued.
\<close>

theorem requeue_of_spent_row_is_buried:
  assumes reach: "outbox_reach R limit db" and row: "r \<in> set (db_rows db)" "oi_id r = rcl_outbox_id c"
    and spent: "limit \<le> oi_attempt_count r" "oi_cancelled_at r = None"
    and retry: "source_resolve now c who ''retry'' reason db = (Inr (), db1)"
    and claim: "outbox_claim now' locked who' lease limit db1 = (Inr res, db2)"
  shows "(\<exists>r' \<in> set (db_rows db2). oi_id r' = oi_id r \<and> oi_dead_lettered_at r' = Some now' \<and> oi_attempt_count r' = oi_attempt_count r)
    \<and> (\<forall>rec. res = Some rec \<longrightarrow> or_id rec \<noteq> oi_id r)"
proof -
  have inv: "table_inv limit db" by (rule tab.reach_inv [OF reach])
  have inv1: "table_inv limit db1" using keepsD [OF source_resolve_keeps_table inv, of now c who "''retry''" reason] retry by simp
  obtain x where r1: "resolution_of now ''retry'' x r \<in> set (db_rows db1)"
    and free: "oi_completed_at r = None" "oi_dead_lettered_at r = None"
    by (rule source_retry_row [OF inv row retry])
  let ?r1 = "resolution_of now ''retry'' x r"
  have "spent_row limit now' ?r1" using spent free by (simp add: spent_row_def open_row_def idle_lease_def resolution_of_def Let_def)
  from claim_buries [OF inv1 r1 this claim] show ?thesis by (simp add: resolution_of_def Let_def)
qed

theorem requeue_of_spent_row_is_buried_witness:
  "\<exists>db1 db2. source_resolve 21 \<lparr>rcl_outbox_id = 1, rcl_tenant_id = ''T1'', rcl_command_id = 7, rcl_reconciliation_attempts = 1\<rparr>
      ''rec'' ''retry'' ''absent'' leased_db = (Inr (), db1)
    \<and> outbox_claim 22 [] ''w2'' 10 1 db1 = (Inr None, db2) \<and> (\<exists>r \<in> set (db_rows db2). oi_id r = 1 \<and> oi_dead_lettered_at r = Some 22)"
proof -
  let ?c = "\<lparr>rcl_outbox_id = 1, rcl_tenant_id = ''T1'', rcl_command_id = 7, rcl_reconciliation_attempts = 1\<rparr>"
  obtain r where r: "db_rows leased_db = [r]" "oi_id r = 1" "oi_attempt_count r = 1" "oi_lease_owner r = Some ''rec''"
    "oi_completed_at r = None" "oi_dead_lettered_at r = None" "oi_cancelled_at r = None" by (rule leased_row)
  obtain db1 where s: "source_resolve 21 ?c ''rec'' ''retry'' ''absent'' leased_db = (Inr (), db1)" "map oi_id (db_rows db1) = [1]"
    using r by (simp add: source_resolve_def RECONCILIATION_ACTIONS_def transaction_def sql_defs resolution_of_def Let_def)
  obtain res db2 where c: "outbox_claim 22 [] ''w2'' 10 1 db1 = (Inr res, db2)" using claim_returns by force
  have "(\<exists>r' \<in> set (db_rows db2). oi_id r' = oi_id r \<and> oi_dead_lettered_at r' = Some 22 \<and> oi_attempt_count r' = oi_attempt_count r)
    \<and> (\<forall>rec. res = Some rec \<longrightarrow> or_id rec \<noteq> oi_id r)"
    by (rule requeue_of_spent_row_is_buried [OF leased_reach _ _ _ _ s(1) c]) (use r in simp_all)
  moreover have "or_id rec = 1" if "res = Some rec" for rec
  proof -
    have inv: "table_inv 1 db1"
      using keepsD [OF source_resolve_keeps_table tab.reach_inv [OF leased_reach], of 21 ?c "''rec''" "''retry''" "''absent''"] s(1) by simp
    from c [unfolded that] show ?thesis
    proof (rule claim_Some [OF inv])
      fix q assume "q \<in> set (db_rows db1)" "rec = record_of_row (lease_row 22 ''w2'' 10 q)"
      then show "or_id rec = 1" using s(2) by (auto simp: record_of_row_def lease_row_def)
    qed
  qed
  ultimately have "res = None" "\<exists>r' \<in> set (db_rows db2). oi_id r' = 1 \<and> oi_dead_lettered_at r' = Some 22"
    using r(2) by (cases res; auto)+
  with s c show ?thesis by auto
qed

end
