(* ===== verification/Outbox_Worker.thy ===== *)
theory Outbox_Worker
  imports Outbox_Guarantees
begin

text \<open>
  The outbox worker (\<open>app/worker.py\<close>): claim, effect gate, quarantine before the handler runs,
  heartbeats while it runs, and the resolution of the row from the way it ended.

  The state is the outbox, the state the handlers work on, and a ghost log of the dispatches,
  as pairs of row and fencing token. What other processes do to the outbox (and dispatch)
  between two transactions of the worker is the function \<open>others\<close> of the suspension point. A
  handler also sees whether its task was cancelled at the deadline, since it may suppress the
  cancellation and go on. Logging is left out; a run takes its clock readings as arguments.
\<close>

subsection \<open>The worker\<close>

record 's outbox_worker =
  wk_poll_seconds :: rat
  wk_lease_seconds :: rat
  wk_handler_timeout_seconds :: rat
  wk_max_attempts :: nat
  wk_worker_id :: string
  wk_handlers :: "(string, bool \<Rightarrow> outbox_record \<Rightarrow> ('s, unit) prog) dict"
  wk_effect_gate :: "(outbox_record \<Rightarrow> ('s, bool) prog) option"

definition new_worker :: "'s outbox_worker \<Rightarrow> exc + 's outbox_worker" where
  "new_worker wk =
     (if wk_poll_seconds wk \<le> 0 then Inl (Exc ValueError ''poll_seconds must be positive'')
      else if wk_lease_seconds wk \<le> 0 then Inl (Exc ValueError ''lease_seconds must be positive'')
      else if wk_handler_timeout_seconds wk \<le> 0 \<or> wk_handler_timeout_seconds wk \<ge> wk_lease_seconds wk
      then Inl (Exc ValueError ''handler timeout must be positive and strictly below lease'')
      else if wk_max_attempts wk < 1 then Inl (Exc ValueError ''max_attempts must be positive'')
      else Inr wk)"

type_synonym dispatch_log = "(nat \<times> nat) list"

record 's worker_state =
  ws_outbox :: "outbox_row outbox_db"
  ws_dispatched :: dispatch_log
  ws_app :: 's

record worker_reading =
  wr_locked :: "nat list"
  wr_claim :: rat
  wr_release :: rat
  wr_beats :: "rat list"
  wr_resolve :: rat
  wr_timed_out :: bool
  wr_shutdown :: bool

type_synonym bystanders = "nat \<Rightarrow> outbox_row outbox_db \<times> dispatch_log \<Rightarrow> outbox_row outbox_db \<times> dispatch_log"

definition on_outbox :: "(outbox_row outbox_db, 'a) prog \<Rightarrow> ('s worker_state, 'a) prog" where
  "on_outbox m = zoomE ws_outbox (\<lambda>db w. w\<lparr>ws_outbox := db\<rparr>) m"

definition on_app :: "('s, 'a) prog \<Rightarrow> ('s worker_state, 'a) prog" where
  "on_app m = zoomE ws_app (\<lambda>a w. w\<lparr>ws_app := a\<rparr>) m"

definition meanwhile :: "bystanders \<Rightarrow> nat \<Rightarrow> ('s worker_state, unit) prog" where
  "meanwhile others n = modifyE (\<lambda>w. case others n (ws_outbox w, ws_dispatched w) of
     (db, ds) \<Rightarrow> w\<lparr>ws_outbox := db, ws_dispatched := ds\<rparr>)"

definition CancelledError :: exc_class where
  "CancelledError = OtherException ''CancelledError''"

subsection \<open>One record\<close>

fun heartbeat :: "'s outbox_worker \<Rightarrow> bystanders \<Rightarrow> outbox_record \<Rightarrow> nat \<Rightarrow> rat list \<Rightarrow> ('s worker_state, unit) prog" where
  "heartbeat wk others rec n [] = retE ()"
| "heartbeat wk others rec n (t # ts) =
     thenE (meanwhile others n)
       (thenE (catchE (on_outbox (renew_active_dispatch t (or_id rec) (wk_worker_id wk) (wk_lease_seconds wk) (Some (or_fencing_token rec))))
                (\<lambda>_. retE ()))
         (heartbeat wk others rec (Suc n) ts))"

definition worker_fail :: "'s outbox_worker \<Rightarrow> rat \<Rightarrow> outbox_record \<Rightarrow> string \<Rightarrow> ('s worker_state, bool) prog" where
  "worker_fail wk now rec err =
     thenE (on_outbox (outbox_fail now (or_id rec) (wk_worker_id wk) err (wk_max_attempts wk) (Some (or_fencing_token rec))))
       (retE True)"

definition worker_resolve :: "'s outbox_worker \<Rightarrow> rat \<Rightarrow> outbox_record \<Rightarrow> string \<Rightarrow> string \<Rightarrow> ('s worker_state, unit) prog" where
  "worker_resolve wk now rec action reason =
     on_outbox (resolve_reconciliation now (or_id rec) (''worker:'' @ wk_worker_id wk) action reason (wk_max_attempts wk)
       (Some (wk_worker_id wk)) (Some (or_fencing_token rec)))"

text \<open>The final transaction before provider code: it must commit for the handler to be called.\<close>

definition reserve_dispatch :: "'s outbox_worker \<Rightarrow> rat \<Rightarrow> outbox_record \<Rightarrow> ('s worker_state, unit) prog" where
  "reserve_dispatch wk now rec =
     thenE (on_outbox (quarantine_unknown_outcome now (or_id rec) (wk_worker_id wk)
         ''provider dispatch reserved before handler invocation; external outcome must be explicitly confirmed before automatic release''
         (wk_lease_seconds wk) (Some (or_fencing_token rec))))
       (modifyE (\<lambda>w. w\<lparr>ws_dispatched := ws_dispatched w @ [(or_id rec, or_fencing_token rec)]\<rparr>))"

definition call_handler :: "(bool \<Rightarrow> outbox_record \<Rightarrow> ('s, unit) prog) \<Rightarrow> bool \<Rightarrow> outbox_record \<Rightarrow> ('s worker_state, exc + unit) prog" where
  "call_handler handler cancelled rec w = (case on_app (handler cancelled rec) w of (res, w') \<Rightarrow> (Inr res, w'))"

definition settle_dispatch :: "'s outbox_worker \<Rightarrow> worker_reading \<Rightarrow> outbox_record \<Rightarrow> exc + unit \<Rightarrow> ('s worker_state, bool) prog" where
  "settle_dispatch wk rd rec res =
     (case res of
        Inl e \<Rightarrow>
          if exc_class e = CancelledError then (if wr_timed_out rd then retE True else reraiseE e)
          else if exc_class e = KnownSafeRetryError \<and> \<not> wr_timed_out rd
          then thenE (worker_resolve wk (wr_resolve rd) rec ''retry'' (''handler certified known-safe retry: '' @ exc_text e)) (retE True)
          else retE True
      | Inr _ \<Rightarrow>
          if wr_timed_out rd then retE True
          else thenE (worker_resolve wk (wr_resolve rd) rec ''complete'' ''handler returned successfully and confirmed delivery outcome'')
                 (retE True))"

definition dispatch_record :: "'s outbox_worker \<Rightarrow> bystanders \<Rightarrow> worker_reading \<Rightarrow> outbox_record
    \<Rightarrow> (bool \<Rightarrow> outbox_record \<Rightarrow> ('s, unit) prog) \<Rightarrow> ('s worker_state, bool) prog" where
  "dispatch_record wk others rd rec handler =
     thenE (reserve_dispatch wk (wr_release rd) rec)
     (bindE (call_handler handler (wr_timed_out rd \<or> wr_shutdown rd) rec) (\<lambda>res.
      thenE (heartbeat wk others rec 1 (wr_beats rd))
      (thenE (meanwhile others (Suc (length (wr_beats rd))))
        (if wr_shutdown rd then raiseE CancelledError [] else settle_dispatch wk rd rec res))))"

definition worker_run_once :: "'s outbox_worker \<Rightarrow> bystanders \<Rightarrow> worker_reading \<Rightarrow> ('s worker_state, bool) prog" where
  "worker_run_once wk others rd =
     bindE (on_outbox (outbox_claim (wr_claim rd) (wr_locked rd) (wk_worker_id wk) (wk_lease_seconds wk) (wk_max_attempts wk))) (\<lambda>claimed.
     case claimed of
       None \<Rightarrow> retE False
     | Some rec \<Rightarrow>
         (case map_of (wk_handlers wk) (or_destination rec) of
            None \<Rightarrow>
              thenE (meanwhile others 0)
                (worker_fail wk (wr_release rd) rec (''no handler registered for destination '' @ or_destination rec))
          | Some handler \<Rightarrow>
              bindE (case wk_effect_gate wk of None \<Rightarrow> retE False | Some gate \<Rightarrow> on_app (gate rec)) (\<lambda>allowed.
              thenE (meanwhile others 0)
                (if \<not> allowed then worker_fail wk (wr_release rd) rec ''effect gate denied dispatch''
                 else dispatch_record wk others rd rec handler))))"


subsection \<open>The loop\<close>

text \<open>
  The first iterations of the endless loop, each with its clock readings, what others do during
  the run, and what they do between it and the next run (during the sleep when nothing was
  claimed). An exception of a run ends the loop.
\<close>

type_synonym worker_turn = "worker_reading \<times> bystanders \<times> bystanders"

fun run_forever :: "'s outbox_worker \<Rightarrow> worker_turn list \<Rightarrow> ('s worker_state, unit) prog" where
  "run_forever wk [] = retE ()"
| "run_forever wk ((rd, others, pause) # turns) =
     bindE (worker_run_once wk others rd) (\<lambda>processed. thenE (meanwhile pause 0) (run_forever wk turns))"

end
