(* ===== verification/Worker_Guarantees.thy ===== *)
theory Worker_Guarantees
  imports Outbox_Worker
begin

text \<open>
  What the outbox worker guarantees: its runs are runs of an abstract machine that only knows
  transactions on the table and dispatches, each dispatch the commit of a quarantine; in that
  machine no claim is dispatched twice, however workers, operators and reconcilers interleave.
  Then what a single undisturbed run leaves behind, for each way the handler can end.
\<close>

subsection \<open>The abstract machine of dispatches\<close>

inductive dispatch_step :: "string set \<Rightarrow> nat \<Rightarrow> outbox_row outbox_db \<times> dispatch_log \<Rightarrow> outbox_row outbox_db \<times> dispatch_log \<Rightarrow> bool"
  for R :: "string set" and limit :: nat where
  ds_table: "outbox_step R limit db db' \<Longrightarrow> dispatch_step R limit (db, ds) (db', ds)"
| ds_dispatch: "who \<notin> R \<Longrightarrow> quarantine_unknown_outcome now i who err lease (Some k) db = (Inr (), db') \<Longrightarrow>
    dispatch_step R limit (db, ds) (db', ds @ [(i, k)])"

definition dispatch_init :: "outbox_row outbox_db \<times> dispatch_log \<Rightarrow> bool" where
  "dispatch_init s \<longleftrightarrow> empty_outbox (fst s) \<and> snd s = []"

text \<open>A dispatched claim stays accounted for: its row has moved on to a later claim or is parked.\<close>

definition accounted :: "string set \<Rightarrow> outbox_row list \<Rightarrow> nat \<times> nat \<Rightarrow> bool" where
  "accounted R rows d \<longleftrightarrow> (\<exists>r \<in> set rows. oi_id r = fst d \<and> 1 \<le> snd d \<and> snd d \<le> ob_fencing_token r
     \<and> (ob_fencing_token r = snd d \<longrightarrow> parked_row R r))"

definition dispatch_inv :: "string set \<Rightarrow> nat \<Rightarrow> outbox_row outbox_db \<times> dispatch_log \<Rightarrow> bool" where
  "dispatch_inv R limit s \<longleftrightarrow> table_inv limit (fst s) \<and> distinct (snd s) \<and> (\<forall>d \<in> set (snd s). accounted R (db_rows (fst s)) d)"

lemma accounted_step:
  assumes "accounted R rows d" and "rows_step R rows rows'"
  shows "accounted R rows' d"
proof -
  obtain r where r: "r \<in> set rows" "oi_id r = fst d" "1 \<le> snd d" "snd d \<le> ob_fencing_token r"
      "ob_fencing_token r = snd d \<longrightarrow> parked_row R r"
    using assms(1) by (auto simp: accounted_def)
  obtain g new where g: "rows' = map g rows @ new" "\<forall>r. row_step R r (g r)" using assms(2) by (auto simp: rows_step_def)
  have "g r \<in> set rows'" using r(1) g(1) by simp
  moreover have "row_step R r (g r)" using g(2) by blast
  ultimately show ?thesis
    using r by (intro bexI [of _ "g r"] accounted_def [THEN iffD2]) (auto simp: row_step_def)
qed

lemma quarantine_row:
  assumes "quarantine_unknown_outcome now i who err lease (Some k) db = (Inr (), db')"
  obtains r where "r \<in> set (db_rows db)" and "held_by i who (Some k) r" and "oi_reconciliation_required_at r = None"
    and "r\<lparr>oi_last_error := Some (take 2048 err), oi_reconciliation_required_at := Some now, oi_lease_until := Some (now + lease)\<rparr> \<in> set (db_rows db')"
proof -
  let ?P = "\<lambda>r. held_by i who (Some k) r \<and> active_until now r \<and> oi_completed_at r = None
             \<and> oi_dead_lettered_at r = None \<and> oi_reconciliation_required_at r = None"
  let ?f = "\<lambda>r. r\<lparr>oi_last_error := Some (take 2048 err), oi_reconciliation_required_at := Some now, oi_lease_until := Some (now + lease)\<rparr>"
  obtain r rs where f: "filter ?P (db_rows db) = r # rs"
    using assms by (cases "filter ?P (db_rows db)")
      (auto simp: quarantine_unknown_outcome_def update_owned_def transaction_def sql_defs split: if_splits)
  then have r: "r \<in> set (db_rows db)" "?P r" by (auto dest!: filter_eq_ConsD)
  have "db_rows db' = map (\<lambda>r. if ?P r then ?f r else r) (db_rows db)"
    using assms f by (auto simp: quarantine_unknown_outcome_def update_owned_def transaction_def sql_defs split: if_splits)
  then have "?f r \<in> set (db_rows db')" using r by (force simp del: outbox_intent.update_convs)
  with r show ?thesis by (intro that [of r]) auto
qed

lemma dispatch_inv_step: "dispatch_step R limit s t \<Longrightarrow> dispatch_inv R limit s \<Longrightarrow> dispatch_inv R limit t"
proof (induction rule: dispatch_step.induct)
  case (ds_table db db' ds)
  then show ?case using outbox_step_table [OF ds_table(1)] accounted_step [OF _ outbox_step_rows [OF ds_table(1)]]
    by (auto simp: dispatch_inv_def)
next
  case (ds_dispatch who now i err lease k db db' ds)
  have step: "outbox_step R limit db db'" using os_quarantine [of R limit db now i who err lease "Some k"] ds_dispatch(2) by simp
  have inv: "table_inv limit db" "distinct ds" "\<forall>d \<in> set ds. accounted R (db_rows db) d"
    using ds_dispatch(3) by (auto simp: dispatch_inv_def)
  obtain r where r: "r \<in> set (db_rows db)" "held_by i who (Some k) r" "oi_reconciliation_required_at r = None"
    and r': "r\<lparr>oi_last_error := Some (take 2048 err), oi_reconciliation_required_at := Some now, oi_lease_until := Some (now + lease)\<rparr> \<in> set (db_rows db')"
    by (rule quarantine_row [OF ds_dispatch(2)])
  have "1 \<le> k" using table_inv_row [OF inv(1) r(1)] r(2,3) by (auto simp: row_inv_def held_by_def)
  then have "accounted R (db_rows db') (i, k)"
    using r(2) r' by (auto simp: accounted_def held_by_def parked_row_def intro!: bexI [OF _ r'])
  moreover have "(i, k) \<notin> set ds"
  proof
    assume "(i, k) \<in> set ds"
    with inv(3) obtain q where "q \<in> set (db_rows db)" "oi_id q = i" "ob_fencing_token q = k \<longrightarrow> parked_row R q"
      by (fastforce simp: accounted_def)
    moreover then have "q = r" using table_inv_unique [OF inv(1) _ r(1)] r(2) by (simp add: held_by_def)
    ultimately show False using r(2,3) ds_dispatch(1) by (auto simp: held_by_def parked_row_def)
  qed
  ultimately show ?case
    using inv outbox_step_table [OF step] accounted_step [OF _ outbox_step_rows [OF step]] by (auto simp: dispatch_inv_def)
qed

interpretation dsp: machine_invariant dispatch_init "dispatch_step R limit" "dispatch_inv R limit" for R limit
proof
  show "dispatch_init s \<Longrightarrow> dispatch_inv R limit s" for s
    using tab.inv_init by (auto simp: dispatch_init_def dispatch_inv_def)
qed (rule dispatch_inv_step)

subsection \<open>The worker refines the machine\<close>

abbreviation view :: "'s worker_state \<Rightarrow> outbox_row outbox_db \<times> dispatch_log" where
  "view w \<equiv> (ws_outbox w, ws_dispatched w)"

abbreviation since :: "string set \<Rightarrow> nat \<Rightarrow> outbox_row outbox_db \<times> dispatch_log \<Rightarrow> 's worker_state \<Rightarrow> bool" where
  "since R limit s0 w \<equiv> run (dispatch_step R limit) s0 (view w)"

definition honest_bystanders :: "string set \<Rightarrow> nat \<Rightarrow> bystanders \<Rightarrow> bool" where
  "honest_bystanders R limit others \<longleftrightarrow> (\<forall>n s. run (dispatch_step R limit) s (others n s))"

lemma since_outbox:
  assumes "\<And>db. outbox_step R limit db (snd (m db))"
  shows "keeps (since R limit s0) (on_outbox m)"
proof (rule keepsI)
  fix w :: "'s worker_state" assume s: "since R limit s0 w"
  have "dispatch_step R limit (view w) (snd (m (ws_outbox w)), ws_dispatched w)" by (rule ds_table [OF assms])
  with run_step [OF s] show "since R limit s0 (snd (on_outbox m w))"
    by (auto simp: on_outbox_def zoomE_def split: prod.split)
qed

lemma since_meanwhile:
  assumes "honest_bystanders R limit others"
  shows "keeps (since R limit s0) (meanwhile others n)"
proof (rule keepsI)
  fix w :: "'s worker_state" assume s: "since R limit s0 w"
  have "run (dispatch_step R limit) (view w) (others n (view w))" using assms by (simp add: honest_bystanders_def)
  from run_trans [OF this s] show "since R limit s0 (snd (meanwhile others n w))"
    by (cases "others n (view w)") (simp add: meanwhile_def modifyE_def)
qed

lemma since_app: "keeps (since R limit s0) (on_app m)"
  by (rule keepsI) (auto simp: on_app_def zoomE_def split: prod.split)

lemma since_call: "keeps (since R limit s0) (call_handler h c rec)"
  by (rule keepsI) (auto simp: call_handler_def on_app_def zoomE_def split: prod.split)

lemma since_reserve:
  assumes "wk_worker_id wk \<notin> R"
  shows "keeps (since R limit s0) (reserve_dispatch wk now rec)"
proof (rule keepsI)
  fix w :: "'a worker_state" assume s: "since R limit s0 w"
  let ?m = "quarantine_unknown_outcome now (or_id rec) (wk_worker_id wk)
    ''provider dispatch reserved before handler invocation; external outcome must be explicitly confirmed before automatic release''
    (wk_lease_seconds wk) (Some (or_fencing_token rec))"
  obtain res db' where m: "?m (ws_outbox w) = (res, db')" by fastforce
  show "since R limit s0 (snd (reserve_dispatch wk now rec w))"
  proof (cases res)
    case (Inl e)
    have "outbox_step R limit (ws_outbox w) db'" using os_quarantine [of R limit "ws_outbox w"] m by (metis snd_conv)
    then show ?thesis using s m Inl run_step [OF s ds_table]
      by (simp add: reserve_dispatch_def on_outbox_def prog_defs)
  next
    case (Inr u)
    then have "dispatch_step R limit (view w) (db', ws_dispatched w @ [(or_id rec, or_fencing_token rec)])"
      using m assms by (intro ds_dispatch) auto
    then show ?thesis using m Inr run_step [OF s] by (simp add: reserve_dispatch_def on_outbox_def prog_defs)
  qed
qed

lemma since_heartbeat:
  "honest_bystanders R limit others \<Longrightarrow> keeps (since R limit s0) (heartbeat wk others rec n ts)"
  by (induction ts arbitrary: n) (auto intro!: keeps_rules since_meanwhile since_outbox os_renew)

lemma worker_refines:
  assumes hon: "honest_bystanders R (wk_max_attempts wk) others" and who: "wk_worker_id wk \<notin> R"
  shows "keeps (since R (wk_max_attempts wk) s0) (worker_run_once wk others rd)"
proof -
  have settle: "keeps (since R (wk_max_attempts wk) s0) (settle_dispatch wk rd rec res)" for rec res
    unfolding settle_dispatch_def worker_resolve_def by (cases res) (auto intro!: keeps_rules since_outbox os_resolve)
  have dispatch: "keeps (since R (wk_max_attempts wk) s0) (dispatch_record wk others rd rec h)" for rec h
    unfolding dispatch_record_def
    by (intro keeps_rules since_reserve [OF who] since_call since_heartbeat [OF hon] since_meanwhile [OF hon] settle)
  have fail: "keeps (since R (wk_max_attempts wk) s0) (worker_fail wk now rec err)" for now rec err
    unfolding worker_fail_def by (intro keeps_rules since_outbox os_fail)
  show ?thesis
    unfolding worker_run_once_def
    by (intro keeps_rules since_outbox os_claim since_app since_meanwhile [OF hon] fail dispatch)
qed

subsection \<open>Dispatches\<close>

lemma dispatches_bounded:
  assumes "dispatch_inv R limit (db, ds)"
  shows "length (filter (\<lambda>d. fst d = i) ds) \<le> limit"
proof -
  have "1 \<le> snd d \<and> snd d \<le> limit" if "d \<in> set ds" for d
  proof -
    have "accounted R (db_rows db) d" using assms that by (simp add: dispatch_inv_def)
    then obtain r where "r \<in> set (db_rows db)" "1 \<le> snd d" "snd d \<le> ob_fencing_token r" unfolding accounted_def by blast
    moreover then have "row_inv limit r" using assms table_inv_row by (auto simp: dispatch_inv_def)
    ultimately show ?thesis by (auto simp: row_inv_def)
  qed
  then have "snd ` set (filter (\<lambda>d. fst d = i) ds) \<subseteq> {1..limit}" by auto
  moreover have "inj_on snd (set (filter (\<lambda>d. fst d = i) ds))" by (auto intro!: inj_onI prod_eqI)
  ultimately have "card (set (filter (\<lambda>d. fst d = i) ds)) \<le> limit"
    by (metis card_image card_mono finite_atLeastAtMost card_atLeastAtMost diff_Suc_1)
  moreover have "distinct (filter (\<lambda>d. fst d = i) ds)" using assms by (simp add: dispatch_inv_def)
  ultimately show ?thesis by (metis distinct_card)
qed

lemma loop_refines:
  assumes "\<forall>(rd, others, pause) \<in> set turns. honest_bystanders R (wk_max_attempts wk) others \<and> honest_bystanders R (wk_max_attempts wk) pause"
    and who: "wk_worker_id wk \<notin> R"
  shows "keeps (since R (wk_max_attempts wk) s0) (run_forever wk turns)"
  using assms(1)
proof (induction turns)
  case (Cons turn turns)
  obtain rd others pause where "turn = (rd, others, pause)" by (cases turn) auto
  with Cons show ?case by (auto intro!: keeps_rules worker_refines who since_meanwhile)
qed (simp add: keeps_rules)


text \<open>
  C9. No claim is dispatched twice: in every state the machine of dispatches can reach, with
  any number of workers, operators and reconcilers interleaved, no two dispatches were made
  under the same claim of the same row, every dispatch belongs to a claim of a row of the
  table, the row has been claimed again since or is out of the workers' reach, and no row is
  ever dispatched more often than the attempt limit.
\<close>

theorem claims_dispatched_once:
  assumes "reach dispatch_init (dispatch_step R limit) (db, ds)"
  shows "distinct ds \<and> (\<forall>d \<in> set ds. accounted R (db_rows db) d) \<and> (\<forall>i. length (filter (\<lambda>d. fst d = i) ds) \<le> limit)"
  using dsp.reach_inv [OF assms] dispatches_bounded by (auto simp: dispatch_inv_def)

subsection \<open>A run on its own\<close>

definition alone :: bystanders where
  "alone n s = s"

lemma meanwhile_alone [simp]: "meanwhile alone n w = (Inr (), w)"
  by (simp add: meanwhile_def alone_def modifyE_def)

definition row_at :: "nat \<Rightarrow> nat \<Rightarrow> outbox_row outbox_db \<Rightarrow> outbox_row \<Rightarrow> bool" where
  "row_at limit i db r \<longleftrightarrow> table_inv limit db \<and> r \<in> set (db_rows db) \<and> oi_id r = i"

lemma find_filter: "find P xs = (case filter P xs of [] \<Rightarrow> None | x # _ \<Rightarrow> Some x)"
  by (induction xs) auto

lemma row_at_find: "row_at limit i db r \<Longrightarrow> find (\<lambda>r. oi_id r = i) (db_rows db) = Some r"
  using table_key [of limit db r] by (simp add: row_at_def find_filter)

text \<open>An update whose condition names the row: it hits this row and no other.\<close>

lemma update_row_at:
  assumes r: "row_at limit i db r" and P: "\<And>x. P x \<Longrightarrow> oi_id x = i" "P r"
  shows "\<exists>db'. sql_update P f db = (Inr [f r], db') \<and> f r \<in> set (db_rows db') \<and> db_audit db' = db_audit db"
proof -
  have id: "oi_id r = i" using r by (simp add: row_at_def)
  have one: "x = r" if "x \<in> set (db_rows db)" "oi_id x = i" for x
    using table_inv_unique [of limit db x r] r that by (simp add: row_at_def)
  have "P x \<longleftrightarrow> oi_id x = oi_id r" if "x \<in> set (db_rows db)" for x
    using one [OF that] P id by metis
  then have "filter P (db_rows db) = filter (\<lambda>x. oi_id x = oi_id r) (db_rows db)" by (simp cong: filter_cong)
  also have "\<dots> = [r]" using r unfolding row_at_def by (intro table_key [of limit]) simp_all
  finally have "filter P (db_rows db) = [r]" .
  moreover have "r \<in> set (db_rows db)" using r by (simp add: row_at_def)
  ultimately show ?thesis using P(2) by (force simp: sql_update_def)
qed

text \<open>A row under dispatch: quarantined, unfinished, and leased by its worker.\<close>

definition under_dispatch :: "string \<Rightarrow> nat \<Rightarrow> outbox_row \<Rightarrow> bool" where
  "under_dispatch who k r \<longleftrightarrow> held_by (oi_id r) who (Some k) r \<and> oi_reconciliation_required_at r \<noteq> None
     \<and> oi_completed_at r = None \<and> oi_dead_lettered_at r = None"

lemma quarantine_alone:
  assumes r: "row_at limit i db r" and "held_by i who (Some k) r" "active_until now r" "open_row r" and "0 < lease"
  obtains db' r' where "quarantine_unknown_outcome now i who err lease (Some k) db = (Inr (), db')" and "row_at limit i db' r'"
    and "under_dispatch who k r'" and "oi_lease_until r' = Some (now + lease)" and "oi_attempt_count r' = oi_attempt_count r"
    and "oi_cancelled_at r' = None"
proof -
  let ?f = "\<lambda>r. r\<lparr>oi_last_error := Some (take 2048 err), oi_reconciliation_required_at := Some now, oi_lease_until := Some (now + lease)\<rparr>"
  obtain db1 where u: "sql_update (\<lambda>r. held_by i who (Some k) r \<and> active_until now r \<and> oi_completed_at r = None
      \<and> oi_dead_lettered_at r = None \<and> oi_reconciliation_required_at r = None) ?f db = (Inr [?f r], db1)" "?f r \<in> set (db_rows db1)"
    using update_row_at [OF r, of "\<lambda>r. held_by i who (Some k) r \<and> active_until now r \<and> oi_completed_at r = None
      \<and> oi_dead_lettered_at r = None \<and> oi_reconciliation_required_at r = None" ?f] assms(2-4) by (auto simp: held_by_def open_row_def)
  define db' where "db' = snd (quarantine_unknown_outcome now i who err lease (Some k) db)"
  have q: "quarantine_unknown_outcome now i who err lease (Some k) db = (Inr (), db')" "db_rows db' = db_rows db1"
    using u(1) assms(5) by (simp_all add: db'_def quarantine_unknown_outcome_def update_owned_def transaction_def bindE_def retE_def
        log_attempt_def modifyE_def)
  have "table_inv limit db'" using outbox_step_table [OF os_quarantine] r by (simp add: db'_def row_at_def)
  then have "row_at limit i db' (?f r)" using u(2) q(2) assms(2) by (simp add: row_at_def held_by_def)
  moreover have "under_dispatch who k (?f r)" using assms(2,4) by (simp add: under_dispatch_def held_by_def open_row_def)
  ultimately show ?thesis using assms(4) by (intro that [of db' "?f r", OF q(1)]) (simp_all add: open_row_def)
qed

lemma renew_alone:
  assumes r: "row_at limit i db r" and d: "under_dispatch who k r" and "0 < lease"
  obtains db' where "renew_active_dispatch now i who lease (Some k) db = (Inr (), db')" and "row_at limit i db' (r\<lparr>oi_lease_until := Some (now + lease)\<rparr>)"
proof -
  let ?f = "\<lambda>r. r\<lparr>oi_lease_until := Some (now + lease)\<rparr>"
  obtain db' where u: "sql_update (\<lambda>r. held_by i who (Some k) r \<and> oi_reconciliation_required_at r \<noteq> None \<and> oi_completed_at r = None
      \<and> oi_dead_lettered_at r = None) ?f db = (Inr [?f r], db')" "?f r \<in> set (db_rows db')"
    using update_row_at [OF r, of "\<lambda>r. held_by i who (Some k) r \<and> oi_reconciliation_required_at r \<noteq> None \<and> oi_completed_at r = None
      \<and> oi_dead_lettered_at r = None" ?f] d r by (auto simp: held_by_def under_dispatch_def row_at_def)
  have q: "renew_active_dispatch now i who lease (Some k) db = (Inr (), db')"
    using u(1) assms(3) by (simp add: renew_active_dispatch_def bindE_def retE_def)
  have "table_inv limit db'" using outbox_step_table [OF os_renew, of limit db now i who lease "Some k"] r q by (simp add: row_at_def)
  then show ?thesis using q u(2) r by (intro that) (auto simp: row_at_def)
qed

lemma heartbeat_alone:
  assumes "row_at limit (or_id rec) (ws_outbox w) r" and "under_dispatch (wk_worker_id wk) (or_fencing_token rec) r"
    and "oi_lease_until r = Some (t0 + wk_lease_seconds wk)" and "0 < wk_lease_seconds wk"
  shows "\<exists>db'. heartbeat wk alone rec n ts w = (Inr (), w\<lparr>ws_outbox := db'\<rparr>)
    \<and> row_at limit (or_id rec) db' (r\<lparr>oi_lease_until := Some (last (t0 # ts) + wk_lease_seconds wk)\<rparr>)"
  using assms
proof (induction ts arbitrary: n w r t0)
  case Nil
  then have "r\<lparr>oi_lease_until := Some (last [t0] + wk_lease_seconds wk)\<rparr> = r" by simp
  with Nil(1) show ?case by (intro exI [of _ "ws_outbox w"]) (simp only: heartbeat.simps retE_def, simp)
next
  case (Cons t ts)
  obtain db1 where q: "renew_active_dispatch t (or_id rec) (wk_worker_id wk) (wk_lease_seconds wk) (Some (or_fencing_token rec)) (ws_outbox w) = (Inr (), db1)"
    and r1: "row_at limit (or_id rec) db1 (r\<lparr>oi_lease_until := Some (t + wk_lease_seconds wk)\<rparr>)"
    by (rule renew_alone [OF Cons.prems(1,2,4)])
  have "under_dispatch (wk_worker_id wk) (or_fencing_token rec) (r\<lparr>oi_lease_until := Some (t + wk_lease_seconds wk)\<rparr>)"
    using Cons.prems(2) by (simp add: under_dispatch_def held_by_def)
  from Cons.IH [of "w\<lparr>ws_outbox := db1\<rparr>" _ t "Suc n", OF _ this] r1 Cons.prems(4) q show ?case
    by (auto simp: prog_defs on_outbox_def)
qed

lemma resolve_alone:
  assumes r: "row_at limit i db r" and d: "under_dispatch who k r" and act: "active_until now r" and a: "action \<in> {''retry'', ''complete''}"
    and names: "py_strip who = who" "who \<noteq> []" "length who \<le> 256" "py_strip operator \<noteq> []" "length (py_strip operator) \<le> 160"
      "py_strip reason \<noteq> []" "length (py_strip reason) \<le> 2048" and "1 \<le> limit"
  shows "if action = ''retry'' \<and> limit \<le> oi_attempt_count r
    then resolve_reconciliation now i operator action reason limit (Some who) (Some k) db
      = (Inl (Exc ReconciliationError ''attempt limit is exhausted; choose complete or dead_letter''), db)
    else \<exists>db'. resolve_reconciliation now i operator action reason limit (Some who) (Some k) db = (Inr (), db')
      \<and> row_at limit i db' (resolution_of now action (py_strip reason) r)"
proof -
  let ?m = "resolve_reconciliation now i operator action reason limit (Some who) (Some k)"
  have free: "resolution_refusal now action limit (Some who) (Some k) r
      = (if action = ''retry'' \<and> limit \<le> oi_attempt_count r then Some ''attempt limit is exhausted; choose complete or dead_letter'' else None)"
    using d act a unfolding resolution_refusal_def under_dispatch_def held_by_def by auto
  have inv: "table_inv limit (snd (?m db))" using keepsD [OF resolve_keeps_table] r by (simp add: row_at_def)
  show ?thesis
  proof (cases "action = ''retry'' \<and> limit \<le> oi_attempt_count r")
    case True
    then show ?thesis using free row_at_find [OF r] names assms(12)
      by (auto simp: resolve_reconciliation_def RECONCILIATION_ACTIONS_def transaction_def prog_defs Let_def)
  next
    case False
    have "r \<in> set (db_rows db)" "oi_id r = i" using r by (auto simp: row_at_def)
    moreover obtain db' where "?m db = (Inr (), db')"
        and "db_rows db' = map (\<lambda>r. if oi_id r = i then resolution_of now action (py_strip reason) r else r) (db_rows db)"
      using False free row_at_find [OF r] names a assms(12)
      by (auto simp: resolve_reconciliation_def RECONCILIATION_ACTIONS_def transaction_def sql_defs Let_def)
    ultimately show ?thesis using False inv by (force simp: row_at_def row_inv_resolution)
  qed
qed

text \<open>From the claim to the moment of the resolution.\<close>

definition named_well :: "'s outbox_worker \<Rightarrow> bool" where
  "named_well wk \<longleftrightarrow> py_strip (wk_worker_id wk) = wk_worker_id wk \<and> wk_worker_id wk \<noteq> [] \<and> length (wk_worker_id wk) \<le> 153"

lemma strip_operator:
  assumes "named_well wk"
  shows "py_strip (''worker:'' @ wk_worker_id wk) = ''worker:'' @ wk_worker_id wk"
proof -
  have "rev (dropWhile is_space (rev (dropWhile is_space (wk_worker_id wk)))) = wk_worker_id wk"
    using assms by (simp add: named_well_def py_strip_def)
  then have "\<not> is_space (last (wk_worker_id wk))"
    using assms by (metis append_Nil2 dropWhile_eq_Nil_conv hd_dropWhile hd_rev last_in_set named_well_def rev_is_Nil_conv rev_rev_ident)
  then show ?thesis
    using assms by (cases "wk_worker_id wk" rule: rev_cases) (simp_all add: named_well_def py_strip_def is_space_def)
qed

lemma dispatched_alone:
  assumes inv: "table_inv (wk_max_attempts wk) (ws_outbox w)"
    and claim: "outbox_claim (wr_claim rd) (wr_locked rd) (wk_worker_id wk) (wk_lease_seconds wk) (wk_max_attempts wk) (ws_outbox w)
       = (Inr (Some rec), db1)"
    and "map_of (wk_handlers wk) (or_destination rec) = Some h" and "wk_effect_gate wk = Some g" and "g rec (ws_app w) = (Inr True, a1)"
    and "h (wr_timed_out rd \<or> wr_shutdown rd) rec a1 = (hres, a2)"
    and "wr_release rd < wr_claim rd + wk_lease_seconds wk"
  obtains w2 r where "worker_run_once wk alone rd w =
      (if wr_shutdown rd then raiseE CancelledError [] else settle_dispatch wk rd rec hres) w2"
    and "row_at (wk_max_attempts wk) (or_id rec) (ws_outbox w2) r" and "under_dispatch (wk_worker_id wk) (or_fencing_token rec) r"
    and "oi_lease_until r = Some (last (wr_release rd # wr_beats rd) + wk_lease_seconds wk)"
    and "oi_attempt_count r = or_attempt_count rec" and "oi_cancelled_at r = None"
    and "ws_dispatched w2 = ws_dispatched w @ [(or_id rec, or_fencing_token rec)]"
proof -
  have pos: "0 < wk_lease_seconds wk" using claim by (auto simp: outbox_claim_def raiseE_def split: if_splits)
  obtain q where q: "due_row (wk_max_attempts wk) (wr_claim rd) q" "rec = record_of_row (lease_row (wr_claim rd) (wk_worker_id wk) (wk_lease_seconds wk) q)"
    and rows: "lease_row (wr_claim rd) (wk_worker_id wk) (wk_lease_seconds wk) q \<in> set (db_rows db1)"
    by (rule claim_Some [OF inv claim]) force
  let ?r0 = "lease_row (wr_claim rd) (wk_worker_id wk) (wk_lease_seconds wk) q"
  have inv1: "table_inv (wk_max_attempts wk) db1" using keepsD [OF claim_keeps_table inv] claim by (metis snd_conv)
  have r0: "row_at (wk_max_attempts wk) (or_id rec) db1 ?r0" using inv1 rows q(2) by (simp add: row_at_def record_of_row_def)
  have held: "held_by (or_id rec) (wk_worker_id wk) (Some (or_fencing_token rec)) ?r0" "active_until (wr_release rd) ?r0" "open_row ?r0"
    using q assms(7) by (simp_all add: held_by_def record_of_row_def lease_row_def active_until_def due_row_def open_row_def)
  obtain db2 r1 where quar: "quarantine_unknown_outcome (wr_release rd) (or_id rec) (wk_worker_id wk)
      ''provider dispatch reserved before handler invocation; external outcome must be explicitly confirmed before automatic release''
      (wk_lease_seconds wk) (Some (or_fencing_token rec)) db1 = (Inr (), db2)" and r1: "row_at (wk_max_attempts wk) (or_id rec) db2 r1"
      "under_dispatch (wk_worker_id wk) (or_fencing_token rec) r1" "oi_lease_until r1 = Some (wr_release rd + wk_lease_seconds wk)"
      "oi_attempt_count r1 = oi_attempt_count ?r0" "oi_cancelled_at r1 = None"
    by (rule quarantine_alone [OF r0 held pos])
  define w1 where "w1 = w\<lparr>ws_outbox := db2, ws_dispatched := ws_dispatched w @ [(or_id rec, or_fencing_token rec)], ws_app := a2\<rparr>"
  obtain db3 where beat: "heartbeat wk alone rec 1 (wr_beats rd) w1 = (Inr (), w1\<lparr>ws_outbox := db3\<rparr>)"
    and r3: "row_at (wk_max_attempts wk) (or_id rec) db3 (r1\<lparr>oi_lease_until := Some (last (wr_release rd # wr_beats rd) + wk_lease_seconds wk)\<rparr>)"
    using heartbeat_alone [OF _ r1(2,3) pos, of "wk_max_attempts wk" w1 1 "wr_beats rd"] r1(1) by (auto simp: w1_def)
  have "worker_run_once wk alone rd w = (if wr_shutdown rd then raiseE CancelledError [] else settle_dispatch wk rd rec hres) (w1\<lparr>ws_outbox := db3\<rparr>)"
    using claim assms(3-6) quar beat
    by (simp add: worker_run_once_def dispatch_record_def reserve_dispatch_def call_handler_def on_outbox_def on_app_def prog_defs w1_def)
  moreover have "oi_attempt_count r1 = or_attempt_count rec" using r1(4) q(2) by (simp add: record_of_row_def)
  moreover have "under_dispatch (wk_worker_id wk) (or_fencing_token rec) (r1\<lparr>oi_lease_until := u\<rparr>)" for u
    using r1(2) by (simp add: under_dispatch_def held_by_def)
  ultimately show ?thesis using r1(5) r3 by (intro that [of "w1\<lparr>ws_outbox := db3\<rparr>"
        "r1\<lparr>oi_lease_until := Some (last (wr_release rd # wr_beats rd) + wk_lease_seconds wk)\<rparr>"]) (simp_all add: w1_def)
qed

lemma worker_resolve_alone:
  assumes r: "row_at (wk_max_attempts wk) (or_id rec) (ws_outbox w) r" and d: "under_dispatch (wk_worker_id wk) (or_fencing_token rec) r"
    and act: "active_until now r" and a: "action \<in> {''retry'', ''complete''}" and "named_well wk"
    and "py_strip reason \<noteq> []" "length (py_strip reason) \<le> 2048" and "1 \<le> wk_max_attempts wk"
  shows "if action = ''retry'' \<and> wk_max_attempts wk \<le> oi_attempt_count r
    then worker_resolve wk now rec action reason w = (Inl (Exc ReconciliationError ''attempt limit is exhausted; choose complete or dead_letter''), w)
    else \<exists>db'. worker_resolve wk now rec action reason w = (Inr (), w\<lparr>ws_outbox := db'\<rparr>)
      \<and> row_at (wk_max_attempts wk) (or_id rec) db' (resolution_of now action (py_strip reason) r)"
  using resolve_alone [OF r d act a, of "''worker:'' @ wk_worker_id wk" reason] assms(5-8) strip_operator [OF assms(5)]
  by (auto simp: worker_resolve_def on_outbox_def zoomE_def named_well_def) (intro exI conjI, rule refl, assumption)+

text \<open>How a run may leave the row it claimed.\<close>

definition settled_as :: "'s outbox_worker \<Rightarrow> worker_reading \<Rightarrow> outbox_record \<Rightarrow> exc + unit \<Rightarrow> exc + bool \<Rightarrow> outbox_row \<Rightarrow> bool" where
  "settled_as wk rd rec hres res r \<longleftrightarrow>
     (if \<not> wr_timed_out rd \<and> hres = Inr ()
      then res = Inr True \<and> oi_completed_at r = Some (wr_resolve rd) \<and> oi_reconciliation_required_at r = None
      else if \<not> wr_timed_out rd \<and> (\<exists>e. hres = Inl e \<and> exc_class e = KnownSafeRetryError) \<and> or_attempt_count rec < wk_max_attempts wk
      then res = Inr True \<and> open_row r \<and> oi_lease_owner r = None \<and> oi_next_attempt_at r = wr_resolve rd
      else under_dispatch (wk_worker_id wk) (or_fencing_token rec) r
        \<and> (if \<not> wr_timed_out rd \<and> (\<exists>e. hres = Inl e \<and> exc_class e = KnownSafeRetryError)
           then \<exists>m. res = Inl (Exc ReconciliationError m)
           else if \<not> wr_timed_out rd \<and> (\<exists>e. hres = Inl e \<and> exc_class e = CancelledError) then res = map_sum id (\<lambda>_. True) hres
           else res = Inr True))"

lemma strip_head: "\<not> is_space c \<Longrightarrow> c \<in> set (py_strip (c # t))"
  by (simp add: py_strip_def dropWhile_append)

lemma strip_reason:
  assumes "length s \<le> 2000"
  shows "py_strip (''handler certified known-safe retry: '' @ s) \<noteq> []" and "length (py_strip (''handler certified known-safe retry: '' @ s)) \<le> 2048"
proof -
  have le: "length (py_strip t) \<le> length t" for t
    unfolding py_strip_def by (metis length_dropWhile_le length_rev order_trans)
  from le [of "''handler certified known-safe retry: '' @ s"] assms
  show "length (py_strip (''handler certified known-safe retry: '' @ s)) \<le> 2048" by simp
  have "\<not> is_space (CHR ''h'')" by code_simp
  from strip_head [OF this] have "CHR ''h'' \<in> set (py_strip (''handler certified known-safe retry: '' @ s))" by simp
  then show "py_strip (''handler certified known-safe retry: '' @ s) \<noteq> []" by auto
qed

lemma settle_alone:
  assumes r: "row_at (wk_max_attempts wk) (or_id rec) (ws_outbox w) r" and d: "under_dispatch (wk_worker_id wk) (or_fencing_token rec) r"
    and act: "active_until (wr_resolve rd) r" and n: "oi_attempt_count r = or_attempt_count rec" and "oi_cancelled_at r = None"
    and wk: "named_well wk" and tx: "case hres of Inl e \<Rightarrow> length (exc_text e) \<le> 2000 | Inr _ \<Rightarrow> True" and "1 \<le> wk_max_attempts wk"
    and settle: "settle_dispatch wk rd rec hres w = (res, w')"
  shows "\<exists>r'. row_at (wk_max_attempts wk) (or_id rec) (ws_outbox w') r' \<and> settled_as wk rd rec hres res r'"
proof (cases hres)
  case (Inr u)
  note done' = worker_resolve_alone [OF r d act _ wk _ _ assms(8), of "''complete''" "''handler returned successfully and confirmed delivery outcome''"]
  show ?thesis
  proof (cases "wr_timed_out rd")
    case True
    then show ?thesis using settle Inr r d by (auto simp: settle_dispatch_def retE_def settled_as_def)
  next
    case False
    have "py_strip ''handler returned successfully and confirmed delivery outcome'' = ''handler returned successfully and confirmed delivery outcome''"
      by code_simp
    with done' obtain db' where "worker_resolve wk (wr_resolve rd) rec ''complete'' ''handler returned successfully and confirmed delivery outcome'' w
        = (Inr (), w\<lparr>ws_outbox := db'\<rparr>)"
      and "row_at (wk_max_attempts wk) (or_id rec) db' (resolution_of (wr_resolve rd) ''complete'' ''handler returned successfully and confirmed delivery outcome'' r)"
      by auto
    with settle Inr False show ?thesis
      by (auto simp: settle_dispatch_def settled_as_def prog_defs resolution_of_def Let_def intro!: exI)
  qed
next
  case (Inl e)
  show ?thesis
  proof (cases "exc_class e = KnownSafeRetryError \<and> \<not> wr_timed_out rd")
    case True
    let ?reason = "''handler certified known-safe retry: '' @ exc_text e"
    have "CancelledError \<noteq> KnownSafeRetryError" by (simp add: CancelledError_def)
    with True settle Inl have s: "thenE (worker_resolve wk (wr_resolve rd) rec ''retry'' ?reason) (retE True) w = (res, w')"
      by (simp add: settle_dispatch_def)
    have len: "length (exc_text e) \<le> 2000" using tx Inl by simp
    have retry: "if wk_max_attempts wk \<le> oi_attempt_count r
      then worker_resolve wk (wr_resolve rd) rec ''retry'' ?reason w = (Inl (Exc ReconciliationError ''attempt limit is exhausted; choose complete or dead_letter''), w)
      else \<exists>db'. worker_resolve wk (wr_resolve rd) rec ''retry'' ?reason w = (Inr (), w\<lparr>ws_outbox := db'\<rparr>)
        \<and> row_at (wk_max_attempts wk) (or_id rec) db' (resolution_of (wr_resolve rd) ''retry'' (py_strip ?reason) r)"
      using worker_resolve_alone [OF r d act _ wk strip_reason [OF len] assms(8), of "''retry''"] by simp
    show ?thesis
    proof (cases "wk_max_attempts wk \<le> oi_attempt_count r")
      case lim: True
      then have "res = Inl (Exc ReconciliationError ''attempt limit is exhausted; choose complete or dead_letter'')" "w' = w"
        using retry s by (simp_all add: prog_defs)
      then show ?thesis using r d True Inl lim n by (auto simp: settled_as_def)
    next
      case lim: False
      with retry obtain db' where "worker_resolve wk (wr_resolve rd) rec ''retry'' ?reason w = (Inr (), w\<lparr>ws_outbox := db'\<rparr>)"
        and r': "row_at (wk_max_attempts wk) (or_id rec) db' (resolution_of (wr_resolve rd) ''retry'' (py_strip ?reason) r)" by auto
      then have "res = Inr True" "w' = w\<lparr>ws_outbox := db'\<rparr>" using s by (simp_all add: prog_defs)
      then show ?thesis using r' d True Inl lim n assms(5)
        by (intro exI conjI) (auto simp: settled_as_def under_dispatch_def open_row_def resolution_of_def Let_def)
    qed
  next
    case False
    then show ?thesis using settle Inl r d
      by (auto simp: settle_dispatch_def settled_as_def retE_def reraiseE_def CancelledError_def split: if_splits)
  qed
qed

text \<open>
  C31. What an undisturbed run leaves behind, for every way the handler can end. The row is
  completed exactly when the handler returned in time; it is back in the queue exactly when the
  handler certified in time that nothing happened and attempts are left; in every other case it
  stays quarantined under the worker's lease: after a timeout, whatever the handler did later
  (timeouts are sticky), after an unclassified exception, and after a certified retry on the
  last attempt, where the run raises instead of returning.
\<close>

theorem worker_settles_claimed_row:
  assumes "outbox_reach R (wk_max_attempts wk) (ws_outbox w)" and "named_well wk" and "\<not> wr_shutdown rd"
    and "outbox_claim (wr_claim rd) (wr_locked rd) (wk_worker_id wk) (wk_lease_seconds wk) (wk_max_attempts wk) (ws_outbox w)
       = (Inr (Some rec), db1)"
    and "map_of (wk_handlers wk) (or_destination rec) = Some h" and "wk_effect_gate wk = Some g" and "g rec (ws_app w) = (Inr True, a1)"
    and "h (wr_timed_out rd) rec a1 = (hres, a2)" and "case hres of Inl e \<Rightarrow> length (exc_text e) \<le> 2000 | Inr _ \<Rightarrow> True"
    and "wr_release rd < wr_claim rd + wk_lease_seconds wk"
    and "wr_resolve rd < last (wr_release rd # wr_beats rd) + wk_lease_seconds wk"
    and "worker_run_once wk alone rd w = (res, w')"
  shows "\<exists>r \<in> set (db_rows (ws_outbox w')). oi_id r = or_id rec \<and> settled_as wk rd rec hres res r"
proof -
  have inv: "table_inv (wk_max_attempts wk) (ws_outbox w)" by (rule tab.reach_inv [OF assms(1)])
  have h: "h (wr_timed_out rd \<or> wr_shutdown rd) rec a1 = (hres, a2)" using assms(3,8) by simp
  obtain w2 r where run: "worker_run_once wk alone rd w = (if wr_shutdown rd then raiseE CancelledError [] else settle_dispatch wk rd rec hres) w2"
    and r: "row_at (wk_max_attempts wk) (or_id rec) (ws_outbox w2) r" "under_dispatch (wk_worker_id wk) (or_fencing_token rec) r"
      "oi_lease_until r = Some (last (wr_release rd # wr_beats rd) + wk_lease_seconds wk)" "oi_attempt_count r = or_attempt_count rec"
      "oi_cancelled_at r = None"
    by (rule dispatched_alone [OF inv assms(4-7) h assms(10)])
  have act: "active_until (wr_resolve rd) r" using r(3) assms(11) by (simp add: active_until_def)
  have settle: "settle_dispatch wk rd rec hres w2 = (res, w')" using run assms(3,12) by simp
  have "\<exists>r'. row_at (wk_max_attempts wk) (or_id rec) (ws_outbox w') r' \<and> settled_as wk rd rec hres res r'"
    by (rule settle_alone [OF r(1,2) act r(4,5) assms(2) assms(9) _ settle]) (use assms(4) in \<open>auto simp: outbox_claim_def raiseE_def split: if_splits\<close>)
  then show ?thesis by (auto simp: row_at_def)
qed


subsection \<open>A concrete run\<close>

definition sample_worker :: "unit outbox_worker" where
  "sample_worker = \<lparr>wk_poll_seconds = 1, wk_lease_seconds = 10, wk_handler_timeout_seconds = 5, wk_max_attempts = 3, wk_worker_id = ''w1'',
     wk_handlers = [(''nats-jetstream'', \<lambda>_ _. retE ())], wk_effect_gate = Some (\<lambda>_. retE True)\<rparr>"

definition sample_reading :: worker_reading where
  "sample_reading = \<lparr>wr_locked = [], wr_claim = 1, wr_release = 2, wr_beats = [5], wr_resolve = 6, wr_timed_out = False, wr_shutdown = False\<rparr>"

definition sample_worker_state :: "unit worker_state" where
  "sample_worker_state = \<lparr>ws_outbox = sample_outbox, ws_dispatched = [], ws_app = ()\<rparr>"

lemma alone_honest: "honest_bystanders R limit alone"
  by (simp add: honest_bystanders_def alone_def run_refl)

lemma sample_dispatched:
  obtains res w' rec where "worker_run_once sample_worker alone sample_reading sample_worker_state = (res, w')"
    and "ws_dispatched w' = [(1, 1)]" and "or_id rec = 1"
    and "fst (outbox_claim 1 [] ''w1'' 10 3 sample_outbox) = Inr (Some rec)" and "or_destination rec = ''nats-jetstream''"
proof -
  obtain rec db1 where c: "outbox_claim 1 [] ''w1'' 10 3 sample_outbox = (Inr (Some rec), db1)" "or_id rec = 1" "or_destination rec = ''nats-jetstream''"
      "or_fencing_token rec = 1"
    by (simp add: claim_evals)
  have inv: "table_inv 3 sample_outbox" by (rule tab.reach_inv [OF sample_outbox_reach [of "{}"]])
  obtain w2 r where "worker_run_once sample_worker alone sample_reading sample_worker_state = settle_dispatch sample_worker sample_reading rec (Inr ()) w2"
    and "ws_dispatched w2 = [(1, 1)]"
    by (rule dispatched_alone [of sample_worker sample_worker_state sample_reading rec db1 "\<lambda>_ _. retE ()" "\<lambda>_. retE True" "()" "Inr ()" "()"])
      (use c inv in \<open>simp_all add: sample_worker_def sample_reading_def sample_worker_state_def retE_def\<close>)
  moreover have "ws_dispatched (snd (settle_dispatch sample_worker sample_reading rec (Inr ()) w2)) = ws_dispatched w2"
    by (auto simp: settle_dispatch_def worker_resolve_def on_outbox_def prog_defs split: prod.split sum.split)
  ultimately show ?thesis using c by (cases "settle_dispatch sample_worker sample_reading rec (Inr ()) w2") (auto intro: that)
qed



theorem claims_dispatched_once_witness:
  "\<exists>res w'. worker_run_once sample_worker alone sample_reading sample_worker_state = (res, w')
     \<and> ws_dispatched w' = [(1, 1)] \<and> accounted {} (db_rows (ws_outbox w')) (1, 1)"
proof -
  obtain res w' where r: "worker_run_once sample_worker alone sample_reading sample_worker_state = (res, w')" "ws_dispatched w' = [(1, 1)]"
    by (rule sample_dispatched)
  let ?empty = "\<lparr>db_rows = [], db_audit = no_audit\<rparr> :: outbox_row outbox_db"
  have "dispatch_step {} 3 (?empty, []) (sample_outbox, [])"
    using ds_table [OF os_insert [of "{}" 3 ?empty 1 0 "''T1''" "[]" "''nats-jetstream''" "''codestra.event''" "[]" "''key-0001''"]]
    by (simp add: outbox_insert_def sample_outbox_def sample_row1_def)
  moreover have "run (dispatch_step {} 3) (sample_outbox, []) (ws_outbox w', [(1, 1)])"
    using keepsD [OF worker_refines [OF alone_honest, of sample_worker "{}"] run_refl, of sample_worker_state sample_reading] r
    by (simp add: sample_worker_def sample_worker_state_def)
  ultimately have "reach dispatch_init (dispatch_step {} 3) (ws_outbox w', [(1, 1)])"
    by (intro reach_run [OF reach_step [OF reach_init]]) (auto simp: dispatch_init_def empty_outbox_def)
  from claims_dispatched_once [OF this] r show ?thesis by simp
qed

theorem worker_settles_claimed_row_witness:
  "\<exists>res w' rec. worker_run_once sample_worker alone sample_reading sample_worker_state = (res, w')
     \<and> (\<exists>r \<in> set (db_rows (ws_outbox w')). oi_id r = 1 \<and> settled_as sample_worker sample_reading rec (Inr ()) res r)"
proof -
  obtain res w' rec where r: "worker_run_once sample_worker alone sample_reading sample_worker_state = (res, w')" "or_id rec = 1"
    and c: "fst (outbox_claim 1 [] ''w1'' 10 3 sample_outbox) = Inr (Some rec)" "or_destination rec = ''nats-jetstream''"
    by (rule sample_dispatched)
  have strip: "py_strip ''w1'' = ''w1''" by code_simp
  obtain db1 where c1: "outbox_claim 1 [] ''w1'' 10 3 sample_outbox = (Inr (Some rec), db1)"
    using c(1) by (cases "outbox_claim 1 [] ''w1'' 10 3 sample_outbox") simp
  have "\<exists>r \<in> set (db_rows (ws_outbox w')). oi_id r = or_id rec \<and> settled_as sample_worker sample_reading rec (Inr ()) res r"
    by (rule worker_settles_claimed_row [of "{}" sample_worker sample_worker_state sample_reading rec db1 "\<lambda>_ _. retE ()" "\<lambda>_. retE True" "()" _ "()", OF _ _ _ _ _ _ _ _ _ _ _ r(1)])
      (use c(2) c1 strip in \<open>simp_all add: sample_worker_def sample_reading_def sample_worker_state_def retE_def sample_outbox_reach named_well_def\<close>)
  with r show ?thesis by auto
qed

end
