(* ===== verification/Json_Text.thy ===== *)
theory Json_Text
  imports Json_Value
begin

text \<open>
  Reading canonical texts back: strings and integers inside a text that \<open>json_dumps\<close> printed can
  be recovered, so a text made of them determines its parts. The reader exists for the proofs
  only; the middleware reads JSON with the library.
\<close>

subsection \<open>Strings\<close>

definition BACKSLASH :: char where
  "BACKSLASH = CHR 0x5C"

definition escape_table :: "(char \<times> char) list" where
  "escape_table = [(CHR 0x22, CHR 0x22), (CHR 0x5C, CHR 0x5C), (CHR ''n'', CHR 0x0A), (CHR ''r'', CHR 0x0D), (CHR ''t'', CHR 0x09),
     (CHR ''b'', CHR 0x08), (CHR ''f'', CHR 0x0C)]"

fun read_char :: "string \<Rightarrow> (char \<times> string) option" where
  "read_char [] = None"
| "read_char (c # cs) =
     (if c \<noteq> BACKSLASH then Some (c, cs)
      else (case cs of
         [] \<Rightarrow> None
       | d # ds \<Rightarrow>
           (case map_of escape_table d of
              Some c' \<Rightarrow> Some (c', ds)
            | None \<Rightarrow> map_option (\<lambda>n. (char_of n, drop 4 ds)) (hex_int 0 (take 4 ds)))))"

lemma read_escape: "read_char (escape_char c @ r) = Some (c, r)"
proof (cases "(of_char c :: nat) < 32")
  case True
  have d: "(of_char c :: nat) div 16 < 16" using True by simp
  have "char_of ((of_char c :: nat) div 16 * 16 + of_char c mod 16) = c"
    by (metis char_of_char div_mult_mod_eq)
  then have u: "read_char ([CHR 0x5C, CHR ''u'', CHR ''0'', CHR ''0'', hex_digit ((of_char c :: nat) div 16),
      hex_digit ((of_char c :: nat) mod 16)] @ r) = Some (c, r)"
    using d by (simp add: BACKSLASH_def escape_table_def hex_value_def [of "CHR ''0''"] Let_def mult.commute)
  show ?thesis
    unfolding escape_char_def using True u by (simp add: BACKSLASH_def escape_table_def del: append.simps read_char.simps) (simp add: BACKSLASH_def escape_table_def)
next
  case False
  then show ?thesis by (auto simp: escape_char_def BACKSLASH_def escape_table_def)
qed

lemma escape_no_quote: "hd (escape_char c) \<noteq> CHR 0x22 \<and> escape_char c \<noteq> []"
  by (simp add: escape_char_def)

lemma escape_prefix:
  "concat (map escape_char s) @ CHR 0x22 # r = concat (map escape_char t) @ CHR 0x22 # u \<Longrightarrow> s = t \<and> r = u"
proof (induction s arbitrary: t)
  case Nil
  show ?case
  proof (cases t)
    case (Cons c t')
    have "hd (escape_char c @ concat (map escape_char t') @ CHR 0x22 # u) = CHR 0x22" using Nil Cons by (metis append_Nil append_assoc concat.simps(2) list.sel(1) list.simps(8,9) concat.simps(1))
    then show ?thesis using escape_no_quote [of c] by simp
  qed (use Nil in simp)
next
  case (Cons c s)
  show ?case
  proof (cases t)
    case Nil
    have "hd (escape_char c @ concat (map escape_char s) @ CHR 0x22 # r) = CHR 0x22" using Nil Cons.prems by simp
    then show ?thesis using escape_no_quote [of c] by simp
  next
    case (Cons d t')
    have "read_char (escape_char c @ concat (map escape_char s) @ CHR 0x22 # r) = read_char (escape_char d @ concat (map escape_char t') @ CHR 0x22 # u)"
      using Cons Cons.prems by simp
    then have "c = d \<and> concat (map escape_char s) @ CHR 0x22 # r = concat (map escape_char t') @ CHR 0x22 # u" by (simp add: read_escape)
    with Cons Cons.IH show ?thesis by simp
  qed
qed

lemma dumps_str_prefix: "dumps_str s @ r = dumps_str t @ u \<Longrightarrow> s = t \<and> r = u"
  using escape_prefix [of s r t u] by (simp add: dumps_str_def)

lemma dumps_str_inject [simp]: "dumps_str s = dumps_str t \<longleftrightarrow> s = t"
  using dumps_str_prefix [of s "[]" t "[]"] by auto

subsection \<open>Integers\<close>

definition digit_chars :: "char set" where
  "digit_chars = {c. 48 \<le> (of_char c :: nat) \<and> (of_char c :: nat) \<le> 57}"

definition digits_value :: "string \<Rightarrow> nat" where
  "digits_value s = foldl (\<lambda>a c. 10 * a + (of_char c - 48)) 0 s"

lemma nat_str_digits: "set (nat_str n) \<subseteq> digit_chars"
proof (induction n rule: nat_str.induct)
  case (1 n)
  then show ?case by (subst nat_str.simps) (auto simp: digit_chars_def)
qed

lemma digits_value_nat_str: "digits_value (nat_str n) = n"
proof (induction n rule: nat_str.induct)
  case (1 n)
  then show ?case by (subst nat_str.simps) (simp add: digits_value_def)
qed

lemma nat_str_inject [simp]: "nat_str m = nat_str n \<longleftrightarrow> m = n"
  by (metis digits_value_nat_str)

lemma nat_str_Cons: "\<exists>c s. nat_str n = c # s \<and> c \<in> digit_chars"
proof -
  have "nat_str n \<noteq> []" by (subst nat_str.simps) simp
  then show ?thesis using nat_str_digits [of n] by (cases "nat_str n") auto
qed

lemma int_str_inject [simp]: "int_str i = int_str j \<longleftrightarrow> i = j"
proof -
  have "CHR ''-'' # s \<noteq> nat_str n" for s n using nat_str_Cons [of n] by (auto simp: digit_chars_def)
  then show ?thesis by (auto simp: int_str_def) (metis)+
qed

lemma int_str_no_comma: "CHR '','' \<notin> set (int_str i)"
  using nat_str_digits [of "nat i"] nat_str_digits [of "nat (- i)"] by (auto simp: int_str_def digit_chars_def)

lemma comma_prefix:
  assumes "a @ CHR '','' # r = b @ CHR '','' # u" and "CHR '','' \<notin> set a" and "CHR '','' \<notin> set b"
  shows "a = b \<and> r = u"
  using assms
proof (induction a arbitrary: b)
  case Nil
  then show ?case by (cases b) auto
next
  case (Cons x a)
  then show ?case by (cases b) auto
qed

end
