(* ===== verification/Event_Ledger.thy ===== *)
theory Event_Ledger
  imports Command_Model Json_Text "HOL-Library.Product_Lexorder"
begin

text \<open>
  The hash-chained event ledger (\<open>app/storage.py\<close> and the envelope of \<open>app/models.py\<close>): digests,
  records and the verifier. The verifier walks all records in one loop with three dictionaries;
  the specification is one chain per tenant, and the two agree. The chain determines the
  ledger: its last hash fixes every record before it, as long as the hash function does not
  collide on the texts that were hashed.

  A timestamp of an envelope is kept as the text it is printed as.
\<close>

subsection \<open>Events and records\<close>

record event_envelope =
  ee_event_id :: string
  ee_event_type :: string
  ee_event_version :: string
  ee_occurred_at :: string
  ee_received_at :: string
  ee_source :: string
  ee_tenant_id :: string
  ee_customer_id :: "string option"
  ee_correlation_id :: string
  ee_causation_id :: string
  ee_idempotency_key :: string
  ee_payload :: json_object
  ee_metadata :: json_object

text \<open>\<open>envelope.model_dump(mode="json")\<close>.\<close>

definition event_json :: "event_envelope \<Rightarrow> json_object" where
  "event_json e = [(''event_id'', JStr (ee_event_id e)), (''event_type'', JStr (ee_event_type e)),
     (''event_version'', JStr (ee_event_version e)), (''occurred_at'', JStr (ee_occurred_at e)),
     (''received_at'', JStr (ee_received_at e)), (''source'', JStr (ee_source e)), (''tenant_id'', JStr (ee_tenant_id e)),
     (''customer_id'', opt_str (ee_customer_id e)), (''correlation_id'', JStr (ee_correlation_id e)),
     (''causation_id'', JStr (ee_causation_id e)), (''idempotency_key'', JStr (ee_idempotency_key e)),
     (''payload'', JObj (ee_payload e)), (''metadata'', JObj (ee_metadata e))]"

definition ZERO_LEDGER_HASH :: string where
  "ZERO_LEDGER_HASH = replicate 64 CHR ''0''"

definition canonical_payload_sha256 :: "host \<Rightarrow> json_object \<Rightarrow> string" where
  "canonical_payload_sha256 h payload = sha256 h (json_dumps (JObj payload))"

definition entry_text :: "string \<Rightarrow> int \<Rightarrow> string \<Rightarrow> string \<Rightarrow> string \<Rightarrow> string" where
  "entry_text tenant sequence eid semantic previous = json_dumps (JList [JStr ''codestra-event-ledger-v1'', JStr tenant,
     JInt sequence, JStr eid, JStr semantic, JStr previous])"

definition event_ledger_hash :: "host \<Rightarrow> string \<Rightarrow> int \<Rightarrow> string \<Rightarrow> string \<Rightarrow> string \<Rightarrow> string" where
  "event_ledger_hash h tenant sequence eid semantic previous = sha256 h (entry_text tenant sequence eid semantic previous)"

record event_ledger_record =
  el_tenant_id :: string
  el_tenant_sequence :: int
  el_event_id :: string
  el_semantic_sha256 :: string
  el_previous_entry_hash :: string
  el_entry_hash :: string
  el_payload :: json_object

subsection \<open>Verification\<close>

record verify_state =
  vs_expected_sequence :: "(string, int) dict"
  vs_previous_hash :: "(string, string) dict"
  vs_counts :: "(string, int) dict"

definition dict_get :: "('k, 'v) dict \<Rightarrow> 'k \<Rightarrow> 'v \<Rightarrow> 'v" where
  "dict_get d k v = (case map_of d k of None \<Rightarrow> v | Some x \<Rightarrow> x)"

definition record_fault :: "host \<Rightarrow> verify_state \<Rightarrow> 'm event_ledger_record_scheme \<Rightarrow> string option" where
  "record_fault h vs r =
     (if el_tenant_sequence r \<noteq> dict_get (vs_expected_sequence vs) (el_tenant_id r) 1
      then Some (''event ledger sequence gap for tenant '' @ el_tenant_id r)
      else if el_previous_entry_hash r \<noteq> dict_get (vs_previous_hash vs) (el_tenant_id r) ZERO_LEDGER_HASH
      then Some (''event ledger previous hash mismatch for tenant '' @ el_tenant_id r)
      else if canonical_payload_sha256 h (el_payload r) \<noteq> el_semantic_sha256 r
      then Some (''event ledger payload hash mismatch for tenant '' @ el_tenant_id r)
      else if el_entry_hash r \<noteq> event_ledger_hash h (el_tenant_id r) (el_tenant_sequence r) (el_event_id r)
          (el_semantic_sha256 r) (el_previous_entry_hash r)
      then Some (''event ledger entry hash mismatch for tenant '' @ el_tenant_id r)
      else None)"

definition note_record :: "verify_state \<Rightarrow> 'm event_ledger_record_scheme \<Rightarrow> verify_state" where
  "note_record vs r = vs
     \<lparr>vs_expected_sequence := AList.update (el_tenant_id r) (dict_get (vs_expected_sequence vs) (el_tenant_id r) 1 + 1) (vs_expected_sequence vs),
      vs_previous_hash := AList.update (el_tenant_id r) (el_entry_hash r) (vs_previous_hash vs),
      vs_counts := AList.update (el_tenant_id r) (dict_get (vs_counts vs) (el_tenant_id r) 0 + 1) (vs_counts vs)\<rparr>"

fun verify_records :: "host \<Rightarrow> verify_state \<Rightarrow> 'm event_ledger_record_scheme list \<Rightarrow> exc + (string, int) dict" where
  "verify_records h vs [] = Inr (vs_counts vs)"
| "verify_records h vs (r # rs) =
     (case record_fault h vs r of
        Some m \<Rightarrow> Inl (Exc EventLedgerIntegrityError m)
      | None \<Rightarrow> verify_records h (note_record vs r) rs)"

definition verify_event_ledger_records :: "host \<Rightarrow> 'm event_ledger_record_scheme list \<Rightarrow> exc + (string, int) dict" where
  "verify_event_ledger_records h records =
     verify_records h \<lparr>vs_expected_sequence = [], vs_previous_hash = [], vs_counts = []\<rparr>
       (sort_key (\<lambda>r. (el_tenant_id r, el_tenant_sequence r)) records)"

subsection \<open>The specification: one chain per tenant\<close>

fun chain_from :: "host \<Rightarrow> int \<Rightarrow> string \<Rightarrow> 'm event_ledger_record_scheme list \<Rightarrow> bool" where
  "chain_from h n previous [] \<longleftrightarrow> True"
| "chain_from h n previous (r # rs) \<longleftrightarrow>
     el_tenant_sequence r = n \<and> el_previous_entry_hash r = previous
   \<and> el_semantic_sha256 r = canonical_payload_sha256 h (el_payload r)
   \<and> el_entry_hash r = event_ledger_hash h (el_tenant_id r) n (el_event_id r) (el_semantic_sha256 r) previous
   \<and> chain_from h (n + 1) (el_entry_hash r) rs"

abbreviation of_tenant :: "string \<Rightarrow> 'm event_ledger_record_scheme list \<Rightarrow> 'm event_ledger_record_scheme list" where
  "of_tenant t \<equiv> filter (\<lambda>r. el_tenant_id r = t)"

definition ledger_chained :: "host \<Rightarrow> 'm event_ledger_record_scheme list \<Rightarrow> bool" where
  "ledger_chained h rs \<longleftrightarrow> (\<forall>t. chain_from h 1 ZERO_LEDGER_HASH (sort_key el_tenant_sequence (of_tenant t rs)))"

lemma dict_get_update [simp]: "dict_get (AList.update k v d) k' x = (if k = k' then v else dict_get d k' x)"
  by (simp add: dict_get_def update_conv')

lemma verify_records_iff:
  "(\<exists>c. verify_records h vs rs = Inr c) \<longleftrightarrow>
     (\<forall>t. chain_from h (dict_get (vs_expected_sequence vs) t 1) (dict_get (vs_previous_hash vs) t ZERO_LEDGER_HASH) (of_tenant t rs))"
proof (induction rs arbitrary: vs)
  case (Cons r rs)
  show ?case
  proof (cases "record_fault h vs r")
    case None
    have "chain_from h (dict_get (vs_expected_sequence vs) t 1) (dict_get (vs_previous_hash vs) t ZERO_LEDGER_HASH) (of_tenant t (r # rs))
       \<longleftrightarrow> chain_from h (dict_get (vs_expected_sequence (note_record vs r)) t 1)
             (dict_get (vs_previous_hash (note_record vs r)) t ZERO_LEDGER_HASH) (of_tenant t rs)" for t
      using None by (auto simp: record_fault_def note_record_def split: if_splits)
    then show ?thesis using None Cons.IH [of "note_record vs r"] by simp
  next
    case (Some m)
    then have "\<not> chain_from h (dict_get (vs_expected_sequence vs) (el_tenant_id r) 1)
        (dict_get (vs_previous_hash vs) (el_tenant_id r) ZERO_LEDGER_HASH) (of_tenant (el_tenant_id r) (r # rs))"
      by (auto simp: record_fault_def split: if_splits)
    with Some show ?thesis by auto
  qed
qed simp

lemma verify_counts:
  "verify_records h vs rs = Inr c \<Longrightarrow> dict_get c t 0 = dict_get (vs_counts vs) t 0 + int (length (of_tenant t rs))"
proof (induction rs arbitrary: vs)
  case (Cons r rs)
  from Cons.prems have "verify_records h (note_record vs r) rs = Inr c" by (simp split: option.splits)
  from Cons.IH [OF this] show ?case by (simp add: note_record_def)
qed simp

lemma insort_key_order:
  "(\<And>y. y \<in> set ys \<Longrightarrow> f x \<le> f y \<longleftrightarrow> g x \<le> g y) \<Longrightarrow> insort_key f x ys = insort_key g x ys"
  for f :: "'a \<Rightarrow> 'b :: linorder" and g :: "'a \<Rightarrow> 'c :: linorder"
  by (induction ys) auto

lemma sort_key_order:
  "(\<And>x y. x \<in> set xs \<Longrightarrow> y \<in> set xs \<Longrightarrow> f x \<le> f y \<longleftrightarrow> g x \<le> g y) \<Longrightarrow> sort_key f xs = sort_key g xs"
  for f :: "'a \<Rightarrow> 'b :: linorder" and g :: "'a \<Rightarrow> 'c :: linorder"
proof (induction xs)
  case (Cons x xs)
  then have "sort_key f xs = sort_key g xs" by simp
  moreover have "insort_key f x (sort_key g xs) = insort_key g x (sort_key g xs)" by (rule insort_key_order) (use Cons.prems in simp)
  ultimately show ?case by simp
qed simp

lemma tenant_order: "of_tenant t (sort_key (\<lambda>r. (el_tenant_id r, el_tenant_sequence r)) rs) = sort_key el_tenant_sequence (of_tenant t rs)"
  unfolding filter_sort by (rule sort_key_order) auto

text \<open>The verifier decides the specification, and counts the records of each tenant.\<close>

lemma verify_iff_chained: "(\<exists>c. verify_event_ledger_records h rs = Inr c) \<longleftrightarrow> ledger_chained h rs"
  unfolding verify_event_ledger_records_def verify_records_iff ledger_chained_def
  by (simp add: tenant_order dict_get_def)

lemma verify_counts_tenant:
  assumes "verify_event_ledger_records h rs = Inr c"
  shows "dict_get c t 0 = int (length (of_tenant t rs))"
proof -
  have "length (of_tenant t (sort_key (\<lambda>r. (el_tenant_id r, el_tenant_sequence r)) rs)) = length (of_tenant t rs)"
    by (simp add: tenant_order)
  then show ?thesis
    using verify_counts [OF assms [unfolded verify_event_ledger_records_def], of t] by (simp add: dict_get_def)
qed


subsection \<open>The last hash fixes the ledger\<close>

lemma entry_text_inject:
  "entry_text t n e s p = entry_text t' n' e' s' p' \<longleftrightarrow> t = t' \<and> n = n' \<and> e = e' \<and> s = s' \<and> p = p'"
proof
  assume "entry_text t n e s p = entry_text t' n' e' s' p'"
  then have 1: "dumps_str t @ CHR '','' # int_str n @ CHR '','' # dumps_str e @ CHR '','' # dumps_str s @ CHR '','' # dumps_str p @ [CHR '']'']
    = dumps_str t' @ CHR '','' # int_str n' @ CHR '','' # dumps_str e' @ CHR '','' # dumps_str s' @ CHR '','' # dumps_str p' @ [CHR '']'']"
    by (simp add: entry_text_def)
  note 2 = dumps_str_prefix [OF 1]
  then have "int_str n @ CHR '','' # dumps_str e @ CHR '','' # dumps_str s @ CHR '','' # dumps_str p @ [CHR '']'']
    = int_str n' @ CHR '','' # dumps_str e' @ CHR '','' # dumps_str s' @ CHR '','' # dumps_str p' @ [CHR '']'']" by simp
  note 3 = comma_prefix [OF this int_str_no_comma int_str_no_comma]
  then have 4: "dumps_str e @ CHR '','' # dumps_str s @ CHR '','' # dumps_str p @ [CHR '']'']
    = dumps_str e' @ CHR '','' # dumps_str s' @ CHR '','' # dumps_str p' @ [CHR '']'']" by simp
  note 5 = dumps_str_prefix [OF 4]
  then have 6: "dumps_str s @ CHR '','' # dumps_str p @ [CHR '']''] = dumps_str s' @ CHR '','' # dumps_str p' @ [CHR '']'']" by simp
  from dumps_str_prefix [OF 6] 2 3 5 show "t = t' \<and> n = n' \<and> e = e' \<and> s = s' \<and> p = p'" by simp
qed simp

definition seal :: "'m event_ledger_record_scheme \<Rightarrow> int \<times> string \<times> string \<times> string \<times> string" where
  "seal r = (el_tenant_sequence r, el_event_id r, json_dumps (JObj (el_payload r)), el_previous_entry_hash r, el_entry_hash r)"

definition hashed_texts :: "'m event_ledger_record_scheme list \<Rightarrow> string set" where
  "hashed_texts rs = (\<lambda>r. json_dumps (JObj (el_payload r))) ` set rs
     \<union> (\<lambda>r. entry_text (el_tenant_id r) (el_tenant_sequence r) (el_event_id r) (el_semantic_sha256 r) (el_previous_entry_hash r)) ` set rs"

abbreviation tenant_chain :: "string \<Rightarrow> 'm event_ledger_record_scheme list \<Rightarrow> 'm event_ledger_record_scheme list" where
  "tenant_chain t rs \<equiv> sort_key el_tenant_sequence (of_tenant t rs)"

definition chain_head :: "string \<Rightarrow> 'm event_ledger_record_scheme list \<Rightarrow> string" where
  "chain_head z rs = (if rs = [] then z else el_entry_hash (last rs))"

lemma chain_from_snoc:
  "chain_from h n z (rs @ [r]) \<longleftrightarrow> chain_from h n z rs \<and> el_tenant_sequence r = n + int (length rs) \<and> el_previous_entry_hash r = chain_head z rs
     \<and> el_semantic_sha256 r = canonical_payload_sha256 h (el_payload r)
     \<and> el_entry_hash r = event_ledger_hash h (el_tenant_id r) (el_tenant_sequence r) (el_event_id r) (el_semantic_sha256 r) (el_previous_entry_hash r)"
proof (induction rs arbitrary: n z)
  case (Cons x rs)
  have "chain_head (el_entry_hash x) rs = chain_head z (x # rs)" by (simp add: chain_head_def)
  with Cons show ?case by auto
qed (auto simp: chain_head_def)

lemma chain_agree:
  assumes "chain_from h n z xs" and "chain_from h n z ys" and "inj_on (sha256 h) (hashed_texts xs \<union> hashed_texts ys)"
    and "xs \<noteq> []" and "ys \<noteq> []" and "chain_head z xs = chain_head z ys"
  shows "map seal xs = map seal ys"
  using assms
proof (induction xs arbitrary: ys rule: rev_induct)
  case (snoc x xs)
  obtain y ys' where ys: "ys = ys' @ [y]" using snoc.prems(5) by (cases ys rule: rev_cases) auto
  have x: "chain_from h n z xs" "el_tenant_sequence x = n + int (length xs)" "el_previous_entry_hash x = chain_head z xs"
      "el_semantic_sha256 x = canonical_payload_sha256 h (el_payload x)"
      "el_entry_hash x = event_ledger_hash h (el_tenant_id x) (el_tenant_sequence x) (el_event_id x) (el_semantic_sha256 x) (el_previous_entry_hash x)"
    using snoc.prems(1) by (simp_all add: chain_from_snoc)
  have y: "chain_from h n z ys'" "el_tenant_sequence y = n + int (length ys')" "el_previous_entry_hash y = chain_head z ys'"
      "el_semantic_sha256 y = canonical_payload_sha256 h (el_payload y)"
      "el_entry_hash y = event_ledger_hash h (el_tenant_id y) (el_tenant_sequence y) (el_event_id y) (el_semantic_sha256 y) (el_previous_entry_hash y)"
    using snoc.prems(2) ys by (simp_all add: chain_from_snoc)
  note inj = snoc.prems(3) [unfolded ys]
  have heads: "el_entry_hash x = el_entry_hash y" using snoc.prems(6) ys by (simp add: chain_head_def)
  let ?tx = "entry_text (el_tenant_id x) (el_tenant_sequence x) (el_event_id x) (el_semantic_sha256 x) (el_previous_entry_hash x)"
  let ?ty = "entry_text (el_tenant_id y) (el_tenant_sequence y) (el_event_id y) (el_semantic_sha256 y) (el_previous_entry_hash y)"
  have texts: "?tx \<in> hashed_texts (xs @ [x])" "?ty \<in> hashed_texts (ys' @ [y])" "json_dumps (JObj (el_payload x)) \<in> hashed_texts (xs @ [x])"
      "json_dumps (JObj (el_payload y)) \<in> hashed_texts (ys' @ [y])" by (auto simp: hashed_texts_def)
  have "sha256 h ?tx = sha256 h ?ty" using heads x(5) y(5) unfolding event_ledger_hash_def by metis
  then have "?tx = ?ty" by (rule inj_onD [OF inj]) (use texts in blast)+
  then have same: "el_tenant_sequence x = el_tenant_sequence y" "el_event_id x = el_event_id y" "el_semantic_sha256 x = el_semantic_sha256 y"
      "el_previous_entry_hash x = el_previous_entry_hash y" by (simp_all add: entry_text_inject)
  have "sha256 h (json_dumps (JObj (el_payload x))) = sha256 h (json_dumps (JObj (el_payload y)))"
    using x(4) y(4) same(3) unfolding canonical_payload_sha256_def by metis
  then have "json_dumps (JObj (el_payload x)) = json_dumps (JObj (el_payload y))" by (rule inj_onD [OF inj]) (use texts in blast)+
  then have seals: "seal x = seal y" using same heads by (simp add: seal_def)
  have len: "length xs = length ys'" using same(1) x(2) y(2) by simp
  show ?case
  proof (cases "xs = []")
    case False
    have "inj_on (sha256 h) (hashed_texts xs \<union> hashed_texts ys')" using inj by (rule inj_on_subset) (auto simp: hashed_texts_def)
    moreover have "chain_head z xs = chain_head z ys'" using same(4) x(3) y(3) by simp
    moreover have "ys' \<noteq> []" using False len by auto
    ultimately have "map seal xs = map seal ys'" using snoc.IH [OF x(1) y(1)] False by blast
    then show ?thesis using ys seals by simp
  qed (use ys seals len in simp)
qed simp

text \<open>
  C14. The ledger is tamper evident. When two ledgers verify and a tenant's chains end in the
  same hash, the two chains agree record by record (sequence, event, canonical payload and
  hashes), so whoever has kept the last hash notices every change, insertion, removal or
  exchange before it. The hypothesis is that SHA-256 does not collide on the texts that were
  hashed for the two ledgers.
\<close>

theorem event_ledger_tamper_evident:
  assumes "verify_event_ledger_records h rs = Inr c" and "verify_event_ledger_records h rs' = Inr c'"
    and "inj_on (sha256 h) (hashed_texts rs \<union> hashed_texts rs')"
    and "tenant_chain t rs \<noteq> []" and "tenant_chain t rs' \<noteq> []"
    and "el_entry_hash (last (tenant_chain t rs)) = el_entry_hash (last (tenant_chain t rs'))"
  shows "map seal (tenant_chain t rs) = map seal (tenant_chain t rs')"
proof (rule chain_agree)
  show "chain_from h 1 ZERO_LEDGER_HASH (tenant_chain t rs)" "chain_from h 1 ZERO_LEDGER_HASH (tenant_chain t rs')"
    using assms(1,2) verify_iff_chained [of h] by (auto simp: ledger_chained_def)
  show "inj_on (sha256 h) (hashed_texts (tenant_chain t rs) \<union> hashed_texts (tenant_chain t rs'))"
    using assms(3) by (rule inj_on_subset) (auto simp: hashed_texts_def)
qed (use assms in \<open>simp_all add: chain_head_def\<close>)

definition sample_entry :: "json_object \<Rightarrow> event_ledger_record" where
  "sample_entry p = (let s = canonical_payload_sha256 sample_host p in
     \<lparr>el_tenant_id = ''T1'', el_tenant_sequence = 1, el_event_id = ''e1'', el_semantic_sha256 = s, el_previous_entry_hash = ZERO_LEDGER_HASH,
      el_entry_hash = event_ledger_hash sample_host ''T1'' 1 ''e1'' s ZERO_LEDGER_HASH, el_payload = p\<rparr>)"

theorem event_ledger_tamper_evident_witness:
  "map seal (tenant_chain ''T1'' [sample_entry [(''a'', JInt 1), (''b'', JNull)]])
     = map seal (tenant_chain ''T1'' [sample_entry [(''b'', JNull), (''a'', JInt 1)]])"
proof (rule event_ledger_tamper_evident)
  have "\<exists>c. verify_event_ledger_records sample_host [sample_entry p] = Inr c" for p
    unfolding verify_iff_chained by (simp add: ledger_chained_def sample_entry_def Let_def)
  then show "verify_event_ledger_records sample_host [sample_entry [(''a'', JInt 1), (''b'', JNull)]]
      = Inr (projr (verify_event_ledger_records sample_host [sample_entry [(''a'', JInt 1), (''b'', JNull)]]))"
    and "verify_event_ledger_records sample_host [sample_entry [(''b'', JNull), (''a'', JInt 1)]]
      = Inr (projr (verify_event_ledger_records sample_host [sample_entry [(''b'', JNull), (''a'', JInt 1)]]))"
    by (metis sum.sel(2))+
  have "json_dumps (JObj [(''a'', JInt 1), (''b'', JNull)]) = json_dumps (JObj [(''b'', JNull), (''a'', JInt 1)])" by code_simp
  then show "el_entry_hash (last (tenant_chain ''T1'' [sample_entry [(''a'', JInt 1), (''b'', JNull)]]))
      = el_entry_hash (last (tenant_chain ''T1'' [sample_entry [(''b'', JNull), (''a'', JInt 1)]]))"
    by (simp add: sample_entry_def Let_def canonical_payload_sha256_def)
qed (simp_all add: sample_host_def inj_on_def sample_entry_def Let_def)

end
