(* ===== verification/Event_Inbox.thy ===== *)
theory Event_Inbox
  imports Event_Ledger Outbox_Guarantees
begin

text \<open>
  The event inbox (\<open>app/storage.py\<close>): the in-memory store and the PostgreSQL store, each with its
  identities, its hash-chained ledger and, in the database, the outbox row that publishes the
  event. Storing a payload in a \<open>jsonb\<close> column and reading it back is the parameter \<open>jsonb\<close>; two
  documents read from such columns are compared by their canonical texts. A transaction runs
  alone (the advisory locks and unique indexes of the schema serialise the conflicting ones);
  the clock readings and the next value of the outbox sequence are arguments.
\<close>

record ingress_result =
  ir_event_id :: string
  ir_tenant_id :: string
  ir_status :: string
  ir_duplicate :: bool
  ir_correlation_id :: string

text \<open>The arguments of \<open>accept\<close>.\<close>

record submission =
  su_envelope :: event_envelope
  su_producer_client_id :: string
  su_body_sha256 :: string
  su_semantic_sha256 :: string
  su_deduplication_sha256 :: "string option"
  su_destination :: string

definition comparison_sha256 :: "submission \<Rightarrow> string" where
  "comparison_sha256 s = (case su_deduplication_sha256 s of
     None \<Rightarrow> su_semantic_sha256 s | Some d \<Rightarrow> if d = [] then su_semantic_sha256 s else d)"

definition accepted_result :: "event_envelope \<Rightarrow> ingress_result" where
  "accepted_result e = \<lparr>ir_event_id = ee_event_id e, ir_tenant_id = ee_tenant_id e, ir_status = ''accepted'', ir_duplicate = False,
     ir_correlation_id = ee_correlation_id e\<rparr>"

subsection \<open>The in-memory store\<close>

type_synonym identity_items = "(string \<times> string, string \<times> ingress_result) dict"

record memory_inbox =
  mi_event_items :: identity_items
  mi_idempotency_items :: identity_items
  mi_ledger_records :: "event_ledger_record list"
  mi_ledger_heads :: "(string, string) dict"
  mi_ledger_counts :: "(string, int) dict"

definition empty_memory_inbox :: memory_inbox where
  "empty_memory_inbox = \<lparr>mi_event_items = [], mi_idempotency_items = [], mi_ledger_records = [], mi_ledger_heads = [], mi_ledger_counts = []\<rparr>"

definition memory_event_key :: "submission \<Rightarrow> string \<times> string" where
  "memory_event_key s = (case su_deduplication_sha256 s of
     None \<Rightarrow> (ee_tenant_id (su_envelope s), ee_event_id (su_envelope s))
   | Some _ \<Rightarrow> (su_producer_client_id s, ee_event_id (su_envelope s)))"

definition chain_record :: "host \<Rightarrow> event_envelope \<Rightarrow> string \<Rightarrow> int \<Rightarrow> string \<Rightarrow> json_object \<Rightarrow> event_ledger_record" where
  "chain_record h e semantic n previous payload = \<lparr>el_tenant_id = ee_tenant_id e, el_tenant_sequence = n, el_event_id = ee_event_id e,
     el_semantic_sha256 = semantic, el_previous_entry_hash = previous,
     el_entry_hash = event_ledger_hash h (ee_tenant_id e) n (ee_event_id e) semantic previous, el_payload = payload\<rparr>"

definition memory_file :: "host \<Rightarrow> submission \<Rightarrow> (memory_inbox, ingress_result) prog" where
  "memory_file h s st =
     (let e = su_envelope s; t = ee_tenant_id e; item = (comparison_sha256 s, accepted_result e);
          n = dict_get (mi_ledger_counts st) t 0 + 1; previous = dict_get (mi_ledger_heads st) t ZERO_LEDGER_HASH;
          r = chain_record h e (su_semantic_sha256 s) n previous (event_json e)
      in (Inr (accepted_result e), st
       \<lparr>mi_event_items := AList.update (memory_event_key s) item (mi_event_items st),
        mi_idempotency_items := AList.update (t, ee_idempotency_key e) item (mi_idempotency_items st),
        mi_ledger_records := mi_ledger_records st @ [r],
        mi_ledger_heads := AList.update t (el_entry_hash r) (mi_ledger_heads st),
        mi_ledger_counts := AList.update t n (mi_ledger_counts st)\<rparr>))"

definition memory_accept :: "host \<Rightarrow> submission \<Rightarrow> (memory_inbox, ingress_result) prog" where
  "memory_accept h s st =
     (let e = su_envelope s; event_existing = map_of (mi_event_items st) (memory_event_key s);
          idem_existing = map_of (mi_idempotency_items st) (ee_tenant_id e, ee_idempotency_key e)
      in if canonical_payload_sha256 h (event_json e) \<noteq> su_semantic_sha256 s
         then (Inl (Exc EventLedgerIntegrityError ''semantic hash does not match the canonical event payload''), st)
         else if (case (event_existing, idem_existing) of
                    (Some a, Some b) \<Rightarrow> ir_event_id (snd a) \<noteq> ir_event_id (snd b) | _ \<Rightarrow> False)
         then (Inl (Exc ReplayConflict ''event and idempotency identities refer to different accepted events''), st)
         else (case (if event_existing \<noteq> None then event_existing else idem_existing) of
             Some (old, result) \<Rightarrow>
               if old \<noteq> comparison_sha256 s
               then (Inl (Exc ReplayConflict ''event/idempotency identity was reused with a different semantic payload''), st)
               else (Inr (result\<lparr>ir_status := ''duplicate'', ir_duplicate := True\<rparr>), st)
           | None \<Rightarrow> memory_file h s st))"

subsection \<open>The PostgreSQL store\<close>

record inbox_row =
  ib_event_id :: string
  ib_tenant_id :: string
  ib_source_client_id :: string
  ib_event_type :: string
  ib_body_sha256 :: string
  ib_semantic_sha256 :: string
  ib_idempotency_key :: string
  ib_correlation_id :: string
  ib_payload :: json_object
  ib_received_at :: int

record ledger_row = event_ledger_record +
  lr_event_type :: string
  lr_event_version :: string
  lr_source_client_id :: string
  lr_correlation_id :: string
  lr_causation_id :: string
  lr_idempotency_key :: string

record inbox_db =
  id_inbox :: "inbox_row list"
  id_ledger :: "ledger_row list"
  id_outbox :: "outbox_row outbox_db"

record accept_reading =
  ar_received_at :: int
  ar_now :: rat
  ar_row_id :: nat

definition on_id_outbox :: "(outbox_row outbox_db, 'a) prog \<Rightarrow> (inbox_db, 'a) prog" where
  "on_id_outbox m = zoomE id_outbox (\<lambda>o' db. db\<lparr>id_outbox := o'\<rparr>) m"

definition duplicate_of :: "inbox_row \<Rightarrow> ingress_result" where
  "duplicate_of r = \<lparr>ir_event_id = ib_event_id r, ir_tenant_id = ib_tenant_id r, ir_status = ''duplicate'', ir_duplicate = True,
     ir_correlation_id = ib_correlation_id r\<rparr>"

text \<open>A replay of a wire event: the projection is rebuilt from the accepted inbox row, or has to match it.\<close>

definition accept_replayed :: "jsonb \<Rightarrow> accept_reading \<Rightarrow> submission \<Rightarrow> (inbox_db, ingress_result option) prog" where
  "accept_replayed jsonb rd s =
     (if su_deduplication_sha256 s = None then retE None
      else bindE (getsE (\<lambda>db. sql_first ib_received_at (\<lambda>r. ib_source_client_id r = su_producer_client_id s
               \<and> ib_event_id r = ee_event_id (su_envelope s)) (id_inbox db))) (\<lambda>found.
        case found of
          None \<Rightarrow> retE None
        | Some r \<Rightarrow>
            if ib_body_sha256 r \<noteq> comparison_sha256 s
            then raiseE ReplayConflict ''source event identity was reused with a different raw payload''
            else bindE (getsE (\<lambda>db. find (\<lambda>x. oi_tenant_id x = ib_tenant_id r \<and> oi_destination x = su_destination s
                     \<and> oi_idempotency_key x = ib_idempotency_key r) (db_rows (id_outbox db)))) (\<lambda>projection.
              case projection of
                None \<Rightarrow> thenE (on_id_outbox (outbox_insert (new_row (ar_row_id rd) (ar_now rd) (ib_tenant_id r) [] (su_destination s)
                            (ib_event_type r) (jsonb (ib_payload r)) (ib_idempotency_key r))))
                          (retE (Some (duplicate_of r)))
              | Some x \<Rightarrow>
                  if oi_event_type x \<noteq> ib_event_type r \<or> json_dumps (JObj (oi_payload x)) \<noteq> json_dumps (JObj (ib_payload r))
                  then raiseE EventLedgerIntegrityError ''durable projection does not match its accepted inbox event''
                  else retE (Some (duplicate_of r)))))"

text \<open>\<open>INSERT INTO middleware_inbox ... ON CONFLICT DO NOTHING\<close>: whether a row was inserted.\<close>

definition inbox_insert :: "inbox_row \<Rightarrow> (inbox_db, bool) prog" where
  "inbox_insert r db =
     (if list_ex (\<lambda>x. ib_tenant_id x = ib_tenant_id r \<and> (ib_event_id x = ib_event_id r \<or> ib_idempotency_key x = ib_idempotency_key r)) (id_inbox db)
      then (Inr False, db) else (Inr True, db\<lparr>id_inbox := id_inbox db @ [r]\<rparr>))"

definition ledger_insert :: "ledger_row \<Rightarrow> (inbox_db, unit) prog" where
  "ledger_insert r db =
     (if list_ex (\<lambda>x. el_tenant_id x = el_tenant_id r \<and> (el_tenant_sequence x = el_tenant_sequence r \<or> el_event_id x = el_event_id r
            \<or> lr_idempotency_key x = lr_idempotency_key r)) (id_ledger db)
      then (Inl (Exc (OtherException ''UniqueViolationError'') ''duplicate key value violates unique constraint''), db)
      else (Inr (), db\<lparr>id_ledger := id_ledger db @ [r]\<rparr>))"

definition inbox_row_of :: "jsonb \<Rightarrow> accept_reading \<Rightarrow> submission \<Rightarrow> inbox_row" where
  "inbox_row_of jsonb rd s = (let e = su_envelope s in
     \<lparr>ib_event_id = ee_event_id e, ib_tenant_id = ee_tenant_id e, ib_source_client_id = su_producer_client_id s, ib_event_type = ee_event_type e,
      ib_body_sha256 = su_body_sha256 s, ib_semantic_sha256 = su_semantic_sha256 s, ib_idempotency_key = ee_idempotency_key e,
      ib_correlation_id = ee_correlation_id e, ib_payload = jsonb (event_json e), ib_received_at = ar_received_at rd\<rparr>)"

definition ledger_row_of :: "host \<Rightarrow> jsonb \<Rightarrow> submission \<Rightarrow> ledger_row option \<Rightarrow> ledger_row" where
  "ledger_row_of h jsonb s previous = (let e = su_envelope s in
     event_ledger_record.extend
       (chain_record h e (su_semantic_sha256 s) (case previous of None \<Rightarrow> 1 | Some p \<Rightarrow> el_tenant_sequence p + 1)
          (case previous of None \<Rightarrow> ZERO_LEDGER_HASH | Some p \<Rightarrow> el_entry_hash p) (jsonb (event_json e)))
       (ledger_row.fields (ee_event_type e) (ee_event_version e) (su_producer_client_id s) (ee_correlation_id e)
          (ee_causation_id e) (ee_idempotency_key e)))"

definition accept_new :: "host \<Rightarrow> jsonb \<Rightarrow> accept_reading \<Rightarrow> submission \<Rightarrow> (inbox_db, ingress_result) prog" where
  "accept_new h jsonb rd s =
     bindE (getsE (\<lambda>db. sql_first (\<lambda>r. - el_tenant_sequence r) (\<lambda>r. el_tenant_id r = ee_tenant_id (su_envelope s)) (id_ledger db))) (\<lambda>previous.
     thenE (ledger_insert (ledger_row_of h jsonb s previous))
     (thenE (on_id_outbox (outbox_insert (new_row (ar_row_id rd) (ar_now rd) (ee_tenant_id (su_envelope s)) [] (su_destination s)
         (ee_event_type (su_envelope s)) (jsonb (event_json (su_envelope s))) (ee_idempotency_key (su_envelope s)))))
       (retE (accepted_result (su_envelope s)))))"

definition accept_existing :: "submission \<Rightarrow> (inbox_db, ingress_result) prog" where
  "accept_existing s =
     bindE (getsE (\<lambda>db. sort_key ib_received_at (filter (\<lambda>r. ib_tenant_id r = ee_tenant_id (su_envelope s)
         \<and> (ib_event_id r = ee_event_id (su_envelope s) \<or> ib_idempotency_key r = ee_idempotency_key (su_envelope s))) (id_inbox db)))) (\<lambda>rows.
       case rows of
         [] \<Rightarrow> raiseE StorageError ''inbox conflict could not be reconciled''
       | r # _ \<Rightarrow>
           if length (remdups (map (\<lambda>r. (ib_event_id r, ib_idempotency_key r)) rows)) > 1
           then raiseE ReplayConflict ''event and idempotency identities refer to different accepted events''
           else if (if su_deduplication_sha256 s \<noteq> None then ib_body_sha256 r else ib_semantic_sha256 r) \<noteq> comparison_sha256 s
           then raiseE ReplayConflict ''event/idempotency identity was reused with a different semantic payload''
           else retE (duplicate_of r))"

definition postgres_accept :: "host \<Rightarrow> jsonb \<Rightarrow> accept_reading \<Rightarrow> submission \<Rightarrow> (inbox_db, ingress_result) prog" where
  "postgres_accept h jsonb rd s =
     (if canonical_payload_sha256 h (event_json (su_envelope s)) \<noteq> su_semantic_sha256 s
      then raiseE EventLedgerIntegrityError ''semantic hash does not match the canonical event payload''
      else transaction
       (bindE (accept_replayed jsonb rd s) (\<lambda>replayed.
         case replayed of
           Some result \<Rightarrow> retE result
         | None \<Rightarrow> bindE (inbox_insert (inbox_row_of jsonb rd s)) (\<lambda>inserted.
             if inserted then accept_new h jsonb rd s else accept_existing s))))"

definition verify_event_ledger :: "host \<Rightarrow> string option \<Rightarrow> (inbox_db, (string, int) dict) prog" where
  "verify_event_ledger h tenant db =
     (verify_event_ledger_records h (sort_key (\<lambda>r. (el_tenant_id r, el_tenant_sequence r))
        (filter (\<lambda>r. case tenant of None \<Rightarrow> True | Some t \<Rightarrow> el_tenant_id r = t) (id_ledger db))), db)"

end
