(* ===== verification/Inbox_Equivalence.thy ===== *)
theory Inbox_Equivalence
  imports Inbox_Guarantees
begin

text \<open>
  The in-memory inbox and the PostgreSQL inbox compared. For events that arrive with their
  semantic digest only, a simulation relates the dictionaries of the one with the tables of the
  other, and the two give the same answers, errors included. For wire events, which carry a
  digest of their raw body, they do not.
\<close>

subsection \<open>Lookups\<close>

lemma map_of_find: "map_of (map (\<lambda>r. (k r, v r)) rs) x = map_option v (find (\<lambda>r. k r = x) rs)"
  by (induction rs) auto

lemma find_SomeD: "find P xs = Some x \<Longrightarrow> x \<in> set xs \<and> P x"
  by (induction xs) (auto split: if_splits)

lemma find_NoneD: "find P xs = None \<Longrightarrow> x \<in> set xs \<Longrightarrow> \<not> P x"
  by (induction xs) (auto split: if_splits)

lemma filter_single:
  assumes "distinct xs" and "a \<in> set xs" and "P a" and "\<forall>x \<in> set xs. P x \<longrightarrow> x = a"
  shows "filter P xs = [a]"
  using assms
proof (induction xs)
  case (Cons y ys)
  show ?case
  proof (cases "y = a")
    case True
    then have "\<forall>x \<in> set ys. \<not> P x" using Cons.prems(1,4) by (metis distinct.simps(2) list.set_intros(2))
    then have "filter P ys = []" unfolding filter_empty_conv .
    then show ?thesis using True Cons.prems(3) by simp
  next
    case False
    then have y: "\<not> P y" using Cons.prems(4) by (meson list.set_intros(1))
    have "distinct ys" "a \<in> set ys" using False Cons.prems(1,2) by simp_all
    then have "filter P ys = [a]" by (rule Cons.IH) (use Cons.prems(3,4) in \<open>auto simp only: list.set\<close>)
    with y show ?thesis by simp
  qed
qed simp

lemma find_key: "distinct (map k rs) \<Longrightarrow> r \<in> set_option (find (\<lambda>r. k r = x) rs) \<longleftrightarrow> r \<in> set rs \<and> k r = x"
  by (induction rs) (auto simp: image_iff)

lemma one_of_two:
  "set_option x \<union> set_option y \<noteq> {} \<Longrightarrow> \<not> (\<exists>a b. x = Some a \<and> y = Some b \<and> a \<noteq> b) \<Longrightarrow> \<exists>a. set_option x \<union> set_option y = {a}"
  by (cases x; cases y) auto

subsection \<open>The simulation\<close>

definition item_of :: "inbox_row \<Rightarrow> string \<times> ingress_result" where
  "item_of r = (ib_semantic_sha256 r, \<lparr>ir_event_id = ib_event_id r, ir_tenant_id = ib_tenant_id r, ir_status = ''accepted'', ir_duplicate = False,
     ir_correlation_id = ib_correlation_id r\<rparr>)"

abbreviation event_ident :: "inbox_row \<Rightarrow> string \<times> string" where
  "event_ident r \<equiv> (ib_tenant_id r, ib_event_id r)"

abbreviation key_ident :: "inbox_row \<Rightarrow> string \<times> string" where
  "key_ident r \<equiv> (ib_tenant_id r, ib_idempotency_key r)"

definition identities_agree :: "memory_inbox \<Rightarrow> inbox_row list \<Rightarrow> bool" where
  "identities_agree m rows \<longleftrightarrow> mi_event_items m = map (\<lambda>r. (event_ident r, item_of r)) rows
     \<and> mi_idempotency_items m = map (\<lambda>r. (key_ident r, item_of r)) rows
     \<and> distinct (map event_ident rows) \<and> distinct (map key_ident rows)"

definition ledgers_agree :: "host \<Rightarrow> jsonb \<Rightarrow> memory_inbox \<Rightarrow> ledger_row list \<Rightarrow> inbox_row list \<Rightarrow> bool" where
  "ledgers_agree h jsonb m ledger rows \<longleftrightarrow> memory_inbox_inv m \<and> chains h (mi_ledger_records m)
     \<and> map (\<lambda>r. r\<lparr>el_payload := jsonb (el_payload r)\<rparr>) (mi_ledger_records m) = map event_ledger_record.truncate ledger
     \<and> map (\<lambda>r. (el_tenant_id r, el_event_id r, lr_idempotency_key r)) ledger = map (\<lambda>r. (ib_tenant_id r, ib_event_id r, ib_idempotency_key r)) rows"

definition outbox_agrees :: "nat set \<Rightarrow> outbox_row list \<Rightarrow> inbox_row list \<Rightarrow> bool" where
  "outbox_agrees ids out rows \<longleftrightarrow> (\<forall>x \<in> set out. oi_id x \<in> ids \<and> (\<exists>r \<in> set rows. ib_tenant_id r = oi_tenant_id x \<and> ib_idempotency_key r = oi_idempotency_key x))"

definition inbox_sim :: "host \<Rightarrow> jsonb \<Rightarrow> nat set \<Rightarrow> memory_inbox \<Rightarrow> inbox_db \<Rightarrow> bool" where
  "inbox_sim h jsonb ids m db \<longleftrightarrow> identities_agree m (id_inbox db) \<and> ledgers_agree h jsonb m (id_ledger db) (id_inbox db)
     \<and> outbox_agrees ids (db_rows (id_outbox db)) (id_inbox db)"

subsection \<open>Conflicting rows\<close>

abbreviation conflicts :: "submission \<Rightarrow> inbox_row \<Rightarrow> bool" where
  "conflicts s r \<equiv> ib_tenant_id r = ee_tenant_id (su_envelope s)
     \<and> (ib_event_id r = ee_event_id (su_envelope s) \<or> ib_idempotency_key r = ee_idempotency_key (su_envelope s))"

abbreviation by_event :: "submission \<Rightarrow> inbox_row list \<Rightarrow> inbox_row option" where
  "by_event s \<equiv> find (\<lambda>r. event_ident r = (ee_tenant_id (su_envelope s), ee_event_id (su_envelope s)))"

abbreviation by_key :: "submission \<Rightarrow> inbox_row list \<Rightarrow> inbox_row option" where
  "by_key s \<equiv> find (\<lambda>r. key_ident r = (ee_tenant_id (su_envelope s), ee_idempotency_key (su_envelope s)))"

lemma conflicting_rows:
  assumes "distinct (map event_ident rows)" and "distinct (map key_ident rows)"
  shows "set (filter (conflicts s) rows) = set_option (by_event s rows) \<union> set_option (by_key s rows)"
proof (rule set_eqI)
  fix r
  show "r \<in> set (filter (conflicts s) rows) \<longleftrightarrow> r \<in> set_option (by_event s rows) \<union> set_option (by_key s rows)"
    unfolding Un_iff find_key [OF assms(1)] find_key [OF assms(2)] by auto
qed

lemma conflict_single:
  assumes "distinct (map event_ident rows)" and "distinct (map key_ident rows)"
    and "set_option (by_event s rows) \<union> set_option (by_key s rows) = {a}"
  shows "filter (conflicts s) rows = [a]"
proof -
  have "distinct rows" using assms(1) by (simp add: distinct_map)
  moreover have "set (filter (conflicts s) rows) = {a}" using conflicting_rows [OF assms(1,2)] assms(3) by simp
  ultimately show ?thesis by (intro filter_single) auto
qed

text \<open>Both stores' decision on a submission whose identities are known, as one function of the conflicting rows.\<close>

lemma existing_agree:
  assumes id: "identities_agree m (id_inbox db)" and plain: "su_deduplication_sha256 s = None"
    and sem: "canonical_payload_sha256 h (event_json (su_envelope s)) = su_semantic_sha256 s" and known: "filter (conflicts s) (id_inbox db) \<noteq> []"
  shows "\<exists>res. memory_accept h s m = (res, m) \<and> accept_existing s db = (res, db)"
proof -
  let ?rows = "id_inbox db"
  have d: "distinct (map event_ident ?rows)" "distinct (map key_ident ?rows)" using id by (simp_all add: identities_agree_def)
  have look: "map_of (mi_event_items m) (memory_event_key s) = map_option item_of (by_event s ?rows)"
      "map_of (mi_idempotency_items m) (ee_tenant_id (su_envelope s), ee_idempotency_key (su_envelope s)) = map_option item_of (by_key s ?rows)"
    using id plain by (simp_all only: identities_agree_def memory_event_key_def map_of_find option.case)
  have comp: "comparison_sha256 s = su_semantic_sha256 s" using plain by (simp add: comparison_sha256_def)
  have single: "\<exists>res. memory_accept h s m = (res, m) \<and> accept_existing s db = (res, db)"
    if u: "set_option (by_event s ?rows) \<union> set_option (by_key s ?rows) = {a}" for a
  proof -
    have one: "filter (conflicts s) ?rows = [a]" by (rule conflict_single [OF d u])
    have "(if map_of (mi_event_items m) (memory_event_key s) \<noteq> None then map_of (mi_event_items m) (memory_event_key s)
        else map_of (mi_idempotency_items m) (ee_tenant_id (su_envelope s), ee_idempotency_key (su_envelope s))) = Some (item_of a)"
      using u unfolding look by (cases "by_event s ?rows"; cases "by_key s ?rows") auto
    moreover have "\<not> (case (map_of (mi_event_items m) (memory_event_key s),
        map_of (mi_idempotency_items m) (ee_tenant_id (su_envelope s), ee_idempotency_key (su_envelope s))) of
        (Some a, Some b) \<Rightarrow> ir_event_id (snd a) \<noteq> ir_event_id (snd b) | _ \<Rightarrow> False)"
      using u unfolding look by (cases "by_event s ?rows"; cases "by_key s ?rows") auto
    ultimately have "memory_accept h s m = (if ib_semantic_sha256 a \<noteq> su_semantic_sha256 s
        then (Inl (Exc ReplayConflict ''event/idempotency identity was reused with a different semantic payload''), m) else (Inr (duplicate_of a), m))"
      using sem comp unfolding memory_accept_def Let_def by (simp add: item_of_def duplicate_of_def)
    moreover have "accept_existing s db = (if ib_semantic_sha256 a \<noteq> su_semantic_sha256 s
        then (Inl (Exc ReplayConflict ''event/idempotency identity was reused with a different semantic payload''), db) else (Inr (duplicate_of a), db))"
      using one plain comp by (simp add: accept_existing_def prog_defs)
    ultimately show ?thesis by simp
  qed
  show ?thesis
  proof (cases "\<exists>a b. by_event s ?rows = Some a \<and> by_key s ?rows = Some b \<and> a \<noteq> b")
    case True
    then obtain a b where ab: "by_event s ?rows = Some a" "by_key s ?rows = Some b" "a \<noteq> b" by blast
    then have in_rows: "a \<in> set ?rows" "b \<in> set ?rows" "ib_tenant_id a = ib_tenant_id b" by (auto dest!: find_SomeD)
    have inj: "inj_on event_ident (set ?rows)" using d(1) by (simp only: distinct_map)
    have ne: "ib_event_id a \<noteq> ib_event_id b"
    proof
      assume "ib_event_id a = ib_event_id b"
      with in_rows(3) have "event_ident a = event_ident b" by simp
      from inj_onD [OF inj this in_rows(1,2)] ab(3) show False by simp
    qed
    obtain r rs where rows: "sort_key ib_received_at (filter (conflicts s) ?rows) = r # rs"
      using known set_sort [of ib_received_at "filter (conflicts s) ?rows"] by (cases "sort_key ib_received_at (filter (conflicts s) ?rows)") (simp_all only: set_empty2 list.set(1))
    have "set (r # rs) = {a, b}" using conflicting_rows [OF d, of s] ab unfolding rows [symmetric] by auto
    then have "{(ib_event_id a, ib_idempotency_key a), (ib_event_id b, ib_idempotency_key b)}
        \<subseteq> set (remdups (map (\<lambda>r. (ib_event_id r, ib_idempotency_key r)) (r # rs)))" by auto
    moreover have "card {(ib_event_id a, ib_idempotency_key a), (ib_event_id b, ib_idempotency_key b)} = 2" using ne by simp
    ultimately have "2 \<le> card (set (remdups (map (\<lambda>r. (ib_event_id r, ib_idempotency_key r)) (r # rs))))"
      by (metis List.finite_set card_mono)
    then have "1 < length (remdups (map (\<lambda>r. (ib_event_id r, ib_idempotency_key r)) (r # rs)))"
      by (metis card_length dual_order.trans Suc_1 Suc_le_eq)
    then have "accept_existing s db = (Inl (Exc ReplayConflict ''event and idempotency identities refer to different accepted events''), db)"
      unfolding accept_existing_def bindE_def getsE_def raiseE_def by (simp only: rows prod.case sum.case list.case if_True)
    moreover have "ir_event_id (snd (item_of a)) \<noteq> ir_event_id (snd (item_of b))" using ne by (simp add: item_of_def)
    then have "memory_accept h s m = (Inl (Exc ReplayConflict ''event and idempotency identities refer to different accepted events''), m)"
      unfolding memory_accept_def Let_def look ab using sem by (simp only: option.map prod.case option.case if_True if_False simp_thms)
    ultimately show ?thesis by blast
  next
    case False
    have "set (filter (conflicts s) ?rows) \<noteq> {}" using known unfolding set_empty .
    then have "set_option (by_event s ?rows) \<union> set_option (by_key s ?rows) \<noteq> {}" unfolding conflicting_rows [OF d] .
    from one_of_two [OF this False] show ?thesis using single by (elim exE)
  qed
qed


subsection \<open>New events\<close>

lemma ledgers_tenant:
  assumes "ledgers_agree h jsonb m ledger rows"
  shows "map (\<lambda>r. r\<lparr>el_payload := jsonb (el_payload r)\<rparr>) (of_tenant t (mi_ledger_records m)) = map event_ledger_record.truncate (of_tenant t ledger)"
proof -
  have eq: "map (\<lambda>r. r\<lparr>el_payload := jsonb (el_payload r)\<rparr>) (mi_ledger_records m) = map event_ledger_record.truncate ledger"
    using assms by (simp add: ledgers_agree_def)
  have "of_tenant t (map (\<lambda>r. r\<lparr>el_payload := jsonb (el_payload r)\<rparr>) (mi_ledger_records m)) = of_tenant t (map event_ledger_record.truncate ledger)"
    unfolding eq ..
  then show ?thesis by (simp add: filter_map comp_def event_ledger_record.defs)
qed

lemma ledgers_nth:
  assumes agree: "ledgers_agree h jsonb m ledger rows" and i: "i < length (of_tenant t ledger)"
  shows "el_tenant_sequence (of_tenant t ledger ! i) = 1 + int i"
proof -
  note eq = ledgers_tenant [OF agree, of t]
  have len: "length (of_tenant t (mi_ledger_records m)) = length (of_tenant t ledger)" using arg_cong [OF eq, of length] by simp
  have "chain_from h 1 ZERO_LEDGER_HASH (of_tenant t (mi_ledger_records m))" using agree by (simp add: ledgers_agree_def chains_def)
  then have "el_tenant_sequence (of_tenant t (mi_ledger_records m) ! i) = 1 + int i" using chain_nth len i by metis
  moreover have "el_tenant_sequence (of_tenant t ledger ! i) = el_tenant_sequence (of_tenant t (mi_ledger_records m) ! i)"
    using arg_cong [OF eq, of "\<lambda>xs. el_tenant_sequence (xs ! i)"] i len by (simp add: event_ledger_record.defs)
  ultimately show ?thesis by simp
qed

text \<open>Both stores file the same record, up to the payload as the column keeps it.\<close>

lemma filed_alike:
  assumes agree: "ledgers_agree h jsonb m ledger rows"
  shows "event_ledger_record.truncate (ledger_row_of h jsonb s (sql_first (\<lambda>r. - el_tenant_sequence r) (\<lambda>r. el_tenant_id r = ee_tenant_id (su_envelope s)) ledger))
    = (memory_filed h s m)\<lparr>el_payload := jsonb (el_payload (memory_filed h s m))\<rparr>
    \<and> dict_get (mi_ledger_counts m) (ee_tenant_id (su_envelope s)) 0 = int (length (of_tenant (ee_tenant_id (su_envelope s)) ledger))"
proof -
  let ?t = "ee_tenant_id (su_envelope s)"
  note eq = ledgers_tenant [OF agree, of ?t] and nth = ledgers_nth [OF agree, of _ ?t]
  have len: "length (of_tenant ?t (mi_ledger_records m)) = length (of_tenant ?t ledger)" using arg_cong [OF eq, of length] by simp
  have inv: "memory_inbox_inv m" using agree by (simp add: ledgers_agree_def)
  have counts: "dict_get (mi_ledger_counts m) ?t 0 = int (length (of_tenant ?t ledger))" using inv len by (simp add: memory_inbox_inv_def)
  have heads: "dict_get (mi_ledger_heads m) ?t ZERO_LEDGER_HASH = chain_head ZERO_LEDGER_HASH (of_tenant ?t ledger)"
  proof (cases "of_tenant ?t ledger = []")
    case True
    then show ?thesis using inv len by (simp add: memory_inbox_inv_def chain_head_def)
  next
    case False
    then have "of_tenant ?t (mi_ledger_records m) \<noteq> []" using len by (metis length_0_conv)
    with False have "el_entry_hash (last (of_tenant ?t (mi_ledger_records m))) = el_entry_hash (last (of_tenant ?t ledger))"
      using arg_cong [OF eq, of "\<lambda>xs. el_entry_hash (last xs)"] by (simp add: last_map event_ledger_record.defs)
    with \<open>of_tenant ?t (mi_ledger_records m) \<noteq> []\<close> False show ?thesis using inv by (simp add: memory_inbox_inv_def chain_head_def)
  qed
  have "el_tenant_sequence (last (of_tenant ?t ledger)) = int (length (of_tenant ?t ledger))" if "of_tenant ?t ledger \<noteq> []"
    using nth [of "length (of_tenant ?t ledger) - 1"] that by (simp add: last_conv_nth of_nat_diff Suc_le_eq)
  moreover have prev: "sql_first (\<lambda>r. - el_tenant_sequence r) (\<lambda>r. el_tenant_id r = ?t) ledger
      = (if of_tenant ?t ledger = [] then None else Some (last (of_tenant ?t ledger)))" by (rule last_in_chain) (rule nth)
  ultimately have "event_ledger_record.truncate (ledger_row_of h jsonb s (sql_first (\<lambda>r. - el_tenant_sequence r) (\<lambda>r. el_tenant_id r = ?t) ledger))
    = (memory_filed h s m)\<lparr>el_payload := jsonb (el_payload (memory_filed h s m))\<rparr>"
    unfolding prev counts heads
    by (simp add: ledger_row_of_def chain_record_def Let_def event_ledger_record.defs ledger_row.defs chain_head_def)
  with counts show ?thesis by blast
qed

lemma ledger_insert_fresh:
  assumes agree: "ledgers_agree h jsonb m (id_ledger db) rows" and fresh: "\<forall>r \<in> set rows. \<not> conflicts s r"
    and db1: "id_ledger db1 = id_ledger db"
    and row: "row = ledger_row_of h jsonb s (sql_first (\<lambda>r. - el_tenant_sequence r) (\<lambda>r. el_tenant_id r = ee_tenant_id (su_envelope s)) (id_ledger db))"
  shows "ledger_insert row db1 = (Inr (), db1\<lparr>id_ledger := id_ledger db @ [row]\<rparr>)"
proof -
  let ?t = "ee_tenant_id (su_envelope s)"
  note alike = filed_alike [OF agree, of s, folded row]
  have id: "el_tenant_id row = ?t" "el_event_id row = ee_event_id (su_envelope s)" "lr_idempotency_key row = ee_idempotency_key (su_envelope s)"
    by (simp_all add: row ledger_row_of_def chain_record_def Let_def event_ledger_record.defs ledger_row.defs)
  have seq: "el_tenant_sequence row = int (length (of_tenant ?t (id_ledger db))) + 1"
    using arg_cong [OF conjunct1 [OF alike], of el_tenant_sequence] conjunct2 [OF alike]
    by (simp add: event_ledger_record.defs chain_record_def)
  have "\<not> (el_tenant_id x = ?t \<and> (el_tenant_sequence x = el_tenant_sequence row \<or> el_event_id x = ee_event_id (su_envelope s)
      \<or> lr_idempotency_key x = ee_idempotency_key (su_envelope s)))" if x: "x \<in> set (id_ledger db)" for x
  proof
    assume a: "el_tenant_id x = ?t \<and> (el_tenant_sequence x = el_tenant_sequence row \<or> el_event_id x = ee_event_id (su_envelope s)
      \<or> lr_idempotency_key x = ee_idempotency_key (su_envelope s))"
    have "(el_tenant_id x, el_event_id x, lr_idempotency_key x) \<in> set (map (\<lambda>r. (el_tenant_id r, el_event_id r, lr_idempotency_key r)) (id_ledger db))"
      using x by simp
    also have "map (\<lambda>r. (el_tenant_id r, el_event_id r, lr_idempotency_key r)) (id_ledger db)
      = map (\<lambda>r. (ib_tenant_id r, ib_event_id r, ib_idempotency_key r)) rows" using agree by (simp add: ledgers_agree_def)
    finally obtain r where "r \<in> set rows" "ib_tenant_id r = el_tenant_id x" "ib_event_id r = el_event_id x" "ib_idempotency_key r = lr_idempotency_key x"
      by auto
    with fresh a have s: "el_tenant_sequence x = el_tenant_sequence row" by metis
    have "x \<in> set (of_tenant ?t (id_ledger db))" using x a by simp
    then obtain i where "i < length (of_tenant ?t (id_ledger db))" "x = of_tenant ?t (id_ledger db) ! i" by (metis in_set_conv_nth)
    with s seq ledgers_nth [OF agree, of i ?t] show False by simp
  qed
  then have "\<not> list_ex (\<lambda>x. el_tenant_id x = el_tenant_id row \<and> (el_tenant_sequence x = el_tenant_sequence row \<or> el_event_id x = el_event_id row
            \<or> lr_idempotency_key x = lr_idempotency_key row)) (id_ledger db1)" unfolding db1 id list_ex_iff by blast
  then show ?thesis by (simp only: ledger_insert_def if_False) (simp add: db1)
qed


lemma identities_new:
  assumes id: "identities_agree m rows" and fresh: "\<forall>r \<in> set rows. \<not> conflicts s r" and plain: "su_deduplication_sha256 s = None"
  shows "identities_agree (snd (memory_file h s m)) (rows @ [inbox_row_of jsonb rd s])"
    and "map_of (mi_event_items m) (memory_event_key s) = None"
    and "map_of (mi_idempotency_items m) (ee_tenant_id (su_envelope s), ee_idempotency_key (su_envelope s)) = None"
proof -
  have key: "memory_event_key s = (ee_tenant_id (su_envelope s), ee_event_id (su_envelope s))" using plain by (simp add: memory_event_key_def)
  have none: "by_event s rows = None" "by_key s rows = None" using fresh by (auto simp: find_None_iff)
  show look: "map_of (mi_event_items m) (memory_event_key s) = None"
      "map_of (mi_idempotency_items m) (ee_tenant_id (su_envelope s), ee_idempotency_key (su_envelope s)) = None"
    using id none unfolding identities_agree_def key by (simp_all only: map_of_find option.map)
  have row: "event_ident (inbox_row_of jsonb rd s) = memory_event_key s"
      "key_ident (inbox_row_of jsonb rd s) = (ee_tenant_id (su_envelope s), ee_idempotency_key (su_envelope s))"
      "item_of (inbox_row_of jsonb rd s) = (comparison_sha256 s, accepted_result (su_envelope s))"
    using plain by (simp_all add: inbox_row_of_def Let_def key item_of_def comparison_sha256_def accepted_result_def)
  have "memory_event_key s \<notin> set (map event_ident rows)"
    "(ee_tenant_id (su_envelope s), ee_idempotency_key (su_envelope s)) \<notin> set (map key_ident rows)"
    using fresh unfolding key by auto
  with id look row show "identities_agree (snd (memory_file h s m)) (rows @ [inbox_row_of jsonb rd s])"
    unfolding identities_agree_def memory_file_def Let_def by (simp add: dict_update_new)
qed

lemma fresh_agree:
  assumes sim: "inbox_sim h jsonb ids m db" and plain: "su_deduplication_sha256 s = None"
    and sem: "canonical_payload_sha256 h (event_json (su_envelope s)) = su_semantic_sha256 s"
    and fresh: "\<forall>r \<in> set (id_inbox db). \<not> conflicts s r" and rid: "ar_row_id rd \<notin> ids"
  obtains m' db' where "memory_accept h s m = (Inr (accepted_result (su_envelope s)), m')"
    and "accept_new h jsonb rd s (db\<lparr>id_inbox := id_inbox db @ [inbox_row_of jsonb rd s]\<rparr>) = (Inr (accepted_result (su_envelope s)), db')"
    and "inbox_sim h jsonb (insert (ar_row_id rd) ids) m' db'"
proof -
  let ?rows = "id_inbox db" and ?row = "inbox_row_of jsonb rd s"
  let ?out = "new_row (ar_row_id rd) (ar_now rd) (ee_tenant_id (su_envelope s)) [] (su_destination s) (ee_event_type (su_envelope s))
     (jsonb (event_json (su_envelope s))) (ee_idempotency_key (su_envelope s))"
  define led where "led = ledger_row_of h jsonb s (sql_first (\<lambda>r. - el_tenant_sequence r) (\<lambda>r. el_tenant_id r = ee_tenant_id (su_envelope s)) (id_ledger db))"
  define db1 where "db1 = db\<lparr>id_inbox := ?rows @ [?row]\<rparr>"
  have id: "identities_agree m ?rows" and agree: "ledgers_agree h jsonb m (id_ledger db) ?rows"
    and out: "outbox_agrees ids (db_rows (id_outbox db)) ?rows" using sim by (simp_all add: inbox_sim_def)
  note new = identities_new [OF id fresh plain]
  define m' where "m' = snd (memory_file h s m)"
  have mem: "memory_accept h s m = (Inr (accepted_result (su_envelope s)), m')"
    using sem new(2,3) by (simp add: memory_accept_def Let_def m'_def) (simp add: memory_file_def Let_def)
  have ins: "ledger_insert led db1 = (Inr (), db1\<lparr>id_ledger := id_ledger db @ [led]\<rparr>)"
    by (rule ledger_insert_fresh [OF agree fresh _ led_def]) (simp add: db1_def)
  have "\<not> list_ex (\<lambda>x. oi_id x = oi_id ?out \<or> oi_tenant_id x = oi_tenant_id ?out \<and> oi_destination x = oi_destination ?out
      \<and> oi_idempotency_key x = oi_idempotency_key ?out) (db_rows (id_outbox db))"
    using out fresh rid by (auto simp: list_ex_iff outbox_agrees_def new_row_def)
  then have outi: "outbox_insert ?out (id_outbox db) = (Inr (), (id_outbox db)\<lparr>db_rows := db_rows (id_outbox db) @ [?out]\<rparr>)"
    by (simp add: outbox_insert_def)
  define db' where "db' = db1\<lparr>id_ledger := id_ledger db @ [led], id_outbox := (id_outbox db)\<lparr>db_rows := db_rows (id_outbox db) @ [?out]\<rparr>\<rparr>"
  have pg: "accept_new h jsonb rd s db1 = (Inr (accepted_result (su_envelope s)), db')"
    using ins outi by (simp add: accept_new_def prog_defs on_id_outbox_def led_def db'_def db1_def)
  have inv: "memory_inbox_inv m" "chains h (mi_ledger_records m)" using agree by (simp_all add: ledgers_agree_def)
  have recs: "mi_ledger_records m' = mi_ledger_records m @ [memory_filed h s m]" "chains h (mi_ledger_records m')"
    using memory_file_extends [OF inv(1) sem] chains_extend [OF inv(2)] by (simp_all add: m'_def)
  have "lr_idempotency_key led = ee_idempotency_key (su_envelope s)" "el_tenant_id led = ee_tenant_id (su_envelope s)" "el_event_id led = ee_event_id (su_envelope s)"
    by (simp_all add: led_def ledger_row_of_def chain_record_def Let_def event_ledger_record.defs ledger_row.defs)
  then have "ledgers_agree h jsonb m' (id_ledger db') (id_inbox db')"
    using agree recs memory_file_inv [OF inv(1), of h s, folded m'_def] conjunct1 [OF filed_alike [OF agree, of s, folded led_def]]
    by (simp add: ledgers_agree_def db'_def db1_def inbox_row_of_def Let_def)
  moreover have "outbox_agrees (insert (ar_row_id rd) ids) (db_rows (id_outbox db')) (id_inbox db')"
    using out by (auto simp: outbox_agrees_def db'_def db1_def new_row_def inbox_row_of_def Let_def)
  moreover have "identities_agree m' (id_inbox db')" using new(1) [of h jsonb rd] by (simp add: m'_def db'_def db1_def)
  ultimately show ?thesis using mem pg by (intro that [of m' db']) (simp_all add: inbox_sim_def db1_def)
qed

text \<open>One submission keeps the simulation, and both stores answer alike.\<close>

lemma accept_sim:
  assumes sim: "inbox_sim h jsonb ids m db" and plain: "su_deduplication_sha256 s = None" and rid: "ar_row_id rd \<notin> ids"
  shows "fst (memory_accept h s m) = fst (postgres_accept h jsonb rd s db)
    \<and> inbox_sim h jsonb (insert (ar_row_id rd) ids) (snd (memory_accept h s m)) (snd (postgres_accept h jsonb rd s db))"
proof -
  have wider: "inbox_sim h jsonb (insert (ar_row_id rd) ids) m db" using sim by (auto simp: inbox_sim_def outbox_agrees_def)
  show ?thesis
  proof (cases "canonical_payload_sha256 h (event_json (su_envelope s)) = su_semantic_sha256 s")
    case False
    then show ?thesis using wider by (simp add: memory_accept_def Let_def postgres_accept_def raiseE_def)
  next
    case sem: True
    have pg: "postgres_accept h jsonb rd s = transaction (bindE (inbox_insert (inbox_row_of jsonb rd s)) (\<lambda>inserted.
        if inserted then accept_new h jsonb rd s else accept_existing s))"
      using sem plain by (simp add: postgres_accept_def accept_replayed_def bindE_def retE_def)
    have cond: "list_ex (\<lambda>x. ib_tenant_id x = ib_tenant_id (inbox_row_of jsonb rd s) \<and> (ib_event_id x = ib_event_id (inbox_row_of jsonb rd s)
        \<or> ib_idempotency_key x = ib_idempotency_key (inbox_row_of jsonb rd s))) (id_inbox db) \<longleftrightarrow> (\<exists>r \<in> set (id_inbox db). conflicts s r)"
      by (simp add: list_ex_iff inbox_row_of_def Let_def)
    show ?thesis
    proof (cases "\<exists>r \<in> set (id_inbox db). conflicts s r")
      case True
      then have "filter (conflicts s) (id_inbox db) \<noteq> []" by (auto simp: filter_empty_conv)
      moreover have "identities_agree m (id_inbox db)" using sim by (simp add: inbox_sim_def)
      ultimately obtain res where "memory_accept h s m = (res, m)" "accept_existing s db = (res, db)"
        using existing_agree [OF _ plain sem] by blast
      moreover from this have "postgres_accept h jsonb rd s db = (res, db)"
        using True cond by (simp add: pg transaction_def bindE_def inbox_insert_def split: sum.split)
      ultimately show ?thesis using wider by simp
    next
      case False
      then have fresh: "\<forall>r \<in> set (id_inbox db). \<not> conflicts s r" by blast
      obtain m' db' where a: "memory_accept h s m = (Inr (accepted_result (su_envelope s)), m')"
        "accept_new h jsonb rd s (db\<lparr>id_inbox := id_inbox db @ [inbox_row_of jsonb rd s]\<rparr>) = (Inr (accepted_result (su_envelope s)), db')"
        "inbox_sim h jsonb (insert (ar_row_id rd) ids) m' db'"
        by (rule fresh_agree [OF sim plain sem fresh rid])
      have "inbox_insert (inbox_row_of jsonb rd s) db = (Inr True, db\<lparr>id_inbox := id_inbox db @ [inbox_row_of jsonb rd s]\<rparr>)"
        unfolding inbox_insert_def cond using False by (simp only: if_False)
      then have "postgres_accept h jsonb rd s db = (Inr (accepted_result (su_envelope s)), db')"
        using a(2) by (simp add: pg transaction_def bindE_def)
      with a show ?thesis by simp
    qed
  qed
qed


subsection \<open>Answers\<close>

fun answers :: "('x \<Rightarrow> ('s, 'a) prog) \<Rightarrow> 'x list \<Rightarrow> 's \<Rightarrow> (exc + 'a) list" where
  "answers f [] s = []"
| "answers f (x # xs) s = fst (f x s) # answers f xs (snd (f x s))"

lemma answers_sim:
  assumes "inbox_sim h jsonb ids m db" and "\<forall>x \<in> set subs. su_deduplication_sha256 (snd x) = None"
    and "distinct (map (ar_row_id \<circ> fst) subs)" and "ids \<inter> (ar_row_id \<circ> fst) ` set subs = {}"
  shows "answers (\<lambda>(rd, s). memory_accept h s) subs m = answers (\<lambda>(rd, s). postgres_accept h jsonb rd s) subs db"
  using assms
proof (induction subs arbitrary: ids m db)
  case (Cons x subs)
  obtain rd s where x: "x = (rd, s)" by fastforce
  have plain: "su_deduplication_sha256 s = None" and rid: "ar_row_id rd \<notin> ids" using Cons.prems(2,4) x by auto
  note step = accept_sim [OF Cons.prems(1) plain rid]
  have "answers (\<lambda>(rd, s). memory_accept h s) subs (snd (memory_accept h s m))
    = answers (\<lambda>(rd, s). postgres_accept h jsonb rd s) subs (snd (postgres_accept h jsonb rd s db))"
    by (rule Cons.IH [OF conjunct2 [OF step]]) (use Cons.prems x in auto)
  with step x show ?case by simp
qed simp

lemma empty_sim: "inbox_sim h jsonb {} empty_memory_inbox empty_inbox_db"
  by (simp add: inbox_sim_def identities_agree_def ledgers_agree_def outbox_agrees_def empty_memory_inbox_def empty_inbox_db_def
      memory_inbox_inv_def chains_def dict_get_def chain_head_def)

text \<open>
  C15. The in-memory inbox is equivalent to the PostgreSQL one for events submitted with their
  semantic digest: started empty, the two give the same answers to every sequence of
  submissions, acceptances, duplicates, conflicts of identity and digest errors alike, for every
  behaviour of the \<open>jsonb\<close> column and whatever the clocks show, as long as the sequence that
  numbers outbox rows does not repeat itself.
\<close>

theorem inbox_stores_agree:
  assumes "\<forall>x \<in> set subs. su_deduplication_sha256 (snd x) = None" and "distinct (map (ar_row_id \<circ> fst) subs)"
  shows "answers (\<lambda>(rd, s). memory_accept h s) subs empty_memory_inbox = answers (\<lambda>(rd, s). postgres_accept h jsonb rd s) subs empty_inbox_db"
  by (rule answers_sim [OF empty_sim assms]) simp

theorem inbox_stores_agree_witness:
  "answers (\<lambda>(rd, s). memory_accept sample_host s)
      [(sample_reading_at 1, sample_submission ''key-0001'' None), (sample_reading_at 2, sample_submission ''key-0002'' None)] empty_memory_inbox
    = answers (\<lambda>(rd, s). postgres_accept sample_host id rd s)
      [(sample_reading_at 1, sample_submission ''key-0001'' None), (sample_reading_at 2, sample_submission ''key-0002'' None)] empty_inbox_db"
  by (rule inbox_stores_agree) (simp_all add: sample_submission_def sample_reading_at_def)

text \<open>
  With the digest of a raw body the stores part: after an event was accepted without one,
  the same event of the same tenant under another idempotency key is a conflict in PostgreSQL,
  whose primary key it repeats, and a second acceptance in memory, which looks wire events up
  by their producer only.
\<close>

theorem wire_identity_diverges:
  "map (map_sum exc_class ir_status) (answers (\<lambda>(rd, s). memory_accept sample_host s)
      [(sample_reading_at 1, sample_submission ''key-0001'' None), (sample_reading_at 2, sample_submission ''key-0002'' (Some ''b2''))] empty_memory_inbox)
    = [Inr ''accepted'', Inr ''accepted'']
   \<and> map (map_sum exc_class ir_status) (answers (\<lambda>(rd, s). postgres_accept sample_host id rd s)
      [(sample_reading_at 1, sample_submission ''key-0001'' None), (sample_reading_at 2, sample_submission ''key-0002'' (Some ''b2''))] empty_inbox_db)
    = [Inr ''accepted'', Inl ReplayConflict]"
  by (simp add: accept_evals accepted_result_def)

end
