(* ===== verification/Webhook_Ingress.thy ===== *)
theory Webhook_Ingress
  imports Inbox_Guarantees "HOL-Library.Monad_Syntax"
begin

text \<open>
  The signed webhook ingress: \<open>app/security.py\<close> (token claims, tenant authority, signed requests),
  \<open>app/replay.py\<close> (the replay guard), \<open>app/service.py\<close> and \<open>app/webhook_api.py\<close> (a delivery from
  the bearer token to the inbox), with the envelope of \<open>app/models.py\<close> and the webhook secrets of
  \<open>app/core/config.py\<close>.

  Parameters are collected in \<open>webhook_host\<close>: the JWT decoder with its key set, HMAC, JSON
  parsing, the parsing of numbers and timestamps, and the JSON-Schema contract of an event. The
  inbox and the replay guard are arguments, so that a delivery can be composed with either
  store. \<open>time.time()\<close> is an argument.
\<close>

subsection \<open>Parameters\<close>

datatype pyfloat = Finite rat | NonFinite

record webhook_host =
  wh_host :: host
  wh_hmac :: "string \<Rightarrow> string \<Rightarrow> string"
  wh_loads :: "string \<Rightarrow> json option"
  wh_jwt_decode :: "string \<Rightarrow> exc + json_object"
  wh_float :: "json \<Rightarrow> pyfloat option"
  wh_parse_float :: "string \<Rightarrow> pyfloat option"
  wh_fromisoformat :: "string \<Rightarrow> rat option option"
  wh_datetime :: "json \<Rightarrow> (string \<times> bool) option"
  wh_event_contract :: "json_object \<Rightarrow> bool"

record webhook_settings =
  ws_webhook_secrets :: "(string, string) dict"
  ws_max_clock_skew_seconds :: rat
  ws_max_request_body_bytes :: nat

record webhook_route =
  rt_producer_client_id :: string
  rt_required_scope :: string
  rt_path :: string
  rt_event_types :: "string list"

definition AuthenticationError :: exc_class where "AuthenticationError = OtherException ''AuthenticationError''"
definition SignatureError :: exc_class where "SignatureError = OtherException ''SignatureError''"
definition RequestValidationError :: exc_class where "RequestValidationError = OtherException ''RequestValidationError''"
definition ConfigurationError :: exc_class where "ConfigurationError = OtherException ''ConfigurationError''"
definition EventTypeError :: exc_class where "EventTypeError = OtherException ''EventTypeError''"
definition ReplayConflictError :: exc_class where "ReplayConflictError = OtherException ''ReplayConflictError''"
definition ProcessingConflictError :: exc_class where "ProcessingConflictError = OtherException ''ProcessingConflictError''"
definition PayloadTooLargeError :: exc_class where "PayloadTooLargeError = OtherException ''PayloadTooLargeError''"
definition ReplayBusy :: exc_class where "ReplayBusy = OtherException ''ReplayBusy''"

definition SECURITY_ERRORS :: "exc_class list" where
  "SECURITY_ERRORS = [AuthenticationError, AuthorizationError, SignatureError, RequestValidationError]"

subsection \<open>Tokens\<close>

definition strict_numeric_timestamp :: "webhook_host \<Rightarrow> json_object \<Rightarrow> string \<Rightarrow> exc + rat" where
  "strict_numeric_timestamp wh claims name =
     (case map_of claims name of
        Some v \<Rightarrow>
          (case v of
             JInt _ \<Rightarrow> (case wh_float wh v of None \<Rightarrow> Inl (Exc (OtherException ''OverflowError'') ''int too large to convert to float'')
                       | Some NonFinite \<Rightarrow> Inl (Exc AuthorizationError (''machine token '' @ name @ '' must be finite''))
                       | Some (Finite q) \<Rightarrow> Inr q)
           | JFloat _ \<Rightarrow> (case wh_float wh v of Some (Finite q) \<Rightarrow> Inr q
                       | _ \<Rightarrow> Inl (Exc AuthorizationError (''machine token '' @ name @ '' must be finite'')))
           | _ \<Rightarrow> Inl (Exc AuthorizationError (''machine token '' @ name @ '' must be a numeric timestamp'')))
      | None \<Rightarrow> Inl (Exc AuthorizationError (''machine token '' @ name @ '' must be a numeric timestamp'')))"

fun json_strings :: "json list \<Rightarrow> string list option" where
  "json_strings [] = Some []"
| "json_strings (JStr s # xs) = map_option (\<lambda>ss. s # ss) (json_strings xs)"
| "json_strings (x # xs) = None"

definition scope_set :: "json option \<Rightarrow> string list option" where
  "scope_set v = (case v of Some (JStr s) \<Rightarrow> Some (py_split s) | Some (JList xs) \<Rightarrow> json_strings xs | _ \<Rightarrow> None)"

definition validate_claims :: "webhook_host \<Rightarrow> json_object \<Rightarrow> string \<Rightarrow> string \<Rightarrow> exc + unit" where
  "validate_claims wh claims expected_client_id required_scope =
     (if map_of claims ''azp'' \<noteq> Some (JStr expected_client_id) then Inl (Exc AuthorizationError ''token azp does not match producer'')
      else case scope_set (map_of claims ''scope'') of
        None \<Rightarrow> Inl (Exc AuthorizationError ''token scope claim is missing or malformed'')
      | Some scopes \<Rightarrow>
          if required_scope \<notin> set scopes then Inl (Exc AuthorizationError ''required scope is missing'')
          else (case strict_numeric_timestamp wh claims ''iat'' of
              Inl e \<Rightarrow> Inl e
            | Inr issued_at \<Rightarrow>
                (case strict_numeric_timestamp wh claims ''exp'' of
                   Inl e \<Rightarrow> Inl e
                 | Inr expires_at \<Rightarrow>
                     if expires_at \<le> issued_at \<or> expires_at - issued_at > 300
                     then Inl (Exc AuthorizationError ''machine token lifetime exceeds the 300-second policy'')
                     else Inr ())))"

definition verify_sync :: "webhook_host \<Rightarrow> string \<Rightarrow> string \<Rightarrow> string \<Rightarrow> exc + json_object" where
  "verify_sync wh token expected_client_id required_scope =
     (case wh_jwt_decode wh token of
        Inl e \<Rightarrow> Inl e
      | Inr claims \<Rightarrow> map_sum id (\<lambda>_. claims) (validate_claims wh claims expected_client_id required_scope))"

text \<open>\<open>authorization.partition(" ")\<close>.\<close>

definition partition_space :: "string \<Rightarrow> string \<times> string" where
  "partition_space s = (takeWhile (\<lambda>c. c \<noteq> CHR '' '') s, drop 1 (dropWhile (\<lambda>c. c \<noteq> CHR '' '') s))"

definition verify_bearer :: "webhook_host \<Rightarrow> string \<Rightarrow> string \<Rightarrow> string \<Rightarrow> exc + json_object" where
  "verify_bearer wh authorization expected_client_id required_scope =
     (case partition_space authorization of
        (scheme, token) \<Rightarrow>
          if py_lower scheme \<noteq> ''bearer'' \<or> token = [] then Inl (Exc AuthenticationError ''Authorization must be a Bearer token'')
          else (case verify_sync wh token expected_client_id required_scope of
                  Inl e \<Rightarrow> if exc_class e \<in> set SECURITY_ERRORS then Inl e else Inl (Exc AuthenticationError ''invalid bearer token'')
                | Inr claims \<Rightarrow> Inr claims))"

definition authorized_tenants :: "json_object \<Rightarrow> string list" where
  "authorized_tenants claims =
     (case map_of claims ''tenant_id'' of Some (JStr s) \<Rightarrow> (if py_strip s \<noteq> [] then [py_strip s] else []) | _ \<Rightarrow> [])
   @ (case map_of claims ''tenant_ids'' of
        Some (JList xs) \<Rightarrow> (case json_strings xs of Some ss \<Rightarrow> filter (\<lambda>s. s \<noteq> []) (map py_strip ss) | None \<Rightarrow> [])
      | _ \<Rightarrow> [])"

definition authorize_tenant :: "json_object \<Rightarrow> string \<Rightarrow> exc + unit" where
  "authorize_tenant claims tenant_id =
     (let authorized = authorized_tenants claims in
      if ''*'' \<in> set authorized then Inl (Exc AuthorizationError ''wildcard tenant authorization is prohibited'')
      else if authorized = [] then Inl (Exc AuthorizationError ''token has no authoritative tenant claim'')
      else if tenant_id \<notin> set authorized then Inl (Exc AuthorizationError ''token is not authorized for the requested tenant'')
      else Inr ())"

subsection \<open>Signed requests\<close>

definition WEBHOOK_PRODUCERS :: "string list" where
  "WEBHOOK_PRODUCERS = [''odoo-integration'', ''n8n-automation'', ''vicidial-adapter'', ''telnexa-gateway'', ''klyrow-gateway'',
     ''kyqra-gateway'', ''postly-adapter'']"

definition upper_char :: "char \<Rightarrow> char" where
  "upper_char c = (if 97 \<le> (of_char c :: nat) \<and> (of_char c :: nat) \<le> 122 then char_of ((of_char c :: nat) - 32) else c)"

definition py_upper :: "string \<Rightarrow> string" where
  "py_upper s = map upper_char s"

definition secret_env_name :: "string \<Rightarrow> string" where
  "secret_env_name producer = ''WEBHOOK_SECRET_'' @ map (\<lambda>c. if c = CHR ''-'' \<or> c = CHR ''.'' then CHR ''_'' else c) (py_upper producer)"

definition webhook_secret :: "webhook_settings \<Rightarrow> string \<Rightarrow> exc + string" where
  "webhook_secret ws producer =
     (let secret = dict_get (ws_webhook_secrets ws) producer [] in
      if producer \<notin> set WEBHOOK_PRODUCERS then Inl (Exc ConfigurationError (''unknown webhook producer: '' @ producer))
      else if length secret < 32 then Inl (Exc ConfigurationError (secret_env_name producer @ '' must contain at least 32 bytes''))
      else Inr secret)"

definition parse_timestamp :: "webhook_host \<Rightarrow> string \<Rightarrow> exc + rat" where
  "parse_timestamp wh raw =
     (case wh_parse_float wh raw of
        Some (Finite q) \<Rightarrow> Inr q
      | Some NonFinite \<Rightarrow> Inl (Exc RequestValidationError ''X-Codestra-Timestamp must be finite'')
      | None \<Rightarrow>
          (case wh_fromisoformat wh (concat (map (\<lambda>c. if c = CHR ''Z'' then ''+00:00'' else [c]) raw)) of
             None \<Rightarrow> Inl (Exc RequestValidationError ''X-Codestra-Timestamp must be epoch seconds or ISO-8601'')
           | Some None \<Rightarrow> Inl (Exc RequestValidationError ''X-Codestra-Timestamp must include timezone'')
           | Some (Some q) \<Rightarrow> Inr q))"

record signed_request =
  sr_body_sha256 :: string
  sr_event_id :: string
  sr_event_type :: string
  sr_source_client_id :: string
  sr_tenant_id :: string
  sr_correlation_id :: string
  sr_idempotency_key :: string
  sr_timestamp :: string

definition REQUIRED_HEADERS :: "string list" where
  "REQUIRED_HEADERS = [''authorization'', ''content-type'', ''idempotency-key'', ''x-codestra-event-id'', ''x-codestra-event-type'',
     ''x-codestra-source'', ''x-codestra-tenant-id'', ''x-codestra-timestamp'', ''x-codestra-signature'', ''x-correlation-id'']"

fun joined :: "string \<Rightarrow> string list \<Rightarrow> string" where
  "joined sep [] = []"
| "joined sep [x] = x"
| "joined sep (x # xs) = x @ sep @ joined sep xs"

definition canonical_request :: "string \<Rightarrow> string \<Rightarrow> string \<Rightarrow> string \<Rightarrow> string \<Rightarrow> string \<Rightarrow> string" where
  "canonical_request method path timestamp event_id source body_sha =
     joined [CHR 0x0A] [''v1'', py_upper method, path, timestamp, event_id, source, body_sha]"

definition hex_char :: "char \<Rightarrow> bool" where
  "hex_char c \<longleftrightarrow> c \<in> set ''0123456789abcdef''"

definition verify_signed_request :: "webhook_host \<Rightarrow> webhook_settings \<Rightarrow> rat \<Rightarrow> string \<Rightarrow> string \<Rightarrow> string \<Rightarrow> (string, string) dict \<Rightarrow> string
    \<Rightarrow> exc + signed_request" where
  "verify_signed_request wh ws now method path body headers expected_source =
     (let hd_of = (\<lambda>name. dict_get headers name []); missing = filter (\<lambda>name. hd_of name = []) REQUIRED_HEADERS;
          source = hd_of ''x-codestra-source''; event_id = hd_of ''x-codestra-event-id''; timestamp = hd_of ''x-codestra-timestamp'';
          body_sha = sha256 (wh_host wh) body; supplied = hd_of ''x-codestra-signature''; supplied_hex = py_lower (drop 7 supplied)
      in if missing \<noteq> [] then Inl (Exc RequestValidationError (''missing required headers: '' @ joined '', '' missing))
         else if py_lower (py_strip (takeWhile (\<lambda>c. c \<noteq> CHR '';'') (hd_of ''content-type''))) \<noteq> ''application/json''
         then Inl (Exc RequestValidationError ''Content-Type must be application/json'')
         else if source \<noteq> expected_source then Inl (Exc AuthorizationError ''X-Codestra-Source does not match route producer'')
         else if hd_of ''idempotency-key'' \<noteq> event_id then Inl (Exc RequestValidationError ''Idempotency-Key must equal X-Codestra-Event-Id'')
         else (case parse_timestamp wh timestamp of
             Inl e \<Rightarrow> Inl e
           | Inr observed \<Rightarrow>
               if \<bar>now - observed\<bar> > ws_max_clock_skew_seconds ws
               then Inl (Exc SignatureError ''webhook timestamp is outside the allowed clock skew'')
               else (case webhook_secret ws expected_source of
                   Inl e \<Rightarrow> Inl e
                 | Inr secret \<Rightarrow>
                     if \<not> startswith supplied ''sha256='' then Inl (Exc SignatureError ''X-Codestra-Signature must use sha256=<hex>'')
                     else if length supplied_hex \<noteq> 64 \<or> \<not> list_all hex_char supplied_hex
                     then Inl (Exc SignatureError ''X-Codestra-Signature contains invalid hex'')
                     else if supplied_hex \<noteq> wh_hmac wh secret (canonical_request method path timestamp event_id source body_sha)
                     then Inl (Exc SignatureError ''invalid webhook signature'')
                     else Inr \<lparr>sr_body_sha256 = body_sha, sr_event_id = event_id, sr_event_type = hd_of ''x-codestra-event-type'',
                       sr_source_client_id = source, sr_tenant_id = hd_of ''x-codestra-tenant-id'', sr_correlation_id = hd_of ''x-correlation-id'',
                       sr_idempotency_key = hd_of ''idempotency-key'', sr_timestamp = timestamp\<rparr>)))"

subsection \<open>The envelope\<close>

definition snake_segment :: "string \<Rightarrow> bool" where
  "snake_segment s \<longleftrightarrow> s \<noteq> [] \<and> list_all (\<lambda>c. lower_alnum c \<or> c = CHR ''_'') s"

definition event_type_pattern :: "string \<Rightarrow> bool" where
  "event_type_pattern s \<longleftrightarrow> (case split_on (\<lambda>c. c = CHR ''.'') s of
     first # rest \<Rightarrow> first = ''codestra'' \<and> 2 \<le> length rest \<and> list_all snake_segment rest | [] \<Rightarrow> False)"

definition valid_event :: "webhook_host \<Rightarrow> event_envelope \<Rightarrow> bool" where
  "valid_event wh e \<longleftrightarrow>
     1 \<le> length (ee_event_id e) \<and> length (ee_event_id e) \<le> 128
   \<and> event_type_pattern (ee_event_type e) \<and> length (ee_event_type e) \<le> 180 \<and> ee_event_version e = ''1.0''
   \<and> kebab (ee_source e) \<and> length (ee_source e) \<le> 100
   \<and> 1 \<le> length (ee_tenant_id e) \<and> length (ee_tenant_id e) \<le> 128
   \<and> (case ee_customer_id e of None \<Rightarrow> True | Some c \<Rightarrow> 1 \<le> length c \<and> length c \<le> 128)
   \<and> 1 \<le> length (ee_correlation_id e) \<and> length (ee_correlation_id e) \<le> 180
   \<and> 1 \<le> length (ee_causation_id e) \<and> length (ee_causation_id e) \<le> 180
   \<and> 8 \<le> length (ee_idempotency_key e) \<and> length (ee_idempotency_key e) \<le> 180
   \<and> length (ee_metadata e) \<le> 64
   \<and> wh_event_contract wh (filter (\<lambda>(k, v). v \<noteq> JNull) (event_json e))"

definition EVENT_FIELDS :: "string list" where
  "EVENT_FIELDS = [''event_id'', ''event_type'', ''event_version'', ''occurred_at'', ''received_at'', ''source'', ''tenant_id'',
     ''customer_id'', ''correlation_id'', ''causation_id'', ''idempotency_key'', ''payload'', ''metadata'']"

definition text_field :: "json_object \<Rightarrow> string \<Rightarrow> string option" where
  "text_field o' k = (case map_of o' k of Some (JStr s) \<Rightarrow> Some s | _ \<Rightarrow> None)"

definition object_field :: "json_object \<Rightarrow> string \<Rightarrow> json_object option" where
  "object_field o' k = (case map_of o' k of Some (JObj kvs) \<Rightarrow> Some kvs | _ \<Rightarrow> None)"

definition aware_field :: "webhook_host \<Rightarrow> json_object \<Rightarrow> string \<Rightarrow> string option" where
  "aware_field wh o' k = (case map_of o' k of None \<Rightarrow> None | Some v \<Rightarrow>
     (case wh_datetime wh v of Some (text, True) \<Rightarrow> Some text | _ \<Rightarrow> None))"

definition optional_field :: "json_object \<Rightarrow> string \<Rightarrow> string option option" where
  "optional_field o' k = (case map_of o' k of None \<Rightarrow> Some None | Some JNull \<Rightarrow> Some None | Some (JStr s) \<Rightarrow> Some (Some s) | _ \<Rightarrow> None)"

definition event_fields :: "webhook_host \<Rightarrow> json_object \<Rightarrow> event_envelope option" where
  "event_fields wh o' = do {
     eid \<leftarrow> text_field o' ''event_id'';
     etype \<leftarrow> text_field o' ''event_type'';
     version \<leftarrow> text_field o' ''event_version'';
     occurred \<leftarrow> aware_field wh o' ''occurred_at'';
     received \<leftarrow> aware_field wh o' ''received_at'';
     source \<leftarrow> text_field o' ''source'';
     tenant \<leftarrow> text_field o' ''tenant_id'';
     customer \<leftarrow> optional_field o' ''customer_id'';
     corr \<leftarrow> text_field o' ''correlation_id'';
     caus \<leftarrow> text_field o' ''causation_id'';
     ikey \<leftarrow> text_field o' ''idempotency_key'';
     payload \<leftarrow> object_field o' ''payload'';
     metadata \<leftarrow> object_field o' ''metadata'';
     Some \<lparr>ee_event_id = eid, ee_event_type = etype, ee_event_version = version, ee_occurred_at = occurred, ee_received_at = received,
       ee_source = source, ee_tenant_id = tenant, ee_customer_id = customer, ee_correlation_id = corr, ee_causation_id = caus,
       ee_idempotency_key = ikey, ee_payload = payload, ee_metadata = metadata\<rparr>
   }"

text \<open>\<open>EventEnvelope.model_validate\<close>: \<open>None\<close> is a \<open>ValidationError\<close>.\<close>

definition event_of_json :: "webhook_host \<Rightarrow> json \<Rightarrow> event_envelope option" where
  "event_of_json wh v =
     (case v of
        JObj o' \<Rightarrow>
          do { e \<leftarrow> event_fields wh o';
               if list_all (\<lambda>(k, _). k \<in> set EVENT_FIELDS) o' \<and> valid_event wh e then Some e else None }
      | _ \<Rightarrow> None)"

lemma event_of_json_valid: "event_of_json wh v = Some e \<Longrightarrow> valid_event wh e"
  by (auto simp: event_of_json_def bind_eq_Some_conv split: json.splits if_splits)

subsection \<open>Replay guards\<close>

record 's replay_guard =
  rg_acquire :: "string \<Rightarrow> string \<Rightarrow> ('s, string) prog"
  rg_release :: "string \<Rightarrow> string \<Rightarrow> string \<Rightarrow> ('s, unit) prog"

type_synonym held_keys = "(string \<times> string) list"

definition memory_guard_acquire :: "string \<Rightarrow> string \<Rightarrow> (held_keys, string) prog" where
  "memory_guard_acquire tenant_id event_id held =
     (if (tenant_id, event_id) \<in> set held then (Inl (Exc ReplayBusy ''event is already being processed''), held)
      else (Inr ''memory'', (tenant_id, event_id) # held))"

definition memory_guard_release :: "string \<Rightarrow> string \<Rightarrow> string \<Rightarrow> (held_keys, unit) prog" where
  "memory_guard_release tenant_id event_id token held = (Inr (), removeAll (tenant_id, event_id) held)"

text \<open>The Redis guard over the two commands it sends: \<open>SET key token NX EX\<close> and the release script.\<close>

record 's redis_client =
  rd_set_nx :: "string \<Rightarrow> string \<Rightarrow> nat \<Rightarrow> ('s, bool) prog"
  rd_release_script :: "string \<Rightarrow> string \<Rightarrow> ('s, nat) prog"

definition replay_key :: "host \<Rightarrow> string \<Rightarrow> string \<Rightarrow> string" where
  "replay_key h tenant_id event_id = ''middleware:inbox-lock:'' @ sha256 h (json_dumps (JList [JStr tenant_id, JStr event_id]))"

definition redis_guard :: "host \<Rightarrow> 's redis_client \<Rightarrow> nat \<Rightarrow> string \<Rightarrow> 's replay_guard" where
  "redis_guard h client lock_seconds token = \<lparr>
     rg_acquire = \<lambda>tenant_id event_id. bindE (rd_set_nx client (replay_key h tenant_id event_id) token lock_seconds) (\<lambda>ok.
       if ok then retE token else raiseE ReplayBusy ''event is already being processed''),
     rg_release = \<lambda>tenant_id event_id token. thenE (rd_release_script client (replay_key h tenant_id event_id) token) (retE ())\<rparr>"

subsection \<open>A delivery\<close>

definition semantic_digest :: "webhook_host \<Rightarrow> event_envelope \<Rightarrow> string" where
  "semantic_digest wh e = canonical_payload_sha256 (wh_host wh) (event_json e)"

definition route_refusal :: "webhook_route \<Rightarrow> signed_request \<Rightarrow> event_envelope \<Rightarrow> exc option" where
  "route_refusal route sreq e =
     (if ee_event_type e \<notin> set (rt_event_types route) then Some (Exc EventTypeError ''event type is not allowed for this route'')
      else if sr_event_type sreq \<noteq> ee_event_type e then Some (Exc RequestValidationError ''X-Codestra-Event-Type does not match body'')
      else if sr_event_id sreq \<noteq> ee_event_id e then Some (Exc RequestValidationError ''X-Codestra-Event-Id does not match body'')
      else if sr_tenant_id sreq \<noteq> ee_tenant_id e then Some (Exc RequestValidationError ''X-Codestra-Tenant-Id does not match body'')
      else if sr_correlation_id sreq \<noteq> ee_correlation_id e then Some (Exc RequestValidationError ''X-Correlation-ID does not match body'')
      else if ee_idempotency_key e \<noteq> sr_idempotency_key sreq then Some (Exc RequestValidationError ''body idempotency_key does not match headers'')
      else if ee_source e \<noteq> rt_producer_client_id route then Some (Exc RequestValidationError ''body source does not match route producer'')
      else None)"

text \<open>The inbox call under the guard: \<open>try ... except ReplayBusy ... finally: release\<close>.\<close>

definition guarded_accept :: "'s replay_guard \<Rightarrow> (submission \<Rightarrow> ('s, ingress_result) prog) \<Rightarrow> submission \<Rightarrow> ('s, ingress_result) prog" where
  "guarded_accept guard accept s =
     (let e = su_envelope s in
      bindE (catchE (rg_acquire guard (ee_tenant_id e) (ee_event_id e))
          (\<lambda>x. if exc_class x = ReplayBusy then raiseE ProcessingConflictError (exc_text x) else reraiseE x)) (\<lambda>token.
        bindE (catchE (bindE (accept s) (\<lambda>r. retE (Inr r))) (\<lambda>x. retE (Inl x))) (\<lambda>outcome.
          thenE (rg_release guard (ee_tenant_id e) (ee_event_id e) token)
            (case outcome of
               Inl x \<Rightarrow> if exc_class x = ReplayConflict then raiseE ReplayConflictError (exc_text x)
                        else if exc_class x = ReplayBusy then raiseE ProcessingConflictError (exc_text x) else reraiseE x
             | Inr r \<Rightarrow> retE r))))"

definition webhook_submission :: "webhook_host \<Rightarrow> webhook_route \<Rightarrow> signed_request \<Rightarrow> event_envelope \<Rightarrow> submission" where
  "webhook_submission wh route sreq e = \<lparr>su_envelope = e, su_producer_client_id = rt_producer_client_id route, su_body_sha256 = sr_body_sha256 sreq,
     su_semantic_sha256 = semantic_digest wh e, su_deduplication_sha256 = None, su_destination = ''nats-jetstream''\<rparr>"

record webhook_request =
  rq_method :: string
  rq_path :: string
  rq_body :: string
  rq_headers :: "(string, string) dict"

definition accept_webhook :: "webhook_host \<Rightarrow> webhook_settings \<Rightarrow> 's replay_guard \<Rightarrow> (submission \<Rightarrow> ('s, ingress_result) prog) \<Rightarrow> rat
    \<Rightarrow> webhook_route \<Rightarrow> json_object \<Rightarrow> webhook_request \<Rightarrow> ('s, ingress_result \<times> nat) prog" where
  "accept_webhook wh ws guard accept now route claims rq =
     bindE (liftE (verify_signed_request wh ws now (rq_method rq) (rq_path rq) (rq_body rq) (rq_headers rq) (rt_producer_client_id route))) (\<lambda>sreq.
     case Option.bind (wh_loads wh (rq_body rq)) (event_of_json wh) of
       None \<Rightarrow> raiseE RequestValidationError ''body does not match the canonical event envelope''
     | Some e \<Rightarrow>
         thenE (liftE (authorize_tenant claims (ee_tenant_id e)))
           (case route_refusal route sreq e of
              Some x \<Rightarrow> reraiseE x
            | None \<Rightarrow> bindE (guarded_accept guard accept (webhook_submission wh route sreq e))
                (\<lambda>result. retE (result, if ir_duplicate result then 200 else 202))))"

text \<open>\<open>_accept\<close>: the bearer token, the bounded body, then the webhook.\<close>

definition lower_headers :: "(string, string) dict \<Rightarrow> (string, string) dict" where
  "lower_headers hs = fold (\<lambda>(k, v). AList.update (py_lower k) v) hs []"

definition deliver :: "webhook_host \<Rightarrow> webhook_settings \<Rightarrow> 's replay_guard \<Rightarrow> (submission \<Rightarrow> ('s, ingress_result) prog) \<Rightarrow> rat
    \<Rightarrow> webhook_route \<Rightarrow> webhook_request \<Rightarrow> ('s, ingress_result \<times> nat) prog" where
  "deliver wh ws guard accept now route rq =
     (let headers = lower_headers (rq_headers rq) in
      bindE (liftE (verify_bearer wh (dict_get headers ''authorization'' []) (rt_producer_client_id route) (rt_required_scope route))) (\<lambda>claims.
      if length (rq_body rq) > ws_max_request_body_bytes ws
      then raiseE PayloadTooLargeError (''request body exceeds '' @ nat_str (ws_max_request_body_bytes ws) @ '' bytes'')
      else accept_webhook wh ws guard accept now route claims (rq\<lparr>rq_headers := headers\<rparr>)))"

end
