(* ===== verification/Webhook_Guarantees.thy ===== *)
theory Webhook_Guarantees
  imports Webhook_Ingress
begin

text \<open>
  What the webhook ingress guarantees: the contract between a delivery and its replay guard as a
  locale, with the in-memory guard over either inbox as its instance; that only authentic and
  authorised deliveries reach the inbox; and that redelivering an accepted webhook never files
  it again.
\<close>

subsection \<open>Deliveries under a guard\<close>

text \<open>How the answer of the inbox is passed on.\<close>

definition answer_of :: "exc + ingress_result \<Rightarrow> exc + ingress_result" where
  "answer_of r = (case r of
     Inl x \<Rightarrow> if exc_class x = ReplayConflict then Inl (Exc ReplayConflictError (exc_text x))
              else if exc_class x = ReplayBusy then Inl (Exc ProcessingConflictError (exc_text x)) else Inl x
   | Inr a \<Rightarrow> Inr a)"

locale replay_protected =
  fixes guard :: "'s replay_guard" and accept :: "submission \<Rightarrow> ('s, ingress_result) prog"
    and held :: "'s \<Rightarrow> (string \<times> string) set" and inbox :: "'s \<Rightarrow> 'i"
  assumes acquire_busy: "(t, e) \<in> held x \<Longrightarrow> \<exists>m. rg_acquire guard t e x = (Inl (Exc ReplayBusy m), x)"
    and acquire_free: "(t, e) \<notin> held x \<Longrightarrow> \<exists>token x'. rg_acquire guard t e x = (Inr token, x') \<and> held x' = insert (t, e) (held x) \<and> inbox x' = inbox x"
    and release: "\<exists>x'. rg_release guard t e token x = (Inr (), x') \<and> held x' = held x - {(t, e)} \<and> inbox x' = inbox x"
    and accept_view: "inbox x = inbox y \<Longrightarrow> fst (accept s x) = fst (accept s y) \<and> inbox (snd (accept s x)) = inbox (snd (accept s y))"
    and accept_held: "held (snd (accept s x)) = held x"
begin

text \<open>A busy key is refused and nothing happens; otherwise the inbox decides and the key is free again.\<close>

lemma guarded_busy:
  "(ee_tenant_id (su_envelope s), ee_event_id (su_envelope s)) \<in> held x \<Longrightarrow> \<exists>m. guarded_accept guard accept s x = (Inl (Exc ProcessingConflictError m), x)"
  using acquire_busy [of "ee_tenant_id (su_envelope s)" "ee_event_id (su_envelope s)" x] by (auto simp: guarded_accept_def Let_def prog_defs)

lemma guarded_free:
  assumes "(ee_tenant_id (su_envelope s), ee_event_id (su_envelope s)) \<notin> held x"
  shows "\<exists>x'. guarded_accept guard accept s x = (answer_of (fst (accept s x)), x') \<and> held x' = held x \<and> inbox x' = inbox (snd (accept s x))"
proof -
  let ?t = "ee_tenant_id (su_envelope s)" and ?e = "ee_event_id (su_envelope s)"
  obtain token x1 where a: "rg_acquire guard ?t ?e x = (Inr token, x1)" "held x1 = insert (?t, ?e) (held x)" "inbox x1 = inbox x"
    using acquire_free [OF assms] by blast
  obtain res x2 where b: "accept s x1 = (res, x2)" by fastforce
  have res: "res = fst (accept s x)" "inbox x2 = inbox (snd (accept s x))" using accept_view [OF a(3), of s] b by simp_all
  obtain x3 where c: "rg_release guard ?t ?e token x2 = (Inr (), x3)" "held x3 = held x2 - {(?t, ?e)}" "inbox x3 = inbox x2"
    using release by blast
  have "held x3 = held x" using c(2) accept_held [of s x1] b a(2) assms by simp
  moreover have "guarded_accept guard accept s x = (answer_of res, x3)"
    using a(1) b c(1) by (cases res) (auto simp: guarded_accept_def Let_def prog_defs answer_of_def)
  ultimately show ?thesis using res c(3) by metis
qed

lemma guarded_held: "held (snd (guarded_accept guard accept s x)) = held x"
  using guarded_busy [of s x] guarded_free [of s x] by (metis snd_conv)

lemma guarded_Inr:
  assumes "guarded_accept guard accept s x = (Inr r, x')"
  shows "fst (accept s x) = Inr r \<and> inbox x' = inbox (snd (accept s x)) \<and> held x' = held x"
proof (cases "(ee_tenant_id (su_envelope s), ee_event_id (su_envelope s)) \<in> held x")
  case True
  then show ?thesis using guarded_busy [OF True] assms by auto
next
  case False
  then show ?thesis using guarded_free [OF False] assms by (auto simp: answer_of_def split: sum.splits if_splits)
qed

end

subsection \<open>The in-memory guard over an inbox\<close>

record 'i ingress_state =
  is_inbox :: 'i
  is_held :: held_keys

definition on_is_inbox :: "('i, 'a) prog \<Rightarrow> ('i ingress_state, 'a) prog" where
  "on_is_inbox m = zoomE is_inbox (\<lambda>i x. x\<lparr>is_inbox := i\<rparr>) m"

definition on_is_held :: "(held_keys, 'a) prog \<Rightarrow> ('i ingress_state, 'a) prog" where
  "on_is_held m = zoomE is_held (\<lambda>k x. x\<lparr>is_held := k\<rparr>) m"

definition memory_guard :: "'i ingress_state replay_guard" where
  "memory_guard = \<lparr>rg_acquire = \<lambda>t e. on_is_held (memory_guard_acquire t e), rg_release = \<lambda>t e token. on_is_held (memory_guard_release t e token)\<rparr>"

interpretation ing: replay_protected memory_guard "\<lambda>s. on_is_inbox (f s)" "\<lambda>x. set (is_held x)" is_inbox for f
  by unfold_locales (auto simp: memory_guard_def on_is_held_def on_is_inbox_def zoomE_def memory_guard_acquire_def memory_guard_release_def
      split: prod.splits)

subsection \<open>Authentic deliveries\<close>

lemma verify_bearer_Inr:
  assumes "verify_bearer wh authorization client scope = Inr claims"
  shows "wh_jwt_decode wh (snd (partition_space authorization)) = Inr claims \<and> map_of claims ''azp'' = Some (JStr client)
    \<and> (\<exists>scopes. scope_set (map_of claims ''scope'') = Some scopes \<and> scope \<in> set scopes)
    \<and> (\<exists>iat ex. strict_numeric_timestamp wh claims ''iat'' = Inr iat \<and> strict_numeric_timestamp wh claims ''exp'' = Inr ex \<and> iat < ex \<and> ex \<le> iat + 300)"
  using assms
  by (auto simp: verify_bearer_def verify_sync_def validate_claims_def split: prod.splits if_splits sum.splits option.splits)

lemma authorize_tenant_Inr:
  "authorize_tenant claims t = Inr () \<longleftrightarrow> t \<in> set (authorized_tenants claims) \<and> ''*'' \<notin> set (authorized_tenants claims)"
  by (auto simp: authorize_tenant_def Let_def)

lemma route_refusal_None:
  "route_refusal route sreq e = None \<longleftrightarrow> ee_event_type e \<in> set (rt_event_types route) \<and> sr_event_type sreq = ee_event_type e
     \<and> sr_event_id sreq = ee_event_id e \<and> sr_tenant_id sreq = ee_tenant_id e \<and> sr_correlation_id sreq = ee_correlation_id e
     \<and> ee_idempotency_key e = sr_idempotency_key sreq \<and> ee_source e = rt_producer_client_id route"
  by (simp add: route_refusal_def)

text \<open>What a verified signature says about a request.\<close>

definition authentic :: "webhook_host \<Rightarrow> webhook_settings \<Rightarrow> rat \<Rightarrow> webhook_request \<Rightarrow> string \<Rightarrow> bool" where
  "authentic wh ws now rq producer \<longleftrightarrow>
     (let hd_of = (\<lambda>name. dict_get (rq_headers rq) name []) in
      \<exists>secret observed. webhook_secret ws producer = Inr secret \<and> 32 \<le> length secret
       \<and> parse_timestamp wh (hd_of ''x-codestra-timestamp'') = Inr observed \<and> \<bar>now - observed\<bar> \<le> ws_max_clock_skew_seconds ws
       \<and> hd_of ''x-codestra-source'' = producer \<and> startswith (hd_of ''x-codestra-signature'') ''sha256=''
       \<and> py_lower (drop 7 (hd_of ''x-codestra-signature'')) = wh_hmac wh secret (canonical_request (rq_method rq) (rq_path rq)
            (hd_of ''x-codestra-timestamp'') (hd_of ''x-codestra-event-id'') producer (sha256 (wh_host wh) (rq_body rq))))"

lemma verify_signed_Inr:
  assumes "verify_signed_request wh ws now (rq_method rq) (rq_path rq) (rq_body rq) (rq_headers rq) producer = Inr sreq"
  shows "authentic wh ws now rq producer \<and> sr_event_id sreq = dict_get (rq_headers rq) ''x-codestra-event-id'' []
    \<and> sr_idempotency_key sreq = sr_event_id sreq \<and> sr_body_sha256 sreq = sha256 (wh_host wh) (rq_body rq)
    \<and> sr_tenant_id sreq = dict_get (rq_headers rq) ''x-codestra-tenant-id'' []"
proof -
  obtain observed where o: "parse_timestamp wh (dict_get (rq_headers rq) ''x-codestra-timestamp'' []) = Inr observed"
    using assms by (auto simp: verify_signed_request_def Let_def split: if_splits sum.splits)
  obtain secret where k: "webhook_secret ws producer = Inr secret"
    using assms by (auto simp: verify_signed_request_def Let_def split: if_splits sum.splits)
  then have "32 \<le> length secret" by (auto simp: webhook_secret_def Let_def split: if_splits)
  with assms o k show ?thesis by (auto simp: verify_signed_request_def Let_def authentic_def split: if_splits)
qed

lemma accept_webhook_Inr:
  assumes "accept_webhook wh ws memory_guard (\<lambda>s. on_is_inbox (f s)) now route claims rq x = (Inr (res, code), x')"
  shows "\<exists>sreq e. verify_signed_request wh ws now (rq_method rq) (rq_path rq) (rq_body rq) (rq_headers rq) (rt_producer_client_id route) = Inr sreq
    \<and> Option.bind (wh_loads wh (rq_body rq)) (event_of_json wh) = Some e \<and> authorize_tenant claims (ee_tenant_id e) = Inr ()
    \<and> route_refusal route sreq e = None \<and> f (webhook_submission wh route sreq e) (is_inbox x) = (Inr res, is_inbox x')
    \<and> set (is_held x') = set (is_held x) \<and> code = (if ir_duplicate res then 200 else 202)"
proof -
  obtain sreq where s: "verify_signed_request wh ws now (rq_method rq) (rq_path rq) (rq_body rq) (rq_headers rq) (rt_producer_client_id route) = Inr sreq"
    using assms unfolding accept_webhook_def bindE_def liftE_run
    by (cases "verify_signed_request wh ws now (rq_method rq) (rq_path rq) (rq_body rq) (rq_headers rq) (rt_producer_client_id route)") simp_all
  obtain e where e: "Option.bind (wh_loads wh (rq_body rq)) (event_of_json wh) = Some e"
    using assms s by (auto simp: accept_webhook_def bindE_def liftE_run raiseE_def split: option.splits)
  have t: "authorize_tenant claims (ee_tenant_id e) = Inr ()"
    using assms s e by (cases "authorize_tenant claims (ee_tenant_id e)") (auto simp: accept_webhook_def thenE_def bindE_def liftE_run)
  have r: "route_refusal route sreq e = None"
    using assms s e t by (cases "route_refusal route sreq e") (auto simp: accept_webhook_def thenE_def bindE_def liftE_run reraiseE_def)
  let ?s = "webhook_submission wh route sreq e"
  obtain g: "guarded_accept memory_guard (\<lambda>s. on_is_inbox (f s)) ?s x = (Inr res, x')" and "code = (if ir_duplicate res then 200 else 202)"
    using assms s e t r
    by (cases "guarded_accept memory_guard (\<lambda>s. on_is_inbox (f s)) ?s x")
      (auto simp: accept_webhook_def thenE_def bindE_def liftE_run retE_def split: sum.splits)
  moreover have "f ?s (is_inbox x) = (Inr res, is_inbox x')" "set (is_held x') = set (is_held x)"
    using ing.guarded_Inr [OF g] by (auto simp: on_is_inbox_def zoomE_def split: prod.splits)
  ultimately show ?thesis using s e t r by blast
qed

text \<open>
  C13. Only authentic and authorised webhooks reach the inbox. A delivery that is answered with
  success carried a bearer token whose decoded claims name the producer of the route, contain
  its scope and live for at most 300 seconds; its body parses to a valid event of a tenant the
  token is authorised for (never by wildcard), of an event type of the route, from the producer
  of the route, under the event id and idempotency key of the headers; its signature is the
  HMAC, under the producer's secret of at least 32 bytes, of method, path, timestamp, event id,
  producer and the digest of the body; its timestamp is within the allowed clock skew. The
  answer is the inbox's answer, with status 200 exactly for duplicates, and the replay guard
  holds what it held before.
\<close>

theorem webhook_accepts_only_authentic:
  assumes "deliver wh ws memory_guard (\<lambda>s. on_is_inbox (f s)) now route rq x = (Inr (res, code), x')"
  shows "\<exists>claims e sreq. wh_jwt_decode wh (snd (partition_space (dict_get (lower_headers (rq_headers rq)) ''authorization'' []))) = Inr claims
    \<and> map_of claims ''azp'' = Some (JStr (rt_producer_client_id route))
    \<and> (\<exists>scopes. scope_set (map_of claims ''scope'') = Some scopes \<and> rt_required_scope route \<in> set scopes)
    \<and> (\<exists>iat ex. strict_numeric_timestamp wh claims ''iat'' = Inr iat \<and> strict_numeric_timestamp wh claims ''exp'' = Inr ex \<and> iat < ex \<and> ex \<le> iat + 300)
    \<and> Option.bind (wh_loads wh (rq_body rq)) (event_of_json wh) = Some e \<and> valid_event wh e
    \<and> ee_tenant_id e \<in> set (authorized_tenants claims) \<and> ''*'' \<notin> set (authorized_tenants claims)
    \<and> ee_event_type e \<in> set (rt_event_types route) \<and> ee_source e = rt_producer_client_id route \<and> ee_idempotency_key e = ee_event_id e
    \<and> dict_get (lower_headers (rq_headers rq)) ''x-codestra-event-id'' [] = ee_event_id e
    \<and> dict_get (lower_headers (rq_headers rq)) ''x-codestra-tenant-id'' [] = ee_tenant_id e
    \<and> authentic wh ws now (rq\<lparr>rq_headers := lower_headers (rq_headers rq)\<rparr>) (rt_producer_client_id route)
    \<and> f (webhook_submission wh route sreq e) (is_inbox x) = (Inr res, is_inbox x') \<and> set (is_held x') = set (is_held x)
    \<and> code = (if ir_duplicate res then 200 else 202)"
proof -
  let ?rq = "rq\<lparr>rq_headers := lower_headers (rq_headers rq)\<rparr>"
  obtain claims where v: "verify_bearer wh (dict_get (lower_headers (rq_headers rq)) ''authorization'' []) (rt_producer_client_id route) (rt_required_scope route) = Inr claims"
    and a: "accept_webhook wh ws memory_guard (\<lambda>s. on_is_inbox (f s)) now route claims ?rq x = (Inr (res, code), x')"
    using assms by (auto simp: deliver_def Let_def bindE_def liftE_run raiseE_def split: sum.splits if_splits prod.splits)
  obtain sreq e where s: "verify_signed_request wh ws now (rq_method ?rq) (rq_path ?rq) (rq_body ?rq) (rq_headers ?rq) (rt_producer_client_id route) = Inr sreq"
    and e: "Option.bind (wh_loads wh (rq_body rq)) (event_of_json wh) = Some e" and t: "authorize_tenant claims (ee_tenant_id e) = Inr ()"
    and r: "route_refusal route sreq e = None" and rest: "f (webhook_submission wh route sreq e) (is_inbox x) = (Inr res, is_inbox x')"
      "set (is_held x') = set (is_held x)" "code = (if ir_duplicate res then 200 else 202)"
    using accept_webhook_Inr [OF a] by auto
  have "valid_event wh e" using e event_of_json_valid by (auto simp: bind_eq_Some_conv)
  with verify_bearer_Inr [OF v] e t [unfolded authorize_tenant_Inr] r [unfolded route_refusal_None] verify_signed_Inr [OF s] rest show ?thesis
    by (intro exI [of _ claims] exI [of _ e] exI [of _ sreq]) simp
qed


subsection \<open>Redelivery\<close>

definition REFUSALS :: "exc_class list" where
  "REFUSALS = SECURITY_ERRORS @ [ConfigurationError, EventTypeError, PayloadTooLargeError, ProcessingConflictError]"

lemmas refusal_defs = REFUSALS_def SECURITY_ERRORS_def AuthenticationError_def SignatureError_def RequestValidationError_def ConfigurationError_def
  EventTypeError_def PayloadTooLargeError_def ProcessingConflictError_def

lemma refused_timestamp: "parse_timestamp wh raw = Inl e \<Longrightarrow> exc_class e = RequestValidationError"
  by (auto simp: parse_timestamp_def split: option.splits pyfloat.splits)

lemma refused_secret: "webhook_secret ws producer = Inl e \<Longrightarrow> exc_class e = ConfigurationError"
  by (auto simp: webhook_secret_def Let_def split: if_splits)

lemma refused_signature:
  "verify_signed_request wh ws now method path body headers producer = Inl e
   \<Longrightarrow> exc_class e \<in> {RequestValidationError, AuthorizationError, SignatureError, ConfigurationError}"
  unfolding verify_signed_request_def Let_def
  by (simp split: if_split_asm sum.split_asm) (auto dest: refused_timestamp refused_secret)

lemma refused_early:
  "verify_bearer wh authorization client scope = Inl e \<Longrightarrow> exc_class e \<in> set REFUSALS"
  "verify_signed_request wh ws now method path body headers producer = Inl e \<Longrightarrow> exc_class e \<in> set REFUSALS"
  "authorize_tenant claims t = Inl e \<Longrightarrow> exc_class e \<in> set REFUSALS"
  "route_refusal route sreq ev = Some e \<Longrightarrow> exc_class e \<in> set REFUSALS"
  subgoal by (auto simp: verify_bearer_def REFUSALS_def SECURITY_ERRORS_def split: prod.splits if_splits sum.splits)
  subgoal by (drule refused_signature) (auto simp: REFUSALS_def SECURITY_ERRORS_def)
  subgoal by (auto simp: authorize_tenant_def Let_def REFUSALS_def SECURITY_ERRORS_def split: if_splits)
  subgoal by (auto simp: route_refusal_def REFUSALS_def SECURITY_ERRORS_def split: if_splits)
  done

lemma deliver_cases:
  obtains (refused) ex where "deliver wh ws guard accept now route rq x = (Inl ex, x)" "exc_class ex \<in> set REFUSALS"
  | (passed) sreq e where "Option.bind (wh_loads wh (rq_body rq)) (event_of_json wh) = Some e"
    "deliver wh ws guard accept now route rq x
      = bindE (guarded_accept guard accept (webhook_submission wh route sreq e)) (\<lambda>r. retE (r, if ir_duplicate r then 200 else 202)) x"
proof -
  let ?h = "lower_headers (rq_headers rq)"
  let ?v = "verify_bearer wh (dict_get ?h ''authorization'' []) (rt_producer_client_id route) (rt_required_scope route)"
  let ?s = "verify_signed_request wh ws now (rq_method rq) (rq_path rq) (rq_body rq) ?h (rt_producer_client_id route)"
  let ?b = "Option.bind (wh_loads wh (rq_body rq)) (event_of_json wh)"
  note run = deliver_def Let_def accept_webhook_def thenE_def bindE_def liftE_run raiseE_def reraiseE_def
  have stop: thesis if "deliver wh ws guard accept now route rq x = (Inl ex, x)" "exc_class ex \<in> set REFUSALS" for ex using that by (rule refused)
  show thesis
  proof (cases ?v)
    case (Inl ex)
    then show ?thesis using refused_early(1) [OF Inl] by (intro stop [of ex]) (simp_all add: run)
  next
    case v: (Inr claims)
    show ?thesis
    proof (cases "length (rq_body rq) > ws_max_request_body_bytes ws")
      case True
      show ?thesis by (rule stop) (use v True in \<open>simp add: run\<close>, simp add: refusal_defs)
    next
      case False
      show ?thesis
      proof (cases ?s)
        case (Inl ex)
        then show ?thesis using refused_early(2) [OF Inl] v False by (intro stop [of ex]) (simp_all add: run)
      next
        case s: (Inr sreq)
        show ?thesis
        proof (cases ?b)
          case None
          show ?thesis by (rule stop) (use v False s None in \<open>simp add: run\<close>, simp add: refusal_defs)
        next
          case e: (Some e)
          show ?thesis
          proof (cases "authorize_tenant claims (ee_tenant_id e)")
            case (Inl ex)
            then show ?thesis using refused_early(3) [OF Inl] v False s e by (intro stop [of ex]) (simp_all add: run)
          next
            case t: (Inr u)
            show ?thesis
            proof (cases "route_refusal route sreq e")
              case (Some ex)
              then show ?thesis using refused_early(4) [OF Some] v False s e t by (intro stop [of ex]) (simp_all add: run)
            next
              case None
              show ?thesis by (rule passed [OF e, of sreq]) (use v False s e t None in \<open>simp add: run\<close>)
            qed
          qed
        qed
      qed
    qed
  qed
qed

lemma memory_items_keep:
  assumes "run (memory_inbox_step h) st st'"
  shows "(map_of (mi_event_items st) k = Some v \<longrightarrow> map_of (mi_event_items st') k = Some v)
    \<and> (map_of (mi_idempotency_items st) k' = Some v' \<longrightarrow> map_of (mi_idempotency_items st') k' = Some v')"
  using assms
proof (induction rule: run.induct)
  case (run_step s t u)
  then obtain x where u: "u = snd (memory_accept h x t)" by (auto elim: memory_inbox_step.cases)
  have "map_of (mi_event_items t) k = Some v \<Longrightarrow> map_of (mi_event_items u) k = Some v"
    and "map_of (mi_idempotency_items t) k' = Some v' \<Longrightarrow> map_of (mi_idempotency_items u) k' = Some v'"
    unfolding u by (auto simp: memory_accept_def memory_file_def Let_def split: if_splits option.splits)
  with run_step.IH show ?case by blast
qed simp

lemma memory_accept_new:
  assumes "memory_accept h s st = (Inr r, st')" and "\<not> ir_duplicate r"
  shows "map_of (mi_event_items st') (memory_event_key s) = Some (comparison_sha256 s, r)
    \<and> map_of (mi_idempotency_items st') (ee_tenant_id (su_envelope s), ee_idempotency_key (su_envelope s)) = Some (comparison_sha256 s, r)
    \<and> canonical_payload_sha256 h (event_json (su_envelope s)) = su_semantic_sha256 s"
  using assms by (auto simp: memory_accept_def memory_file_def Let_def split: if_splits option.splits)

lemma memory_accept_again:
  assumes "map_of (mi_event_items st) (memory_event_key s) = Some (comparison_sha256 s, r)"
    and "map_of (mi_idempotency_items st) (ee_tenant_id (su_envelope s), ee_idempotency_key (su_envelope s)) = Some (comparison_sha256 s, r)"
    and "canonical_payload_sha256 h (event_json (su_envelope s)) = su_semantic_sha256 s"
  shows "memory_accept h s st = (Inr (r\<lparr>ir_status := ''duplicate'', ir_duplicate := True\<rparr>), st)"
  using assms by (simp add: memory_accept_def Let_def)



subsection \<open>A concrete delivery\<close>

definition short_host :: host where
  "short_host = \<lparr>sha256 = take 8, contract_ok = \<lambda>_. True\<rparr>"

definition sample_body :: json where
  "sample_body = JObj [(''event_id'', JStr ''event-0001''), (''event_type'', JStr ''codestra.lead.created''), (''event_version'', JStr ''1.0''),
     (''occurred_at'', JStr ''t0''), (''received_at'', JStr ''t0''), (''source'', JStr ''odoo-integration''), (''tenant_id'', JStr ''T1''),
     (''correlation_id'', JStr ''c1''), (''causation_id'', JStr ''c1''), (''idempotency_key'', JStr ''event-0001''), (''payload'', JObj []),
     (''metadata'', JObj [])]"

definition sample_token_claims :: json_object where
  "sample_token_claims = [(''azp'', JStr ''odoo-integration''), (''scope'', JStr ''odoo.events.publish''), (''iat'', JInt 0), (''exp'', JInt 300),
     (''tenant_id'', JStr ''T1'')]"

definition sample_webhook_host :: webhook_host where
  "sample_webhook_host = \<lparr>wh_host = short_host, wh_hmac = \<lambda>_ _. replicate 64 CHR ''0'', wh_loads = \<lambda>_. Some sample_body,
     wh_jwt_decode = \<lambda>_. Inr sample_token_claims, wh_float = \<lambda>v. (case v of JInt i \<Rightarrow> Some (Finite (of_int i)) | _ \<Rightarrow> None), wh_parse_float = \<lambda>_. Some (Finite 100),
     wh_fromisoformat = \<lambda>_. None, wh_datetime = \<lambda>v. (case v of JStr s \<Rightarrow> Some (s, True) | _ \<Rightarrow> None), wh_event_contract = \<lambda>_. True\<rparr>"

definition sample_webhook_settings :: webhook_settings where
  "sample_webhook_settings = \<lparr>ws_webhook_secrets = [(''odoo-integration'', replicate 32 CHR ''k'')], ws_max_clock_skew_seconds = 300, ws_max_request_body_bytes = 1024\<rparr>"

definition sample_route :: webhook_route where
  "sample_route = \<lparr>rt_producer_client_id = ''odoo-integration'', rt_required_scope = ''odoo.events.publish'', rt_path = ''/api/v1/odoo/events'',
     rt_event_types = [''codestra.lead.created'']\<rparr>"

definition sample_request :: webhook_request where
  "sample_request = \<lparr>rq_method = ''POST'', rq_path = ''/api/v1/odoo/events'', rq_body = ''{}'', rq_headers = [(''Authorization'', ''Bearer x''),
     (''Content-Type'', ''application/json''), (''Idempotency-Key'', ''event-0001''), (''X-Codestra-Event-Id'', ''event-0001''),
     (''X-Codestra-Event-Type'', ''codestra.lead.created''), (''X-Codestra-Source'', ''odoo-integration''), (''X-Codestra-Tenant-Id'', ''T1''),
     (''X-Codestra-Timestamp'', ''100''), (''X-Codestra-Signature'', ''sha256='' @ replicate 64 CHR ''0''), (''X-Correlation-Id'', ''c1'')]\<rparr>"

definition sample_delivery :: "memory_inbox ingress_state \<Rightarrow> (exc + ingress_result \<times> nat) \<times> memory_inbox ingress_state" where
  "sample_delivery = deliver sample_webhook_host sample_webhook_settings memory_guard (\<lambda>s. on_is_inbox (memory_accept short_host s)) 120 sample_route sample_request"

definition idle_ingress :: "memory_inbox ingress_state" where
  "idle_ingress = \<lparr>is_inbox = empty_memory_inbox, is_held = []\<rparr>"

definition sample_answer :: ingress_result where
  "sample_answer = \<lparr>ir_event_id = ''event-0001'', ir_tenant_id = ''T1'', ir_status = ''accepted'', ir_duplicate = False, ir_correlation_id = ''c1''\<rparr>"

lemma sample_delivered: "fst (sample_delivery idle_ingress) = Inr (sample_answer, 202)"
  by code_simp


lemma sample_delivery_result:
  obtains y where "deliver sample_webhook_host sample_webhook_settings memory_guard (\<lambda>s. on_is_inbox (memory_accept short_host s)) 120 sample_route
      sample_request idle_ingress = (Inr (sample_answer, 202), y)"
  using sample_delivered unfolding sample_delivery_def
  by (cases "deliver sample_webhook_host sample_webhook_settings memory_guard (\<lambda>s. on_is_inbox (memory_accept short_host s)) 120 sample_route sample_request idle_ingress")
    simp

theorem webhook_accepts_only_authentic_witness:
  "fst (sample_delivery idle_ingress) = Inr (sample_answer, 202)
   \<and> authentic sample_webhook_host sample_webhook_settings 120 (sample_request\<lparr>rq_headers := lower_headers (rq_headers sample_request)\<rparr>) ''odoo-integration''"
proof -
  obtain y where "deliver sample_webhook_host sample_webhook_settings memory_guard (\<lambda>s. on_is_inbox (memory_accept short_host s)) 120 sample_route
      sample_request idle_ingress = (Inr (sample_answer, 202), y)" by (rule sample_delivery_result)
  from webhook_accepts_only_authentic [OF this] sample_delivered show ?thesis by (auto simp: sample_route_def)
qed


end
