(* ===== verification/Postgres_Store.thy ===== *)
theory Postgres_Store
  imports Outbox_Store
begin

text \<open>
  \<open>PostgresCommandStore\<close> of \<open>app/commands.py\<close>, operation by operation, and the tenant context of
  \<open>app/db/tenant_context.py\<close> its transactions are bound to. The tables of migrations 0002, 0004
  and 0013 are lists of rows in insertion order; the outbox is the one of \<open>Outbox_Store\<close>.

  A row carries the columns of the record the store builds from it, under that record's field
  names, and then the columns only the table has. The read-back evidence and the duplicate mark of
  an operation are no columns: a row has their defaults there and no statement reads them. The
  audit, attempt and dead-letter tables are append-only and numbered by sequences; a sequence
  value burnt by a rolled-back transaction is not modelled, since every statement uses the ids for
  order only. \<open>reading\<close> holds what an operation reads from outside: \<open>now()\<close> as the ledger's
  timestamp and on the clock of the outbox, and the next value of the outbox sequence. \<open>jsonb\<close> is
  what comes back of a document stored in a \<open>jsonb\<close> column. The response kept with a mutation is
  its operation; no column of it is a document. A row read \<open>FOR UPDATE\<close> stays locked to the end of
  the transaction, so transactions on one command run one after the other.
\<close>

subsection \<open>Tables\<close>

record command_row = command_operation +
  cr_payload :: json_object
  cr_payload_sha256 :: string
  cr_queued_at :: "int option"
  cr_accepted_at :: "int option"
  cr_completed_at :: "int option"
  cr_failed_at :: "int option"

record attempt_row = operation_attempt +
  ta_tenant_id :: string
  ta_result_payload :: "json_object option"
  ta_error_detail :: "string option"

record audit_row = operation_event +
  ad_tenant_id :: string

record mutation_row =
  mr_tenant_id :: string
  mr_command_id :: uuid
  mr_action :: mutation_action
  mr_actor_id :: string
  mr_idempotency_key :: string
  mr_request_sha256 :: string
  mr_response_payload :: command_operation

record command_db =
  pg_commands :: "command_row list"
  pg_attempts :: "attempt_row list"
  pg_audit :: "audit_row list"
  pg_mutations :: "mutation_row list"
  pg_dead_letters :: "dead_letter_record list"
  pg_replays :: "replay_record list"
  pg_outbox :: "outbox_row outbox_db"

definition empty_command_db :: command_db where
  "empty_command_db = \<lparr>pg_commands = [], pg_attempts = [], pg_audit = [], pg_mutations = [], pg_dead_letters = [],
     pg_replays = [], pg_outbox = \<lparr>db_rows = [], db_audit = no_audit\<rparr>\<rparr>"

record reading =
  rd_now :: int
  rd_clock :: rat
  rd_outbox_id :: nat

subsection \<open>The tenant of a transaction\<close>

definition tenant_char :: "char \<Rightarrow> bool" where
  "tenant_char c \<longleftrightarrow> lower_alnum c \<or> (65 \<le> (of_char c :: nat) \<and> (of_char c :: nat) \<le> 90)"

definition TENANT_ID_PATTERN :: "string \<Rightarrow> bool" where
  "TENANT_ID_PATTERN s \<longleftrightarrow> (case s of [] \<Rightarrow> False
     | c # cs \<Rightarrow> tenant_char c \<and> length cs \<le> 127 \<and> list_all (\<lambda>x. tenant_char x \<or> x \<in> set ''._:-'') cs)"

definition canonical_tenant_id :: "string \<Rightarrow> exc + string" where
  "canonical_tenant_id tenant =
     (let v = py_strip tenant in
      if v = [] then Inl (Exc ValueError ''tenant_id is required'')
      else if \<not> TENANT_ID_PATTERN v then Inl (Exc ValueError ''tenant_id contains unsupported characters'')
      else Inr v)"

definition resolve_tenant_id :: "string list \<Rightarrow> string option \<Rightarrow> exc + string" where
  "resolve_tenant_id authorized requested =
     (let tenants = fromkeys (filter (\<lambda>t. t \<noteq> []) (map py_strip authorized)) in
      if ''*'' \<in> set tenants then Inl (Exc ValueError ''wildcard tenant authorization is prohibited'')
      else case requested of
        Some r \<Rightarrow> (case canonical_tenant_id r of
            Inl e \<Rightarrow> Inl e
          | Inr v \<Rightarrow> if v \<notin> set tenants then Inl (Exc ValueError ''tenant authority does not cover requested tenant'')
                    else Inr v)
      | None \<Rightarrow> (case tenants of
            [t] \<Rightarrow> canonical_tenant_id t
          | _ \<Rightarrow> Inl (Exc ValueError ''explicit tenant_id is required for multi-tenant authority'')))"

text \<open>
  \<open>set_asyncpg_transaction_tenant_context\<close> at the start of a transaction. The policies that would
  read the setting are dropped by migration 0015; what is left is the check of the identifier.
\<close>

definition tenant_transaction :: "string \<Rightarrow> (command_db, 'a) prog \<Rightarrow> (command_db, 'a) prog" where
  "tenant_transaction tenant m = transaction (thenE (liftE (canonical_tenant_id tenant)) m)"

subsection \<open>Statements\<close>

definition on_outbox :: "(outbox_row outbox_db, 'a) prog \<Rightarrow> (command_db, 'a) prog" where
  "on_outbox m = zoomE pg_outbox (\<lambda>o' db. db\<lparr>pg_outbox := o'\<rparr>) m"

definition is_command :: "string \<Rightarrow> uuid \<Rightarrow> command_row \<Rightarrow> bool" where
  "is_command tenant cid r \<longleftrightarrow> co_tenant_id r = tenant \<and> co_command_id r = cid"

definition is_attempt :: "string \<Rightarrow> uuid \<Rightarrow> attempt_row \<Rightarrow> bool" where
  "is_attempt tenant cid a \<longleftrightarrow> ta_tenant_id a = tenant \<and> at_operation_id a = cid"

definition is_audit :: "string \<Rightarrow> uuid \<Rightarrow> audit_row \<Rightarrow> bool" where
  "is_audit tenant cid e \<longleftrightarrow> ad_tenant_id e = tenant \<and> ev_operation_id e = cid"

definition command_at :: "string \<Rightarrow> uuid \<Rightarrow> command_db \<Rightarrow> command_row option" where
  "command_at tenant cid db = find (is_command tenant cid) (pg_commands db)"

text \<open>\<open>INSERT INTO middleware_commands ... ON CONFLICT DO NOTHING RETURNING *\<close>.\<close>

definition insert_command :: "command_row \<Rightarrow> (command_db, command_row option) prog" where
  "insert_command r db =
     (if list_ex (\<lambda>x. co_tenant_id x = co_tenant_id r
            \<and> (co_command_id x = co_command_id r \<or> co_idempotency_key x = co_idempotency_key r)) (pg_commands db)
      then (Inr None, db)
      else (Inr (Some r), db\<lparr>pg_commands := pg_commands db @ [r]\<rparr>))"

text \<open>\<open>UPDATE middleware_commands ... RETURNING *\<close> of one command, and \<open>assert row is not None\<close>.\<close>

definition update_command :: "string \<Rightarrow> uuid \<Rightarrow> (command_row \<Rightarrow> command_row) \<Rightarrow> (command_db, command_row) prog" where
  "update_command tenant cid f db =
     (case command_at tenant cid db of
        None \<Rightarrow> (Inl (Exc (OtherException ''AssertionError'') []), db)
      | Some r \<Rightarrow> (Inr (f r), db\<lparr>pg_commands := map (\<lambda>x. if is_command tenant cid x then f x else x) (pg_commands db)\<rparr>))"

definition insert_audit :: "string \<Rightarrow> uuid \<Rightarrow> command_state option \<Rightarrow> command_state \<Rightarrow> string \<Rightarrow> string \<Rightarrow> json_object \<Rightarrow> int
    \<Rightarrow> (command_db, unit) prog" where
  "insert_audit tenant cid prev new actor reason meta now =
     modifyE (\<lambda>db. db\<lparr>pg_audit := pg_audit db @ [\<lparr>ev_event_id = length (pg_audit db) + 1, ev_operation_id = cid,
       ev_previous_state = prev, ev_new_state = new, ev_actor_id = actor, ev_reason = reason, ev_safe_metadata = meta,
       ev_created_at = now, ad_tenant_id = tenant\<rparr>]\<rparr>)"

definition max_attempt :: "string \<Rightarrow> uuid \<Rightarrow> command_db \<Rightarrow> nat" where
  "max_attempt tenant cid db = fold max (map at_attempt_number (filter (is_attempt tenant cid) (pg_attempts db))) 0"

definition newest_attempt :: "string \<Rightarrow> uuid \<Rightarrow> command_db \<Rightarrow> attempt_row option" where
  "newest_attempt tenant cid db = sql_first (\<lambda>a. - int (at_attempt_number a)) (is_attempt tenant cid) (pg_attempts db)"

definition insert_attempt :: "string \<Rightarrow> uuid \<Rightarrow> int \<Rightarrow> (command_db, unit) prog" where
  "insert_attempt tenant cid now =
     modifyE (\<lambda>db. db\<lparr>pg_attempts := pg_attempts db @ [\<lparr>at_attempt_id = length (pg_attempts db) + 1, at_operation_id = cid,
       at_attempt_number = max_attempt tenant cid db + 1, at_state = Dispatching, at_provider_operation_id = None,
       at_safe_error_code = None, at_started_at = now, at_finished_at = None, ta_tenant_id = tenant,
       ta_result_payload = None, ta_error_detail = None\<rparr>]\<rparr>)"

definition update_newest_attempt :: "string \<Rightarrow> uuid \<Rightarrow> (attempt_row \<Rightarrow> attempt_row) \<Rightarrow> (command_db, unit) prog" where
  "update_newest_attempt tenant cid f =
     modifyE (\<lambda>db. case newest_attempt tenant cid db of
        None \<Rightarrow> db
      | Some a \<Rightarrow> db\<lparr>pg_attempts := map (\<lambda>x. if at_attempt_id x = at_attempt_id a then f x else x) (pg_attempts db)\<rparr>)"

definition coalesce :: "'a option \<Rightarrow> 'a option \<Rightarrow> 'a option" where
  "coalesce a b = (if a \<noteq> None then a else b)"

text \<open>\<open>metadata ->> key\<close>.\<close>

definition json_member_text :: "json_object \<Rightarrow> string \<Rightarrow> string option" where
  "json_member_text d k = (case map_of d k of
     None \<Rightarrow> None | Some JNull \<Rightarrow> None | Some (JStr s) \<Rightarrow> Some s | Some v \<Rightarrow> Some (json_dumps v))"

subsection \<open>Reading an operation from its row\<close>

definition verify_readback_evidence_digest :: "host \<Rightarrow> json_object option \<Rightarrow> string option
    \<Rightarrow> exc + (json_object option \<times> string option)" where
  "verify_readback_evidence_digest h evidence digest =
     (case evidence of
        None \<Rightarrow> (if digest \<noteq> None then Inl (Exc RuntimeError ''read-back evidence digest has no evidence payload'')
                else Inr (None, None))
      | Some ev \<Rightarrow>
          (case digest of
             None \<Rightarrow> Inr (Some ev, None)
           | Some d \<Rightarrow> if provider_evidence_digest h ev \<noteq> d
                      then Inl (Exc RuntimeError ''persisted read-back evidence digest does not match payload'')
                      else Inr (Some ev, Some d)))"

definition row_operation :: "host \<Rightarrow> command_row \<Rightarrow> bool \<Rightarrow> json_object option \<Rightarrow> string option \<Rightarrow> exc + command_operation" where
  "row_operation h row duplicate evidence digest =
     (case verify_readback_evidence_digest h evidence digest of
        Inl e \<Rightarrow> Inl e
      | Inr (ev, d) \<Rightarrow> Inr ((command_operation.truncate row)\<lparr>co_readback_evidence := ev, co_readback_evidence_sha256 := d,
          co_duplicate := duplicate\<rparr>))"

text \<open>The newest attempt's payload, and the digest in the newest audit row that passes the filter.\<close>

definition persisted_evidence :: "string \<Rightarrow> uuid \<Rightarrow> (audit_row \<Rightarrow> bool) \<Rightarrow> command_db \<Rightarrow> json_object option \<times> string option" where
  "persisted_evidence tenant cid P db =
     (Option.bind (newest_attempt tenant cid db) ta_result_payload,
      Option.bind (sql_first (\<lambda>e. - int (ev_event_id e)) (\<lambda>e. is_audit tenant cid e \<and> P e) (pg_audit db))
        (\<lambda>e. json_member_text (ev_safe_metadata e) ''readback_evidence_sha256''))"

definition pg_get :: "host \<Rightarrow> string \<Rightarrow> uuid \<Rightarrow> (command_db, command_operation) prog" where
  "pg_get h tenant cid =
     bindE (tenant_transaction tenant (getsE (\<lambda>db. (command_at tenant cid db,
         persisted_evidence tenant cid (\<lambda>e. ev_new_state e \<in> set [Completed, ReconciliationRequired]
           \<and> map_of (ev_safe_metadata e) ''readback_evidence_sha256'' \<noteq> None) db)))) (\<lambda>(row, ev, digest).
       case row of
         None \<Rightarrow> reraiseE not_found
       | Some r \<Rightarrow> liftE (row_operation h r False ev digest))"

subsection \<open>Submission\<close>

definition command_row_of :: "host \<Rightarrow> jsonb \<Rightarrow> int \<Rightarrow> command_envelope \<Rightarrow> string \<Rightarrow> command_row" where
  "command_row_of h jsonb now c client = command_operation.extend (new_operation c now)
     (command_row.fields (jsonb (authenticated_command_payload c client)) (authenticated_command_digest h c client)
       None None None None)"

definition pg_submit_existing :: "host \<Rightarrow> command_envelope \<Rightarrow> string \<Rightarrow> (command_db, command_operation) prog" where
  "pg_submit_existing h c client =
     bindE (getsE (\<lambda>db. sort_key co_created_at (filter (\<lambda>r. co_tenant_id r = ce_tenant_id c
         \<and> (co_command_id r = ce_command_id c \<or> co_idempotency_key r = ce_idempotency_key c)) (pg_commands db)))) (\<lambda>existing.
       case existing of
         [] \<Rightarrow> raiseE CommandConflict ''command conflict could not be reconciled''
       | r # _ \<Rightarrow>
           if length (remdups (map (\<lambda>x. (co_command_id x, co_idempotency_key x)) existing)) \<noteq> 1
              \<or> \<not> command_digest_matches h (cr_payload_sha256 r) c client
           then raiseE CommandConflict ''command identity was reused with different content''
           else liftE (row_operation h r True None None))"

definition submit_on_connection :: "host \<Rightarrow> jsonb \<Rightarrow> reading \<Rightarrow> command_envelope \<Rightarrow> string \<Rightarrow> rat option \<Rightarrow> string
    \<Rightarrow> json_object option \<Rightarrow> (string, string) dict option \<Rightarrow> (command_db, command_operation) prog" where
  "submit_on_connection h jsonb rd c client next_attempt_at destination evidence trace =
     (if destination \<notin> set COMMAND_DESTINATIONS
      then raiseE CommandConflict (''unsupported command destination '' @ destination)
      else thenE (liftE (canonical_tenant_id (ce_tenant_id c)))
       (let payload = authenticated_command_payload c client;
            intent_payload = (case trace of
                Some (t # ts) \<Rightarrow> AList.update ''_trace'' (JObj (map (\<lambda>(k, v). (k, JStr v)) (t # ts))) payload
              | _ \<Rightarrow> payload)
        in bindE (insert_command (command_row_of h jsonb (rd_now rd) c client)) (\<lambda>inserted.
          case inserted of
            Some row \<Rightarrow>
              thenE (insert_audit (ce_tenant_id c) (ce_command_id c) None Persisted (ce_requested_by c)
                  ''validated command and persisted delivery intent''
                  (jsonb (dict_merge [(''authenticated_client_id'', JStr client)]
                    (redact_mapping (case evidence of None \<Rightarrow> [] | Some d \<Rightarrow> d)))) (rd_now rd))
             (thenE (on_outbox (outbox_insert (new_row (rd_outbox_id rd)
                  (case next_attempt_at of None \<Rightarrow> rd_clock rd | Some t \<Rightarrow> t) (ce_tenant_id c) (uuid_str (ce_command_id c))
                  destination (ce_command_type c) (jsonb intent_payload) (ce_idempotency_key c))))
                (liftE (row_operation h row False None None)))
          | None \<Rightarrow> pg_submit_existing h c client)))"

definition pg_submit :: "host \<Rightarrow> jsonb \<Rightarrow> reading \<Rightarrow> command_envelope \<Rightarrow> string \<Rightarrow> string
    \<Rightarrow> json_object option \<Rightarrow> (string, string) dict option \<Rightarrow> (command_db, command_operation) prog" where
  "pg_submit h jsonb rd c client destination evidence trace =
     tenant_transaction (ce_tenant_id c) (submit_on_connection h jsonb rd c client None destination evidence trace)"

subsection \<open>Reads\<close>

definition pg_list_operations :: "host \<Rightarrow> string \<Rightarrow> nat \<Rightarrow> (int \<times> uuid) option \<Rightarrow> command_state option \<Rightarrow> string option
    \<Rightarrow> (command_db, command_operation list) prog" where
  "pg_list_operations h tenant limit position state command_type =
     bindE (tenant_transaction tenant (getsE (\<lambda>db.
         take limit (rev (sort_key (\<lambda>r. (co_created_at r, uuid_str (co_command_id r)))
           (filter (\<lambda>r. co_tenant_id r = tenant \<and> (state = None \<or> state = Some (co_state r))
              \<and> (command_type = None \<or> command_type = Some (co_command_type r))
              \<and> (case position of None \<Rightarrow> True
                 | Some (t, u) \<Rightarrow> (co_created_at r, uuid_str (co_command_id r)) < (t, uuid_str u))) (pg_commands db)))))))
       (\<lambda>rows. retE (map (\<lambda>r. (command_operation.truncate r)\<lparr>co_readback_evidence := None,
          co_readback_evidence_sha256 := None, co_duplicate := False\<rparr>) rows))"

definition pg_list_events :: "host \<Rightarrow> string \<Rightarrow> uuid \<Rightarrow> nat \<Rightarrow> (int \<times> nat) option \<Rightarrow> (command_db, operation_event list) prog" where
  "pg_list_events h tenant cid limit position =
     thenE (pg_get h tenant cid)
      (bindE (tenant_transaction tenant (getsE (\<lambda>db.
          take limit (sort_key (\<lambda>e. (ev_created_at e, ev_event_id e))
            (filter (\<lambda>e. is_audit tenant cid e
               \<and> (case position of None \<Rightarrow> True | Some pos \<Rightarrow> (ev_created_at e, ev_event_id e) > pos)) (pg_audit db))))))
        (\<lambda>rows. retE (map (\<lambda>e. (operation_event.truncate e)\<lparr>ev_safe_metadata := redact_mapping (ev_safe_metadata e)\<rparr>) rows)))"

definition pg_list_attempts :: "host \<Rightarrow> string \<Rightarrow> uuid \<Rightarrow> nat \<Rightarrow> (nat \<times> nat) option \<Rightarrow> (command_db, operation_attempt list) prog" where
  "pg_list_attempts h tenant cid limit position =
     thenE (pg_get h tenant cid)
      (bindE (tenant_transaction tenant (getsE (\<lambda>db.
          take limit (sort_key (\<lambda>a. (at_attempt_number a, at_attempt_id a))
            (filter (\<lambda>a. is_attempt tenant cid a
               \<and> (case position of None \<Rightarrow> True | Some pos \<Rightarrow> (at_attempt_number a, at_attempt_id a) > pos)) (pg_attempts db))))))
        (\<lambda>rows. retE (map operation_attempt.truncate rows)))"

definition pg_latest_attempt :: "string \<Rightarrow> uuid \<Rightarrow> (command_db, nat) prog" where
  "pg_latest_attempt tenant cid =
     tenant_transaction tenant (bindE (getsE (command_at tenant cid)) (\<lambda>row.
       case row of None \<Rightarrow> reraiseE not_found | Some _ \<Rightarrow> getsE (max_attempt tenant cid)))"

definition pg_load_envelope :: "host \<Rightarrow> string \<Rightarrow> uuid \<Rightarrow> (command_db, command_envelope) prog" where
  "pg_load_envelope h tenant cid =
     bindE (tenant_transaction tenant (getsE (\<lambda>db. map_option cr_payload (command_at tenant cid db)))) (\<lambda>raw.
       case raw of
         None \<Rightarrow> reraiseE not_found
       | Some payload \<Rightarrow>
           (case command_envelope_from_payload h payload of
              None \<Rightarrow> raiseE ValueError ''persisted command payload is invalid''
            | Some c \<Rightarrow> retE c))"

definition pg_backlog :: "string \<Rightarrow> (command_db, nat \<times> nat option) prog" where
  "pg_backlog tenant =
     tenant_transaction tenant (getsE (\<lambda>db. (length (filter (\<lambda>r. co_tenant_id r = tenant
        \<and> co_state r \<in> set ACTIVE_COMMAND_STATES) (pg_commands db)), None)))"

subsection \<open>Operator mutations\<close>

definition command_leased :: "rat \<Rightarrow> string \<Rightarrow> uuid \<Rightarrow> command_db \<Rightarrow> bool" where
  "command_leased now tenant cid db \<longleftrightarrow>
     list_ex (\<lambda>r. oi_tenant_id r = tenant \<and> oi_command_id r = uuid_str cid \<and> oi_lease_owner r \<noteq> None
       \<and> active_until now r \<and> oi_completed_at r = None) (db_rows (pg_outbox db))"

text \<open>\<open>INSERT INTO middleware_outbox ... ON CONFLICT DO NOTHING\<close>.\<close>

definition outbox_insert_ignoring :: "outbox_row \<Rightarrow> (command_db, unit) prog" where
  "outbox_insert_ignoring r = on_outbox (catchE (outbox_insert r) (\<lambda>_. retE ()))"

definition work_key :: "host \<Rightarrow> string \<Rightarrow> string \<Rightarrow> uuid \<Rightarrow> string \<Rightarrow> string \<Rightarrow> string" where
  "work_key h kind tenant cid actor ikey =
     ''operation-'' @ kind @ '':'' @ sha256 h (tenant @ '':'' @ uuid_str cid @ '':'' @ actor @ '':'' @ ikey)"

definition cancelled_row :: "int \<Rightarrow> command_state \<Rightarrow> string \<Rightarrow> command_row \<Rightarrow> command_row" where
  "cancelled_row now state reason r = r\<lparr>co_state := state, co_resource_version := co_resource_version r + 1,
     co_cancelled_at := (if state = Cancelled then Some now else co_cancelled_at r),
     co_cancellation_reason := Some reason, co_updated_at := now\<rparr>"

definition pg_cancel :: "reading \<Rightarrow> string \<Rightarrow> uuid \<Rightarrow> string \<Rightarrow> command_row \<Rightarrow> (command_db, command_row) prog" where
  "pg_cancel rd tenant cid reason current =
     (if co_state current \<in> set [Completed, Failed, ReconciliationRequired, DeadLettered, Cancelled]
      then raiseE CommandConflict ''operation is not cancellable''
      else bindE (getsE (command_leased (rd_clock rd) tenant cid)) (\<lambda>leased.
        let state = (if co_state current \<in> set [Persisted, Queued] \<and> \<not> leased then Cancelled else ReconciliationRequired) in
        bindE (update_command tenant cid (cancelled_row (rd_now rd) state reason)) (\<lambda>row.
        thenE (if state = Cancelled then on_outbox (cancel_rows (rd_clock rd) tenant (uuid_str cid)) else retE ())
          (retE row))))"

definition reconcilable_row :: "int \<Rightarrow> string \<Rightarrow> command_row \<Rightarrow> command_row" where
  "reconcilable_row now reason r = r\<lparr>co_state := ReconciliationRequired, co_resource_version := co_resource_version r + 1,
     co_reconciliation_requested_at := Some now, co_reconciliation_reason := Some reason, co_updated_at := now\<rparr>"

definition pg_request_reconcile :: "host \<Rightarrow> jsonb \<Rightarrow> reading \<Rightarrow> string \<Rightarrow> uuid \<Rightarrow> string \<Rightarrow> string \<Rightarrow> string \<Rightarrow> command_row
    \<Rightarrow> (command_db, command_row) prog" where
  "pg_request_reconcile h jsonb rd tenant cid actor ikey reason current =
     (if co_state current \<notin> set [Dispatching, Accepted, ReadbackPending, ReconciliationRequired]
      then raiseE CommandConflict ''operation is not reconcilable''
      else bindE (update_command tenant cid (reconcilable_row (rd_now rd) reason)) (\<lambda>row.
        bindE (on_outbox (request_reconciliation (rd_clock rd) tenant (uuid_str cid))) (\<lambda>adapter_rows.
        thenE (if adapter_rows = 0
               then outbox_insert_ignoring (new_row (rd_outbox_id rd) (rd_clock rd) tenant (uuid_str cid)
                 TEMPORAL_COMMAND_DESTINATION ''operation.reconcile.v1''
                 (jsonb [(''command_id'', JStr (uuid_str cid)), (''action'', JStr ''reconcile''), (''reason'', JStr reason)])
                 (work_key h ''reconcile'' tenant cid actor ikey))
               else retE ())
          (retE row))))"

definition retry_destination :: "string \<Rightarrow> uuid \<Rightarrow> command_db \<Rightarrow> string" where
  "retry_destination tenant cid db =
     (case sql_first (\<lambda>r. - int (oi_id r)) (\<lambda>r. oi_tenant_id r = tenant \<and> oi_command_id r = uuid_str cid
          \<and> oi_destination r \<in> set [TEMPORAL_COMMAND_DESTINATION, ADAPTER_COMMAND_DESTINATION]) (db_rows (pg_outbox db)) of
        None \<Rightarrow> TEMPORAL_COMMAND_DESTINATION
      | Some r \<Rightarrow> oi_destination r)"

definition requeued_row :: "int \<Rightarrow> command_row \<Rightarrow> command_row" where
  "requeued_row now r = r\<lparr>co_state := Queued, co_resource_version := co_resource_version r + 1, co_last_error := None,
     cr_queued_at := Some now, co_updated_at := now\<rparr>"

definition pg_retry :: "host \<Rightarrow> jsonb \<Rightarrow> reading \<Rightarrow> string \<Rightarrow> uuid \<Rightarrow> string \<Rightarrow> string \<Rightarrow> command_row
    \<Rightarrow> (command_db, command_row) prog" where
  "pg_retry h jsonb rd tenant cid actor ikey current =
     (if co_state current \<noteq> Failed then raiseE CommandConflict ''operation is not safely retryable''
      else
       (let key = work_key h ''retry'' tenant cid actor ikey;
            retry_envelope = AList.update ''idempotency_key'' (JStr key) (cr_payload current)
        in bindE (update_command tenant cid (requeued_row (rd_now rd))) (\<lambda>row.
           bindE (getsE (retry_destination tenant cid)) (\<lambda>destination.
           thenE (outbox_insert_ignoring (new_row (rd_outbox_id rd) (rd_clock rd) tenant (uuid_str cid) destination
               (co_command_type current) (jsonb retry_envelope) key))
             (retE row)))))"

definition pg_apply_action :: "host \<Rightarrow> jsonb \<Rightarrow> reading \<Rightarrow> mutation_action \<Rightarrow> string \<Rightarrow> uuid \<Rightarrow> string \<Rightarrow> string \<Rightarrow> string
    \<Rightarrow> command_row \<Rightarrow> (command_db, command_row) prog" where
  "pg_apply_action h jsonb rd action tenant cid actor ikey reason current =
     (case action of
        ActCancel \<Rightarrow> pg_cancel rd tenant cid reason current
      | ActReconcile \<Rightarrow> pg_request_reconcile h jsonb rd tenant cid actor ikey reason current
      | ActRetry \<Rightarrow> pg_retry h jsonb rd tenant cid actor ikey current)"

definition mutation_at :: "string \<Rightarrow> uuid \<Rightarrow> mutation_action \<Rightarrow> string \<Rightarrow> string \<Rightarrow> command_db \<Rightarrow> mutation_row option" where
  "mutation_at tenant cid action actor ikey db =
     find (\<lambda>m. mr_tenant_id m = tenant \<and> mr_command_id m = cid \<and> mr_action m = action \<and> mr_actor_id m = actor
       \<and> mr_idempotency_key m = ikey) (pg_mutations db)"

definition pg_mutate_operation :: "host \<Rightarrow> jsonb \<Rightarrow> reading \<Rightarrow> string \<Rightarrow> uuid \<Rightarrow> mutation_action \<Rightarrow> string \<Rightarrow> string \<Rightarrow> nat
    \<Rightarrow> string \<Rightarrow> string option \<Rightarrow> (command_db, command_operation) prog" where
  "pg_mutate_operation h jsonb rd tenant cid action actor ikey expected_version reason mutation_correlation_id =
     tenant_transaction tenant
      (bindE (getsE (command_at tenant cid)) (\<lambda>found.
        case found of
          None \<Rightarrow> reraiseE not_found
        | Some current \<Rightarrow>
            bindE (getsE (mutation_at tenant cid action actor ikey)) (\<lambda>replay.
            case replay of
              Some m \<Rightarrow>
                if mr_request_sha256 m \<noteq> mutation_digest h expected_version reason
                then raiseE CommandConflict ''idempotency key was reused with different mutation content''
                else retE ((mr_response_payload m)\<lparr>co_duplicate := True\<rparr>)
            | None \<Rightarrow>
                if co_resource_version current \<noteq> expected_version
                then raiseE CommandConflict ''expected_version is stale''
                else
                  bindE (pg_apply_action h jsonb rd action tenant cid actor ikey reason current) (\<lambda>row.
                  thenE (insert_audit tenant cid (Some (co_state current)) (co_state row) actor reason
                    (jsonb (dict_merge [(''action'', JStr (action_str action)),
                         (''resource_version'', JInt (int (co_resource_version row)))]
                       (mutation_evidence mutation_correlation_id))) (rd_now rd))
                  (bindE (liftE (row_operation h row False None None)) (\<lambda>operation.
                   thenE (modifyE (\<lambda>db. db\<lparr>pg_mutations := pg_mutations db @ [\<lparr>mr_tenant_id = tenant, mr_command_id = cid,
                      mr_action = action, mr_actor_id = actor, mr_idempotency_key = ikey,
                      mr_request_sha256 = mutation_digest h expected_version reason, mr_response_payload = operation\<rparr>]\<rparr>))
                   (retE operation)))))))"

subsection \<open>Worker transitions\<close>

definition transition_row :: "int \<Rightarrow> command_state \<Rightarrow> string option \<Rightarrow> string \<Rightarrow> command_row \<Rightarrow> command_row" where
  "transition_row now new_state provider_id reason r = r\<lparr>co_state := new_state,
     co_provider_operation_id := coalesce provider_id (co_provider_operation_id r),
     co_last_error := (if new_state \<in> set [Failed, ReconciliationRequired] then Some reason else None),
     co_updated_at := now,
     cr_queued_at := (if new_state = Queued then Some now else cr_queued_at r),
     cr_accepted_at := (if new_state = Accepted then Some now else cr_accepted_at r),
     cr_completed_at := (if new_state = Completed then Some now else cr_completed_at r),
     cr_failed_at := (if new_state = Failed then Some now else cr_failed_at r)\<rparr>"

definition transition_attempt :: "int \<Rightarrow> command_state \<Rightarrow> string option \<Rightarrow> string \<Rightarrow> json_object option \<Rightarrow> attempt_row \<Rightarrow> attempt_row" where
  "transition_attempt now new_state provider_id reason evidence a = a\<lparr>at_state := new_state,
     at_provider_operation_id := coalesce provider_id (at_provider_operation_id a),
     ta_result_payload := coalesce evidence (ta_result_payload a),
     ta_error_detail := (if new_state \<in> set [Failed, ReconciliationRequired] then Some reason else ta_error_detail a),
     at_finished_at := (if new_state \<in> set [Completed, Failed, ReconciliationRequired] then Some now else at_finished_at a)\<rparr>"

definition pg_transition_body :: "host \<Rightarrow> jsonb \<Rightarrow> int \<Rightarrow> string \<Rightarrow> uuid \<Rightarrow> command_state \<Rightarrow> string \<Rightarrow> string
    \<Rightarrow> string option \<Rightarrow> json_object option \<Rightarrow> nat option \<Rightarrow> (command_db, command_row) prog" where
  "pg_transition_body h jsonb now tenant cid new_state actor reason provider_id evidence expected_attempt =
     bindE (getsE (\<lambda>db. (command_at tenant cid db, max_attempt tenant cid db))) (\<lambda>(found, newest).
       case found of
         None \<Rightarrow> reraiseE not_found
       | Some current \<Rightarrow>
           if expected_attempt \<noteq> None \<and> new_state \<noteq> Dispatching \<and> newest \<noteq> the expected_attempt
           then raiseE CommandConflict ''stale attempt fencing token''
           else if new_state \<notin> set (ALLOWED_COMMAND_TRANSITIONS (co_state current))
           then raiseE CommandConflict (''invalid command transition '' @ state_str (co_state current)
                  @ '' -> '' @ state_str new_state)
           else
             bindE (update_command tenant cid (transition_row now new_state provider_id (take 2048 reason))) (\<lambda>row.
             thenE (insert_audit tenant cid (Some (co_state current)) new_state actor (take 2048 reason)
                 (jsonb [(''provider_operation_id'', opt_str provider_id),
                         (''readback_evidence_sha256'', opt_str (map_option (provider_evidence_digest h) evidence))]) now)
             (thenE (if new_state = Dispatching then insert_attempt tenant cid now
                     else if new_state \<in> set [Accepted, ReadbackPending, Completed, Failed, ReconciliationRequired]
                     then update_newest_attempt tenant cid
                       (transition_attempt now new_state provider_id (take 2048 reason) (map_option jsonb evidence))
                     else retE ())
                (retE row))))"

definition pg_transition :: "host \<Rightarrow> jsonb \<Rightarrow> int \<Rightarrow> string \<Rightarrow> uuid \<Rightarrow> command_state \<Rightarrow> string \<Rightarrow> string
    \<Rightarrow> string option \<Rightarrow> json_object option \<Rightarrow> nat option \<Rightarrow> (command_db, command_operation) prog" where
  "pg_transition h jsonb now tenant cid new_state actor reason provider_id evidence expected_attempt =
     (if evidence \<noteq> None \<and> new_state \<notin> set [Completed, ReconciliationRequired]
      then raiseE CommandConflict ''read-back evidence may be persisted only on completion or reconciliation''
      else
       bindE (tenant_transaction tenant
           (pg_transition_body h jsonb now tenant cid new_state actor reason provider_id evidence expected_attempt)) (\<lambda>row.
         case evidence of
           Some ev \<Rightarrow> liftE (row_operation h row False (Some ev) (Some (provider_evidence_digest h ev)))
         | None \<Rightarrow>
             bindE (tenant_transaction tenant (getsE (persisted_evidence tenant cid (\<lambda>e. ev_new_state e = Completed))))
               (\<lambda>(ev, digest). liftE (row_operation h row False ev digest))))"

subsection \<open>Reconciliation verdicts\<close>

definition verdict_row :: "int \<Rightarrow> bool \<Rightarrow> string option \<Rightarrow> string \<Rightarrow> command_row \<Rightarrow> command_row" where
  "verdict_row now matched provider_id reason r =
     (if matched
      then r\<lparr>co_state := Completed, co_provider_operation_id := coalesce provider_id (co_provider_operation_id r),
         co_last_error := None, cr_completed_at := Some now, co_updated_at := now,
         co_resource_version := co_resource_version r + 1\<rparr>
      else r\<lparr>co_provider_operation_id := coalesce provider_id (co_provider_operation_id r),
         co_last_error := Some reason, co_reconciliation_reason := Some reason, co_updated_at := now,
         co_resource_version := co_resource_version r + 1\<rparr>)"

definition verdict_attempt :: "int \<Rightarrow> bool \<Rightarrow> string option \<Rightarrow> string \<Rightarrow> json_object \<Rightarrow> attempt_row \<Rightarrow> attempt_row" where
  "verdict_attempt now matched provider_id reason evidence a = a\<lparr>at_state := (if matched then Completed else ReconciliationRequired),
     at_provider_operation_id := coalesce provider_id (at_provider_operation_id a),
     ta_result_payload := Some evidence,
     at_safe_error_code := (if matched then None else Some ''provider_readback_mismatch''),
     ta_error_detail := (if matched then None else Some reason),
     at_finished_at := Some now\<rparr>"

definition pg_reconcile_body :: "host \<Rightarrow> jsonb \<Rightarrow> int \<Rightarrow> string \<Rightarrow> uuid \<Rightarrow> bool \<Rightarrow> string \<Rightarrow> string \<Rightarrow> string option
    \<Rightarrow> json_object \<Rightarrow> nat option \<Rightarrow> (command_db, command_row) prog" where
  "pg_reconcile_body h jsonb now tenant cid matched actor bounded_reason provider_id evidence expected_version =
     bindE (getsE (command_at tenant cid)) (\<lambda>found.
       case found of
         None \<Rightarrow> reraiseE not_found
       | Some current \<Rightarrow>
           if co_state current \<noteq> ReconciliationRequired
           then raiseE CommandConflict ''operation is no longer awaiting reconciliation''
           else if expected_version \<noteq> None \<and> co_resource_version current \<noteq> the expected_version
           then raiseE CommandConflict ''expected_version is stale''
           else
             bindE (update_command tenant cid (verdict_row now matched provider_id bounded_reason)) (\<lambda>row.
             thenE (insert_audit tenant cid (Some ReconciliationRequired)
                 (if matched then Completed else ReconciliationRequired) actor bounded_reason
                 (jsonb [(''provider_operation_id'', opt_str provider_id),
                         (''readback_evidence_sha256'', JStr (provider_evidence_digest h evidence)),
                         (''reconciliation_status'', JStr (if matched then ''matched'' else ''mismatch''))]) now)
             (thenE (update_newest_attempt tenant cid (verdict_attempt now matched provider_id bounded_reason (jsonb evidence)))
               (retE row))))"

definition pg_reconcile :: "host \<Rightarrow> jsonb \<Rightarrow> int \<Rightarrow> string \<Rightarrow> uuid \<Rightarrow> bool \<Rightarrow> string \<Rightarrow> string \<Rightarrow> string option
    \<Rightarrow> json_object \<Rightarrow> nat option \<Rightarrow> (command_db, command_operation) prog" where
  "pg_reconcile h jsonb now tenant cid matched actor reason provider_id evidence expected_version =
     bindE (tenant_transaction tenant
         (pg_reconcile_body h jsonb now tenant cid matched actor (take 2048 reason) provider_id evidence expected_version))
       (\<lambda>row. liftE (row_operation h row False (Some evidence) (Some (provider_evidence_digest h evidence))))"

subsection \<open>Dead letters and replays\<close>

definition dead_letter_at :: "string \<Rightarrow> uuid \<Rightarrow> command_db \<Rightarrow> dead_letter_record option" where
  "dead_letter_at tenant cid db = find (\<lambda>d. dl_tenant_id d = tenant \<and> dl_command_id d = cid) (pg_dead_letters db)"

definition pg_record_dead_letter :: "int \<Rightarrow> string \<Rightarrow> uuid \<Rightarrow> string \<Rightarrow> string \<Rightarrow> string \<Rightarrow> bool \<Rightarrow> bool
    \<Rightarrow> (command_db, dead_letter_record) prog" where
  "pg_record_dead_letter now tenant cid reason_code error_class terminal_reason poisoned retry_exhausted =
     transaction (bindE (getsE (command_at tenant cid)) (\<lambda>found.
       case found of
         None \<Rightarrow> reraiseE not_found
       | Some command \<Rightarrow> (\<lambda>db.
           case dead_letter_at tenant cid db of
             Some row \<Rightarrow> (Inr row, db)
           | None \<Rightarrow>
               (let row = \<lparr>dl_dead_letter_id = length (pg_dead_letters db) + 1, dl_tenant_id = tenant, dl_command_id = cid,
                      dl_attempt_number = max_attempt tenant cid db, dl_reason_code = take 100 reason_code,
                      dl_error_class = take 100 error_class, dl_terminal_reason = take 2048 terminal_reason,
                      dl_correlation_id = co_correlation_id command, dl_principal_id = co_requested_by command,
                      dl_capability = co_capability command, dl_poisoned = poisoned,
                      dl_retry_exhausted = retry_exhausted, dl_created_at = now\<rparr>
                in (Inr row, db\<lparr>pg_dead_letters := pg_dead_letters db @ [row]\<rparr>)))))"

definition pg_list_dead_letters :: "string \<Rightarrow> nat \<Rightarrow> (command_db, dead_letter_record list) prog" where
  "pg_list_dead_letters tenant limit = getsE (\<lambda>db.
     take limit (sort_key (\<lambda>d. (- dl_created_at d, - int (dl_dead_letter_id d)))
       (filter (\<lambda>d. dl_tenant_id d = tenant) (pg_dead_letters db))))"

definition pg_get_dead_letter :: "string \<Rightarrow> uuid \<Rightarrow> (command_db, dead_letter_record) prog" where
  "pg_get_dead_letter tenant cid =
     bindE (getsE (dead_letter_at tenant cid)) (\<lambda>row.
       case row of None \<Rightarrow> raiseE CommandNotFound ''dead-letter record was not found'' | Some d \<Rightarrow> retE d)"

definition pg_create_replay :: "int \<Rightarrow> string \<Rightarrow> uuid \<Rightarrow> uuid \<Rightarrow> string \<Rightarrow> string \<Rightarrow> string \<Rightarrow> int option
    \<Rightarrow> (command_db, replay_record) prog" where
  "pg_create_replay now tenant cid replay_id actor ikey reason scheduled_at =
     transaction (\<lambda>db.
       if dead_letter_at tenant cid db = None
       then (Inl (Exc CommandNotFound ''dead-letter record was not found''), db)
       else
        (case find (\<lambda>r. rp_tenant_id r = tenant \<and> rp_original_command_id r = cid \<and> rp_idempotency_key r = ikey)
             (pg_replays db) of
           Some row \<Rightarrow>
             if rp_reason row \<noteq> reason
             then (Inl (Exc CommandConflict ''replay idempotency key was reused with different content''), db)
             else (Inr row, db)
         | None \<Rightarrow>
             if list_ex (\<lambda>r. rp_replay_id r = replay_id) (pg_replays db)
             then (Inl (Exc (OtherException ''UniqueViolationError'') ''duplicate key value violates unique constraint''), db)
             else
              (let row = \<lparr>rp_replay_id = replay_id, rp_tenant_id = tenant, rp_original_command_id = cid,
                     rp_replay_command_id = None, rp_requested_by = actor, rp_idempotency_key = ikey, rp_reason = reason,
                     rp_state = (if scheduled_at \<noteq> None then ReplayScheduled else ReplayRequested),
                     rp_created_at = now, rp_scheduled_at = scheduled_at, rp_cancelled_at = None\<rparr>
               in (Inr row, db\<lparr>pg_replays := pg_replays db @ [row]\<rparr>))))"

text \<open>\<open>UPDATE middleware_command_replays ... AND state IN ('requested','scheduled') RETURNING *\<close>.\<close>

definition update_pending_replay :: "string \<Rightarrow> uuid \<Rightarrow> (replay_record \<Rightarrow> replay_record) \<Rightarrow> string \<Rightarrow> (command_db, replay_record) prog" where
  "update_pending_replay tenant replay_id f refusal db =
     (let P = (\<lambda>r. rp_tenant_id r = tenant \<and> rp_replay_id r = replay_id \<and> rp_state r \<in> set [ReplayRequested, ReplayScheduled])
      in case find P (pg_replays db) of
           None \<Rightarrow> (Inl (Exc CommandConflict refusal), db)
         | Some r \<Rightarrow> (Inr (f r), db\<lparr>pg_replays := map (\<lambda>x. if P x then f x else x) (pg_replays db)\<rparr>))"

definition pg_complete_replay :: "string \<Rightarrow> uuid \<Rightarrow> uuid \<Rightarrow> (command_db, replay_record) prog" where
  "pg_complete_replay tenant replay_id replay_command_id =
     update_pending_replay tenant replay_id
       (\<lambda>r. r\<lparr>rp_state := ReplaySubmitted, rp_replay_command_id := Some replay_command_id\<rparr>) ''replay is not executable''"

definition pg_cancel_replay :: "int \<Rightarrow> string \<Rightarrow> uuid \<Rightarrow> (command_db, replay_record) prog" where
  "pg_cancel_replay now tenant replay_id =
     update_pending_replay tenant replay_id (\<lambda>r. r\<lparr>rp_state := ReplayCancelled, rp_cancelled_at := Some now\<rparr>)
       ''replay can only be cancelled before execution''"

definition pg_list_replays :: "host \<Rightarrow> string \<Rightarrow> uuid \<Rightarrow> (command_db, replay_record list) prog" where
  "pg_list_replays h tenant cid =
     thenE (pg_get h tenant cid) (getsE (\<lambda>db.
       sort_key (\<lambda>r. (rp_created_at r, uint (rp_replay_id r)))
         (filter (\<lambda>r. rp_tenant_id r = tenant \<and> rp_original_command_id r = cid) (pg_replays db))))"

subsection \<open>Readiness of the schema\<close>

definition REQUIRED_COLUMNS :: "(string \<times> string list) list" where
  "REQUIRED_COLUMNS = [
     (''middleware_commands'', [''command_id'', ''tenant_id'', ''command_type'', ''command_version'', ''target'',
        ''requested_by'', ''correlation_id'', ''idempotency_key'', ''capability'', ''payload'', ''payload_sha256'',
        ''state'', ''provider_operation_id'', ''last_error'', ''created_at'', ''updated_at'', ''queued_at'',
        ''accepted_at'', ''completed_at'', ''failed_at'', ''resource_version'', ''cancelled_at'',
        ''cancellation_reason'', ''reconciliation_requested_at'', ''reconciliation_reason'']),
     (''middleware_command_attempts'', [''id'', ''tenant_id'', ''command_id'', ''attempt_number'', ''state'',
        ''provider_operation_id'', ''result_payload'', ''error_code'', ''error_detail'', ''started_at'',
        ''finished_at'']),
     (''middleware_command_audit'', [''id'', ''tenant_id'', ''command_id'', ''previous_state'', ''new_state'',
        ''actor_id'', ''reason'', ''metadata'', ''created_at'']),
     (''middleware_operation_mutations'', [''id'', ''tenant_id'', ''command_id'', ''action'', ''actor_id'',
        ''idempotency_key'', ''request_sha256'', ''response_status'', ''response_payload'', ''created_at'']),
     (''middleware_command_dead_letters'', [''id'', ''tenant_id'', ''command_id'', ''attempt_number'', ''reason_code'',
        ''error_class'', ''terminal_reason'', ''correlation_id'', ''principal_id'', ''capability'', ''poisoned'',
        ''retry_exhausted'', ''created_at'']),
     (''middleware_command_replays'', [''replay_id'', ''tenant_id'', ''original_command_id'', ''replay_command_id'',
        ''requested_by'', ''idempotency_key'', ''reason'', ''state'', ''scheduled_at'', ''cancelled_at'',
        ''created_at''])]"

definition REQUIRED_KEYS :: "(string \<times> string \<times> string list) list" where
  "REQUIRED_KEYS = [
     (''middleware_commands'', ''PRIMARY KEY'', [''tenant_id'', ''command_id'']),
     (''middleware_commands'', ''UNIQUE'', [''tenant_id'', ''idempotency_key'']),
     (''middleware_command_attempts'', ''PRIMARY KEY'', [''id'']),
     (''middleware_command_attempts'', ''UNIQUE'', [''tenant_id'', ''command_id'', ''attempt_number'']),
     (''middleware_command_audit'', ''PRIMARY KEY'', [''id'']),
     (''middleware_operation_mutations'', ''PRIMARY KEY'', [''id'']),
     (''middleware_operation_mutations'', ''UNIQUE'', [''tenant_id'', ''command_id'', ''action'', ''actor_id'', ''idempotency_key'']),
     (''middleware_command_dead_letters'', ''PRIMARY KEY'', [''id'']),
     (''middleware_command_dead_letters'', ''UNIQUE'', [''tenant_id'', ''command_id'']),
     (''middleware_command_replays'', ''PRIMARY KEY'', [''replay_id'']),
     (''middleware_command_replays'', ''UNIQUE'', [''tenant_id'', ''original_command_id'', ''idempotency_key''])]"

definition REQUIRED_TRIGGERS :: "string list" where
  "REQUIRED_TRIGGERS = [''middleware_command_audit_immutable'', ''middleware_operation_mutations_immutable'', ''middleware_command_dead_letters_immutable'']"

text \<open>
  What the three catalogue queries and the migration table answer: the newest migration, the
  columns and the primary and unique keys of the queried tables, and the state of the queried
  triggers. \<open>None\<close> is a query that raised.
\<close>

record schema_catalog =
  sc_head :: "int option"
  sc_columns :: "(string \<times> string) list"
  sc_keys :: "(string \<times> string \<times> string list) list"
  sc_triggers :: "(string \<times> string) list"

definition schema_ready :: "schema_catalog option \<Rightarrow> bool" where
  "schema_ready answer =
     (case answer of
        None \<Rightarrow> False
      | Some c \<Rightarrow>
          if (case sc_head c of None \<Rightarrow> True | Some v \<Rightarrow> v < 9) then False
          else if list_ex (\<lambda>(table, required). list_ex (\<lambda>column. (table, column) \<notin> set (sc_columns c)) required) REQUIRED_COLUMNS
          then False
          else list_all (\<lambda>k. k \<in> set (sc_keys c)) REQUIRED_KEYS
            \<and> set (map fst (filter (\<lambda>(_, enabled). enabled = ''O'') (sc_triggers c))) = set REQUIRED_TRIGGERS)"

text \<open>\<open>PostgresCommandStore.connect\<close>: a store only over a ready schema.\<close>

definition pg_connect :: "schema_catalog option \<Rightarrow> exc + unit" where
  "pg_connect answer = (if schema_ready answer then Inr () else Inl (Exc RuntimeError ''command ledger schema is not ready''))"

end
