(* ===== verification/Postgres_Equivalence.thy ===== *)
theory Postgres_Equivalence
  imports Postgres_Store Ledger_Guarantees
begin

text \<open>
  The durable command store against the in-memory one. Both run the same calls side by side; the
  simulation relates what they hold: the commands up to the read-back evidence, the timelines, the
  attempts and the recorded mutations. What the in-memory ledger is shown to guarantee therefore
  holds of the tables, and a client cannot tell the two apart by the answers to its calls.
\<close>

subsection \<open>Calls\<close>

datatype ledger_call =
    CallSubmit command_envelope string string "json_object option" "(string, string) dict option"
  | CallTransition string uuid command_state string string "string option" "json_object option" "nat option"
  | CallReconcile string uuid bool string string "string option" json_object "nat option"
  | CallMutate string uuid mutation_action string string nat string "string option"

fun memory_call :: "host \<Rightarrow> int \<Rightarrow> ledger_call \<Rightarrow> (command_store, command_operation) prog" where
  "memory_call h now (CallSubmit c client dest evd tr) = store_submit h now c client dest evd tr"
| "memory_call h now (CallTransition t c ns a r p ev x) = store_transition h now t c ns a r p ev x"
| "memory_call h now (CallReconcile t c m a r p evd ver) = store_reconcile h now t c m a r p evd ver"
| "memory_call h now (CallMutate t c act a ik ver r mc) = mutate_operation h now t c act a ik ver r mc"

fun postgres_call :: "host \<Rightarrow> jsonb \<Rightarrow> reading \<Rightarrow> ledger_call \<Rightarrow> (command_db, command_operation) prog" where
  "postgres_call h jsonb rd (CallSubmit c client dest evd tr) = pg_submit h jsonb rd c client dest evd tr"
| "postgres_call h jsonb rd (CallTransition t c ns a r p ev x) = pg_transition h jsonb (rd_now rd) t c ns a r p ev x"
| "postgres_call h jsonb rd (CallReconcile t c m a r p evd ver) = pg_reconcile h jsonb (rd_now rd) t c m a r p evd ver"
| "postgres_call h jsonb rd (CallMutate t c act a ik ver r mc) = pg_mutate_operation h jsonb rd t c act a ik ver r mc"

fun call_tenant :: "ledger_call \<Rightarrow> string" where
  "call_tenant (CallSubmit c client dest evd tr) = ce_tenant_id c"
| "call_tenant (CallTransition t c ns a r p ev x) = t"
| "call_tenant (CallReconcile t c m a r p evd ver) = t"
| "call_tenant (CallMutate t c act a ik ver r mc) = t"

fun call_command :: "ledger_call \<Rightarrow> uuid" where
  "call_command (CallSubmit c client dest evd tr) = ce_command_id c"
| "call_command (CallTransition t c ns a r p ev x) = c"
| "call_command (CallReconcile t c m a r p evd ver) = c"
| "call_command (CallMutate t c act a ik ver r mc) = c"

subsection \<open>What the stores show\<close>

text \<open>An operation without its read-back evidence; the memory store keeps long error texts whole.\<close>

definition op_view :: "'m command_operation_scheme \<Rightarrow> command_operation" where
  "op_view r = (command_operation.truncate r)\<lparr>co_readback_evidence := None, co_readback_evidence_sha256 := None,
     co_last_error := map_option (take 2048) (co_last_error r), co_duplicate := False\<rparr>"

definition event_view :: "'m operation_event_scheme \<Rightarrow> command_state option \<times> command_state \<times> string \<times> string \<times> int" where
  "event_view e = (ev_previous_state e, ev_new_state e, ev_actor_id e, ev_reason e, ev_created_at e)"

definition attempt_view :: "'m operation_attempt_scheme \<Rightarrow> nat \<times> int" where
  "attempt_view a = (at_attempt_number a, at_started_at a)"

definition commands_agree :: "command_db \<Rightarrow> command_store \<Rightarrow> bool" where
  "commands_agree db st \<longleftrightarrow> (\<forall>t c. map_option (\<lambda>r. (cr_payload_sha256 r, op_view r)) (command_at t c db)
     = map_option (\<lambda>(d, op). (d, op_view op)) (entry_at st (t, c)))"

definition timelines_agree :: "command_db \<Rightarrow> command_store \<Rightarrow> bool" where
  "timelines_agree db st \<longleftrightarrow> (\<forall>t c. map event_view (filter (is_audit t c) (pg_audit db)) = map event_view (events_at st (t, c)))"

definition attempts_agree :: "command_db \<Rightarrow> command_store \<Rightarrow> bool" where
  "attempts_agree db st \<longleftrightarrow> (\<forall>t c. map attempt_view (filter (is_attempt t c) (pg_attempts db)) = map attempt_view (attempts_at st (t, c)))"

definition mutations_agree :: "command_db \<Rightarrow> command_store \<Rightarrow> bool" where
  "mutations_agree db st \<longleftrightarrow> (\<forall>t c act a ik. map_option (\<lambda>m. (mr_request_sha256 m, op_view (mr_response_payload m))) (mutation_at t c act a ik db)
     = map_option (\<lambda>(d, op). (d, op_view op)) (map_of (cs_mutations st) (t, c, act, a, ik)))"

text \<open>The ids a sequence hands out, in the order of insertion.\<close>

definition numbered :: "('r \<Rightarrow> nat) \<Rightarrow> 'r list \<Rightarrow> bool" where
  "numbered rid rows \<longleftrightarrow> map rid rows = [1..<Suc (length rows)]"

definition tables_sound :: "command_db \<Rightarrow> bool" where
  "tables_sound db \<longleftrightarrow> distinct (map (\<lambda>r. (co_tenant_id r, co_command_id r)) (pg_commands db))
     \<and> numbered at_attempt_id (pg_attempts db) \<and> numbered ev_event_id (pg_audit db)"

definition marks_sound :: "command_store \<Rightarrow> bool" where
  "marks_sound st \<longleftrightarrow> (\<forall>k d op. entry_at st k = Some (d, op) \<longrightarrow> \<not> co_duplicate op
     \<and> (co_state op \<noteq> Cancelled \<longrightarrow> co_cancelled_at op = None))
     \<and> (\<forall>k. entry_at st k = None \<longrightarrow> events_at st k = [] \<and> attempts_at st k = [])"

definition ledger_sim :: "host \<Rightarrow> command_db \<Rightarrow> command_store \<Rightarrow> bool" where
  "ledger_sim h db st \<longleftrightarrow> commands_agree db st \<and> timelines_agree db st \<and> attempts_agree db st \<and> mutations_agree db st
     \<and> tables_sound db \<and> marks_sound st \<and> ledger_inv h st"

text \<open>A \<open>jsonb\<close> column keeps the members of an object that are null or text.\<close>

definition keeps_text :: "jsonb \<Rightarrow> bool" where
  "keeps_text jsonb \<longleftrightarrow> (\<forall>d k. (map_of d k = Some JNull \<longrightarrow> map_of (jsonb d) k = Some JNull)
     \<and> (\<forall>s. map_of d k = Some (JStr s) \<longrightarrow> map_of (jsonb d) k = Some (JStr s)))"

definition answers_agree :: "ledger_call \<Rightarrow> exc + command_operation \<Rightarrow> exc + command_operation \<Rightarrow> bool" where
  "answers_agree x p m = (case (p, m) of
     (Inl e, Inl e') \<Rightarrow> exc_class e = exc_class e'
   | (Inr a, Inr b) \<Rightarrow> co_command_id a = co_command_id b \<and> co_duplicate a = co_duplicate b
       \<and> (co_command_id a = call_command x \<longrightarrow> op_view a = op_view b)
   | _ \<Rightarrow> False)"

text \<open>
  The calls on which the two stores are compared. The tenant identifier passes the check of the
  tenant context, an envelope is valid, a provider's operation id is not the empty text, a new
  command meets no unique constraint of the outbox, and a cancellation finds the same answer to
  whether a worker holds the command.
\<close>

definition comparable :: "host \<Rightarrow> reading \<Rightarrow> ledger_call \<Rightarrow> command_db \<Rightarrow> command_store \<Rightarrow> bool" where
  "comparable h rd x db st \<longleftrightarrow> (\<exists>v. canonical_tenant_id (call_tenant x) = Inr v) \<and>
     (case x of
        CallSubmit c client dest evd tr \<Rightarrow> valid_envelope h c
          \<and> (entry_at st (ce_tenant_id c, ce_command_id c) = None
             \<and> map_of (cs_idempotency st) (ce_tenant_id c, ce_idempotency_key c) = None
             \<longrightarrow> \<not> list_ex (\<lambda>y. oi_id y = rd_outbox_id rd \<or> oi_tenant_id y = ce_tenant_id c \<and> oi_destination y = dest
                   \<and> oi_idempotency_key y = ce_idempotency_key c) (db_rows (pg_outbox db)))
      | CallTransition t c ns a r p ev y \<Rightarrow> p \<noteq> Some []
      | CallReconcile t c m a r p evd ver \<Rightarrow> p \<noteq> Some []
      | CallMutate t c act a ik ver r mc \<Rightarrow> act = ActCancel \<longrightarrow>
          command_leased (rd_clock rd) t c db = active_lease (adapter_intents st t c))"

text \<open>The two stores run side by side; between calls the workers may change the outboxes in any way.\<close>

inductive side_by_side :: "host \<Rightarrow> jsonb \<Rightarrow> command_db \<Rightarrow> command_store \<Rightarrow> bool" for h :: host and jsonb :: jsonb where
  both_empty: "side_by_side h jsonb empty_command_db empty_store"
| both_call: "side_by_side h jsonb db st \<Longrightarrow> comparable h rd x db st \<Longrightarrow>
     side_by_side h jsonb (snd (postgres_call h jsonb rd x db)) (snd (memory_call h (rd_now rd) x st))"
| both_workers: "side_by_side h jsonb db st \<Longrightarrow>
     side_by_side h jsonb (db\<lparr>pg_outbox := ob\<rparr>) (st\<lparr>cs_outbox := ob'\<rparr>)"

subsection \<open>Views\<close>

lemma op_view_simps [simp]:
  "co_state (op_view r) = co_state r" "co_tenant_id (op_view r) = co_tenant_id r"
  "co_command_id (op_view r) = co_command_id r" "co_idempotency_key (op_view r) = co_idempotency_key r"
  "co_resource_version (op_view r) = co_resource_version r" "co_created_at (op_view r) = co_created_at r"
  "co_cancelled_at (op_view r) = co_cancelled_at r" "co_command_type (op_view r) = co_command_type r"
  by (simp_all add: op_view_def command_operation.defs)

lemma op_view_row_operation: "row_operation h r dup ev dg = Inr a \<Longrightarrow> op_view a = op_view r \<and> co_duplicate a = dup"
  by (auto simp: row_operation_def op_view_def command_operation.defs split: sum.splits)

lemma row_operation_plain: "row_operation h r dup ev None = Inr ((command_operation.truncate r)\<lparr>co_readback_evidence := ev,
    co_readback_evidence_sha256 := None, co_duplicate := dup\<rparr>)"
  by (simp add: row_operation_def verify_readback_evidence_digest_def split: option.split)

lemma row_operation_evidence: "row_operation h r dup (Some ev) (Some (provider_evidence_digest h ev)) =
    Inr ((command_operation.truncate r)\<lparr>co_readback_evidence := Some ev,
      co_readback_evidence_sha256 := Some (provider_evidence_digest h ev), co_duplicate := dup\<rparr>)"
  by (simp add: row_operation_def verify_readback_evidence_digest_def)

lemma commands_agreeD:
  assumes "commands_agree db st"
  shows "command_at t c db = None \<longleftrightarrow> entry_at st (t, c) = None"
    and "command_at t c db = Some r \<Longrightarrow> \<exists>op. entry_at st (t, c) = Some (cr_payload_sha256 r, op) \<and> op_view r = op_view op"
    and "entry_at st (t, c) = Some (d, op) \<Longrightarrow> \<exists>r. command_at t c db = Some r \<and> cr_payload_sha256 r = d \<and> op_view r = op_view op"
proof -
  have eq: "map_option (\<lambda>r. (cr_payload_sha256 r, op_view r)) (command_at t c db)
      = map_option (\<lambda>(d, op). (d, op_view op)) (entry_at st (t, c))"
    using assms by (simp add: commands_agree_def)
  show "command_at t c db = None \<longleftrightarrow> entry_at st (t, c) = None" using eq by (cases "command_at t c db"; cases "entry_at st (t, c)") simp_all
  show "command_at t c db = Some r \<Longrightarrow> \<exists>op. entry_at st (t, c) = Some (cr_payload_sha256 r, op) \<and> op_view r = op_view op"
    using eq by (cases "entry_at st (t, c)") auto
  show "entry_at st (t, c) = Some (d, op) \<Longrightarrow> \<exists>r. command_at t c db = Some r \<and> cr_payload_sha256 r = d \<and> op_view r = op_view op"
    using eq by (cases "command_at t c db") auto
qed

lemma op_viewD:
  assumes "op_view r = op_view op"
  shows "co_state r = co_state op \<and> co_resource_version r = co_resource_version op \<and> co_tenant_id r = co_tenant_id op
    \<and> co_command_id r = co_command_id op \<and> co_idempotency_key r = co_idempotency_key op \<and> co_cancelled_at r = co_cancelled_at op"
  using arg_cong [OF assms, of co_state] arg_cong [OF assms, of co_resource_version] arg_cong [OF assms, of co_tenant_id]
    arg_cong [OF assms, of co_command_id] arg_cong [OF assms, of co_idempotency_key] arg_cong [OF assms, of co_cancelled_at]
  by simp

lemma answers_agree_row:
  assumes "row_operation h r dup ev dg = Inr a" and "op_view r = op_view op" and "co_duplicate op = dup"
  shows "answers_agree x (Inr a) (Inr op)"
  using op_view_row_operation [OF assms(1)] assms(2,3) op_viewD [of a op] by (simp add: answers_agree_def)

lemma command_atD: "command_at t c db = Some r \<Longrightarrow> r \<in> set (pg_commands db) \<and> co_tenant_id r = t \<and> co_command_id r = c"
  unfolding command_at_def is_command_def by (auto simp: find_Some_iff)

subsection \<open>The numbers of attempts\<close>

lemma fold_max_upt: "fold max [1..<Suc n] 0 = n"
  by (induction n) (simp_all add: upt_Suc)

lemma attempt_numbers:
  assumes "ledger_sim h db st"
  shows "map at_attempt_number (filter (is_attempt t c) (pg_attempts db)) = map at_attempt_number (attempts_at st (t, c))"
proof -
  have "map fst (map attempt_view (filter (is_attempt t c) (pg_attempts db))) = map fst (map attempt_view (attempts_at st (t, c)))"
    using assms by (simp add: ledger_sim_def attempts_agree_def)
  then show ?thesis by (simp add: attempt_view_def comp_def)
qed

lemma attempts_count:
  assumes "ledger_sim h db st" and "entry_at st (t, c) = Some (d, op)"
  shows "max_attempt t c db = length (attempts_at st (t, c))"
proof -
  have "map at_attempt_number (attempts_at st (t, c)) = [1..<Suc (dispatches (events_at st (t, c)))]"
    using assms ledger_inv_entry unfolding ledger_sim_def entry_inv_def by blast
  then show ?thesis unfolding max_attempt_def attempt_numbers [OF assms(1)]
    by (metis fold_max_upt diff_Suc_1 length_map length_upt)
qed

subsection \<open>One write to a command\<close>

lemma numbered_Nil [simp]: "numbered rid []"
  by (simp add: numbered_def)

lemma numbered_snoc: "numbered rid (rows @ [r]) \<longleftrightarrow> numbered rid rows \<and> rid r = Suc (length rows)"
  by (simp add: numbered_def)

lemma numbered_update: "(\<And>x. rid (f x) = rid x) \<Longrightarrow> numbered rid (map (\<lambda>x. if P x then f x else x) rows) = numbered rid rows"
  by (simp add: numbered_def comp_def if_distrib cong: if_cong)

lemma find_command_update:
  assumes "\<And>x. co_tenant_id (f x) = co_tenant_id x \<and> co_command_id (f x) = co_command_id x"
  shows "find (is_command t' c') (map (\<lambda>x. if is_command t c x then f x else x) xs)
    = (if (t', c') = (t, c) then map_option f (find (is_command t c) xs) else find (is_command t' c') xs)"
  using assms by (induction xs) (auto simp: is_command_def)

lemma attempts_same_view:
  assumes "\<And>x. attempt_view (f x) = attempt_view x \<and> ta_tenant_id (f x) = ta_tenant_id x \<and> at_operation_id (f x) = at_operation_id x"
  shows "map attempt_view (filter (is_attempt t c) (map (\<lambda>x. if P x then f x else x) xs)) = map attempt_view (filter (is_attempt t c) xs)"
  using assms by (induction xs) (auto simp: is_attempt_def)

lemma map_last_view:
  "(\<And>a. attempt_view (f a) = attempt_view a) \<Longrightarrow> map attempt_view (map_last f ats) = map attempt_view ats"
  by (cases ats rule: rev_cases) (auto simp: map_last_def)

lemma sim_write:
  assumes sim: "ledger_sim h db st" and r: "command_at t c db = Some r" and e: "entry_at st (t, c) = Some (d, op)"
    and f: "\<And>x. co_tenant_id (f x) = co_tenant_id x \<and> co_command_id (f x) = co_command_id x"
      "cr_payload_sha256 (f r) = cr_payload_sha256 r" "op_view (f r) = op_view op'"
    and cmds: "pg_commands db' = map (\<lambda>x. if is_command t c x then f x else x) (pg_commands db)"
    and audit: "pg_audit db' = pg_audit db @ [ae]" "ad_tenant_id ae = t" "ev_operation_id ae = c"
      "ev_event_id ae = Suc (length (pg_audit db))" "event_view ae = event_view ev"
    and ids: "numbered at_attempt_id (pg_attempts db')"
    and att: "\<And>t' c'. map attempt_view (filter (is_attempt t' c') (pg_attempts db'))
      = map attempt_view (filter (is_attempt t' c') (pg_attempts db)) @ (if (t', c') = (t, c) then new else [])"
    and st': "entry_at st' = (entry_at st)((t, c) \<mapsto> (d, op'))"
      "events_at st' = (events_at st)((t, c) := events_at st (t, c) @ [ev])"
      "\<And>k. map attempt_view (attempts_at st' k) = map attempt_view (attempts_at st k) @ (if k = (t, c) then new else [])"
    and mut: "mutations_agree db' st'" and marks: "\<not> co_duplicate op'" "co_state op' \<noteq> Cancelled \<Longrightarrow> co_cancelled_at op' = None"
    and inv: "ledger_inv h st'"
  shows "ledger_sim h db' st'"
proof -
  note parts = sim [unfolded ledger_sim_def]
  have at: "command_at t' c' db' = (if (t', c') = (t, c) then map_option f (command_at t c db) else command_at t' c' db)" for t' c'
    unfolding command_at_def cmds by (rule find_command_update) (rule f(1))
  have sha: "cr_payload_sha256 r = d"
    using commands_agreeD(2) [OF parts [THEN conjunct1] r] e by auto
  have "commands_agree db' st'"
    using parts at r sha f(2,3) st'(1) by (auto simp: commands_agree_def)
  moreover have "timelines_agree db' st'"
    using parts audit st'(2) by (auto simp: timelines_agree_def is_audit_def)
  moreover have "attempts_agree db' st'"
    unfolding attempts_agree_def using parts att st'(3) by (auto simp: attempts_agree_def)
  moreover have "map (\<lambda>x. (co_tenant_id x, co_command_id x)) (pg_commands db') = map (\<lambda>x. (co_tenant_id x, co_command_id x)) (pg_commands db)"
    unfolding cmds using f(1) by simp
  then have "tables_sound db'"
    using parts ids audit(1,4) by (simp add: tables_sound_def numbered_snoc)
  moreover have "attempts_at st k = [] \<Longrightarrow> k \<noteq> (t, c) \<Longrightarrow> attempts_at st' k = []" for k using st'(3) [of k] by simp
  then have "marks_sound st'"
    using parts marks st'(1,2) by (auto simp: marks_sound_def split: if_splits)
  ultimately show ?thesis using mut inv by (simp add: ledger_sim_def)
qed

subsection \<open>Transitions\<close>

lemma tenant_transaction_ok: "canonical_tenant_id t = Inr v \<Longrightarrow> tenant_transaction t m = transaction m"
  by (simp add: tenant_transaction_def thenE_def bindE_def liftE_run transaction_def fun_eq_iff)

lemma completed_is_last:
  assumes "timeline_ok evs s" and "e \<in> set evs" and "ev_new_state e = Completed"
  shows "s = Completed"
proof -
  have stuck: "chained Completed es \<Longrightarrow> es = []" for es
    by (cases es) (auto simp: legal_edge_def ACTIVE_COMMAND_STATES_def)
  have "chained s0 es \<Longrightarrow> e \<in> set es \<Longrightarrow> ev_new_state (last es) = Completed" for s0 es
  proof (induction s0 es rule: chained.induct)
    case (2 s0 x es)
    then show ?case using stuck assms(3) by (cases "es = []") auto
  qed simp
  moreover obtain x es where "evs = x # es" "ev_new_state x = Persisted" "chained Persisted es" "ev_new_state (last evs) = s"
    using assms(1) by (cases evs) (auto simp: timeline_ok_def)
  ultimately show ?thesis using assms(2,3) by (cases "es = []") auto
qed

lemma no_completed_audit:
  assumes sim: "ledger_sim h db st" and e: "entry_at st (t, c) = Some (d, op)" and "co_state op \<noteq> Completed"
    and a: "a \<in> set (pg_audit db)" "is_audit t c a"
  shows "ev_new_state a \<noteq> Completed"
proof
  assume "ev_new_state a = Completed"
  moreover have eq: "map event_view (filter (is_audit t c) (pg_audit db)) = map event_view (events_at st (t, c))"
    using sim by (simp add: ledger_sim_def timelines_agree_def)
  have "event_view a \<in> set (map event_view (filter (is_audit t c) (pg_audit db)))" using a by simp
  then have "event_view a \<in> event_view ` set (events_at st (t, c))" unfolding eq by simp
  ultimately obtain ev where "ev \<in> set (events_at st (t, c))" "ev_new_state ev = Completed" by (auto simp: event_view_def)
  moreover have "timeline_ok (events_at st (t, c)) (co_state op)"
    using sim e ledger_inv_entry unfolding ledger_sim_def entry_inv_def by blast
  ultimately show False using completed_is_last assms(3) by blast
qed

definition new_attempts :: "command_state \<Rightarrow> nat \<Rightarrow> int \<Rightarrow> (nat \<times> int) list" where
  "new_attempts ns n now = (if ns = Dispatching then [(Suc n, now)] else [])"

text \<open>What a statement on the attempts of one command leaves: the views of all others, and \<open>new\<close> appended to its own.\<close>

definition attempts_extended :: "string \<Rightarrow> uuid \<Rightarrow> (nat \<times> int) list \<Rightarrow> attempt_row list \<Rightarrow> attempt_row list \<Rightarrow> bool" where
  "attempts_extended t c new ats ats' \<longleftrightarrow>
     (\<forall>t' c'. map attempt_view (filter (is_attempt t' c') ats')
        = map attempt_view (filter (is_attempt t' c') ats) @ (if (t', c') = (t, c) then new else []))
     \<and> (numbered at_attempt_id ats \<longrightarrow> numbered at_attempt_id ats')"

lemma attempts_extended_refl: "attempts_extended t c [] ats ats"
  by (simp add: attempts_extended_def)

lemma update_newest_run:
  assumes "\<And>x. attempt_view (f x) = attempt_view x \<and> ta_tenant_id (f x) = ta_tenant_id x \<and> at_operation_id (f x) = at_operation_id x
    \<and> at_attempt_id (f x) = at_attempt_id x"
  shows "\<exists>ats. update_newest_attempt t c f db = (Inr (), db\<lparr>pg_attempts := ats\<rparr>) \<and> attempts_extended t c [] (pg_attempts db) ats"
proof (cases "newest_attempt t c db")
  case None
  then show ?thesis
    by (intro exI [of _ "pg_attempts db"]) (simp add: update_newest_attempt_def modifyE_def attempts_extended_refl)
next
  case (Some a)
  let ?ats = "map (\<lambda>x. if at_attempt_id x = at_attempt_id a then f x else x) (pg_attempts db)"
  have "attempts_extended t c [] (pg_attempts db) ?ats"
    unfolding attempts_extended_def using attempts_same_view [of f] numbered_update [of at_attempt_id f] assms by simp
  then show ?thesis using Some by (intro exI [of _ ?ats]) (simp add: update_newest_attempt_def modifyE_def)
qed

lemma insert_attempt_run:
  "\<exists>ats. insert_attempt t c now db = (Inr (), db\<lparr>pg_attempts := ats\<rparr>)
     \<and> attempts_extended t c [(Suc (max_attempt t c db), now)] (pg_attempts db) ats"
proof -
  let ?a = "\<lparr>at_attempt_id = length (pg_attempts db) + 1, at_operation_id = c, at_attempt_number = max_attempt t c db + 1,
    at_state = Dispatching, at_provider_operation_id = None, at_safe_error_code = None, at_started_at = now, at_finished_at = None,
    ta_tenant_id = t, ta_result_payload = None, ta_error_detail = None\<rparr>"
  have "attempts_extended t c [(Suc (max_attempt t c db), now)] (pg_attempts db) (pg_attempts db @ [?a])"
    by (auto simp: attempts_extended_def attempt_view_def is_attempt_def numbered_snoc)
  then show ?thesis by (intro exI [of _ "pg_attempts db @ [?a]"]) (simp add: insert_attempt_def modifyE_def)
qed

lemma pg_transition_body_ok:
  assumes r: "command_at t c db = Some r" and x: "\<not> (x \<noteq> None \<and> ns \<noteq> Dispatching \<and> max_attempt t c db \<noteq> the x)"
    and ns: "ns \<in> set (ALLOWED_COMMAND_TRANSITIONS (co_state r))"
  shows "\<exists>ats. pg_transition_body h jsonb now t c ns a rs p ev x db =
      (Inr (transition_row now ns p (take 2048 rs) r),
       db\<lparr>pg_commands := map (\<lambda>y. if is_command t c y then transition_row now ns p (take 2048 rs) y else y) (pg_commands db),
          pg_audit := pg_audit db @ [\<lparr>ev_event_id = Suc (length (pg_audit db)), ev_operation_id = c,
            ev_previous_state = Some (co_state r), ev_new_state = ns, ev_actor_id = a, ev_reason = take 2048 rs,
            ev_safe_metadata = jsonb [(''provider_operation_id'', opt_str p),
              (''readback_evidence_sha256'', opt_str (map_option (provider_evidence_digest h) ev))],
            ev_created_at = now, ad_tenant_id = t\<rparr>], pg_attempts := ats\<rparr>)
     \<and> attempts_extended t c (new_attempts ns (max_attempt t c db) now) (pg_attempts db) ats"
proof -
  let ?db1 = "db\<lparr>pg_commands := map (\<lambda>y. if is_command t c y then transition_row now ns p (take 2048 rs) y else y) (pg_commands db),
    pg_audit := pg_audit db @ [\<lparr>ev_event_id = Suc (length (pg_audit db)), ev_operation_id = c,
      ev_previous_state = Some (co_state r), ev_new_state = ns, ev_actor_id = a, ev_reason = take 2048 rs,
      ev_safe_metadata = jsonb [(''provider_operation_id'', opt_str p),
        (''readback_evidence_sha256'', opt_str (map_option (provider_evidence_digest h) ev))],
      ev_created_at = now, ad_tenant_id = t\<rparr>]\<rparr>"
  let ?m = "if ns = Dispatching then insert_attempt t c now
     else if ns \<in> set [Accepted, ReadbackPending, Completed, Failed, ReconciliationRequired]
     then update_newest_attempt t c (transition_attempt now ns p (take 2048 rs) (map_option jsonb ev))
     else retE ()"
  have "\<exists>ats. ?m ?db1 = (Inr (), ?db1\<lparr>pg_attempts := ats\<rparr>)
      \<and> attempts_extended t c (new_attempts ns (max_attempt t c db) now) (pg_attempts db) ats"
  proof (cases "ns = Dispatching")
    case True
    have "max_attempt t c ?db1 = max_attempt t c db" by (simp add: max_attempt_def)
    then show ?thesis using insert_attempt_run [of t c now ?db1] True by (simp add: new_attempts_def)
  next
    case False
    show ?thesis
    proof (cases "ns \<in> set [Accepted, ReadbackPending, Completed, Failed, ReconciliationRequired]")
      case True
      have "\<exists>ats. update_newest_attempt t c (transition_attempt now ns p (take 2048 rs) (map_option jsonb ev)) ?db1 = (Inr (), ?db1\<lparr>pg_attempts := ats\<rparr>)
          \<and> attempts_extended t c [] (pg_attempts ?db1) ats"
        by (rule update_newest_run) (simp add: transition_attempt_def attempt_view_def)
      then show ?thesis using True False by (auto simp: new_attempts_def)
    next
      case no: False
      then show ?thesis using False
        by (intro exI [of _ "pg_attempts db"]) (simp add: retE_def new_attempts_def attempts_extended_refl)
    qed
  qed
  moreover have "pg_transition_body h jsonb now t c ns a rs p ev x db
      = bindE ?m (\<lambda>_. retE (transition_row now ns p (take 2048 rs) r)) ?db1"
    unfolding pg_transition_body_def bindE_def getsE_def prod.case sum.case r option.case if_not_P [OF x]
    using ns r by (simp add: update_command_def thenE_def bindE_def insert_audit_def modifyE_def cong: if_cong)
  ultimately show ?thesis by (auto simp: bindE_def retE_def)
qed

lemma pg_transition_body_illegal:
  assumes r: "command_at t c db = Some r" and x: "\<not> (x \<noteq> None \<and> ns \<noteq> Dispatching \<and> max_attempt t c db \<noteq> the x)"
    and ns: "ns \<notin> set (ALLOWED_COMMAND_TRANSITIONS (co_state r))"
  shows "pg_transition_body h jsonb now t c ns a rs p ev x db = (Inl (Exc CommandConflict (''invalid command transition ''
    @ state_str (co_state r) @ '' -> '' @ state_str ns)), db)"
  unfolding pg_transition_body_def bindE_def getsE_def prod.case sum.case r option.case if_not_P [OF x] if_P [OF ns] raiseE_def ..

lemma coalesce_or_str: "p \<noteq> Some [] \<Longrightarrow> coalesce p q = or_str p q"
  by (auto simp: coalesce_def or_str_def truthy_def split: option.splits)

lemma memory_transition_run:
  assumes ok: "\<not> (ev \<noteq> None \<and> ns \<notin> set [Completed, ReconciliationRequired])"
    and e: "entry_at st (t, c) = Some (d, op)"
    and x: "\<not> (x \<noteq> None \<and> ns \<noteq> Dispatching \<and> length (attempts_at st (t, c)) \<noteq> the x)"
    and ns: "ns \<in> set (ALLOWED_COMMAND_TRANSITIONS (co_state op))"
  shows "\<exists>st' e'. store_transition h now t c ns a rs p ev x st =
      (Inr (op\<lparr>co_state := ns, co_provider_operation_id := or_str p (co_provider_operation_id op),
         co_readback_evidence := (if ev \<noteq> None then ev else co_readback_evidence op),
         co_readback_evidence_sha256 := (case ev of Some v \<Rightarrow> Some (provider_evidence_digest h v) | None \<Rightarrow> co_readback_evidence_sha256 op),
         co_last_error := (if ns \<in> set [Failed, ReconciliationRequired] then Some rs else None), co_updated_at := now\<rparr>), st')
     \<and> entry_at st' = (entry_at st)((t, c) \<mapsto> (d, op\<lparr>co_state := ns, co_provider_operation_id := or_str p (co_provider_operation_id op),
         co_readback_evidence := (if ev \<noteq> None then ev else co_readback_evidence op),
         co_readback_evidence_sha256 := (case ev of Some v \<Rightarrow> Some (provider_evidence_digest h v) | None \<Rightarrow> co_readback_evidence_sha256 op),
         co_last_error := (if ns \<in> set [Failed, ReconciliationRequired] then Some rs else None), co_updated_at := now\<rparr>))
     \<and> events_at st' = (events_at st)((t, c) := events_at st (t, c) @ [e'])
     \<and> event_view e' = (Some (co_state op), ns, a, take 2048 rs, now)
     \<and> (\<forall>k. map attempt_view (attempts_at st' k) = map attempt_view (attempts_at st k)
          @ (if k = (t, c) then new_attempts ns (length (attempts_at st (t, c))) now else []))
     \<and> cs_mutations st' = cs_mutations st"
proof -
  have ns': "\<not> ns \<notin> set (ALLOWED_COMMAND_TRANSITIONS (co_state op))" using ns by simp
  show ?thesis
    unfolding store_transition_def if_not_P [OF ok] e option.case prod.case if_not_P [OF x] if_not_P [OF ns'] Let_def
    by (rule exI, rule exI [of _ "\<lparr>ev_event_id = length (events_at st (t, c)) + 1, ev_operation_id = c, ev_previous_state = Some (co_state op),
          ev_new_state = ns, ev_actor_id = a, ev_reason = take 2048 rs, ev_safe_metadata = [(''provider_operation_id'', opt_str p)],
          ev_created_at = now\<rparr>"], rule conjI, rule refl)
      (simp add: entry_at_def fun_eq_iff append_event_events event_view_def attempt_view_def new_attempts_def map_last_view)
qed

lemma transition_view:
  assumes "op_view r = op_view op" and "p \<noteq> Some []"
  shows "op_view (transition_row now ns p (take 2048 rs) r) = op_view (op\<lparr>co_state := ns,
    co_provider_operation_id := or_str p (co_provider_operation_id op), co_readback_evidence := x, co_readback_evidence_sha256 := y,
    co_last_error := (if ns \<in> set [Failed, ReconciliationRequired] then Some rs else None), co_updated_at := now\<rparr>)"
  using assms(1) coalesce_or_str [OF assms(2)]
  by (cases r; cases op) (simp add: op_view_def transition_row_def command_operation.defs)

lemma persisted_none:
  assumes "\<And>e. e \<in> set (pg_audit db) \<Longrightarrow> is_audit t c e \<Longrightarrow> P e \<Longrightarrow> json_member_text (ev_safe_metadata e) ''readback_evidence_sha256'' = None"
  shows "snd (persisted_evidence t c P db) = None"
  using assms by (cases "sql_first (\<lambda>e. - int (ev_event_id e)) (\<lambda>e. is_audit t c e \<and> P e) (pg_audit db)")
    (auto simp: persisted_evidence_def dest: sql_first_Some)

lemma reads_null: "keeps_text jsonb \<Longrightarrow> map_of d k = Some JNull \<Longrightarrow> json_member_text (jsonb d) k = None"
  by (simp add: keeps_text_def json_member_text_def)

lemma transition_accepted:
  assumes sim: "ledger_sim h db st" and tn: "canonical_tenant_id t = Inr v" and p: "p \<noteq> Some []" and jb: "keeps_text jsonb"
    and go: "\<not> (ev \<noteq> None \<and> ns \<notin> set [Completed, ReconciliationRequired])"
    and r: "command_at t c db = Some r" and e: "entry_at st (t, c) = Some (cr_payload_sha256 r, op)" and vw: "op_view r = op_view op"
    and x: "\<not> (x \<noteq> None \<and> ns \<noteq> Dispatching \<and> length (attempts_at st (t, c)) \<noteq> the x)"
    and ns: "ns \<in> set (ALLOWED_COMMAND_TRANSITIONS (co_state op))"
  shows "ledger_sim h (snd (pg_transition h jsonb now t c ns a rs p ev x db)) (snd (store_transition h now t c ns a rs p ev x st))
    \<and> answers_agree (CallTransition t c ns a rs p ev x) (fst (pg_transition h jsonb now t c ns a rs p ev x db))
        (fst (store_transition h now t c ns a rs p ev x st))"
proof -
  let ?row = "transition_row now ns p (take 2048 rs)"
  note n = attempts_count [OF sim e]
  have s: "co_state r = co_state op" using op_viewD [OF vw] by blast
  obtain db' ats where body: "pg_transition_body h jsonb now t c ns a rs p ev x db = (Inr (?row r), db')"
    and db': "pg_commands db' = map (\<lambda>y. if is_command t c y then ?row y else y) (pg_commands db)"
      "pg_audit db' = pg_audit db @ [\<lparr>ev_event_id = Suc (length (pg_audit db)), ev_operation_id = c,
            ev_previous_state = Some (co_state r), ev_new_state = ns, ev_actor_id = a, ev_reason = take 2048 rs,
            ev_safe_metadata = jsonb [(''provider_operation_id'', opt_str p),
              (''readback_evidence_sha256'', opt_str (map_option (provider_evidence_digest h) ev))],
            ev_created_at = now, ad_tenant_id = t\<rparr>]"
      "pg_attempts db' = ats" "pg_mutations db' = pg_mutations db"
    and ats: "attempts_extended t c (new_attempts ns (length (attempts_at st (t, c))) now) (pg_attempts db) ats"
    using pg_transition_body_ok [OF r, of x ns h jsonb now a rs p ev] x ns n s by auto
  obtain st' e' op' where mem: "store_transition h now t c ns a rs p ev x st = (Inr op', st')"
    and op': "op_view (?row r) = op_view op'" "co_duplicate op' = co_duplicate op" "co_state op' = ns" "co_cancelled_at op' = co_cancelled_at op"
    and st': "entry_at st' = (entry_at st)((t, c) \<mapsto> (cr_payload_sha256 r, op'))" "events_at st' = (events_at st)((t, c) := events_at st (t, c) @ [e'])"
      "event_view e' = (Some (co_state op), ns, a, take 2048 rs, now)"
      "\<And>k. map attempt_view (attempts_at st' k) = map attempt_view (attempts_at st k)
          @ (if k = (t, c) then new_attempts ns (length (attempts_at st (t, c))) now else [])"
      "cs_mutations st' = cs_mutations st"
    using memory_transition_run [OF go e x ns, of h now a rs p] transition_view [OF vw p] by auto
  have live: "co_state op \<noteq> Cancelled" "co_state op \<noteq> Completed" using ns by auto
  then have marks: "\<not> co_duplicate op" "co_cancelled_at op = None"
    using sim e unfolding ledger_sim_def marks_sound_def by blast+
  have sim': "ledger_sim h db' st'"
  proof (rule sim_write [OF sim r e, where f = ?row and op' = op' and ev = e' and new = "new_attempts ns (length (attempts_at st (t, c))) now"])
    show "numbered at_attempt_id (pg_attempts db')"
      using sim ats db'(3) by (simp add: ledger_sim_def tables_sound_def attempts_extended_def)
    show "map attempt_view (filter (is_attempt t' c') (pg_attempts db')) = map attempt_view (filter (is_attempt t' c') (pg_attempts db))
        @ (if (t', c') = (t, c) then new_attempts ns (length (attempts_at st (t, c))) now else [])" for t' c'
      using ats db'(3) by (simp add: attempts_extended_def)
    show "mutations_agree db' st'"
      using sim db'(4) st'(5) by (simp add: ledger_sim_def mutations_agree_def mutation_at_def)
    show "ledger_inv h st'"
      using ledger_inv_step [OF ls_op [OF to_transition [of h t st now c ns a rs p ev x]]] mem sim by (simp add: ledger_sim_def)
    show "co_tenant_id (?row x) = co_tenant_id x \<and> co_command_id (?row x) = co_command_id x" for x by (simp add: transition_row_def)
    show "cr_payload_sha256 (?row r) = cr_payload_sha256 r" by (simp add: transition_row_def)
    show "event_view \<lparr>ev_event_id = Suc (length (pg_audit db)), ev_operation_id = c,
            ev_previous_state = Some (co_state r), ev_new_state = ns, ev_actor_id = a, ev_reason = take 2048 rs,
            ev_safe_metadata = jsonb [(''provider_operation_id'', opt_str p),
              (''readback_evidence_sha256'', opt_str (map_option (provider_evidence_digest h) ev))],
            ev_created_at = now, ad_tenant_id = t\<rparr> = event_view e'"
      unfolding st'(3) by (simp add: event_view_def s)
    show "\<not> co_duplicate op'" "co_cancelled_at op' = None" using op'(2,4) marks by simp_all
  qed (use db'(1,2) st'(1,2,4) op'(1) in simp_all)
  show ?thesis
  proof (cases ev)
    case (Some v)
    then show ?thesis using sim' body mem op'(2) marks(1) answers_agree_row [OF row_operation_evidence op'(1)]
      unfolding pg_transition_def if_not_P [OF go] tenant_transaction_ok [OF tn]
      by (simp add: transaction_def bindE_def liftE_run row_operation_evidence)
  next
    case None
    have "snd (persisted_evidence t c (\<lambda>e. ev_new_state e = Completed) db') = None"
      by (rule persisted_none) (use no_completed_audit [OF sim e live(2)] reads_null [OF jb] db'(2) None in \<open>auto simp: opt_str_def\<close>)
    then obtain pe where "persisted_evidence t c (\<lambda>e. ev_new_state e = Completed) db' = (pe, None)" by (metis prod.collapse)
    then show ?thesis using None sim' body mem op'(2) marks(1) answers_agree_row [OF row_operation_plain op'(1)]
      unfolding pg_transition_def if_not_P [OF go] tenant_transaction_ok [OF tn]
      by (simp add: transaction_def bindE_def getsE_def liftE_run row_operation_plain)
  qed
qed

lemma transition_sim:
  assumes sim: "ledger_sim h db st" and tn: "canonical_tenant_id t = Inr v" and p: "p \<noteq> Some []" and jb: "keeps_text jsonb"
  shows "ledger_sim h (snd (pg_transition h jsonb now t c ns a rs p ev x db)) (snd (store_transition h now t c ns a rs p ev x st))
    \<and> answers_agree (CallTransition t c ns a rs p ev x) (fst (pg_transition h jsonb now t c ns a rs p ev x db))
        (fst (store_transition h now t c ns a rs p ev x st))"
proof (cases "ev \<noteq> None \<and> ns \<notin> set [Completed, ReconciliationRequired]")
  case True
  then show ?thesis using sim by (simp add: pg_transition_def store_transition_def raiseE_def answers_agree_def)
next
  case go: False
  note pg = pg_transition_def [of h jsonb now t c ns a rs p ev x, unfolded if_not_P [OF go] tenant_transaction_ok [OF tn]]
  note mem = store_transition_def [of h now t c ns a rs p ev x st, unfolded if_not_P [OF go] Let_def]
  have agree: "commands_agree db st" using sim by (simp add: ledger_sim_def)
  show ?thesis
  proof (cases "command_at t c db")
    case None
    moreover have "entry_at st (t, c) = None" using None commands_agreeD(1) [OF agree] by blast
    ultimately show ?thesis using sim
      by (simp add: pg mem pg_transition_body_def bindE_def getsE_def reraiseE_def transaction_def answers_agree_def not_found_def)
  next
    case (Some r)
    then obtain op where e: "entry_at st (t, c) = Some (cr_payload_sha256 r, op)" and vw: "op_view r = op_view op"
      using commands_agreeD(2) [OF agree] by blast
    note n = attempts_count [OF sim e] and s = op_viewD [OF vw, THEN conjunct1]
    show ?thesis
    proof (cases "(x \<noteq> None \<and> ns \<noteq> Dispatching \<and> length (attempts_at st (t, c)) \<noteq> the x)")
      case True
      then show ?thesis using Some e n sim
        by (simp add: pg mem pg_transition_body_def bindE_def getsE_def raiseE_def transaction_def answers_agree_def)
    next
      case x: False
      show ?thesis
      proof (cases "ns \<in> set (ALLOWED_COMMAND_TRANSITIONS (co_state op))")
        case True
        then show ?thesis by (rule transition_accepted [OF sim tn p jb go Some e vw x])
      next
        case False
        then show ?thesis
          unfolding mem e option.case prod.case if_not_P [OF x] pg
          using pg_transition_body_illegal [OF Some, of x ns h jsonb now a rs p ev] x n s sim
          by (simp add: bindE_def transaction_def answers_agree_def)
      qed
    qed
  qed
qed

subsection \<open>Verdicts\<close>

lemma pg_reconcile_body_ok:
  assumes r: "command_at t c db = Some r" and s: "\<not> co_state r \<noteq> ReconciliationRequired"
    and ver: "\<not> (ver \<noteq> None \<and> co_resource_version r \<noteq> the ver)"
  shows "\<exists>ats ae. pg_reconcile_body h jsonb now t c m a rs p evd ver db =
      (Inr (verdict_row now m p rs r),
       db\<lparr>pg_commands := map (\<lambda>y. if is_command t c y then verdict_row now m p rs y else y) (pg_commands db),
          pg_audit := pg_audit db @ [ae], pg_attempts := ats\<rparr>)
     \<and> attempts_extended t c [] (pg_attempts db) ats \<and> ad_tenant_id ae = t \<and> ev_operation_id ae = c
     \<and> ev_event_id ae = Suc (length (pg_audit db))
     \<and> event_view ae = (Some ReconciliationRequired, if m then Completed else ReconciliationRequired, a, rs, now)
     \<and> ev_safe_metadata ae = jsonb [(''provider_operation_id'', opt_str p), (''readback_evidence_sha256'', JStr (provider_evidence_digest h evd)),
         (''reconciliation_status'', JStr (if m then ''matched'' else ''mismatch''))]"
proof -
  let ?ae = "\<lparr>ev_event_id = Suc (length (pg_audit db)), ev_operation_id = c, ev_previous_state = Some ReconciliationRequired,
    ev_new_state = (if m then Completed else ReconciliationRequired), ev_actor_id = a, ev_reason = rs,
    ev_safe_metadata = jsonb [(''provider_operation_id'', opt_str p), (''readback_evidence_sha256'', JStr (provider_evidence_digest h evd)),
      (''reconciliation_status'', JStr (if m then ''matched'' else ''mismatch''))], ev_created_at = now, ad_tenant_id = t\<rparr>"
  let ?db1 = "db\<lparr>pg_commands := map (\<lambda>y. if is_command t c y then verdict_row now m p rs y else y) (pg_commands db),
    pg_audit := pg_audit db @ [?ae]\<rparr>"
  have "\<exists>ats. update_newest_attempt t c (verdict_attempt now m p rs (jsonb evd)) ?db1 = (Inr (), ?db1\<lparr>pg_attempts := ats\<rparr>)
      \<and> attempts_extended t c [] (pg_attempts ?db1) ats"
    by (rule update_newest_run) (simp add: verdict_attempt_def attempt_view_def)
  then obtain ats where "update_newest_attempt t c (verdict_attempt now m p rs (jsonb evd)) ?db1 = (Inr (), ?db1\<lparr>pg_attempts := ats\<rparr>)"
    "attempts_extended t c [] (pg_attempts db) ats" by auto
  moreover have "pg_reconcile_body h jsonb now t c m a rs p evd ver db
      = bindE (update_newest_attempt t c (verdict_attempt now m p rs (jsonb evd))) (\<lambda>_. retE (verdict_row now m p rs r)) ?db1"
    unfolding pg_reconcile_body_def bindE_def getsE_def prod.case sum.case r option.case if_not_P [OF s] if_not_P [OF ver]
    using r by (simp add: update_command_def thenE_def bindE_def insert_audit_def modifyE_def)
  ultimately show ?thesis by (intro exI [of _ ats] exI [of _ ?ae]) (simp add: bindE_def retE_def event_view_def)
qed

lemma memory_reconcile_run:
  assumes e: "entry_at st (t, c) = Some (d, op)" and s: "\<not> co_state op \<noteq> ReconciliationRequired"
    and ver: "\<not> (ver \<noteq> None \<and> co_resource_version op \<noteq> the ver)"
  shows "\<exists>st' e' op'. store_reconcile h now t c m a rs p evd ver st = (Inr op', st')
     \<and> op' = op\<lparr>co_state := (if m then Completed else ReconciliationRequired),
          co_provider_operation_id := or_str p (co_provider_operation_id op), co_readback_evidence := Some evd,
          co_readback_evidence_sha256 := Some (provider_evidence_digest h evd),
          co_last_error := (if m then None else Some (take 2048 rs)),
          co_reconciliation_reason := (if m then co_reconciliation_reason op else Some (take 2048 rs)),
          co_resource_version := co_resource_version op + 1, co_updated_at := now\<rparr>
     \<and> entry_at st' = (entry_at st)((t, c) \<mapsto> (d, op'))
     \<and> events_at st' = (events_at st)((t, c) := events_at st (t, c) @ [e'])
     \<and> event_view e' = (Some ReconciliationRequired, if m then Completed else ReconciliationRequired, a, take 2048 rs, now)
     \<and> (\<forall>k. map attempt_view (attempts_at st' k) = map attempt_view (attempts_at st k))
     \<and> cs_mutations st' = cs_mutations st"
  unfolding store_reconcile_def Let_def e option.case prod.case if_not_P [OF s] if_not_P [OF ver]
  by (rule exI, rule exI [of _ "\<lparr>ev_event_id = length (events_at st (t, c)) + 1, ev_operation_id = c,
        ev_previous_state = Some ReconciliationRequired, ev_new_state = (if m then Completed else ReconciliationRequired),
        ev_actor_id = a, ev_reason = take 2048 rs, ev_safe_metadata = [(''provider_operation_id'', opt_str p),
          (''readback_evidence_sha256'', JStr (provider_evidence_digest h evd)),
          (''reconciliation_status'', JStr (if m then ''matched'' else ''mismatch''))], ev_created_at = now\<rparr>"],
      rule exI, rule conjI, rule refl, rule conjI, rule refl)
    (simp add: entry_at_def fun_eq_iff append_event_events event_view_def attempt_view_def map_last_view)

lemma verdict_view:
  assumes "op_view r = op_view op" and "p \<noteq> Some []" and "co_state op = ReconciliationRequired"
  shows "op_view (verdict_row now m p (take 2048 rs) r) = op_view (op\<lparr>co_state := (if m then Completed else ReconciliationRequired),
      co_provider_operation_id := or_str p (co_provider_operation_id op), co_readback_evidence := x, co_readback_evidence_sha256 := y,
      co_last_error := (if m then None else Some (take 2048 rs)),
      co_reconciliation_reason := (if m then co_reconciliation_reason op else Some (take 2048 rs)),
      co_resource_version := co_resource_version op + 1, co_updated_at := now\<rparr>)"
  using assms(1,3) coalesce_or_str [OF assms(2)]
  by (cases r; cases op) (simp add: op_view_def verdict_row_def command_operation.defs)

lemma reconcile_accepted:
  assumes sim: "ledger_sim h db st" and tn: "canonical_tenant_id t = Inr v" and p: "p \<noteq> Some []"
    and r: "command_at t c db = Some r" and e: "entry_at st (t, c) = Some (cr_payload_sha256 r, op)" and vw: "op_view r = op_view op"
    and s: "\<not> co_state op \<noteq> ReconciliationRequired" and ver: "\<not> (ver \<noteq> None \<and> co_resource_version op \<noteq> the ver)"
  shows "ledger_sim h (snd (pg_reconcile h jsonb now t c m a rs p evd ver db)) (snd (store_reconcile h now t c m a rs p evd ver st))
    \<and> answers_agree (CallReconcile t c m a rs p evd ver) (fst (pg_reconcile h jsonb now t c m a rs p evd ver db))
        (fst (store_reconcile h now t c m a rs p evd ver st))"
proof -
  let ?row = "verdict_row now m p (take 2048 rs)"
  have same: "co_state r = co_state op" "co_resource_version r = co_resource_version op" using op_viewD [OF vw] by blast+
  obtain db' ats ae where body: "pg_reconcile_body h jsonb now t c m a (take 2048 rs) p evd ver db = (Inr (?row r), db')"
    and db': "pg_commands db' = map (\<lambda>y. if is_command t c y then ?row y else y) (pg_commands db)" "pg_audit db' = pg_audit db @ [ae]"
      "pg_attempts db' = ats" "pg_mutations db' = pg_mutations db"
    and ats: "attempts_extended t c [] (pg_attempts db) ats"
    and ae: "ad_tenant_id ae = t" "ev_operation_id ae = c" "ev_event_id ae = Suc (length (pg_audit db))"
      "event_view ae = (Some ReconciliationRequired, if m then Completed else ReconciliationRequired, a, take 2048 rs, now)"
    using pg_reconcile_body_ok [OF r, of ver h jsonb now m a "take 2048 rs" p evd] s ver same by auto
  obtain st' e' op' where mem: "store_reconcile h now t c m a rs p evd ver st = (Inr op', st')"
    and op': "op_view (?row r) = op_view op'" "co_duplicate op' = co_duplicate op" "co_cancelled_at op' = co_cancelled_at op"
    and st': "entry_at st' = (entry_at st)((t, c) \<mapsto> (cr_payload_sha256 r, op'))" "events_at st' = (events_at st)((t, c) := events_at st (t, c) @ [e'])"
      "event_view e' = event_view ae" "\<And>k. map attempt_view (attempts_at st' k) = map attempt_view (attempts_at st k)"
      "cs_mutations st' = cs_mutations st"
    using memory_reconcile_run [OF e s ver, of h now m a rs p evd] verdict_view [OF vw p] s ae(4) by auto
  have marks: "\<not> co_duplicate op" "co_cancelled_at op = None"
    using sim e s unfolding ledger_sim_def marks_sound_def by (blast, fastforce)
  have "ledger_sim h db' st'"
  proof (rule sim_write [OF sim r e, where f = ?row and op' = op' and ev = e' and new = "[]"])
    show "co_tenant_id (?row x) = co_tenant_id x \<and> co_command_id (?row x) = co_command_id x" for x by (simp add: verdict_row_def)
    show "cr_payload_sha256 (?row r) = cr_payload_sha256 r" by (simp add: verdict_row_def)
    show "numbered at_attempt_id (pg_attempts db')"
      using sim ats db'(3) by (simp add: ledger_sim_def tables_sound_def attempts_extended_def)
    show "mutations_agree db' st'"
      using sim db'(4) st'(5) by (simp add: ledger_sim_def mutations_agree_def mutation_at_def)
    show "ledger_inv h st'"
      using ledger_inv_step [OF ls_op [OF to_reconcile [of h t st now c m a rs p evd ver]]] mem sim by (simp add: ledger_sim_def)
    show "\<not> co_duplicate op'" "co_cancelled_at op' = None" using op'(2,3) marks by simp_all
    show "map attempt_view (filter (is_attempt t' c') (pg_attempts db')) = map attempt_view (filter (is_attempt t' c') (pg_attempts db))
        @ (if (t', c') = (t, c) then [] else [])" for t' c'
      using ats db'(3) by (simp add: attempts_extended_def)
  qed (use db'(1,2) ae st'(1,2,3,4) op'(1) in simp_all)
  then show ?thesis using body mem op'(2) marks(1) answers_agree_row [OF row_operation_evidence op'(1)]
    unfolding pg_reconcile_def tenant_transaction_ok [OF tn]
    by (simp add: transaction_def bindE_def liftE_run row_operation_evidence)
qed

lemma reconcile_sim:
  assumes sim: "ledger_sim h db st" and tn: "canonical_tenant_id t = Inr v" and p: "p \<noteq> Some []"
  shows "ledger_sim h (snd (pg_reconcile h jsonb now t c m a rs p evd ver db)) (snd (store_reconcile h now t c m a rs p evd ver st))
    \<and> answers_agree (CallReconcile t c m a rs p evd ver) (fst (pg_reconcile h jsonb now t c m a rs p evd ver db))
        (fst (store_reconcile h now t c m a rs p evd ver st))"
proof -
  note pg = pg_reconcile_def tenant_transaction_ok [OF tn] pg_reconcile_body_def
  have agree: "commands_agree db st" using sim by (simp add: ledger_sim_def)
  show ?thesis
  proof (cases "command_at t c db")
    case None
    moreover have "entry_at st (t, c) = None" using None commands_agreeD(1) [OF agree] by blast
    ultimately show ?thesis using sim
      by (simp add: pg store_reconcile_def bindE_def getsE_def reraiseE_def transaction_def answers_agree_def not_found_def)
  next
    case (Some r)
    then obtain op where e: "entry_at st (t, c) = Some (cr_payload_sha256 r, op)" and vw: "op_view r = op_view op"
      using commands_agreeD(2) [OF agree] by blast
    have same: "co_state r = co_state op" "co_resource_version r = co_resource_version op" using op_viewD [OF vw] by blast+
    show ?thesis
    proof (cases "co_state op \<noteq> ReconciliationRequired \<or> ver \<noteq> None \<and> co_resource_version op \<noteq> the ver")
      case True
      then show ?thesis using Some e same sim
        by (auto simp: pg store_reconcile_def bindE_def getsE_def raiseE_def transaction_def answers_agree_def)
    next
      case False
      then show ?thesis using reconcile_accepted [OF sim tn p Some e vw, of ver] by blast
    qed
  qed
qed

subsection \<open>Mutations\<close>

lemma on_outbox_returns: "\<exists>n ob. m (pg_outbox db) = (Inr n, ob) \<Longrightarrow> \<exists>n ob. on_outbox m db = (Inr n, db\<lparr>pg_outbox := ob\<rparr>)"
  by (auto simp: on_outbox_def zoomE_def)

lemma outbox_statements_return:
  "\<exists>n ob. on_outbox (cancel_rows now t cid) db = (Inr n, db\<lparr>pg_outbox := ob\<rparr>)"
  "\<exists>n ob. on_outbox (request_reconciliation now t cid) db = (Inr n, db\<lparr>pg_outbox := ob\<rparr>)"
  "\<exists>n ob. outbox_insert_ignoring row db = (Inr n, db\<lparr>pg_outbox := ob\<rparr>)"
  unfolding outbox_insert_ignoring_def
  by (rule on_outbox_returns, simp add: cancel_rows_def request_reconciliation_def outbox_insert_def
      sql_update_def thenE_def bindE_def catchE_def retE_def)+

text \<open>What an accepted action does to the tables: one update of the command's row, and something to the outbox.\<close>

definition row_written :: "string \<Rightarrow> uuid \<Rightarrow> (command_row \<Rightarrow> command_row) \<Rightarrow> command_db \<Rightarrow> command_db \<Rightarrow> bool" where
  "row_written t c f db db' \<longleftrightarrow> (\<exists>ob. db' = db\<lparr>pg_commands := map (\<lambda>y. if is_command t c y then f y else y) (pg_commands db), pg_outbox := ob\<rparr>)"

lemma update_command_run:
  "command_at t c db = Some r \<Longrightarrow> update_command t c f db
     = (Inr (f r), db\<lparr>pg_commands := map (\<lambda>y. if is_command t c y then f y else y) (pg_commands db)\<rparr>)"
  by (simp add: update_command_def)

lemma row_written_outbox:
  "row_written t c f db ((db\<lparr>pg_commands := map (\<lambda>y. if is_command t c y then f y else y) (pg_commands db)\<rparr>)\<lparr>pg_outbox := ob\<rparr>)"
  "row_written t c f db (db\<lparr>pg_commands := map (\<lambda>y. if is_command t c y then f y else y) (pg_commands db)\<rparr>)"
  unfolding row_written_def
  by (rule exI [of _ ob], simp, rule exI [of _ "pg_outbox db"], simp)

lemma pg_cancel_run:
  assumes r: "command_at t c db = Some r" and s: "co_state r \<notin> set [Completed, Failed, ReconciliationRequired, DeadLettered, Cancelled]"
    and ns: "ns = (if co_state r \<in> set [Persisted, Queued] \<and> \<not> command_leased (rd_clock rd) t c db then Cancelled else ReconciliationRequired)"
    and f: "f = cancelled_row (rd_now rd) ns rs"
  shows "\<exists>db'. pg_cancel rd t c rs r db = (Inr (f r), db') \<and> row_written t c f db db'"
proof -
  let ?db1 = "db\<lparr>pg_commands := map (\<lambda>y. if is_command t c y then f y else y) (pg_commands db)\<rparr>"
  obtain ob where ob: "on_outbox (cancel_rows (rd_clock rd) t (uuid_str c)) ?db1 = (Inr (), ?db1\<lparr>pg_outbox := ob\<rparr>)"
    using outbox_statements_return(1) [of "rd_clock rd" t "uuid_str c" ?db1] by auto
  have "pg_cancel rd t c rs r db = thenE (if ns = Cancelled then on_outbox (cancel_rows (rd_clock rd) t (uuid_str c)) else retE ()) (retE (f r)) ?db1"
    unfolding pg_cancel_def if_not_P [OF s] bindE_def getsE_def prod.case sum.case Let_def ns [symmetric] f [symmetric] update_command_run [OF r] ..
  then show ?thesis using ob row_written_outbox(1) [of t c f db ob] row_written_outbox(2) [of t c f db]
    by (cases "ns = Cancelled") (auto simp: thenE_def bindE_def retE_def)
qed

lemma pg_request_reconcile_run:
  assumes r: "command_at t c db = Some r" and s: "\<not> co_state r \<notin> set [Dispatching, Accepted, ReadbackPending, ReconciliationRequired]"
    and f: "f = reconcilable_row (rd_now rd) rs"
  shows "\<exists>db'. pg_request_reconcile h jsonb rd t c a ik rs r db = (Inr (f r), db') \<and> row_written t c f db db'"
proof -
  let ?db1 = "db\<lparr>pg_commands := map (\<lambda>y. if is_command t c y then f y else y) (pg_commands db)\<rparr>"
  let ?new = "new_row (rd_outbox_id rd) (rd_clock rd) t (uuid_str c) TEMPORAL_COMMAND_DESTINATION ''operation.reconcile.v1''
    (jsonb [(''command_id'', JStr (uuid_str c)), (''action'', JStr ''reconcile''), (''reason'', JStr rs)]) (work_key h ''reconcile'' t c a ik)"
  obtain n ob where ob: "on_outbox (request_reconciliation (rd_clock rd) t (uuid_str c)) ?db1 = (Inr n, ?db1\<lparr>pg_outbox := ob\<rparr>)"
    using outbox_statements_return(2) by blast
  obtain ob' where ob': "outbox_insert_ignoring ?new (?db1\<lparr>pg_outbox := ob\<rparr>) = (Inr (), (?db1\<lparr>pg_outbox := ob\<rparr>)\<lparr>pg_outbox := ob'\<rparr>)"
    using outbox_statements_return(3) [of ?new "?db1\<lparr>pg_outbox := ob\<rparr>"] by auto
  have "pg_request_reconcile h jsonb rd t c a ik rs r db
      = thenE (if n = 0 then outbox_insert_ignoring ?new else retE ()) (retE (f r)) (?db1\<lparr>pg_outbox := ob\<rparr>)"
    unfolding pg_request_reconcile_def if_not_P [OF s] bindE_def f [symmetric] update_command_run [OF r] prod.case sum.case ob ..
  then show ?thesis using ob' row_written_outbox(1) [of t c f db ob] row_written_outbox(1) [of t c f db ob']
    by (cases "n = 0") (auto simp: thenE_def bindE_def retE_def)
qed

lemma pg_retry_run:
  assumes r: "command_at t c db = Some r" and s: "\<not> co_state r \<noteq> Failed"
    and f: "f = requeued_row (rd_now rd)"
  shows "\<exists>db'. pg_retry h jsonb rd t c a ik r db = (Inr (f r), db') \<and> row_written t c f db db'"
proof -
  let ?db1 = "db\<lparr>pg_commands := map (\<lambda>y. if is_command t c y then f y else y) (pg_commands db)\<rparr>"
  let ?new = "new_row (rd_outbox_id rd) (rd_clock rd) t (uuid_str c) (retry_destination t c ?db1) (co_command_type r)
    (jsonb (AList.update ''idempotency_key'' (JStr (work_key h ''retry'' t c a ik)) (cr_payload r))) (work_key h ''retry'' t c a ik)"
  obtain ob where ob: "outbox_insert_ignoring ?new ?db1 = (Inr (), ?db1\<lparr>pg_outbox := ob\<rparr>)"
    using outbox_statements_return(3) [of ?new ?db1] by auto
  have "pg_retry h jsonb rd t c a ik r db = thenE (outbox_insert_ignoring ?new) (retE (f r)) ?db1"
    unfolding pg_retry_def if_not_P [OF s] Let_def bindE_def f [symmetric] update_command_run [OF r] prod.case sum.case getsE_def ..
  then show ?thesis using ob row_written_outbox(1) [of t c f db ob] by (auto simp: thenE_def bindE_def retE_def)
qed

lemma memory_lease_view:
  assumes "op_view r = op_view op" and "co_cancelled_at op = None"
  shows "op_view (cancelled_row now ns rs r) = op_view (op\<lparr>co_state := ns, co_cancelled_at := (if ns = Cancelled then Some now else None),
      co_cancellation_reason := Some rs, co_resource_version := co_resource_version op + 1, co_updated_at := now\<rparr>)"
    and "op_view (reconcilable_row now rs r) = op_view (op\<lparr>co_state := ReconciliationRequired, co_reconciliation_requested_at := Some now,
      co_reconciliation_reason := Some rs, co_resource_version := co_resource_version op + 1, co_updated_at := now\<rparr>)"
    and "op_view (requeued_row now r) = op_view (op\<lparr>co_state := Queued, co_last_error := None,
      co_resource_version := co_resource_version op + 1, co_updated_at := now\<rparr>)"
  using assms
  by (cases r; cases op; simp add: op_view_def cancelled_row_def reconcilable_row_def requeued_row_def command_operation.defs)+

lemma rows_keep_identity:
  "co_tenant_id (cancelled_row now ns rs x) = co_tenant_id x" "co_command_id (cancelled_row now ns rs x) = co_command_id x"
  "cr_payload_sha256 (cancelled_row now ns rs x) = cr_payload_sha256 x"
  "co_tenant_id (reconcilable_row now rs x) = co_tenant_id x" "co_command_id (reconcilable_row now rs x) = co_command_id x"
  "cr_payload_sha256 (reconcilable_row now rs x) = cr_payload_sha256 x"
  "co_tenant_id (requeued_row now x) = co_tenant_id x" "co_command_id (requeued_row now x) = co_command_id x"
  "cr_payload_sha256 (requeued_row now x) = cr_payload_sha256 x"
  by (simp_all add: cancelled_row_def reconcilable_row_def requeued_row_def)

text \<open>The action on the tables against the action on the in-memory operation.\<close>

lemma apply_action_sim:
  assumes r: "command_at t c db = Some r" and vw: "op_view r = op_view op"
    and lease: "act = ActCancel \<Longrightarrow> command_leased (rd_clock rd) t c db = active_lease (adapter_intents st t c)"
    and mark: "co_state op \<noteq> Cancelled \<Longrightarrow> co_cancelled_at op = None"
  shows "case apply_action h (rd_now rd) act t c a ik rs op st of
      Inl e \<Rightarrow> pg_apply_action h jsonb rd act t c a ik rs r db = (Inl e, db)
    | Inr (op', st') \<Rightarrow> \<exists>f db'. pg_apply_action h jsonb rd act t c a ik rs r db = (Inr (f r), db') \<and> row_written t c f db db'
        \<and> (\<forall>x. co_tenant_id (f x) = co_tenant_id x \<and> co_command_id (f x) = co_command_id x)
        \<and> cr_payload_sha256 (f r) = cr_payload_sha256 r
        \<and> op_view (f r) = op_view (op'\<lparr>co_resource_version := co_resource_version op + 1, co_updated_at := rd_now rd\<rparr>)"
proof -
  have s: "co_state r = co_state op" using op_viewD [OF vw] by blast
  show ?thesis
  proof (cases act)
    case ActCancel
    show ?thesis
    proof (cases "co_state op \<in> set [Completed, Failed, ReconciliationRequired, DeadLettered, Cancelled]")
      case True
      then show ?thesis using ActCancel s by (auto simp: apply_action_def pg_apply_action_def pg_cancel_def raiseE_def)
    next
      case False
      let ?ns = "if co_state op \<in> set [Persisted, Queued] \<and> \<not> active_lease (adapter_intents st t c) then Cancelled else ReconciliationRequired"
      have m: "co_cancelled_at op = None" using False mark by auto
      obtain db' where "pg_cancel rd t c rs r db = (Inr (cancelled_row (rd_now rd) ?ns rs r), db')"
          "row_written t c (cancelled_row (rd_now rd) ?ns rs) db db'"
        using pg_cancel_run [OF r, of ?ns rd _ rs] False s lease [OF ActCancel] by auto
      then show ?thesis unfolding apply_action_def ActCancel mutation_action.case if_not_P [OF False] Let_def sum.case prod.case pg_apply_action_def
        by (intro exI [of _ "cancelled_row (rd_now rd) ?ns rs"] exI [of _ db'] conjI allI)
          (simp_all only: rows_keep_identity memory_lease_view [OF vw m])
    qed
  next
    case ActReconcile
    show ?thesis
    proof (cases "co_state op \<notin> set [Dispatching, Accepted, ReadbackPending, ReconciliationRequired]")
      case True
      then show ?thesis using ActReconcile s by (auto simp: apply_action_def pg_apply_action_def pg_request_reconcile_def raiseE_def)
    next
      case False
      then have m: "co_cancelled_at op = None" using mark by auto
      obtain db' where "pg_request_reconcile h jsonb rd t c a ik rs r db = (Inr (reconcilable_row (rd_now rd) rs r), db')"
          "row_written t c (reconcilable_row (rd_now rd) rs) db db'"
        using pg_request_reconcile_run [OF r _ refl, of h jsonb rd a ik rs] False unfolding s by blast
      then show ?thesis unfolding apply_action_def ActReconcile mutation_action.case if_not_P [OF False] sum.case prod.case pg_apply_action_def
        by (intro exI [of _ "reconcilable_row (rd_now rd) rs"] exI [of _ db'] conjI allI)
          (simp_all only: rows_keep_identity memory_lease_view [OF vw m])
    qed
  next
    case ActRetry
    show ?thesis
    proof (cases "co_state op \<noteq> Failed")
      case True
      then show ?thesis using ActRetry s by (auto simp: apply_action_def pg_apply_action_def pg_retry_def raiseE_def)
    next
      case False
      then have m: "co_cancelled_at op = None" using mark by auto
      obtain db' where "pg_retry h jsonb rd t c a ik r db = (Inr (requeued_row (rd_now rd) r), db')"
          "row_written t c (requeued_row (rd_now rd)) db db'"
        using pg_retry_run [OF r _ refl, of h jsonb rd a ik] False unfolding s by blast
      then show ?thesis unfolding apply_action_def ActRetry mutation_action.case if_not_P [OF False] sum.case prod.case pg_apply_action_def
        by (intro exI [of _ "requeued_row (rd_now rd)"] exI [of _ db'] conjI allI)
          (simp_all only: rows_keep_identity memory_lease_view [OF vw m])
    qed
  qed
qed

lemma memory_mutate_run:
  assumes e: "entry_at st (t, c) = Some (d, op)" and m: "map_of (cs_mutations st) (t, c, act, a, ik) = None"
    and ver: "\<not> co_resource_version op \<noteq> ver" and act: "apply_action h now act t c a ik rs op st = Inr (op1, st1)"
    and u: "u = op1\<lparr>co_resource_version := co_resource_version op + 1, co_updated_at := now\<rparr>"
  shows "\<exists>st' e'. mutate_operation h now t c act a ik ver rs mc st = (Inr u, st')
     \<and> entry_at st' = (entry_at st)((t, c) \<mapsto> (d, u))
     \<and> events_at st' = (events_at st)((t, c) := events_at st (t, c) @ [e'])
     \<and> event_view e' = (Some (co_state op), co_state u, a, rs, now) \<and> attempts_at st' = attempts_at st
     \<and> cs_mutations st' = AList.update (t, c, act, a, ik) (mutation_digest h ver rs, u) (cs_mutations st)"
proof -
  have same: "cs_commands st1 = cs_commands st" "events_at st1 = events_at st" "attempts_at st1 = attempts_at st" "cs_mutations st1 = cs_mutations st"
    using apply_action_Inr [OF act] by (auto simp: ledger_same_def events_at_def attempts_at_def fun_eq_iff)
  show ?thesis
    unfolding mutate_operation_def Let_def e option.case prod.case m if_not_P [OF ver] act sum.case u [symmetric]
    by (rule exI, rule exI [of _ "\<lparr>ev_event_id = length (events_at st (t, c)) + 1, ev_operation_id = c,
        ev_previous_state = Some (co_state op), ev_new_state = co_state u, ev_actor_id = a, ev_reason = rs,
        ev_safe_metadata = dict_merge [(''action'', JStr (action_str act)), (''resource_version'', JInt (int (co_resource_version u)))]
          (mutation_evidence mc), ev_created_at = now\<rparr>"], rule conjI, rule refl)
      (simp add: entry_at_def fun_eq_iff append_event_events event_view_def same)
qed

lemma mutation_at_snoc:
  "mutation_at t c act a ik (db\<lparr>pg_mutations := ms @ [m]\<rparr>) = (case mutation_at t c act a ik (db\<lparr>pg_mutations := ms\<rparr>) of
     Some x \<Rightarrow> Some x
   | None \<Rightarrow> if (mr_tenant_id m, mr_command_id m, mr_action m, mr_actor_id m, mr_idempotency_key m) = (t, c, act, a, ik) then Some m else None)"
  unfolding mutation_at_def by (induction ms) auto

lemma pg_mutate_run:
  assumes tn: "canonical_tenant_id t = Inr v" and r: "command_at t c db = Some r" and m: "mutation_at t c act a ik db = None"
    and ver: "\<not> co_resource_version r \<noteq> ver" and act: "pg_apply_action h jsonb rd act t c a ik rs r db = (Inr row, db1)"
    and op: "row_operation h row False None None = Inr operation"
  shows "\<exists>ae. pg_mutate_operation h jsonb rd t c act a ik ver rs mc db = (Inr operation,
       db1\<lparr>pg_audit := pg_audit db1 @ [ae], pg_mutations := pg_mutations db1 @ [\<lparr>mr_tenant_id = t, mr_command_id = c, mr_action = act,
         mr_actor_id = a, mr_idempotency_key = ik, mr_request_sha256 = mutation_digest h ver rs, mr_response_payload = operation\<rparr>]\<rparr>)
     \<and> ad_tenant_id ae = t \<and> ev_operation_id ae = c \<and> ev_event_id ae = Suc (length (pg_audit db1))
     \<and> event_view ae = (Some (co_state r), co_state row, a, rs, rd_now rd)"
  unfolding pg_mutate_operation_def tenant_transaction_ok [OF tn] transaction_def bindE_def getsE_def prod.case sum.case r option.case
    m if_not_P [OF ver] act thenE_def insert_audit_def modifyE_def liftE_run op retE_def
  by (rule exI [of _ "\<lparr>ev_event_id = length (pg_audit db1) + 1, ev_operation_id = c, ev_previous_state = Some (co_state r),
      ev_new_state = co_state row, ev_actor_id = a, ev_reason = rs, ev_safe_metadata = jsonb (dict_merge [(''action'', JStr (action_str act)),
        (''resource_version'', JInt (int (co_resource_version row)))] (mutation_evidence mc)), ev_created_at = rd_now rd, ad_tenant_id = t\<rparr>"])
    (simp add: event_view_def)

lemma mutation_recorded:
  assumes agree: "mutations_agree db st" and "pg_mutations db1 = pg_mutations db"
    and "m = \<lparr>mr_tenant_id = t, mr_command_id = c, mr_action = act, mr_actor_id = a, mr_idempotency_key = ik, mr_request_sha256 = dg,
      mr_response_payload = operation\<rparr>" and "op_view operation = op_view u"
    and fresh: "mutation_at t c act a ik db = None" and st': "cs_mutations st' = AList.update (t, c, act, a, ik) (dg, u) (cs_mutations st)"
  shows "mutations_agree (db1\<lparr>pg_audit := aud, pg_mutations := pg_mutations db1 @ [m]\<rparr>) st'"
  unfolding mutations_agree_def
proof (intro allI)
  fix t' c' act' a' ik'
  let ?db = "db1\<lparr>pg_audit := aud, pg_mutations := pg_mutations db1 @ [m]\<rparr>"
  have at: "mutation_at t' c' act' a' ik' ?db = (case mutation_at t' c' act' a' ik' db of Some x \<Rightarrow> Some x
      | None \<Rightarrow> if (t, c, act, a, ik) = (t', c', act', a', ik') then Some m else None)"
    using mutation_at_snoc [where db = "db1\<lparr>pg_audit := aud\<rparr>" and ms = "pg_mutations db" and m = m and t = t' and c = c' and act = act'
      and a = a' and ik = ik'] assms(2,3) by (auto simp: mutation_at_def)
  have old: "map_option (\<lambda>m. (mr_request_sha256 m, op_view (mr_response_payload m))) (mutation_at t' c' act' a' ik' db)
      = map_option (\<lambda>(d, op). (d, op_view op)) (map_of (cs_mutations st) (t', c', act', a', ik'))"
    using agree by (simp add: mutations_agree_def)
  show "map_option (\<lambda>m. (mr_request_sha256 m, op_view (mr_response_payload m))) (mutation_at t' c' act' a' ik' ?db)
      = map_option (\<lambda>(d, op). (d, op_view op)) (map_of (cs_mutations st') (t', c', act', a', ik'))"
  proof (cases "(t', c', act', a', ik') = (t, c, act, a, ik)")
    case True
    then show ?thesis using at fresh st' assms(3,4) by simp
  next
    case False
    then show ?thesis using at old st' by (auto split: option.splits)
  qed
qed

lemma mutate_accepted:
  assumes sim: "ledger_sim h db st" and tn: "canonical_tenant_id t = Inr v"
    and lease: "act = ActCancel \<Longrightarrow> command_leased (rd_clock rd) t c db = active_lease (adapter_intents st t c)"
    and r: "command_at t c db = Some r" and e: "entry_at st (t, c) = Some (cr_payload_sha256 r, op)" and vw: "op_view r = op_view op"
    and fresh: "mutation_at t c act a ik db = None" "map_of (cs_mutations st) (t, c, act, a, ik) = None"
    and ver: "\<not> co_resource_version op \<noteq> ver" and act: "apply_action h (rd_now rd) act t c a ik rs op st = Inr (op1, st1)"
  shows "ledger_sim h (snd (pg_mutate_operation h jsonb rd t c act a ik ver rs mc db)) (snd (mutate_operation h (rd_now rd) t c act a ik ver rs mc st))
    \<and> answers_agree (CallMutate t c act a ik ver rs mc) (fst (pg_mutate_operation h jsonb rd t c act a ik ver rs mc db))
        (fst (mutate_operation h (rd_now rd) t c act a ik ver rs mc st))"
proof -
  have same: "co_state r = co_state op" "co_resource_version r = co_resource_version op" using op_viewD [OF vw] by blast+
  have marks: "\<not> co_duplicate op" "co_state op \<noteq> Cancelled \<Longrightarrow> co_cancelled_at op = None"
    using sim e unfolding ledger_sim_def marks_sound_def by blast+
  define u where "u = op1\<lparr>co_resource_version := co_resource_version op + 1, co_updated_at := rd_now rd\<rparr>"
  obtain f db1 where pga: "pg_apply_action h jsonb rd act t c a ik rs r db = (Inr (f r), db1)" and w: "row_written t c f db db1"
    and f: "\<And>x. co_tenant_id (f x) = co_tenant_id x \<and> co_command_id (f x) = co_command_id x" "cr_payload_sha256 (f r) = cr_payload_sha256 r"
      "op_view (f r) = op_view u"
    using apply_action_sim [OF r vw lease marks(2), where act = act and h = h and a = a and ik = ik and rs = rs and jsonb = jsonb] act unfolding u_def by auto
  obtain operation where row: "row_operation h (f r) False None None = Inr operation" by (simp add: row_operation_plain)
  let ?m = "\<lparr>mr_tenant_id = t, mr_command_id = c, mr_action = act, mr_actor_id = a, mr_idempotency_key = ik,
    mr_request_sha256 = mutation_digest h ver rs, mr_response_payload = operation\<rparr>"
  obtain ae where pg: "pg_mutate_operation h jsonb rd t c act a ik ver rs mc db
      = (Inr operation, db1\<lparr>pg_audit := pg_audit db1 @ [ae], pg_mutations := pg_mutations db1 @ [?m]\<rparr>)"
    and ae: "ad_tenant_id ae = t" "ev_operation_id ae = c" "ev_event_id ae = Suc (length (pg_audit db1))"
      "event_view ae = (Some (co_state r), co_state (f r), a, rs, rd_now rd)"
    using pg_mutate_run [OF tn r fresh(1) _ pga row, of ver mc] ver same by auto
  obtain st' e' where mem: "mutate_operation h (rd_now rd) t c act a ik ver rs mc st = (Inr u, st')"
    and st': "entry_at st' = (entry_at st)((t, c) \<mapsto> (cr_payload_sha256 r, u))" "events_at st' = (events_at st)((t, c) := events_at st (t, c) @ [e'])"
      "event_view e' = (Some (co_state op), co_state u, a, rs, rd_now rd)" "attempts_at st' = attempts_at st"
      "cs_mutations st' = AList.update (t, c, act, a, ik) (mutation_digest h ver rs, u) (cs_mutations st)"
    using memory_mutate_run [OF e fresh(2) ver act u_def] by blast
  have db1: "pg_commands db1 = map (\<lambda>y. if is_command t c y then f y else y) (pg_commands db)" "pg_audit db1 = pg_audit db"
    "pg_attempts db1 = pg_attempts db" "pg_mutations db1 = pg_mutations db"
    using w by (auto simp: row_written_def)
  have dup: "\<not> co_duplicate u" "co_state u \<noteq> Cancelled \<Longrightarrow> co_cancelled_at u = None"
    using act marks unfolding u_def by (cases act; auto simp: apply_action_def Let_def split: if_splits)+
  have "ledger_sim h (db1\<lparr>pg_audit := pg_audit db1 @ [ae], pg_mutations := pg_mutations db1 @ [?m]\<rparr>) st'"
  proof (rule sim_write [OF sim r e, where f = f and op' = u and ev = e' and new = "[]" and ae = ae])
    show "mutations_agree (db1\<lparr>pg_audit := pg_audit db1 @ [ae], pg_mutations := pg_mutations db1 @ [?m]\<rparr>) st'"
      by (rule mutation_recorded [OF _ db1(4) refl _ fresh(1) st'(5)])
        (use sim op_view_row_operation [OF row] f(3) in \<open>simp_all add: ledger_sim_def\<close>)
    show "ledger_inv h st'"
      using ledger_inv_step [OF ls_op [OF to_mutate [of h t st "rd_now rd" c act a ik ver rs mc]]] mem sim by (simp add: ledger_sim_def)
    show "event_view ae = event_view e'" using ae(4) st'(3) same(1) op_viewD [OF f(3)] by simp
    show "numbered at_attempt_id (pg_attempts (db1\<lparr>pg_audit := pg_audit db1 @ [ae], pg_mutations := pg_mutations db1 @ [?m]\<rparr>))"
      using sim db1(3) by (simp add: ledger_sim_def tables_sound_def)
  qed (use db1 ae st' f dup in simp_all)
  then show ?thesis using pg mem answers_agree_row [OF row f(3)] dup(1) by simp
qed

lemma mutate_sim:
  assumes sim: "ledger_sim h db st" and tn: "canonical_tenant_id t = Inr v"
    and lease: "act = ActCancel \<Longrightarrow> command_leased (rd_clock rd) t c db = active_lease (adapter_intents st t c)"
  shows "ledger_sim h (snd (pg_mutate_operation h jsonb rd t c act a ik ver rs mc db)) (snd (mutate_operation h (rd_now rd) t c act a ik ver rs mc st))
    \<and> answers_agree (CallMutate t c act a ik ver rs mc) (fst (pg_mutate_operation h jsonb rd t c act a ik ver rs mc db))
        (fst (mutate_operation h (rd_now rd) t c act a ik ver rs mc st))"
proof -
  note pg = pg_mutate_operation_def tenant_transaction_ok [OF tn] transaction_def bindE_def getsE_def
  have agree: "commands_agree db st" using sim by (simp add: ledger_sim_def)
  have mut: "map_option (\<lambda>m. (mr_request_sha256 m, op_view (mr_response_payload m))) (mutation_at t c act a ik db)
      = map_option (\<lambda>(d, op). (d, op_view op)) (map_of (cs_mutations st) (t, c, act, a, ik))"
    using sim by (simp add: ledger_sim_def mutations_agree_def)
  show ?thesis
  proof (cases "command_at t c db")
    case None
    moreover have "entry_at st (t, c) = None" using None commands_agreeD(1) [OF agree] by blast
    ultimately show ?thesis using sim by (simp add: pg mutate_operation_def reraiseE_def answers_agree_def not_found_def)
  next
    case (Some r)
    then obtain op where e: "entry_at st (t, c) = Some (cr_payload_sha256 r, op)" and vw: "op_view r = op_view op"
      using commands_agreeD(2) [OF agree] by blast
    have same: "co_state r = co_state op" "co_resource_version r = co_resource_version op" using op_viewD [OF vw] by blast+
    show ?thesis
    proof (cases "mutation_at t c act a ik db")
      case seen: (Some m)
      then obtain op2 where "map_of (cs_mutations st) (t, c, act, a, ik) = Some (mr_request_sha256 m, op2)" "op_view (mr_response_payload m) = op_view op2"
        using mut by (cases "map_of (cs_mutations st) (t, c, act, a, ik)") auto
      then show ?thesis using Some seen e sim
        by (auto simp: pg mutate_operation_def raiseE_def retE_def answers_agree_def op_view_def command_operation.defs)
    next
      case None
      then have fresh: "map_of (cs_mutations st) (t, c, act, a, ik) = None" using mut by simp
      show ?thesis
      proof (cases "co_resource_version op = ver")
        case True
        have marks: "co_state op \<noteq> Cancelled \<Longrightarrow> co_cancelled_at op = None"
          using sim e unfolding ledger_sim_def marks_sound_def by blast
        show ?thesis
        proof (cases "apply_action h (rd_now rd) act t c a ik rs op st")
          case (Inl x)
          then have "pg_apply_action h jsonb rd act t c a ik rs r db = (Inl x, db)"
            using apply_action_sim [OF Some vw lease marks, where act = act and h = h and a = a and ik = ik and rs = rs and jsonb = jsonb] by simp
          then show ?thesis using Inl Some None fresh e True same sim by (simp add: pg mutate_operation_def answers_agree_def)
        next
          case (Inr y)
          then show ?thesis using mutate_accepted [OF sim tn lease Some e vw None fresh] True by (cases y) blast
        qed
      next
        case False
        then show ?thesis using Some None fresh e same sim by (simp add: pg mutate_operation_def raiseE_def answers_agree_def)
      qed
    qed
  qed
qed

subsection \<open>Submissions\<close>

lemma command_at_mem:
  assumes "tables_sound db" and "x \<in> set (pg_commands db)"
  shows "command_at (co_tenant_id x) (co_command_id x) db = Some x"
proof -
  have "distinct (map (\<lambda>r. (co_tenant_id r, co_command_id r)) xs) \<Longrightarrow> x \<in> set xs \<Longrightarrow>
      find (is_command (co_tenant_id x) (co_command_id x)) xs = Some x" for xs
    by (induction xs) (auto simp: is_command_def)
  then show ?thesis using assms by (simp add: tables_sound_def command_at_def)
qed

definition clashes :: "command_envelope \<Rightarrow> command_row \<Rightarrow> bool" where
  "clashes c r \<longleftrightarrow> co_tenant_id r = ce_tenant_id c \<and> (co_command_id r = ce_command_id c \<or> co_idempotency_key r = ce_idempotency_key c)"

text \<open>The rows a submission clashes with, found through the dictionaries of the in-memory store.\<close>

lemma clashes_iff:
  assumes sim: "ledger_sim h db st" and x: "x \<in> set (pg_commands db)"
  shows "clashes c x \<longleftrightarrow> co_tenant_id x = ce_tenant_id c \<and> (co_command_id x = ce_command_id c
    \<or> (\<exists>d op0. map_of (cs_idempotency st) (ce_tenant_id c, ce_idempotency_key c) = Some (d, op0) \<and> co_command_id x = co_command_id op0))"
proof -
  note inv = sim [unfolded ledger_sim_def]
  obtain op where e: "entry_at st (co_tenant_id x, co_command_id x) = Some (cr_payload_sha256 x, op)" and vw: "op_view x = op_view op"
    using commands_agreeD(2) command_at_mem [OF _ x] inv by blast
  have ikey: "co_idempotency_key op = co_idempotency_key x" using op_viewD [OF vw] by simp
  obtain op0 where own: "map_of (cs_idempotency st) (co_tenant_id x, co_idempotency_key x) = Some (cr_payload_sha256 x, op0)"
      "same_identity op op0"
    using ledger_inv_entry [OF _ e, of h] inv ikey unfolding entry_inv_def by auto
  have "co_command_id x = co_command_id op0" using own(2) op_viewD [OF vw] by (simp add: same_identity_def)
  moreover have "co_idempotency_key x = ce_idempotency_key c"
    if "map_of (cs_idempotency st) (co_tenant_id x, ce_idempotency_key c) = Some (d, op1)" "co_command_id x = co_command_id op1" for d op1
  proof -
    have "co_idempotency_key op1 = ce_idempotency_key c" "\<exists>op2. entry_at st (co_tenant_id x, co_command_id op1) = Some (d, op2) \<and> same_identity op2 op1"
      using ledger_inv_idem [OF _ that(1)] inv by blast+
    then show ?thesis using e that(2) ikey by (auto simp: same_identity_def)
  qed
  ultimately show ?thesis using own(1) unfolding clashes_def by auto
qed

lemma idem_row:
  assumes sim: "ledger_sim h db st" and "map_of (cs_idempotency st) (ce_tenant_id c, ce_idempotency_key c) = Some (d, op0)"
  shows "\<exists>r. command_at (ce_tenant_id c) (co_command_id op0) db = Some r \<and> cr_payload_sha256 r = d"
proof -
  note inv = sim [unfolded ledger_sim_def]
  obtain op where "entry_at st (ce_tenant_id c, co_command_id op0) = Some (d, op)"
    using ledger_inv_idem [OF _ assms(2)] inv by blast
  then show ?thesis using commands_agreeD(3) inv by blast
qed

lemma insert_command_clash:
  "insert_command (command_row_of h jsonb now c client) db = (if list_ex (clashes c) (pg_commands db) then (Inr None, db)
     else (Inr (Some (command_row_of h jsonb now c client)), db\<lparr>pg_commands := pg_commands db @ [command_row_of h jsonb now c client]\<rparr>))"
  by (simp add: insert_command_def command_row_of_def command_operation.defs command_row.defs new_operation_def clashes_def [abs_def])

lemma distinct_singleton: "distinct xs \<Longrightarrow> set xs = {r} \<Longrightarrow> xs = [r]"
  by (cases xs; cases "tl xs") auto

lemma only_clash:
  assumes snd: "tables_sound db" and r: "command_at (ce_tenant_id c) cid db = Some r" "clashes c r"
    and only: "\<And>x. x \<in> set (pg_commands db) \<Longrightarrow> clashes c x \<Longrightarrow> co_command_id x = cid"
  shows "filter (clashes c) (pg_commands db) = [r]"
proof -
  have "x = r" if "x \<in> set (pg_commands db)" "clashes c x" for x
    using command_at_mem [OF snd that(1)] only [OF that] r(1) that(2) by (simp add: clashes_def)
  moreover have "r \<in> set (pg_commands db)" using command_atD [OF r(1)] by blast
  ultimately have set: "set (filter (clashes c) (pg_commands db)) = {r}" unfolding set_filter using r(2) by blast
  moreover have "distinct (filter (clashes c) (pg_commands db))"
  proof -
    have "distinct (map (\<lambda>x. (co_tenant_id x, co_command_id x)) (pg_commands db))" using snd by (simp add: tables_sound_def)
    then show ?thesis by (intro distinct_filter) (simp add: distinct_map)
  qed
  ultimately show ?thesis by (simp add: distinct_singleton)
qed

lemma pg_submit_existing_one:
  assumes "filter (clashes c) (pg_commands db) = [r]"
  shows "pg_submit_existing h c client db = (if \<not> command_digest_matches h (cr_payload_sha256 r) c client
    then Inl (Exc CommandConflict ''command identity was reused with different content'') else row_operation h r True None None, db)"
proof -
  have "filter (\<lambda>r. co_tenant_id r = ce_tenant_id c \<and> (co_command_id r = ce_command_id c \<or> co_idempotency_key r = ce_idempotency_key c))
      (pg_commands db) = [r]"
    using assms by (simp add: clashes_def [abs_def])
  then show ?thesis by (simp add: pg_submit_existing_def bindE_def getsE_def raiseE_def liftE_run)
qed

lemma pg_submit_existing_two:
  assumes "r1 \<in> set (pg_commands db)" "clashes c r1" "r2 \<in> set (pg_commands db)" "clashes c r2" "co_command_id r1 \<noteq> co_command_id r2"
  shows "\<exists>m. pg_submit_existing h c client db = (Inl (Exc CommandConflict m), db)"
proof -
  let ?xs = "sort_key co_created_at (filter (clashes c) (pg_commands db))"
  let ?id = "\<lambda>x. (co_command_id x, co_idempotency_key x)"
  have in_xs: "r1 \<in> set ?xs" "r2 \<in> set ?xs" using assms by simp_all
  have "length (remdups (map ?id ?xs)) \<noteq> 1"
  proof
    assume "length (remdups (map ?id ?xs)) = 1"
    then obtain i where "remdups (map ?id ?xs) = [i]" by (auto simp: length_Suc_conv)
    then have "set (remdups (map ?id ?xs)) = {i}" by simp
    then have eq: "?id ` set ?xs = {i}" by (simp only: set_remdups list.set_map)
    have "?id r1 = ?id r2"
      using imageI [OF in_xs(1), of ?id] imageI [OF in_xs(2), of ?id] unfolding eq by simp
    then show False using assms(5) by simp
  qed
  moreover obtain r rs where "?xs = r # rs" using in_xs by (cases ?xs) auto
  ultimately show ?thesis by (simp add: pg_submit_existing_def bindE_def getsE_def raiseE_def clashes_def [abs_def])
qed

text \<open>The destination passed and the tenant is bound: what is left of a submission.\<close>

lemma pg_submit_eq:
  assumes tn: "canonical_tenant_id (ce_tenant_id c) = Inr v" and dest: "\<not> dest \<notin> set COMMAND_DESTINATIONS"
  shows "pg_submit h jsonb rd c client dest evd tr = transaction (submit_on_connection h jsonb rd c client None dest evd tr)"
    and "list_ex (clashes c) (pg_commands db) \<Longrightarrow>
      submit_on_connection h jsonb rd c client None dest evd tr db = pg_submit_existing h c client db"
  unfolding pg_submit_def tenant_transaction_ok [OF tn] submit_on_connection_def if_not_P [OF dest]
  by (rule refl) (simp add: tn thenE_def bindE_def liftE_run Let_def insert_command_clash)

lemma submit_existing_sim:
  assumes sim: "ledger_sim h db st" and tn: "canonical_tenant_id (ce_tenant_id c) = Inr v" and dest: "\<not> dest \<notin> set COMMAND_DESTINATIONS"
    and seen: "entry_at st (ce_tenant_id c, ce_command_id c) \<noteq> None \<or> map_of (cs_idempotency st) (ce_tenant_id c, ce_idempotency_key c) \<noteq> None"
  shows "snd (pg_submit h jsonb rd c client dest evd tr db) = db \<and> snd (store_submit h (rd_now rd) c client dest evd tr st) = st
    \<and> answers_agree (CallSubmit c client dest evd tr) (fst (pg_submit h jsonb rd c client dest evd tr db))
        (fst (store_submit h (rd_now rd) c client dest evd tr st))"
proof -
  let ?t = "ce_tenant_id c"
  note inv = sim [unfolded ledger_sim_def]
  have agree: "commands_agree db st" and snd: "tables_sound db" using inv by blast+
  note pg = pg_submit_eq [OF tn dest]
  note clash = clashes_iff [OF sim, of _ c]
  have found: "list_ex (clashes c) (pg_commands db)" if "command_at ?t cid db = Some r" "clashes c r" for cid r
    using command_atD [OF that(1)] that(2) by (auto simp: list_ex_iff)
  show ?thesis
  proof (cases "entry_at st (?t, ce_command_id c)")
    case None
    then obtain d op0 where i: "map_of (cs_idempotency st) (?t, ce_idempotency_key c) = Some (d, op0)" using seen by auto
    obtain r where r: "command_at ?t (co_command_id op0) db = Some r" "cr_payload_sha256 r = d" using idem_row [OF sim i] by blast
    have cl: "clashes c r" using clash [of r] command_atD [OF r(1)] i by blast
    have one: "filter (clashes c) (pg_commands db) = [r]"
    proof (rule only_clash [OF snd r(1) cl])
      fix x assume x: "x \<in> set (pg_commands db)" "clashes c x"
      then have "co_command_id x \<noteq> ce_command_id c"
        using None commands_agreeD(1) [OF agree, of ?t "ce_command_id c"] command_at_mem [OF snd x(1)] by (auto simp: clashes_def)
      then show "co_command_id x = co_command_id op0" using clash [OF x(1)] x(2) i by auto
    qed
    have new: "co_command_id op0 \<noteq> ce_command_id c" using None commands_agreeD(1) [OF agree] r(1) by (metis option.distinct(1))
    have "co_command_id r = co_command_id op0" using command_atD [OF r(1)] by blast
    then show ?thesis
      using pg(1) pg(2) [OF found [OF r(1) cl]] pg_submit_existing_one [OF one, of h client] None i r(2) dest new
      by (simp add: store_submit_def Let_def transaction_def row_operation_plain answers_agree_def command_operation.defs)
  next
    case (Some y)
    then obtain d op where e: "entry_at st (?t, ce_command_id c) = Some (d, op)" by (cases y) auto
    obtain r where r: "command_at ?t (ce_command_id c) db = Some r" "cr_payload_sha256 r = d" "op_view r = op_view op"
      using commands_agreeD(3) [OF agree e] by blast
    have cl: "clashes c r" using clash [of r] command_atD [OF r(1)] by blast
    have cid: "co_command_id op = ce_command_id c" using ledger_inv_entry [OF _ e, of h] inv by (simp add: entry_inv_def)
    note pg2 = pg(2) [OF found [OF r(1) cl], of h jsonb rd client evd tr]
    show ?thesis
    proof (cases "\<exists>d2 op0. map_of (cs_idempotency st) (?t, ce_idempotency_key c) = Some (d2, op0) \<and> co_command_id op0 \<noteq> ce_command_id c")
      case True
      then obtain d2 op0 where i: "map_of (cs_idempotency st) (?t, ce_idempotency_key c) = Some (d2, op0)" "co_command_id op0 \<noteq> ce_command_id c" by blast
      obtain r2 where r2: "command_at ?t (co_command_id op0) db = Some r2" using idem_row [OF sim i(1)] by blast
      have "clashes c r2" using clash [of r2] command_atD [OF r2] i(1) by blast
      then obtain m where "pg_submit_existing h c client db = (Inl (Exc CommandConflict m), db)"
        using pg_submit_existing_two [of r db c r2 h client] cl command_atD [OF r(1)] command_atD [OF r2] i(2) by auto
      then show ?thesis using pg(1) pg2 e i cid dest
        by (simp add: store_submit_def Let_def transaction_def answers_agree_def)
    next
      case False
      have one: "filter (clashes c) (pg_commands db) = [r]"
      proof (rule only_clash [OF snd r(1) cl])
        show "co_command_id x = ce_command_id c" if "x \<in> set (pg_commands db)" "clashes c x" for x
          using clash [OF that(1)] that(2) False by metis
      qed
      have "co_command_id op0 = co_command_id op" if "map_of (cs_idempotency st) (?t, ce_idempotency_key c) = Some (d2, op0)" for d2 op0
        using False that cid by auto
      then have mem: "store_submit h (rd_now rd) c client dest evd tr st = (if \<not> command_digest_matches h d c client
          then (Inl (Exc CommandConflict ''command identity was reused with different content''), st) else (Inr (op\<lparr>co_duplicate := True\<rparr>), st))"
        unfolding store_submit_def if_not_P [OF dest] Let_def e
        by (cases "map_of (cs_idempotency st) (?t, ce_idempotency_key c)") auto
      have "op_view r = op_view (op\<lparr>co_duplicate := True\<rparr>)" using r(3) by (simp add: op_view_def command_operation.defs)
      then have "answers_agree (CallSubmit c client dest evd tr) (row_operation h r True None None) (Inr (op\<lparr>co_duplicate := True\<rparr>))"
        unfolding row_operation_plain by (rule answers_agree_row [OF row_operation_plain]) simp
      then show ?thesis
        unfolding pg(1) transaction_def pg2 pg_submit_existing_one [OF one] mem r(2)
        by (simp add: row_operation_plain answers_agree_def split: if_split)
    qed
  qed
qed

lemma command_row_simps [simp]:
  "co_tenant_id (command_row_of h jsonb now c client) = ce_tenant_id c" "co_command_id (command_row_of h jsonb now c client) = ce_command_id c"
  "cr_payload_sha256 (command_row_of h jsonb now c client) = authenticated_command_digest h c client"
  "op_view (command_row_of h jsonb now c client) = op_view (new_operation c now)"
  by (simp_all add: command_row_of_def command_operation.defs command_row.defs new_operation_def op_view_def)

lemma pg_submit_new:
  assumes tn: "canonical_tenant_id (ce_tenant_id c) = Inr v" and dest: "\<not> dest \<notin> set COMMAND_DESTINATIONS"
    and new: "\<not> list_ex (clashes c) (pg_commands db)"
    and free: "\<not> list_ex (\<lambda>y. oi_id y = rd_outbox_id rd \<or> oi_tenant_id y = ce_tenant_id c \<and> oi_destination y = dest
      \<and> oi_idempotency_key y = ce_idempotency_key c) (db_rows (pg_outbox db))"
  shows "\<exists>ae ob. pg_submit h jsonb rd c client dest evd tr db = (row_operation h (command_row_of h jsonb (rd_now rd) c client) False None None,
       db\<lparr>pg_commands := pg_commands db @ [command_row_of h jsonb (rd_now rd) c client], pg_audit := pg_audit db @ [ae], pg_outbox := ob\<rparr>)
     \<and> ad_tenant_id ae = ce_tenant_id c \<and> ev_operation_id ae = ce_command_id c \<and> ev_event_id ae = Suc (length (pg_audit db))
     \<and> event_view ae = (None, Persisted, ce_requested_by c, ''validated command and persisted delivery intent'', rd_now rd)"
  unfolding pg_submit_eq(1) [OF tn dest] submit_on_connection_def if_not_P [OF dest] transaction_def thenE_def bindE_def liftE_run tn
    sum.case prod.case Let_def insert_command_clash if_not_P [OF new] option.case insert_audit_def modifyE_def on_outbox_def zoomE_def
    outbox_insert_def row_operation_plain
  using free
  by (intro exI [of _ "\<lparr>ev_event_id = length (pg_audit db) + 1, ev_operation_id = ce_command_id c, ev_previous_state = None,
      ev_new_state = Persisted, ev_actor_id = ce_requested_by c, ev_reason = ''validated command and persisted delivery intent'',
      ev_safe_metadata = jsonb (dict_merge [(''authenticated_client_id'', JStr client)] (redact_mapping (case evd of None \<Rightarrow> [] | Some d \<Rightarrow> d))),
      ev_created_at = rd_now rd, ad_tenant_id = ce_tenant_id c\<rparr>"]
    exI [of _ "(pg_outbox db)\<lparr>db_rows := db_rows (pg_outbox db) @ [new_row (rd_outbox_id rd) (rd_clock rd) (ce_tenant_id c) (uuid_str (ce_command_id c))
      dest (ce_command_type c) (jsonb (case tr of Some (t # ts) \<Rightarrow> AList.update ''_trace'' (JObj (map (\<lambda>(k, v). (k, JStr v)) (t # ts)))
        (authenticated_command_payload c client) | _ \<Rightarrow> authenticated_command_payload c client)) (ce_idempotency_key c)]\<rparr>"])
    (simp add: new_row_def event_view_def)

lemma memory_submit_new:
  assumes dest: "\<not> dest \<notin> set COMMAND_DESTINATIONS" and e: "entry_at st (ce_tenant_id c, ce_command_id c) = None"
    and i: "map_of (cs_idempotency st) (ce_tenant_id c, ce_idempotency_key c) = None"
  shows "\<exists>st' e'. store_submit h now c client dest evd tr st = (Inr (new_operation c now), st')
     \<and> entry_at st' = (entry_at st)((ce_tenant_id c, ce_command_id c) \<mapsto> (authenticated_command_digest h c client, new_operation c now))
     \<and> events_at st' = (events_at st)((ce_tenant_id c, ce_command_id c) := [e'])
     \<and> event_view e' = (None, Persisted, ce_requested_by c, ''validated command and persisted delivery intent'', now)
     \<and> attempts_at st' = (attempts_at st)((ce_tenant_id c, ce_command_id c) := []) \<and> cs_mutations st' = cs_mutations st"
  unfolding store_submit_def if_not_P [OF dest] Let_def e i option.case prod.case if_False simp_thms
  by (rule exI, rule exI [of _ "\<lparr>ev_event_id = 1, ev_operation_id = ce_command_id c, ev_previous_state = None, ev_new_state = Persisted,
      ev_actor_id = ce_requested_by c, ev_reason = ''validated command and persisted delivery intent'',
      ev_safe_metadata = dict_merge [(''authenticated_client_id'', JStr client)] (redact_mapping (case evd of None \<Rightarrow> [] | Some d \<Rightarrow> d)),
      ev_created_at = now\<rparr>"], rule conjI, rule refl)
    (simp add: entry_at_def events_at_def attempts_at_def fun_eq_iff event_view_def)

lemma sim_create:
  assumes sim: "ledger_sim h db st" and none: "entry_at st (ce_tenant_id c, ce_command_id c) = None"
    and db': "db' = db\<lparr>pg_commands := pg_commands db @ [command_row_of h jsonb now c client], pg_audit := pg_audit db @ [ae], pg_outbox := ob\<rparr>"
    and ae: "ad_tenant_id ae = ce_tenant_id c" "ev_operation_id ae = ce_command_id c" "ev_event_id ae = Suc (length (pg_audit db))" "event_view ae = event_view e'"
    and st': "entry_at st' = (entry_at st)((ce_tenant_id c, ce_command_id c) \<mapsto> (authenticated_command_digest h c client, new_operation c now))"
      "events_at st' = (events_at st)((ce_tenant_id c, ce_command_id c) := [e'])"
      "attempts_at st' = (attempts_at st)((ce_tenant_id c, ce_command_id c) := [])" "cs_mutations st' = cs_mutations st"
    and inv': "ledger_inv h st'"
  shows "ledger_sim h db' st'"
proof -
  note inv = sim [unfolded ledger_sim_def]
  have gone: "command_at (ce_tenant_id c) (ce_command_id c) db = None" using commands_agreeD(1) inv none by blast
  have "find P (xs @ [x]) = (case find P xs of None \<Rightarrow> if P x then Some x else None | Some y \<Rightarrow> Some y)" for P :: "command_row \<Rightarrow> bool" and xs x
    by (induction xs) auto
  then have at: "command_at t d db' = (if (t, d) = (ce_tenant_id c, ce_command_id c) then Some (command_row_of h jsonb now c client) else command_at t d db)" for t d
    using gone unfolding command_at_def db' by (auto simp: is_command_def split: option.splits)
  have "commands_agree db' st'" using inv at st'(1) by (auto simp: commands_agree_def)
  moreover have old: "events_at st (ce_tenant_id c, ce_command_id c) = []" "attempts_at st (ce_tenant_id c, ce_command_id c) = []"
    using inv none by (auto simp: marks_sound_def)
  have "timelines_agree db' st'" unfolding timelines_agree_def
  proof (intro allI)
    fix t d
    have "map event_view (filter (is_audit t d) (pg_audit db)) = map event_view (events_at st (t, d))"
      using inv by (simp add: timelines_agree_def)
    then show "map event_view (filter (is_audit t d) (pg_audit db')) = map event_view (events_at st' (t, d))"
      using st'(2) ae old(1) by (auto simp: db' is_audit_def)
  qed
  moreover have "attempts_agree db' st'" unfolding attempts_agree_def
  proof (intro allI)
    fix t d
    have "map attempt_view (filter (is_attempt t d) (pg_attempts db)) = map attempt_view (attempts_at st (t, d))"
      using inv by (simp add: attempts_agree_def)
    then show "map attempt_view (filter (is_attempt t d) (pg_attempts db')) = map attempt_view (attempts_at st' (t, d))"
      using st'(3) old(2) by (auto simp: db')
  qed
  moreover have "mutations_agree db' st'" using inv st'(4) by (simp add: mutations_agree_def mutation_at_def db')
  moreover have "(ce_tenant_id c, ce_command_id c) \<notin> (\<lambda>r. (co_tenant_id r, co_command_id r)) ` set (pg_commands db)"
    using command_at_mem gone inv by force
  then have "tables_sound db'" using inv ae(3) by (simp add: tables_sound_def db' numbered_snoc)
  moreover have "marks_sound st'" using inv st' by (auto simp: marks_sound_def new_operation_def split: if_splits)
  ultimately show ?thesis using inv' by (simp add: ledger_sim_def)
qed

lemma no_entry_no_clash:
  assumes sim: "ledger_sim h db st" and "entry_at st (ce_tenant_id c, ce_command_id c) = None"
    "map_of (cs_idempotency st) (ce_tenant_id c, ce_idempotency_key c) = None"
  shows "\<not> list_ex (clashes c) (pg_commands db)"
proof -
  have agree: "commands_agree db st" and snd: "tables_sound db" using sim by (auto simp: ledger_sim_def)
  have "\<not> clashes c x" if x: "x \<in> set (pg_commands db)" for x
    using clashes_iff [OF sim x, of c] assms(2,3) commands_agreeD(1) [OF agree, of "ce_tenant_id c" "ce_command_id c"] command_at_mem [OF snd x]
    by auto
  then show ?thesis by (simp add: list_ex_iff)
qed

lemma submit_sim:
  assumes sim: "ledger_sim h db st" and ok: "comparable h rd (CallSubmit c client dest evd tr) db st"
  shows "ledger_sim h (snd (pg_submit h jsonb rd c client dest evd tr db)) (snd (store_submit h (rd_now rd) c client dest evd tr st))
    \<and> answers_agree (CallSubmit c client dest evd tr) (fst (pg_submit h jsonb rd c client dest evd tr db))
        (fst (store_submit h (rd_now rd) c client dest evd tr st))"
proof -
  obtain v where tn: "canonical_tenant_id (ce_tenant_id c) = Inr v" using ok by (auto simp: comparable_def)
  show ?thesis
  proof (cases "dest \<notin> set COMMAND_DESTINATIONS")
    case True
    then show ?thesis using sim
      by (simp add: pg_submit_def tenant_transaction_ok [OF tn] submit_on_connection_def store_submit_def raiseE_def transaction_def answers_agree_def)
  next
    case dest: False
    show ?thesis
    proof (cases "entry_at st (ce_tenant_id c, ce_command_id c) \<noteq> None \<or> map_of (cs_idempotency st) (ce_tenant_id c, ce_idempotency_key c) \<noteq> None")
      case True
      then show ?thesis using submit_existing_sim [OF sim tn dest, of jsonb rd client evd tr] sim by simp
    next
      case False
      then have none: "entry_at st (ce_tenant_id c, ce_command_id c) = None" "map_of (cs_idempotency st) (ce_tenant_id c, ce_idempotency_key c) = None" by blast+
      note new = no_entry_no_clash [OF sim none]
      have free: "\<not> list_ex (\<lambda>y. oi_id y = rd_outbox_id rd \<or> oi_tenant_id y = ce_tenant_id c \<and> oi_destination y = dest
          \<and> oi_idempotency_key y = ce_idempotency_key c) (db_rows (pg_outbox db))" and val: "valid_envelope h c"
        using ok none by (auto simp: comparable_def)
      obtain ae ob db' where pg: "pg_submit h jsonb rd c client dest evd tr db = (row_operation h (command_row_of h jsonb (rd_now rd) c client) False None None, db')"
        and db': "db' = db\<lparr>pg_commands := pg_commands db @ [command_row_of h jsonb (rd_now rd) c client], pg_audit := pg_audit db @ [ae], pg_outbox := ob\<rparr>"
        and ae: "ad_tenant_id ae = ce_tenant_id c" "ev_operation_id ae = ce_command_id c" "ev_event_id ae = Suc (length (pg_audit db))"
          "event_view ae = (None, Persisted, ce_requested_by c, ''validated command and persisted delivery intent'', rd_now rd)"
        using pg_submit_new [OF tn dest new free, of h jsonb client evd tr] by blast
      obtain st' e' where mem: "store_submit h (rd_now rd) c client dest evd tr st = (Inr (new_operation c (rd_now rd)), st')"
        and st': "entry_at st' = (entry_at st)((ce_tenant_id c, ce_command_id c) \<mapsto> (authenticated_command_digest h c client, new_operation c (rd_now rd)))"
          "events_at st' = (events_at st)((ce_tenant_id c, ce_command_id c) := [e'])"
          "event_view e' = (None, Persisted, ce_requested_by c, ''validated command and persisted delivery intent'', rd_now rd)"
          "attempts_at st' = (attempts_at st)((ce_tenant_id c, ce_command_id c) := [])" "cs_mutations st' = cs_mutations st"
        using memory_submit_new [OF dest none, of h "rd_now rd" client evd tr] by blast
      have "ledger_inv h st'"
        using ledger_inv_step [OF ls_op [OF to_submit [OF val, of st "rd_now rd" client dest evd tr]]] mem sim by (simp add: ledger_sim_def)
      then have "ledger_sim h db' st'"
        using sim_create [OF sim none(1) db' ae(1,2,3) _ st'(1,2,4,5)] ae(4) st'(3) by simp
      moreover have "answers_agree (CallSubmit c client dest evd tr) (row_operation h (command_row_of h jsonb (rd_now rd) c client) False None None)
          (Inr (new_operation c (rd_now rd)))"
        unfolding row_operation_plain by (rule answers_agree_row [OF row_operation_plain]) (simp_all add: new_operation_def)
      ultimately show ?thesis using pg mem by simp
    qed
  qed
qed

subsection \<open>Side by side\<close>

lemma call_sim:
  assumes sim: "ledger_sim h db st" and jb: "keeps_text jsonb" and ok: "comparable h rd x db st"
  shows "ledger_sim h (snd (postgres_call h jsonb rd x db)) (snd (memory_call h (rd_now rd) x st))
    \<and> answers_agree x (fst (postgres_call h jsonb rd x db)) (fst (memory_call h (rd_now rd) x st))"
proof -
  obtain v where tn: "canonical_tenant_id (call_tenant x) = Inr v" using ok by (auto simp: comparable_def)
  show ?thesis
  proof (cases x)
    case (CallSubmit c client dest evd tr)
    then show ?thesis using submit_sim [OF sim, of rd c client dest evd tr jsonb] ok by simp
  next
    case (CallTransition t c ns a r p ev y)
    then show ?thesis using transition_sim [OF sim _ _ jb, of t v p] tn ok by (simp add: comparable_def)
  next
    case (CallReconcile t c m a r p evd ver)
    then show ?thesis using reconcile_sim [OF sim, of t v p] tn ok by (simp add: comparable_def)
  next
    case (CallMutate t c act a ik ver r mc)
    then show ?thesis using mutate_sim [OF sim, of t v act rd c] tn ok by (simp add: comparable_def)
  qed
qed

lemma empty_ledger_sim: "ledger_sim h empty_command_db empty_store"
  by (simp add: ledger_sim_def commands_agree_def timelines_agree_def attempts_agree_def mutations_agree_def tables_sound_def marks_sound_def
      ledger_inv_def empty_command_db_def empty_store_def command_at_def mutation_at_def entry_at_def events_at_def attempts_at_def)

lemma workers_keep_sim:
  assumes "ledger_sim h db st"
  shows "ledger_sim h (db\<lparr>pg_outbox := ob\<rparr>) (st\<lparr>cs_outbox := ob'\<rparr>)"
proof -
  have "ledger_inv h (st\<lparr>cs_outbox := ob'\<rparr>)"
    using assms ledger_same_inv [of st "st\<lparr>cs_outbox := ob'\<rparr>" h] by (simp add: ledger_sim_def ledger_same_def)
  moreover have "entry_at (st\<lparr>cs_outbox := ob'\<rparr>) = entry_at st" "command_at t c (db\<lparr>pg_outbox := ob\<rparr>) = command_at t c db"
    "mutation_at t c act a ik (db\<lparr>pg_outbox := ob\<rparr>) = mutation_at t c act a ik db" for t c act a ik
    by (simp_all add: entry_at_def fun_eq_iff command_at_def mutation_at_def)
  ultimately show ?thesis
    using assms by (simp add: ledger_sim_def commands_agree_def timelines_agree_def attempts_agree_def mutations_agree_def tables_sound_def marks_sound_def)
qed

lemma side_by_side_sim: "side_by_side h jsonb db st \<Longrightarrow> keeps_text jsonb \<Longrightarrow> ledger_sim h db st"
proof (induction rule: side_by_side.induct)
  case (both_call db st rd x)
  then show ?case using call_sim by blast
qed (simp_all add: empty_ledger_sim workers_keep_sim)

end
