(* ===== verification/Postgres_Guarantees.thy ===== *)
theory Postgres_Guarantees
  imports Postgres_Equivalence
begin

text \<open>
  What the durable command store guarantees. Its steps are the calls of its clients, in any
  order, and the work of the outbox workers; every state they reach has an in-memory ledger it
  agrees with, so the tables inherit the timelines of that ledger.
\<close>

subsection \<open>Steps\<close>

fun sane_call :: "host \<Rightarrow> ledger_call \<Rightarrow> bool" where
  "sane_call h (CallSubmit c client dest evd tr) = valid_envelope h c"
| "sane_call h (CallTransition t c ns a r p ev x) = (p \<noteq> Some [])"
| "sane_call h (CallReconcile t c m a r p evd ver) = (p \<noteq> Some [])"
| "sane_call h (CallMutate t c act a ik ver r mc) = True"

inductive postgres_step :: "host \<Rightarrow> jsonb \<Rightarrow> command_db \<Rightarrow> command_db \<Rightarrow> bool" for h :: host and jsonb :: jsonb where
  ps_call: "sane_call h x \<Longrightarrow> postgres_step h jsonb db (snd (postgres_call h jsonb rd x db))"
| ps_workers: "postgres_step h jsonb db (db\<lparr>pg_outbox := ob\<rparr>)"

definition postgres_init :: "command_db \<Rightarrow> bool" where
  "postgres_init db \<longleftrightarrow> db = empty_command_db"

abbreviation postgres_reach :: "host \<Rightarrow> jsonb \<Rightarrow> command_db \<Rightarrow> bool" where
  "postgres_reach h jsonb \<equiv> reach postgres_init (postgres_step h jsonb)"

subsection \<open>Every state has its in-memory ledger\<close>

lemma foreign_tenant_changes_nothing:
  assumes "canonical_tenant_id (call_tenant x) = Inl e"
  shows "snd (postgres_call h jsonb rd x db) = db"
  using assms
  by (cases x) (auto simp: pg_submit_def pg_transition_def pg_reconcile_def pg_mutate_operation_def tenant_transaction_def transaction_def
      thenE_def bindE_def liftE_run raiseE_def)

lemma blocked_submission_changes_nothing:
  assumes tn: "canonical_tenant_id (ce_tenant_id c) = Inr v" and new: "\<not> list_ex (clashes c) (pg_commands db)"
    and busy: "list_ex (\<lambda>y. oi_id y = rd_outbox_id rd \<or> oi_tenant_id y = ce_tenant_id c \<and> oi_destination y = dest
      \<and> oi_idempotency_key y = ce_idempotency_key c) (db_rows (pg_outbox db))"
  shows "snd (pg_submit h jsonb rd c client dest evd tr db) = db"
proof (cases "dest \<notin> set COMMAND_DESTINATIONS")
  case True
  then show ?thesis by (simp add: pg_submit_def tenant_transaction_ok [OF tn] submit_on_connection_def raiseE_def transaction_def)
next
  case dest: False
  show ?thesis
    unfolding pg_submit_eq(1) [OF tn dest] submit_on_connection_def if_not_P [OF dest] transaction_def thenE_def bindE_def liftE_run tn
      sum.case prod.case Let_def insert_command_clash if_not_P [OF new] option.case insert_audit_def modifyE_def on_outbox_def zoomE_def
      outbox_insert_def
    using busy by (simp add: new_row_def)
qed

text \<open>Between its calls a worker may leave the in-memory outbox as a cancellation needs it.\<close>

definition lease_twin :: "bool \<Rightarrow> string \<Rightarrow> uuid \<Rightarrow> outbox_intent list" where
  "lease_twin leased t c = (if leased then [(new_intent 1 t (uuid_str c) [] [] [] [])\<lparr>oi_lease_owner := Some []\<rparr>] else [])"

lemma lease_twin: "active_lease (adapter_intents (st\<lparr>cs_outbox := lease_twin b t c\<rparr>) t c) = b"
  by (simp add: active_lease_def adapter_intents_def lease_twin_def new_intent_def)

lemma postgres_step_sim:
  assumes sim: "ledger_sim h db st" and jb: "keeps_text jsonb" and sane: "sane_call h x"
  shows "\<exists>st'. ledger_sim h (snd (postgres_call h jsonb rd x db)) st'"
proof (cases "canonical_tenant_id (call_tenant x)")
  case (Inl e)
  then show ?thesis using foreign_tenant_changes_nothing sim by metis
next
  case (Inr v)
  show ?thesis
  proof (cases x)
    case (CallSubmit c client dest evd tr)
    show ?thesis
    proof (cases "comparable h rd x db st")
      case True
      then show ?thesis using call_sim [OF sim jb] by blast
    next
      case False
      then have "snd (postgres_call h jsonb rd x db) = db"
        using CallSubmit Inr sane blocked_submission_changes_nothing no_entry_no_clash [OF sim] by (simp add: comparable_def)
      then show ?thesis using sim by auto
    qed
  next
    case (CallMutate t c act a ik ver r mc)
    let ?st = "st\<lparr>cs_outbox := lease_twin (command_leased (rd_clock rd) t c db) t c\<rparr>"
    have "ledger_sim h db ?st" using workers_keep_sim [OF sim, of "pg_outbox db"] by simp
    moreover have "comparable h rd x db ?st" using CallMutate Inr by (simp add: comparable_def lease_twin)
    ultimately show ?thesis using call_sim [OF _ jb] by blast
  qed (use call_sim [OF sim jb, of rd x] Inr sane in \<open>auto simp: comparable_def\<close>)
qed

interpretation pgl: machine_invariant postgres_init "postgres_step h jsonb" "\<lambda>db. keeps_text jsonb \<longrightarrow> (\<exists>st. ledger_sim h db st)" for h jsonb
proof
  show "postgres_init db \<Longrightarrow> keeps_text jsonb \<longrightarrow> (\<exists>st. ledger_sim h db st)" for db
    using empty_ledger_sim unfolding postgres_init_def by blast
  show "keeps_text jsonb \<longrightarrow> (\<exists>st. ledger_sim h db' st)"
    if "keeps_text jsonb \<longrightarrow> (\<exists>st. ledger_sim h db st)" "postgres_step h jsonb db db'" for db db'
    using that(2,1)
  proof cases
    case (ps_call x rd)
    then show ?thesis using that(1) postgres_step_sim by blast
  next
    case (ps_workers ob)
    then show ?thesis using that(1) workers_keep_sim by blast
  qed
qed

subsection \<open>What a successful call leaves\<close>

lemma tenant_transaction_Inr:
  "tenant_transaction t m db = (Inr a, db') \<longleftrightarrow> (\<exists>v. canonical_tenant_id t = Inr v) \<and> m db = (Inr a, db')"
  by (cases "canonical_tenant_id t") (auto simp: tenant_transaction_def transaction_Inr thenE_def bindE_def liftE_run)

lemma pg_transition_success:
  assumes "pg_transition h jsonb now t c ns a rs p ev x db = (Inr op, db')"
  shows "(\<exists>v. canonical_tenant_id t = Inr v) \<and> (\<exists>row. pg_transition_body h jsonb now t c ns a rs p ev x db = (Inr row, db'))"
proof -
  have "\<exists>row. tenant_transaction t (pg_transition_body h jsonb now t c ns a rs p ev x) db = (Inr row, db')"
    using assms
    by (cases "tenant_transaction t (pg_transition_body h jsonb now t c ns a rs p ev x) db"; cases "canonical_tenant_id t")
      (auto simp: pg_transition_def bindE_def raiseE_def liftE_run getsE_def tenant_transaction_def transaction_def thenE_def
        split: if_splits sum.splits option.splits prod.splits)
  then show ?thesis by (auto simp: tenant_transaction_Inr)
qed

lemma pg_transition_leaves:
  assumes "pg_transition h jsonb now t c ns a rs p ev x db = (Inr op, db')"
  shows "\<exists>ae. pg_audit db' = pg_audit db @ [ae] \<and> is_audit t c ae \<and> ev_new_state ae = ns"
    and "ns = Queued \<Longrightarrow> pg_attempts db' = pg_attempts db"
    and "ns = Dispatching \<Longrightarrow> \<exists>att. pg_attempts db' = pg_attempts db @ [att] \<and> is_attempt t c att
      \<and> at_attempt_number att = max_attempt t c db + 1 \<and> ta_result_payload att = None"
    and "command_at t c db' \<noteq> None"
proof -
  obtain row where body: "pg_transition_body h jsonb now t c ns a rs p ev x db = (Inr row, db')"
    using pg_transition_success [OF assms] by blast
  then obtain r where r: "command_at t c db = Some r" and x: "\<not> (x \<noteq> None \<and> ns \<noteq> Dispatching \<and> max_attempt t c db \<noteq> the x)"
      and ns: "ns \<in> set (ALLOWED_COMMAND_TRANSITIONS (co_state r))"
    by (cases "command_at t c db") (auto simp: pg_transition_body_def bindE_def getsE_def reraiseE_def raiseE_def split: if_splits)
  from pg_transition_body_ok [OF r x ns, of h jsonb now a rs p ev] body
  show "\<exists>ae. pg_audit db' = pg_audit db @ [ae] \<and> is_audit t c ae \<and> ev_new_state ae = ns"
    by (auto simp: is_audit_def)
  have "pg_commands db' = map (\<lambda>y. if is_command t c y then transition_row now ns p (take 2048 rs) y else y) (pg_commands db)"
    using pg_transition_body_ok [OF r x ns, of h jsonb now a rs p ev] body by auto
  then have "command_at t c db' = map_option (transition_row now ns p (take 2048 rs)) (command_at t c db)"
    unfolding command_at_def using find_command_update [of "transition_row now ns p (take 2048 rs)" t c t c] by (simp add: transition_row_def)
  then show "command_at t c db' \<noteq> None" using r by simp
  note run = body [unfolded pg_transition_body_def bindE_def getsE_def prod.case sum.case r option.case if_not_P [OF x]]
  show "pg_attempts db' = pg_attempts db" if "ns = Queued"
    using run ns r that by (auto simp: update_command_def thenE_def bindE_def insert_audit_def modifyE_def retE_def split: if_splits)
  show "\<exists>att. pg_attempts db' = pg_attempts db @ [att] \<and> is_attempt t c att
      \<and> at_attempt_number att = max_attempt t c db + 1 \<and> ta_result_payload att = None" if "ns = Dispatching"
    using run ns r that
    by (auto simp: update_command_def thenE_def bindE_def insert_audit_def modifyE_def retE_def insert_attempt_def is_attempt_def max_attempt_def split: if_splits)
qed

lemma pg_reconcile_leaves:
  assumes jb: "keeps_text jsonb" and run: "pg_reconcile h jsonb now t c m a rs p evd ver db = (Inr op, db')"
  shows "\<exists>ae. pg_audit db' = pg_audit db @ [ae] \<and> is_audit t c ae \<and> ev_event_id ae = Suc (length (pg_audit db))
    \<and> ev_new_state ae = (if m then Completed else ReconciliationRequired)
    \<and> map_of (ev_safe_metadata ae) ''readback_evidence_sha256'' = Some (JStr (provider_evidence_digest h evd))"
proof -
  obtain row where body: "pg_reconcile_body h jsonb now t c m a (take 2048 rs) p evd ver db = (Inr row, db')"
    using run by (auto simp: pg_reconcile_def bindE_def liftE_run tenant_transaction_Inr split: prod.splits sum.splits)
  then obtain r where r: "command_at t c db = Some r" and s: "\<not> co_state r \<noteq> ReconciliationRequired"
      and ver: "\<not> (ver \<noteq> None \<and> co_resource_version r \<noteq> the ver)"
    by (cases "command_at t c db") (auto simp: pg_reconcile_body_def bindE_def getsE_def reraiseE_def raiseE_def split: if_splits)
  have keep: "map_of (jsonb d) k = Some (JStr s)" if "map_of d k = Some (JStr s)" for d k s
    using jb that by (simp add: keeps_text_def)
  show ?thesis
    using pg_reconcile_body_ok [OF r s ver, of h jsonb now m a "take 2048 rs" p evd] body
    by (auto simp: is_audit_def event_view_def intro!: keep)
qed

lemma newest_row:
  assumes "new \<in> set rows" "P new" and "\<And>r. r \<in> set rows \<Longrightarrow> P r \<Longrightarrow> r \<noteq> new \<Longrightarrow> key new < key r"
  shows "sql_first key P rows = Some new"
proof (cases "sql_first key P rows")
  case None
  then show ?thesis using assms(1,2) by (simp add: sql_first_None)
next
  case (Some r)
  note r = sql_first_Some(1,2) [OF Some] sql_first_Some(3) [OF Some assms(1,2)]
  then have "r = new" using assms(3) [OF r(1,2)] by (meson leD)
  then show ?thesis using Some by simp
qed

lemma max_attempt_bound:
  assumes "x \<in> set (pg_attempts db)" "is_attempt t c x"
  shows "at_attempt_number x \<le> max_attempt t c db"
proof -
  let ?ns = "map at_attempt_number (filter (is_attempt t c) (pg_attempts db))"
  have "at_attempt_number x \<le> Max (set (0 # ?ns))" using assms by (intro Max_ge) auto
  then show ?thesis unfolding max_attempt_def Max.set_eq_fold .
qed

lemma new_attempt_is_newest:
  assumes "pg_attempts db' = pg_attempts db @ [att]" "is_attempt t c att" "at_attempt_number att = max_attempt t c db + 1"
  shows "newest_attempt t c db' = Some att"
  unfolding newest_attempt_def
  by (rule newest_row) (use assms max_attempt_bound [of _ db t c] in fastforce)+

lemma numbered_bound: "numbered rid rows \<Longrightarrow> r \<in> set rows \<Longrightarrow> rid r \<le> length rows"
  unfolding numbered_def by (metis (no_types, lifting) atLeastLessThan_iff image_eqI less_Suc_eq_le list.set_map set_upt)

subsection \<open>A database for the witnesses\<close>

definition sample_pg_reading :: reading where
  "sample_pg_reading = \<lparr>rd_now = 100, rd_clock = 100, rd_outbox_id = 1\<rparr>"

definition sample_submit :: ledger_call where
  "sample_submit = CallSubmit sample_envelope ''middleware-api'' ADAPTER_COMMAND_DESTINATION None None"

definition sample_move :: "command_state \<Rightarrow> ledger_call" where
  "sample_move ns = CallTransition ''TEST_SYN'' 7 ns ''worker-1'' ''step'' None None None"

definition sample_mismatch :: ledger_call where
  "sample_mismatch = CallReconcile ''TEST_SYN'' 7 False ''reconciler-1'' ''differs'' None [] None"

fun after_calls :: "ledger_call list \<Rightarrow> command_db" where
  "after_calls [] = empty_command_db"
| "after_calls (x # xs) = snd (postgres_call sample_host id sample_pg_reading x (after_calls xs))"

lemma after_calls_reach: "\<forall>x \<in> set xs. sane_call sample_host x \<Longrightarrow> postgres_reach sample_host id (after_calls xs)"
proof (induction xs)
  case Nil
  then show ?case by (simp add: reach_init postgres_init_def)
next
  case (Cons x xs)
  have "postgres_reach sample_host id (after_calls xs)" by (rule Cons.IH) (use Cons.prems in auto)
  moreover have "postgres_step sample_host id (after_calls xs) (after_calls (x # xs))"
    unfolding after_calls.simps by (rule ps_call) (use Cons.prems in auto)
  ultimately show ?case by (rule reach_step)
qed

lemma id_keeps_text: "keeps_text id"
  by (simp add: keeps_text_def)

lemma sample_sane: "sane_call sample_host sample_submit" "sane_call sample_host (sample_move ns)" "sane_call sample_host sample_mismatch"
  by (simp_all add: sample_submit_def sample_move_def sample_mismatch_def sample_envelope_valid)

lemma sample_tenant: "canonical_tenant_id ''TEST_SYN'' = Inr ''TEST_SYN''"
  by code_simp

lemma sample_row_state: "co_state (command_row_of h jsonb now c client) = Persisted"
  by (simp add: command_row_of_def command_operation.defs command_row.defs new_operation_def)

lemma sample_envelope_ids: "ce_tenant_id sample_envelope = ''TEST_SYN''" "ce_command_id sample_envelope = 7"
  by (simp_all add: sample_envelope_def)

lemmas statement_evals = tenant_transaction_def transaction_def prog_defs liftE_run on_outbox_def insert_command_def insert_audit_def
  outbox_insert_def update_command_def command_at_def is_command_def max_attempt_def newest_attempt_def is_attempt_def is_audit_def
  persisted_evidence_def insert_attempt_def update_newest_attempt_def sql_first_def json_member_text_def opt_str_def coalesce_def Let_def

lemmas store_evals = pg_submit_def submit_on_connection_def pg_transition_def pg_transition_body_def transition_row_def transition_attempt_def
  row_operation_def verify_readback_evidence_digest_def pg_reconcile_def pg_reconcile_body_def verdict_row_def verdict_attempt_def
  COMMAND_DESTINATIONS_def empty_command_db_def

lemmas sample_evals = sample_submit_def sample_move_def sample_mismatch_def sample_pg_reading_def sample_tenant sample_row_state sample_envelope_ids

subsection \<open>Properties\<close>



lemma chained_view:
  "map event_view es = map event_view fs \<Longrightarrow> chained s (map operation_event.truncate es) = chained s fs"
proof (induction fs arbitrary: es s)
  case (Cons f fs)
  then show ?case by (cases es) (auto simp: event_view_def operation_event.defs)
qed simp

text \<open>
  C17. Timeline integrity of the tables: in every state the durable store reaches, under any
  interleaving of its calls with the work of the outbox workers, the audit rows of a command in
  the order of their ids begin with its submission, follow only legal edges of the state machine,
  each from the state the row before it reached, and end in the state of the command's row; its
  attempt rows are numbered 1..k where k is the number of times it entered \<open>dispatching\<close>.
\<close>

theorem postgres_timeline_integrity:
  assumes "postgres_reach h jsonb db" and "keeps_text jsonb" and "command_at t c db = Some r"
  shows "\<exists>e es. filter (is_audit t c) (pg_audit db) = e # es \<and> ev_previous_state e = None \<and> ev_new_state e = Persisted
    \<and> chained Persisted (map operation_event.truncate es) \<and> ev_new_state (last (e # es)) = co_state r
    \<and> map at_attempt_number (filter (is_attempt t c) (pg_attempts db)) = [1..<Suc (length (filter (\<lambda>x. ev_new_state x = Dispatching) (e # es)))]
    \<and> sorted (map ev_event_id (e # es))"
proof -
  obtain st where sim: "ledger_sim h db st" using pgl.reach_inv [OF assms(1)] assms(2) by blast
  let ?evs = "filter (is_audit t c) (pg_audit db)"
  obtain op where e: "entry_at st (t, c) = Some (cr_payload_sha256 r, op)" and vw: "op_view r = op_view op"
    using commands_agreeD(2) [OF _ assms(3)] sim unfolding ledger_sim_def by blast
  have view: "map event_view ?evs = map event_view (events_at st (t, c))" using sim by (simp add: ledger_sim_def timelines_agree_def)
  have inv: "timeline_ok (events_at st (t, c)) (co_state op)"
    "map at_attempt_number (attempts_at st (t, c)) = [1..<Suc (dispatches (events_at st (t, c)))]"
    using ledger_inv_entry [OF _ e] sim unfolding ledger_sim_def entry_inv_def by blast+
  obtain f fs where fs: "events_at st (t, c) = f # fs" "ev_previous_state f = None" "ev_new_state f = Persisted" "chained Persisted fs"
      "ev_new_state (last (f # fs)) = co_state op"
    using inv(1) by (cases "events_at st (t, c)") (auto simp: timeline_ok_def)
  obtain e0 es where es: "?evs = e0 # es" using view fs(1) by (cases ?evs) auto
  have heads: "event_view e0 = event_view f" "map event_view es = map event_view fs" using view es fs(1) by simp_all
  have states: "map ev_new_state ?evs = map ev_new_state (events_at st (t, c))"
    using arg_cong [OF view, of "map (fst \<circ> snd)"] by (simp add: event_view_def comp_def)
  have last: "ev_new_state (last (e0 # es)) = co_state r"
    using arg_cong [OF states, of last] fs(1,5) es op_viewD [OF vw] by (simp add: last_map split: if_splits)
  have "length (filter (\<lambda>x. ev_new_state x = Dispatching) ?evs) = dispatches (events_at st (t, c))"
    using arg_cong [OF states, of "\<lambda>xs. length (filter (\<lambda>x. x = Dispatching) xs)"]
    by (simp add: dispatches_def filter_map comp_def)
  moreover have "sorted (map ev_event_id ?evs)"
    using sim by (intro sorted_filter) (simp add: ledger_sim_def tables_sound_def numbered_def del: upt_Suc)
  ultimately show ?thesis
    using es fs heads last inv(2) attempt_numbers [OF sim, of t c] chained_view [OF heads(2), of Persisted]
    by (intro exI [of _ e0] exI [of _ es]) (simp add: event_view_def)
qed

abbreviation sample_dispatched_db :: command_db where
  "sample_dispatched_db \<equiv> after_calls [sample_move Dispatching, sample_move Queued, sample_submit]"

lemma sample_dispatched_row: "\<exists>r. command_at ''TEST_SYN'' 7 sample_dispatched_db = Some r \<and> co_state r = Dispatching"
  by (simp add: statement_evals store_evals sample_evals)

theorem postgres_timeline_integrity_witness:
  "\<exists>e es. filter (is_audit ''TEST_SYN'' 7) (pg_audit sample_dispatched_db) = e # es \<and> ev_new_state e = Persisted
     \<and> chained Persisted (map operation_event.truncate es) \<and> ev_new_state (last (e # es)) = Dispatching"
proof -
  obtain r where r: "command_at ''TEST_SYN'' 7 sample_dispatched_db = Some r" "co_state r = Dispatching"
    using sample_dispatched_row by blast
  have "postgres_reach sample_host id sample_dispatched_db"
    by (rule after_calls_reach) (simp add: sample_sane)
  from postgres_timeline_integrity [OF this id_keeps_text r(1)] show ?thesis unfolding r(2) by blast
qed

text \<open>
  C39. After a mismatch verdict a retried command cannot be read: when a reconciliation records a
  mismatch with its evidence and the command is then queued and dispatched again, \<open>get\<close> pairs the
  payload of the new attempt, which has none yet, with the digest of the old verdict and raises
  \<open>RuntimeError\<close>, so the operation, its events, its attempts and its replays cannot be read, and
  the failure path of the bus, which reads the operation first, cannot record a failure.
\<close>

theorem postgres_get_breaks_after_retry:
  assumes "postgres_reach h jsonb db" and jb: "keeps_text jsonb"
    and verdict: "pg_reconcile h jsonb n1 t c False a1 r1 p1 evd ver db = (Inr o1, db1)"
    and queued: "pg_transition h jsonb n2 t c Queued a2 r2 p2 None x2 db1 = (Inr o2, db2)"
    and dispatched: "pg_transition h jsonb n3 t c Dispatching a3 r3 p3 None x3 db2 = (Inr o3, db3)"
  shows "pg_get h t c db3 = (Inl (Exc RuntimeError ''read-back evidence digest has no evidence payload''), db3)"
proof -
  let ?P = "\<lambda>e. ev_new_state e \<in> set [Completed, ReconciliationRequired] \<and> map_of (ev_safe_metadata e) ''readback_evidence_sha256'' \<noteq> None"
  have num: "numbered ev_event_id (pg_audit db)"
    using pgl.reach_inv [OF assms(1)] jb unfolding ledger_sim_def tables_sound_def by blast
  obtain v where tn: "canonical_tenant_id t = Inr v" using pg_transition_success [OF dispatched] by blast
  obtain e1 where e1: "pg_audit db1 = pg_audit db @ [e1]" "is_audit t c e1" "ev_event_id e1 = Suc (length (pg_audit db))"
      "ev_new_state e1 = ReconciliationRequired"
      "map_of (ev_safe_metadata e1) ''readback_evidence_sha256'' = Some (JStr (provider_evidence_digest h evd))"
    using pg_reconcile_leaves [OF jb verdict] by auto
  obtain e2 e3 where "pg_audit db2 = pg_audit db1 @ [e2]" "ev_new_state e2 = Queued"
      "pg_audit db3 = pg_audit db2 @ [e3]" "ev_new_state e3 = Dispatching"
    using pg_transition_leaves(1) [OF queued] pg_transition_leaves(1) [OF dispatched] by blast
  then have audit: "pg_audit db3 = pg_audit db @ [e1, e2, e3]" and quiet: "\<not> ?P e2" "\<not> ?P e3" using e1(1) by simp_all
  have newest: "sql_first (\<lambda>e. - int (ev_event_id e)) (\<lambda>e. is_audit t c e \<and> ?P e) (pg_audit db3) = Some e1"
  proof (rule newest_row)
    show "- int (ev_event_id e1) < - int (ev_event_id r)" if "r \<in> set (pg_audit db3)" "is_audit t c r \<and> ?P r" "r \<noteq> e1" for r
    proof -
      have "r \<in> set (pg_audit db)" using that quiet unfolding audit by auto
      then show ?thesis using numbered_bound [OF num] e1(3) by fastforce
    qed
  qed (use audit e1 in simp_all)
  have "Option.bind (newest_attempt t c db3) ta_result_payload = None"
    using pg_transition_leaves(3) [OF dispatched] new_attempt_is_newest by fastforce
  then have "persisted_evidence t c ?P db3 = (None, Some (provider_evidence_digest h evd))"
    unfolding persisted_evidence_def newest using e1(5) by (simp add: json_member_text_def)
  moreover obtain r where "command_at t c db3 = Some r" using pg_transition_leaves(4) [OF dispatched] by blast
  ultimately show ?thesis
    unfolding pg_get_def tenant_transaction_ok [OF tn] bindE_def transaction_def getsE_def
    by (simp add: liftE_run row_operation_def verify_readback_evidence_digest_def)
qed

abbreviation sample_parked_db :: command_db where
  "sample_parked_db \<equiv> after_calls [sample_move ReconciliationRequired, sample_move Dispatching, sample_move Queued, sample_submit]"

lemma sample_retry_succeeds:
  "\<exists>o1 o2 o3 db1 db2 db3. postgres_call sample_host id sample_pg_reading sample_mismatch sample_parked_db = (Inr o1, db1)
     \<and> postgres_call sample_host id sample_pg_reading (sample_move Queued) db1 = (Inr o2, db2)
     \<and> postgres_call sample_host id sample_pg_reading (sample_move Dispatching) db2 = (Inr o3, db3)"
  by (simp add: statement_evals store_evals sample_evals)

theorem postgres_get_breaks_after_retry_witness:
  "\<exists>db3. pg_get sample_host ''TEST_SYN'' 7 db3 = (Inl (Exc RuntimeError ''read-back evidence digest has no evidence payload''), db3)
     \<and> db3 = after_calls ([sample_move Dispatching, sample_move Queued, sample_mismatch, sample_move ReconciliationRequired,
         sample_move Dispatching, sample_move Queued, sample_submit])"
proof -
  obtain o1 o2 o3 db1 db2 db3 where run: "postgres_call sample_host id sample_pg_reading sample_mismatch sample_parked_db = (Inr o1, db1)"
      "postgres_call sample_host id sample_pg_reading (sample_move Queued) db1 = (Inr o2, db2)"
      "postgres_call sample_host id sample_pg_reading (sample_move Dispatching) db2 = (Inr o3, db3)"
    using sample_retry_succeeds by blast
  have "postgres_reach sample_host id sample_parked_db"
    by (rule after_calls_reach) (simp add: sample_sane)
  from postgres_get_breaks_after_retry [OF this id_keeps_text run(1) [unfolded sample_mismatch_def postgres_call.simps]
      run(2) [unfolded sample_move_def postgres_call.simps] run(3) [unfolded sample_move_def postgres_call.simps]]
  have "pg_get sample_host ''TEST_SYN'' 7 db3 = (Inl (Exc RuntimeError ''read-back evidence digest has no evidence payload''), db3)" .
  moreover have "db3 = after_calls ([sample_move Dispatching, sample_move Queued, sample_mismatch, sample_move ReconciliationRequired,
         sample_move Dispatching, sample_move Queued, sample_submit])"
    using run by simp
  ultimately show ?thesis by blast
qed

end
