(* ===== verification/Worker_Liveness.thy ===== *)
theory Worker_Liveness
  imports Worker_Guarantees
begin

text \<open>
  The worker's loop delivers: a row that is due is completed after as many turns as there are
  unfinished rows in front of it, and rows that arrive meanwhile do not push it back.
\<close>

subsection \<open>What a run leaves alone\<close>

text \<open>Only the row with this id differs, and it is still the same row.\<close>

definition only_row :: "nat \<Rightarrow> outbox_row list \<Rightarrow> outbox_row list \<Rightarrow> bool" where
  "only_row i rows rows' \<longleftrightarrow> (\<exists>g. rows' = map g rows \<and> (\<forall>x. oi_id (g x) = oi_id x \<and> oi_destination (g x) = oi_destination x)
     \<and> (\<forall>x. oi_id x \<noteq> i \<longrightarrow> g x = x))"

lemma only_row_refl: "only_row i rows rows"
  unfolding only_row_def by (rule exI [of _ id]) simp

lemma only_row_map:
  assumes "only_row i rows rows'" and "\<And>x. oi_id (f x) = oi_id x" "\<And>x. oi_destination (f x) = oi_destination x" and "\<And>x. oi_id x \<noteq> i \<Longrightarrow> f x = x"
  shows "only_row i rows (map f rows')"
proof -
  obtain g where "rows' = map g rows" "\<forall>x. oi_id (g x) = oi_id x \<and> oi_destination (g x) = oi_destination x" "\<forall>x. oi_id x \<noteq> i \<longrightarrow> g x = x"
    using assms(1) by (auto simp: only_row_def)
  then show ?thesis unfolding only_row_def using assms(2-4) by (intro exI [of _ "f \<circ> g"]) simp
qed

abbreviation only_since :: "nat \<Rightarrow> outbox_row list \<Rightarrow> outbox_row outbox_db \<Rightarrow> bool" where
  "only_since i rows db \<equiv> only_row i rows (db_rows db)"

lemma only_update:
  assumes "\<And>x. oi_id (f x) = oi_id x" "\<And>x. oi_destination (f x) = oi_destination x" and "\<And>x. P x \<Longrightarrow> oi_id x = i"
  shows "keeps (only_since i rows) (sql_update P f)"
  using assms by (intro keepsI) (force simp: sql_update_def intro!: only_row_map)

lemma only_logs: "keeps (only_since i rows) (log_attempt e)" "keeps (only_since i rows) (log_reconciliation a)"
  by (auto intro!: keepsI simp: log_attempt_def log_reconciliation_def modifyE_def)

lemma only_quarantine: "keeps (only_since i rows) (quarantine_unknown_outcome now i who err lease token)"
  unfolding quarantine_unknown_outcome_def update_owned_def
  by (intro keeps_rules only_update only_logs) (simp_all add: held_by_def)

lemma only_renew: "keeps (only_since i rows) (renew_active_dispatch now i who lease token)"
  unfolding renew_active_dispatch_def by (intro keeps_rules only_update) (simp_all add: held_by_def)

lemma only_resolve: "keeps (only_since i rows) (resolve_reconciliation now i operator action reason limit who token)"
  unfolding resolve_reconciliation_def Let_def
  by (intro keeps_rules only_update only_logs) (simp_all add: resolution_of_def Let_def)

lemma only_outbox:
  assumes "keeps (only_since i rows) m"
  shows "keeps (\<lambda>w :: 's worker_state. only_since i rows (ws_outbox w)) (on_outbox m)"
proof (rule keepsI)
  fix w :: "'s worker_state" assume "only_since i rows (ws_outbox w)"
  from keepsD [OF assms this] show "only_since i rows (ws_outbox (snd (on_outbox m w)))"
    by (cases "m (ws_outbox w)") (simp add: on_outbox_def zoomE_def)
qed

lemma keeps_alone: "keeps I (meanwhile alone n)"
  by (rule keepsI) simp

lemma only_heartbeat: "keeps (\<lambda>w. only_since (or_id rec) rows (ws_outbox w)) (heartbeat wk alone rec n ts)"
  by (induction ts arbitrary: n) (auto intro!: keeps_rules only_outbox only_renew keeps_alone)

lemma only_dispatch: "keeps (\<lambda>w. only_since (or_id rec) rows (ws_outbox w)) (dispatch_record wk alone rd rec h)"
proof -
  have "keeps (\<lambda>w. only_since (or_id rec) rows (ws_outbox w)) (settle_dispatch wk rd rec res)" for res
    unfolding settle_dispatch_def worker_resolve_def by (cases res) (auto intro!: keeps_rules only_outbox only_resolve)
  moreover have "keeps (\<lambda>w. only_since (or_id rec) rows (ws_outbox w)) (reserve_dispatch wk now rec)" for now
    unfolding reserve_dispatch_def by (intro keeps_rules only_outbox only_quarantine) (auto intro!: keepsI simp: modifyE_def)
  moreover have "keeps (\<lambda>w. only_since (or_id rec) rows (ws_outbox w)) (call_handler h c rec)" for c
    by (rule keepsI) (auto simp: call_handler_def on_app_def zoomE_def split: prod.split)
  ultimately show ?thesis unfolding dispatch_record_def by (intro keeps_rules only_heartbeat keeps_alone) simp_all
qed

subsection \<open>One turn\<close>

text \<open>
  What the environment owes the worker: an effect gate that allows and handlers that return,
  and clock readings under which no lease runs out, from a given moment on.
\<close>

definition reliable :: "'s outbox_worker \<Rightarrow> bool" where
  "reliable wk \<longleftrightarrow> (\<exists>g. wk_effect_gate wk = Some g \<and> (\<forall>rec a. fst (g rec a) = Inr True))
     \<and> (\<forall>d h. map_of (wk_handlers wk) d = Some h \<longrightarrow> (\<forall>rec a. fst (h False rec a) = Inr ()))"

definition served :: "'s outbox_worker \<Rightarrow> outbox_row \<Rightarrow> bool" where
  "served wk r \<longleftrightarrow> map_of (wk_handlers wk) (oi_destination r) \<noteq> None"

definition prompt :: "'s outbox_worker \<Rightarrow> rat \<Rightarrow> worker_reading \<Rightarrow> bool" where
  "prompt wk t rd \<longleftrightarrow> t \<le> wr_claim rd \<and> wr_locked rd = [] \<and> \<not> wr_timed_out rd \<and> \<not> wr_shutdown rd
     \<and> wr_release rd < wr_claim rd + wk_lease_seconds wk
     \<and> wr_resolve rd < last (wr_release rd # wr_beats rd) + wk_lease_seconds wk"

abbreviation completed :: "outbox_row \<Rightarrow> bool" where
  "completed r \<equiv> oi_completed_at r \<noteq> None"

text \<open>
  A turn keeps the rows, reopens and uncompletes none, and a row that is due is completed
  unless one in front of it is.
\<close>

definition turn_effect :: "nat \<Rightarrow> rat \<Rightarrow> outbox_row list \<Rightarrow> outbox_row list \<Rightarrow> bool" where
  "turn_effect limit now rows rows' \<longleftrightarrow> (\<exists>g. rows' = map g rows
     \<and> (\<forall>x \<in> set rows. oi_id (g x) = oi_id x \<and> oi_destination (g x) = oi_destination x \<and> (open_row (g x) \<longrightarrow> open_row x)
          \<and> (completed x \<longrightarrow> completed (g x)))
     \<and> (\<forall>x \<in> set rows. due_row limit now x \<longrightarrow> completed (g x)
          \<or> g x = x \<and> (\<exists>c \<in> set rows. due_row limit now c \<and> oi_id c < oi_id x \<and> completed (g c))))"

text \<open>Claims are served in the order of the ids.\<close>

lemma claim_in_order:
  assumes inv: "table_inv limit db" and claim: "outbox_claim now [] who lease limit db = (Inr (Some rec), db')"
    and x: "x \<in> set (db_rows db)" "due_row limit now x"
  shows "or_id rec \<le> oi_id x"
proof -
  let ?rows = "map (\<lambda>r. if spent_row limit now r then bury_spent now r else r) (db_rows db)"
  have inv1: "table_inv limit (db\<lparr>db_rows := ?rows\<rparr>)"
    using keepsD [OF keeps_table_update [OF calm_updates(5)] inv] by (simp add: sql_update_def)
  obtain c where c: "sql_first oi_id (due_row limit now) ?rows = Some c"
    using claim by (auto simp: outbox_claim_def transaction_Inr sql_defs split: if_splits option.splits)
  have "or_id rec = oi_id c"
    using claim c table_key [OF inv1] sql_first_Some(1) [OF c]
    by (auto simp: outbox_claim_def transaction_Inr sql_defs record_of_row_def lease_row_def split: if_splits)
  moreover have "x \<in> set ?rows" using x by (force simp: due_row_def spent_row_def)
  ultimately show ?thesis using sql_first_Some(3) [OF c] x(2) by simp
qed

lemma claimed_effect:
  assumes inv: "table_inv limit db" and inv': "table_inv limit db'"
    and claim: "outbox_claim now [] who lease limit db = (Inr (Some rec), db1)"
    and only: "only_row (or_id rec) (db_rows db1) (db_rows db')" and r: "row_at limit (or_id rec) db' r" "completed r"
  shows "turn_effect limit now (db_rows db) (db_rows db')"
proof -
  obtain c where c: "c \<in> set (db_rows db)" "due_row limit now c" "rec = record_of_row (lease_row now who lease c)"
    and rows1: "db_rows db1 = map (\<lambda>x. if oi_id x = oi_id c then lease_row now who lease c else if spent_row limit now x then bury_spent now x else x) (db_rows db)"
    by (rule claim_Some [OF inv claim])
  have id: "or_id rec = oi_id c" using c(3) by (simp add: record_of_row_def lease_row_def)
  obtain k where k: "db_rows db' = map k (db_rows db1)" "\<And>x. oi_id (k x) = oi_id x" "\<And>x. oi_destination (k x) = oi_destination x"
      "\<And>x. oi_id x \<noteq> oi_id c \<Longrightarrow> k x = x"
    using only by (auto simp: only_row_def id)
  define g where "g x = (if oi_id x = oi_id c then k (lease_row now who lease c) else if spent_row limit now x then bury_spent now x else x)" for x
  have one: "x = c" if "x \<in> set (db_rows db)" "oi_id x = oi_id c" for x using table_inv_unique [OF inv that(1) c(1)] that(2) by simp
  have rows: "db_rows db' = map g (db_rows db)"
    using k(1,4) unfolding rows1 g_def by (auto simp: bury_spent_def)
  have "g c \<in> set (db_rows db')" "oi_id (g c) = oi_id c" using c(1) rows k(2) by (simp_all add: g_def lease_row_def)
  then have gc: "completed (g c)" using r table_inv_unique [OF inv', of "g c" r] by (simp add: row_at_def id)
  have same: "g x = x" if "x \<in> set (db_rows db)" "x \<noteq> c" "\<not> spent_row limit now x" for x using one that by (auto simp: g_def)
  have kept: "oi_id (g x) = oi_id x \<and> oi_destination (g x) = oi_destination x \<and> (open_row (g x) \<longrightarrow> open_row x) \<and> (completed x \<longrightarrow> completed (g x))"
    if x: "x \<in> set (db_rows db)" for x
  proof (cases "x = c")
    case True
    have "open_row c" using c(2) by (simp add: due_row_def)
    then show ?thesis using True gc k(2,3) by (simp add: g_def lease_row_def)
  next
    case False
    then show ?thesis using one [OF x] by (auto simp: g_def bury_spent_def open_row_def)
  qed
  have "completed (g x) \<or> g x = x \<and> (\<exists>c \<in> set (db_rows db). due_row limit now c \<and> oi_id c < oi_id x \<and> completed (g c))"
    if x: "x \<in> set (db_rows db)" "due_row limit now x" for x
  proof (cases "x = c")
    case False
    moreover have "oi_id c < oi_id x" using claim_in_order [OF inv claim x] one [OF x(1)] False by (force simp: id)
    moreover have "\<not> spent_row limit now x" using x(2) by (simp add: due_row_def spent_row_def)
    ultimately show ?thesis using same [OF x(1)] c(1,2) gc by blast
  qed (simp add: gc)
  with kept rows show ?thesis unfolding turn_effect_def by blast
qed

lemma turn_claimed:
  assumes inv: "table_inv (wk_max_attempts wk) (ws_outbox w)" and "named_well wk" and rel: "reliable wk" and pr: "prompt wk t rd"
    and srv: "\<forall>x \<in> set (db_rows (ws_outbox w)). served wk x"
    and claim: "outbox_claim (wr_claim rd) [] (wk_worker_id wk) (wk_lease_seconds wk) (wk_max_attempts wk) (ws_outbox w) = (Inr (Some rec), db1)"
  obtains w' r where "worker_run_once wk alone rd w = (Inr True, w')" and "row_at (wk_max_attempts wk) (or_id rec) (ws_outbox w') r"
    and "completed r" and "only_row (or_id rec) (db_rows db1) (db_rows (ws_outbox w'))"
proof -
  obtain q where q: "q \<in> set (db_rows (ws_outbox w))" "rec = record_of_row (lease_row (wr_claim rd) (wk_worker_id wk) (wk_lease_seconds wk) q)"
    by (rule claim_Some [OF inv claim])
  then obtain h where h: "map_of (wk_handlers wk) (or_destination rec) = Some h"
    using srv by (fastforce simp: served_def record_of_row_def lease_row_def)
  obtain g where g: "wk_effect_gate wk = Some g" "fst (g rec (ws_app w)) = Inr True" using rel by (auto simp: reliable_def)
  define a1 where "a1 = snd (g rec (ws_app w))"
  have gate: "g rec (ws_app w) = (Inr True, a1)" using g(2) by (simp add: a1_def prod_eq_iff)
  have p: "\<not> wr_timed_out rd" "\<not> wr_shutdown rd" "wr_locked rd = []" "wr_release rd < wr_claim rd + wk_lease_seconds wk"
      "wr_resolve rd < last (wr_release rd # wr_beats rd) + wk_lease_seconds wk" using pr by (simp_all add: prompt_def)
  have call: "h (wr_timed_out rd \<or> wr_shutdown rd) rec a1 = (Inr (), snd (h False rec a1))"
    using rel h p(1,2) by (simp add: reliable_def prod_eq_iff)
  have claim': "outbox_claim (wr_claim rd) (wr_locked rd) (wk_worker_id wk) (wk_lease_seconds wk) (wk_max_attempts wk) (ws_outbox w) = (Inr (Some rec), db1)"
    using claim p(3) by simp
  obtain w2 r where run: "worker_run_once wk alone rd w = (if wr_shutdown rd then raiseE CancelledError [] else settle_dispatch wk rd rec (Inr ())) w2"
    and r: "row_at (wk_max_attempts wk) (or_id rec) (ws_outbox w2) r" "under_dispatch (wk_worker_id wk) (or_fencing_token rec) r"
      "oi_lease_until r = Some (last (wr_release rd # wr_beats rd) + wk_lease_seconds wk)" "oi_attempt_count r = or_attempt_count rec"
      "oi_cancelled_at r = None"
    by (rule dispatched_alone [OF inv claim' h g(1) gate call p(4)])
  have act: "active_until (wr_resolve rd) r" using r(3) p(5) by (simp add: active_until_def)
  obtain res w' where settle: "settle_dispatch wk rd rec (Inr ()) w2 = (res, w')" by fastforce
  have lim: "1 \<le> wk_max_attempts wk" using claim by (auto simp: outbox_claim_def raiseE_def split: if_splits)
  obtain r' where r': "row_at (wk_max_attempts wk) (or_id rec) (ws_outbox w') r'" "settled_as wk rd rec (Inr ()) res r'"
    using settle_alone [OF r(1,2) act r(4,5) assms(2) _ lim settle] by auto
  have res: "worker_run_once wk alone rd w = (res, w')" using run p(2) settle by simp
  have "worker_run_once wk alone rd w = dispatch_record wk alone rd rec h (w\<lparr>ws_outbox := db1, ws_app := a1\<rparr>)"
    using claim' h g(1) gate by (simp add: worker_run_once_def on_outbox_def on_app_def prog_defs)
  then have "w' = snd (dispatch_record wk alone rd rec h (w\<lparr>ws_outbox := db1, ws_app := a1\<rparr>))" using res by (metis snd_conv)
  then have "only_row (or_id rec) (db_rows db1) (db_rows (ws_outbox w'))"
    using keepsD [OF only_dispatch, of rec "db_rows db1" "w\<lparr>ws_outbox := db1, ws_app := a1\<rparr>" wk rd h] by (simp add: only_row_refl)
  with r' res p(1) show ?thesis by (intro that) (auto simp: settled_as_def)
qed

lemma turn_progress:
  assumes inv: "table_inv (wk_max_attempts wk) (ws_outbox w)" and "named_well wk" and "reliable wk" and pr: "prompt wk t rd"
    and srv: "\<forall>x \<in> set (db_rows (ws_outbox w)). served wk x" and "0 < wk_lease_seconds wk" "1 \<le> wk_max_attempts wk"
  obtains b w' where "worker_run_once wk alone rd w = (Inr b, w')" and "table_inv (wk_max_attempts wk) (ws_outbox w')"
    and "turn_effect (wk_max_attempts wk) (wr_claim rd) (db_rows (ws_outbox w)) (db_rows (ws_outbox w'))"
proof -
  let ?limit = "wk_max_attempts wk" and ?rows = "db_rows (ws_outbox w)" and ?now = "wr_claim rd"
  obtain res db1 where claim: "outbox_claim ?now [] (wk_worker_id wk) (wk_lease_seconds wk) ?limit (ws_outbox w) = (Inr res, db1)"
    using claim_returns assms(6,7) by blast
  have inv1: "table_inv ?limit db1" using keepsD [OF claim_keeps_table inv] claim by (metis snd_conv)
  have unlocked: "wr_locked rd = []" using pr by (simp add: prompt_def)
  show ?thesis
  proof (cases res)
    case None
    note none = claim_None [OF inv claim [unfolded None]]
    let ?g = "\<lambda>r. if spent_row ?limit ?now r then bury_spent ?now r else r"
    have "turn_effect ?limit ?now ?rows (db_rows db1)"
      unfolding turn_effect_def by (rule exI [of _ ?g]) (use none in \<open>auto simp: bury_spent_def open_row_def spent_row_def\<close>)
    moreover have "worker_run_once wk alone rd w = (Inr False, w\<lparr>ws_outbox := db1\<rparr>)"
      using claim None unlocked by (simp add: worker_run_once_def on_outbox_def prog_defs)
    ultimately show ?thesis using inv1 by (intro that [of False "w\<lparr>ws_outbox := db1\<rparr>"]) simp_all
  next
    case (Some rec)
    note claim = claim [unfolded Some]
    obtain w' r where run: "worker_run_once wk alone rd w = (Inr True, w')" and r: "row_at ?limit (or_id rec) (ws_outbox w') r" "completed r"
      and only: "only_row (or_id rec) (db_rows db1) (db_rows (ws_outbox w'))"
      by (rule turn_claimed [OF inv assms(2,3) pr srv claim])
    have inv': "table_inv ?limit (ws_outbox w')" using r(1) by (simp add: row_at_def)
    have "turn_effect ?limit ?now ?rows (db_rows (ws_outbox w'))"
      by (rule claimed_effect [OF inv inv' claim only r])
    with run inv' show ?thesis by (rule that)
  qed
qed

subsection \<open>The loop delivers\<close>

text \<open>Producers may enqueue rows between two turns; the table numbers them upwards.\<close>

inductive arrival_step :: "'s outbox_worker \<Rightarrow> outbox_row outbox_db \<Rightarrow> outbox_row outbox_db \<Rightarrow> bool" for wk :: "'s outbox_worker" where
  arrival: "r = new_row rid now t cid dest etype payload ikey \<Longrightarrow> served wk r \<Longrightarrow> \<forall>x \<in> set (db_rows db). oi_id x < rid \<Longrightarrow>
    arrival_step wk db (snd (outbox_insert r db))"

definition enqueues :: "'s outbox_worker \<Rightarrow> bystanders \<Rightarrow> bool" where
  "enqueues wk pause \<longleftrightarrow> (\<forall>db ds. run (arrival_step wk) db (fst (pause 0 (db, ds))))"

definition grows :: "outbox_row list \<Rightarrow> outbox_row list \<Rightarrow> bool" where
  "grows rows rows' \<longleftrightarrow> (\<exists>new. rows' = rows @ new \<and> (\<forall>x \<in> set rows. \<forall>y \<in> set new. oi_id x < oi_id y))"

lemma grows_trans: "grows xs ys \<Longrightarrow> grows ys zs \<Longrightarrow> grows xs zs"
  by (fastforce simp: grows_def)

lemma arrival_grows: "arrival_step wk db db' \<Longrightarrow> grows (db_rows db) (db_rows db')"
  by (induction rule: arrival_step.induct) (auto simp: outbox_insert_def grows_def new_row_def)

interpretation arr: machine_monotone "arrival_step wk" "\<lambda>db db'. grows (db_rows db) (db_rows db')" for wk
  by unfold_locales (auto simp: grows_def [of xs xs for xs] intro: grows_trans arrival_grows)

definition ready :: "'s outbox_worker \<Rightarrow> outbox_row outbox_db \<Rightarrow> bool" where
  "ready wk db \<longleftrightarrow> table_inv (wk_max_attempts wk) db \<and> (\<forall>x \<in> set (db_rows db). served wk x)"

lemma arrival_ready: "arrival_step wk db db' \<Longrightarrow> ready wk db \<Longrightarrow> ready wk db'"
proof (induction rule: arrival_step.induct)
  case (arrival r rid now t cid dest etype payload ikey db)
  then have "table_inv (wk_max_attempts wk) (snd (outbox_insert r db))"
    using outbox_step_table [OF os_insert, of "wk_max_attempts wk" db] by (simp add: ready_def)
  with arrival show ?case by (auto simp: ready_def outbox_insert_def)
qed

lemma pause_arrivals:
  assumes "enqueues wk pause" and "ready wk (ws_outbox w)"
  obtains w' where "meanwhile pause 0 w = (Inr (), w')" and "ready wk (ws_outbox w')" and "grows (db_rows (ws_outbox w)) (db_rows (ws_outbox w'))"
proof -
  let ?p = "pause 0 (ws_outbox w, ws_dispatched w)"
  have "run (arrival_step wk) (ws_outbox w) (fst ?p)" using assms(1) by (simp add: enqueues_def)
  with assms(2) have "ready wk (fst ?p)" "grows (db_rows (ws_outbox w)) (db_rows (fst ?p))"
    by (auto intro: run_keeps [of "arrival_step wk" _ _ "ready wk"] arrival_ready arr.run_rel)
  then show ?thesis by (intro that [of "w\<lparr>ws_outbox := fst ?p, ws_dispatched := snd ?p\<rparr>"])
      (simp_all add: meanwhile_def modifyE_def split: prod.split)
qed

definition fair_turn :: "'s outbox_worker \<Rightarrow> rat \<Rightarrow> worker_turn \<Rightarrow> bool" where
  "fair_turn wk t = (\<lambda>(rd, others, pause). prompt wk t rd \<and> others = alone \<and> enqueues wk pause)"

text \<open>The rows that are served before a row, itself included.\<close>

definition ahead :: "nat \<Rightarrow> outbox_row list \<Rightarrow> nat" where
  "ahead i rows = length (filter (\<lambda>x. open_row x \<and> oi_id x \<le> i) rows)"

lemma ahead_grows: "grows rows rows' \<Longrightarrow> r \<in> set rows \<Longrightarrow> ahead (oi_id r) rows' = ahead (oi_id r) rows"
  by (fastforce simp: grows_def ahead_def filter_empty_conv)

lemma length_filter_less:
  assumes "\<And>x. x \<in> set xs \<Longrightarrow> Q x \<Longrightarrow> P x" and "c \<in> set xs" "P c" "\<not> Q c"
  shows "length (filter Q xs) < length (filter P xs)"
  using assms
proof (induction xs)
  case (Cons y ys)
  have le: "length (filter Q ys) \<le> length (filter P ys)" if "\<And>x. x \<in> set ys \<Longrightarrow> Q x \<Longrightarrow> P x"
    using that by (induction ys) auto
  show ?case using Cons le by (cases "y = c") (auto simp: le_imp_less_Suc intro: le_SucI)
qed simp

definition progresses :: "nat \<Rightarrow> rat \<Rightarrow> outbox_row \<Rightarrow> outbox_row list \<Rightarrow> nat \<Rightarrow> bool" where
  "progresses limit t r rows n \<longleftrightarrow> (\<exists>r' \<in> set rows. oi_id r' = oi_id r \<and> (completed r' \<or> r' = r \<and> due_row limit t r \<and> ahead (oi_id r) rows \<le> n))"

lemma due_later: "due_row limit t r \<Longrightarrow> t \<le> t' \<Longrightarrow> due_row limit t' r"
  by (auto simp: due_row_def idle_lease_def split: option.splits)

lemma turn_progresses:
  assumes "turn_effect limit now rows rows'" and "t \<le> now" and "progresses limit t r rows (Suc n)"
  shows "progresses limit t r rows' n"
proof -
  obtain g where g: "rows' = map g rows" "\<And>x. x \<in> set rows \<Longrightarrow> oi_id (g x) = oi_id x \<and> (open_row (g x) \<longrightarrow> open_row x) \<and> (completed x \<longrightarrow> completed (g x))"
      "\<And>x. x \<in> set rows \<Longrightarrow> due_row limit now x \<Longrightarrow> completed (g x) \<or> g x = x \<and> (\<exists>c \<in> set rows. due_row limit now c \<and> oi_id c < oi_id x \<and> completed (g c))"
    using assms(1) unfolding turn_effect_def by blast
  obtain r' where r': "r' \<in> set rows" "oi_id r' = oi_id r" "completed r' \<or> r' = r \<and> due_row limit t r \<and> ahead (oi_id r) rows \<le> Suc n"
    using assms(3) by (auto simp: progresses_def)
  have in': "g r' \<in> set rows'" "oi_id (g r') = oi_id r" using g(1,2) r' by auto
  show ?thesis
  proof (cases "completed (g r')")
    case True
    with in' show ?thesis by (auto simp: progresses_def)
  next
    case False
    then have r: "r' = r" "due_row limit t r" "ahead (oi_id r) rows \<le> Suc n"
      using g(2) [OF r'(1)] r'(3) by blast+
    obtain c where c: "c \<in> set rows" "due_row limit now c" "oi_id c < oi_id r" "completed (g c)" and same: "g r = r"
      using g(3) [OF r'(1)] due_later [OF r(2) assms(2)] False r(1) by auto
    have "length (filter (\<lambda>x. open_row (g x) \<and> oi_id (g x) \<le> oi_id r) rows) < ahead (oi_id r) rows"
      unfolding ahead_def by (rule length_filter_less [of _ _ _ c]) (use g(2) c in \<open>auto simp: open_row_def due_row_def\<close>)
    then have "ahead (oi_id r) rows' \<le> n" using r(3) by (simp add: ahead_def g(1) filter_map o_def)
    with in' same r show ?thesis by (auto simp: progresses_def)
  qed
qed

lemma progresses_grows:
  assumes "grows rows rows'" and "progresses limit t r rows n"
  shows "progresses limit t r rows' n"
proof -
  obtain r' where r': "r' \<in> set rows" "oi_id r' = oi_id r" "completed r' \<or> r' = r \<and> due_row limit t r \<and> ahead (oi_id r) rows \<le> n"
    using assms(2) by (auto simp: progresses_def)
  then have "ahead (oi_id r) rows' = ahead (oi_id r) rows" using ahead_grows [OF assms(1) r'(1)] by simp
  moreover have "r' \<in> set rows'" using assms(1) r'(1) by (auto simp: grows_def)
  ultimately show ?thesis using r'(2,3) by (auto simp: progresses_def)
qed

lemma loop_progress:
  assumes "named_well wk" and "reliable wk" and "0 < wk_lease_seconds wk" "1 \<le> wk_max_attempts wk"
    and "list_all (fair_turn wk t) turns" and "ready wk (ws_outbox w)"
  shows "\<exists>w'. run_forever wk turns w = (Inr (), w') \<and> (\<forall>r. progresses (wk_max_attempts wk) t r (db_rows (ws_outbox w)) (length turns)
    \<longrightarrow> progresses (wk_max_attempts wk) t r (db_rows (ws_outbox w')) 0)"
  using assms(5,6)
proof (induction turns arbitrary: w)
  case Nil
  then show ?case by (simp add: retE_def)
next
  case (Cons turn turns)
  obtain rd pause where turn: "turn = (rd, alone, pause)" "prompt wk t rd" "enqueues wk pause"
    using Cons.prems(1) by (cases turn) (auto simp: fair_turn_def)
  obtain b w1 where run: "worker_run_once wk alone rd w = (Inr b, w1)" and inv1: "table_inv (wk_max_attempts wk) (ws_outbox w1)"
    and eff: "turn_effect (wk_max_attempts wk) (wr_claim rd) (db_rows (ws_outbox w)) (db_rows (ws_outbox w1))"
    using turn_progress [OF _ assms(1,2) turn(2) _ assms(3,4)] Cons.prems(2) unfolding ready_def by blast
  have "ready wk (ws_outbox w1)" using inv1 eff Cons.prems(2) by (auto simp: ready_def turn_effect_def served_def)
  then obtain w2 where pause: "meanwhile pause 0 w1 = (Inr (), w2)" "ready wk (ws_outbox w2)"
      "grows (db_rows (ws_outbox w1)) (db_rows (ws_outbox w2))"
    using pause_arrivals [OF turn(3)] by blast
  obtain w' where w': "run_forever wk turns w2 = (Inr (), w')"
      "\<And>r. progresses (wk_max_attempts wk) t r (db_rows (ws_outbox w2)) (length turns) \<Longrightarrow> progresses (wk_max_attempts wk) t r (db_rows (ws_outbox w')) 0"
    using Cons.IH [of w2] Cons.prems(1) pause(2) by auto
  have "progresses (wk_max_attempts wk) t r (db_rows (ws_outbox w')) 0"
    if "progresses (wk_max_attempts wk) t r (db_rows (ws_outbox w)) (Suc (length turns))" for r
    using w'(2) progresses_grows [OF pause(3) turn_progresses [OF eff _ that]] turn(2) by (simp add: prompt_def)
  moreover have "run_forever wk (turn # turns) w = (Inr (), w')" using run pause(1) w'(1) turn(1) by (simp add: prog_defs)
  ultimately show ?case by auto
qed


definition sample_producer :: bystanders where
  "sample_producer n s = (snd (outbox_insert (new_row (Suc (sum_list (map oi_id (db_rows (fst s))))) 0 ''T1'' [] ''nats-jetstream'' ''codestra.event'' [] ''key-0002'')
     (fst s)), snd s)"

lemma sample_producer_enqueues: "enqueues sample_worker sample_producer"
proof -
  have "x \<le> sum_list xs" if "x \<in> set xs" for x :: nat and xs using that by (induction xs) auto
  then have "oi_id x < Suc (sum_list (map oi_id (db_rows db)))" if "x \<in> set (db_rows db)" for x and db :: "outbox_row outbox_db"
    using that by (simp add: le_imp_less_Suc)
  then have "arrival_step sample_worker db (fst (sample_producer 0 (db, ds)))" for db ds
    unfolding sample_producer_def fst_conv by (intro arrival [OF refl]) (auto simp: served_def sample_worker_def new_row_def)
  then show ?thesis by (auto simp: enqueues_def intro: run_step [OF run_refl])
qed


end
