(* ===== verification/Campaign_Saga.thy ===== *)
theory Campaign_Saga
  imports Outbox_Tables Adapter_Contract
begin

text \<open>
  The Odoo campaign-control saga (\<open>app/odoo_campaign_saga.py\<close>), the typed Odoo adapter it calls
  (\<open>app/adapters/odoo/campaign_control.py\<close>) and one cycle of its worker
  (\<open>app/entrypoints/odoo_campaign_saga_worker.py\<close>).

  The database holds the accepted events, one saga row per enrolled event, and the audit table.
  A commit is one function on it; between two commits of a worker, and while it awaits Odoo,
  other processes may act: what they do is the function \<open>others\<close> of the suspension point, on the
  database and on two ghost logs, the readbacks whose key and observation were committed and the
  readbacks that were sent. The Odoo service, pydantic's coercion of integers, \<open>str\<close> of a JSON
  value and timestamps in text are arguments. Request ids and trace headers do not influence the
  run and are left out, as is logging.
\<close>

subsection \<open>Catalog\<close>

text \<open>The constants the module reads from \<open>contracts/odoo/campaign-control.v1.json\<close>.\<close>

definition OPERATION_BY_EVENT_TYPE :: "(string, string) dict" where
  "OPERATION_BY_EVENT_TYPE =
     [(''campaign.provision.requested.v1'', ''provision''),
      (''campaign.synthetic_test.requested.v1'', ''synthetic_test''),
      (''campaign.activate.requested.v1'', ''activate''),
      (''campaign.disable.requested.v1'', ''disable''),
      (''campaign.reconcile.requested.v1'', ''reconcile'')]"

definition ALLOWED_EVENT_TYPES :: "string list" where
  "ALLOWED_EVENT_TYPES =
     [''campaign.provision.requested.v1'', ''campaign.synthetic_test.requested.v1'', ''campaign.activate.requested.v1'',
      ''campaign.disable.requested.v1'', ''campaign.reconcile.requested.v1'']"

definition RESULT_STATE_BY_OPERATION :: "(string, string option) dict" where
  "RESULT_STATE_BY_OPERATION =
     [(''provision'', Some ''provisioned_disabled''), (''synthetic_test'', Some ''synthetic_tested''),
      (''activate'', Some ''active''), (''disable'', Some ''disabled''), (''reconcile'', None)]"

definition WRITE_BINDING_BY_ENVIRONMENT :: "(string, (string \<times> string \<times> string) option) dict" where
  "WRITE_BINDING_BY_ENVIRONMENT =
     [(''staging'', Some (''TEST_SYN_TENANT'', ''TEST_SYN'', ''TEST_SYN'')), (''production'', None)]"

definition EFFECTIVE_STATES :: "string list" where
  "EFFECTIVE_STATES = [''unknown'', ''absent'', ''provisioned_disabled'', ''synthetic_tested'', ''active'', ''disabled'']"

definition CAMPAIGN_OPERATIONS :: "string list" where
  "CAMPAIGN_OPERATIONS = [''provision'', ''synthetic_test'', ''activate'', ''disable'', ''reconcile'']"

definition TRANSPORT_RETRY_ERROR_CLASSES :: "string list" where
  "TRANSPORT_RETRY_ERROR_CLASSES = [''ODOO_TRANSPORT_ERROR'', ''ODOO_UPSTREAM_UNAVAILABLE'', ''ODOO_ROUTE_UNRESOLVED'']"

definition MINIMUM_LEASE_SECONDS :: rat where
  "MINIMUM_LEASE_SECONDS = 2 * (10 + 3) + 15"

definition STALE_CONFIGURATION_VERSION :: string where
  "STALE_CONFIGURATION_VERSION = ''STALE_CONFIGURATION_VERSION''"

text \<open>The exception classes of the two modules and of the libraries below them.\<close>

definition SagaError :: exc_class where "SagaError = OtherException ''SagaError''"
definition SagaConfigurationError :: exc_class where "SagaConfigurationError = OtherException ''SagaConfigurationError''"
definition OdooCampaignAdapterError :: exc_class where "OdooCampaignAdapterError = OtherException ''OdooCampaignAdapterError''"
definition OdooCampaignStaleVersion :: exc_class where "OdooCampaignStaleVersion = OtherException ''OdooCampaignStaleVersion''"
definition OdooCampaignAdapterUnavailable :: exc_class where
  "OdooCampaignAdapterUnavailable = OtherException ''OdooCampaignAdapterUnavailable''"
definition ValidationError :: exc_class where "ValidationError = OtherException ''ValidationError''"
definition IntegrityError :: exc_class where "IntegrityError = OtherException ''IntegrityError''"
definition DBAPIError :: exc_class where "DBAPIError = OtherException ''DBAPIError''"
definition ResolutionDenied :: exc_class where "ResolutionDenied = OtherException ''ResolutionDenied''"
definition RegistryDependencyUnavailable :: exc_class where
  "RegistryDependencyUnavailable = OtherException ''RegistryDependencyUnavailable''"

lemmas saga_errors = SagaError_def SagaConfigurationError_def OdooCampaignAdapterError_def OdooCampaignStaleVersion_def
  OdooCampaignAdapterUnavailable_def ValidationError_def IntegrityError_def DBAPIError_def ResolutionDenied_def
  RegistryDependencyUnavailable_def

text \<open>\<open>httpx.TransportError\<close> and its subclasses.\<close>

definition transport_errors :: "exc_class list" where
  "transport_errors = [HttpxTransportError, HttpxConnectError, HttpxConnectTimeout, HttpxReadTimeout, HttpxWriteTimeout,
     HttpxPoolTimeout, HttpxRemoteProtocolError, HttpxReadError, HttpxWriteError, OtherException ''TimeoutException'',
     OtherException ''NetworkError'', OtherException ''CloseError'', OtherException ''ProtocolError'',
     OtherException ''LocalProtocolError'', OtherException ''ProxyError'', OtherException ''UnsupportedProtocol'']"

definition dependency_errors :: "exc_class list" where
  "dependency_errors = [OdooCampaignAdapterError, OdooCampaignStaleVersion, OdooCampaignAdapterUnavailable] @ transport_errors
     @ [ResolutionDenied, RegistryDependencyUnavailable]"

subsection \<open>Tables\<close>

record integration_event =
  ie_id :: nat
  ie_event_type :: string
  ie_original_event_id :: string
  ie_source_system :: string
  ie_correlation_id :: string
  ie_payload_json :: json
  ie_state :: string

datatype saga_status = PENDING | RESERVED | RETRY | COMPLETED | DEAD_LETTER

fun status_text :: "saga_status \<Rightarrow> string" where
  "status_text PENDING = ''PENDING''"
| "status_text RESERVED = ''RESERVED''"
| "status_text RETRY = ''RETRY''"
| "status_text COMPLETED = ''COMPLETED''"
| "status_text DEAD_LETTER = ''DEAD_LETTER''"

definition CLAIMABLE_STATUSES :: "saga_status list" where
  "CLAIMABLE_STATUSES = [PENDING, RETRY]"

record saga_identity =
  sg_saga_id :: uuid
  sg_integration_event_id :: nat
  sg_event_uuid :: string
  sg_event_type :: string
  sg_operation :: string
  sg_command_id :: string
  sg_organization_public_id :: string
  sg_business_unit_public_id :: string
  sg_campaign_public_id :: string
  sg_configuration_version :: int
  sg_manifest_ref :: string
  sg_manifest_hash :: string
  sg_correlation_id :: string

record saga_row = saga_identity +
  sg_status :: saga_status
  sg_attempts :: nat
  sg_reserved_at :: "rat option"
  sg_lease_expires_at :: "rat option"
  sg_next_attempt_at :: "rat option"
  sg_last_error_class :: "string option"
  sg_effective_state :: "string option"
  sg_evidence_json :: "json_object option"
  sg_observed_at :: "rat option"
  sg_readback_idempotency_key :: "string option"
  sg_readback_attempt :: nat
  sg_readback_id :: "string option"
  sg_completed_at :: "rat option"
  sg_created_at :: rat
  sg_updated_at :: rat

record saga_audit =
  sa_action :: string
  sa_subject :: string
  sa_correlation_id :: string
  sa_decision :: string
  sa_redacted_payload :: json_object

record saga_db =
  sd_events :: "integration_event list"
  sd_sagas :: "saga_row list"
  sd_audit :: "saga_audit list"

text \<open>What the columns can hold: \<open>Integer\<close> is 32 bit, \<open>String(n)\<close> at most \<open>n\<close> characters.\<close>

definition fits_columns :: "saga_row \<Rightarrow> bool" where
  "fits_columns r \<longleftrightarrow> sg_configuration_version r < 2 ^ 31
     \<and> (case sg_readback_idempotency_key r of None \<Rightarrow> True | Some k \<Rightarrow> length k \<le> 160)
     \<and> (case sg_readback_id r of None \<Rightarrow> True | Some i \<Rightarrow> length i \<le> 128)"

definition saga_at :: "uuid \<Rightarrow> saga_db \<Rightarrow> saga_row option" where
  "saga_at i db = find (\<lambda>r. sg_saga_id r = i) (sd_sagas db)"

text \<open>\<open>UPDATE ... SET f WHERE P\<close>; the row count is the result.\<close>

definition update_sagas :: "(saga_row \<Rightarrow> bool) \<Rightarrow> (saga_row \<Rightarrow> saga_row) \<Rightarrow> (saga_db, nat) prog" where
  "update_sagas P f db =
     (if list_all (\<lambda>r. P r \<longrightarrow> fits_columns (f r)) (sd_sagas db)
      then (Inr (length (filter P (sd_sagas db))), db\<lparr>sd_sagas := map (\<lambda>r. if P r then f r else r) (sd_sagas db)\<rparr>)
      else (Inl (Exc DBAPIError ''value does not fit the column''), db))"

definition write_audit :: "saga_audit \<Rightarrow> (saga_db, unit) prog" where
  "write_audit a = modifyE (\<lambda>db. db\<lparr>sd_audit := sd_audit db @ [a]\<rparr>)"

subsection \<open>Environment and state of a worker\<close>

record saga_settings =
  st_environment :: string
  st_odoo_campaign_saga_enabled :: bool
  st_odoo_campaign_saga_adapter :: string
  st_odoo_campaign_saga_lease_seconds :: rat
  st_odoo_campaign_saga_retry_limit :: nat

text \<open>An answer of Odoo: the status code, and the decoded body unless it is not JSON.\<close>

record odoo_response =
  hr_status_code :: nat
  hr_json :: "json option"

record 'o saga_env =
  se_settings :: saga_settings
  se_lax_int :: "json \<Rightarrow> int option"
  se_str :: "json \<Rightarrow> string"
  se_isoformat :: "rat \<Rightarrow> string"
  se_build_client :: "saga_row \<Rightarrow> exc option"
  se_request :: "string \<Rightarrow> json_object \<Rightarrow> string \<Rightarrow> ('o, odoo_response) prog"

text \<open>The body of \<open>campaign.actual_state.write\<close> (\<open>ActualStateReadback\<close>).\<close>

record readback =
  rb_event_uuid :: string
  rb_command_id :: string
  rb_idempotency_key :: string
  rb_attempt :: nat
  rb_organization_public_id :: string
  rb_business_unit_public_id :: string
  rb_campaign_public_id :: string
  rb_configuration_version :: int
  rb_operation :: string
  rb_effective_state :: string
  rb_manifest_ref :: string
  rb_manifest_hash :: string
  rb_evidence :: json_object
  rb_observed_at :: rat
  rb_correlation_id :: string
  rb_causation_id :: string

type_synonym saga_shared = "saga_db \<times> readback list \<times> readback list"
type_synonym saga_others = "nat \<Rightarrow> saga_shared \<Rightarrow> saga_shared"

record 'o saga_state =
  sw_db :: saga_db
  sw_observed :: "readback list"
  sw_sent :: "readback list"
  sw_odoo :: 'o

record saga_reading =
  sr_recover :: rat
  sr_saga_id :: "nat \<Rightarrow> uuid"
  sr_created :: "nat \<Rightarrow> rat"
  sr_claim :: rat
  sr_locked :: "uuid list"
  sr_renew :: rat
  sr_observed :: rat
  sr_key :: uuid
  sr_stored :: rat
  sr_retry :: rat
  sr_finish :: rat

definition on_db :: "(saga_db, 'a) prog \<Rightarrow> ('o saga_state, 'a) prog" where
  "on_db m = zoomE sw_db (\<lambda>db w. w\<lparr>sw_db := db\<rparr>) m"

definition awaiting :: "saga_others \<Rightarrow> nat \<Rightarrow> ('o saga_state, unit) prog" where
  "awaiting others n = modifyE (\<lambda>w. case others n (sw_db w, sw_observed w, sw_sent w) of
     (db, ob, sn) \<Rightarrow> w\<lparr>sw_db := db, sw_observed := ob, sw_sent := sn\<rparr>)"

subsection \<open>Enrollment\<close>

text \<open>\<open>str\<close> of a JSON value, and a required text field with its length bounds.\<close>

definition json_str :: "'o saga_env \<Rightarrow> json \<Rightarrow> string" where
  "json_str env v = (case v of JStr s \<Rightarrow> s | _ \<Rightarrow> se_str env v)"

definition bounded_field :: "json_object \<Rightarrow> string \<Rightarrow> nat \<Rightarrow> string option" where
  "bounded_field kvs k n = (case map_of kvs k of Some (JStr s) \<Rightarrow> if 1 \<le> length s \<and> length s \<le> n then Some s else None | _ \<Rightarrow> None)"

definition version_field :: "'o saga_env \<Rightarrow> json_object \<Rightarrow> string \<Rightarrow> int option" where
  "version_field env kvs k =
     Option.bind (Option.bind (map_of kvs k) (se_lax_int env)) (\<lambda>v. if 0 \<le> v then Some v else None)"

record campaign_control_event =
  cc_command_id :: string
  cc_organization_public_id :: string
  cc_business_unit_public_id :: string
  cc_campaign_public_id :: string
  cc_configuration_version :: int
  cc_manifest_ref :: string
  cc_manifest_hash :: string

text \<open>\<open>CampaignControlEvent.model_validate\<close>: \<open>None\<close> is a \<open>ValidationError\<close>.\<close>

definition validate_control_event :: "'o saga_env \<Rightarrow> json \<Rightarrow> campaign_control_event option" where
  "validate_control_event env payload =
     (case payload of
        JObj kvs \<Rightarrow>
          Option.bind (bounded_field kvs ''command_id'' 128) (\<lambda>command.
          Option.bind (bounded_field kvs ''organization_public_id'' 128) (\<lambda>org.
          Option.bind (bounded_field kvs ''business_unit_public_id'' 128) (\<lambda>unit.
          Option.bind (bounded_field kvs ''campaign_public_id'' 128) (\<lambda>campaign.
          Option.bind (version_field env kvs ''configuration_version'') (\<lambda>version.
          Option.bind (bounded_field kvs ''manifest_ref'' 256) (\<lambda>ref.
          Option.bind (bounded_field kvs ''manifest_hash'' 80) (\<lambda>hash.
            Some \<lparr>cc_command_id = command, cc_organization_public_id = org, cc_business_unit_public_id = unit,
              cc_campaign_public_id = campaign, cc_configuration_version = version, cc_manifest_ref = ref, cc_manifest_hash = hash\<rparr>)))))))
      | _ \<Rightarrow> None)"

definition saga_text :: "'o saga_env \<Rightarrow> json_object \<Rightarrow> string \<Rightarrow> nat \<Rightarrow> string" where
  "saga_text env payload field limit =
     (case map_of payload field of None \<Rightarrow> [] | Some JNull \<Rightarrow> [] | Some v \<Rightarrow> take limit (json_str env v))"

definition saga_version :: "json_object \<Rightarrow> int" where
  "saga_version payload = (case map_of payload ''configuration_version'' of Some (JInt v) \<Rightarrow> if 0 \<le> v then v else 0 | _ \<Rightarrow> 0)"

definition pending_events :: "nat \<Rightarrow> saga_db \<Rightarrow> integration_event list" where
  "pending_events limit db = take limit (sort_key ie_id (filter (\<lambda>e. ie_source_system e = ''odoo'' \<and> ie_event_type e \<in> set ALLOWED_EVENT_TYPES
     \<and> ie_state e = ''accepted'' \<and> \<not> list_ex (\<lambda>r. sg_integration_event_id r = ie_id e) (sd_sagas db)) (sd_events db)))"

text \<open>The columns a new row gets from the defaults of the table.\<close>

definition new_saga :: "saga_identity \<Rightarrow> saga_status \<Rightarrow> string option \<Rightarrow> rat \<Rightarrow> saga_row" where
  "new_saga ident status err now = saga_identity.extend ident
     (saga_row.fields status 0 None None None err None None None None 0 None None now now)"

definition saga_for_event :: "'o saga_env \<Rightarrow> uuid \<Rightarrow> rat \<Rightarrow> integration_event \<Rightarrow> exc + saga_row" where
  "saga_for_event env sid now event =
     (case map_of OPERATION_BY_EVENT_TYPE (ie_event_type event) of
        None \<Rightarrow> Inl (Exc SagaError (''event type '' @ ie_event_type event @ '' is not allowlisted''))
      | Some operation \<Rightarrow>
          (case validate_control_event env (ie_payload_json event) of
             None \<Rightarrow>
               let raw = (case ie_payload_json event of JObj kvs \<Rightarrow> kvs | _ \<Rightarrow> []) in
               Inr (new_saga \<lparr>sg_saga_id = sid, sg_integration_event_id = ie_id event, sg_event_uuid = ie_original_event_id event,
                 sg_event_type = ie_event_type event, sg_operation = operation, sg_command_id = saga_text env raw ''command_id'' 128,
                 sg_organization_public_id = saga_text env raw ''organization_public_id'' 128,
                 sg_business_unit_public_id = saga_text env raw ''business_unit_public_id'' 128,
                 sg_campaign_public_id = saga_text env raw ''campaign_public_id'' 128, sg_configuration_version = saga_version raw,
                 sg_manifest_ref = saga_text env raw ''manifest_ref'' 256, sg_manifest_hash = saga_text env raw ''manifest_hash'' 80,
                 sg_correlation_id = ie_correlation_id event\<rparr> DEAD_LETTER (Some ''INVALID_CONTROL_EVENT'') now)
           | Some c \<Rightarrow>
               let binding = Option.bind (map_of WRITE_BINDING_BY_ENVIRONMENT (st_environment (se_settings env))) id;
                   allowed = (case binding of None \<Rightarrow> True
                     | Some b \<Rightarrow> (cc_organization_public_id c, cc_business_unit_public_id c, cc_campaign_public_id c) = b) in
               Inr (new_saga \<lparr>sg_saga_id = sid, sg_integration_event_id = ie_id event, sg_event_uuid = ie_original_event_id event,
                 sg_event_type = ie_event_type event, sg_operation = operation, sg_command_id = cc_command_id c,
                 sg_organization_public_id = cc_organization_public_id c, sg_business_unit_public_id = cc_business_unit_public_id c,
                 sg_campaign_public_id = cc_campaign_public_id c, sg_configuration_version = cc_configuration_version c,
                 sg_manifest_ref = cc_manifest_ref c, sg_manifest_hash = cc_manifest_hash c,
                 sg_correlation_id = ie_correlation_id event\<rparr>
                 (if allowed then PENDING else DEAD_LETTER) (if allowed then None else Some ''SCOPE_NOT_ALLOWED'') now)))"

definition enrollment_audit :: "saga_row \<Rightarrow> saga_audit" where
  "enrollment_audit r = \<lparr>sa_action = ''odoo.campaign_saga.enrolled'', sa_subject = sg_event_uuid r, sa_correlation_id = sg_correlation_id r,
     sa_decision = status_text (sg_status r),
     sa_redacted_payload = [(''event_type'', JStr (sg_event_type r)), (''operation'', JStr (sg_operation r)),
       (''campaign_public_id'', JStr (sg_campaign_public_id r)), (''configuration_version'', JInt (sg_configuration_version r)),
       (''error_class'', opt_str (sg_last_error_class r))]\<rparr>"

definition insert_saga :: "saga_row \<Rightarrow> (saga_db, unit) prog" where
  "insert_saga r db =
     (if \<not> fits_columns r then (Inl (Exc DBAPIError ''value does not fit the column''), db)
      else if list_ex (\<lambda>x. sg_saga_id x = sg_saga_id r \<or> sg_integration_event_id x = sg_integration_event_id r) (sd_sagas db)
      then (Inl (Exc IntegrityError ''duplicate key value violates unique constraint''), db)
      else (Inr (), db\<lparr>sd_sagas := sd_sagas db @ [r], sd_audit := sd_audit db @ [enrollment_audit r]\<rparr>))"

fun saga_rows :: "'o saga_env \<Rightarrow> saga_reading \<Rightarrow> nat \<Rightarrow> integration_event list \<Rightarrow> exc + saga_row list" where
  "saga_rows env rd n [] = Inr []"
| "saga_rows env rd n (e # es) =
     (case saga_for_event env (sr_saga_id rd n) (sr_created rd n) e of
        Inl x \<Rightarrow> Inl x
      | Inr r \<Rightarrow> (case saga_rows env rd (Suc n) es of Inl x \<Rightarrow> Inl x | Inr rs \<Rightarrow> Inr (r # rs)))"

fun enroll_rows :: "saga_others \<Rightarrow> nat \<Rightarrow> nat \<Rightarrow> saga_row list \<Rightarrow> ('o saga_state, nat) prog" where
  "enroll_rows others n enrolled [] = retE enrolled"
| "enroll_rows others n enrolled (r # rs) =
     bindE (catchE (thenE (on_db (insert_saga r)) (retE 1))
        (\<lambda>e. if exc_class e = IntegrityError then retE 0 else reraiseE e)) (\<lambda>k.
     thenE (awaiting others n) (enroll_rows others (Suc n) (enrolled + k) rs))"

definition enroll_pending_sagas :: "'o saga_env \<Rightarrow> saga_others \<Rightarrow> saga_reading \<Rightarrow> nat \<Rightarrow> ('o saga_state, nat) prog" where
  "enroll_pending_sagas env others rd limit =
     bindE (getsE (\<lambda>w. pending_events limit (sw_db w))) (\<lambda>events.
     bindE (liftE (saga_rows env rd 0 events)) (\<lambda>rows. enroll_rows others 10 0 rows))"

subsection \<open>Claiming and recovery\<close>

definition claimable_saga :: "rat \<Rightarrow> uuid list \<Rightarrow> saga_row \<Rightarrow> bool" where
  "claimable_saga now locked r \<longleftrightarrow> sg_status r \<in> set CLAIMABLE_STATUSES
     \<and> (case sg_next_attempt_at r of None \<Rightarrow> True | Some t \<Rightarrow> t \<le> now) \<and> sg_saga_id r \<notin> set locked"

definition reserve_saga :: "rat \<Rightarrow> rat \<Rightarrow> saga_row \<Rightarrow> saga_row" where
  "reserve_saga now lease r = r\<lparr>sg_status := RESERVED, sg_attempts := sg_attempts r + 1, sg_reserved_at := Some now,
     sg_lease_expires_at := Some (now + lease), sg_next_attempt_at := None, sg_updated_at := now\<rparr>"

definition claim_saga :: "rat \<Rightarrow> uuid list \<Rightarrow> rat \<Rightarrow> (saga_db, saga_row option) prog" where
  "claim_saga now locked lease =
     (if lease < 1 then raiseE ValueError ''lease_seconds must be positive''
      else bindE (getsE (\<lambda>db. sql_first sg_created_at (claimable_saga now locked) (sd_sagas db))) (\<lambda>found.
        case found of
          None \<Rightarrow> retE None
        | Some saga \<Rightarrow>
            thenE (modifyE (\<lambda>db. db\<lparr>sd_sagas := map (\<lambda>r. if sg_saga_id r = sg_saga_id saga then reserve_saga now lease r else r) (sd_sagas db)\<rparr>))
              (retE (Some (reserve_saga now lease saga)))))"

definition expired_lease :: "rat \<Rightarrow> saga_row \<Rightarrow> bool" where
  "expired_lease now r \<longleftrightarrow> sg_status r = RESERVED \<and> (case sg_lease_expires_at r of None \<Rightarrow> False | Some t \<Rightarrow> t \<le> now)"

definition release_saga :: "rat \<Rightarrow> saga_status \<Rightarrow> rat option \<Rightarrow> string \<Rightarrow> saga_row \<Rightarrow> saga_row" where
  "release_saga now status next err r = r\<lparr>sg_status := status, sg_next_attempt_at := next, sg_last_error_class := Some err,
     sg_reserved_at := None, sg_lease_expires_at := None, sg_updated_at := now\<rparr>"

definition recover_expired_leases :: "rat \<Rightarrow> nat \<Rightarrow> (saga_db, nat) prog" where
  "recover_expired_leases now limit =
     (if limit < 1 then raiseE ValueError ''retry_limit must be positive''
      else transaction
       (bindE (update_sagas (\<lambda>r. expired_lease now r \<and> sg_attempts r \<ge> limit) (release_saga now DEAD_LETTER None ''LEASE_EXPIRED'')) (\<lambda>dead.
        bindE (update_sagas (\<lambda>r. expired_lease now r \<and> sg_attempts r < limit) (release_saga now RETRY (Some now) ''LEASE_EXPIRED_RECOVERED'')) (\<lambda>retried.
        retE (dead + retried)))))"

subsection \<open>The Odoo adapter\<close>

definition decode_response :: "odoo_response \<Rightarrow> string \<Rightarrow> exc + json_object" where
  "decode_response resp operation =
     (if hr_status_code resp \<ge> 500 then Inl (Exc OdooCampaignAdapterUnavailable (operation @ '' upstream unavailable''))
      else if hr_status_code resp \<ge> 400 then Inl (Exc OdooCampaignAdapterError (operation @ '' rejected by Odoo''))
      else case hr_json resp of
          None \<Rightarrow> Inl (Exc OdooCampaignAdapterError (operation @ '' returned invalid JSON''))
        | Some (JObj body) \<Rightarrow> Inr body
        | Some _ \<Rightarrow> Inl (Exc OdooCampaignAdapterError (operation @ '' returned a non-object response'')))"

definition call_odoo :: "'o saga_env \<Rightarrow> string \<Rightarrow> json_object \<Rightarrow> string \<Rightarrow> ('o saga_state, odoo_response) prog" where
  "call_odoo env operation payload key = zoomE sw_odoo (\<lambda>a w. w\<lparr>sw_odoo := a\<rparr>) (se_request env operation payload key)"

definition saga_scope :: "saga_row \<Rightarrow> json_object" where
  "saga_scope saga = [(''organization_public_id'', JStr (sg_organization_public_id saga)),
     (''business_unit_public_id'', JStr (sg_business_unit_public_id saga)), (''campaign_public_id'', JStr (sg_campaign_public_id saga))]"

definition read_desired_state :: "'o saga_env \<Rightarrow> saga_row \<Rightarrow> ('o saga_state, json_object) prog" where
  "read_desired_state env saga =
     bindE (call_odoo env ''desired_state.read'' (saga_scope saga) (''desired-state:'' @ sg_campaign_public_id saga))
       (\<lambda>resp. liftE (decode_response resp ''desired_state.read''))"

record desired_state =
  ds_campaign_public_id :: string
  ds_configuration_version :: int
  ds_desired_state :: string
  ds_manifest_ref :: string
  ds_manifest_hash :: string

definition validate_desired_state :: "'o saga_env \<Rightarrow> json_object \<Rightarrow> desired_state option" where
  "validate_desired_state env body =
     Option.bind (bounded_field body ''campaign_public_id'' 128) (\<lambda>campaign.
     Option.bind (version_field env body ''configuration_version'') (\<lambda>version.
     Option.bind (map_of body ''desired_state'') (\<lambda>state.
     Option.bind (bounded_field body ''manifest_ref'' 256) (\<lambda>ref.
     Option.bind (bounded_field body ''manifest_hash'' 80) (\<lambda>hash.
       (case state of
          JStr s \<Rightarrow> if s \<in> set EFFECTIVE_STATES
            then Some \<lparr>ds_campaign_public_id = campaign, ds_configuration_version = version, ds_desired_state = s, ds_manifest_ref = ref,
              ds_manifest_hash = hash\<rparr> else None
        | _ \<Rightarrow> None))))))"

text \<open>The readback of a row, \<open>None\<close> when a required value is missing, and the bounds of its model.\<close>

definition saga_readback :: "saga_row \<Rightarrow> readback option" where
  "saga_readback r =
     Option.bind (sg_readback_idempotency_key r) (\<lambda>key.
     Option.bind (sg_effective_state r) (\<lambda>state.
     Option.bind (sg_observed_at r) (\<lambda>observed.
       Some \<lparr>rb_event_uuid = sg_event_uuid r, rb_command_id = sg_command_id r, rb_idempotency_key = key, rb_attempt = sg_readback_attempt r,
         rb_organization_public_id = sg_organization_public_id r, rb_business_unit_public_id = sg_business_unit_public_id r,
         rb_campaign_public_id = sg_campaign_public_id r, rb_configuration_version = sg_configuration_version r,
         rb_operation = sg_operation r, rb_effective_state = state, rb_manifest_ref = sg_manifest_ref r, rb_manifest_hash = sg_manifest_hash r,
         rb_evidence = (case sg_evidence_json r of None \<Rightarrow> [] | Some e \<Rightarrow> e), rb_observed_at = observed,
         rb_correlation_id = sg_correlation_id r, rb_causation_id = sg_event_uuid r\<rparr>)))"

definition valid_readback :: "readback \<Rightarrow> bool" where
  "valid_readback rb \<longleftrightarrow> list_all (\<lambda>(s, n). 1 \<le> length s \<and> length s \<le> n)
       [(rb_event_uuid rb, 128), (rb_command_id rb, 128), (rb_idempotency_key rb, 160), (rb_organization_public_id rb, 128),
        (rb_business_unit_public_id rb, 128), (rb_campaign_public_id rb, 128), (rb_manifest_ref rb, 256), (rb_manifest_hash rb, 80),
        (rb_correlation_id rb, 128), (rb_causation_id rb, 128)]
     \<and> 1 \<le> rb_attempt rb \<and> 0 \<le> rb_configuration_version rb
     \<and> rb_operation rb \<in> set CAMPAIGN_OPERATIONS \<and> rb_effective_state rb \<in> set EFFECTIVE_STATES"

definition readback_json :: "'o saga_env \<Rightarrow> readback \<Rightarrow> json_object" where
  "readback_json env rb =
     [(''event_uuid'', JStr (rb_event_uuid rb)), (''command_id'', JStr (rb_command_id rb)),
      (''idempotency_key'', JStr (rb_idempotency_key rb)), (''attempt'', JInt (int (rb_attempt rb))),
      (''organization_public_id'', JStr (rb_organization_public_id rb)),
      (''business_unit_public_id'', JStr (rb_business_unit_public_id rb)), (''campaign_public_id'', JStr (rb_campaign_public_id rb)),
      (''configuration_version'', JInt (rb_configuration_version rb)), (''operation'', JStr (rb_operation rb)),
      (''effective_state'', JStr (rb_effective_state rb)), (''manifest_ref'', JStr (rb_manifest_ref rb)),
      (''manifest_hash'', JStr (rb_manifest_hash rb)), (''evidence'', JObj (rb_evidence rb)),
      (''observed_at'', JStr (se_isoformat env (rb_observed_at rb))), (''correlation_id'', JStr (rb_correlation_id rb)),
      (''causation_id'', JStr (rb_causation_id rb))]"

text \<open>Python equality of a decoded value with a text and with an integer of the column.\<close>

definition json_is_text :: "json option \<Rightarrow> string \<Rightarrow> bool" where
  "json_is_text v s \<longleftrightarrow> v = Some (JStr s)"

definition json_is_int :: "json option \<Rightarrow> int \<Rightarrow> bool" where
  "json_is_int v n = (case v of
     Some (JInt i) \<Rightarrow> i = n
   | Some (JBool b) \<Rightarrow> (if b then 1 else 0) = n
   | Some (JFloat r) \<Rightarrow> r = int_str n @ ''.0'' \<or> n = 0 \<and> r = ''-0.0''
   | _ \<Rightarrow> False)"

definition response_bound :: "readback \<Rightarrow> json_object \<Rightarrow> bool" where
  "response_bound rb body \<longleftrightarrow> json_is_text (map_of body ''status'') ''APPLIED''
     \<and> json_is_text (map_of body ''event_uuid'') (rb_event_uuid rb) \<and> json_is_text (map_of body ''command_id'') (rb_command_id rb)
     \<and> json_is_int (map_of body ''configuration_version'') (rb_configuration_version rb)
     \<and> json_is_text (map_of body ''effective_state'') (rb_effective_state rb)
     \<and> json_is_text (map_of body ''correlation_id'') (rb_correlation_id rb)"

definition check_receipt :: "'o saga_env \<Rightarrow> readback \<Rightarrow> odoo_response \<Rightarrow> exc + string" where
  "check_receipt env rb resp =
     (if hr_status_code resp = 409 then Inl (Exc OdooCampaignStaleVersion STALE_CONFIGURATION_VERSION)
      else case decode_response resp ''campaign.actual_state.write'' of
          Inl e \<Rightarrow> Inl e
        | Inr body \<Rightarrow>
            if \<not> response_bound rb body then Inl (Exc OdooCampaignAdapterError ''campaign.actual_state.write response binding mismatch'')
            else (case map_of body ''readback_id'' of
                None \<Rightarrow> Inl (Exc OdooCampaignAdapterError ''campaign.actual_state.write receipt is missing'')
              | Some v \<Rightarrow> if json_truthy v then Inr (json_str env v)
                  else Inl (Exc OdooCampaignAdapterError ''campaign.actual_state.write receipt is missing'')))"

definition report_actual_state :: "'o saga_env \<Rightarrow> readback \<Rightarrow> ('o saga_state, string) prog" where
  "report_actual_state env rb =
     thenE (modifyE (\<lambda>w. w\<lparr>sw_sent := sw_sent w @ [rb]\<rparr>))
     (bindE (call_odoo env ''campaign.actual_state.write'' (readback_json env rb) (rb_idempotency_key rb))
       (\<lambda>resp. liftE (check_receipt env rb resp)))"

record adapter_observation =
  ao_effective_state :: string
  ao_evidence :: json_object
  ao_observed_at :: rat

type_synonym campaign_adapter = "saga_row \<Rightarrow> desired_state \<Rightarrow> rat \<Rightarrow> exc + adapter_observation"

definition synthetic_apply :: campaign_adapter where
  "synthetic_apply saga desired now =
     (case map_of RESULT_STATE_BY_OPERATION (sg_operation saga) of
        None \<Rightarrow> Inl (Exc SagaError (''unsupported campaign operation '' @ sg_operation saga))
      | Some result \<Rightarrow>
          Inr \<lparr>ao_effective_state = (case result of None \<Rightarrow> ds_desired_state desired | Some s \<Rightarrow> s),
            ao_evidence = [(''adapter'', JStr ''synthetic''), (''operation'', JStr (sg_operation saga)),
              (''manifest_ref'', JStr (sg_manifest_ref saga)), (''manifest_hash'', JStr (sg_manifest_hash saga)),
              (''configuration_version'', JInt (sg_configuration_version saga)), (''provider_writes'', JStr ''disabled'')],
            ao_observed_at = now\<rparr>)"

definition adapter_for :: "saga_settings \<Rightarrow> exc + campaign_adapter" where
  "adapter_for config =
     (if st_odoo_campaign_saga_adapter config \<noteq> ''synthetic''
      then Inl (Exc SagaConfigurationError ''odoo_campaign_saga_adapter must be 'synthetic'; no provider adapter exists'')
      else Inr synthetic_apply)"

definition validate_worker_settings :: "saga_settings \<Rightarrow> exc + unit" where
  "validate_worker_settings config =
     (if st_odoo_campaign_saga_lease_seconds config < MINIMUM_LEASE_SECONDS
      then Inl (Exc SagaConfigurationError ''odoo_campaign_saga_lease_seconds must be >= 41'')
      else if st_odoo_campaign_saga_retry_limit config < 1
      then Inl (Exc SagaConfigurationError ''odoo_campaign_saga_retry_limit must be >= 1'')
      else case adapter_for config of Inl e \<Rightarrow> Inl e | Inr _ \<Rightarrow> Inr ())"

subsection \<open>Dispatch\<close>

text \<open>The claim a dispatch writes under, and the guarded write. It returns the mirrored row.\<close>

definition claimed_as :: "saga_row \<Rightarrow> saga_row \<Rightarrow> bool" where
  "claimed_as saga r \<longleftrightarrow> sg_saga_id r = sg_saga_id saga \<and> sg_status r = RESERVED \<and> sg_attempts r = sg_attempts saga
     \<and> sg_reserved_at r = sg_reserved_at saga"

definition guarded_update :: "saga_row \<Rightarrow> (saga_row \<Rightarrow> saga_row) \<Rightarrow> saga_audit list \<Rightarrow> (saga_db, saga_row) prog" where
  "guarded_update saga f audit =
     transaction
      (thenE (modifyE (\<lambda>db. db\<lparr>sd_audit := sd_audit db @ audit\<rparr>))
      (bindE (update_sagas (claimed_as saga) f) (\<lambda>n.
         if n \<noteq> 1 then raiseE SagaError ''saga reservation was lost'' else retE (f saga))))"

definition saga_outcome :: "saga_status \<Rightarrow> string option \<Rightarrow> string" where
  "saga_outcome status err =
     (if status = COMPLETED then ''completed'' else if status = RETRY then ''retry''
      else if err = Some STALE_CONFIGURATION_VERSION then ''stale'' else ''dead_letter'')"

definition termination_audit :: "saga_row \<Rightarrow> saga_status \<Rightarrow> string option \<Rightarrow> string option \<Rightarrow> saga_audit" where
  "termination_audit saga status err receipt =
     \<lparr>sa_action = ''odoo.campaign_saga.'' @ saga_outcome status err, sa_subject = sg_event_uuid saga, sa_correlation_id = sg_correlation_id saga,
      sa_decision = status_text status,
      sa_redacted_payload = [(''command_id'', JStr (sg_command_id saga)), (''operation'', JStr (sg_operation saga)),
        (''campaign_public_id'', JStr (sg_campaign_public_id saga)), (''configuration_version'', JInt (sg_configuration_version saga)),
        (''attempt'', JInt (int (sg_attempts saga))), (''error_class'', opt_str err), (''effective_state'', opt_str (sg_effective_state saga)),
        (''readback_id'', opt_str receipt)]\<rparr>"

definition terminated :: "rat \<Rightarrow> saga_status \<Rightarrow> string option \<Rightarrow> rat option \<Rightarrow> string option \<Rightarrow> saga_row \<Rightarrow> saga_row" where
  "terminated now status err next receipt r =
     (let r1 = r\<lparr>sg_status := status, sg_last_error_class := err, sg_reserved_at := None, sg_lease_expires_at := None,
        sg_next_attempt_at := next, sg_updated_at := now\<rparr> in
      if status = COMPLETED then r1\<lparr>sg_readback_id := receipt, sg_completed_at := Some now\<rparr> else r1)"

type_synonym saga_result = "string \<times> string option"

definition terminate_saga :: "saga_reading \<Rightarrow> saga_row \<Rightarrow> saga_status \<Rightarrow> string option \<Rightarrow> rat option \<Rightarrow> string option
    \<Rightarrow> ('o saga_state, saga_result) prog" where
  "terminate_saga rd saga status err next receipt =
     thenE (on_db (guarded_update saga (terminated (sr_finish rd) status err next receipt) [termination_audit saga status err receipt]))
       (retE (saga_outcome status err, err))"

definition retryable_error_class :: "exc \<Rightarrow> string option" where
  "retryable_error_class e =
     (if exc_class e = OdooCampaignAdapterUnavailable then Some ''ODOO_UPSTREAM_UNAVAILABLE''
      else if exc_class e \<in> set transport_errors then Some ''ODOO_TRANSPORT_ERROR''
      else if exc_class e \<in> {ResolutionDenied, RegistryDependencyUnavailable} then Some ''ODOO_ROUTE_UNRESOLVED''
      else None)"

definition retry_or_dead_letter :: "'o saga_env \<Rightarrow> saga_reading \<Rightarrow> saga_row \<Rightarrow> string \<Rightarrow> ('o saga_state, saga_result) prog" where
  "retry_or_dead_letter env rd saga err =
     (if sg_attempts saga \<ge> st_odoo_campaign_saga_retry_limit (se_settings env)
      then terminate_saga rd saga DEAD_LETTER (Some err) None None
      else terminate_saga rd saga RETRY (Some err) (Some (sr_retry rd + 5 * 2 ^ (sg_attempts saga - 1))) None)"

definition saga_fail :: "'o saga_env \<Rightarrow> saga_reading \<Rightarrow> saga_row \<Rightarrow> exc \<Rightarrow> string \<Rightarrow> ('o saga_state, saga_result) prog" where
  "saga_fail env rd saga e rejected =
     (if exc_class e = OdooCampaignStaleVersion then terminate_saga rd saga DEAD_LETTER (Some STALE_CONFIGURATION_VERSION) None None
      else case retryable_error_class e of
          Some c \<Rightarrow> retry_or_dead_letter env rd saga c
        | None \<Rightarrow> terminate_saga rd saga DEAD_LETTER (Some rejected) None None)"

definition has_reusable_observation :: "saga_row \<Rightarrow> bool" where
  "has_reusable_observation saga \<longleftrightarrow> (case sg_readback_idempotency_key saga of None \<Rightarrow> False | Some k \<Rightarrow> k \<noteq> [])
     \<and> (case sg_effective_state saga of None \<Rightarrow> False | Some s \<Rightarrow> s \<noteq> []) \<and> sg_observed_at saga \<noteq> None
     \<and> (case sg_last_error_class saga of None \<Rightarrow> False | Some c \<Rightarrow> c \<in> set TRANSPORT_RETRY_ERROR_CLASSES)"

text \<open>\<open>try: m except _DEPENDENCY_ERRORS as e\<close>: the error as a value, others go through.\<close>

definition dependency :: "('s, 'a) prog \<Rightarrow> ('s, exc + 'a) prog" where
  "dependency m = catchE (bindE m (\<lambda>a. retE (Inr a))) (\<lambda>e. if exc_class e \<in> set dependency_errors then retE (Inl e) else reraiseE e)"

definition observation_key :: "saga_row \<Rightarrow> uuid \<Rightarrow> string" where
  "observation_key saga u = ''actual-state:'' @ sg_event_uuid saga @ '':'' @ uuid_str u"

definition observed_row :: "saga_reading \<Rightarrow> string \<Rightarrow> nat \<Rightarrow> adapter_observation \<Rightarrow> saga_row \<Rightarrow> saga_row" where
  "observed_row rd key n obs r = r\<lparr>sg_effective_state := Some (ao_effective_state obs), sg_evidence_json := Some (ao_evidence obs),
     sg_observed_at := Some (ao_observed_at obs), sg_readback_idempotency_key := Some key, sg_readback_attempt := n,
     sg_updated_at := sr_stored rd\<rparr>"

definition observe_saga :: "saga_reading \<Rightarrow> campaign_adapter \<Rightarrow> saga_row \<Rightarrow> desired_state \<Rightarrow> ('o saga_state, saga_row) prog" where
  "observe_saga rd adapter saga desired =
     bindE (liftE (adapter saga desired (sr_observed rd))) (\<lambda>obs.
     bindE (on_db (guarded_update saga (observed_row rd (observation_key saga (sr_key rd)) (sg_attempts saga) obs) [])) (\<lambda>saga.
     thenE (modifyE (\<lambda>w. w\<lparr>sw_observed := sw_observed w @ (case saga_readback saga of None \<Rightarrow> [] | Some rb \<Rightarrow> [rb])\<rparr>))
       (retE saga)))"

definition report_saga :: "'o saga_env \<Rightarrow> saga_others \<Rightarrow> saga_reading \<Rightarrow> saga_row \<Rightarrow> ('o saga_state, saga_result) prog" where
  "report_saga env others rd saga =
     (case saga_readback saga of
        None \<Rightarrow> raiseE ValidationError ''ActualStateReadback''
      | Some rb \<Rightarrow>
          if \<not> valid_readback rb then raiseE ValidationError ''ActualStateReadback''
          else bindE (dependency (report_actual_state env rb)) (\<lambda>answer.
            thenE (awaiting others 5)
              (case answer of
                 Inl e \<Rightarrow> saga_fail env rd saga e ''READBACK_REJECTED''
               | Inr receipt \<Rightarrow> terminate_saga rd saga COMPLETED None None (Some receipt))))"

definition dispatch_saga :: "'o saga_env \<Rightarrow> saga_others \<Rightarrow> saga_reading \<Rightarrow> campaign_adapter \<Rightarrow> saga_row \<Rightarrow> ('o saga_state, saga_result) prog" where
  "dispatch_saga env others rd adapter saga =
     bindE (dependency (read_desired_state env saga)) (\<lambda>answer.
     thenE (awaiting others 3)
       (case answer of
          Inl e \<Rightarrow> saga_fail env rd saga e ''DESIRED_STATE_REJECTED''
        | Inr body \<Rightarrow>
            (case validate_desired_state env body of
               None \<Rightarrow> terminate_saga rd saga DEAD_LETTER (Some ''DESIRED_STATE_REJECTED'') None None
             | Some desired \<Rightarrow>
                 if ds_campaign_public_id desired \<noteq> sg_campaign_public_id saga
                 then terminate_saga rd saga DEAD_LETTER (Some ''DESIRED_STATE_REJECTED'') None None
                 else if sg_configuration_version saga < ds_configuration_version desired
                 then terminate_saga rd saga DEAD_LETTER (Some STALE_CONFIGURATION_VERSION) None None
                 else if sg_configuration_version saga > ds_configuration_version desired \<or> sg_manifest_hash saga \<noteq> ds_manifest_hash desired
                 then terminate_saga rd saga DEAD_LETTER (Some ''CONFIGURATION_VERSION_MISMATCH'') None None
                 else
                   bindE (on_db (guarded_update saga (\<lambda>r. r\<lparr>sg_lease_expires_at :=
                       Some (sr_renew rd + st_odoo_campaign_saga_lease_seconds (se_settings env)), sg_updated_at := sr_renew rd\<rparr>) [])) (\<lambda>saga.
                   thenE (awaiting others 4)
                     (bindE (if has_reusable_observation saga then retE saga else observe_saga rd adapter saga desired)
                       (report_saga env others rd))))))"

definition process_saga :: "'o saga_env \<Rightarrow> saga_others \<Rightarrow> saga_reading \<Rightarrow> campaign_adapter \<Rightarrow> uuid \<Rightarrow> ('o saga_state, saga_result) prog" where
  "process_saga env others rd adapter sid =
     bindE (getsE (\<lambda>w. saga_at sid (sw_db w))) (\<lambda>found.
     case found of
       None \<Rightarrow> raiseE SagaError ''saga is not reserved''
     | Some saga \<Rightarrow>
         if sg_status saga \<noteq> RESERVED then raiseE SagaError ''saga is not reserved''
         else case se_build_client env saga of
             Some e \<Rightarrow> reraiseE e
           | None \<Rightarrow> dispatch_saga env others rd adapter saga)"

subsection \<open>The cycle of the worker\<close>

text \<open>Its result: the rows recovered and enrolled, and the outcome of the saga that was claimed.\<close>

definition saga_cycle :: "'o saga_env \<Rightarrow> saga_others \<Rightarrow> saga_reading \<Rightarrow> ('o saga_state, (nat \<times> nat \<times> saga_result option) option) prog" where
  "saga_cycle env others rd =
     (let config = se_settings env in
      if \<not> st_odoo_campaign_saga_enabled config then retE None
      else
       thenE (liftE (validate_worker_settings config))
       (bindE (liftE (adapter_for config)) (\<lambda>adapter.
        bindE (on_db (recover_expired_leases (sr_recover rd) (st_odoo_campaign_saga_retry_limit config))) (\<lambda>recovered.
        thenE (awaiting others 0)
        (bindE (enroll_pending_sagas env others rd 50) (\<lambda>enrolled.
        thenE (awaiting others 1)
        (bindE (on_db (claim_saga (sr_claim rd) (sr_locked rd) (st_odoo_campaign_saga_lease_seconds config))) (\<lambda>claimed.
        case claimed of
          None \<Rightarrow> retE (Some (recovered, enrolled, None))
        | Some saga \<Rightarrow>
            thenE (awaiting others 2)
              (bindE (process_saga env others rd adapter (sg_saga_id saga)) (\<lambda>outcome.
                 retE (Some (recovered, enrolled, Some outcome))))))))))))"

end
