(* ===== verification/Saga_Guarantees.thy ===== *)
theory Saga_Guarantees
  imports Campaign_Saga Machines
begin

text \<open>
  What the campaign saga guarantees. Any number of workers share the tables; their commits are
  the steps of a machine whose guarded writes name the row they find. In it every event has one
  saga, attempts stay within the limit, and a readback key always carries the same observation.
  A dispatch, with whatever other workers do while it waits, is a run of that machine.
\<close>

subsection \<open>The machine of commits\<close>

definition put_saga :: "saga_row \<Rightarrow> saga_row \<Rightarrow> saga_audit list \<Rightarrow> saga_db \<Rightarrow> saga_db" where
  "put_saga r r' audit db = db\<lparr>sd_sagas := map (\<lambda>x. if sg_saga_id x = sg_saga_id r then r' else x) (sd_sagas db), sd_audit := sd_audit db @ audit\<rparr>"

abbreviation claim_of :: "saga_row \<Rightarrow> uuid \<times> nat" where
  "claim_of r \<equiv> (sg_saga_id r, sg_attempts r)"

definition may_finish :: "nat \<Rightarrow> readback list \<Rightarrow> saga_row \<Rightarrow> saga_status \<Rightarrow> string option \<Rightarrow> bool" where
  "may_finish limit sent r status receipt \<longleftrightarrow> (case status of
     COMPLETED \<Rightarrow> receipt \<noteq> None \<and> (\<exists>rb \<in> set sent. saga_readback r = Some rb)
   | RETRY \<Rightarrow> sg_attempts r < limit
   | DEAD_LETTER \<Rightarrow> True
   | _ \<Rightarrow> False)"

text \<open>
  The steps, without new observations under the keys \<open>K\<close> and without writes under the claims \<open>C\<close>:
  those belong to one worker whose run is looked at.
\<close>

inductive saga_step :: "nat \<Rightarrow> string set \<Rightarrow> (uuid \<times> nat) set \<Rightarrow> saga_shared \<Rightarrow> saga_shared \<Rightarrow> bool"
  for limit :: nat and K :: "string set" and C :: "(uuid \<times> nat) set" where
  ss_events: "saga_step limit K C (db, ob, sn) (db\<lparr>sd_events := es\<rparr>, ob, sn)"
| ss_enroll: "status \<in> {PENDING, DEAD_LETTER} \<Longrightarrow> saga_step limit K C (db, ob, sn) (snd (insert_saga (new_saga ident status err now) db), ob, sn)"
| ss_claim: "1 \<le> limit \<Longrightarrow> saga_step limit K C (db, ob, sn) (snd (claim_saga now locked lease db), ob, sn)"
| ss_recover: "saga_step limit K C (db, ob, sn) (snd (recover_expired_leases now limit db), ob, sn)"
| ss_renew: "r \<in> set (sd_sagas db) \<Longrightarrow> sg_status r = RESERVED \<Longrightarrow> claim_of r \<notin> C \<Longrightarrow>
    saga_step limit K C (db, ob, sn) (put_saga r (r\<lparr>sg_lease_expires_at := Some u, sg_updated_at := now\<rparr>) [] db, ob, sn)"
| ss_observe: "r \<in> set (sd_sagas db) \<Longrightarrow> sg_status r = RESERVED \<Longrightarrow> claim_of r \<notin> C \<Longrightarrow> key \<notin> K \<Longrightarrow> key \<notin> rb_idempotency_key ` set ob \<Longrightarrow>
    r' = observed_row rd key (sg_attempts r) obs r \<Longrightarrow> saga_readback r' = Some rb \<Longrightarrow>
    saga_step limit K C (db, ob, sn) (put_saga r r' [] db, ob @ [rb], sn)"
| ss_send: "rb \<in> set ob \<Longrightarrow> saga_step limit K C (db, ob, sn) (db, ob, sn @ [rb])"
| ss_finish: "r \<in> set (sd_sagas db) \<Longrightarrow> sg_status r = RESERVED \<Longrightarrow> claim_of r \<notin> C \<Longrightarrow> may_finish limit sn r status receipt \<Longrightarrow>
    saga_step limit K C (db, ob, sn) (put_saga r (terminated now status err next receipt r) audit db, ob, sn)"

definition saga_init :: "saga_shared \<Rightarrow> bool" where
  "saga_init s \<longleftrightarrow> sd_sagas (fst s) = [] \<and> snd s = ([], [])"

subsection \<open>The invariant\<close>

text \<open>A row, given the observations that were committed and the readbacks that were sent.\<close>

definition saga_row_ok :: "nat \<Rightarrow> readback list \<Rightarrow> readback list \<Rightarrow> saga_row \<Rightarrow> bool" where
  "saga_row_ok limit ob sn r \<longleftrightarrow> sg_attempts r \<le> limit \<and> sg_readback_attempt r \<le> sg_attempts r
     \<and> (sg_reserved_at r \<noteq> None \<longleftrightarrow> sg_status r = RESERVED) \<and> (sg_lease_expires_at r \<noteq> None \<longleftrightarrow> sg_status r = RESERVED)
     \<and> (sg_status r = PENDING \<longrightarrow> sg_attempts r = 0) \<and> (sg_status r \<in> {RESERVED, RETRY, COMPLETED} \<longrightarrow> 1 \<le> sg_attempts r)
     \<and> (sg_status r = RETRY \<longrightarrow> sg_attempts r < limit)
     \<and> (sg_readback_idempotency_key r \<noteq> None \<longrightarrow> (\<exists>rb \<in> set ob. saga_readback r = Some rb))
     \<and> (sg_status r = COMPLETED \<longrightarrow> sg_completed_at r \<noteq> None \<and> sg_readback_id r \<noteq> None \<and> (\<exists>rb \<in> set sn. saga_readback r = Some rb))"

definition saga_inv :: "nat \<Rightarrow> saga_shared \<Rightarrow> bool" where
  "saga_inv limit s \<longleftrightarrow> (case s of (db, ob, sn) \<Rightarrow> distinct (map sg_saga_id (sd_sagas db)) \<and> distinct (map sg_integration_event_id (sd_sagas db))
     \<and> (\<forall>r \<in> set (sd_sagas db). saga_row_ok limit ob sn r) \<and> distinct (map rb_idempotency_key ob) \<and> set sn \<subseteq> set ob)"

lemma saga_row_ok_mono:
  "saga_row_ok limit ob sn r \<Longrightarrow> set ob \<subseteq> set ob' \<Longrightarrow> set sn \<subseteq> set sn' \<Longrightarrow> saga_row_ok limit ob' sn' r"
  unfolding saga_row_ok_def by blast

lemma saga_readback_ctrl [simp]:
  "saga_readback (r\<lparr>sg_status := a\<rparr>) = saga_readback r" "saga_readback (r\<lparr>sg_last_error_class := b\<rparr>) = saga_readback r"
  "saga_readback (r\<lparr>sg_reserved_at := c\<rparr>) = saga_readback r" "saga_readback (r\<lparr>sg_lease_expires_at := c\<rparr>) = saga_readback r"
  "saga_readback (r\<lparr>sg_next_attempt_at := c\<rparr>) = saga_readback r" "saga_readback (r\<lparr>sg_updated_at := d\<rparr>) = saga_readback r"
  "saga_readback (r\<lparr>sg_attempts := n\<rparr>) = saga_readback r" "saga_readback (r\<lparr>sg_readback_id := b\<rparr>) = saga_readback r"
  "saga_readback (r\<lparr>sg_completed_at := c\<rparr>) = saga_readback r"
  by (simp_all add: saga_readback_def)

text \<open>A write that keeps the two identities of every row.\<close>

lemma saga_inv_map:
  assumes "saga_inv limit (db, ob, sn)" and "sd_sagas db' = map f (sd_sagas db)"
    and "\<And>r. r \<in> set (sd_sagas db) \<Longrightarrow> sg_saga_id (f r) = sg_saga_id r \<and> sg_integration_event_id (f r) = sg_integration_event_id r"
    and "\<And>r. r \<in> set (sd_sagas db) \<Longrightarrow> saga_row_ok limit ob sn r \<Longrightarrow> saga_row_ok limit ob' sn' (f r)"
    and "distinct (map rb_idempotency_key ob')" "set sn' \<subseteq> set ob'"
  shows "saga_inv limit (db', ob', sn')"
proof -
  have "map sg_saga_id (map f (sd_sagas db)) = map sg_saga_id (sd_sagas db)"
    "map sg_integration_event_id (map f (sd_sagas db)) = map sg_integration_event_id (sd_sagas db)"
    using assms(3) by simp_all
  then show ?thesis using assms(1,2,4-6) unfolding saga_inv_def by (auto simp del: map_map)
qed

lemma put_saga_row:
  assumes "saga_inv limit (db, ob, sn)" and "r \<in> set (sd_sagas db)" "x \<in> set (sd_sagas db)" "sg_saga_id x = sg_saga_id r"
  shows "x = r"
  using assms by (auto simp: saga_inv_def distinct_map dest: inj_onD)

lemma saga_inv_put:
  assumes "saga_inv limit (db, ob, sn)" and "r \<in> set (sd_sagas db)" and "sg_saga_id r' = sg_saga_id r"
    and "sg_integration_event_id r' = sg_integration_event_id r" and "saga_row_ok limit ob sn r \<Longrightarrow> saga_row_ok limit ob' sn r'"
    and "set ob \<subseteq> set ob'" "distinct (map rb_idempotency_key ob')"
  shows "saga_inv limit (put_saga r r' audit db, ob', sn)"
proof (rule saga_inv_map [OF assms(1)])
  show "sd_sagas (put_saga r r' audit db) = map (\<lambda>x. if sg_saga_id x = sg_saga_id r then r' else x) (sd_sagas db)" by (simp add: put_saga_def)
  show "set sn \<subseteq> set ob'" using assms(1,6) by (auto simp: saga_inv_def)
  fix x assume x: "x \<in> set (sd_sagas db)"
  note one = put_saga_row [OF assms(1,2) x]
  show "sg_saga_id (if sg_saga_id x = sg_saga_id r then r' else x) = sg_saga_id x
    \<and> sg_integration_event_id (if sg_saga_id x = sg_saga_id r then r' else x) = sg_integration_event_id x"
    using one assms(3,4) by auto
  show "saga_row_ok limit ob' sn (if sg_saga_id x = sg_saga_id r then r' else x)" if "saga_row_ok limit ob sn x"
    using one that assms(5) saga_row_ok_mono [OF that assms(6)] by auto
qed (rule assms(7))

lemma update_sagas_rows:
  "sd_sagas (snd (update_sagas P f db)) = sd_sagas db \<or> sd_sagas (snd (update_sagas P f db)) = map (\<lambda>r. if P r then f r else r) (sd_sagas db)"
  by (simp add: update_sagas_def)

lemma saga_inv_update:
  assumes "\<And>r. sg_saga_id (f r) = sg_saga_id r \<and> sg_integration_event_id (f r) = sg_integration_event_id r"
    and "\<And>r. P r \<Longrightarrow> saga_row_ok limit ob sn r \<Longrightarrow> saga_row_ok limit ob sn (f r)"
  shows "keeps (\<lambda>db. saga_inv limit (db, ob, sn)) (update_sagas P f)"
proof (rule keepsI)
  fix db assume inv: "saga_inv limit (db, ob, sn)"
  then have logs: "distinct (map rb_idempotency_key ob)" "set sn \<subseteq> set ob" by (simp_all add: saga_inv_def)
  show "saga_inv limit (snd (update_sagas P f db), ob, sn)" using update_sagas_rows [of P f db]
  proof (elim disjE)
    assume "sd_sagas (snd (update_sagas P f db)) = sd_sagas db"
    then show ?thesis using inv by (simp add: saga_inv_def)
  next
    assume "sd_sagas (snd (update_sagas P f db)) = map (\<lambda>r. if P r then f r else r) (sd_sagas db)"
    from saga_inv_map [OF inv this _ _ logs] assms show ?thesis by auto
  qed
qed

lemma recover_inv: "keeps (\<lambda>db. saga_inv limit (db, ob, sn)) (recover_expired_leases now limit)"
  unfolding recover_expired_leases_def
  by (intro keeps_rules saga_inv_update)
    (auto simp: release_saga_def saga_row_ok_def expired_lease_def)

lemma saga_claim_inv:
  assumes "1 \<le> limit" and inv: "saga_inv limit (db, ob, sn)"
  shows "saga_inv limit (snd (claim_saga now locked lease db), ob, sn)"
proof (cases "lease < 1 \<or> sql_first sg_created_at (claimable_saga now locked) (sd_sagas db) = None")
  case True
  then show ?thesis using inv by (auto simp: claim_saga_def prog_defs)
next
  case False
  then obtain r where r: "\<not> lease < 1" "sql_first sg_created_at (claimable_saga now locked) (sd_sagas db) = Some r" by auto
  note f = sql_first_Some(1,2) [OF r(2)]
  have "snd (claim_saga now locked lease db) = db\<lparr>sd_sagas := map (\<lambda>x. if sg_saga_id x = sg_saga_id r then reserve_saga now lease x else x) (sd_sagas db)\<rparr>"
    using r by (simp add: claim_saga_def prog_defs)
  moreover have "map (\<lambda>x. if sg_saga_id x = sg_saga_id r then reserve_saga now lease x else x) (sd_sagas db)
      = map (\<lambda>x. if sg_saga_id x = sg_saga_id r then reserve_saga now lease r else x) (sd_sagas db)"
    using put_saga_row [OF inv f(1)] by auto
  ultimately have "snd (claim_saga now locked lease db) = put_saga r (reserve_saga now lease r) [] db" by (simp add: put_saga_def)
  moreover have "distinct (map rb_idempotency_key ob)" using inv by (simp add: saga_inv_def)
  ultimately show ?thesis using inv f assms(1)
    by (auto intro!: saga_inv_put simp: reserve_saga_def saga_row_ok_def claimable_saga_def CLAIMABLE_STATUSES_def)
qed

lemma enroll_inv:
  assumes "saga_inv limit (db, ob, sn)" and "status \<in> {PENDING, DEAD_LETTER}"
  shows "saga_inv limit (snd (insert_saga (new_saga ident status err now) db), ob, sn)"
proof -
  have "saga_row_ok limit ob sn (new_saga ident status err now)"
    using assms(2) by (auto simp: saga_row_ok_def new_saga_def saga_identity.defs saga_row.defs)
  with assms(1) show ?thesis by (auto simp: insert_saga_def saga_inv_def list_ex_iff)
qed

lemma saga_step_inv: "saga_step limit K C s t \<Longrightarrow> saga_inv limit s \<Longrightarrow> saga_inv limit t"
proof (induction rule: saga_step.induct)
  case (ss_events db ob sn es)
  then show ?case by (simp add: saga_inv_def)
next
  case (ss_claim db ob sn now locked lease)
  then show ?case by (intro saga_claim_inv)
next
  case (ss_recover db ob sn now)
  then show ?case by (rule keepsD [OF recover_inv])
next
  case (ss_renew r db ob sn u now)
  then have "distinct (map rb_idempotency_key ob)" by (simp add: saga_inv_def)
  with ss_renew show ?case by (intro saga_inv_put) (auto simp: saga_row_ok_def)
next
  case (ss_observe r db key ob r' rd obs rb sn)
  then have "rb_idempotency_key rb = key" by (auto simp: saga_readback_def observed_row_def)
  with ss_observe have "distinct (map rb_idempotency_key (ob @ [rb]))" by (auto simp: saga_inv_def)
  moreover have "saga_row_ok limit (ob @ [rb]) sn r'" if "saga_row_ok limit ob sn r"
  proof -
    have "sg_status r' = RESERVED" "sg_attempts r' = sg_attempts r" "sg_readback_attempt r' = sg_attempts r" "sg_reserved_at r' = sg_reserved_at r"
        "sg_lease_expires_at r' = sg_lease_expires_at r"
      using ss_observe.hyps by (simp_all add: observed_row_def)
    then show ?thesis using that ss_observe.hyps(2,7) by (simp add: saga_row_ok_def)
  qed
  moreover have "sg_saga_id r' = sg_saga_id r" "sg_integration_event_id r' = sg_integration_event_id r" using ss_observe by (simp_all add: observed_row_def)
  ultimately show ?case using ss_observe by (intro saga_inv_put) auto
next
  case (ss_send rb ob db sn)
  have "saga_row_ok limit ob (sn @ [rb]) r" if "saga_row_ok limit ob sn r" for r using saga_row_ok_mono [OF that, of ob "sn @ [rb]"] by auto
  with ss_send show ?case by (auto simp: saga_inv_def)
next
  case (ss_finish r db sn status receipt ob now err "next" audit)
  then have "distinct (map rb_idempotency_key ob)" by (simp add: saga_inv_def)
  moreover have "saga_row_ok limit ob sn (terminated now status err next receipt r)" if "saga_row_ok limit ob sn r"
    using that ss_finish.hyps by (cases status) (auto simp: saga_row_ok_def terminated_def may_finish_def)
  ultimately show ?case using ss_finish by (intro saga_inv_put) (auto simp: terminated_def Let_def)
qed (simp_all add: enroll_inv)

interpretation sgm: machine_invariant saga_init "saga_step limit K C" "saga_inv limit" for limit K C
proof
  show "saga_init s \<Longrightarrow> saga_inv limit s" for s by (auto simp: saga_init_def saga_inv_def)
qed (rule saga_step_inv)

subsection \<open>A claim is kept or lost for good\<close>

definition lost :: "nat \<Rightarrow> saga_row \<Rightarrow> bool" where
  "lost a r \<longleftrightarrow> a < sg_attempts r \<or> a = sg_attempts r \<and> sg_status r \<noteq> RESERVED"

text \<open>The row of a claim is as its worker knows it, or the claim is lost.\<close>

definition held :: "saga_row \<Rightarrow> saga_db \<Rightarrow> bool" where
  "held saga db \<longleftrightarrow> (\<exists>x \<in> set (sd_sagas db). sg_saga_id x = sg_saga_id saga \<and> (x = saga \<or> lost (sg_attempts saga) x))"

lemma held_map:
  assumes "held saga db" and "sd_sagas db' = map f (sd_sagas db)"
    and "\<And>x. x \<in> set (sd_sagas db) \<Longrightarrow> sg_saga_id x = sg_saga_id saga \<Longrightarrow> x = saga \<or> lost (sg_attempts saga) x \<Longrightarrow>
      sg_saga_id (f x) = sg_saga_id x \<and> (f x = saga \<or> lost (sg_attempts saga) (f x))"
  shows "held saga db'"
  using assms unfolding held_def by fastforce

lemma held_put:
  assumes "held saga db" and "sg_saga_id r' = sg_saga_id r" and "sg_attempts r' = sg_attempts r" and "sg_status r = RESERVED"
    and "claim_of r \<noteq> claim_of saga" and "saga_inv limit (db, ob, sn)" "r \<in> set (sd_sagas db)"
  shows "held saga (put_saga r r' audit db)"
proof (rule held_map [OF assms(1)])
  show "sd_sagas (put_saga r r' audit db) = map (\<lambda>x. if sg_saga_id x = sg_saga_id r then r' else x) (sd_sagas db)" by (simp add: put_saga_def)
  fix x assume x: "x \<in> set (sd_sagas db)" "sg_saga_id x = sg_saga_id saga" "x = saga \<or> lost (sg_attempts saga) x"
  show "sg_saga_id (if sg_saga_id x = sg_saga_id r then r' else x) = sg_saga_id x
    \<and> ((if sg_saga_id x = sg_saga_id r then r' else x) = saga \<or> lost (sg_attempts saga) (if sg_saga_id x = sg_saga_id r then r' else x))"
  proof (cases "sg_saga_id x = sg_saga_id r")
    case True
    with put_saga_row [OF assms(6,7) x(1)] have "x = r" by simp
    with x assms(2-5) show ?thesis by (auto simp: lost_def)
  qed (use x in simp)
qed

lemma held_update:
  assumes "\<And>x. sg_saga_id (f x) = sg_saga_id x" and "\<And>x. lost (sg_attempts saga) x \<or> x = saga \<Longrightarrow> P x \<Longrightarrow> lost (sg_attempts saga) (f x)"
  shows "keeps (held saga) (update_sagas P f)"
proof (rule keepsI)
  fix db assume h: "held saga db"
  show "held saga (snd (update_sagas P f db))" using update_sagas_rows [of P f db]
  proof (elim disjE)
    assume "sd_sagas (snd (update_sagas P f db)) = sd_sagas db"
    with h show ?thesis by (simp add: held_def)
  next
    assume "sd_sagas (snd (update_sagas P f db)) = map (\<lambda>r. if P r then f r else r) (sd_sagas db)"
    then show ?thesis
    proof (rule held_map [OF h])
      fix x assume "sg_saga_id x = sg_saga_id saga" "x = saga \<or> lost (sg_attempts saga) x"
      then show "sg_saga_id (if P x then f x else x) = sg_saga_id x \<and> ((if P x then f x else x) = saga \<or> lost (sg_attempts saga) (if P x then f x else x))"
        using assms [of x] by (cases "P x") auto
    qed
  qed
qed

lemma held_step:
  assumes "saga_step limit K C s t" and "saga_inv limit s" and "held saga (fst s)" and "sg_status saga = RESERVED" and "claim_of saga \<in> C"
  shows "held saga (fst t)"
  using assms(1-3)
proof (induction rule: saga_step.induct)
  case (ss_claim db ob sn now locked lease)
  show ?case
  proof (cases "lease < 1 \<or> sql_first sg_created_at (claimable_saga now locked) (sd_sagas db) = None")
    case False
    then obtain r where r: "\<not> lease < 1" "sql_first sg_created_at (claimable_saga now locked) (sd_sagas db) = Some r" by auto
    note f = sql_first_Some(1,2) [OF r(2)]
    have one: "x = r" if "x \<in> set (sd_sagas db)" "sg_saga_id x = sg_saga_id r" for x using put_saga_row [OF ss_claim.prems(1) f(1)] that by simp
    have "sg_status r \<noteq> RESERVED" using f(2) by (auto simp: claimable_saga_def CLAIMABLE_STATUSES_def)
    then have res: "lost (sg_attempts saga) (reserve_saga now lease x)" if "x \<in> set (sd_sagas db)" "sg_saga_id x = sg_saga_id r" "x = saga \<or> lost (sg_attempts saga) x" for x
      using one [OF that(1,2)] that(3) assms(4) by (auto simp: lost_def reserve_saga_def)
    have "held saga (snd (claim_saga now locked lease db))"
    proof (rule held_map)
      show "held saga db" using ss_claim.prems(2) by simp
      show "sd_sagas (snd (claim_saga now locked lease db)) = map (\<lambda>x. if sg_saga_id x = sg_saga_id r then reserve_saga now lease x else x) (sd_sagas db)"
        using r by (simp add: claim_saga_def prog_defs)
      fix x assume x: "x \<in> set (sd_sagas db)" "x = saga \<or> lost (sg_attempts saga) x"
      have "sg_saga_id (reserve_saga now lease x) = sg_saga_id x" by (simp add: reserve_saga_def)
      then show "sg_saga_id (if sg_saga_id x = sg_saga_id r then reserve_saga now lease x else x) = sg_saga_id x
        \<and> ((if sg_saga_id x = sg_saga_id r then reserve_saga now lease x else x) = saga
          \<or> lost (sg_attempts saga) (if sg_saga_id x = sg_saga_id r then reserve_saga now lease x else x))"
        using res [OF x(1) _ x(2)] x(2) by (cases "sg_saga_id x = sg_saga_id r") simp_all
    qed
    then show ?thesis by simp
  qed (use ss_claim in \<open>auto simp: claim_saga_def prog_defs\<close>)
next
  case (ss_recover db ob sn now)
  have rel: "lost (sg_attempts saga) (release_saga now st nx e x)" if "lost (sg_attempts saga) x \<or> x = saga" "expired_lease now x" "st \<noteq> RESERVED" for st nx e x
    using that by (elim disjE) (simp_all add: release_saga_def lost_def expired_lease_def)
  have upd: "keeps (held saga) (update_sagas (\<lambda>r. expired_lease now r \<and> Q r) (release_saga now st nx e))" if "st \<noteq> RESERVED" for Q st nx e
  proof (rule held_update)
    show "sg_saga_id (release_saga now st nx e x) = sg_saga_id x" for x by (simp add: release_saga_def)
    show "lost (sg_attempts saga) (release_saga now st nx e x)" if "lost (sg_attempts saga) x \<or> x = saga" "expired_lease now x \<and> Q x" for x
      using rel [OF that(1) conjunct1 [OF that(2)] \<open>st \<noteq> RESERVED\<close>] .
  qed
  have "keeps (held saga) (recover_expired_leases now limit)" unfolding recover_expired_leases_def
    by (intro keeps_rules upd) simp_all
  with ss_recover show ?case by (simp add: keepsD)
next
  case (ss_enroll status db ob sn ident err now)
  then show ?case by (auto simp: insert_saga_def held_def)
next
  case (ss_renew r db ob sn u now)
  then show ?case using assms(5) unfolding fst_conv by (intro held_put [of saga db _ r]) auto
next
  case (ss_observe r db key ob r' rd obs rb sn)
  then show ?case using assms(5) unfolding fst_conv by (intro held_put [of saga db _ r]) (auto simp: observed_row_def)
next
  case (ss_finish r db sn status receipt ob now err "next" audit)
  then show ?case using assms(5) unfolding fst_conv by (intro held_put [of saga db _ r]) (auto simp: terminated_def Let_def)
qed (simp_all add: held_def)

subsection \<open>A dispatch is a run of the machine\<close>

abbreviation shared :: "'o saga_state \<Rightarrow> saga_shared" where
  "shared w \<equiv> (sw_db w, sw_observed w, sw_sent w)"

abbreviation sagas_since :: "nat \<Rightarrow> saga_shared \<Rightarrow> 'o saga_state \<Rightarrow> bool" where
  "sagas_since limit s0 w \<equiv> run (saga_step limit {} {}) s0 (shared w)"

definition honest_others :: "nat \<Rightarrow> string set \<Rightarrow> (uuid \<times> nat) set \<Rightarrow> saga_others \<Rightarrow> bool" where
  "honest_others limit K C others \<longleftrightarrow> (\<forall>n s. run (saga_step limit K C) s (others n s))"

text \<open>
  What a worker may rely on at each point of a dispatch, from the row it holds in memory, the
  keys it will use, and the readbacks it has sent.
\<close>

definition known :: "saga_row \<Rightarrow> readback list \<Rightarrow> bool" where
  "known saga ob \<longleftrightarrow> (sg_readback_idempotency_key saga \<noteq> None \<longrightarrow> (\<exists>rb \<in> set ob. saga_readback saga = Some rb))"

definition tracks_shared :: "nat \<Rightarrow> saga_shared \<Rightarrow> string set \<Rightarrow> readback set \<Rightarrow> saga_row \<Rightarrow> saga_shared \<Rightarrow> bool" where
  "tracks_shared limit s0 K S saga s \<longleftrightarrow> run (saga_step limit {} {}) s0 s \<and> saga_inv limit s \<and> held saga (fst s)
     \<and> K \<inter> rb_idempotency_key ` set (fst (snd s)) = {} \<and> known saga (fst (snd s)) \<and> S \<subseteq> set (snd (snd s)) \<and> sg_status saga = RESERVED"

abbreviation tracks :: "nat \<Rightarrow> saga_shared \<Rightarrow> string set \<Rightarrow> readback set \<Rightarrow> saga_row \<Rightarrow> 'o saga_state \<Rightarrow> bool" where
  "tracks limit s0 K S saga w \<equiv> tracks_shared limit s0 K S saga (shared w)"

lemma saga_step_mono: "saga_step limit K C s t \<Longrightarrow> K' \<subseteq> K \<Longrightarrow> C' \<subseteq> C \<Longrightarrow> saga_step limit K' C' s t"
  by (induction rule: saga_step.induct) (auto intro: saga_step.intros)

lemma saga_logs_grow:
  "saga_step limit K C s t \<Longrightarrow> set (fst (snd s)) \<subseteq> set (fst (snd t)) \<and> set (snd (snd s)) \<subseteq> set (snd (snd t))
     \<and> rb_idempotency_key ` set (fst (snd t)) \<inter> K \<subseteq> rb_idempotency_key ` set (fst (snd s))"
proof (induction rule: saga_step.induct)
  case (ss_observe r db key ob r' rd obs rb sn)
  then have "rb_idempotency_key rb = key" by (auto simp: saga_readback_def observed_row_def)
  with ss_observe show ?case by auto
qed auto

lemma tracks_step:
  assumes "saga_step limit K C s t" and "tracks_shared limit s0 K' S saga s" and "K' \<subseteq> K" and "claim_of saga \<in> C"
  shows "tracks_shared limit s0 K' S saga t"
proof -
  have "run (saga_step limit {} {}) s0 t"
    using assms(2) saga_step_mono [OF assms(1), of "{}" "{}"] by (auto simp: tracks_shared_def intro: run_step)
  moreover have "saga_inv limit t" "held saga (fst t)"
    using assms(2,4) saga_step_inv [OF assms(1)] held_step [OF assms(1)] by (auto simp: tracks_shared_def)
  ultimately show ?thesis using assms(2,3) saga_logs_grow [OF assms(1)] unfolding tracks_shared_def known_def by blast
qed

lemma tracks_await:
  assumes "honest_others limit K C others" and "K' \<subseteq> K" and "claim_of saga \<in> C"
  shows "hoare (tracks limit s0 K' S saga) (awaiting others n) (\<lambda>_. tracks limit s0 K' S saga) E"
proof (rule hoareI)
  fix w a and w' :: "'o saga_state"
  assume t: "tracks limit s0 K' S saga w" and a: "awaiting others n w = (Inr a, w')"
  have "run (saga_step limit K C) (shared w) (others n (shared w))" using assms(1) by (simp add: honest_others_def)
  then have "tracks_shared limit s0 K' S saga (others n (shared w))"
    by (rule run_keeps) (use t tracks_step assms(2,3) in blast)+
  with a show "tracks limit s0 K' S saga w'" by (auto simp: awaiting_def modifyE_def split: prod.splits)
qed (auto simp: awaiting_def modifyE_def)

lemma guarded_success:
  assumes inv: "saga_inv limit (db, ob, sn)" and h: "held saga db" and "guarded_update saga f audit db = (Inr saga', db')"
  shows "saga' = f saga" and "saga \<in> set (sd_sagas db)" and "db' = put_saga saga (f saga) audit db"
proof -
  have upd: "length (filter (claimed_as saga) (sd_sagas db)) = 1" "saga' = f saga"
      "db' = db\<lparr>sd_sagas := map (\<lambda>r. if claimed_as saga r then f r else r) (sd_sagas db), sd_audit := sd_audit db @ audit\<rparr>"
    using assms(3) by (auto simp: guarded_update_def transaction_Inr update_sagas_def prog_defs split: if_splits)
  then obtain x where x: "x \<in> set (sd_sagas db)" "claimed_as saga x"
    by (metis One_nat_def filter_empty_conv length_0_conv zero_neq_one)
  obtain y where y: "y \<in> set (sd_sagas db)" "sg_saga_id y = sg_saga_id saga" "y = saga \<or> lost (sg_attempts saga) y"
    using h by (auto simp: held_def)
  have "x = y" using put_saga_row [OF inv y(1) x(1)] x(2) y(2) by (simp add: claimed_as_def)
  then have "x = saga" using x(2) y(3) by (auto simp: claimed_as_def lost_def)
  then show mem: "saga \<in> set (sd_sagas db)" and "saga' = f saga" using x upd(2) by simp_all
  have "claimed_as saga r \<longleftrightarrow> sg_saga_id r = sg_saga_id saga" if "r \<in> set (sd_sagas db)" for r
    using put_saga_row [OF inv mem that] x(2) \<open>x = saga\<close> by (auto simp: claimed_as_def)
  moreover have "r = saga" if "r \<in> set (sd_sagas db)" "sg_saga_id r = sg_saga_id saga" for r using put_saga_row [OF inv mem that(1)] that(2) by simp
  ultimately have "map (\<lambda>r. if claimed_as saga r then f r else r) (sd_sagas db) = map (\<lambda>r. if sg_saga_id r = sg_saga_id saga then f saga else r) (sd_sagas db)"
    by (intro map_cong refl) auto
  with upd(3) show "db' = put_saga saga (f saga) audit db" by (simp add: put_saga_def)
qed

text \<open>A guarded write that succeeds is a step; one that fails changes nothing.\<close>

lemma tracks_guarded:
  fixes Q :: "saga_row \<Rightarrow> 'o saga_state \<Rightarrow> bool"
  assumes "\<And>db ob sn. saga \<in> set (sd_sagas db) \<Longrightarrow> S \<subseteq> set sn \<Longrightarrow> saga_step limit {} {} (db, ob, sn) (put_saga saga (f saga) audit db, ob, sn)"
    and "\<And>w. tracks limit s0 K S saga w \<Longrightarrow> saga \<in> set (sd_sagas (sw_db w)) \<Longrightarrow> sagas_since limit s0 (w\<lparr>sw_db := put_saga saga (f saga) audit (sw_db w)\<rparr>) \<Longrightarrow>
      saga_inv limit (put_saga saga (f saga) audit (sw_db w), sw_observed w, sw_sent w) \<Longrightarrow> Q (f saga) (w\<lparr>sw_db := put_saga saga (f saga) audit (sw_db w)\<rparr>)"
  shows "hoare (tracks limit s0 K S saga) (on_db (guarded_update saga f audit)) Q (\<lambda>_. sagas_since limit s0)"
proof (rule hoareI)
  fix w w' :: "'o saga_state" and a assume t: "tracks limit s0 K S saga w" and a: "on_db (guarded_update saga f audit) w = (Inr a, w')"
  obtain db' where g: "guarded_update saga f audit (sw_db w) = (Inr a, db')" "w' = w\<lparr>sw_db := db'\<rparr>"
    using a by (auto simp: on_db_def zoomE_def split: prod.splits)
  have inv: "saga_inv limit (shared w)" "held saga (sw_db w)" using t by (simp_all add: tracks_shared_def)
  note s = guarded_success [OF inv g(1)]
  have st: "saga_step limit {} {} (shared w) (put_saga saga (f saga) audit (sw_db w), sw_observed w, sw_sent w)"
    using t assms(1) [OF s(2)] by (simp add: tracks_shared_def)
  then have "sagas_since limit s0 (w\<lparr>sw_db := put_saga saga (f saga) audit (sw_db w)\<rparr>)" using t by (auto simp: tracks_shared_def intro: run_step)
  with assms(2) [OF t s(2)] saga_step_inv [OF st inv(1)] s(1,3) g(2) show "Q a w'" by simp
next
  fix w w' :: "'o saga_state" and e assume t: "tracks limit s0 K S saga w" and a: "on_db (guarded_update saga f audit) w = (Inl e, w')"
  obtain db' where g: "guarded_update saga f audit (sw_db w) = (Inl e, db')" "w' = w\<lparr>sw_db := db'\<rparr>"
    using a by (auto simp: on_db_def zoomE_def split: prod.splits)
  have "db' = sw_db w" by (rule transaction_Inl [OF g(1) [unfolded guarded_update_def]])
  with t g(2) show "sagas_since limit s0 w'" by (simp add: tracks_shared_def)
qed

lemma held_put_self: "saga \<in> set (sd_sagas db) \<Longrightarrow> sg_saga_id r' = sg_saga_id saga \<Longrightarrow> held r' (put_saga saga r' audit db)"
  by (force simp: held_def put_saga_def)

lemma tracks_renew:
  assumes "f = (\<lambda>r. r\<lparr>sg_lease_expires_at := Some u, sg_updated_at := now\<rparr>)" and "sg_status saga = RESERVED"
  shows "hoare (tracks limit s0 K S saga) (on_db (guarded_update saga f [])) (\<lambda>saga' w. saga' = f saga \<and> tracks limit s0 K S saga' w) (\<lambda>_. sagas_since limit s0)"
proof (rule tracks_guarded)
  show "saga_step limit {} {} (db, ob, sn) (put_saga saga (f saga) [] db, ob, sn)" if "saga \<in> set (sd_sagas db)" for db ob sn
    unfolding assms(1) by (rule ss_renew [OF that assms(2)]) simp
  fix w :: "'a saga_state"
  assume "tracks limit s0 K S saga w" "saga \<in> set (sd_sagas (sw_db w))" "sagas_since limit s0 (w\<lparr>sw_db := put_saga saga (f saga) [] (sw_db w)\<rparr>)"
    "saga_inv limit (put_saga saga (f saga) [] (sw_db w), sw_observed w, sw_sent w)"
  moreover then have "held (f saga) (put_saga saga (f saga) [] (sw_db w))" by (intro held_put_self) (simp_all add: assms(1))
  ultimately show "f saga = f saga \<and> tracks limit s0 K S (f saga) (w\<lparr>sw_db := put_saga saga (f saga) [] (sw_db w)\<rparr>)"
    using assms(2) by (auto simp: tracks_shared_def known_def) (simp_all add: assms(1))
qed

lemma tracks_terminate:
  assumes "sg_status saga = RESERVED" and "\<And>sn. S \<subseteq> set sn \<Longrightarrow> may_finish limit sn saga status receipt"
  shows "hoare (tracks limit s0 K S saga) (terminate_saga rd saga status err next receipt) (\<lambda>_. sagas_since limit s0) (\<lambda>_. sagas_since limit s0)"
  unfolding terminate_saga_def
  by (rule hoare_then [OF hoare_ret]) (rule tracks_guarded, use assms in \<open>auto intro: ss_finish\<close>)

lemma tracks_fail:
  assumes "sg_status saga = RESERVED" and "limit = st_odoo_campaign_saga_retry_limit (se_settings env)"
  shows "hoare (tracks limit s0 K S saga) (saga_fail env rd saga e rejected) (\<lambda>_. sagas_since limit s0) (\<lambda>_. sagas_since limit s0)"
proof -
  have dead: "may_finish limit sn saga DEAD_LETTER receipt" for sn receipt by (simp add: may_finish_def)
  have retry: "hoare (tracks limit s0 K S saga) (retry_or_dead_letter env rd saga c) (\<lambda>_. sagas_since limit s0) (\<lambda>_. sagas_since limit s0)" for c
    unfolding retry_or_dead_letter_def using assms dead
    by (cases "sg_attempts saga < limit") (auto intro!: tracks_terminate simp: may_finish_def)
  have over: "hoare (tracks limit s0 K S saga) (terminate_saga rd saga DEAD_LETTER c None None) (\<lambda>_. sagas_since limit s0) (\<lambda>_. sagas_since limit s0)" for c
    by (rule tracks_terminate [OF assms(1) dead])
  show ?thesis unfolding saga_fail_def by (cases "retryable_error_class e") (simp_all add: over retry)
qed

lemma tracks_observe:
  assumes "sg_status saga = RESERVED"
  shows "hoare (tracks limit s0 {observation_key saga (sr_key rd)} S saga) (observe_saga rd adapter saga desired)
    (\<lambda>saga' w. claim_of saga' = claim_of saga \<and> tracks limit s0 {} S saga' w) (\<lambda>_. sagas_since limit s0)"
proof (rule hoareI)
  fix w w' :: "'a saga_state" and saga'
  assume t: "tracks limit s0 {observation_key saga (sr_key rd)} S saga w" and o: "observe_saga rd adapter saga desired w = (Inr saga', w')"
  let ?key = "observation_key saga (sr_key rd)"
  obtain obs db' where g: "guarded_update saga (observed_row rd ?key (sg_attempts saga) obs) [] (sw_db w) = (Inr saga', db')"
    and w': "w' = w\<lparr>sw_db := db', sw_observed := sw_observed w @ (case saga_readback saga' of None \<Rightarrow> [] | Some rb \<Rightarrow> [rb])\<rparr>"
    using o by (auto simp: observe_saga_def liftE_def on_db_def prog_defs split: sum.splits prod.splits)
  have inv: "saga_inv limit (shared w)" "held saga (sw_db w)" using t by (simp_all add: tracks_shared_def)
  note s = guarded_success [OF inv g]
  obtain rb where rb: "saga_readback saga' = Some rb" using s(1) by (simp add: observed_row_def saga_readback_def)
  have st: "saga_step limit {} {} (shared w) (shared w')"
    unfolding w' rb using t s rb assms by (auto simp: tracks_shared_def intro!: ss_observe [of saga, where rd = rd and obs = obs])
  have "held saga' (sw_db w')" unfolding w' s(3) using s(1,2) by (auto simp: observed_row_def intro: held_put_self)
  moreover have "known saga' (sw_observed w')" using rb by (simp add: known_def w')
  moreover have "sg_status saga' = RESERVED" "claim_of saga' = claim_of saga" using s(1) assms by (simp_all add: observed_row_def)
  ultimately show "claim_of saga' = claim_of saga \<and> tracks limit s0 {} S saga' w'"
    using t saga_step_inv [OF st inv(1)] run_step [of "saga_step limit {} {}" s0, OF _ st] by (auto simp: tracks_shared_def w')
next
  fix w w' :: "'a saga_state" and e
  assume t: "tracks limit s0 {observation_key saga (sr_key rd)} S saga w" and o: "observe_saga rd adapter saga desired w = (Inl e, w')"
  have "shared w' = shared w"
    using o transaction_Inl unfolding observe_saga_def guarded_update_def
    by (auto simp: liftE_def on_db_def prog_defs split: sum.splits prod.splits) 
  with t show "sagas_since limit s0 w'" by (simp add: tracks_shared_def)
qed

lemma hoare_dependency: "hoare P m (\<lambda>_. Q) (\<lambda>_. Q) \<Longrightarrow> hoare P (dependency m) (\<lambda>_. Q) (\<lambda>_. Q)"
  by (fastforce simp: hoare_def dependency_def prog_defs split: prod.splits sum.splits)

lemma hoare_snd: "hoare P m (\<lambda>_. Q) (\<lambda>_. Q) \<Longrightarrow> P s \<Longrightarrow> Q (snd (m s))"
  by (cases "m s"; cases "fst (m s)") (auto simp: hoare_def split: prod.splits sum.splits)

lemma tracks_call: "keeps (tracks limit s0 K S saga) (call_odoo env op payload key)"
  by (rule keepsI) (auto simp: call_odoo_def zoomE_def split: prod.split)

lemma tracks_read: "hoare (tracks limit s0 K S saga) (dependency (read_desired_state env saga)) (\<lambda>_. tracks limit s0 K S saga) (\<lambda>_. tracks limit s0 K S saga)"
proof -
  have "keeps (tracks limit s0 K S saga) (read_desired_state env saga)"
    unfolding read_desired_state_def by (intro keeps_rules tracks_call)
  then show ?thesis unfolding keeps_def by (rule hoare_dependency)
qed

lemma tracks_send:
  fixes env :: "'o saga_env"
  assumes "saga_readback saga = Some rb"
  shows "hoare (tracks limit s0 K S saga) (dependency (report_actual_state env rb)) (\<lambda>_. tracks limit s0 K (insert rb S) saga) (\<lambda>_. tracks limit s0 K (insert rb S) saga)"
proof (rule hoare_dependency)
  have key: "sg_readback_idempotency_key saga \<noteq> None" using assms by (auto simp: saga_readback_def bind_eq_Some_conv)
  have send: "hoare (tracks limit s0 K S saga) (modifyE (\<lambda>w :: 'o saga_state. w\<lparr>sw_sent := sw_sent w @ [rb]\<rparr>)) (\<lambda>_. tracks limit s0 K (insert rb S) saga) E" for E
  proof (rule hoare_pre [OF hoare_modify])
    fix w :: "'o saga_state" assume t: "tracks limit s0 K S saga w"
    have st: "saga_step limit {} {} (shared w) (sw_db w, sw_observed w, sw_sent w @ [rb])"
      using t assms key by (intro ss_send) (auto simp: tracks_shared_def known_def)
    then show "tracks limit s0 K (insert rb S) saga (w\<lparr>sw_sent := sw_sent w @ [rb]\<rparr>)"
      using t saga_step_inv [OF st] run_step [of "saga_step limit {} {}" s0, OF _ st] by (auto simp: tracks_shared_def)
  qed
  have "keeps (tracks limit s0 K (insert rb S) saga) (bindE (call_odoo env ''campaign.actual_state.write'' (readback_json env rb) (rb_idempotency_key rb))
       (\<lambda>resp. liftE (check_receipt env rb resp)))"
    by (intro keeps_rules tracks_call)
  with send show "hoare (tracks limit s0 K S saga) (report_actual_state env rb) (\<lambda>_. tracks limit s0 K (insert rb S) saga) (\<lambda>_. tracks limit s0 K (insert rb S) saga)"
    unfolding report_actual_state_def keeps_def by (intro hoare_then)
qed

lemma hoare_since: "hoare P m Q (\<lambda>_. tracks limit s0 K S saga) \<Longrightarrow> hoare P m Q (\<lambda>_. sagas_since limit s0)"
  by (erule hoare_weaken) (simp_all add: tracks_shared_def)

lemma tracks_report:
  assumes "honest_others limit K C others" and "claim_of saga \<in> C" and "sg_status saga = RESERVED"
    and "limit = st_odoo_campaign_saga_retry_limit (se_settings env)"
  shows "hoare (tracks limit s0 {} {} saga) (report_saga env others rd saga) (\<lambda>_. sagas_since limit s0) (\<lambda>_. sagas_since limit s0)"
proof -
  have raise: "hoare (tracks limit s0 {} {} saga) (raiseE c m) Q (\<lambda>_. sagas_since limit s0)" for c m Q
    by (simp add: hoare_def raiseE_def tracks_shared_def)
  show ?thesis
  proof (cases "saga_readback saga")
    case (Some rb)
    have finish: "hoare (tracks limit s0 {} {rb} saga) (case answer of Inl e \<Rightarrow> saga_fail env rd saga e ''READBACK_REJECTED''
        | Inr receipt \<Rightarrow> terminate_saga rd saga COMPLETED None None (Some receipt)) (\<lambda>_. sagas_since limit s0) (\<lambda>_. sagas_since limit s0)" for answer
    proof (cases answer)
      case (Inr receipt)
      have "hoare (tracks limit s0 {} {rb} saga) (terminate_saga rd saga COMPLETED None None (Some receipt)) (\<lambda>_. sagas_since limit s0) (\<lambda>_. sagas_since limit s0)"
        by (rule tracks_terminate [OF assms(3)]) (simp add: may_finish_def Some)
      with Inr show ?thesis by simp
    qed (simp add: tracks_fail [OF assms(3,4)])
    have await: "hoare (tracks limit s0 {} {rb} saga) (awaiting others 5) (\<lambda>_. tracks limit s0 {} {rb} saga) (\<lambda>_. sagas_since limit s0)"
      by (rule tracks_await [OF assms(1) _ assms(2)]) simp
    show ?thesis using Some raise unfolding report_saga_def
      by (auto intro!: hoare_bind [OF hoare_then [OF finish await] hoare_since] tracks_send)
  qed (simp add: report_saga_def raise)
qed

lemma hoare_case_desired:
  assumes "hoare P m Q E" and "\<And>x. hoare P (f x) Q E"
  shows "hoare P (case z of None \<Rightarrow> m | Some x \<Rightarrow> f x) Q E"
  using assms by (cases z) simp_all

lemma tracks_dispatch:
  assumes "honest_others limit {observation_key saga (sr_key rd)} {claim_of saga} others" and res: "sg_status saga = RESERVED"
    and lim: "limit = st_odoo_campaign_saga_retry_limit (se_settings env)"
  shows "hoare (tracks limit s0 {observation_key saga (sr_key rd)} {} saga) (dispatch_saga env others rd adapter saga) (\<lambda>_. sagas_since limit s0) (\<lambda>_. sagas_since limit s0)"
proof -
  let ?K = "{observation_key saga (sr_key rd)}"
  let ?f = "\<lambda>r :: saga_row. r\<lparr>sg_lease_expires_at := Some (sr_renew rd + st_odoo_campaign_saga_lease_seconds (se_settings env)), sg_updated_at := sr_renew rd\<rparr>"
  have same: "observation_key (?f saga) = observation_key saga" "claim_of (?f saga) = claim_of saga" "sg_status (?f saga) = RESERVED"
    using res by (simp_all add: observation_key_def fun_eq_iff)
  have dead: "hoare (tracks limit s0 ?K {} saga) (terminate_saga rd saga DEAD_LETTER c None None) (\<lambda>_. sagas_since limit s0) (\<lambda>_. sagas_since limit s0)" for c
    by (rule tracks_terminate [OF res]) (simp add: may_finish_def)
  have report: "hoare (\<lambda>w. claim_of saga' = claim_of saga \<and> tracks limit s0 {} {} saga' w) (report_saga env others rd saga') (\<lambda>_. sagas_since limit s0) (\<lambda>_. sagas_since limit s0)" for saga'
    using tracks_report [OF assms(1) _ _ lim, of saga'] by (auto simp: hoare_def tracks_shared_def)
  have choose: "hoare (tracks limit s0 ?K {} (?f saga)) (if has_reusable_observation (?f saga) then retE (?f saga) else observe_saga rd adapter (?f saga) desired)
      (\<lambda>saga' w. claim_of saga' = claim_of saga \<and> tracks limit s0 {} {} saga' w) (\<lambda>_. sagas_since limit s0)" for desired
  proof (cases "has_reusable_observation (?f saga)")
    case False
    have "hoare (tracks limit s0 {observation_key (?f saga) (sr_key rd)} {} (?f saga)) (observe_saga rd adapter (?f saga) desired)
        (\<lambda>saga' w. claim_of saga' = claim_of (?f saga) \<and> tracks limit s0 {} {} saga' w) (\<lambda>_. sagas_since limit s0)"
      by (rule tracks_observe [OF same(3)])
    with False show ?thesis unfolding same by simp
  qed (simp add: hoare_def retE_def tracks_shared_def)
  have await4: "hoare (tracks limit s0 ?K {} (?f saga)) (awaiting others 4) (\<lambda>_. tracks limit s0 ?K {} (?f saga)) (\<lambda>_. sagas_since limit s0)"
    by (rule tracks_await [OF assms(1)]) (simp_all add: same)
  have go: "hoare (tracks limit s0 ?K {} saga) (bindE (on_db (guarded_update saga ?f [])) (\<lambda>saga. thenE (awaiting others 4)
      (bindE (if has_reusable_observation saga then retE saga else observe_saga rd adapter saga desired) (report_saga env others rd))))
      (\<lambda>_. sagas_since limit s0) (\<lambda>_. sagas_since limit s0)" for desired
  proof (rule hoare_bind [OF _ tracks_renew [OF refl res]])
    show "hoare (\<lambda>w. saga' = ?f saga \<and> tracks limit s0 ?K {} saga' w) (thenE (awaiting others 4)
      (bindE (if has_reusable_observation saga' then retE saga' else observe_saga rd adapter saga' desired) (report_saga env others rd)))
      (\<lambda>_. sagas_since limit s0) (\<lambda>_. sagas_since limit s0)" for saga'
    proof (cases "saga' = ?f saga")
      case True
      show ?thesis unfolding True by (rule hoare_pre [OF hoare_then [OF hoare_bind [OF report choose] await4]]) simp
    qed (simp add: hoare_def)
  qed
  have await3: "hoare (tracks limit s0 ?K {} saga) (awaiting others 3) (\<lambda>_. tracks limit s0 ?K {} saga) (\<lambda>_. sagas_since limit s0)"
    by (rule tracks_await [OF assms(1)]) simp_all
  show ?thesis unfolding dispatch_saga_def
    by (rule hoare_bind [OF hoare_then [OF _ await3] hoare_since [OF tracks_read]])
      (auto intro!: hoare_case_desired dead go tracks_fail [OF res lim] split: sum.split)
qed

lemma process_saga_run:
  assumes "saga_inv limit (shared w)" and "limit = st_odoo_campaign_saga_retry_limit (se_settings env)" and at: "saga_at sid (sw_db w) = Some saga"
    and "honest_others limit {observation_key saga (sr_key rd)} {claim_of saga} others"
    and "observation_key saga (sr_key rd) \<notin> rb_idempotency_key ` set (sw_observed w)"
  shows "sagas_since limit (shared w) (snd (process_saga env others rd adapter sid w))"
proof (cases "sg_status saga = RESERVED \<and> se_build_client env saga = None")
  case True
  have mem: "saga \<in> set (sd_sagas (sw_db w))" using at unfolding saga_at_def by (auto simp: find_Some_iff)
  then have "known saga (sw_observed w)" using assms(1) by (auto simp: saga_inv_def saga_row_ok_def known_def)
  moreover have "held saga (sw_db w)" using mem by (auto simp: held_def)
  ultimately have "tracks limit (shared w) {observation_key saga (sr_key rd)} {} saga w"
    using assms(1,5) True by (simp add: tracks_shared_def run_refl)
  moreover have "process_saga env others rd adapter sid w = dispatch_saga env others rd adapter saga w"
    using at True by (simp add: process_saga_def prog_defs)
  ultimately show ?thesis using hoare_snd [OF tracks_dispatch [OF assms(4) _ assms(2)]] True by simp
qed (auto simp: process_saga_def prog_defs at run_refl split: option.split)



subsection \<open>Lost claims\<close>

definition claimed_at_least :: "uuid \<Rightarrow> nat \<Rightarrow> saga_db \<Rightarrow> bool" where
  "claimed_at_least i n db \<longleftrightarrow> (\<exists>x \<in> set (sd_sagas db). sg_saga_id x = i \<and> n \<le> sg_attempts x)"

lemma claimed_at_least_map:
  assumes "claimed_at_least i n db" and "sd_sagas db' = map f (sd_sagas db)"
    and "\<And>x. x \<in> set (sd_sagas db) \<Longrightarrow> sg_saga_id (f x) = sg_saga_id x \<and> sg_attempts x \<le> sg_attempts (f x)"
  shows "claimed_at_least i n db'"
  using assms unfolding claimed_at_least_def by (fastforce intro: order_trans)

lemma claimed_at_least_update:
  assumes "\<And>x. sg_saga_id (f x) = sg_saga_id x \<and> sg_attempts (f x) = sg_attempts x"
  shows "keeps (claimed_at_least i n) (update_sagas P f)"
proof (rule keepsI)
  fix db assume h: "claimed_at_least i n db"
  show "claimed_at_least i n (snd (update_sagas P f db))" using update_sagas_rows [of P f db]
  proof (elim disjE)
    assume "sd_sagas (snd (update_sagas P f db)) = map (\<lambda>r. if P r then f r else r) (sd_sagas db)"
    then show ?thesis by (rule claimed_at_least_map [OF h]) (simp add: assms)
  qed (use h in \<open>simp add: claimed_at_least_def\<close>)
qed

lemma claimed_at_least_put:
  assumes "claimed_at_least i n db" and "saga_inv limit (db, ob, sn)" "r \<in> set (sd_sagas db)" "sg_saga_id r' = sg_saga_id r" "sg_attempts r' = sg_attempts r"
  shows "claimed_at_least i n (put_saga r r' audit db)"
proof (rule claimed_at_least_map [OF assms(1)])
  show "sd_sagas (put_saga r r' audit db) = map (\<lambda>x. if sg_saga_id x = sg_saga_id r then r' else x) (sd_sagas db)" by (simp add: put_saga_def)
  show "sg_saga_id (if sg_saga_id x = sg_saga_id r then r' else x) = sg_saga_id x \<and> sg_attempts x \<le> sg_attempts (if sg_saga_id x = sg_saga_id r then r' else x)"
    if "x \<in> set (sd_sagas db)" for x
    using put_saga_row [OF assms(2,3) that] assms(4,5) by auto
qed

lemma claimed_at_least_step:
  assumes "saga_step limit K C s t" and "saga_inv limit s" and "claimed_at_least i n (fst s)"
  shows "claimed_at_least i n (fst t)"
  using assms
proof (induction rule: saga_step.induct)
  case (ss_claim db ob sn now locked lease)
  show ?case
  proof (cases "lease < 1 \<or> sql_first sg_created_at (claimable_saga now locked) (sd_sagas db) = None")
    case False
    then obtain r where r: "\<not> lease < 1" "sql_first sg_created_at (claimable_saga now locked) (sd_sagas db) = Some r" by auto
    have "claimed_at_least i n (snd (claim_saga now locked lease db))"
    proof (rule claimed_at_least_map)
      show "claimed_at_least i n db" using ss_claim.prems(2) by simp
      show "sd_sagas (snd (claim_saga now locked lease db)) = map (\<lambda>x. if sg_saga_id x = sg_saga_id r then reserve_saga now lease x else x) (sd_sagas db)"
        using r by (simp add: claim_saga_def prog_defs)
    qed (simp add: reserve_saga_def)
    then show ?thesis by simp
  qed (use ss_claim in \<open>auto simp: claim_saga_def prog_defs\<close>)
next
  case (ss_recover db ob sn now)
  have "keeps (claimed_at_least i n) (recover_expired_leases now limit)" unfolding recover_expired_leases_def
    by (intro keeps_rules claimed_at_least_update) (simp_all add: release_saga_def)
  with ss_recover show ?case by (simp add: keepsD)
next
  case (ss_renew r db ob sn u now)
  then show ?case unfolding fst_conv by (intro claimed_at_least_put [of i n db limit ob sn r]) auto
next
  case (ss_observe r db key ob r' rd obs rb sn)
  then show ?case unfolding fst_conv by (intro claimed_at_least_put [of i n db limit ob sn r]) (auto simp: observed_row_def)
next
  case (ss_finish r db sn status receipt ob now err "next" audit)
  then show ?case unfolding fst_conv by (intro claimed_at_least_put [of i n db limit ob sn r]) (auto simp: terminated_def Let_def)
qed (auto simp: claimed_at_least_def insert_saga_def)

lemma guarded_lost:
  assumes "saga_inv limit (db, ob, sn)" and "claimed_at_least (sg_saga_id saga) (Suc (sg_attempts saga)) db"
  shows "guarded_update saga f audit db = (Inl (Exc SagaError ''saga reservation was lost''), db)"
proof -
  obtain y where y: "y \<in> set (sd_sagas db)" "sg_saga_id y = sg_saga_id saga" "sg_attempts saga < sg_attempts y"
    using assms(2) by (auto simp: claimed_at_least_def)
  have "\<not> claimed_as saga x" if "x \<in> set (sd_sagas db)" for x
    using put_saga_row [OF assms(1) y(1) that] y(2,3) by (auto simp: claimed_as_def)
  then have "filter (claimed_as saga) (sd_sagas db) = []" "list_all (\<lambda>r. claimed_as saga r \<longrightarrow> fits_columns (f r)) (sd_sagas db)"
    by (auto simp: filter_empty_conv list_all_iff)
  then show ?thesis by (simp add: guarded_update_def update_sagas_def transaction_def prog_defs)
qed

definition quiet :: saga_others where
  "quiet n s = s"

lemma awaiting_quiet [simp]: "awaiting quiet n w = (Inr (), w)"
  by (simp add: awaiting_def quiet_def modifyE_def)

lemma keeps_quiet: "keeps I (awaiting quiet n)"
  by (rule keepsI) simp

lemma claim_saga_Some:
  assumes "claim_saga now locked lease db = (Inr (Some saga), db')"
  obtains r where "r \<in> set (sd_sagas db)" and "saga = reserve_saga now lease r" and "saga \<in> set (sd_sagas db')"
proof -
  obtain r where r: "sql_first sg_created_at (claimable_saga now locked) (sd_sagas db) = Some r" "saga = reserve_saga now lease r"
    "db' = db\<lparr>sd_sagas := map (\<lambda>x. if sg_saga_id x = sg_saga_id r then reserve_saga now lease x else x) (sd_sagas db)\<rparr>"
    using assms by (auto simp: claim_saga_def prog_defs split: if_splits option.splits)
  with sql_first_Some(1) [OF r(1)] show ?thesis by (intro that [of r]) auto
qed

text \<open>A dispatch none of whose guarded writes can succeed.\<close>

lemma inert_dispatch:
  assumes lost: "\<And>f audit. guarded_update saga f audit (sw_db w) = (Inl (Exc SagaError ''saga reservation was lost''), sw_db w)"
  shows "\<exists>e o'. dispatch_saga env quiet rd adapter saga w = (Inl e, w\<lparr>sw_odoo := o'\<rparr>)"
proof -
  obtain res o' where q: "se_request env ''desired_state.read'' (saga_scope saga) (''desired-state:'' @ sg_campaign_public_id saga) (sw_odoo w) = (res, o')"
    by fastforce
  let ?w = "w\<lparr>sw_odoo := o'\<rparr>"
  have g: "on_db (guarded_update saga f audit) ?w = (Inl (Exc SagaError ''saga reservation was lost''), ?w)" for f audit
    using lost by (simp add: on_db_def zoomE_def)
  then have t: "terminate_saga rd saga st err nx rc ?w = (Inl (Exc SagaError ''saga reservation was lost''), ?w)" for st err nx rc
    by (simp add: terminate_saga_def prog_defs)
  then have fail: "saga_fail env rd saga e rej ?w = (Inl (Exc SagaError ''saga reservation was lost''), ?w)" for e rej
    by (simp add: saga_fail_def retry_or_dead_letter_def split: option.split)
  obtain answer where read: "read_desired_state env saga w = (answer, ?w)"
    using q by (cases res) (simp_all add: read_desired_state_def call_odoo_def prog_defs liftE_run)
  show ?thesis
  proof (cases answer)
    case (Inl e)
    then show ?thesis using read fail by (simp add: dispatch_saga_def dependency_def prog_defs) blast
  next
    case (Inr body)
    then show ?thesis using read t g by (auto simp: dispatch_saga_def dependency_def prog_defs split: option.split)
  qed
qed


subsection \<open>Stale commands\<close>

lemma sent_terminate: "keeps (\<lambda>w. sw_sent w = X) (terminate_saga rd saga st err nx rc)"
  by (rule keepsI) (auto simp: terminate_saga_def on_db_def prog_defs split: prod.split sum.split)

lemma sent_fail: "keeps (\<lambda>w. sw_sent w = X) (saga_fail env rd saga e rej)"
  unfolding saga_fail_def retry_or_dead_letter_def by (intro keeps_rules sent_terminate)

text \<open>The readback of a row says what the row says.\<close>

definition reports :: "saga_row \<Rightarrow> readback \<Rightarrow> bool" where
  "reports saga rb \<longleftrightarrow> rb_event_uuid rb = sg_event_uuid saga \<and> rb_campaign_public_id rb = sg_campaign_public_id saga
     \<and> rb_configuration_version rb = sg_configuration_version saga \<and> rb_manifest_hash rb = sg_manifest_hash saga"

lemma readback_reports: "saga_readback saga = Some rb \<Longrightarrow> reports saga rb"
  by (auto simp: saga_readback_def reports_def bind_eq_Some_conv)

lemma report_sends_once:
  "sw_sent (snd (report_saga env quiet rd saga w)) = sw_sent w \<or> (\<exists>rb. reports saga rb \<and> sw_sent (snd (report_saga env quiet rd saga w)) = sw_sent w @ [rb])"
proof (cases "saga_readback saga")
  case (Some rb)
  show ?thesis
  proof (cases "valid_readback rb")
    case True
    have "keeps (\<lambda>w. sw_sent w = X) (bindE (call_odoo env op p k) (\<lambda>resp. liftE (g resp)))" for X op p k g
      by (intro keeps_rules keepsI) (auto simp: call_odoo_def zoomE_def split: prod.split)
    then have "hoare (\<lambda>v. sw_sent v = sw_sent w) (report_actual_state env rb) (\<lambda>_ v. sw_sent v = sw_sent w @ [rb]) (\<lambda>_ v. sw_sent v = sw_sent w @ [rb])"
      unfolding report_actual_state_def keeps_def
      by (intro hoare_then [of "\<lambda>v. sw_sent v = sw_sent w @ [rb]"]) (simp_all add: hoare_def modifyE_def)
    note send = hoare_dependency [OF this]
    have "keeps (\<lambda>v. sw_sent v = sw_sent w @ [rb]) (thenE (awaiting quiet 5) (case answer of Inl e \<Rightarrow> saga_fail env rd saga e ''READBACK_REJECTED''
        | Inr receipt \<Rightarrow> terminate_saga rd saga COMPLETED None None (Some receipt)))" for answer
      by (cases answer) (auto intro!: keeps_rules keeps_quiet sent_fail sent_terminate)
    note finish = this [unfolded keeps_def]
    from hoare_snd [OF hoare_bind [OF finish send], of w] True Some readback_reports [OF Some] show ?thesis
      by (auto simp: report_saga_def)
  qed (simp add: report_saga_def Some raiseE_def)
qed (simp add: report_saga_def raiseE_def)

lemma guarded_mirror: "guarded_update saga f audit db = (Inr s', db') \<Longrightarrow> s' = f saga"
  by (auto simp: guarded_update_def transaction_Inr prog_defs split: if_splits prod.splits sum.splits)

lemma observe_silent:
  assumes "observe_saga rd adapter saga desired w = (r, w')"
  shows "sw_sent w' = sw_sent w" and "r = Inr saga' \<Longrightarrow> reports saga' = reports saga"
  using assms by (auto simp: observe_saga_def on_db_def liftE_def prog_defs reports_def fun_eq_iff observed_row_def dest!: guarded_mirror split: sum.splits prod.splits)

definition report_stage :: "'o saga_env \<Rightarrow> saga_reading \<Rightarrow> campaign_adapter \<Rightarrow> saga_row \<Rightarrow> desired_state \<Rightarrow> ('o saga_state, saga_result) prog" where
  "report_stage env rd adapter saga desired =
     bindE (on_db (guarded_update saga (\<lambda>r. r\<lparr>sg_lease_expires_at := Some (sr_renew rd + st_odoo_campaign_saga_lease_seconds (se_settings env)),
         sg_updated_at := sr_renew rd\<rparr>) [])) (\<lambda>saga.
     thenE (awaiting quiet 4)
       (bindE (if has_reusable_observation saga then retE saga else observe_saga rd adapter saga desired) (report_saga env quiet rd)))"

lemma report_stage_sends:
  "sw_sent (snd (report_stage env rd adapter saga desired w)) = sw_sent w
    \<or> (\<exists>rb. reports saga rb \<and> sw_sent (snd (report_stage env rd adapter saga desired w)) = sw_sent w @ [rb])"
proof -
  let ?f = "\<lambda>r :: saga_row. r\<lparr>sg_lease_expires_at := Some (sr_renew rd + st_odoo_campaign_saga_lease_seconds (se_settings env)), sg_updated_at := sr_renew rd\<rparr>"
  obtain g db' where g: "guarded_update saga ?f [] (sw_db w) = (g, db')" by fastforce
  let ?w = "w\<lparr>sw_db := db'\<rparr>"
  show ?thesis
  proof (cases g)
    case (Inl e)
    then show ?thesis using g by (simp add: report_stage_def on_db_def prog_defs)
  next
    case (Inr saga1)
    have "saga1 = ?f saga" by (rule guarded_mirror [OF g [unfolded Inr]])
    then have s1: "reports saga1 = reports saga" by (simp add: reports_def fun_eq_iff)
    obtain r w2 where c: "(if has_reusable_observation saga1 then retE saga1 else observe_saga rd adapter saga1 desired) ?w = (r, w2)" by fastforce
    have w2: "sw_sent w2 = sw_sent w" "\<And>saga2. r = Inr saga2 \<Longrightarrow> reports saga2 = reports saga"
      using c observe_silent [of rd adapter saga1 desired ?w r w2] s1 by (auto simp: retE_def split: if_splits)
    have "report_stage env rd adapter saga desired w = (case r of Inl e \<Rightarrow> (Inl e, w2) | Inr saga2 \<Rightarrow> report_saga env quiet rd saga2 w2)"
      using g Inr c by (simp add: report_stage_def on_db_def prog_defs)
    then show ?thesis using w2 report_sends_once [of env rd "projr r" w2] by (cases r) auto
  qed
qed

text \<open>
  C21. A dispatch sends at most one readback, and only when Odoo, asked in this very dispatch,
  desires exactly the configuration version and manifest of the saga, for its campaign; the
  readback reports that version and manifest. A stale or mismatched command reaches neither the
  adapter's observation nor Odoo's write route.
\<close>

theorem readback_needs_current_version:
  assumes "process_saga env quiet rd adapter sid w = (res, w')" and "sw_sent w' \<noteq> sw_sent w"
  shows "\<exists>saga resp body desired a. saga_at sid (sw_db w) = Some saga \<and> sg_status saga = RESERVED
    \<and> se_request env ''desired_state.read'' (saga_scope saga) (''desired-state:'' @ sg_campaign_public_id saga) (sw_odoo w) = (Inr resp, a)
    \<and> decode_response resp ''desired_state.read'' = Inr body \<and> validate_desired_state env body = Some desired
    \<and> ds_campaign_public_id desired = sg_campaign_public_id saga \<and> ds_configuration_version desired = sg_configuration_version saga
    \<and> ds_manifest_hash desired = sg_manifest_hash saga \<and> (\<exists>rb. reports saga rb \<and> sw_sent w' = sw_sent w @ [rb])"
proof -
  have w': "w' = snd (process_saga env quiet rd adapter sid w)" using assms(1) by simp
  obtain saga where saga: "saga_at sid (sw_db w) = Some saga" "sg_status saga = RESERVED" "se_build_client env saga = None"
      and d: "w' = snd (dispatch_saga env quiet rd adapter saga w)"
    using assms(2) unfolding w' by (auto simp: process_saga_def prog_defs split: option.splits if_splits)
  obtain res0 o0 where q: "se_request env ''desired_state.read'' (saga_scope saga) (''desired-state:'' @ sg_campaign_public_id saga) (sw_odoo w) = (res0, o0)"
    by fastforce
  let ?w = "w\<lparr>sw_odoo := o0\<rparr>"
  have keep: "sw_sent (snd (terminate_saga rd saga st err nx rc ?w)) = sw_sent w" "sw_sent (snd (saga_fail env rd saga e rej ?w)) = sw_sent w" for st err nx rc e rej
    using keepsD [OF sent_terminate, of ?w "sw_sent w"] keepsD [OF sent_fail, of ?w "sw_sent w"] by simp_all
  have read: "read_desired_state env saga w = (case res0 of Inl e \<Rightarrow> Inl e | Inr resp \<Rightarrow> decode_response resp ''desired_state.read'', ?w)"
    using q by (cases res0) (simp_all add: read_desired_state_def call_odoo_def prog_defs liftE_run)
  obtain resp body where resp: "res0 = Inr resp" "decode_response resp ''desired_state.read'' = Inr body"
    using assms(2) unfolding d dispatch_saga_def dependency_def
    by (cases "case res0 of Inl e \<Rightarrow> Inl e | Inr resp \<Rightarrow> decode_response resp ''desired_state.read''")
      (auto simp: prog_defs read keep split: if_splits sum.splits)
  obtain desired where des: "validate_desired_state env body = Some desired" "ds_campaign_public_id desired = sg_campaign_public_id saga"
      "ds_configuration_version desired = sg_configuration_version saga" "ds_manifest_hash desired = sg_manifest_hash saga"
    using assms(2) unfolding d dispatch_saga_def dependency_def
    by (cases "validate_desired_state env body") (auto simp: prog_defs read resp keep split: if_splits)
  have "w' = snd (report_stage env rd adapter saga desired ?w)"
    unfolding d dispatch_saga_def dependency_def report_stage_def by (simp add: prog_defs read resp des)
  then have "\<exists>rb. reports saga rb \<and> sw_sent w' = sw_sent w @ [rb]" using report_stage_sends [of env rd adapter saga desired ?w] assms(2) by simp
  with saga(1,2) q resp des show ?thesis by blast
qed

subsection \<open>An event that blocks the worker\<close>

text \<open>A control event the model accepts and the column cannot hold.\<close>

definition oversized_event :: "'o saga_env \<Rightarrow> integration_event \<Rightarrow> bool" where
  "oversized_event env e \<longleftrightarrow> (case validate_control_event env (ie_payload_json e) of None \<Rightarrow> False | Some c \<Rightarrow> 2 ^ 31 \<le> cc_configuration_version c)"

lemma saga_for_event_cases:
  assumes "ie_event_type e \<in> set ALLOWED_EVENT_TYPES"
  obtains r where "saga_for_event env sid now e = Inr r" and "sg_integration_event_id r = ie_id e" and "sg_status r \<noteq> RESERVED"
    and "oversized_event env e \<Longrightarrow> \<not> fits_columns r"
proof -
  obtain op where op: "map_of OPERATION_BY_EVENT_TYPE (ie_event_type e) = Some op"
    using assms by (auto simp: ALLOWED_EVENT_TYPES_def OPERATION_BY_EVENT_TYPE_def)
  show ?thesis
  proof (cases "validate_control_event env (ie_payload_json e)")
    case None
    then show ?thesis using op by (intro that [of "projr (saga_for_event env sid now e)"]) (simp_all add: saga_for_event_def Let_def new_saga_def saga_identity.defs saga_row.defs oversized_event_def)
  next
    case (Some c)
    then show ?thesis using op
      by (intro that [of "projr (saga_for_event env sid now e)"]) (simp_all add: saga_for_event_def Let_def new_saga_def saga_identity.defs saga_row.defs oversized_event_def fits_columns_def)
  qed
qed

lemma saga_rows_of_events:
  assumes "\<forall>e \<in> set es. ie_event_type e \<in> set ALLOWED_EVENT_TYPES"
  shows "\<exists>rows. saga_rows env rd n es = Inr rows \<and> map sg_integration_event_id rows = map ie_id es \<and> (\<forall>r \<in> set rows. sg_status r \<noteq> RESERVED)
    \<and> (\<forall>e \<in> set es. oversized_event env e \<longrightarrow> (\<exists>r \<in> set rows. sg_integration_event_id r = ie_id e \<and> \<not> fits_columns r))"
  using assms
proof (induction es arbitrary: n)
  case (Cons e es)
  obtain r where r: "saga_for_event env (sr_saga_id rd n) (sr_created rd n) e = Inr r" "sg_integration_event_id r = ie_id e" "sg_status r \<noteq> RESERVED"
      "oversized_event env e \<Longrightarrow> \<not> fits_columns r"
    using Cons.prems saga_for_event_cases [of e env "sr_saga_id rd n" "sr_created rd n"] by auto
  obtain rows where "saga_rows env rd (Suc n) es = Inr rows" "map sg_integration_event_id rows = map ie_id es" "\<forall>r \<in> set rows. sg_status r \<noteq> RESERVED"
      "\<forall>e \<in> set es. oversized_event env e \<longrightarrow> (\<exists>r \<in> set rows. sg_integration_event_id r = ie_id e \<and> \<not> fits_columns r)"
    using Cons.IH [of "Suc n"] Cons.prems by auto
  with r show ?case by (intro exI [of _ "r # rows"]) auto
qed simp

lemma enroll_rows_blocked:
  assumes "\<exists>r \<in> set rows. \<not> fits_columns r"
  shows "\<exists>db' new. enroll_rows quiet n k rows w = (Inl (Exc DBAPIError ''value does not fit the column''), w\<lparr>sw_db := db'\<rparr>)
    \<and> sd_events db' = sd_events (sw_db w) \<and> sd_sagas db' = sd_sagas (sw_db w) @ new \<and> set new \<subseteq> {r \<in> set rows. fits_columns r}"
  using assms
proof (induction rows arbitrary: n k w)
  case (Cons r rows)
  show ?case
  proof (cases "fits_columns r")
    case False
    then show ?thesis by (intro exI [of _ "sw_db w"] exI [of _ "[]"]) (simp add: insert_saga_def on_db_def prog_defs saga_errors)
  next
    case True
    then have rest: "\<exists>r \<in> set rows. \<not> fits_columns r" using Cons.prems by auto
    define dup where "dup = list_ex (\<lambda>x. sg_saga_id x = sg_saga_id r \<or> sg_integration_event_id x = sg_integration_event_id r) (sd_sagas (sw_db w))"
    define w1 where "w1 = (if dup then w else w\<lparr>sw_db := (sw_db w)\<lparr>sd_sagas := sd_sagas (sw_db w) @ [r], sd_audit := sd_audit (sw_db w) @ [enrollment_audit r]\<rparr>\<rparr>)"
    have step: "enroll_rows quiet n k (r # rows) w = enroll_rows quiet (Suc n) (k + (if dup then 0 else 1)) rows w1"
      using True by (simp add: insert_saga_def on_db_def prog_defs dup_def w1_def)
    obtain db' new where ih: "enroll_rows quiet (Suc n) (k + (if dup then 0 else 1)) rows w1
        = (Inl (Exc DBAPIError ''value does not fit the column''), w1\<lparr>sw_db := db'\<rparr>)"
        "sd_events db' = sd_events (sw_db w1)" "sd_sagas db' = sd_sagas (sw_db w1) @ new" "set new \<subseteq> {r \<in> set rows. fits_columns r}"
      using Cons.IH [OF rest, of "Suc n" "k + (if dup then 0 else 1)" w1] by blast
    show ?thesis
      by (rule exI [of _ db'], rule exI [of _ "(if dup then [] else [r]) @ new"]) (use True ih in \<open>auto simp: step w1_def simp del: enroll_rows.simps\<close>)
  qed
qed simp

lemma take_filter_mem: "x \<in> set (take n xs) \<Longrightarrow> P x \<Longrightarrow> x \<in> set (take n (filter P xs))"
proof (induction xs arbitrary: n)
  case (Cons y ys)
  then obtain m where n: "n = Suc m" by (cases n) auto
  show ?case
  proof (cases "x \<in> set (take m ys)")
    case True
    with Cons.IH [OF True] Cons.prems(2) n show ?thesis by (auto dest: in_set_takeD simp: take_Cons') (metis Suc_le_eq diff_Suc_1 set_take_subset_set_take in_mono less_imp_le_nat lessI)
  qed (use Cons.prems n in auto)
qed simp

lemma pending_stays:
  assumes "e \<in> set (pending_events n db)" and "sd_events db' = sd_events db"
    and "sg_integration_event_id ` set (sd_sagas db) \<subseteq> sg_integration_event_id ` set (sd_sagas db')"
    and "ie_id e \<notin> sg_integration_event_id ` set (sd_sagas db')"
  shows "e \<in> set (pending_events n db')"
proof -
  let ?en = "\<lambda>db x. list_ex (\<lambda>r. sg_integration_event_id r = ie_id x) (sd_sagas db)"
  have "filter (\<lambda>x. ie_source_system x = ''odoo'' \<and> ie_event_type x \<in> set ALLOWED_EVENT_TYPES \<and> ie_state x = ''accepted'' \<and> \<not> ?en db' x) (sd_events db)
      = filter (\<lambda>x. \<not> ?en db' x) (filter (\<lambda>x. ie_source_system x = ''odoo'' \<and> ie_event_type x \<in> set ALLOWED_EVENT_TYPES
          \<and> ie_state x = ''accepted'' \<and> \<not> ?en db x) (sd_events db))"
    using assms(3) by (fastforce simp: list_ex_iff intro: filter_cong)
  then have "pending_events n db' = take n (filter (\<lambda>x. \<not> ?en db' x) (sort_key ie_id (filter (\<lambda>x. ie_source_system x = ''odoo''
      \<and> ie_event_type x \<in> set ALLOWED_EVENT_TYPES \<and> ie_state x = ''accepted'' \<and> \<not> ?en db x) (sd_events db))))"
    unfolding pending_events_def assms(2) by (simp only: filter_sort)
  moreover have "\<not> ?en db' e" using assms(4) unfolding list_ex_iff by (metis image_eqI)
  ultimately show ?thesis using assms(1) take_filter_mem unfolding pending_events_def by fastforce
qed

lemma pending_distinct: "distinct (map ie_id (sd_events db)) \<Longrightarrow> distinct (map ie_id (pending_events n db))"
proof -
  assume d: "distinct (map ie_id (sd_events db))"
  have "set (pending_events n db) \<subseteq> set (sd_events db)" by (auto simp: pending_events_def dest!: in_set_takeD)
  then have "inj_on ie_id (set (pending_events n db))" using d by (auto simp: distinct_map intro: inj_on_subset)
  moreover have "distinct (pending_events n db)" using d by (auto simp: pending_events_def distinct_map)
  ultimately show ?thesis by (simp add: distinct_map)
qed

lemma update_sagas_outcome:
  "update_sagas P f db = (Inl (Exc DBAPIError ''value does not fit the column''), db)
    \<or> (\<exists>k. update_sagas P f db = (Inr k, db\<lparr>sd_sagas := map (\<lambda>r. if P r then f r else r) (sd_sagas db)\<rparr>))"
  by (simp add: update_sagas_def)

lemma recover_outcome:
  assumes "1 \<le> limit"
  shows "recover_expired_leases now limit db = (Inl (Exc DBAPIError ''value does not fit the column''), db)
    \<or> (\<exists>k db'. recover_expired_leases now limit db = (Inr k, db') \<and> sd_events db' = sd_events db
        \<and> map sg_integration_event_id (sd_sagas db') = map sg_integration_event_id (sd_sagas db)
        \<and> (\<forall>r \<in> set (sd_sagas db'). sg_status r = RESERVED \<longrightarrow> r \<in> set (sd_sagas db)))"
proof -
  let ?f = "\<lambda>r. if expired_lease now r \<and> limit \<le> sg_attempts r then release_saga now DEAD_LETTER None ''LEASE_EXPIRED'' r else r"
  let ?g = "\<lambda>r. if expired_lease now r \<and> sg_attempts r < limit then release_saga now RETRY (Some now) ''LEASE_EXPIRED_RECOVERED'' r else r"
  let ?db1 = "db\<lparr>sd_sagas := map ?f (sd_sagas db)\<rparr>"
  define db2 where "db2 = ?db1\<lparr>sd_sagas := map ?g (sd_sagas ?db1)\<rparr>"
  have rows: "sd_sagas db2 = map ?g (map ?f (sd_sagas db))" "sd_events db2 = sd_events db" by (simp_all add: db2_def)
  have "recover_expired_leases now limit db = (Inl (Exc DBAPIError ''value does not fit the column''), db)
    \<or> (\<exists>k. recover_expired_leases now limit db = (Inr k, db2))" unfolding db2_def
    using update_sagas_outcome [of "\<lambda>r. expired_lease now r \<and> limit \<le> sg_attempts r" "release_saga now DEAD_LETTER None ''LEASE_EXPIRED''" db]
      update_sagas_outcome [of "\<lambda>r. expired_lease now r \<and> sg_attempts r < limit" "release_saga now RETRY (Some now) ''LEASE_EXPIRED_RECOVERED''" ?db1] assms
    by (elim disjE exE) (simp_all add: recover_expired_leases_def transaction_def bindE_def retE_def)
  moreover have "map sg_integration_event_id (sd_sagas db2) = map sg_integration_event_id (sd_sagas db)"
    unfolding rows by (simp add: release_saga_def)
  moreover have "\<forall>r \<in> set (sd_sagas db2). sg_status r = RESERVED \<longrightarrow> r \<in> set (sd_sagas db)"
    unfolding rows by (auto simp: release_saga_def split: if_splits)
  ultimately show ?thesis using rows(2) by blast
qed

text \<open>
  C40. One event can stop the saga worker. A control event is accepted with any non-negative
  configuration version, but the column is a 32 bit integer, and the enrollment only expects a
  violated constraint. While an accepted event with a version of \<open>2 ^ 31\<close> or more is among
  the next fifty, every cycle raises before it claims a saga: nothing is dispatched and nothing is read from or
  reported to Odoo, and the event is still pending after the cycle, so that the next one raises again.
\<close>

theorem oversized_version_blocks_cycle:
  assumes "st_odoo_campaign_saga_enabled (se_settings env)" and "validate_worker_settings (se_settings env) = Inr ()"
    and "distinct (map ie_id (sd_events (sw_db w)))" and "e \<in> set (pending_events 50 (sw_db w))" and "oversized_event env e"
    and "saga_cycle env quiet rd w = (res, w')"
  shows "res = Inl (Exc DBAPIError ''value does not fit the column'') \<and> sw_odoo w' = sw_odoo w \<and> sw_sent w' = sw_sent w
    \<and> (\<forall>r \<in> set (sd_sagas (sw_db w')). sg_status r = RESERVED \<longrightarrow> r \<in> set (sd_sagas (sw_db w))) \<and> e \<in> set (pending_events 50 (sw_db w'))"
proof -
  let ?limit = "st_odoo_campaign_saga_retry_limit (se_settings env)" and ?err = "Exc DBAPIError ''value does not fit the column''"
  have lim: "1 \<le> ?limit" and ad: "adapter_for (se_settings env) = Inr synthetic_apply"
    using assms(2) by (auto simp: validate_worker_settings_def adapter_for_def split: if_splits)
  from recover_outcome [OF lim, of "sr_recover rd" "sw_db w"] show ?thesis
  proof (elim disjE exE conjE)
    assume "recover_expired_leases (sr_recover rd) ?limit (sw_db w) = (Inl ?err, sw_db w)"
    then have "saga_cycle env quiet rd w = (Inl ?err, w)" using assms(1,2) ad by (simp add: saga_cycle_def on_db_def prog_defs liftE_def Let_def)
    then show ?thesis using assms(4,6) by auto
  next
    fix k db1 assume r1: "recover_expired_leases (sr_recover rd) ?limit (sw_db w) = (Inr k, db1)" "sd_events db1 = sd_events (sw_db w)"
      "map sg_integration_event_id (sd_sagas db1) = map sg_integration_event_id (sd_sagas (sw_db w))"
      "\<forall>r \<in> set (sd_sagas db1). sg_status r = RESERVED \<longrightarrow> r \<in> set (sd_sagas (sw_db w))"
    let ?w = "w\<lparr>sw_db := db1\<rparr>"
    have ids: "sg_integration_event_id ` set (sd_sagas db1) = sg_integration_event_id ` set (sd_sagas (sw_db w))"
      using arg_cong [OF r1(3), of set] by simp
    have new: "ie_id e \<notin> sg_integration_event_id ` set (sd_sagas db1)" unfolding ids
      using assms(4) by (auto simp: pending_events_def list_ex_iff dest!: in_set_takeD)
    have p: "e \<in> set (pending_events 50 db1)" by (rule pending_stays [OF assms(4) r1(2) _ new]) (simp add: ids)
    let ?es = "pending_events 50 db1"
    have "\<forall>e \<in> set ?es. ie_event_type e \<in> set ALLOWED_EVENT_TYPES" by (auto simp: pending_events_def dest!: in_set_takeD)
    from saga_rows_of_events [OF this, of env rd 0] obtain rows where rows: "saga_rows env rd 0 ?es = Inr rows"
      "map sg_integration_event_id rows = map ie_id ?es" "\<forall>r \<in> set rows. sg_status r \<noteq> RESERVED"
      "\<forall>e \<in> set ?es. oversized_event env e \<longrightarrow> (\<exists>r \<in> set rows. sg_integration_event_id r = ie_id e \<and> \<not> fits_columns r)" by blast
    obtain r where r: "r \<in> set rows" "sg_integration_event_id r = ie_id e" "\<not> fits_columns r" using rows(4) p assms(5) by blast
    obtain db2 new where en: "enroll_rows quiet 10 0 rows ?w = (Inl ?err, ?w\<lparr>sw_db := db2\<rparr>)" "sd_events db2 = sd_events db1"
        "sd_sagas db2 = sd_sagas db1 @ new" "set new \<subseteq> {r \<in> set rows. fits_columns r}"
      using enroll_rows_blocked [of rows 10 0 ?w] r by auto
    have "saga_cycle env quiet rd w = (Inl ?err, ?w\<lparr>sw_db := db2\<rparr>)"
      using assms(1,2) ad r1(1) rows(1) en(1) by (simp add: saga_cycle_def enroll_pending_sagas_def on_db_def prog_defs liftE_def Let_def)
    then have out: "res = Inl ?err" "w' = w\<lparr>sw_db := db2\<rparr>" using assms(6) by auto
    have "distinct (map ie_id ?es)" using assms(3) r1(2) by (simp add: pending_distinct)
    then have inj: "inj_on sg_integration_event_id (set rows)" using rows(2) by (metis distinct_map)
    have "ie_id e \<notin> sg_integration_event_id ` set new"
      using en(4) r inj by (force dest: inj_onD)
    then have "e \<in> set (pending_events 50 db2)"
      using new en(2,3) by (intro pending_stays [OF p]) auto
    moreover have "\<forall>r \<in> set (sd_sagas db2). sg_status r = RESERVED \<longrightarrow> r \<in> set (sd_sagas (sw_db w))"
      using r1(4) en(3,4) rows(3) by auto
    ultimately show ?thesis using out by simp
  qed
qed

subsection \<open>A concrete run\<close>

definition sample_settings :: saga_settings where
  "sample_settings = \<lparr>st_environment = ''production'', st_odoo_campaign_saga_enabled = True, st_odoo_campaign_saga_adapter = ''synthetic'',
     st_odoo_campaign_saga_lease_seconds = 90, st_odoo_campaign_saga_retry_limit = 3\<rparr>"

definition sample_payload :: "int \<Rightarrow> json_object" where
  "sample_payload v = [(''command_id'', JStr ''c1''), (''organization_public_id'', JStr ''O''), (''business_unit_public_id'', JStr ''B''),
     (''campaign_public_id'', JStr ''C''), (''configuration_version'', JInt v), (''manifest_ref'', JStr ''m''), (''manifest_hash'', JStr ''h'')]"

definition sample_odoo :: "string \<Rightarrow> json_object \<Rightarrow> string \<Rightarrow> (unit, odoo_response) prog" where
  "sample_odoo op payload key = retE (if op = ''desired_state.read''
     then \<lparr>hr_status_code = 200, hr_json = Some (JObj ((''desired_state'', JStr ''active'') # sample_payload 3))\<rparr>
     else \<lparr>hr_status_code = 201, hr_json = Some (JObj ([(''status'', JStr ''APPLIED''), (''readback_id'', JStr ''rb1'')] @ payload))\<rparr>)"

definition sample_env :: "unit saga_env" where
  "sample_env = \<lparr>se_settings = sample_settings, se_lax_int = (\<lambda>v. case v of JInt i \<Rightarrow> Some i | _ \<Rightarrow> None), se_str = (\<lambda>_. []),
     se_isoformat = (\<lambda>_. []), se_build_client = (\<lambda>_. None), se_request = sample_odoo\<rparr>"

definition sample_event :: "int \<Rightarrow> integration_event" where
  "sample_event v = \<lparr>ie_id = 1, ie_event_type = ''campaign.activate.requested.v1'', ie_original_event_id = ''e1'', ie_source_system = ''odoo'',
     ie_correlation_id = ''k1'', ie_payload_json = JObj (sample_payload v), ie_state = ''accepted''\<rparr>"

definition sample_saga :: saga_row where
  "sample_saga = projr (saga_for_event sample_env 7 0 (sample_event 3))"

definition sample_sagas :: saga_db where
  "sample_sagas = \<lparr>sd_events = [sample_event 3], sd_sagas = [sample_saga], sd_audit = [enrollment_audit sample_saga]\<rparr>"

definition sample_rd :: saga_reading where
  "sample_rd = \<lparr>sr_recover = 0, sr_saga_id = (\<lambda>_. 7), sr_created = (\<lambda>_. 0), sr_claim = 1, sr_locked = [], sr_renew = 2, sr_observed = 2,
     sr_key = 9, sr_stored = 3, sr_retry = 3, sr_finish = 4\<rparr>"

definition sample_claimed :: "unit saga_state" where
  "sample_claimed = \<lparr>sw_db = snd (claim_saga 1 [] 90 sample_sagas), sw_observed = [], sw_sent = [], sw_odoo = ()\<rparr>"

lemma sample_saga_enrolled:
  "run (saga_step 3 K C) (\<lparr>sd_events = [sample_event 3], sd_sagas = [], sd_audit = []\<rparr>, [], []) (\<lparr>sd_events = [sample_event 3], sd_sagas = [sample_saga],
     sd_audit = [enrollment_audit sample_saga]\<rparr>, [], [])"
proof -
  have new: "sample_saga = new_saga (saga_identity.truncate sample_saga) PENDING None 0" by code_simp
  have "fits_columns sample_saga" by code_simp
  then have "insert_saga sample_saga \<lparr>sd_events = [sample_event 3], sd_sagas = [], sd_audit = []\<rparr>
      = (Inr (), \<lparr>sd_events = [sample_event 3], sd_sagas = [sample_saga], sd_audit = [enrollment_audit sample_saga]\<rparr>)"
    by (simp add: insert_saga_def)
  moreover have "saga_step 3 K C (\<lparr>sd_events = [sample_event 3], sd_sagas = [], sd_audit = []\<rparr>, [], [])
      (snd (insert_saga sample_saga \<lparr>sd_events = [sample_event 3], sd_sagas = [], sd_audit = []\<rparr>), [], [])"
    using ss_enroll [of PENDING 3 K C _ "[]" "[]" "saga_identity.truncate sample_saga" None 0, folded new] by simp
  ultimately show ?thesis by (auto intro: run_step [OF run_refl])
qed

lemma sample_sagas_reach: "reach saga_init (saga_step 3 {} {}) (sample_sagas, [], [])"
  using reach_run [OF reach_init sample_saga_enrolled [of "{}" "{}"], of saga_init] by (simp add: saga_init_def sample_sagas_def)

lemma sample_claimed_reach: "reach saga_init (saga_step 3 {} {}) (sw_db sample_claimed, sw_observed sample_claimed, sw_sent sample_claimed)"
  using reach_step [OF sample_sagas_reach ss_claim [where now = 1 and locked = "[]" and lease = 90]] by (simp add: sample_claimed_def)

lemma quiet_honest: "honest_others limit K C quiet"
  by (simp add: honest_others_def quiet_def run_refl)

lemma sample_dispatch_sends: "map rb_effective_state (sw_sent (snd (process_saga sample_env quiet sample_rd synthetic_apply 7 sample_claimed))) = [''active'']"
  by code_simp

lemma sample_dispatch_completes: "map sg_status (sd_sagas (sw_db (snd (process_saga sample_env quiet sample_rd synthetic_apply 7 sample_claimed)))) = [COMPLETED]"
  by code_simp

lemma sample_run:
  "run (saga_step 3 {} {}) (sw_db sample_claimed, sw_observed sample_claimed, sw_sent sample_claimed)
     (shared (snd (process_saga sample_env quiet sample_rd synthetic_apply 7 sample_claimed)))"
proof -
  have "saga_at 7 (sw_db sample_claimed) \<noteq> None" by code_simp
  then obtain saga where "saga_at 7 (sw_db sample_claimed) = Some saga" by blast
  then show ?thesis
    by (intro process_saga_run [OF sgm.reach_inv [OF sample_claimed_reach]])
      (simp_all add: sample_env_def sample_settings_def quiet_honest sample_claimed_def)
qed




theorem readback_needs_current_version_witness:
  "\<exists>res w' saga rb. process_saga sample_env quiet sample_rd synthetic_apply 7 sample_claimed = (res, w')
     \<and> saga_at 7 (sw_db sample_claimed) = Some saga \<and> reports saga rb \<and> sw_sent w' = sw_sent sample_claimed @ [rb]"
proof -
  obtain res w' where p: "process_saga sample_env quiet sample_rd synthetic_apply 7 sample_claimed = (res, w')" by fastforce
  have "sw_sent w' \<noteq> sw_sent sample_claimed" using sample_dispatch_sends p by (auto simp: sample_claimed_def)
  from readback_needs_current_version [OF p this] p show ?thesis by auto
qed

theorem oversized_version_blocks_cycle_witness:
  "\<exists>w'. saga_cycle sample_env quiet sample_rd \<lparr>sw_db = \<lparr>sd_events = [sample_event (2 ^ 31)], sd_sagas = [], sd_audit = []\<rparr>, sw_observed = [],
       sw_sent = [], sw_odoo = ()\<rparr> = (Inl (Exc DBAPIError ''value does not fit the column''), w')
     \<and> sample_event (2 ^ 31) \<in> set (pending_events 50 (sw_db w'))"
proof -
  let ?w = "\<lparr>sw_db = \<lparr>sd_events = [sample_event (2 ^ 31)], sd_sagas = [], sd_audit = []\<rparr>, sw_observed = [], sw_sent = [], sw_odoo = ()\<rparr>"
  obtain res w' where c: "saga_cycle sample_env quiet sample_rd ?w = (res, w')" by fastforce
  have "validate_worker_settings (se_settings sample_env) = Inr ()" "st_odoo_campaign_saga_enabled (se_settings sample_env)"
      "oversized_event sample_env (sample_event (2 ^ 31))" by code_simp+
  moreover have "sample_event (2 ^ 31) \<in> set (pending_events 50 (sw_db ?w))"
    by (simp add: pending_events_def sample_event_def ALLOWED_EVENT_TYPES_def)
  ultimately show ?thesis using oversized_version_blocks_cycle [OF _ _ _ _ _ c, of "sample_event (2 ^ 31)"] c by auto
qed

end
