(* ===== verification/Calling_Contract.thy ===== *)
theory Calling_Contract
  imports Webhook_Ingress Postgres_Store
begin

text \<open>
  The wire contract and the authorization of internal calls (\<open>app/calling_contract.py\<close>): the
  verified calling identity, the originate request, the single-call grant with its window, its
  check and its digest, the loading of the policy file, the identity of an operation, and the
  lifecycle evidence of a call with its validation.

  A pydantic model is a record; its declared constraints are a predicate on the record, and a
  parsed request or grant is one that satisfies it. Instants are integers, in microseconds. What
  the code calls and does not define is collected in \<open>calling_host\<close>: \<open>uuid.uuid5\<close>, the JSON text of a
  timestamp and the zones of the time zone database.
\<close>

record calling_host =
  ch_uuid5 :: "uuid \<Rightarrow> string \<Rightarrow> uuid"
  ch_iso :: "int \<Rightarrow> string"
  ch_zone :: "string \<Rightarrow> bool"

subsection \<open>Constants\<close>

definition CLIENT_ID :: string where
  "CLIENT_ID = ''odoo-integration''"

definition INTERNAL_PREFIX :: string where
  "INTERNAL_PREFIX = ''telephony-internal.''"

definition ORIGINATE :: string where
  "ORIGINATE = INTERNAL_PREFIX @ ''calls.originate''"

definition HANGUP :: string where
  "HANGUP = INTERNAL_PREFIX @ ''calls.hangup''"

definition CAPABILITY :: string where
  "CAPABILITY = ''INTERNAL_TELEPHONY_CALLS''"

definition TARGET :: string where
  "TARGET = ''vicidial-restricted''"

definition TERMINAL_CALL_STATES :: "string list" where
  "TERMINAL_CALL_STATES = [''completed'', ''failed'', ''busy'', ''no_answer'', ''canceled'', ''rejected'', ''missed'',
     ''cancelled'', ''transferred'']"

definition NONTERMINAL_CALL_STATES :: "string list" where
  "NONTERMINAL_CALL_STATES = [''requested'', ''accepted'', ''new'', ''initiating'', ''queued'', ''dialing'', ''ringing'',
     ''offered'', ''answering'', ''connected'', ''held'', ''transferring'', ''ending'']"

definition CALL_NAMESPACE :: uuid where
  "CALL_NAMESPACE = 0xc20d27c8a9c84eeab4ef29c60fc9ab40"

definition CallingContractError :: exc_class where
  "CallingContractError = OtherException ''CallingContractError''"

definition calling_error :: "string \<Rightarrow> exc + 'a" where
  "calling_error msg = Inl (Exc CallingContractError msg)"

subsection \<open>Patterns\<close>

definition digit_char :: "char \<Rightarrow> bool" where
  "digit_char c \<longleftrightarrow> 48 \<le> (of_char c :: nat) \<and> (of_char c :: nat) \<le> 57"

definition capital_char :: "char \<Rightarrow> bool" where
  "capital_char c \<longleftrightarrow> 65 \<le> (of_char c :: nat) \<and> (of_char c :: nat) \<le> 90"

text \<open>\<open>^F[R]*$\<close>: a first character and the characters that may follow.\<close>

definition head_then :: "(char \<Rightarrow> bool) \<Rightarrow> (char \<Rightarrow> bool) \<Rightarrow> string \<Rightarrow> bool" where
  "head_then first rest s \<longleftrightarrow> (case s of [] \<Rightarrow> False | c # cs \<Rightarrow> first c \<and> list_all rest cs)"

definition len_between :: "nat \<Rightarrow> nat \<Rightarrow> 'a list \<Rightarrow> bool" where
  "len_between lo hi s \<longleftrightarrow> lo \<le> length s \<and> length s \<le> hi"

definition Identity :: "string \<Rightarrow> bool" where
  "Identity s \<longleftrightarrow> len_between 1 128 s \<and> head_then tenant_char (\<lambda>c. tenant_char c \<or> c \<in> set ''_.:@-'') s"

definition IdempotencyKey :: "string \<Rightarrow> bool" where
  "IdempotencyKey s \<longleftrightarrow> len_between 8 180 s \<and> head_then tenant_char (\<lambda>c. tenant_char c \<or> c \<in> set ''_.:-'') s"

definition e164 :: "string \<Rightarrow> bool" where
  "e164 s \<longleftrightarrow> (case s of
     p # d # ds \<Rightarrow> p = CHR ''+'' \<and> digit_char d \<and> d \<noteq> CHR ''0'' \<and> len_between 7 14 ds \<and> list_all digit_char ds
   | _ \<Rightarrow> False)"

definition internal_alias :: "string \<Rightarrow> bool" where
  "internal_alias s \<longleftrightarrow> startswith s ''internal:''
     \<and> head_then capital_char (\<lambda>c. capital_char c \<or> digit_char c \<or> c = CHR ''_'') (drop 9 s) \<and> len_between 2 40 (drop 9 s)"

definition lower_hex :: "char \<Rightarrow> bool" where
  "lower_hex c \<longleftrightarrow> digit_char c \<or> 97 \<le> (of_char c :: nat) \<and> (of_char c :: nat) \<le> 102"

subsection \<open>The calling identity\<close>

record call_principal =
  pl_tenant_id :: string
  pl_subject :: string
  pl_employee_id :: string
  pl_campaign_id :: string
  pl_business_unit :: string
  pl_extension :: string

definition valid_principal :: "call_principal \<Rightarrow> bool" where
  "valid_principal p \<longleftrightarrow> Identity (pl_tenant_id p) \<and> Identity (pl_subject p) \<and> Identity (pl_employee_id p)
     \<and> Identity (pl_campaign_id p) \<and> Identity (pl_business_unit p)
     \<and> len_between 2 12 (pl_extension p) \<and> list_all digit_char (pl_extension p)"

text \<open>\<open>CallPrincipal.from_claims\<close>; \<open>None\<close> is pydantic's \<open>ValidationError\<close>.\<close>

definition from_claims :: "json_object \<Rightarrow> call_principal option" where
  "from_claims claims =
     (case (str_field claims ''tenant_id'', str_field claims ''sub'', str_field claims ''employee_id'',
            str_field claims ''campaign_id'', str_field claims ''business_unit'', str_field claims ''extension'') of
        (Some t, Some s, Some e, Some c, Some b, Some x) \<Rightarrow>
          (let p = \<lparr>pl_tenant_id = t, pl_subject = s, pl_employee_id = e, pl_campaign_id = c, pl_business_unit = b,
                 pl_extension = x\<rparr>
           in if valid_principal p then Some p else None)
      | _ \<Rightarrow> None)"

text \<open>\<open>principal.model_dump(mode="json")\<close>.\<close>

definition principal_payload :: "call_principal \<Rightarrow> json_object" where
  "principal_payload p =
     [(''tenant_id'', JStr (pl_tenant_id p)), (''subject'', JStr (pl_subject p)), (''employee_id'', JStr (pl_employee_id p)),
      (''campaign_id'', JStr (pl_campaign_id p)), (''business_unit'', JStr (pl_business_unit p)),
      (''extension'', JStr (pl_extension p))]"

definition operation_identity :: "calling_host \<Rightarrow> call_principal \<Rightarrow> string \<Rightarrow> uuid" where
  "operation_identity ch p key =
     ch_uuid5 ch CALL_NAMESPACE (json_dumps (JList [JStr CLIENT_ID, JStr (pl_tenant_id p), JStr (pl_subject p), JStr key]))"

subsection \<open>The originate request\<close>

record originate_request =
  og_employee_id :: string
  og_campaign :: string
  og_business_unit :: string
  og_destination :: string
  og_destination_class :: string
  og_destination_country :: string
  og_destination_timezone :: string
  og_caller_id :: string
  og_lead_id :: int
  og_recording_requested :: bool
  og_idempotency_key :: string

definition validate_destination :: "originate_request \<Rightarrow> bool" where
  "validate_destination b \<longleftrightarrow>
     (if og_destination_class b = ''internal_test'' then internal_alias (og_destination b) else e164 (og_destination b))
     \<and> \<not> og_recording_requested b"

definition valid_originate :: "calling_host \<Rightarrow> originate_request \<Rightarrow> bool" where
  "valid_originate ch b \<longleftrightarrow> Identity (og_employee_id b) \<and> Identity (og_campaign b) \<and> Identity (og_business_unit b)
     \<and> len_between 3 96 (og_destination b) \<and> len_between 1 40 (og_destination_class b)
     \<and> length (og_destination_country b) = 2 \<and> list_all capital_char (og_destination_country b)
     \<and> len_between 1 64 (og_destination_timezone b) \<and> ch_zone ch (og_destination_timezone b)
     \<and> e164 (og_caller_id b) \<and> 0 < og_lead_id b \<and> IdempotencyKey (og_idempotency_key b) \<and> validate_destination b"

definition assert_principal :: "originate_request \<Rightarrow> call_principal \<Rightarrow> exc + unit" where
  "assert_principal b p =
     (if (og_employee_id b, og_campaign b, og_business_unit b) \<noteq> (pl_employee_id p, pl_campaign_id p, pl_business_unit p)
      then calling_error ''calling_identity_mismatch'' else Inr ())"

text \<open>\<open>OriginateRequest.payload\<close>: everything but the idempotency key; \<open>lead_model\<close> has one value.\<close>

definition originate_payload :: "originate_request \<Rightarrow> json_object" where
  "originate_payload b =
     [(''employee_id'', JStr (og_employee_id b)), (''campaign'', JStr (og_campaign b)),
      (''business_unit'', JStr (og_business_unit b)), (''destination'', JStr (og_destination b)),
      (''destination_class'', JStr (og_destination_class b)), (''destination_country'', JStr (og_destination_country b)),
      (''destination_timezone'', JStr (og_destination_timezone b)), (''caller_id'', JStr (og_caller_id b)),
      (''lead_model'', JStr ''crm.lead''), (''lead_id'', JInt (og_lead_id b)),
      (''recording_requested'', JBool (og_recording_requested b))]"

record mutation_request =
  mu_idempotency_key :: string
  mu_expected_version :: nat
  mu_reason :: string

definition valid_mutation :: "mutation_request \<Rightarrow> bool" where
  "valid_mutation m \<longleftrightarrow> IdempotencyKey (mu_idempotency_key m) \<and> 1 \<le> mu_expected_version m \<and> len_between 3 200 (mu_reason m)
     \<and> head_then tenant_char (\<lambda>c. tenant_char c \<or> c \<in> set ''_.: -'') (mu_reason m)"

subsection \<open>Grants\<close>

record calling_grant =
  cg_authorization_reference :: string
  cg_principal :: call_principal
  cg_destination :: string
  cg_caller_id :: string
  cg_lead_id :: int
  cg_not_before :: int
  cg_expires_at :: int
  cg_source_sha :: string
  cg_internal_only :: bool
  cg_external_dialing :: bool
  cg_max_calls :: int

definition SECOND :: int where
  "SECOND = 1000000"

definition bounded_window :: "calling_grant \<Rightarrow> bool" where
  "bounded_window g \<longleftrightarrow> 0 < cg_expires_at g - cg_not_before g \<and> cg_expires_at g - cg_not_before g \<le> 3600 * SECOND"

definition valid_grant :: "calling_grant \<Rightarrow> bool" where
  "valid_grant g \<longleftrightarrow> Identity (cg_authorization_reference g) \<and> valid_principal (cg_principal g)
     \<and> internal_alias (cg_destination g) \<and> e164 (cg_caller_id g) \<and> 0 < cg_lead_id g
     \<and> length (cg_source_sha g) = 40 \<and> list_all lower_hex (cg_source_sha g)
     \<and> cg_internal_only g \<and> \<not> cg_external_dialing g \<and> cg_max_calls g = 1 \<and> bounded_window g"

definition grant_authorize :: "calling_grant \<Rightarrow> call_principal \<Rightarrow> originate_request \<Rightarrow> string \<Rightarrow> int \<Rightarrow> exc + unit" where
  "grant_authorize g p b source_sha current =
     (if \<not> (cg_not_before g \<le> current \<and> current < cg_expires_at g)
      then calling_error ''calling_grant_expired_or_not_yet_valid''
      else if cg_source_sha g \<noteq> source_sha \<or> cg_principal g \<noteq> p
      then calling_error ''calling_grant_identity_or_release_mismatch''
      else if og_destination_class b \<noteq> ''internal_test''
         \<or> (og_destination b, og_caller_id b, og_lead_id b) \<noteq> (cg_destination g, cg_caller_id g, cg_lead_id g)
      then calling_error ''calling_grant_destination_or_lead_mismatch''
      else assert_principal b p)"

definition grant_json :: "calling_host \<Rightarrow> calling_grant \<Rightarrow> json_object" where
  "grant_json ch g =
     [(''authorization_reference'', JStr (cg_authorization_reference g)),
      (''principal'', JObj (principal_payload (cg_principal g))), (''destination'', JStr (cg_destination g)),
      (''caller_id'', JStr (cg_caller_id g)), (''lead_id'', JInt (cg_lead_id g)),
      (''not_before'', JStr (ch_iso ch (cg_not_before g))), (''expires_at'', JStr (ch_iso ch (cg_expires_at g))),
      (''source_sha'', JStr (cg_source_sha g)), (''internal_only'', JBool (cg_internal_only g)),
      (''external_dialing'', JBool (cg_external_dialing g)), (''max_calls'', JInt (cg_max_calls g))]"

definition grant_digest :: "host \<Rightarrow> calling_host \<Rightarrow> calling_grant \<Rightarrow> string" where
  "grant_digest h ch g = sha256 h (json_dumps (JObj (grant_json ch g)))"

subsection \<open>The policy file\<close>

text \<open>
  What the operating system and the parser answer about the configured path: whether it is a
  symbolic link, the metadata of the opened file and the number of bytes read (\<open>None\<close> when opening
  or reading raised), and the grant in its text (\<open>None\<close> when the text is none).
\<close>

record file_metadata =
  fm_regular :: bool
  fm_uid :: nat
  fm_mode :: "32 word"
  fm_size :: nat

record policy_file =
  pf_symlink :: bool
  pf_opened :: "(file_metadata \<times> nat) option"
  pf_grant :: "calling_grant option"

definition absolute_like :: "string \<Rightarrow> bool" where
  "absolute_like path \<longleftrightarrow> startswith (map (\<lambda>c. if c = CHR 0x5C then CHR ''/'' else c) path) ''/''"

text \<open>
  The \<open>try\<close> block catches \<open>ValueError\<close>, of which \<open>CallingContractError\<close> is a subclass, so the two
  messages raised inside it come out as the one of the handler.
\<close>

definition load_grant :: "(string, string) dict \<Rightarrow> (string \<Rightarrow> policy_file) \<Rightarrow> exc + calling_grant option" where
  "load_grant environ file =
     (let name = (case map_of environ ''CODESTRA_INTERNAL_CALL_POLICY_FILE'' of None \<Rightarrow> [] | Some s \<Rightarrow> s);
          unavailable = calling_error ''calling_policy_unavailable_or_invalid''
      in if name = [] then Inr None
         else if \<not> absolute_like name then calling_error ''calling_policy_path_must_be_absolute''
         else if pf_symlink (file name) then calling_error ''calling_policy_permissions_or_size_invalid''
         else (case pf_opened (file name) of
             None \<Rightarrow> unavailable
           | Some (metadata, read) \<Rightarrow>
               if \<not> fm_regular metadata \<or> fm_uid metadata \<noteq> 0 \<or> and (fm_mode metadata) 0x17 \<noteq> 0 \<or> 16384 < fm_size metadata
               then unavailable
               else if 16384 < read then unavailable
               else (case pf_grant (file name) of
                   None \<Rightarrow> unavailable
                 | Some g \<Rightarrow> if valid_grant g then Inr (Some g) else unavailable)))"

subsection \<open>Lifecycle evidence\<close>

record call_evidence =
  le_operation_id :: string
  le_correlation_id :: string
  le_dispatch_state :: string
  le_asterisk_uniqueid :: string
  le_linkedid :: "string option"
  le_call_id :: "string option"
  le_call_state :: string
  le_answered_at :: "int option"
  le_ended_at :: "int option"
  le_terminal :: bool
  le_evidence :: "json_object option"
  le_fine_state :: "string option"
  le_fine_state_at :: "int option"
  le_last_event_sequence :: int
  le_hangup_leg :: "string option"
  le_tenant_id :: string
  le_subject :: string
  le_employee_id :: string
  le_username :: string
  le_extension :: string
  le_campaign :: string
  le_authorization_reference :: string
  le_created_at :: int
  le_duration_seconds :: "int option"
  le_talk_duration_seconds :: "int option"
  le_hangup_cause :: "string option"
  le_hangup_cause_code :: "int option"
  le_internal_only :: bool
  le_external_dialing :: bool
  le_recording :: bool

definition opt_between :: "int \<Rightarrow> int \<Rightarrow> int option \<Rightarrow> bool" where
  "opt_between lo hi v \<longleftrightarrow> (case v of None \<Rightarrow> True | Some i \<Rightarrow> lo \<le> i \<and> i \<le> hi)"

definition evidence_fields_ok :: "call_evidence \<Rightarrow> bool" where
  "evidence_fields_ok e \<longleftrightarrow> le_dispatch_state e \<in> set [''dispatch_unknown'', ''accepted''] \<and> 0 \<le> le_last_event_sequence e
     \<and> le_hangup_leg e \<in> set [None, Some ''agent_leg'', Some ''peer_leg''] \<and> le_username e = ''appolon''
     \<and> le_extension e = ''6901'' \<and> le_campaign e = ''TEST_SYN'' \<and> opt_between 0 86400 (le_duration_seconds e)
     \<and> opt_between 0 86400 (le_talk_duration_seconds e)
     \<and> (case le_hangup_cause e of None \<Rightarrow> True | Some s \<Rightarrow> length s \<le> 128) \<and> opt_between 0 255 (le_hangup_cause_code e)
     \<and> le_internal_only e \<and> \<not> le_external_dialing e \<and> \<not> le_recording e"

text \<open>\<open>int((later - earlier).total_seconds())\<close>; the later instant does not precede the earlier one.\<close>

definition whole_seconds :: "int \<Rightarrow> int \<Rightarrow> int" where
  "whole_seconds earlier later = (later - earlier) div SECOND"

definition coherent_timing :: "call_evidence \<Rightarrow> exc + unit" where
  "coherent_timing e =
     (if (case le_answered_at e of None \<Rightarrow> False | Some a \<Rightarrow> a < le_created_at e)
      then Inl (Exc ValueError ''answer precedes call creation'')
      else case le_ended_at e of
        Some ended \<Rightarrow>
          (if ended < le_created_at e \<or> (case le_answered_at e of None \<Rightarrow> False | Some a \<Rightarrow> ended < a)
           then Inl (Exc ValueError ''call lifecycle timestamps are inconsistent'')
           else if (case le_duration_seconds e of None \<Rightarrow> False | Some d \<Rightarrow> d \<noteq> whole_seconds (le_created_at e) ended)
           then Inl (Exc ValueError ''call duration conflicts with lifecycle timestamps'')
           else let expected_talk = (case le_answered_at e of None \<Rightarrow> 0 | Some a \<Rightarrow> whole_seconds a ended) in
                if (case le_talk_duration_seconds e of None \<Rightarrow> False | Some d \<Rightarrow> d \<noteq> expected_talk)
                then Inl (Exc ValueError ''talk duration conflicts with lifecycle timestamps'')
                else Inr ())
      | None \<Rightarrow>
          (if le_duration_seconds e \<noteq> None \<or> le_talk_duration_seconds e \<noteq> None
           then Inl (Exc ValueError ''duration requires an end timestamp'')
           else Inr ()))"

record evidence_binding =
  eb_operation_id :: string
  eb_correlation_id :: string
  eb_tenant_id :: string
  eb_actor :: json_object
  eb_authorization_reference :: string
  eb_provider_operation_id :: "string option"

text \<open>\<open>CallLifecycleEvidence.model_validate\<close> of a document with the fields of the record.\<close>

definition validated_evidence :: "call_evidence \<Rightarrow> exc + unit" where
  "validated_evidence e =
     (if \<not> evidence_fields_ok e then Inl (Exc ValueError ''validation error for CallLifecycleEvidence'') else coherent_timing e)"

definition validate_call_evidence :: "call_evidence \<Rightarrow> evidence_binding \<Rightarrow> bool \<Rightarrow> exc + call_evidence" where
  "validate_call_evidence e b require_terminal =
     (case validated_evidence e of
        Inl err \<Rightarrow> Inl err
      | Inr _ \<Rightarrow>
         if le_operation_id e \<noteq> eb_operation_id b \<or> le_correlation_id e \<noteq> eb_correlation_id b
            \<or> le_tenant_id e \<noteq> eb_tenant_id b
            \<or> Some (JStr (le_subject e)) \<noteq> map_of (eb_actor b) ''subject''
            \<or> Some (JStr (le_employee_id e)) \<noteq> map_of (eb_actor b) ''employee_id''
            \<or> Some (JStr (le_extension e)) \<noteq> map_of (eb_actor b) ''extension''
            \<or> Some (JStr (le_campaign e)) \<noteq> map_of (eb_actor b) ''campaign_id''
            \<or> le_authorization_reference e \<noteq> eb_authorization_reference b
         then calling_error ''calling_evidence_identity_mismatch''
         else if (case eb_provider_operation_id b of None \<Rightarrow> False | Some p \<Rightarrow> le_asterisk_uniqueid e \<noteq> p)
         then calling_error ''calling_evidence_provider_identity_mismatch''
         else if require_terminal \<and> (\<not> le_terminal e \<or> le_call_state e \<notin> set TERMINAL_CALL_STATES
            \<or> \<not> truthy (le_call_id e) \<or> \<not> truthy (le_linkedid e) \<or> le_ended_at e = None
            \<or> le_duration_seconds e = None \<or> le_evidence e = None)
         then calling_error ''calling_terminal_evidence_incomplete''
         else if \<not> require_terminal \<and> (le_terminal e \<or> le_call_state e \<notin> set NONTERMINAL_CALL_STATES \<or> le_ended_at e \<noteq> None)
         then calling_error ''calling_status_conflicts_with_terminal_evidence''
         else Inr e)"

definition validate_terminal_call_evidence :: "call_evidence \<Rightarrow> evidence_binding \<Rightarrow> exc + call_evidence" where
  "validate_terminal_call_evidence e b = validate_call_evidence e b True"

end
