(* ===== verification/Calling_Ledger.thy ===== *)
theory Calling_Ledger
  imports Calling_Contract
begin

text \<open>
  The calling facade over the command ledger (\<open>app/calling_ledger.py\<close>). \<open>CallingLedger\<close> asks which
  store it runs on where the two differ; here the two stores are two values of the record
  \<open>call_store\<close> with the operations the facade calls, and \<open>get\<close>, \<open>replay\<close>, \<open>reconcile\<close> and \<open>hangup\<close> are
  written once over it. \<open>originate\<close> has a body of its own for each store: under the in-process lock
  for the in-memory one, in one transaction with its advisory locks for the durable one.

  Python compares dictionaries without regard to the order of their items: \<open>json_eq\<close>. It compares
  floats by their text; no document compared here has one. \<open>current\<close> is the clock of the process
  when the grant is checked.
\<close>

subsection \<open>Comparing and reading documents\<close>

function json_eq :: "json \<Rightarrow> json \<Rightarrow> bool" where
  "json_eq (JObj a) y = (case y of
     JObj b \<Rightarrow> set (map fst a) = set (map fst b)
       \<and> list_all (\<lambda>(k, v). case map_of b k of None \<Rightarrow> False | Some w \<Rightarrow> json_eq v w) a
   | _ \<Rightarrow> False)"
| "json_eq (JList a) y = (case y of
     JList b \<Rightarrow> length a = length b \<and> list_all (\<lambda>i. json_eq (a ! i) (b ! i)) [0..<length a]
   | _ \<Rightarrow> False)"
| "json_eq (JBool a) y = (case y of JBool b \<Rightarrow> a = b | JInt i \<Rightarrow> i = (if a then 1 else 0) | _ \<Rightarrow> False)"
| "json_eq (JInt i) y = (case y of JInt j \<Rightarrow> i = j | JBool b \<Rightarrow> i = (if b then 1 else 0) | _ \<Rightarrow> False)"
| "json_eq JNull y = (y = JNull)"
| "json_eq (JFloat r) y = (y = JFloat r)"
| "json_eq (JStr s) y = (y = JStr s)"
  by pat_completeness auto

lemma member_size: "(k, v) \<in> set kvs \<Longrightarrow> size v < size (JObj kvs)"
  by (induction kvs) auto

lemma element_size: "i < length vs \<Longrightarrow> size (vs ! i) < size (JList vs)"
  using size_list_estimation' [OF nth_mem, of i vs "size (vs ! i)" size] by simp

termination json_eq
  by (relation "measure (\<lambda>(x, y). size x)") (use member_size element_size in \<open>force+\<close>)

definition opt_eq :: "json option \<Rightarrow> json option \<Rightarrow> bool" where
  "opt_eq x y = (case (x, y) of (None, None) \<Rightarrow> True | (Some v, Some w) \<Rightarrow> json_eq v w
     | (None, Some w) \<Rightarrow> w = JNull | (Some v, None) \<Rightarrow> v = JNull)"

text \<open>\<open>payload #>> '{..}'\<close> where it ends in a text, and \<open>prior.payload["actor"]["employee_id"]\<close>.\<close>

fun text_at :: "json \<Rightarrow> string list \<Rightarrow> string option" where
  "text_at (JStr s) [] = Some s"
| "text_at (JObj d) (k # ks) = (case map_of d k of None \<Rightarrow> None | Some v \<Rightarrow> text_at v ks)"
| "text_at _ _ = None"

definition call_not_found :: exc where
  "call_not_found = Exc CommandNotFound ''calling request was not found''"

subsection \<open>Terminal calls\<close>

text \<open>
  \<open>_terminal\<close>. The call state of validated evidence is a text; one that is no text is no member of
  the set of terminal states.
\<close>

definition terminal :: "command_operation \<Rightarrow> string option \<Rightarrow> bool" where
  "terminal op evidence_operation_id \<longleftrightarrow> co_state op = Cancelled \<or>
     (let evidence = (case co_readback_evidence op of None \<Rightarrow> [] | Some d \<Rightarrow> d);
          expected = (if truthy evidence_operation_id then the evidence_operation_id else uuid_str (co_command_id op))
      in co_state op = Completed \<and> co_readback_evidence_sha256 op \<noteq> None
         \<and> (case map_of evidence ''call_state'' of Some (JStr s) \<Rightarrow> s \<in> set TERMINAL_CALL_STATES | _ \<Rightarrow> False)
         \<and> map_of evidence ''operation_id'' = Some (JStr expected)
         \<and> map_of evidence ''tenant_id'' = Some (JStr (co_tenant_id op))
         \<and> map_of evidence ''internal_only'' = Some (JBool True)
         \<and> map_of evidence ''external_dialing'' = Some (JBool False))"

subsection \<open>What the facade asks of a store\<close>

record 's call_store =
  cl_document :: "string \<Rightarrow> uuid \<Rightarrow> ('s, command_envelope) prog"
  cl_get :: "string \<Rightarrow> uuid \<Rightarrow> ('s, command_operation) prog"
  cl_submit :: "command_envelope \<Rightarrow> ('s, command_operation) prog"
  cl_mutate :: "string \<Rightarrow> uuid \<Rightarrow> mutation_action \<Rightarrow> string \<Rightarrow> string \<Rightarrow> nat \<Rightarrow> string \<Rightarrow> ('s, command_operation) prog"
  cl_remember :: "command_envelope \<Rightarrow> ('s, unit) prog"

record calling_memory =
  cm_store :: command_store
  cm_documents :: "(op_key, command_envelope) dict"

definition on_calling_store :: "(command_store, 'a) prog \<Rightarrow> (calling_memory, 'a) prog" where
  "on_calling_store m = zoomE cm_store (\<lambda>st s. s\<lparr>cm_store := st\<rparr>) m"

definition remember :: "command_envelope \<Rightarrow> (calling_memory, unit) prog" where
  "remember c = modifyE (\<lambda>s. s\<lparr>cm_documents := AList.update (ce_tenant_id c, ce_command_id c) c (cm_documents s)\<rparr>)"

definition memory_document :: "string \<Rightarrow> uuid \<Rightarrow> (calling_memory, command_envelope) prog" where
  "memory_document tenant cid =
     bindE (getsE (\<lambda>s. map_of (cm_documents s) (tenant, cid))) (\<lambda>found.
       case found of None \<Rightarrow> reraiseE call_not_found | Some document \<Rightarrow> retE document)"

definition memory_calls :: "host \<Rightarrow> int \<Rightarrow> calling_memory call_store" where
  "memory_calls h now = \<lparr>cl_document = memory_document, cl_get = (\<lambda>t u. on_calling_store (store_get t u)),
     cl_submit = (\<lambda>c. on_calling_store (store_submit h now c CLIENT_ID TEMPORAL_COMMAND_DESTINATION None None)),
     cl_mutate = (\<lambda>t u a actor key ver reason. on_calling_store (mutate_operation h now t u a actor key ver reason None)),
     cl_remember = remember\<rparr>"

text \<open>\<open>_decode_document\<close>.\<close>

definition decode_document :: "host \<Rightarrow> command_row \<Rightarrow> exc + command_envelope" where
  "decode_document h row =
     (case command_envelope_from_payload h (cr_payload row) of
        None \<Rightarrow> Inl (Exc ValueError ''validation error for CommandEnvelope'')
      | Some envelope \<Rightarrow>
          if map_of (cr_payload row) AUTHENTICATED_CLIENT_ID_KEY \<noteq> Some (JStr CLIENT_ID)
             \<or> authenticated_command_digest h envelope CLIENT_ID \<noteq> cr_payload_sha256 row
          then Inl (Exc CommandConflict ''calling command provenance is invalid'')
          else Inr envelope)"

definition postgres_document :: "host \<Rightarrow> string \<Rightarrow> uuid \<Rightarrow> (command_db, command_envelope) prog" where
  "postgres_document h tenant cid =
     bindE (tenant_transaction tenant (getsE (command_at tenant cid))) (\<lambda>row.
       case row of None \<Rightarrow> reraiseE call_not_found | Some r \<Rightarrow> liftE (decode_document h r))"

definition postgres_calls :: "host \<Rightarrow> jsonb \<Rightarrow> reading \<Rightarrow> command_db call_store" where
  "postgres_calls h jsonb rd = \<lparr>cl_document = postgres_document h, cl_get = pg_get h,
     cl_submit = (\<lambda>c. pg_submit h jsonb rd c CLIENT_ID TEMPORAL_COMMAND_DESTINATION None None),
     cl_mutate = (\<lambda>t u a actor key ver reason. pg_mutate_operation h jsonb rd t u a actor key ver reason None),
     cl_remember = (\<lambda>_. retE ())\<rparr>"

subsection \<open>The owner of a call\<close>

definition owner :: "command_envelope \<Rightarrow> call_principal \<Rightarrow> exc + unit" where
  "owner document p =
     (if ce_target document \<noteq> TARGET \<or> ce_command_type document \<noteq> ORIGINATE \<or> ce_tenant_id document \<noteq> pl_tenant_id p
         \<or> ce_requested_by document \<noteq> pl_subject p
         \<or> \<not> opt_eq (map_of (ce_payload document) ''actor'') (Some (JObj (principal_payload p)))
      then Inl call_not_found else Inr ())"

text \<open>\<open>UUID(str(document.payload["origin_operation_id"]))\<close>; \<open>None\<close> for every exception it is caught for.\<close>

definition origin_operation :: "command_envelope \<Rightarrow> uuid option" where
  "origin_operation document =
     (case map_of (ce_payload document) ''origin_operation_id'' of
        Some (JStr s) \<Rightarrow> uuid_parse s
      | Some (JInt i) \<Rightarrow> uuid_parse (int_str i)
      | _ \<Rightarrow> None)"

definition hangup_of :: "command_envelope \<Rightarrow> command_envelope \<Rightarrow> command_operation \<Rightarrow> bool" where
  "hangup_of document original original_operation \<longleftrightarrow>
     ce_tenant_id document = ce_tenant_id original \<and> ce_requested_by document = ce_requested_by original
     \<and> ce_correlation_id document = ce_correlation_id original
     \<and> list_all (\<lambda>k. opt_eq (map_of (ce_payload document) k) (map_of (ce_payload original) k))
         [''actor'', ''originate'', ''authorization_reference'', ''policy_sha256'']
     \<and> opt_eq (map_of (ce_payload document) ''call_id'') (Some (opt_str (co_provider_operation_id original_operation)))"

definition calling_get :: "'s call_store \<Rightarrow> call_principal \<Rightarrow> uuid \<Rightarrow> ('s, command_envelope \<times> command_operation) prog" where
  "calling_get S p operation_id =
     (let tenant = pl_tenant_id p in
      bindE (cl_document S tenant operation_id) (\<lambda>document.
      bindE (cl_get S tenant operation_id) (\<lambda>operation.
        if ce_command_type document = ORIGINATE
        then thenE (liftE (owner document p)) (retE (document, operation))
        else if ce_target document \<noteq> TARGET \<or> ce_command_type document \<noteq> HANGUP then reraiseE call_not_found
        else case origin_operation document of
          None \<Rightarrow> reraiseE call_not_found
        | Some original_id \<Rightarrow>
            bindE (cl_document S tenant original_id) (\<lambda>original.
            thenE (liftE (owner original p))
            (bindE (cl_get S tenant original_id) (\<lambda>original_operation.
              if \<not> hangup_of document original original_operation then reraiseE call_not_found
              else retE (document, operation)))))))"

definition replay :: "calling_host \<Rightarrow> 's call_store \<Rightarrow> call_principal \<Rightarrow> originate_request \<Rightarrow> string
    \<Rightarrow> ('s, command_operation option) prog" where
  "replay ch S p body correlation_id =
     bindE (catchE (bindE (calling_get S p (operation_identity ch p (og_idempotency_key body))) (\<lambda>x. retE (Some x)))
        (\<lambda>e. if exc_class e = CommandNotFound then retE None else reraiseE e)) (\<lambda>found.
       case found of
         None \<Rightarrow> retE None
       | Some (document, operation) \<Rightarrow>
           if \<not> opt_eq (map_of (ce_payload document) ''originate'') (Some (JObj (originate_payload body)))
              \<or> ce_idempotency_key document \<noteq> og_idempotency_key body \<or> ce_correlation_id document \<noteq> correlation_id
           then raiseE CommandConflict ''calling idempotency key was reused with different content''
           else retE (Some (operation\<lparr>co_duplicate := True\<rparr>)))"

subsection \<open>Commands of the facade\<close>

text \<open>\<open>CommandEnvelope(...)\<close>: pydantic's \<open>ValidationError\<close> is a \<open>ValueError\<close>.\<close>

definition make_envelope :: "host \<Rightarrow> command_envelope \<Rightarrow> exc + command_envelope" where
  "make_envelope h c = (if valid_envelope h c then Inr c else Inl (Exc ValueError ''validation error for CommandEnvelope''))"

definition originate_envelope :: "host \<Rightarrow> calling_host \<Rightarrow> call_principal \<Rightarrow> originate_request \<Rightarrow> string \<Rightarrow> calling_grant
    \<Rightarrow> command_envelope" where
  "originate_envelope h ch p body correlation_id grant =
     \<lparr>ce_command_id = operation_identity ch p (og_idempotency_key body), ce_command_type = ORIGINATE,
      ce_command_version = ''1.0'', ce_target = TARGET, ce_tenant_id = pl_tenant_id p, ce_requested_by = pl_subject p,
      ce_correlation_id = correlation_id, ce_idempotency_key = og_idempotency_key body, ce_capability = CAPABILITY,
      ce_payload = [(''actor'', JObj (principal_payload p)), (''originate'', JObj (originate_payload body)),
        (''authorization_reference'', JStr (cg_authorization_reference grant)),
        (''policy_sha256'', JStr (grant_digest h ch grant))]\<rparr>"

text \<open>\<open>_validate\<close>: the policies of the service with the one capability switched on.\<close>

definition scoped_policies :: "policy_registry \<Rightarrow> policy_registry" where
  "scoped_policies policies = make_registry (pr_policies policies) (dict_merge (pr_capabilities policies) [(CAPABILITY, True)])"

definition calling_validate :: "policy_registry \<Rightarrow> command_envelope \<Rightarrow> exc + command_policy" where
  "calling_validate policies c = validate_submission (scoped_policies policies) c (ce_requested_by c) CLIENT_ID"

subsection \<open>\<open>originate\<close> on the in-memory store\<close>

definition reservation_busy :: exc where
  "reservation_busy = Exc CommandConflict ''agent already has an active or unknown call''"

definition grant_consumed :: exc where
  "grant_consumed = Exc CommandConflict ''single-call authorization was already consumed''"

fun memory_reservation :: "call_principal \<Rightarrow> calling_grant \<Rightarrow> (op_key \<times> command_envelope) list \<Rightarrow> (calling_memory, unit) prog" where
  "memory_reservation p grant [] = retE ()"
| "memory_reservation p grant (((tenant, identity), prior) # rest) =
     (let actor = (\<lambda>k. text_at (JObj (ce_payload prior)) [''actor'', k]) in
      if tenant \<noteq> pl_tenant_id p \<or> ce_command_type prior \<noteq> ORIGINATE then memory_reservation p grant rest
      else if map_of (ce_payload prior) ''authorization_reference'' = Some (JStr (cg_authorization_reference grant))
      then reraiseE grant_consumed
      else if actor ''employee_id'' = Some (pl_employee_id p) \<or> actor ''extension'' = Some (pl_extension p)
      then bindE (on_calling_store (store_get tenant identity)) (\<lambda>op.
        if \<not> terminal op None then reraiseE reservation_busy else memory_reservation p grant rest)
      else memory_reservation p grant rest)"

definition memory_originate :: "host \<Rightarrow> calling_host \<Rightarrow> int \<Rightarrow> int \<Rightarrow> policy_registry \<Rightarrow> call_principal \<Rightarrow> originate_request \<Rightarrow> string
    \<Rightarrow> calling_grant \<Rightarrow> (calling_memory, command_operation) prog" where
  "memory_originate h ch current now policies p body correlation_id grant =
     bindE (liftE (make_envelope h (originate_envelope h ch p body correlation_id grant))) (\<lambda>command.
     thenE (liftE (calling_validate policies command))
     (bindE (replay ch (memory_calls h now) p body correlation_id) (\<lambda>duplicate.
       case duplicate of
         Some operation \<Rightarrow> retE operation
       | None \<Rightarrow>
           thenE (liftE (grant_authorize grant p body (cg_source_sha grant) current))
           (bindE (getsE cm_documents) (\<lambda>documents.
            thenE (memory_reservation p grant documents)
            (bindE (cl_submit (memory_calls h now) command) (\<lambda>operation.
             thenE (remember command) (retE operation))))))))"

subsection \<open>\<open>originate\<close> on the durable store\<close>

definition existing_command :: "command_envelope \<Rightarrow> command_db \<Rightarrow> bool" where
  "existing_command c db \<longleftrightarrow> list_ex (\<lambda>r. co_tenant_id r = ce_tenant_id c
     \<and> (co_command_id r = ce_command_id c \<or> co_idempotency_key r = ce_idempotency_key c)) (pg_commands db)"

definition row_text :: "command_row \<Rightarrow> string list \<Rightarrow> string option" where
  "row_text r path = text_at (JObj (cr_payload r)) (''payload'' # path)"

definition originate_rows :: "string \<Rightarrow> command_db \<Rightarrow> command_row list" where
  "originate_rows tenant db = filter (\<lambda>r. co_tenant_id r = tenant \<and> co_command_type r = ORIGINATE) (pg_commands db)"

definition consumed :: "call_principal \<Rightarrow> calling_grant \<Rightarrow> command_db \<Rightarrow> bool" where
  "consumed p grant db \<longleftrightarrow> list_ex (\<lambda>r. row_text r [''authorization_reference''] = Some (cg_authorization_reference grant))
     (originate_rows (pl_tenant_id p) db)"

definition same_agent :: "string \<Rightarrow> string \<Rightarrow> command_row \<Rightarrow> bool" where
  "same_agent employee extension r \<longleftrightarrow>
     row_text r [''actor'', ''employee_id''] = Some employee \<or> row_text r [''actor'', ''extension''] = Some extension"

definition candidate_rows :: "call_principal \<Rightarrow> command_db \<Rightarrow> command_row list" where
  "candidate_rows p db = filter (\<lambda>r. same_agent (pl_employee_id p) (pl_extension p) r \<and> co_state r \<noteq> Cancelled)
     (originate_rows (pl_tenant_id p) db)"

text \<open>The evidence of the newest attempt and the digest of the newest \<open>completed\<close> audit row.\<close>

definition prior_operation :: "host \<Rightarrow> command_db \<Rightarrow> command_row \<Rightarrow> exc + command_operation" where
  "prior_operation h db r =
     (case persisted_evidence (co_tenant_id r) (co_command_id r) (\<lambda>e. ev_new_state e = Completed) db of
        (ev, digest) \<Rightarrow>
          (case verify_readback_evidence_digest h ev digest of
             Inl e \<Rightarrow> Inl e
           | Inr (evidence, d) \<Rightarrow> row_operation h r False evidence d))"

fun require_terminal :: "(exc + command_operation) list \<Rightarrow> exc + unit" where
  "require_terminal [] = Inr ()"
| "require_terminal (Inl e # rest) = Inl e"
| "require_terminal (Inr op # rest) = (if \<not> terminal op None then Inl reservation_busy else require_terminal rest)"

definition postgres_reserve :: "host \<Rightarrow> jsonb \<Rightarrow> reading \<Rightarrow> int \<Rightarrow> call_principal \<Rightarrow> originate_request \<Rightarrow> calling_grant
    \<Rightarrow> command_envelope \<Rightarrow> (command_db, command_operation) prog" where
  "postgres_reserve h jsonb rd current p body grant command =
     (let submit = submit_on_connection h jsonb rd command CLIENT_ID None TEMPORAL_COMMAND_DESTINATION None None in
      bindE (getsE (existing_command command)) (\<lambda>existing.
        if existing then submit
        else
          thenE (liftE (grant_authorize grant p body (cg_source_sha grant) current))
          (bindE (getsE (consumed p grant)) (\<lambda>spent.
             if spent then reraiseE grant_consumed
             else bindE (getsE (\<lambda>db. map (prior_operation h db) (candidate_rows p db))) (\<lambda>prior.
               thenE (liftE (require_terminal prior)) submit)))))"

definition postgres_originate :: "host \<Rightarrow> calling_host \<Rightarrow> jsonb \<Rightarrow> reading \<Rightarrow> int \<Rightarrow> policy_registry \<Rightarrow> call_principal
    \<Rightarrow> originate_request \<Rightarrow> string \<Rightarrow> calling_grant \<Rightarrow> (command_db, command_operation) prog" where
  "postgres_originate h ch jsonb rd current policies p body correlation_id grant =
     bindE (liftE (make_envelope h (originate_envelope h ch p body correlation_id grant))) (\<lambda>command.
     thenE (liftE (calling_validate policies command))
       (tenant_transaction (pl_tenant_id p) (postgres_reserve h jsonb rd current p body grant command)))"

subsection \<open>\<open>reconcile\<close> and \<open>hangup\<close>\<close>

definition calling_reconcile :: "'s call_store \<Rightarrow> call_principal \<Rightarrow> uuid \<Rightarrow> string \<Rightarrow> nat \<Rightarrow> string
    \<Rightarrow> ('s, command_operation) prog" where
  "calling_reconcile S p operation_id key expected_version reason =
     bindE (calling_get S p operation_id) (\<lambda>(_, current).
       if co_state current \<in> set [Persisted, Queued, Completed, Cancelled]
       then if co_resource_version current \<noteq> expected_version then raiseE CommandConflict ''expected_version is stale''
            else retE current
       else cl_mutate S (pl_tenant_id p) operation_id ActReconcile (pl_subject p) key expected_version reason)"

definition subscript :: "json_object \<Rightarrow> string \<Rightarrow> exc + json" where
  "subscript d k = (case map_of d k of None \<Rightarrow> Inl (Exc KeyError k) | Some v \<Rightarrow> Inr v)"

definition hangup_envelope :: "calling_host \<Rightarrow> call_principal \<Rightarrow> uuid \<Rightarrow> string \<Rightarrow> string \<Rightarrow> command_envelope \<Rightarrow> string
    \<Rightarrow> json \<Rightarrow> json \<Rightarrow> json \<Rightarrow> json \<Rightarrow> command_envelope" where
  "hangup_envelope ch p operation_id key reason original call_id actor originate reference policy =
     \<lparr>ce_command_id = operation_identity ch p key, ce_command_type = HANGUP, ce_command_version = ''1.0'',
      ce_target = TARGET, ce_tenant_id = pl_tenant_id p, ce_requested_by = pl_subject p,
      ce_correlation_id = ce_correlation_id original, ce_idempotency_key = key, ce_capability = CAPABILITY,
      ce_payload = [(''actor'', actor), (''originate'', originate), (''origin_operation_id'', JStr (uuid_str operation_id)),
        (''call_id'', JStr call_id), (''authorization_reference'', reference), (''policy_sha256'', policy),
        (''reason'', JStr reason)]\<rparr>"

text \<open>\<open>hangup\<close> up to its submission: every read and every check of it.\<close>

definition hangup_command :: "host \<Rightarrow> calling_host \<Rightarrow> policy_registry \<Rightarrow> 's call_store \<Rightarrow> call_principal \<Rightarrow> uuid \<Rightarrow> string \<Rightarrow> nat
    \<Rightarrow> string \<Rightarrow> ('s, command_envelope) prog" where
  "hangup_command h ch policies S p operation_id key expected_version reason =
     bindE (calling_get S p operation_id) (\<lambda>(original, current).
       if ce_command_type original \<noteq> ORIGINATE
       then raiseE CommandConflict ''hangup must reference an originate operation''
       else if \<not> truthy (co_provider_operation_id current)
       then raiseE CommandConflict ''call identity is unknown; reconcile before hangup''
       else
         (let payload = ce_payload original in
          bindE (liftE (subscript payload ''actor'')) (\<lambda>actor.
          bindE (liftE (subscript payload ''originate'')) (\<lambda>originate.
          bindE (liftE (subscript payload ''authorization_reference'')) (\<lambda>reference.
          bindE (liftE (subscript payload ''policy_sha256'')) (\<lambda>policy.
          bindE (liftE (make_envelope h (hangup_envelope ch p operation_id key reason original
              (the (co_provider_operation_id current)) actor originate reference policy))) (\<lambda>command.
          thenE (liftE (calling_validate policies command))
          (thenE (catchE (thenE (cl_get S (pl_tenant_id p) (ce_command_id command)) (retE ()))
              (\<lambda>e. if exc_class e \<noteq> CommandNotFound then reraiseE e
                   else if terminal current None then raiseE CommandConflict ''call is already terminal''
                   else if co_resource_version current \<noteq> expected_version
                   then raiseE CommandConflict ''expected_version is stale''
                   else retE ()))
            (retE command)))))))))"

definition calling_hangup :: "host \<Rightarrow> calling_host \<Rightarrow> policy_registry \<Rightarrow> 's call_store \<Rightarrow> call_principal \<Rightarrow> uuid \<Rightarrow> string \<Rightarrow> nat
    \<Rightarrow> string \<Rightarrow> ('s, command_operation) prog" where
  "calling_hangup h ch policies S p operation_id key expected_version reason =
     bindE (hangup_command h ch policies S p operation_id key expected_version reason) (\<lambda>command.
     bindE (cl_submit S command) (\<lambda>operation.
     thenE (cl_remember S command) (retE operation)))"

subsection \<open>Responses\<close>

definition operation_response :: "command_operation \<Rightarrow> command_envelope option \<Rightarrow> json_object" where
  "operation_response op document =
     (let dialing = (if co_state op \<in> set [Accepted, ReadbackPending] \<and> truthy (co_provider_operation_id op) then ''attempting''
            else if co_state op = Cancelled then ''blocked'' else ''unknown'');
          evidence_id = (case document of
              None \<Rightarrow> None
            | Some d \<Rightarrow> if ce_command_type d = HANGUP
                then (case map_of (ce_payload d) ''origin_operation_id'' of Some (JStr s) \<Rightarrow> Some s
                  | Some (JInt i) \<Rightarrow> Some (int_str i) | _ \<Rightarrow> Some [])
                else if ce_command_type d \<noteq> ORIGINATE then Some ''invalid'' else None);
          reason = (if terminal op evidence_id then ''terminal call outcome reconciled; see call_state''
            else if dialing = ''attempting'' then ''telephony adapter accepted the call operation''
            else if dialing = ''blocked'' then ''request cancelled before dispatch''
            else ''request persisted; awaiting authoritative call outcome'');
          evidence = (case co_readback_evidence op of None \<Rightarrow> [] | Some d \<Rightarrow> d)
      in [(''operation_id'', JStr (uuid_str (co_command_id op))), (''correlation_id'', JStr (co_correlation_id op)),
          (''dialing'', JStr dialing), (''reason'', JStr reason), (''call_id'', opt_str (co_provider_operation_id op)),
          (''operation_state'', JStr (state_str (co_state op))),
          (''call_state'', case map_of evidence ''call_state'' of None \<Rightarrow> JNull | Some v \<Rightarrow> v),
          (''resource_version'', JInt (int (co_resource_version op))), (''duplicate'', JBool (co_duplicate op)),
          (''retry_safe'', JBool (co_state op = Cancelled)), (''external_dialing'', JBool False),
          (''status_url'', JStr (''/v1/telephony/calls/requests/'' @ uuid_str (co_command_id op)))])"

end
