(* ===== verification/Calling_Api.thy ===== *)
theory Calling_Api
  imports Calling_Ledger
begin

text \<open>
  The calling endpoints (\<open>app/telephony_api.py\<close>) and the header checks they share with the other
  routes (\<open>app/api_inputs.py\<close>). A handler is a program over the state of the store it runs on. Its
  inputs are the request, with the parsed body, and what it takes from the runtime: the token
  verifier of \<open>Webhook_Ingress\<close>, the store, and for \<open>originate\<close> the ledger's operation on that
  store, the loaded policy file, the commit the release was built from and the clock.
\<close>

subsection \<open>Headers\<close>

type_synonym headers = "(string \<times> string) list"

definition getlist :: "headers \<Rightarrow> string \<Rightarrow> string list" where
  "getlist hs name = map snd (filter (\<lambda>(k, _). py_lower k = py_lower name) hs)"

definition required_header :: "headers \<Rightarrow> string \<Rightarrow> nat \<Rightarrow> nat \<Rightarrow> exc + string" where
  "required_header hs name minimum maximum =
     (case getlist hs name of
        [value] \<Rightarrow> if len_between minimum maximum value then Inr value
                  else Inl (Exc RequestValidationError (name @ '' is malformed''))
      | _ \<Rightarrow> Inl (Exc RequestValidationError (name @ '' must be provided exactly once'')))"

definition optional_header :: "headers \<Rightarrow> string \<Rightarrow> nat \<Rightarrow> nat \<Rightarrow> exc + string option" where
  "optional_header hs name minimum maximum =
     (case getlist hs name of
        [] \<Rightarrow> Inr None
      | [value] \<Rightarrow> if len_between minimum maximum value then Inr (Some value)
                  else Inl (Exc RequestValidationError (name @ '' is malformed''))
      | _ \<Rightarrow> Inl (Exc RequestValidationError (name @ '' must be provided at most once'')))"

definition authorization_header :: "headers \<Rightarrow> exc + string" where
  "authorization_header hs =
     (case getlist hs ''Authorization'' of
        _ # _ # _ \<Rightarrow> Inl (Exc RequestValidationError ''Authorization must be provided at most once'')
      | values \<Rightarrow> (let value = (case values of [] \<Rightarrow> [] | v # _ \<Rightarrow> v) in
          if 8192 < length value then Inl (Exc RequestValidationError ''Authorization is malformed'') else Inr value))"

subsection \<open>Who calls\<close>

definition call_identity :: "webhook_host \<Rightarrow> headers \<Rightarrow> string \<Rightarrow> exc + call_principal" where
  "call_identity wh hs action =
     (case authorization_header hs of
        Inl e \<Rightarrow> Inl e
      | Inr authorization \<Rightarrow>
          (case verify_bearer wh authorization CLIENT_ID (''telephony.calls.'' @ action) of
             Inl e \<Rightarrow> Inl e
           | Inr claims \<Rightarrow>
               (case from_claims claims of
                  None \<Rightarrow> Inl (Exc AuthorizationError ''verified calling identity claims are incomplete'')
                | Some p \<Rightarrow>
                    (case optional_header hs ''X-Tenant-ID'' 1 128 of
                       Inl e \<Rightarrow> Inl e
                     | Inr supplied \<Rightarrow>
                         if supplied \<noteq> None \<and> supplied \<noteq> Some (pl_tenant_id p)
                         then Inl (Exc AuthorizationError ''calling tenant header conflicts with verified identity'')
                         else Inr p))))"

definition correlation_text :: "string \<Rightarrow> bool" where
  "correlation_text s \<longleftrightarrow> head_then tenant_char (\<lambda>c. tenant_char c \<or> c \<in> set ''_.:-'') s \<and> len_between 8 180 s"

definition call_headers :: "headers \<Rightarrow> string \<Rightarrow> exc + string" where
  "call_headers hs key =
     (case required_header hs ''Idempotency-Key'' 8 180 of
        Inl e \<Rightarrow> Inl e
      | Inr supplied \<Rightarrow>
          if supplied \<noteq> key then Inl (Exc RequestValidationError ''Idempotency-Key must equal the request body key'')
          else (case required_header hs ''X-Correlation-ID'' 8 180 of
             Inl e \<Rightarrow> Inl e
           | Inr correlation \<Rightarrow>
               if \<not> correlation_text correlation
               then Inl (Exc RequestValidationError ''a bounded X-Correlation-ID is required'')
               else Inr correlation))"

text \<open>\<open>_ledger\<close>: which store the command service has, and whether the in-memory one is allowed.\<close>

datatype call_backend = NoCommandService | MemoryBackend | DurableBackend

definition calling_available :: "bool \<Rightarrow> call_backend \<Rightarrow> exc + unit" where
  "calling_available allow_in_memory_storage backend =
     (case backend of
        NoCommandService \<Rightarrow> Inl (Exc StorageError ''calling command ledger is unavailable'')
      | MemoryBackend \<Rightarrow> if \<not> allow_in_memory_storage
          then Inl (Exc StorageError ''in-memory calling state is prohibited in this runtime'') else Inr ()
      | DurableBackend \<Rightarrow> Inr ())"

text \<open>\<open>except CallingContractError as exc: raise AuthorizationError(str(exc))\<close>.\<close>

definition as_authorization :: "exc + 'a \<Rightarrow> exc + 'a" where
  "as_authorization r = (case r of
     Inl e \<Rightarrow> if exc_class e = CallingContractError then Inl (Exc AuthorizationError (exc_text e)) else Inl e
   | Inr a \<Rightarrow> Inr a)"

subsection \<open>Handlers\<close>

type_synonym call_response = "nat \<times> json_object"

record 's call_runtime =
  rt_tokens :: webhook_host
  rt_available :: "exc + unit"
  rt_calls :: "'s call_store"
  rt_originate :: "call_principal \<Rightarrow> originate_request \<Rightarrow> string \<Rightarrow> calling_grant \<Rightarrow> ('s, command_operation) prog"
  rt_grant :: "exc + calling_grant option"
  rt_source_sha :: string
  rt_clock :: int

definition api_originate :: "calling_host \<Rightarrow> 's call_runtime \<Rightarrow> headers \<Rightarrow> originate_request \<Rightarrow> ('s, call_response) prog" where
  "api_originate ch rt hs body =
     bindE (liftE (call_identity (rt_tokens rt) hs ''originate'')) (\<lambda>p.
     bindE (liftE (call_headers hs (og_idempotency_key body))) (\<lambda>correlation.
     thenE (liftE (as_authorization (assert_principal body p)))
     (thenE (liftE (rt_available rt))
     (bindE (replay ch (rt_calls rt) p body correlation) (\<lambda>previous.
       case previous of
         Some op \<Rightarrow> retE (200, operation_response op None)
       | None \<Rightarrow>
           bindE (liftE (as_authorization (rt_grant rt))) (\<lambda>loaded.
           case (if og_destination_class body \<noteq> ''internal_test'' then None else loaded) of
             None \<Rightarrow> retE (200, [(''dialing'', JStr ''blocked''),
               (''reason'', JStr ''internal calling is not authorized; public dialing remains disabled''),
               (''correlation_id'', JStr correlation), (''retry_safe'', JBool True), (''external_dialing'', JBool False)])
           | Some grant \<Rightarrow>
               thenE (liftE (as_authorization (grant_authorize grant p body (rt_source_sha rt) (rt_clock rt))))
               (bindE (rt_originate rt p body correlation grant) (\<lambda>op.
                  retE (if co_duplicate op then 200 else 202, operation_response op None)))))))))"

definition api_call_status :: "'s call_runtime \<Rightarrow> headers \<Rightarrow> uuid \<Rightarrow> ('s, call_response) prog" where
  "api_call_status rt hs operation_id =
     bindE (liftE (call_identity (rt_tokens rt) hs ''read'')) (\<lambda>p.
     thenE (liftE (rt_available rt))
     (bindE (calling_get (rt_calls rt) p operation_id) (\<lambda>(document, op).
       retE (200, operation_response op (Some document)))))"

definition api_reconcile :: "'s call_runtime \<Rightarrow> headers \<Rightarrow> uuid \<Rightarrow> mutation_request \<Rightarrow> ('s, call_response) prog" where
  "api_reconcile rt hs operation_id body =
     bindE (liftE (call_identity (rt_tokens rt) hs ''reconcile'')) (\<lambda>p.
     bindE (liftE (call_headers hs (mu_idempotency_key body))) (\<lambda>correlation.
     thenE (liftE (rt_available rt))
     (bindE (calling_get (rt_calls rt) p operation_id) (\<lambda>(document, _).
       if correlation \<noteq> ce_correlation_id document
       then raiseE RequestValidationError ''reconciliation must preserve the calling correlation ID''
       else
         bindE (calling_reconcile (rt_calls rt) p operation_id (mu_idempotency_key body) (mu_expected_version body)
             (mu_reason body)) (\<lambda>op.
           retE (202, operation_response op (Some document)))))))"

definition api_hangup :: "host \<Rightarrow> calling_host \<Rightarrow> policy_registry \<Rightarrow> 's call_runtime \<Rightarrow> headers \<Rightarrow> uuid \<Rightarrow> mutation_request
    \<Rightarrow> ('s, call_response) prog" where
  "api_hangup h ch policies rt hs operation_id body =
     bindE (liftE (call_identity (rt_tokens rt) hs ''hangup'')) (\<lambda>p.
     bindE (liftE (call_headers hs (mu_idempotency_key body))) (\<lambda>correlation.
     thenE (liftE (rt_available rt))
     (bindE (calling_get (rt_calls rt) p operation_id) (\<lambda>(document, current).
       if correlation \<noteq> ce_correlation_id document
       then raiseE RequestValidationError ''hangup must preserve the calling correlation ID''
       else
         bindE (calling_hangup h ch policies (rt_calls rt) p operation_id (mu_idempotency_key body)
             (mu_expected_version body) (mu_reason body)) (\<lambda>action.
           retE (if co_duplicate action then 200 else 202,
             dict_merge (operation_response current None)
              [(''hangup_operation_id'', JStr (uuid_str (co_command_id action))),
               (''hangup_state'', JStr (state_str (co_state action))),
               (''reason'', JStr ''hangup requested; terminal provider confirmation is still required''),
               (''duplicate'', JBool (co_duplicate action))]))))))"

definition durable_runtime :: "host \<Rightarrow> calling_host \<Rightarrow> webhook_host \<Rightarrow> jsonb \<Rightarrow> reading \<Rightarrow> policy_registry \<Rightarrow> int
    \<Rightarrow> exc + calling_grant option \<Rightarrow> string \<Rightarrow> int \<Rightarrow> command_db call_runtime" where
  "durable_runtime h ch wh jsonb rd policies current grant source_sha clock =
     \<lparr>rt_tokens = wh, rt_available = calling_available False DurableBackend, rt_calls = postgres_calls h jsonb rd,
      rt_originate = postgres_originate h ch jsonb rd current policies, rt_grant = grant, rt_source_sha = source_sha,
      rt_clock = clock\<rparr>"

definition memory_runtime :: "host \<Rightarrow> calling_host \<Rightarrow> webhook_host \<Rightarrow> int \<Rightarrow> policy_registry \<Rightarrow> bool \<Rightarrow> int
    \<Rightarrow> exc + calling_grant option \<Rightarrow> string \<Rightarrow> int \<Rightarrow> calling_memory call_runtime" where
  "memory_runtime h ch wh now policies allowed current grant source_sha clock =
     \<lparr>rt_tokens = wh, rt_available = calling_available allowed MemoryBackend, rt_calls = memory_calls h now,
      rt_originate = memory_originate h ch current now policies, rt_grant = grant, rt_source_sha = source_sha,
      rt_clock = clock\<rparr>"

end
