(* ===== verification/Postgres_Frames.thy ===== *)
theory Postgres_Frames
  imports Postgres_Guarantees
begin

text \<open>
  What a call of the durable command store leaves alone. A transition, a verdict or a mutation
  writes to the row, the attempts and the audit rows of its own command only, and never changes
  the columns a command was submitted with; a command that is completed or cancelled is not
  written to at all; a submission adds at most one row, of a command that is not there yet.
\<close>

definition submitted_columns :: "command_row \<Rightarrow> command_row" where
  "submitted_columns r = r\<lparr>co_state := Persisted, co_provider_operation_id := None, co_readback_evidence := None,
     co_readback_evidence_sha256 := None, co_last_error := None, co_created_at := 0, co_updated_at := 0,
     co_resource_version := 0, co_cancelled_at := None, co_cancellation_reason := None,
     co_reconciliation_requested_at := None, co_reconciliation_reason := None, co_duplicate := False,
     cr_queued_at := None, cr_accepted_at := None, cr_completed_at := None, cr_failed_at := None\<rparr>"

lemma submitted_columnsD:
  assumes "submitted_columns r = submitted_columns s"
  shows "co_tenant_id r = co_tenant_id s" "co_command_id r = co_command_id s" "co_command_type r = co_command_type s"
    "co_requested_by r = co_requested_by s" "co_correlation_id r = co_correlation_id s"
    "co_idempotency_key r = co_idempotency_key s" "cr_payload r = cr_payload s"
    "cr_payload_sha256 r = cr_payload_sha256 s"
  using assms by (cases r; cases s; simp add: submitted_columns_def)+

definition rewritten :: "string \<Rightarrow> uuid \<Rightarrow> command_row list \<Rightarrow> command_row list \<Rightarrow> bool" where
  "rewritten t c rows rows' \<longleftrightarrow> list_all2 (\<lambda>x y. submitted_columns y = submitted_columns x \<and> (\<not> is_command t c x \<longrightarrow> y = x)) rows rows'"

definition framed :: "string \<Rightarrow> uuid \<Rightarrow> command_db \<Rightarrow> command_db \<Rightarrow> bool" where
  "framed t c db db' \<longleftrightarrow> rewritten t c (pg_commands db) (pg_commands db')
     \<and> filter (\<lambda>e. \<not> is_audit t c e) (pg_audit db') = filter (\<lambda>e. \<not> is_audit t c e) (pg_audit db)
     \<and> filter (\<lambda>a. \<not> is_attempt t c a) (pg_attempts db') = filter (\<lambda>a. \<not> is_attempt t c a) (pg_attempts db)
     \<and> numbered at_attempt_id (pg_attempts db')"

lemma framed_refl: "numbered at_attempt_id (pg_attempts db) \<Longrightarrow> framed t c db db"
  by (simp add: framed_def rewritten_def list_all2_refl)

subsection \<open>Statements on one command\<close>

lemma update_command_frame [keeps_rules]:
  assumes "\<And>r. submitted_columns (f r) = submitted_columns r"
  shows "keeps (framed t c db) (update_command t c f)"
proof (rule keepsI)
  fix s assume s: "framed t c db s"
  have same: "is_command t c y = is_command t c x" if "submitted_columns y = submitted_columns x" for x y
    unfolding is_command_def using submitted_columnsD(1,2) [OF that] by (simp only:)
  have "rewritten t c (pg_commands db) (map (\<lambda>x. if is_command t c x then f x else x) (pg_commands s))"
    unfolding rewritten_def list_all2_map2
  proof (rule list_all2_mono [OF s [unfolded framed_def rewritten_def, THEN conjunct1]])
    show "submitted_columns (if is_command t c y then f y else y) = submitted_columns x
        \<and> (\<not> is_command t c x \<longrightarrow> (if is_command t c y then f y else y) = x)"
      if "submitted_columns y = submitted_columns x \<and> (\<not> is_command t c x \<longrightarrow> y = x)" for x y
      using that same [of y x] assms [of y] by metis
  qed
  then show "framed t c db (snd (update_command t c f s))"
    using s by (simp add: update_command_def framed_def split: option.split)
qed

lemma insert_audit_frame [keeps_rules]: "keeps (framed t c db) (insert_audit t c prev new actor reason meta now)"
  unfolding insert_audit_def by (rule keeps_modify) (simp add: framed_def is_audit_def)

lemma insert_attempt_frame [keeps_rules]: "keeps (framed t c db) (insert_attempt t c now)"
  unfolding insert_attempt_def by (rule keeps_modify) (simp add: framed_def is_attempt_def numbered_snoc)

lemma numbered_inj:
  assumes "numbered rid rows" "x \<in> set rows" "y \<in> set rows" "rid x = rid y"
  shows "x = y"
proof -
  have "distinct (map rid rows)" using assms(1) unfolding numbered_def by (metis distinct_upt)
  then show ?thesis using assms(2-4) by (simp add: distinct_map inj_on_def)
qed

lemma update_newest_frame [keeps_rules]:
  assumes f: "\<And>a. at_attempt_id (f a) = at_attempt_id a" "\<And>a. is_attempt t c (f a) = is_attempt t c a"
  shows "keeps (framed t c db) (update_newest_attempt t c f)"
  unfolding update_newest_attempt_def
proof (rule keeps_modify)
  fix s assume s: "framed t c db s"
  show "framed t c db (case newest_attempt t c s of None \<Rightarrow> s
      | Some a \<Rightarrow> s\<lparr>pg_attempts := map (\<lambda>x. if at_attempt_id x = at_attempt_id a then f x else x) (pg_attempts s)\<rparr>)"
  proof (cases "newest_attempt t c s")
    case (Some a)
    then have a: "a \<in> set (pg_attempts s)" "is_attempt t c a"
      unfolding newest_attempt_def by (rule sql_first_Some)+
    have num: "numbered at_attempt_id (pg_attempts s)" using s by (simp add: framed_def)
    have own: "x = a" if "x \<in> set (pg_attempts s)" "at_attempt_id x = at_attempt_id a" for x
      using numbered_inj [OF num that(1) a(1) that(2)] .
    have "filter (\<lambda>a. \<not> is_attempt t c a) (map (\<lambda>x. if x = a then f x else x) xs) = filter (\<lambda>a. \<not> is_attempt t c a) xs" for xs
      using a(2) f(2) by (induction xs) auto
    moreover have same: "map (\<lambda>x. if at_attempt_id x = at_attempt_id a then f x else x) (pg_attempts s)
        = map (\<lambda>x. if x = a then f x else x) (pg_attempts s)"
      using own by (intro map_cong) auto
    moreover have "numbered at_attempt_id (map (\<lambda>x. if at_attempt_id x = at_attempt_id a then f x else x) (pg_attempts s))"
      using num numbered_update [of at_attempt_id f] f(1) by simp
    ultimately show ?thesis using s unfolding Some option.case framed_def same by simp
  qed (use s in simp)
qed

lemma on_outbox_frame [keeps_rules]: "keeps (framed t c db) (on_outbox m)"
  by (rule keepsI) (auto simp: on_outbox_def zoomE_def framed_def split: prod.splits)

lemma keeps_tenant_transaction [keeps_rules]: "keeps I m \<Longrightarrow> keeps I (tenant_transaction t m)"
  unfolding tenant_transaction_def transaction_def
  by (rule keepsI) (auto simp: thenE_def bindE_def liftE_run dest: keepsD split: prod.splits sum.splits)

subsection \<open>Calls on one command\<close>

lemma rows_keep_columns:
  "submitted_columns (transition_row now ns p rs r) = submitted_columns r"
  "submitted_columns (verdict_row now m p rs r) = submitted_columns r"
  "submitted_columns (cancelled_row now ns rs r) = submitted_columns r"
  "submitted_columns (reconcilable_row now rs r) = submitted_columns r"
  "submitted_columns (requeued_row now r) = submitted_columns r"
  by (simp_all add: submitted_columns_def transition_row_def verdict_row_def cancelled_row_def reconcilable_row_def requeued_row_def)

lemma attempts_keep_owner:
  "at_attempt_id (transition_attempt now ns p rs ev a) = at_attempt_id a"
  "is_attempt t c (transition_attempt now ns p rs ev a) = is_attempt t c a"
  "at_attempt_id (verdict_attempt now m p rs' evd a) = at_attempt_id a"
  "is_attempt t c (verdict_attempt now m p rs' evd a) = is_attempt t c a"
  by (simp_all add: transition_attempt_def verdict_attempt_def is_attempt_def)

lemma transition_frame: "keeps (framed t c db) (pg_transition h jsonb now t c ns a rs p ev x)"
  unfolding pg_transition_def pg_transition_body_def
  by (intro keeps_rules rows_keep_columns attempts_keep_owner)

lemma reconcile_frame: "keeps (framed t c db) (pg_reconcile h jsonb now t c m a rs p evd ver)"
  unfolding pg_reconcile_def pg_reconcile_body_def
  by (intro keeps_rules rows_keep_columns attempts_keep_owner)

lemma cancel_frame: "keeps (framed t c db) (pg_cancel rd t c rs r)"
  unfolding pg_cancel_def Let_def by (intro keeps_rules rows_keep_columns)

lemma request_reconcile_frame: "keeps (framed t c db) (pg_request_reconcile h jsonb rd t c a ik rs r)"
  unfolding pg_request_reconcile_def outbox_insert_ignoring_def by (intro keeps_rules rows_keep_columns)

lemma retry_frame: "keeps (framed t c db) (pg_retry h jsonb rd t c a ik r)"
  unfolding pg_retry_def outbox_insert_ignoring_def Let_def by (intro keeps_rules rows_keep_columns)

lemma action_frame: "keeps (framed t c db) (pg_apply_action h jsonb rd act t c a ik rs r)"
  unfolding pg_apply_action_def
  by (cases act) (simp_all only: mutation_action.case cancel_frame request_reconcile_frame retry_frame)

lemma record_mutation_frame: "keeps (framed t c db) (modifyE (\<lambda>db. db\<lparr>pg_mutations := pg_mutations db @ [m]\<rparr>))"
  by (rule keeps_modify) (simp add: framed_def)

lemma mutate_frame: "keeps (framed t c db) (pg_mutate_operation h jsonb rd t c act a ik ver rs mc)"
  unfolding pg_mutate_operation_def
  by (intro keeps_rules action_frame record_mutation_frame)

definition on_command :: "ledger_call \<Rightarrow> bool" where
  "on_command x \<longleftrightarrow> (case x of CallSubmit c client dest evd tr \<Rightarrow> False | _ \<Rightarrow> True)"

lemma call_frame:
  assumes "on_command x" and "numbered at_attempt_id (pg_attempts db)"
  shows "framed (call_tenant x) (call_command x) db (snd (postgres_call h jsonb rd x db))"
proof -
  have "keeps (framed (call_tenant x) (call_command x) db) (postgres_call h jsonb rd x)"
    using assms(1) by (cases x) (simp_all add: on_command_def transition_frame reconcile_frame mutate_frame)
  from keepsD [OF this framed_refl [OF assms(2)]] show ?thesis .
qed

text \<open>A command that is over is not written to.\<close>

lemma over_call_inert:
  assumes x: "on_command x" and r: "command_at (call_tenant x) (call_command x) db = Some r"
    and over: "co_state r \<in> set [Completed, Cancelled]"
  shows "snd (postgres_call h jsonb rd x db) = db"
proof (cases "canonical_tenant_id (call_tenant x)")
  case (Inl e)
  then show ?thesis by (rule foreign_tenant_changes_nothing)
next
  case tn: (Inr v)
  note runs = transaction_def bindE_def getsE_def raiseE_def
  show ?thesis
  proof (cases x)
    case (CallSubmit c client dest evd tr)
    then show ?thesis using x by (simp add: on_command_def)
  next
    case (CallTransition t c ns a rs p ev y)
    have none: "ALLOWED_COMMAND_TRANSITIONS (co_state r) = []" using over by auto
    have "\<exists>e. pg_transition_body h jsonb (rd_now rd) t c ns a rs p ev y db = (Inl e, db)"
      using r CallTransition by (simp add: pg_transition_body_def bindE_def getsE_def raiseE_def none)
    then show ?thesis using CallTransition tn
      by (auto simp: pg_transition_def tenant_transaction_ok transaction_def bindE_def raiseE_def)
  next
    case (CallReconcile t c m a rs p evd ver)
    have "\<exists>e. pg_reconcile_body h jsonb (rd_now rd) t c m a (take 2048 rs) p evd ver db = (Inl e, db)"
      using r over CallReconcile by (auto simp: pg_reconcile_body_def bindE_def getsE_def raiseE_def)
    then show ?thesis using CallReconcile tn
      by (auto simp: pg_reconcile_def tenant_transaction_ok transaction_def bindE_def)
  next
    case (CallMutate t c act a ik ver rs mc)
    have refused: "\<exists>e. pg_apply_action h jsonb rd act t c a ik rs r db = (Inl e, db)"
      using over by (cases act) (auto simp: pg_apply_action_def pg_cancel_def pg_request_reconcile_def pg_retry_def raiseE_def)
    then show ?thesis using CallMutate r tn
      by (auto simp: pg_mutate_operation_def tenant_transaction_ok runs retE_def split: option.split)
  qed
qed

subsection \<open>Submissions\<close>

lemma existing_submission_inert:
  assumes "list_ex (clashes c) (pg_commands db)"
  shows "snd (pg_submit h jsonb rd c client dest evd tr db) = db"
proof (cases "canonical_tenant_id (ce_tenant_id c)")
  case (Inl e)
  then show ?thesis using foreign_tenant_changes_nothing [of "CallSubmit c client dest evd tr"] by simp
next
  case (Inr v)
  have "snd (pg_submit_existing h c client db) = db"
    by (simp add: pg_submit_existing_def bindE_def getsE_def raiseE_def liftE_run split: list.split)
  then show ?thesis
    using assms Inr pg_submit_eq [OF Inr, where dest = dest and h = h and jsonb = jsonb and rd = rd and client = client and evd = evd and tr = tr]
    by (cases "dest \<in> set COMMAND_DESTINATIONS"; cases "pg_submit_existing h c client db")
      (auto simp: transaction_def pg_submit_def tenant_transaction_ok submit_on_connection_def raiseE_def split: sum.split)
qed

lemma submission_effect:
  obtains (none) "snd (pg_submit h jsonb rd c client dest evd tr db) = db"
  | (new) ae ob where "\<not> list_ex (clashes c) (pg_commands db)" "is_audit (ce_tenant_id c) (ce_command_id c) ae"
      "snd (pg_submit h jsonb rd c client dest evd tr db) = db\<lparr>pg_commands := pg_commands db @ [command_row_of h jsonb (rd_now rd) c client],
         pg_audit := pg_audit db @ [ae], pg_outbox := ob\<rparr>"
proof (cases "list_ex (clashes c) (pg_commands db)")
  case True
  then show ?thesis using none existing_submission_inert by blast
next
  case fresh: False
  show ?thesis
  proof (cases "canonical_tenant_id (ce_tenant_id c)")
    case (Inl e)
    then show ?thesis using none foreign_tenant_changes_nothing [of "CallSubmit c client dest evd tr"] by simp
  next
    case tn: (Inr v)
    show ?thesis
    proof (cases "dest \<in> set COMMAND_DESTINATIONS")
      case False
      then show ?thesis using none tn
        by (simp add: pg_submit_def tenant_transaction_ok submit_on_connection_def raiseE_def transaction_def)
    next
      case dest: True
      let ?busy = "list_ex (\<lambda>y. oi_id y = rd_outbox_id rd \<or> oi_tenant_id y = ce_tenant_id c \<and> oi_destination y = dest
        \<and> oi_idempotency_key y = ce_idempotency_key c) (db_rows (pg_outbox db))"
      show ?thesis
      proof (cases ?busy)
        case True
        then show ?thesis using none blocked_submission_changes_nothing [OF tn fresh] by blast
      next
        case False
        then show ?thesis using new [OF fresh] pg_submit_new [OF tn _ fresh False, where h = h and jsonb = jsonb and client = client and evd = evd and tr = tr] dest
          by (auto simp: is_audit_def)
      qed
    qed
  qed
qed

subsection \<open>What is read of a command that was left alone\<close>

lemma sql_first_filter: "(\<And>r. P r \<Longrightarrow> Q r) \<Longrightarrow> filter Q rows = filter Q rows' \<Longrightarrow> sql_first key P rows = sql_first key P rows'"
proof -
  assume PQ: "\<And>r. P r \<Longrightarrow> Q r" and same: "filter Q rows = filter Q rows'"
  have "filter P xs = filter P (filter Q xs)" for xs using PQ by (induction xs) auto
  then show ?thesis unfolding sql_first_def using same by metis
qed

lemma framed_evidence:
  assumes "framed t c db db'" and other: "(t', c') \<noteq> (t, c)"
  shows "persisted_evidence t' c' P db' = persisted_evidence t' c' P db"
proof -
  have "newest_attempt t' c' db' = newest_attempt t' c' db"
    unfolding newest_attempt_def using assms
    by (intro sql_first_filter [of _ "\<lambda>a. \<not> is_attempt t c a"]) (auto simp: framed_def is_attempt_def)
  moreover have "sql_first (\<lambda>e. - int (ev_event_id e)) (\<lambda>e. is_audit t' c' e \<and> P e) (pg_audit db')
      = sql_first (\<lambda>e. - int (ev_event_id e)) (\<lambda>e. is_audit t' c' e \<and> P e) (pg_audit db)"
    using assms by (intro sql_first_filter [of _ "\<lambda>e. \<not> is_audit t c e"]) (auto simp: framed_def is_audit_def)
  ultimately show ?thesis by (simp add: persisted_evidence_def)
qed

lemma inserted_evidence:
  assumes "is_audit t c ae" and "(t', c') \<noteq> (t, c)"
  shows "persisted_evidence t' c' P (db\<lparr>pg_commands := rows, pg_audit := pg_audit db @ [ae], pg_outbox := ob\<rparr>) = persisted_evidence t' c' P db"
  using assms by (auto simp: persisted_evidence_def newest_attempt_def sql_first_def is_audit_def)

end
