(* ===== verification/Calling_Reads.thy ===== *)
theory Calling_Reads
  imports Calling_Api Postgres_Frames
begin

text \<open>
  What the calling facade relies on of the store behind it: reading a document or an operation
  changes nothing, and a document is filed under its tenant. From that contract alone: \<open>get\<close> and
  \<open>replay\<close> change nothing and show a call only to its owner, and a hangup is built from a call its
  requester owns. Both stores satisfy the contract.
\<close>

text \<open>What \<open>get\<close> may show a principal: its own originate request, or a hangup of such a request.\<close>

definition owned_by :: "call_principal \<Rightarrow> command_envelope \<Rightarrow> bool" where
  "owned_by p d \<longleftrightarrow> ce_target d = TARGET \<and> ce_command_type d = ORIGINATE \<and> ce_tenant_id d = pl_tenant_id p
     \<and> ce_requested_by d = pl_subject p \<and> opt_eq (map_of (ce_payload d) ''actor'') (Some (JObj (principal_payload p)))"

lemma owner_Inr: "owner d p = Inr () \<longleftrightarrow> owned_by p d"
  by (auto simp: owner_def owned_by_def)

locale call_reads =
  fixes S :: "'s call_store" and found :: "'s \<Rightarrow> string \<Rightarrow> uuid \<Rightarrow> command_envelope option"
  assumes document_reads: "cl_document S t u s = (r, s') \<Longrightarrow> s' = s"
    and document_found: "cl_document S t u s = (Inr d, s') \<Longrightarrow> found s t u = Some d"
    and get_reads: "cl_get S t u s = (r', s') \<Longrightarrow> s' = s"
begin

lemma document_returns: "cl_document S t u s = (Inr d, s') \<Longrightarrow> s' = s \<and> found s t u = Some d"
  using document_reads document_found by blast

lemma calling_get_reads: "calling_get S p u s = (r, s') \<Longrightarrow> s' = s"
  unfolding calling_get_def Let_def
  by (auto simp: bindE_def thenE_def liftE_run retE_def reraiseE_def dest: document_reads get_reads
      split: prod.splits sum.splits if_splits option.splits)

lemma replay_reads: "replay ch S p body corr s = (r, s') \<Longrightarrow> s' = s"
  unfolding replay_def
  by (auto simp: bindE_def catchE_def retE_def reraiseE_def raiseE_def dest: calling_get_reads
      split: prod.splits sum.splits if_splits option.splits)

lemma calling_get_found:
  "calling_get S p u s = (Inr (d, op), s') \<Longrightarrow> found s (pl_tenant_id p) u = Some d"
  unfolding calling_get_def Let_def
  by (auto simp: bindE_def thenE_def liftE_run retE_def reraiseE_def dest: document_reads get_reads document_found
      split: prod.splits sum.splits if_splits option.splits)

lemma calling_get_owned:
  assumes "calling_get S p u s = (Inr (d, op), s')"
  shows "ce_command_type d = ORIGINATE \<and> owned_by p d
    \<or> ce_command_type d = HANGUP \<and> (\<exists>d0 op0 u0. origin_operation d = Some u0 \<and> found s (pl_tenant_id p) u0 = Some d0
        \<and> owned_by p d0 \<and> hangup_of d d0 op0)"
  using assms unfolding calling_get_def Let_def
  by (auto simp: bindE_def thenE_def liftE_run retE_def reraiseE_def owner_Inr
      dest!: document_returns get_reads split: prod.splits sum.splits if_splits option.splits)

lemma hangup_command_reads:
  assumes "hangup_command h ch policies S p u key ver reason s = (r, s')"
  shows "s' = s"
proof -
  have "keeps (\<lambda>x. x = s) (calling_get S p u)" "keeps (\<lambda>x. x = s) (cl_get S t u')" for t u'
    by (rule keepsI, use calling_get_reads get_reads prod.collapse in metis)+
  then have "keeps (\<lambda>x. x = s) (hangup_command h ch policies S p u key ver reason)"
    unfolding hangup_command_def Let_def by (intro keeps_rules)
  then show ?thesis using keepsD [of "\<lambda>x. x = s"] assms by fastforce
qed

text \<open>A hangup that passed every check was built from an originate request of its requester.\<close>

lemma hangup_command_built:
  assumes "hangup_command h ch policies S p u key ver reason s = (Inr c, s')"
  shows "\<exists>d0 call_id actor orig ref pol. found s (pl_tenant_id p) u = Some d0 \<and> owned_by p d0 \<and> valid_envelope h c
    \<and> c = hangup_envelope ch p u key reason d0 call_id actor orig ref pol
    \<and> map_of (ce_payload d0) ''actor'' = Some actor \<and> map_of (ce_payload d0) ''authorization_reference'' = Some ref"
proof -
  obtain d0 op s1 where get: "calling_get S p u s = (Inr (d0, op), s1)"
    using assms by (auto simp: hangup_command_def bindE_def split: prod.splits sum.splits)
  then have d0: "found s (pl_tenant_id p) u = Some d0" "ce_command_type d0 = ORIGINATE \<Longrightarrow> owned_by p d0"
    using calling_get_found calling_get_owned [OF get] by (auto simp: ORIGINATE_def HANGUP_def)
  have "ce_command_type d0 = ORIGINATE \<and> valid_envelope h c \<and> (\<exists>call_id actor orig ref pol.
      c = hangup_envelope ch p u key reason d0 call_id actor orig ref pol
      \<and> map_of (ce_payload d0) ''actor'' = Some actor \<and> map_of (ce_payload d0) ''authorization_reference'' = Some ref)"
    using assms unfolding hangup_command_def bindE_def get
    by (auto simp: Let_def thenE_def bindE_def liftE_run retE_def raiseE_def subscript_def make_envelope_def
        split: prod.splits sum.splits if_splits option.splits)
  then show ?thesis using d0 by blast
qed

end

subsection \<open>The two stores\<close>

interpretation mcalls: call_reads "memory_calls h now" "\<lambda>s t u. map_of (cm_documents s) (t, u)" for h now
proof
  fix t u s r s' d r'
  show "cl_document (memory_calls h now) t u s = (r, s') \<Longrightarrow> s' = s"
    "cl_document (memory_calls h now) t u s = (Inr d, s') \<Longrightarrow> map_of (cm_documents s) (t, u) = Some d"
    by (auto simp: memory_calls_def memory_document_def bindE_def getsE_def reraiseE_def retE_def split: option.splits)
  show "cl_get (memory_calls h now) t u s = (r', s') \<Longrightarrow> s' = s"
    by (auto simp: memory_calls_def on_calling_store_def zoomE_def store_get_def split: option.splits)
qed

definition stored_document :: "host \<Rightarrow> command_db \<Rightarrow> string \<Rightarrow> uuid \<Rightarrow> command_envelope option" where
  "stored_document h db t u = (case command_at t u db of None \<Rightarrow> None
     | Some r \<Rightarrow> (case decode_document h r of Inl e \<Rightarrow> None | Inr d \<Rightarrow> Some d))"

lemma reading_transaction: "tenant_transaction t (getsE f) db = (case canonical_tenant_id t of Inl e \<Rightarrow> (Inl e, db) | Inr v \<Rightarrow> (Inr (f db), db))"
  by (simp add: tenant_transaction_def transaction_def thenE_def bindE_def liftE_run getsE_def split: sum.split)

interpretation pcalls: call_reads "postgres_calls h jsonb rd" "stored_document h" for h jsonb rd
proof
  fix t u s r s' d r'
  show "cl_document (postgres_calls h jsonb rd) t u s = (r, s') \<Longrightarrow> s' = s"
    "cl_document (postgres_calls h jsonb rd) t u s = (Inr d, s') \<Longrightarrow> stored_document h s t u = Some d"
    by (auto simp: postgres_calls_def postgres_document_def bindE_def reading_transaction reraiseE_def liftE_run stored_document_def
        split: option.splits sum.splits)
  show "cl_get (postgres_calls h jsonb rd) t u s = (r', s') \<Longrightarrow> s' = s"
    by (auto simp: postgres_calls_def pg_get_def bindE_def reading_transaction reraiseE_def liftE_run
        split: option.splits sum.splits prod.splits)
qed

end
