(* ===== verification/Calling_Guarantees.thy ===== *)
theory Calling_Guarantees
  imports Calling_Reads
begin

text \<open>
  What the calling ledger guarantees on the durable store, under any interleaving of originate and
  hangup requests, of all other callers of the command store and of the workers: a single-call
  grant is spent once, an agent or an extension never has two calls that may be live, every call
  is to an internal alias and was authorized by a grant for this release, and every hangup belongs
  to a call of the one who asks for it.
\<close>

subsection \<open>The deployment and its steps\<close>

record calling_site =
  si_host :: host
  si_calling :: calling_host
  si_jsonb :: jsonb
  si_policies :: policy_registry
  si_source_sha :: string

text \<open>A \<open>jsonb\<close> column keeps the texts of a document, also of the objects nested in it.\<close>

definition keeps_paths :: "jsonb \<Rightarrow> bool" where
  "keeps_paths jsonb \<longleftrightarrow> (\<forall>d path s. text_at (JObj d) path = Some s \<longrightarrow> text_at (JObj (jsonb d)) path = Some s)"

text \<open>
  The capability of the calling commands is theirs alone and switched off for generic callers, as
  \<open>config/capabilities.v2.json\<close> and the command registry have it.
\<close>

definition capability_off :: "policy_registry \<Rightarrow> bool" where
  "capability_off reg \<longleftrightarrow> map_of (pr_capabilities reg) CAPABILITY \<noteq> Some True
     \<and> list_all (\<lambda>p. startswith ORIGINATE (cp_prefix p) \<or> startswith HANGUP (cp_prefix p) \<longrightarrow> cp_capability p = CAPABILITY)
         (pr_policies reg)"

text \<open>
  A state is the database and the hangups that passed their checks and are not yet submitted: other
  processes commit between the reads of a hangup and its submission. An originate request reserves
  in one transaction.
\<close>

type_synonym calling_state = "command_db \<times> command_envelope list"

inductive calling_step :: "calling_site \<Rightarrow> calling_state \<Rightarrow> calling_state \<Rightarrow> bool" for D :: calling_site where
  cal_originate: "valid_originate (si_calling D) body \<Longrightarrow> valid_grant grant \<Longrightarrow>
     grant_authorize grant p body (si_source_sha D) clock = Inr () \<Longrightarrow>
     calling_step D (db, pend) (snd (postgres_originate (si_host D) (si_calling D) (si_jsonb D) rd current (si_policies D)
       p body correlation grant db), pend)"
| cal_hangup: "hangup_command (si_host D) (si_calling D) (si_policies D) (postgres_calls (si_host D) (si_jsonb D) rd)
       p u key ver reason db = (Inr c, db') \<Longrightarrow> calling_step D (db, pend) (db', c # pend)"
| cal_hangup_sent: "c \<in> set pend \<Longrightarrow>
     calling_step D (db, pend) (snd (pg_submit (si_host D) (si_jsonb D) rd c CLIENT_ID TEMPORAL_COMMAND_DESTINATION None None db), pend)"
| cal_submit: "valid_envelope (si_host D) c \<Longrightarrow>
     \<not> startswith (ce_command_type c) INTERNAL_PREFIX \<or> validate_submission (si_policies D) c subject client = Inr policy \<Longrightarrow>
     calling_step D (db, pend) (snd (pg_submit (si_host D) (si_jsonb D) rd c client dest evd tr db), pend)"
| cal_call: "on_command x \<Longrightarrow> sane_call (si_host D) x \<Longrightarrow>
     calling_step D (db, pend) (snd (postgres_call (si_host D) (si_jsonb D) rd x db), pend)"
| cal_workers: "calling_step D (db, pend) (db\<lparr>pg_outbox := ob\<rparr>, pend)"

definition calling_init :: "calling_state \<Rightarrow> bool" where
  "calling_init s \<longleftrightarrow> s = (empty_command_db, [])"

abbreviation calling_reach :: "calling_site \<Rightarrow> calling_state \<Rightarrow> bool" where
  "calling_reach D \<equiv> reach calling_init (calling_step D)"

subsection \<open>What the rows say\<close>

definition auth_reference :: "command_row \<Rightarrow> string option" where
  "auth_reference r = row_text r [''authorization_reference'']"

definition shares_agent :: "command_row \<Rightarrow> command_row \<Rightarrow> bool" where
  "shares_agent r1 r2 \<longleftrightarrow> row_text r1 [''actor'', ''employee_id''] = row_text r2 [''actor'', ''employee_id'']
     \<or> row_text r1 [''actor'', ''extension''] = row_text r2 [''actor'', ''extension'']"

text \<open>The ledger holds the evidence that the call is over, or the request was cancelled before dispatch.\<close>

definition call_over :: "host \<Rightarrow> command_db \<Rightarrow> command_row \<Rightarrow> bool" where
  "call_over h db r \<longleftrightarrow> co_state r = Cancelled
     \<or> (case prior_operation h db r of Inl e \<Rightarrow> False | Inr op \<Rightarrow> terminal op None)"

definition stored_row :: "calling_site \<Rightarrow> command_row \<Rightarrow> bool" where
  "stored_row D r \<longleftrightarrow> (\<exists>c client. submitted_columns r
     = submitted_columns (command_row_of (si_host D) (si_jsonb D) 0 c client))"

definition authorized_row :: "calling_site \<Rightarrow> command_row \<Rightarrow> bool" where
  "authorized_row D r \<longleftrightarrow> (\<exists>p body correlation grant clock. valid_originate (si_calling D) body \<and> valid_grant grant
     \<and> grant_authorize grant p body (si_source_sha D) clock = Inr ()
     \<and> submitted_columns r = submitted_columns (command_row_of (si_host D) (si_jsonb D) 0
         (originate_envelope (si_host D) (si_calling D) p body correlation grant) CLIENT_ID))"

definition ends_call :: "command_db \<Rightarrow> string \<Rightarrow> string \<Rightarrow> string \<Rightarrow> string option \<Rightarrow> string option \<Rightarrow> bool" where
  "ends_call db tenant requester correlation origin reference \<longleftrightarrow> (\<exists>r \<in> set (pg_commands db).
     co_command_type r = ORIGINATE \<and> co_tenant_id r = tenant \<and> co_requested_by r = requester
     \<and> co_correlation_id r = correlation \<and> origin = Some (uuid_str (co_command_id r)) \<and> reference = auth_reference r)"

definition bound_hangup :: "command_db \<Rightarrow> command_row \<Rightarrow> bool" where
  "bound_hangup db r \<longleftrightarrow> ends_call db (co_tenant_id r) (co_requested_by r) (co_correlation_id r)
     (row_text r [''origin_operation_id'']) (auth_reference r)"

definition pending_hangup :: "calling_site \<Rightarrow> command_db \<Rightarrow> command_envelope \<Rightarrow> bool" where
  "pending_hangup D db c \<longleftrightarrow> valid_envelope (si_host D) c \<and> ce_command_type c = HANGUP
     \<and> ends_call db (ce_tenant_id c) (ce_requested_by c) (ce_correlation_id c)
        (text_at (JObj (ce_payload c)) [''origin_operation_id'']) (text_at (JObj (ce_payload c)) [''authorization_reference''])"

definition rows_ok :: "calling_site \<Rightarrow> command_db \<Rightarrow> bool" where
  "rows_ok D db \<longleftrightarrow> (\<forall>r \<in> set (pg_commands db). stored_row D r \<and> (co_command_type r = ORIGINATE \<longrightarrow> authorized_row D r)
     \<and> (co_command_type r = HANGUP \<longrightarrow> bound_hangup db r))"

definition reserved :: "calling_site \<Rightarrow> command_db \<Rightarrow> bool" where
  "reserved D db \<longleftrightarrow> (\<forall>r1 \<in> set (pg_commands db). \<forall>r2 \<in> set (pg_commands db).
     co_command_type r1 = ORIGINATE \<and> co_command_type r2 = ORIGINATE \<and> co_tenant_id r1 = co_tenant_id r2 \<and> r1 \<noteq> r2
     \<longrightarrow> auth_reference r1 \<noteq> auth_reference r2
       \<and> (shares_agent r1 r2 \<longrightarrow> call_over (si_host D) db r1 \<or> call_over (si_host D) db r2))"

definition calling_inv :: "calling_site \<Rightarrow> calling_state \<Rightarrow> bool" where
  "calling_inv D s \<longleftrightarrow> postgres_reach (si_host D) (si_jsonb D) (fst s) \<and> rows_ok D (fst s) \<and> reserved D (fst s)
     \<and> (\<forall>c \<in> set (snd s). pending_hangup D (fst s) c)"

subsection \<open>Rows and their columns\<close>

lemma columns_same_text:
  assumes "submitted_columns r = submitted_columns s"
  shows "row_text r path = row_text s path" "auth_reference r = auth_reference s"
  using submitted_columnsD(7) [OF assms] by (simp_all add: row_text_def auth_reference_def)

lemma columns_shares: "submitted_columns r = submitted_columns s \<Longrightarrow> shares_agent r x = shares_agent s x"
  "submitted_columns r = submitted_columns s \<Longrightarrow> shares_agent x r = shares_agent x s"
  by (simp_all only: shares_agent_def columns_same_text(1) [of r s])

lemma new_row_columns:
  "co_command_type (command_row_of h jsonb now c client) = ce_command_type c"
  "co_requested_by (command_row_of h jsonb now c client) = ce_requested_by c"
  "co_correlation_id (command_row_of h jsonb now c client) = ce_correlation_id c"
  "co_state (command_row_of h jsonb now c client) = Persisted"
  "cr_payload (command_row_of h jsonb now c client) = jsonb (authenticated_command_payload c client)"
  "submitted_columns (command_row_of h jsonb now c client) = submitted_columns (command_row_of h jsonb 0 c client)"
  by (simp_all add: command_row_of_def command_operation.defs command_row.defs new_operation_def submitted_columns_def)

lemma payload_member:
  "map_of (authenticated_command_payload c client) ''payload'' = Some (JObj (ce_payload c))"
  by (simp add: authenticated_command_payload_def envelope_json_def AUTHENTICATED_CLIENT_ID_KEY_def)

lemma payload_text:
  assumes "keeps_paths jsonb" and "text_at (JObj (ce_payload c)) path = Some s"
    and "cr_payload r = jsonb (authenticated_command_payload c client)"
  shows "row_text r path = Some s"
proof -
  have "text_at (JObj (authenticated_command_payload c client)) (''payload'' # path) = Some s"
    using assms(2) payload_member [of c client] by simp
  then show ?thesis using assms(1) unfolding row_text_def assms(3) keeps_paths_def by blast
qed

lemma call_over_state: "call_over h db r \<Longrightarrow> co_state r \<in> set [Completed, Cancelled]"
  by (auto simp: call_over_def prior_operation_def row_operation_def terminal_def Let_def command_operation.defs
      split: sum.splits prod.splits)

lemma generic_not_calling:
  assumes "capability_off reg" and "validate_submission reg c subject client = Inr policy"
  shows "ce_command_type c \<noteq> ORIGINATE \<and> ce_command_type c \<noteq> HANGUP"
proof -
  obtain p where p: "matching_policies reg (ce_command_type c) = [p]" "map_of (pr_capabilities reg) (cp_capability p) = Some True"
    using assms(2) by (auto simp: validate_submission_def authorize_def split: if_splits list.splits)
  then have "p \<in> set (pr_policies reg)" "startswith (ce_command_type c) (cp_prefix p)"
    using arg_cong [OF p(1), of set] unfolding matching_policies_def set_filter by auto
  then show ?thesis using assms(1) p(2) by (auto simp: capability_off_def list_all_iff)
qed

subsection \<open>How the rows evolve\<close>

definition evolves :: "host \<Rightarrow> command_db \<Rightarrow> command_db \<Rightarrow> bool" where
  "evolves h db db' \<longleftrightarrow>
     (\<forall>r' \<in> set (pg_commands db'). \<exists>r \<in> set (pg_commands db). submitted_columns r' = submitted_columns r
        \<and> (call_over h db r \<longrightarrow> call_over h db' r'))
     \<and> (\<forall>r \<in> set (pg_commands db). \<exists>r' \<in> set (pg_commands db'). submitted_columns r' = submitted_columns r)"

lemma evolves_refl: "evolves h db db"
  by (auto simp: evolves_def)

lemma evolves_workers: "evolves h db (db\<lparr>pg_outbox := ob\<rparr>)"
  by (auto simp: evolves_def call_over_def prior_operation_def persisted_evidence_def newest_attempt_def)

lemma same_evidence_call_over:
  "(\<And>P. persisted_evidence (co_tenant_id r) (co_command_id r) P db' = persisted_evidence (co_tenant_id r) (co_command_id r) P db)
     \<Longrightarrow> call_over h db' r = call_over h db r"
  by (simp add: call_over_def prior_operation_def)

lemma list_all2_partners:
  assumes "list_all2 P xs ys"
  shows "y \<in> set ys \<Longrightarrow> \<exists>x \<in> set xs. P x y" "x \<in> set xs \<Longrightarrow> \<exists>y \<in> set ys. P x y"
  using assms by (induction rule: list_all2_induct) auto

lemma call_evolves:
  assumes sound: "tables_sound db" and x: "on_command x"
  shows "evolves h' db (snd (postgres_call h jsonb rd x db))"
proof (cases "snd (postgres_call h jsonb rd x db) = db")
  case True
  then show ?thesis by (simp add: evolves_refl)
next
  case changed: False
  let ?t = "call_tenant x" and ?c = "call_command x" and ?db' = "snd (postgres_call h jsonb rd x db)"
  have frame: "framed ?t ?c db ?db'"
    using call_frame [OF x] sound by (simp add: tables_sound_def)
  have step: "submitted_columns r' = submitted_columns r \<and> (call_over h' db r \<longrightarrow> call_over h' ?db' r')"
    if r: "r \<in> set (pg_commands db)" "submitted_columns r' = submitted_columns r" "\<not> is_command ?t ?c r \<longrightarrow> r' = r" for r r'
  proof (cases "is_command ?t ?c r")
    case True
    then have "command_at ?t ?c db = Some r" using command_at_mem [OF sound r(1)] by (auto simp: is_command_def)
    then have "\<not> call_over h' db r" using over_call_inert [OF x] call_over_state changed by blast
    then show ?thesis using r(2) by blast
  next
    case False
    then have "call_over h' ?db' r = call_over h' db r"
      by (intro same_evidence_call_over framed_evidence [OF frame]) (auto simp: is_command_def)
    then show ?thesis using False r(3) by blast
  qed
  note rows = frame [unfolded framed_def rewritten_def, THEN conjunct1]
  show ?thesis
    unfolding evolves_def
  proof (intro conjI ballI)
    fix r' assume "r' \<in> set (pg_commands ?db')"
    then obtain r where "r \<in> set (pg_commands db)" "submitted_columns r' = submitted_columns r" "\<not> is_command ?t ?c r \<longrightarrow> r' = r"
      using list_all2_partners(1) [OF rows] by blast
    then show "\<exists>r \<in> set (pg_commands db). submitted_columns r' = submitted_columns r \<and> (call_over h' db r \<longrightarrow> call_over h' ?db' r')"
      using step by blast
  next
    fix r assume "r \<in> set (pg_commands db)"
    then show "\<exists>r' \<in> set (pg_commands ?db'). submitted_columns r' = submitted_columns r"
      using list_all2_partners(2) [OF rows] by blast
  qed
qed

lemma ends_call_mono:
  assumes "ends_call db t a k orig ref"
    and "\<And>r. r \<in> set (pg_commands db) \<Longrightarrow> \<exists>r' \<in> set (pg_commands db'). submitted_columns r' = submitted_columns r"
  shows "ends_call db' t a k orig ref"
proof -
  obtain r where r: "r \<in> set (pg_commands db)" "co_command_type r = ORIGINATE" "co_tenant_id r = t" "co_requested_by r = a"
      "co_correlation_id r = k" "orig = Some (uuid_str (co_command_id r))" "ref = auth_reference r"
    using assms(1) unfolding ends_call_def by blast
  obtain r' where r': "r' \<in> set (pg_commands db')" "submitted_columns r' = submitted_columns r" using assms(2) r(1) by blast
  show ?thesis unfolding ends_call_def
    by (intro bexI [OF _ r'(1)]) (simp only: r submitted_columnsD [OF r'(2)] columns_same_text [OF r'(2)])
qed

lemma bound_hangup_columns:
  "submitted_columns r = submitted_columns s \<Longrightarrow> bound_hangup db r = bound_hangup db s"
  unfolding bound_hangup_def by (simp only: submitted_columnsD [of r s] columns_same_text [of r s])

lemma evolves_rows:
  assumes ev: "evolves h db db'" and rows: "rows_ok D db"
  shows "rows_ok D db'"
  unfolding rows_ok_def
proof (intro ballI)
  fix r' assume "r' \<in> set (pg_commands db')"
  then obtain r where r: "r \<in> set (pg_commands db)" "submitted_columns r' = submitted_columns r"
    using ev unfolding evolves_def by blast
  have more: "\<exists>y \<in> set (pg_commands db'). submitted_columns y = submitted_columns x" if "x \<in> set (pg_commands db)" for x
    using ev that unfolding evolves_def by blast
  have "stored_row D r'" "co_command_type r' = ORIGINATE \<longrightarrow> authorized_row D r'"
    using rows r(1) submitted_columnsD(3) [OF r(2)] unfolding rows_ok_def stored_row_def authorized_row_def r(2) by auto
  moreover have "bound_hangup db' r'" if "co_command_type r' = HANGUP"
  proof -
    have "bound_hangup db r" using rows r(1) that submitted_columnsD(3) [OF r(2)] unfolding rows_ok_def by metis
    then have "bound_hangup db' r" unfolding bound_hangup_def using more by (rule ends_call_mono)
    then show ?thesis using bound_hangup_columns [OF r(2)] by blast
  qed
  ultimately show "stored_row D r' \<and> (co_command_type r' = ORIGINATE \<longrightarrow> authorized_row D r') \<and> (co_command_type r' = HANGUP \<longrightarrow> bound_hangup db' r')"
    by blast
qed

lemma same_key_same_row:
  assumes "tables_sound db" "x \<in> set (pg_commands db)" "y \<in> set (pg_commands db)" "submitted_columns x = submitted_columns y"
  shows "x = y"
  using command_at_mem [OF assms(1,2)] command_at_mem [OF assms(1,3)]
  unfolding submitted_columnsD(1,2) [OF assms(4)] by simp

lemma evolves_reserved:
  assumes ev: "evolves (si_host D) db db'" and res: "reserved D db" and sound: "tables_sound db'"
  shows "reserved D db'"
  unfolding reserved_def
proof (intro ballI impI)
  fix x' y' assume in': "x' \<in> set (pg_commands db')" "y' \<in> set (pg_commands db')"
    and types: "co_command_type x' = ORIGINATE \<and> co_command_type y' = ORIGINATE \<and> co_tenant_id x' = co_tenant_id y' \<and> x' \<noteq> y'"
  obtain x where x: "x \<in> set (pg_commands db)" "submitted_columns x' = submitted_columns x"
      "call_over (si_host D) db x \<longrightarrow> call_over (si_host D) db' x'"
    using ev in'(1) unfolding evolves_def by blast
  obtain y where y: "y \<in> set (pg_commands db)" "submitted_columns y' = submitted_columns y"
      "call_over (si_host D) db y \<longrightarrow> call_over (si_host D) db' y'"
    using ev in'(2) unfolding evolves_def by blast
  have "x \<noteq> y" using same_key_same_row [OF sound in'] x(2) y(2) types by metis
  then have "auth_reference x \<noteq> auth_reference y \<and> (shares_agent x y \<longrightarrow> call_over (si_host D) db x \<or> call_over (si_host D) db y)"
    using res x(1) y(1) types submitted_columnsD(1,3) [OF x(2)] submitted_columnsD(1,3) [OF y(2)] unfolding reserved_def by metis
  then show "auth_reference x' \<noteq> auth_reference y' \<and> (shares_agent x' y' \<longrightarrow> call_over (si_host D) db' x' \<or> call_over (si_host D) db' y')"
    unfolding columns_same_text(2) [OF x(2)] columns_same_text(2) [OF y(2)] columns_shares(1) [OF x(2)] columns_shares(2) [OF y(2)]
    using x(3) y(3) by blast
qed

subsection \<open>A new command\<close>

lemma shares_agent_sym: "shares_agent x y \<longleftrightarrow> shares_agent y x"
  by (auto simp: shares_agent_def)

lemma insert_reserved:
  assumes res: "reserved D db" and n: "n = command_row_of h jsonb now c client"
    and db': "db' = db\<lparr>pg_commands := pg_commands db @ [n], pg_audit := pg_audit db @ [ae], pg_outbox := ob\<rparr>"
    and ae: "is_audit (ce_tenant_id c) (ce_command_id c) ae" and fresh: "\<not> list_ex (clashes c) (pg_commands db)"
    and free: "\<And>x. x \<in> set (pg_commands db) \<Longrightarrow> co_command_type x = ORIGINATE \<Longrightarrow> co_tenant_id x = ce_tenant_id c \<Longrightarrow>
      ce_command_type c = ORIGINATE \<Longrightarrow> auth_reference x \<noteq> auth_reference n \<and> (shares_agent x n \<longrightarrow> call_over (si_host D) db x)"
  shows "reserved D db'"
proof -
  have over: "call_over (si_host D) db' x = call_over (si_host D) db x" if x: "x \<in> set (pg_commands db)" for x
  proof (rule same_evidence_call_over)
    have "(co_tenant_id x, co_command_id x) \<noteq> (ce_tenant_id c, ce_command_id c)"
      using fresh x by (auto simp: list_ex_iff clashes_def)
    then show "persisted_evidence (co_tenant_id x) (co_command_id x) P db' = persisted_evidence (co_tenant_id x) (co_command_id x) P db" for P
      unfolding db' by (rule inserted_evidence [OF ae])
  qed
  have new: "auth_reference x \<noteq> auth_reference n \<and> (shares_agent x n \<longrightarrow> call_over (si_host D) db' x)"
    if "x \<in> set (pg_commands db)" "co_command_type x = ORIGINATE" "co_command_type n = ORIGINATE" "co_tenant_id x = co_tenant_id n" for x
    using free [of x] that over [of x] by (simp add: n new_row_columns)
  show ?thesis
    unfolding reserved_def
  proof (intro ballI impI)
    fix x y assume "x \<in> set (pg_commands db')" "y \<in> set (pg_commands db')"
      and types: "co_command_type x = ORIGINATE \<and> co_command_type y = ORIGINATE \<and> co_tenant_id x = co_tenant_id y \<and> x \<noteq> y"
    then consider "x \<in> set (pg_commands db)" "y \<in> set (pg_commands db)" | "x \<in> set (pg_commands db)" "y = n"
      | "y \<in> set (pg_commands db)" "x = n" by (auto simp: db')
    then show "auth_reference x \<noteq> auth_reference y \<and> (shares_agent x y \<longrightarrow> call_over (si_host D) db' x \<or> call_over (si_host D) db' y)"
    proof cases
      case 1
      then show ?thesis using res types over unfolding reserved_def by blast
    next
      case 2
      then show ?thesis using new types by blast
    next
      case 3
      then show ?thesis using new [of y] types shares_agent_sym [of x y] by metis
    qed
  qed
qed

lemma insert_rows:
  assumes rows: "rows_ok D db" and n: "n = command_row_of (si_host D) (si_jsonb D) now c client"
    and db': "pg_commands db' = pg_commands db @ [n]"
    and orig: "ce_command_type c = ORIGINATE \<Longrightarrow> authorized_row D n" and hang: "ce_command_type c = HANGUP \<Longrightarrow> bound_hangup db n"
  shows "rows_ok D db'"
proof -
  have more: "\<exists>y \<in> set (pg_commands db'). submitted_columns y = submitted_columns x" if "x \<in> set (pg_commands db)" for x
    using that by (auto simp: db')
  have bound: "bound_hangup db' r" if "bound_hangup db r" for r
    using that more unfolding bound_hangup_def by (rule ends_call_mono)
  have "stored_row D n" unfolding stored_row_def n using new_row_columns(6) by blast
  then show ?thesis using rows orig hang bound unfolding rows_ok_def db' by (auto simp: n new_row_columns(1))
qed

lemma pending_mono:
  assumes "pending_hangup D db c" and "\<And>x. x \<in> set (pg_commands db) \<Longrightarrow> \<exists>y \<in> set (pg_commands db'). submitted_columns y = submitted_columns x"
  shows "pending_hangup D db' c"
  using assms(1) ends_call_mono [OF _ assms(2)] unfolding pending_hangup_def by blast

subsection \<open>Originating\<close>

lemma reserve_cases:
  obtains (refused) e where "postgres_reserve h jsonb rd current p body grant c db = (Inl e, db)"
  | (existing) "existing_command c db" "postgres_reserve h jsonb rd current p body grant c db
      = submit_on_connection h jsonb rd c CLIENT_ID None TEMPORAL_COMMAND_DESTINATION None None db"
  | (granted) "\<not> existing_command c db" "grant_authorize grant p body (cg_source_sha grant) current = Inr ()" "\<not> consumed p grant db"
      "require_terminal (map (prior_operation h db) (candidate_rows p db)) = Inr ()"
      "postgres_reserve h jsonb rd current p body grant c db
      = submit_on_connection h jsonb rd c CLIENT_ID None TEMPORAL_COMMAND_DESTINATION None None db"
proof (cases "existing_command c db")
  case True
  then show ?thesis using existing by (simp add: postgres_reserve_def Let_def bindE_def getsE_def)
next
  case fresh: False
  note run = postgres_reserve_def Let_def bindE_def thenE_def getsE_def liftE_run
  show ?thesis
  proof (cases "grant_authorize grant p body (cg_source_sha grant) current")
    case (Inl e)
    then show ?thesis using refused fresh by (simp add: run)
  next
    case auth: (Inr a)
    show ?thesis
    proof (cases "consumed p grant db")
      case True
      then show ?thesis using refused fresh auth by (simp add: run reraiseE_def)
    next
      case False
      then show ?thesis using refused granted fresh auth
        by (cases "require_terminal (map (prior_operation h db) (candidate_rows p db))") (simp_all add: run)
    qed
  qed
qed

lemma existing_clashes: "existing_command c db = list_ex (clashes c) (pg_commands db)"
  by (simp add: existing_command_def clashes_def [abs_def])

lemma reserve_submits:
  assumes c: "c = originate_envelope h ch p body correlation grant" and "valid_envelope h c" and "calling_validate policies c = Inr pol"
    and same: "postgres_reserve h jsonb rd current p body grant c db
      = submit_on_connection h jsonb rd c CLIENT_ID None TEMPORAL_COMMAND_DESTINATION None None db"
  shows "postgres_originate h ch jsonb rd current policies p body correlation grant db
    = pg_submit h jsonb rd c CLIENT_ID TEMPORAL_COMMAND_DESTINATION None None db"
proof -
  have "pl_tenant_id p = ce_tenant_id c" by (simp add: c originate_envelope_def)
  moreover have "postgres_originate h ch jsonb rd current policies p body correlation grant db
      = tenant_transaction (pl_tenant_id p) (postgres_reserve h jsonb rd current p body grant c) db"
    using assms(2,3) by (simp add: postgres_originate_def c make_envelope_def bindE_def thenE_def liftE_run)
  ultimately show ?thesis using same
    by (cases "canonical_tenant_id (ce_tenant_id c)")
      (simp_all add: pg_submit_def tenant_transaction_def transaction_def thenE_def bindE_def liftE_run)
qed

lemma originate_effect:
  assumes c: "c = originate_envelope h ch p body correlation grant"
  obtains (none) "snd (postgres_originate h ch jsonb rd current policies p body correlation grant db) = db"
  | (submitted) "valid_envelope h c" "\<not> consumed p grant db"
      "require_terminal (map (prior_operation h db) (candidate_rows p db)) = Inr ()"
      "snd (postgres_originate h ch jsonb rd current policies p body correlation grant db)
        = snd (pg_submit h jsonb rd c CLIENT_ID TEMPORAL_COMMAND_DESTINATION None None db)"
proof (cases "valid_envelope h c \<and> (\<exists>pol. calling_validate policies c = Inr pol)")
  case False
  then have "snd (postgres_originate h ch jsonb rd current policies p body correlation grant db) = db"
    by (cases "calling_validate policies c") (auto simp: postgres_originate_def c make_envelope_def bindE_def thenE_def liftE_run)
  then show ?thesis by (rule none)
next
  case True
  let ?reserve = "postgres_reserve h jsonb rd current p body grant c"
  note same = reserve_submits [OF c, where policies = policies and jsonb = jsonb and rd = rd and current = current and db = db]
  have run: "snd (postgres_originate h ch jsonb rd current policies p body correlation grant db)
      = snd (tenant_transaction (pl_tenant_id p) ?reserve db)"
    using True by (auto simp: postgres_originate_def c make_envelope_def bindE_def thenE_def liftE_run)
  show ?thesis
  proof (cases rule: reserve_cases [of h jsonb rd current p body grant c db])
    case (refused e)
    then have "snd (tenant_transaction (pl_tenant_id p) ?reserve db) = db"
      by (cases "canonical_tenant_id (pl_tenant_id p)")
        (simp_all add: tenant_transaction_def transaction_def thenE_def bindE_def liftE_run)
    then show ?thesis using none run by simp
  next
    case existing
    then show ?thesis using none True same existing_submission_inert existing_clashes by metis
  next
    case granted
    then show ?thesis using submitted True same by metis
  qed
qed

lemma require_terminal_all:
  "require_terminal ops = Inr () \<Longrightarrow> x \<in> set ops \<Longrightarrow> \<exists>op. x = Inr op \<and> terminal op None"
  by (induction ops rule: require_terminal.induct) (auto split: if_splits)

lemma candidates_over:
  assumes "require_terminal (map (prior_operation h db) (candidate_rows p db)) = Inr ()"
    and "r \<in> set (originate_rows (pl_tenant_id p) db)" and "same_agent (pl_employee_id p) (pl_extension p) r"
  shows "call_over h db r"
proof (cases "co_state r = Cancelled")
  case False
  then have "prior_operation h db r \<in> set (map (prior_operation h db) (candidate_rows p db))"
    using assms(2,3) by (auto simp: candidate_rows_def)
  then show ?thesis using require_terminal_all [OF assms(1)] unfolding call_over_def by fastforce
qed (simp add: call_over_def)

subsection \<open>What a stored call says\<close>

lemmas originate_texts = originate_envelope_def principal_payload_def originate_payload_def

lemma authorized_texts:
  assumes "keeps_paths jsonb" and "cr_payload r = jsonb (authenticated_command_payload (originate_envelope h ch p body correlation grant) client)"
  shows "auth_reference r = Some (cg_authorization_reference grant)"
    "row_text r [''actor'', ''employee_id''] = Some (pl_employee_id p)" "row_text r [''actor'', ''extension''] = Some (pl_extension p)"
    "row_text r [''originate'', ''destination''] = Some (og_destination body)"
    "row_text r [''originate'', ''destination_class''] = Some (og_destination_class body)"
  unfolding auth_reference_def
  by (rule payload_text [OF assms(1) _ assms(2)], simp add: originate_texts)+

lemma all_fields_present:
  assumes "(case (a, b, c, d, e, f, g, i, j, k) of
      (Some a', Some b', Some c', Some d', Some e', Some f', Some g', Some i', Some j', Some (JObj k')) \<Rightarrow> F a' b' c' d' e' f' g' i' j' k'
    | _ \<Rightarrow> None) = Some y"
  shows "\<exists>a' b' c' d' e' f' g' i' j' k'. b = Some b' \<and> f = Some f' \<and> g = Some g' \<and> k = Some (JObj k') \<and> F a' b' c' d' e' f' g' i' j' k' = Some y"
  using assms by (simp split: option.splits json.splits) blast

lemma from_payload_fields:
  assumes "command_envelope_from_payload h pl = Some d"
  shows "map_of pl ''command_type'' = Some (JStr (ce_command_type d))" "map_of pl ''requested_by'' = Some (JStr (ce_requested_by d))"
    "map_of pl ''correlation_id'' = Some (JStr (ce_correlation_id d))" "map_of pl ''payload'' = Some (JObj (ce_payload d))"
proof -
  let ?public = "filter (\<lambda>(k, v). k \<noteq> AUTHENTICATED_CLIENT_ID_KEY) pl"
  have public: "map_of ?public k = map_of pl k" if "k \<noteq> AUTHENTICATED_CLIENT_ID_KEY" for k
    using that by (induction pl) auto
  have member: "map_of pl k = Some (JStr s)" if "str_field ?public k = Some s" "k \<noteq> AUTHENTICATED_CLIENT_ID_KEY" for k s
    using that public by (auto simp: str_field_def split: option.splits json.splits)
  have "list_all (\<lambda>(k, v). k \<in> set envelope_fields) ?public"
    using assms by (simp add: command_envelope_from_payload_def Let_def split: if_splits)
  from all_fields_present [OF assms [unfolded command_envelope_from_payload_def Let_def if_P [OF this]]]
  obtain cid ct cv tg tn rb co ik cap kv where fields: "str_field ?public ''command_type'' = Some ct" "str_field ?public ''requested_by'' = Some rb"
      "str_field ?public ''correlation_id'' = Some co" "map_of ?public ''payload'' = Some (JObj kv)"
    and built: "(case uuid_parse cid of None \<Rightarrow> None | Some u \<Rightarrow>
       if valid_envelope h \<lparr>ce_command_id = u, ce_command_type = ct, ce_command_version = cv, ce_target = tg, ce_tenant_id = tn,
         ce_requested_by = rb, ce_correlation_id = co, ce_idempotency_key = ik, ce_capability = cap, ce_payload = kv\<rparr>
       then Some \<lparr>ce_command_id = u, ce_command_type = ct, ce_command_version = cv, ce_target = tg, ce_tenant_id = tn,
         ce_requested_by = rb, ce_correlation_id = co, ce_idempotency_key = ik, ce_capability = cap, ce_payload = kv\<rparr> else None) = Some d"
    by (elim exE conjE)
  have "ce_command_type d = ct \<and> ce_requested_by d = rb \<and> ce_correlation_id d = co \<and> ce_payload d = kv"
    using built by (auto split: option.splits if_splits)
  with fields
  show "map_of pl ''command_type'' = Some (JStr (ce_command_type d))" "map_of pl ''requested_by'' = Some (JStr (ce_requested_by d))"
    "map_of pl ''correlation_id'' = Some (JStr (ce_correlation_id d))" "map_of pl ''payload'' = Some (JObj (ce_payload d))"
    using member public by (auto simp: AUTHENTICATED_CLIENT_ID_KEY_def)
qed

lemma stored_row_columns:
  assumes jb: "keeps_text (si_jsonb D)" and "stored_row D r" and dec: "command_envelope_from_payload h (cr_payload r) = Some d"
  shows "co_command_type r = ce_command_type d" "co_requested_by r = ce_requested_by d" "co_correlation_id r = ce_correlation_id d"
proof -
  obtain c client where c: "submitted_columns r = submitted_columns (command_row_of (si_host D) (si_jsonb D) 0 c client)"
    using assms(2) unfolding stored_row_def by blast
  note cols = submitted_columnsD [OF c] new_row_columns
  have kept: "map_of (cr_payload r) k = Some (JStr s)" if "map_of (authenticated_command_payload c client) k = Some (JStr s)" for k s
    using jb that unfolding cols(7) new_row_columns keeps_text_def by blast
  show "co_command_type r = ce_command_type d" "co_requested_by r = ce_requested_by d" "co_correlation_id r = ce_correlation_id d"
    using kept [of "''command_type''" "ce_command_type c"] kept [of "''requested_by''" "ce_requested_by c"]
      kept [of "''correlation_id''" "ce_correlation_id c"] from_payload_fields(1-3) [OF dec]
    unfolding cols(3-5) new_row_columns
    by (simp_all add: authenticated_command_payload_def envelope_json_def AUTHENTICATED_CLIENT_ID_KEY_def)
qed

lemma hangup_pending:
  assumes rows: "rows_ok D db" and jb: "keeps_text (si_jsonb D)"
    and run: "hangup_command (si_host D) ch policies (postgres_calls (si_host D) jsonb rd) p u key ver reason db = (Inr c, db')"
  shows "pending_hangup D db c"
proof -
  obtain d0 call_id actor orig ref pol where d0: "stored_document (si_host D) db (pl_tenant_id p) u = Some d0" "owned_by p d0"
      "valid_envelope (si_host D) c" "c = hangup_envelope ch p u key reason d0 call_id actor orig ref pol"
      "map_of (ce_payload d0) ''authorization_reference'' = Some ref"
    using pcalls.hangup_command_built [OF run] by blast
  obtain r where r: "command_at (pl_tenant_id p) u db = Some r" "decode_document (si_host D) r = Inr d0"
    using d0(1) by (auto simp: stored_document_def split: option.splits sum.splits)
  have dec: "command_envelope_from_payload (si_host D) (cr_payload r) = Some d0"
    using r(2) by (auto simp: decode_document_def split: option.splits if_splits)
  have mem: "r \<in> set (pg_commands db)" "co_tenant_id r = pl_tenant_id p" "co_command_id r = u" using command_atD [OF r(1)] by blast+
  have "stored_row D r" using rows mem(1) unfolding rows_ok_def by blast
  note cols = stored_row_columns [OF jb this dec]
  have "ends_call db (pl_tenant_id p) (pl_subject p) (ce_correlation_id d0) (Some (uuid_str u)) (text_at (JObj (ce_payload d0)) [''authorization_reference''])"
    unfolding ends_call_def
    by (rule bexI [OF _ mem(1)])
      (use mem cols d0(2) from_payload_fields(4) [OF dec] in \<open>auto simp: owned_by_def auth_reference_def row_text_def\<close>)
  then show ?thesis using d0(3,5) unfolding pending_hangup_def d0(4) by (simp add: hangup_envelope_def)
qed

lemma sent_hangup_bound:
  assumes rows: "rows_ok D db" and pend: "pending_hangup D db c" and jb: "keeps_paths (si_jsonb D)"
    and n: "cr_payload n = si_jsonb D (authenticated_command_payload c client)"
      "co_tenant_id n = ce_tenant_id c" "co_requested_by n = ce_requested_by c" "co_correlation_id n = ce_correlation_id c"
  shows "bound_hangup db n"
proof -
  let ?ref = "text_at (JObj (ce_payload c)) [''authorization_reference'']"
  obtain r where r: "r \<in> set (pg_commands db)" "co_command_type r = ORIGINATE" "?ref = auth_reference r"
      "text_at (JObj (ce_payload c)) [''origin_operation_id''] = Some (uuid_str (co_command_id r))"
    using pend unfolding pending_hangup_def ends_call_def by metis
  obtain ref where ref: "auth_reference r = Some ref"
  proof -
    obtain p body k grant where "submitted_columns r = submitted_columns (command_row_of (si_host D) (si_jsonb D) 0
        (originate_envelope (si_host D) (si_calling D) p body k grant) CLIENT_ID)"
      using rows r(1,2) unfolding rows_ok_def authorized_row_def by blast
    from submitted_columnsD(7) [OF this] have "cr_payload r
        = si_jsonb D (authenticated_command_payload (originate_envelope (si_host D) (si_calling D) p body k grant) CLIENT_ID)"
      unfolding new_row_columns .
    then show ?thesis using that authorized_texts(1) [OF jb] by blast
  qed
  have "row_text n [''origin_operation_id''] = Some (uuid_str (co_command_id r))" "auth_reference n = Some ref"
    unfolding auth_reference_def by (rule payload_text [OF jb _ n(1)], use r(3,4) ref in simp)+
  then show ?thesis using pend r(3,4) ref unfolding bound_hangup_def pending_hangup_def n(2-4) by simp
qed

subsection \<open>The invariant\<close>

definition site_ok :: "calling_site \<Rightarrow> bool" where
  "site_ok D \<longleftrightarrow> keeps_text (si_jsonb D) \<and> keeps_paths (si_jsonb D) \<and> capability_off (si_policies D)"

lemma reach_sound: "postgres_reach h jsonb db \<Longrightarrow> keeps_text jsonb \<Longrightarrow> tables_sound db"
  using pgl.reach_inv unfolding ledger_sim_def by blast

lemma evolution_keeps:
  assumes inv: "calling_inv D (db, pend)" and site: "site_ok D" and ev: "evolves (si_host D) db db'"
    and step: "postgres_step (si_host D) (si_jsonb D) db db'"
  shows "calling_inv D (db', pend)"
proof -
  have reach: "postgres_reach (si_host D) (si_jsonb D) db'" using inv step reach_step unfolding calling_inv_def by fastforce
  have "tables_sound db'" using reach_sound [OF reach] site by (simp add: site_ok_def)
  then have "reserved D db'" using evolves_reserved [OF ev] inv by (simp add: calling_inv_def)
  moreover have "rows_ok D db'" using evolves_rows [OF ev] inv by (simp add: calling_inv_def)
  moreover have "pending_hangup D db' c" if "c \<in> set pend" for c
    by (rule pending_mono [of D db]) (use inv that ev in \<open>auto simp: calling_inv_def evolves_def\<close>)
  ultimately show ?thesis using reach by (simp add: calling_inv_def)
qed

lemma submission_keeps:
  assumes inv: "calling_inv D (db, pend)" and valid: "valid_envelope (si_host D) c"
    and n: "n = command_row_of (si_host D) (si_jsonb D) (rd_now rd) c client"
    and orig: "ce_command_type c = ORIGINATE \<Longrightarrow> authorized_row D n"
      "\<And>x. x \<in> set (pg_commands db) \<Longrightarrow> co_command_type x = ORIGINATE \<Longrightarrow> co_tenant_id x = ce_tenant_id c \<Longrightarrow>
        ce_command_type c = ORIGINATE \<Longrightarrow> auth_reference x \<noteq> auth_reference n \<and> (shares_agent x n \<longrightarrow> call_over (si_host D) db x)"
    and hang: "ce_command_type c = HANGUP \<Longrightarrow> bound_hangup db n"
  shows "calling_inv D (snd (pg_submit (si_host D) (si_jsonb D) rd c client dest evd tr db), pend)"
proof (cases rule: submission_effect [of "si_host D" "si_jsonb D" rd c client dest evd tr db])
  case none
  then show ?thesis using inv by simp
next
  case (new ae ob)
  let ?db' = "db\<lparr>pg_commands := pg_commands db @ [n], pg_audit := pg_audit db @ [ae], pg_outbox := ob\<rparr>"
  have db': "snd (pg_submit (si_host D) (si_jsonb D) rd c client dest evd tr db) = ?db'" using new(3) by (simp only: n)
  have "postgres_step (si_host D) (si_jsonb D) db ?db'"
    using ps_call [of "si_host D" "CallSubmit c client dest evd tr" "si_jsonb D" db rd] valid db' by simp
  then have "postgres_reach (si_host D) (si_jsonb D) ?db'" using inv reach_step unfolding calling_inv_def by fastforce
  moreover have parts: "rows_ok D db" "reserved D db" using inv by (simp_all add: calling_inv_def)
  have "reserved D ?db'" by (rule insert_reserved [OF parts(2) n refl new(2,1) orig(2)])
  moreover have "rows_ok D ?db'" by (rule insert_rows [OF parts(1) n _ orig(1) hang]) simp_all
  moreover have "pending_hangup D ?db' e" if "e \<in> set pend" for e
  proof (rule pending_mono [of D db])
    show "pending_hangup D db e" using inv that by (simp add: calling_inv_def)
    show "\<exists>y \<in> set (pg_commands ?db'). submitted_columns y = submitted_columns x" if "x \<in> set (pg_commands db)" for x
      by (rule bexI [of _ x]) (use that in simp_all)
  qed
  ultimately show ?thesis unfolding db' by (simp add: calling_inv_def)
qed

lemma calls_differ: "ORIGINATE \<noteq> HANGUP"
  by (simp add: ORIGINATE_def HANGUP_def)

lemma originate_keeps:
  assumes inv: "calling_inv D (db, pend)" and site: "site_ok D"
    and body: "valid_originate (si_calling D) body" "valid_grant grant" "grant_authorize grant p body (si_source_sha D) clock = Inr ()"
  shows "calling_inv D (snd (postgres_originate (si_host D) (si_calling D) (si_jsonb D) rd current (si_policies D) p body k grant db), pend)"
proof -
  let ?c = "originate_envelope (si_host D) (si_calling D) p body k grant"
  let ?db' = "snd (postgres_originate (si_host D) (si_calling D) (si_jsonb D) rd current (si_policies D) p body k grant db)"
  consider (none) "?db' = db" | (submitted) "valid_envelope (si_host D) ?c" "\<not> consumed p grant db"
      "require_terminal (map (prior_operation (si_host D) db) (candidate_rows p db)) = Inr ()"
      "?db' = snd (pg_submit (si_host D) (si_jsonb D) rd ?c CLIENT_ID TEMPORAL_COMMAND_DESTINATION None None db)"
    by (rule originate_effect [OF refl])
  then show ?thesis
  proof cases
    case none
    then show ?thesis using inv by simp
  next
    case submitted
    define n where "n = command_row_of (si_host D) (si_jsonb D) (rd_now rd) ?c CLIENT_ID"
    have c: "ce_tenant_id ?c = pl_tenant_id p" "ce_command_type ?c = ORIGINATE" by (simp_all add: originate_envelope_def)
    have jb: "keeps_paths (si_jsonb D)" using site by (simp add: site_ok_def)
    have "cr_payload n = si_jsonb D (authenticated_command_payload ?c CLIENT_ID)" by (simp add: n_def new_row_columns)
    note texts = authorized_texts [OF jb this]
    have free: "auth_reference x \<noteq> auth_reference n \<and> (shares_agent x n \<longrightarrow> call_over (si_host D) db x)"
      if "x \<in> set (pg_commands db)" "co_command_type x = ORIGINATE" "co_tenant_id x = ce_tenant_id ?c" for x
    proof -
      have x: "x \<in> set (originate_rows (pl_tenant_id p) db)" using that c by (simp add: originate_rows_def)
      then have "auth_reference x \<noteq> auth_reference n"
        using submitted(2) texts(1) by (auto simp: consumed_def list_ex_iff auth_reference_def)
      moreover have "call_over (si_host D) db x" if "shares_agent x n"
        using candidates_over [OF submitted(3) x] that texts(2,3) by (simp add: shares_agent_def same_agent_def)
      ultimately show ?thesis by blast
    qed
    have "authorized_row D n"
      unfolding authorized_row_def n_def using body new_row_columns(6) by blast
    then show ?thesis
      unfolding submitted(4)
      by (intro submission_keeps [OF inv submitted(1) n_def]) (use free c(2) calls_differ in auto)
  qed
qed

lemma not_internal: "\<not> startswith s INTERNAL_PREFIX \<Longrightarrow> s \<noteq> ORIGINATE \<and> s \<noteq> HANGUP"
  by (auto simp: startswith_def ORIGINATE_def HANGUP_def)

interpretation cal: machine_invariant calling_init "calling_step D" "\<lambda>s. site_ok D \<longrightarrow> calling_inv D s" for D
proof
  show "site_ok D \<longrightarrow> calling_inv D s" if "calling_init s" for s
    using that by (auto simp: calling_init_def calling_inv_def rows_ok_def reserved_def empty_command_db_def postgres_init_def
        intro!: reach_init)
  show "site_ok D \<longrightarrow> calling_inv D t" if "calling_step D s t" "site_ok D \<longrightarrow> calling_inv D s" for s t
  proof
    assume site: "site_ok D"
    then have inv: "calling_inv D s" using that(2) by blast
    show "calling_inv D t"
      using that(1)
    proof cases
      case (cal_originate body grant p clock db pend rd current correlation)
      then show ?thesis using originate_keeps [OF _ site] inv by blast
    next
      case (cal_hangup rd p u key ver reason db c db' pend)
      have "db' = db" using pcalls.hangup_command_reads [OF cal_hangup(3)] .
      moreover have "pending_hangup D db c"
        using hangup_pending [OF _ _ cal_hangup(3)] inv site by (simp add: cal_hangup(1) calling_inv_def site_ok_def)
      ultimately show ?thesis using inv by (simp add: cal_hangup(1,2) calling_inv_def)
    next
      case (cal_hangup_sent c pend db rd)
      let ?n = "command_row_of (si_host D) (si_jsonb D) (rd_now rd) c CLIENT_ID"
      have c: "pending_hangup D db c" "rows_ok D db" using inv cal_hangup_sent(1,3) by (auto simp: calling_inv_def)
      have "bound_hangup db ?n"
        by (rule sent_hangup_bound [OF c(2,1)]) (use site in \<open>simp_all add: site_ok_def new_row_columns\<close>)
      then show ?thesis
        unfolding cal_hangup_sent(2)
        by (intro submission_keeps [OF inv [unfolded cal_hangup_sent(1)] _ refl])
          (use c(1) calls_differ in \<open>auto simp: pending_hangup_def\<close>)
    next
      case (cal_submit c subject client policy db pend rd dest evd tr)
      have "ce_command_type c \<noteq> ORIGINATE \<and> ce_command_type c \<noteq> HANGUP"
        using cal_submit(4) not_internal generic_not_calling site unfolding site_ok_def by blast
      then show ?thesis
        unfolding cal_submit(2) using submission_keeps [OF inv [unfolded cal_submit(1)] cal_submit(3) refl] by blast
    next
      case (cal_call x db pend rd)
      have "tables_sound db" using inv site reach_sound by (auto simp: cal_call(1) calling_inv_def site_ok_def)
      from call_evolves [OF this cal_call(3)] ps_call [OF cal_call(4)] show ?thesis
        unfolding cal_call(2) using evolution_keeps [OF inv [unfolded cal_call(1)] site] by blast
    next
      case (cal_workers db pend ob)
      show ?thesis unfolding cal_workers(2)
        by (rule evolution_keeps [OF inv [unfolded cal_workers(1)] site evolves_workers ps_workers])
    qed
  qed
qed

subsection \<open>The endpoints\<close>

lemma api_originate_effect:
  assumes "rt = durable_runtime h ch wh jsonb rd policies current grant sha clock"
  shows "snd (api_originate ch rt hs body db) = db \<or> (\<exists>p k g. grant = Inr (Some g) \<and> grant_authorize g p body sha clock = Inr ()
    \<and> snd (api_originate ch rt hs body db) = snd (postgres_originate h ch jsonb rd current policies p body k g db))"
  unfolding assms api_originate_def durable_runtime_def
  by (auto simp: bindE_def thenE_def liftE_run retE_def as_authorization_def dest!: pcalls.replay_reads
      split: prod.splits sum.splits option.splits if_splits) (metis snd_conv)+

lemma durable_calls:
  "cl_submit (postgres_calls h jsonb rd) c = pg_submit h jsonb rd c CLIENT_ID TEMPORAL_COMMAND_DESTINATION None None"
  "cl_mutate (postgres_calls h jsonb rd) t u act a ik ver rs = pg_mutate_operation h jsonb rd t u act a ik ver rs None"
  "cl_remember (postgres_calls h jsonb rd) c = retE ()"
  by (simp_all add: postgres_calls_def)

lemma calling_reconcile_effect:
  "snd (calling_reconcile (postgres_calls h jsonb rd) p u key ver rs db)
     \<in> {db, snd (pg_mutate_operation h jsonb rd (pl_tenant_id p) u ActReconcile (pl_subject p) key ver rs None db)}"
proof (cases "calling_get (postgres_calls h jsonb rd) p u db")
  case (Pair r db')
  then have "db' = db" by (rule pcalls.calling_get_reads)
  then show ?thesis using Pair
    by (cases r) (auto simp: calling_reconcile_def bindE_def raiseE_def retE_def durable_calls)
qed

lemma calling_hangup_effect:
  "snd (calling_hangup h ch policies (postgres_calls h jsonb rd) p u key ver rs db) = db
     \<or> (\<exists>c. hangup_command h ch policies (postgres_calls h jsonb rd) p u key ver rs db = (Inr c, db)
          \<and> snd (calling_hangup h ch policies (postgres_calls h jsonb rd) p u key ver rs db)
            = snd (pg_submit h jsonb rd c CLIENT_ID TEMPORAL_COMMAND_DESTINATION None None db))"
proof (cases "hangup_command h ch policies (postgres_calls h jsonb rd) p u key ver rs db")
  case (Pair r db')
  then have "db' = db" by (rule pcalls.hangup_command_reads)
  then show ?thesis using Pair
    by (cases r) (auto simp: calling_hangup_def bindE_def thenE_def retE_def durable_calls split: prod.split sum.split)
qed

text \<open>After the identity and the headers, the reconcile and the hangup endpoint read the call and hand over to the ledger.\<close>

lemma after_get:
  assumes "\<And>p d op. snd (k p d op db) \<in> S" and "db \<in> S"
  shows "snd (bindE (calling_get (postgres_calls h jsonb rd) p u) (\<lambda>(d, op). k p d op) db) \<in> S"
proof (cases "calling_get (postgres_calls h jsonb rd) p u db")
  case (Pair r db')
  then have "db' = db" by (rule pcalls.calling_get_reads)
  then show ?thesis using Pair assms by (cases r) (auto simp: bindE_def split: prod.split)
qed

lemma checked_input: "(\<And>a. snd (k a db) \<in> S) \<Longrightarrow> db \<in> S \<Longrightarrow> snd (bindE (liftE r) k db) \<in> S"
  by (cases r) (simp_all add: bindE_def liftE_run)

lemma checked_then: "snd (k db) \<in> S \<Longrightarrow> db \<in> S \<Longrightarrow> snd (thenE (liftE r) k db) \<in> S"
  by (cases r) (simp_all add: thenE_def bindE_def liftE_run)

lemma answered: "snd (bindE m (\<lambda>a. retE (f a)) db) = snd (m db)"
  by (simp add: bindE_def retE_def split: prod.split sum.split)

lemma durable_runtime_simps:
  "rt_tokens (durable_runtime h ch wh jsonb rd policies current grant sha clock) = wh"
  "rt_calls (durable_runtime h ch wh jsonb rd policies current grant sha clock) = postgres_calls h jsonb rd"
  by (simp_all add: durable_runtime_def)

lemma api_call_status_effect:
  "snd (api_call_status (durable_runtime h ch wh jsonb rd policies current grant sha clock) hs u db) = db"
proof -
  have "snd (api_call_status (durable_runtime h ch wh jsonb rd policies current grant sha clock) hs u db) \<in> {db}"
    unfolding api_call_status_def durable_runtime_simps
    by (intro checked_input checked_then after_get) (simp_all add: retE_def)
  then show ?thesis by simp
qed

lemma api_reconcile_effect:
  "snd (api_reconcile (durable_runtime h ch wh jsonb rd policies current grant sha clock) hs u body db)
     \<in> insert db {snd (pg_mutate_operation h jsonb rd t u ActReconcile a key ver rs None db) | t a key ver rs. True}"
  unfolding api_reconcile_def durable_runtime_simps
  by (intro checked_input checked_then after_get) (use calling_reconcile_effect in \<open>fastforce simp: answered raiseE_def\<close>)+

lemma api_hangup_effect:
  "snd (api_hangup h ch policies (durable_runtime h ch wh jsonb rd policies current grant sha clock) hs u body db)
     \<in> insert db {snd (pg_submit h jsonb rd c CLIENT_ID TEMPORAL_COMMAND_DESTINATION None None db) | c p key ver rs.
         hangup_command h ch policies (postgres_calls h jsonb rd) p u key ver rs db = (Inr c, db)}"
  unfolding api_hangup_def durable_runtime_simps
  by (intro checked_input checked_then after_get) (use calling_hangup_effect in \<open>fastforce simp: answered raiseE_def\<close>)+

end
