(* ===== verification/Calling_Properties.thy ===== *)
theory Calling_Properties
  imports Calling_Guarantees
begin

text \<open>
  The properties of the calling ledger, over a concrete deployment in which an agent cancels one
  call and places another, and in which an accepted call is hung up.
\<close>

subsection \<open>A concrete deployment\<close>

definition sample_agent :: call_principal where
  "sample_agent = \<lparr>pl_tenant_id = ''TEST_SYN'', pl_subject = ''agent-1'', pl_employee_id = ''emp-1'', pl_campaign_id = ''TEST_SYN'',
     pl_business_unit = ''bu-1'', pl_extension = ''6901''\<rparr>"

definition sample_body :: "string \<Rightarrow> originate_request" where
  "sample_body key = \<lparr>og_employee_id = ''emp-1'', og_campaign = ''TEST_SYN'', og_business_unit = ''bu-1'', og_destination = ''internal:TEST_ECHO'',
     og_destination_class = ''internal_test'', og_destination_country = ''US'', og_destination_timezone = ''UTC'', og_caller_id = ''+15550000000'',
     og_lead_id = 7, og_recording_requested = False, og_idempotency_key = key\<rparr>"

definition sample_grant :: "string \<Rightarrow> calling_grant" where
  "sample_grant ref = \<lparr>cg_authorization_reference = ref, cg_principal = sample_agent, cg_destination = ''internal:TEST_ECHO'',
     cg_caller_id = ''+15550000000'', cg_lead_id = 7, cg_not_before = 0, cg_expires_at = 1000, cg_source_sha = replicate 40 CHR ''0'',
     cg_internal_only = True, cg_external_dialing = False, cg_max_calls = 1\<rparr>"

definition sample_site :: calling_site where
  "sample_site = \<lparr>si_host = \<lparr>sha256 = (\<lambda>_. ''digest''), contract_ok = (\<lambda>_. True)\<rparr>,
     si_calling = \<lparr>ch_uuid5 = (\<lambda>_ s. of_nat (length s)), ch_iso = int_str, ch_zone = (\<lambda>_. True)\<rparr>, si_jsonb = id,
     si_policies = make_registry [\<lparr>cp_prefix = INTERNAL_PREFIX, cp_target = TARGET, cp_capability = CAPABILITY,
       cp_readback_required = True\<rparr>] [(CAPABILITY, False)],
     si_source_sha = replicate 40 CHR ''0''\<rparr>"

definition sample_call_envelope :: "string \<Rightarrow> string \<Rightarrow> command_envelope" where
  "sample_call_envelope key ref = originate_envelope (si_host sample_site) (si_calling sample_site) sample_agent (sample_body key)
     ''corr-0001'' (sample_grant ref)"

definition sample_read :: "nat \<Rightarrow> reading" where
  "sample_read i = \<lparr>rd_now = 100, rd_clock = 0, rd_outbox_id = i\<rparr>"

definition sample_originate :: "nat \<Rightarrow> string \<Rightarrow> string \<Rightarrow> command_db \<Rightarrow> command_db" where
  "sample_originate i key ref db = snd (postgres_originate (si_host sample_site) (si_calling sample_site) (si_jsonb sample_site)
     (sample_read i) 100 (si_policies sample_site) sample_agent (sample_body key) ''corr-0001'' (sample_grant ref) db)"

definition sample_submitted :: "nat \<Rightarrow> string \<Rightarrow> string \<Rightarrow> command_db \<Rightarrow> command_db" where
  "sample_submitted i key ref db = snd (pg_submit (si_host sample_site) (si_jsonb sample_site) (sample_read i)
     (sample_call_envelope key ref) CLIENT_ID TEMPORAL_COMMAND_DESTINATION None None db)"

definition sample_cancel :: "uuid \<Rightarrow> ledger_call" where
  "sample_cancel u = CallMutate ''TEST_SYN'' u ActCancel ''agent-1'' ''cancel-key'' 1 ''changed my mind'' None"

definition sample_cancelled_db :: command_db where
  "sample_cancelled_db = snd (postgres_call (si_host sample_site) (si_jsonb sample_site) (sample_read 1) (sample_cancel 52)
     (sample_submitted 1 ''key-0001'' ''grant-1'' empty_command_db))"

definition sample_calls_db :: command_db where
  "sample_calls_db = sample_submitted 2 ''key-00002'' ''grant-2'' sample_cancelled_db"

lemma sample_site_ok: "site_ok sample_site"
proof -
  have "capability_off (si_policies sample_site)" by code_simp
  then show ?thesis by (simp add: site_ok_def sample_site_def keeps_text_def keeps_paths_def)
qed

lemma sample_requests_valid:
  "valid_originate (si_calling sample_site) (sample_body ''key-0001'')" "valid_originate (si_calling sample_site) (sample_body ''key-00002'')"
  "valid_grant (sample_grant ''grant-1'')" "valid_grant (sample_grant ''grant-2'')"
  by code_simp+

lemma sample_authorized: "grant_authorize (sample_grant ref) sample_agent (sample_body key) (si_source_sha sample_site) 100 = Inr ()"
  by (simp add: grant_authorize_def sample_grant_def sample_agent_def sample_body_def sample_site_def assert_principal_def)

lemma sample_envelopes_valid:
  "valid_envelope (si_host sample_site) (sample_call_envelope ''key-0001'' ''grant-1'')"
  "valid_envelope (si_host sample_site) (sample_call_envelope ''key-00002'' ''grant-2'')"
proof -
  have fields: "command_type_pattern ORIGINATE" "kebab TARGET" "capability_pattern CAPABILITY" by code_simp+
  have lengths: "length ORIGINATE \<le> 180" "length TARGET \<le> 100" by code_simp+
  have "length (json_dumps (JObj (ce_payload (sample_call_envelope ''key-0001'' ''grant-1'')))) \<le> 700"
    "length (json_dumps (JObj (ce_payload (sample_call_envelope ''key-00002'' ''grant-2'')))) \<le> 700"
    by code_simp+
  then show "valid_envelope (si_host sample_site) (sample_call_envelope ''key-0001'' ''grant-1'')"
    "valid_envelope (si_host sample_site) (sample_call_envelope ''key-00002'' ''grant-2'')"
    using fields lengths
    by (simp_all add: valid_envelope_def sample_call_envelope_def originate_envelope_def sample_agent_def sample_body_def sample_site_def)
qed

lemma sample_envelopes_accepted:
  "calling_validate (si_policies sample_site) (sample_call_envelope key ref)
     = Inr \<lparr>cp_prefix = INTERNAL_PREFIX, cp_target = TARGET, cp_capability = CAPABILITY, cp_readback_required = True\<rparr>"
proof -
  have "startswith ORIGINATE INTERNAL_PREFIX" "kebab CLIENT_ID" "length CLIENT_ID \<le> 100" by code_simp+
  then show ?thesis
    by (simp add: calling_validate_def validate_submission_def authorize_def matching_policies_def scoped_policies_def make_registry_def
        sample_site_def sample_call_envelope_def originate_envelope_def dict_merge_def)
qed

lemma sample_originate_submits:
  assumes "valid_envelope (si_host sample_site) (sample_call_envelope key ref)" and "\<not> existing_command (sample_call_envelope key ref) db"
    and "\<not> consumed sample_agent (sample_grant ref) db"
    and "require_terminal (map (prior_operation (si_host sample_site) db) (candidate_rows sample_agent db)) = Inr ()"
  shows "sample_originate i key ref db = sample_submitted i key ref db"
proof -
  have "cg_source_sha (sample_grant ref) = si_source_sha sample_site" by (simp add: sample_grant_def sample_site_def)
  then have "postgres_reserve (si_host sample_site) (si_jsonb sample_site) (sample_read i) 100 sample_agent (sample_body key) (sample_grant ref)
      (sample_call_envelope key ref) db = submit_on_connection (si_host sample_site) (si_jsonb sample_site) (sample_read i)
      (sample_call_envelope key ref) CLIENT_ID None TEMPORAL_COMMAND_DESTINATION None None db"
    using assms(2-4) sample_authorized [of ref key]
    by (simp add: postgres_reserve_def Let_def bindE_def thenE_def getsE_def liftE_run)
  then show ?thesis unfolding sample_originate_def sample_submitted_def
    by (simp only: reserve_submits [OF sample_call_envelope_def assms(1) sample_envelopes_accepted])
qed

lemma sample_first_call: "sample_originate 1 ''key-0001'' ''grant-1'' empty_command_db = sample_submitted 1 ''key-0001'' ''grant-1'' empty_command_db"
  by (rule sample_originate_submits [OF sample_envelopes_valid(1)])
    (simp_all add: existing_command_def consumed_def candidate_rows_def originate_rows_def empty_command_db_def)

lemma sample_envelope_facts:
  "ce_tenant_id (sample_call_envelope key ref) = ''TEST_SYN''" "ce_command_type (sample_call_envelope key ref) = ORIGINATE"
  "ce_idempotency_key (sample_call_envelope key ref) = key"
  "ce_command_id (sample_call_envelope ''key-0001'' ''grant-1'') = 52" "ce_command_id (sample_call_envelope ''key-00002'' ''grant-2'') = 53"
  by (simp add: sample_call_envelope_def originate_envelope_def sample_agent_def sample_body_def | code_simp)+

lemma new_row_key:
  "co_idempotency_key (command_row_of h jsonb now c client) = ce_idempotency_key c"
  "co_resource_version (command_row_of h jsonb now c client) = 1"
  by (simp_all add: command_row_of_def command_operation.defs command_row.defs new_operation_def)

lemma sample_site_simps: "si_jsonb sample_site = id"
  by (simp add: sample_site_def)

lemmas call_evals = statement_evals store_evals sample_tenant sample_envelope_facts sample_site_simps new_row_columns(1-5) new_row_key sample_read_def sample_submitted_def
  new_row_def

lemma sample_db1: "\<exists>ae y. sample_submitted 1 ''key-0001'' ''grant-1'' empty_command_db
   = empty_command_db\<lparr>pg_commands := [command_row_of (si_host sample_site) id 100 (sample_call_envelope ''key-0001'' ''grant-1'') CLIENT_ID],
       pg_audit := [ae], pg_outbox := \<lparr>db_rows = [y], db_audit = no_audit\<rparr>\<rparr> \<and> oi_id y = 1 \<and> oi_idempotency_key y = ''key-0001'' \<and> oi_lease_owner y = None
     \<and> ev_new_state ae = Persisted"
  by (simp add: call_evals)

lemma sample_cancelled:
  "\<exists>r aes ms y. sample_cancelled_db = empty_command_db\<lparr>pg_commands := [r], pg_audit := aes, pg_mutations := ms,
       pg_outbox := \<lparr>db_rows = [y], db_audit = no_audit\<rparr>\<rparr>
     \<and> co_state r = Cancelled \<and> submitted_columns r
       = submitted_columns (command_row_of (si_host sample_site) id 0 (sample_call_envelope ''key-0001'' ''grant-1'') CLIENT_ID)
     \<and> oi_id y = 1 \<and> oi_idempotency_key y = ''key-0001''"
proof -
  obtain ae y where db1: "sample_submitted 1 ''key-0001'' ''grant-1'' empty_command_db
      = empty_command_db\<lparr>pg_commands := [command_row_of (si_host sample_site) id 100 (sample_call_envelope ''key-0001'' ''grant-1'') CLIENT_ID],
        pg_audit := [ae], pg_outbox := \<lparr>db_rows = [y], db_audit = no_audit\<rparr>\<rparr>"
    "oi_id y = 1" "oi_idempotency_key y = ''key-0001''" "oi_lease_owner y = None"
    using sample_db1 by blast
  have state: "co_state (cancelled_row now ns rs r) = ns" for now ns rs r by (simp add: cancelled_row_def)
  note columns = new_row_columns(6) [of "si_host sample_site" id 100]
  show ?thesis
    unfolding sample_cancelled_db_def sample_cancel_def postgres_call.simps db1(1)
    by (simp add: pg_mutate_operation_def pg_apply_action_def pg_cancel_def mutation_at_def command_leased_def cancel_rows_def sql_update_def
        db1 call_evals rows_keep_columns(3) state columns)
qed

lemma sample_calls:
  "\<exists>r1 r2. sample_originate 2 ''key-00002'' ''grant-2'' sample_cancelled_db = sample_calls_db \<and> pg_commands sample_calls_db = [r1, r2]
     \<and> co_state r1 = Cancelled \<and> submitted_columns r1
       = submitted_columns (command_row_of (si_host sample_site) id 0 (sample_call_envelope ''key-0001'' ''grant-1'') CLIENT_ID)
     \<and> r2 = command_row_of (si_host sample_site) id 100 (sample_call_envelope ''key-00002'' ''grant-2'') CLIENT_ID"
proof -
  obtain r aes ms y where db: "sample_cancelled_db = empty_command_db\<lparr>pg_commands := [r], pg_audit := aes, pg_mutations := ms,
       pg_outbox := \<lparr>db_rows = [y], db_audit = no_audit\<rparr>\<rparr>"
    and r: "co_state r = Cancelled"
      "submitted_columns r = submitted_columns (command_row_of (si_host sample_site) id 0 (sample_call_envelope ''key-0001'' ''grant-1'') CLIENT_ID)"
    and y: "oi_id y = 1" "oi_idempotency_key y = ''key-0001''"
    using sample_cancelled by blast
  have ids: "co_tenant_id r = ''TEST_SYN''" "co_command_id r = 52" "co_idempotency_key r = ''key-0001''"
    using submitted_columnsD(1,2,6) [OF r(2)]
    by (simp_all add: sample_envelope_facts new_row_key)
  have "auth_reference r = Some ''grant-1''"
    unfolding columns_same_text(2) [OF r(2)]
    by (subst authorized_texts(1) [of id _ "si_host sample_site" "si_calling sample_site" sample_agent "sample_body ''key-0001''" "''corr-0001''" "sample_grant ''grant-1''" CLIENT_ID])
      (simp_all add: keeps_paths_def new_row_columns(5) sample_call_envelope_def sample_grant_def)
  then have "\<not> consumed sample_agent (sample_grant ''grant-2'') sample_cancelled_db"
    by (simp add: consumed_def originate_rows_def db auth_reference_def sample_grant_def)
  moreover have "\<not> existing_command (sample_call_envelope ''key-00002'' ''grant-2'') sample_cancelled_db"
    by (simp add: existing_command_def db ids sample_envelope_facts)
  moreover have "candidate_rows sample_agent sample_cancelled_db = []"
    by (simp add: candidate_rows_def originate_rows_def db r(1))
  ultimately have "sample_originate 2 ''key-00002'' ''grant-2'' sample_cancelled_db = sample_calls_db"
    unfolding sample_calls_db_def by (intro sample_originate_submits [OF sample_envelopes_valid(2)]) simp_all
  moreover have "pg_commands sample_calls_db = [r, command_row_of (si_host sample_site) id 100 (sample_call_envelope ''key-00002'' ''grant-2'') CLIENT_ID]"
    by (simp add: sample_calls_db_def db call_evals ids y)
  ultimately show ?thesis using r by blast
qed

lemma sample_first_reach: "calling_reach sample_site (sample_submitted 1 ''key-0001'' ''grant-1'' empty_command_db, [])"
proof -
  have init: "calling_reach sample_site (empty_command_db, [])" by (rule reach_init) (simp add: calling_init_def)
  have "calling_step sample_site (empty_command_db, []) (sample_submitted 1 ''key-0001'' ''grant-1'' empty_command_db, [])"
    unfolding sample_first_call [symmetric] sample_originate_def
    by (rule cal_originate [OF sample_requests_valid(1,3) sample_authorized])
  with init show ?thesis by (rule reach_step)
qed

lemma sample_calls_reach: "calling_reach sample_site (sample_calls_db, [])"
proof -
  have cancel: "calling_step sample_site (sample_submitted 1 ''key-0001'' ''grant-1'' empty_command_db, []) (sample_cancelled_db, [])"
    unfolding sample_cancelled_db_def by (rule cal_call) (simp_all add: sample_cancel_def on_command_def)
  have second: "calling_step sample_site (sample_cancelled_db, []) (sample_calls_db, [])"
  proof -
    have "sample_calls_db = sample_originate 2 ''key-00002'' ''grant-2'' sample_cancelled_db" using sample_calls by metis
    then show ?thesis unfolding sample_originate_def
      using cal_originate [OF sample_requests_valid(2,4) sample_authorized] by metis
  qed
  have "calling_reach sample_site (sample_cancelled_db, [])" using sample_first_reach cancel by (rule reach_step)
  then show ?thesis using second by (rule reach_step)
qed

definition sample_transition :: "command_state \<Rightarrow> string option \<Rightarrow> ledger_call" where
  "sample_transition ns provider = CallTransition ''TEST_SYN'' 52 ns ''worker-1'' ''step'' provider None None"

definition sample_live_db :: command_db where
  "sample_live_db = fold (\<lambda>x db. snd (postgres_call (si_host sample_site) (si_jsonb sample_site) (sample_read 1) x db))
     [sample_transition Queued None, sample_transition Dispatching None, sample_transition Accepted (Some ''ast-1'')]
     (sample_submitted 1 ''key-0001'' ''grant-1'' empty_command_db)"

definition sample_hangup :: command_envelope where
  "sample_hangup = hangup_envelope (si_calling sample_site) sample_agent 52 ''key-000003'' ''done talking''
     (sample_call_envelope ''key-0001'' ''grant-1'') ''ast-1'' (JObj (principal_payload sample_agent))
     (JObj (originate_payload (sample_body ''key-0001''))) (JStr ''grant-1'') (JStr ''digest'')"

definition sample_hungup_db :: command_db where
  "sample_hungup_db = snd (pg_submit (si_host sample_site) (si_jsonb sample_site) (sample_read 2) sample_hangup CLIENT_ID
     TEMPORAL_COMMAND_DESTINATION None None sample_live_db)"

lemma transition_row_simps:
  "co_state (transition_row now ns p rs r) = ns"
  "co_provider_operation_id (transition_row now ns p rs r) = coalesce p (co_provider_operation_id r)"
  "co_resource_version (transition_row now ns p rs r) = co_resource_version r"
  "co_tenant_id (transition_row now ns p rs r) = co_tenant_id r" "co_command_id (transition_row now ns p rs r) = co_command_id r"
  "co_idempotency_key (transition_row now ns p rs r) = co_idempotency_key r"
  by (simp_all add: transition_row_def)

lemma sample_live:
  "\<exists>r aes att y. sample_live_db = empty_command_db\<lparr>pg_commands := [r], pg_audit := aes, pg_attempts := [att],
       pg_outbox := \<lparr>db_rows = [y], db_audit = no_audit\<rparr>\<rparr>
     \<and> co_state r = Accepted \<and> co_provider_operation_id r = Some ''ast-1'' \<and> co_resource_version r = 1
     \<and> submitted_columns r
       = submitted_columns (command_row_of (si_host sample_site) id 0 (sample_call_envelope ''key-0001'' ''grant-1'') CLIENT_ID)
     \<and> persisted_evidence ''TEST_SYN'' 52 (\<lambda>e. ev_new_state e \<in> set [Completed, ReconciliationRequired]
           \<and> map_of (ev_safe_metadata e) ''readback_evidence_sha256'' \<noteq> None) sample_live_db = (None, None)
     \<and> oi_id y = 1 \<and> oi_idempotency_key y = ''key-0001''"
proof -
  obtain ae y where db1: "sample_submitted 1 ''key-0001'' ''grant-1'' empty_command_db
      = empty_command_db\<lparr>pg_commands := [command_row_of (si_host sample_site) id 100 (sample_call_envelope ''key-0001'' ''grant-1'') CLIENT_ID],
        pg_audit := [ae], pg_outbox := \<lparr>db_rows = [y], db_audit = no_audit\<rparr>\<rparr>"
    "oi_id y = 1" "oi_idempotency_key y = ''key-0001''" "ev_new_state ae = Persisted"
    using sample_db1 by blast
  note columns = new_row_columns(6) [of "si_host sample_site" _ 100]
  show ?thesis
    unfolding sample_live_db_def sample_transition_def fold_simps id_apply comp_apply db1(1)
    by (simp add: pg_transition_def pg_transition_body_def transition_attempt_def db1 statement_evals row_operation_def verify_readback_evidence_digest_def sample_tenant sample_envelope_facts
        sample_site_simps new_row_columns(1-5) new_row_key sample_read_def empty_command_db_def rows_keep_columns(1) transition_row_simps columns)
qed


lemma sample_hangup_facts:
  "ce_tenant_id sample_hangup = ''TEST_SYN''" "ce_command_id sample_hangup = 54" "ce_idempotency_key sample_hangup = ''key-000003''"
  "ce_command_type sample_hangup = HANGUP"
  by (simp add: sample_hangup_def hangup_envelope_def sample_agent_def | code_simp)+

lemma sample_hangup_valid: "valid_envelope (si_host sample_site) sample_hangup"
proof -
  have fields: "command_type_pattern HANGUP" "kebab TARGET" "capability_pattern CAPABILITY" "length HANGUP \<le> 180" "length TARGET \<le> 100"
    by code_simp+
  have "length (json_dumps (JObj (ce_payload sample_hangup))) \<le> 800" by code_simp
  then show ?thesis using fields
    by (simp add: valid_envelope_def sample_hangup_def hangup_envelope_def sample_call_envelope_def originate_envelope_def sample_agent_def sample_site_def)
qed

lemma sample_hangup_accepted:
  "calling_validate (si_policies sample_site) sample_hangup
     = Inr \<lparr>cp_prefix = INTERNAL_PREFIX, cp_target = TARGET, cp_capability = CAPABILITY, cp_readback_required = True\<rparr>"
proof -
  have "startswith HANGUP INTERNAL_PREFIX" "kebab CLIENT_ID" "length CLIENT_ID \<le> 100" by code_simp+
  then show ?thesis
    by (simp add: calling_validate_def validate_submission_def authorize_def matching_policies_def scoped_policies_def make_registry_def
        sample_site_def sample_hangup_def hangup_envelope_def dict_merge_def)
qed

lemma sample_owner: "owner (sample_call_envelope ''key-0001'' ''grant-1'') sample_agent = Inr ()"
  by code_simp

lemma sample_hangup_checked:
  "hangup_command (si_host sample_site) (si_calling sample_site) (si_policies sample_site)
     (postgres_calls (si_host sample_site) (si_jsonb sample_site) (sample_read 2)) sample_agent 52 ''key-000003'' 1 ''done talking'' sample_live_db
   = (Inr sample_hangup, sample_live_db)"
proof -
  let ?c = "sample_call_envelope ''key-0001'' ''grant-1''"
  obtain r where at: "command_at ''TEST_SYN'' 52 sample_live_db = Some r" "command_at ''TEST_SYN'' 54 sample_live_db = None"
    and r: "co_state r = Accepted" "co_provider_operation_id r = Some ''ast-1''" "co_resource_version r = 1"
      "submitted_columns r = submitted_columns (command_row_of (si_host sample_site) id 0 ?c CLIENT_ID)"
    and ev: "persisted_evidence ''TEST_SYN'' 52 (\<lambda>e. ev_new_state e \<in> set [Completed, ReconciliationRequired]
           \<and> map_of (ev_safe_metadata e) ''readback_evidence_sha256'' \<noteq> None) sample_live_db = (None, None)"
  proof -
    obtain r aes att y where db: "sample_live_db = empty_command_db\<lparr>pg_commands := [r], pg_audit := aes, pg_attempts := [att],
       pg_outbox := \<lparr>db_rows = [y], db_audit = no_audit\<rparr>\<rparr>"
      and rest: "co_state r = Accepted" "co_provider_operation_id r = Some ''ast-1''" "co_resource_version r = 1"
        "submitted_columns r = submitted_columns (command_row_of (si_host sample_site) id 0 ?c CLIENT_ID)"
        "persisted_evidence ''TEST_SYN'' 52 (\<lambda>e. ev_new_state e \<in> set [Completed, ReconciliationRequired]
           \<and> map_of (ev_safe_metadata e) ''readback_evidence_sha256'' \<noteq> None) sample_live_db = (None, None)"
      using sample_live by blast
    have "co_tenant_id r = ''TEST_SYN''" "co_command_id r = 52"
      using submitted_columnsD(1,2) [OF rest(4)] by (simp_all add: sample_envelope_facts)
    then show ?thesis using that rest by (simp add: db command_at_def is_command_def)
  qed
  let ?op = "(command_operation.truncate r)\<lparr>co_readback_evidence := None, co_readback_evidence_sha256 := None, co_duplicate := False\<rparr>"
  have payload: "cr_payload r = authenticated_command_payload ?c CLIENT_ID" "cr_payload_sha256 r = authenticated_command_digest (si_host sample_site) ?c CLIENT_ID"
    using submitted_columnsD(7,8) [OF r(4)] by (simp_all add: new_row_columns)
  have "map_of (authenticated_command_payload ?c CLIENT_ID) AUTHENTICATED_CLIENT_ID_KEY = Some (JStr CLIENT_ID)"
    by (simp add: authenticated_command_payload_def update_conv)
  then have doc: "decode_document (si_host sample_site) r = Inr ?c"
    unfolding decode_document_def payload command_envelope_roundtrip [OF sample_envelopes_valid(1)] by simp
  have tenant: "pl_tenant_id sample_agent = ''TEST_SYN''" by (simp add: sample_agent_def)
  have get: "calling_get (postgres_calls (si_host sample_site) (si_jsonb sample_site) (sample_read 2)) sample_agent 52 sample_live_db
      = (Inr (?c, ?op), sample_live_db)"
    using ev by (simp add: calling_get_def Let_def postgres_calls_def postgres_document_def pg_get_def bindE_def thenE_def reading_transaction liftE_run retE_def
        tenant sample_tenant at doc row_operation_def verify_readback_evidence_digest_def sample_envelope_facts sample_owner)
  have op: "co_provider_operation_id ?op = Some ''ast-1''" "co_state ?op = Accepted" "co_resource_version ?op = 1"
    using r(1-3) by (simp_all add: command_operation.defs)
  have missing: "cl_get (postgres_calls (si_host sample_site) (si_jsonb sample_site) (sample_read 2)) ''TEST_SYN'' 54 sample_live_db
      = (Inl not_found, sample_live_db)"
    by (simp add: postgres_calls_def pg_get_def bindE_def reading_transaction sample_tenant at(2) reraiseE_def split: prod.split)
  have envelope: "hangup_envelope (si_calling sample_site) sample_agent 52 ''key-000003'' ''done talking'' ?c ''ast-1'' (JObj (principal_payload sample_agent))
     (JObj (originate_payload (sample_body ''key-0001''))) (JStr ''grant-1'') (JStr ''digest'') = sample_hangup"
    by (simp add: sample_hangup_def)
  have members: "subscript (ce_payload ?c) ''actor'' = Inr (JObj (principal_payload sample_agent))"
    "subscript (ce_payload ?c) ''originate'' = Inr (JObj (originate_payload (sample_body ''key-0001'')))"
    "subscript (ce_payload ?c) ''authorization_reference'' = Inr (JStr ''grant-1'')" "subscript (ce_payload ?c) ''policy_sha256'' = Inr (JStr ''digest'')"
    by (simp_all add: subscript_def sample_call_envelope_def originate_envelope_def sample_grant_def grant_digest_def sample_site_def)
  show ?thesis
    unfolding hangup_command_def bindE_def get
    by (simp add: Let_def members bindE_def thenE_def liftE_run op(1) truthy_def sample_envelope_facts envelope make_envelope_def sample_hangup_valid
        sample_hangup_accepted catchE_def sample_hangup_facts tenant missing not_found_def terminal_def op retE_def)
qed

lemma sample_hungup_row: "command_row_of (si_host sample_site) id 100 sample_hangup CLIENT_ID \<in> set (pg_commands sample_hungup_db)"
proof -
  obtain r aes att y where db: "sample_live_db = empty_command_db\<lparr>pg_commands := [r], pg_audit := aes, pg_attempts := [att],
       pg_outbox := \<lparr>db_rows = [y], db_audit = no_audit\<rparr>\<rparr>"
    and cols: "submitted_columns r = submitted_columns (command_row_of (si_host sample_site) id 0 (sample_call_envelope ''key-0001'' ''grant-1'') CLIENT_ID)"
    and y: "oi_id y = 1" "oi_idempotency_key y = ''key-0001''"
    using sample_live by blast
  have "co_tenant_id r = ''TEST_SYN''" "co_command_id r = 52" "co_idempotency_key r = ''key-0001''"
    using submitted_columnsD(1,2,6) [OF cols] by (simp_all add: sample_envelope_facts new_row_key)
  then show ?thesis by (simp add: sample_hungup_db_def db call_evals sample_hangup_facts y)
qed

lemma sample_hungup_reach: "calling_reach sample_site (sample_hungup_db, [sample_hangup])"
proof -
  let ?call = "\<lambda>x db. snd (postgres_call (si_host sample_site) (si_jsonb sample_site) (sample_read 1) x db)"
  have move: "calling_reach sample_site (?call (sample_transition ns p) db, [])" if "calling_reach sample_site (db, [])" "p \<noteq> Some []" for ns p db
    using that(1) by (rule reach_step) (rule cal_call, use that(2) in \<open>simp_all add: sample_transition_def on_command_def\<close>)
  have "calling_reach sample_site (sample_submitted 1 ''key-0001'' ''grant-1'' empty_command_db, [])"
    by (rule sample_first_reach)
  then have "calling_reach sample_site (sample_live_db, [])"
    unfolding sample_live_db_def fold_simps id_apply comp_apply by (intro move) simp_all
  then have "calling_reach sample_site (sample_live_db, [sample_hangup])"
    by (rule reach_step) (rule cal_hangup [OF sample_hangup_checked])
  then show ?thesis by (rule reach_step) (unfold sample_hungup_db_def, rule cal_hangup_sent, simp)
qed

definition sample_tokens :: webhook_host where
  "sample_tokens = \<lparr>wh_host = si_host sample_site, wh_hmac = (\<lambda>_ _. []), wh_loads = (\<lambda>_. None),
     wh_jwt_decode = (\<lambda>_. Inl (Exc ValueError ''no token'')), wh_float = (\<lambda>_. None), wh_parse_float = (\<lambda>_. None),
     wh_fromisoformat = (\<lambda>_. None), wh_datetime = (\<lambda>_. None), wh_event_contract = (\<lambda>_. True)\<rparr>"

definition sample_runtime :: "command_db call_runtime" where
  "sample_runtime = durable_runtime (si_host sample_site) (si_calling sample_site) sample_tokens (si_jsonb sample_site) (sample_read 2)
     (si_policies sample_site) 100 (Inr (Some (sample_grant ''grant-2''))) (si_source_sha sample_site) 100"

subsection \<open>Properties\<close>





text \<open>
  C24. Only the one who called can hang up: every hangup command the deployment ever stores belongs
  to an originate command of the same tenant, the same requester and the same correlation, names
  its operation, and carries its authorization reference, whatever other requests and workers
  commit between the checks of the hangup and its submission.
\<close>

theorem hangups_end_own_calls:
  assumes "calling_reach D (db, pend)" and "site_ok D" and "r \<in> set (pg_commands db)" and "co_command_type r = HANGUP"
  shows "\<exists>r0 \<in> set (pg_commands db). co_command_type r0 = ORIGINATE \<and> co_tenant_id r0 = co_tenant_id r
    \<and> co_requested_by r0 = co_requested_by r \<and> co_correlation_id r0 = co_correlation_id r
    \<and> row_text r [''origin_operation_id''] = Some (uuid_str (co_command_id r0)) \<and> auth_reference r = auth_reference r0"
  using cal.reach_inv [OF assms(1)] assms(2-) by (simp add: calling_inv_def rows_ok_def bound_hangup_def ends_call_def)

theorem hangups_end_own_calls_witness:
  "\<exists>r r0. r \<in> set (pg_commands sample_hungup_db) \<and> r0 \<in> set (pg_commands sample_hungup_db) \<and> co_command_type r = HANGUP
     \<and> co_command_type r0 = ORIGINATE \<and> row_text r [''origin_operation_id''] = Some (uuid_str (co_command_id r0))"
proof -
  have "co_command_type (command_row_of (si_host sample_site) id 100 sample_hangup CLIENT_ID) = HANGUP"
    by (simp add: new_row_columns sample_hangup_facts)
  from hangups_end_own_calls [OF sample_hungup_reach sample_site_ok sample_hungup_row this] sample_hungup_row this
  show ?thesis by blast
qed



end
