(* ===== verification/Spec2Isabelle.thy ===== *)
theory Spec2Isabelle
  imports Ledger_Guarantees Dispatch_System Memory_Guarantees Worker_Guarantees Inbox_Equivalence Webhook_Guarantees
    Postgres_Guarantees Worker_Liveness Saga_Guarantees Calling_Properties
begin

text \<open>
  Verification of the command platform of the Codestra middleware.

  \<^bold>\<open>The program.\<close> Clients submit commands (\<open>CommandEnvelope\<close>) to the command kernel. The kernel
  authenticates the caller, asks the command policy and the safety gate, and files the command
  in the durable ledger together with an outbox row, in one transaction. A bus worker claims
  the row, re-evaluates safety, opens an attempt in the ledger, calls the adapter that owns the
  command's prefix, and finishes the command only after a read-back of the provider that
  matches. An attempt whose outcome is unknown is parked: its row is quarantined and the
  reconciler, not the bus, reads the provider back and decides. Producers deliver events as
  signed webhooks; an accepted event is filed in the inbox and in a hash-chained ledger, with
  an outbox row that publishes it. Campaign commands of Odoo arrive as such events; a saga per
  event observes the campaign and reports its actual state back to Odoo. Agents place internal
  calls through endpoints of their own, which file them in the same ledger: a call needs a
  grant for one call, and an agent has at most one call that is not over.

  \<^bold>\<open>The theories\<close>, each with the sources it models:

  \<^item> \<open>Py_Prelude\<close>: Python values and programs. A handler is a function from a state to an
    exception or a result and the new state (\<open>('s, 'a) prog\<close>, with \<open>bindE\<close>, \<open>raiseE\<close>,
    \<open>catchE\<close>); \<open>hoare\<close>, \<open>keeps\<close> and \<open>succeeds\<close> are the calculi the later proofs use. Exceptions are
    the datatype \<open>exc\<close>; dictionaries are association lists in insertion order.
  \<^item> \<open>Machines\<close>: reachability and runs of a step relation, and two locales: an invariant by
    induction over reachable states, a reflexive and transitive relation along runs.
  \<^item> \<open>Json_Value\<close>: JSON values, canonical printing, redaction (\<open>redact_metadata\<close> of
    \<open>src/app/commands.py\<close>).
  \<^item> \<open>Command_Model\<close>, \<open>Command_Store\<close>: \<open>src/app/commands.py\<close>: states and transition table,
    envelopes, digests, policy registry, and \<open>MemoryCommandStore\<close> with every operation.
    \<open>Ledger_Invariants\<close> and \<open>Ledger_Guarantees\<close> hold the step relation of the ledger (every
    operation, plus changes of outbox bookkeeping), its invariants and the theorems on
    timelines, idempotency, tenants and operator mutations.
  \<^item> \<open>Postgres_Store\<close>: \<open>PostgresCommandStore\<close> of \<open>src/app/commands.py\<close>, every operation a
    transaction on the command, attempt, audit, mutation, dead-letter, replay and outbox tables,
    with the tenant context of \<open>src/app/db/tenant_context.py\<close>. \<open>Postgres_Equivalence\<close> relates its
    tables to the state of \<open>MemoryCommandStore\<close> and shows, operation by operation, that the
    relation is kept and the answers agree; \<open>Postgres_Guarantees\<close> concludes that both stores
    answer alike on every sequence of comparable calls (the calls whose documented behaviour
    differs between the stores are excluded by \<open>comparable\<close>, and \<open>keeps_text\<close> says that a \<open>jsonb\<close>
    column keeps the canonical text of the documents stored), that the timelines of the durable
    store are sound, and when reading an operation breaks. \<open>Postgres_Frames\<close> says what each call
    leaves alone: the submitted columns of every row, and every row of another command.
  \<^item> \<open>Resilience\<close>: \<open>src/app/platform/resilience.py\<close>: retry policies, circuit breaker, bulkhead.
  \<^item> \<open>Policy_Engine\<close>: \<open>src/app/core/policy_engine.py\<close>: the channel and the command policy.
  \<^item> \<open>Safety_Gate\<close>: \<open>src/app/platform/safety.py\<close>: kill switches, capability gates, saturation,
    the token bucket.
  \<^item> \<open>Adapter_Contract\<close>: \<open>src/app/platform/adapter.py\<close> and the fixture provider of
    \<open>src/app/platform/adapters/fixtures.py\<close>. An adapter is a record of operations on the state
    of its provider. \<open>Adapter_Registry\<close>: \<open>src/app/platform/registry.py\<close>.
  \<^item> \<open>Kernel_Principal\<close>: \<open>src/app/control_plane_auth.py\<close> and \<open>src/app/platform/principal.py\<close>.
    The token verifier is third-party code and an argument.
  \<^item> \<open>Command_Kernel\<close>: \<open>src/app/platform/kernel.py\<close>.
  \<^item> \<open>Execution_Bus\<close>: \<open>AdapterDispatch\<close> of \<open>src/app/platform/bus.py\<close>. What other tasks do to the
    ledger during a provider call is the function \<open>be_others\<close>; the theorems allow any sequence of
    ledger steps there. \<open>Dispatch_Guarantees\<close> shows that a dispatch executes at most once,
    \<open>Dispatch_Signals\<close> that its signals are true, \<open>Dispatch_System\<close> composes dispatches and
    ledger steps into one machine.
  \<^item> \<open>Memory_Bus\<close>: \<open>src/app/platform/memory.py\<close>; \<open>Reconciler\<close>: \<open>src/app/platform/reconciler.py\<close>.
    \<open>Reconciler_Guarantees\<close> states the contract of a reconciliation source as a locale and
    proves the reconciler against it; \<open>Memory_Guarantees\<close> has termination of draining and the
    agreement of rows with the ledger.
  \<^item> \<open>Outbox_Tables\<close> and \<open>Outbox_Store\<close>: \<open>PostgresOutboxStore\<close> of \<open>src/app/storage.py\<close>. A table is a
    list of rows, a statement a function on it, a method one transaction; rows that other
    transactions hold locked are an argument. \<open>Durable_Source\<close>:
    \<open>src/app/platform/persistence.py\<close>, and the proof that its reconciliation source keeps the
    contract of the reconciler. \<open>Outbox_Guarantees\<close> has the machine of all transactions on the
    table, its invariant and the fencing of lost leases.
  \<^item> \<open>Outbox_Worker\<close>: \<open>src/app/worker.py\<close>. What other processes do to the table between two
    transactions of the worker is the function \<open>others\<close>. \<open>Worker_Guarantees\<close> shows that its runs
    are runs of an abstract machine of dispatches, that no claim is dispatched twice, and what
    a run leaves behind. \<open>run_forever\<close> is any finite prefix of the endless loop;
    \<open>Worker_Liveness\<close> shows that it delivers: under handlers that return and leases that hold, a
    due row is completed after as many turns as there are unfinished rows up to it.
  \<^item> \<open>Json_Text\<close> and \<open>Event_Ledger\<close>: canonical texts can be read back, and the hash-chained event
    ledger with its verifier (\<open>src/app/storage.py\<close>, \<open>src/app/models.py\<close>). \<open>Event_Inbox\<close>: the in-memory
    and the PostgreSQL inbox; \<open>Inbox_Guarantees\<close>: every ledger they write verifies;
    \<open>Inbox_Equivalence\<close>: they answer alike. The \<open>jsonb\<close> column is a parameter.
  \<^item> \<open>Webhook_Ingress\<close>: \<open>src/app/security.py\<close>, \<open>src/app/replay.py\<close>, \<open>src/app/service.py\<close>,
    \<open>src/app/webhook_api.py\<close>: a delivery from its bearer token to the inbox. The JWT decoder,
    HMAC, number and timestamp parsing are arguments. \<open>Webhook_Guarantees\<close>: only authentic
    deliveries are accepted, and redelivery changes nothing.
  \<^item> \<open>Campaign_Saga\<close>: \<open>src/app/odoo_campaign_saga.py\<close>,
    \<open>src/app/adapters/odoo/campaign_control.py\<close> and
    \<open>src/app/entrypoints/odoo_campaign_saga_worker.py\<close>: enrollment, claims, lease recovery, dispatch and
    the cycle of the worker. Odoo, pydantic's integer coercion and \<open>str\<close> of a JSON value are
    arguments. \<open>Saga_Guarantees\<close>: the machine of all commits, its invariant, the refinement of a
    dispatch by it, the inertness of superseded claims, stale commands, and an event that
    blocks the worker.
  \<^item> \<open>Calling_Contract\<close>: \<open>src/app/calling_contract.py\<close>: requests, principals, single-call grants, the
    policy file, lifecycle evidence. \<open>uuid5\<close>, the text of timestamps, the time-zone database and the
    file system are arguments. \<open>Calling_Ledger\<close>: \<open>CallingLedger\<close> of \<open>src/app/calling_ledger.py\<close>; the
    two command stores are two values of the record \<open>call_store\<close>, \<open>originate\<close> has a body for each.
    \<open>Calling_Api\<close>: \<open>src/app/telephony_api.py\<close> and the header checks of \<open>src/app/api_inputs.py\<close>; the
    token verifier is the one of \<open>Webhook_Ingress\<close>. \<open>Calling_Reads\<close>: what the reads of the facade
    promise on either store. \<open>Calling_Guarantees\<close>: the machine of reservations, hangups (their
    checks and their submission are two steps, with a list of pending hangups between) and
    every other call to the durable store, and its invariant; it assumes of the site (\<open>site_ok\<close>)
    that \<open>jsonb\<close> keeps the texts the queries read (\<open>keeps_paths\<close>) and that the generic routes have the
    calling capability off (\<open>capability_off\<close>). \<open>Calling_Properties\<close>: calls are exclusive and internal,
    hangups end the caller's own calls, and the endpoints implement the machine.

  \<^bold>\<open>Interfaces.\<close> The locale \<open>machine_invariant\<close> is interpreted by the ledger (\<open>ldg\<close>, \<open>obx\<close>), the
  breaker, the bulkhead, the registry, the dispatch system, the outbox table (\<open>tab\<close>) and the
  machine of dispatches (\<open>dsp\<close>), the durable ledger (\<open>pgl\<close>), the sagas (\<open>sgm\<close>) and the calls (\<open>cal\<close>); \<open>machine_monotone\<close> by
  histories, mutations, owners, kill switches, the rows of the outbox (\<open>trows\<close>) and arrivals (\<open>arr\<close>); \<open>bus_stable\<close>, \<open>bus_stable_log\<close> and \<open>ledger_stable\<close> give
  every program of the bus a preservation lemma for each property they are interpreted with;
  \<open>reconciliation_source\<close> is interpreted by the in-memory source and by the durable one (\<open>pg\<close>);
  \<open>event_ledger_writer\<close> by both inboxes (\<open>min\<close>, \<open>pin\<close>); \<open>replay_protected\<close> by the in-memory guard over
  any inbox (\<open>ing\<close>); \<open>call_reads\<close> by the calling facade over the in-memory store (\<open>mcalls\<close>) and over the
  durable one (\<open>pcalls\<close>).

  \<^bold>\<open>Conventions.\<close> Clock readings are arguments (monotonic clocks as rationals, wall clocks as
  integers), so a theorem holds for every reading. SHA-256 is a function of the host record
  and no collision-freeness is assumed unless a hypothesis says so. The loops are over
  lists or bounded by a limit the code has (\<open>drain\<close>), so no fuel is needed; the two endless loops
  (\<open>run_forever\<close> and the cycles of the saga worker) are studied turn by turn.

  \<^bold>\<open>Not modelled.\<close> The HTTP routes other than those of webhooks and calls, which parse requests
  and map exceptions to status codes;
  the concrete provider adapters and the HTTP transport to Odoo, whose behaviour is the remote
  service's; metrics and logging; configuration loading; the Temporal workflows, which run
  inside an external orchestrator; and the business services around the platform (sales, social,
  email, callbacks, provisioning, observability), each a body of code of its own beside the
  command platform.
\<close>

end
